(* ===== verification/Prelude.thy ===== *)
theory Prelude
  imports Main "HOL-Library.Multiset" "HOL-Library.List_Lexorder" "HOL-Library.Product_Lexorder" "HOL-Library.Char_ord"
begin

text \<open>
  The vocabulary every component shares: Python values (\<open>str\<close>, \<open>bytes\<close>, \<open>int\<close>), exceptions as
  values of a sum type, the list idioms of the code (\<open>min\<close> with a key, negative slices, membership
  tests on iteration order) and the lemmas about them.

  A Python \<open>str\<close> is a \<open>string\<close>: a list of characters, one per code point, restricted to the code
  points below 256. A \<open>bytes\<close> object is a \<open>string\<close> too, one character per byte. Both compare
  lexicographically, as in Python (\<open>List_Lexorder\<close> over \<open>Char_ord\<close>), and tuples compare component
  by component (\<open>Product_Lexorder\<close>). An \<open>int\<close> is an \<open>int\<close>, without bounds.
\<close>

named_theorems res_simps \<open>inversion of the result monad\<close>
named_theorems map_simps \<open>lookup, size and iteration of the finite maps\<close>
named_theorems inv_intros \<open>introduction of invariants\<close>

type_synonym pystr = string
type_synonym pybytes = string

section \<open>Exceptions as values\<close>

text \<open>
  The exception classes the modelled code raises, with the code or message they carry.
  \<open>HookFault\<close> is the \<open>RuntimeError\<close> a fault hook raises; a \<open>CoordinatorError\<close> is a \<open>RuntimeError\<close> too.
\<close>

datatype py_error =
    CoordinatorError string
  | CoordinatorConfigError string
  | ValueError string
  | AssertionError string
  | IndexError
  | StopIteration
  | HookFault
  | AgentRuntimeError string
  | CanonicalEvidenceExecutionError string
  | ContextViewInvariantError string
  | TimeoutError
  | RuntimeError string
  | ReplyContractError string
  | ProviderInvocationError string
  | ConnectionError
  | DocumentMcpError string
  | QaCorpusShapeError

type_synonym 'a result = "py_error + 'a"

text \<open>The classes that \<open>except ValueError\<close> and \<open>except RuntimeError\<close> catch.\<close>

fun is_value_error :: "py_error \<Rightarrow> bool" where
  "is_value_error (ValueError _) = True"
| "is_value_error (CoordinatorConfigError _) = True"
| "is_value_error (ContextViewInvariantError _) = True"
| "is_value_error _ = False"

fun is_runtime_error :: "py_error \<Rightarrow> bool" where
  "is_runtime_error (CoordinatorError _) = True"
| "is_runtime_error HookFault = True"
| "is_runtime_error (AgentRuntimeError _) = True"
| "is_runtime_error (CanonicalEvidenceExecutionError _) = True"
| "is_runtime_error (RuntimeError _) = True"
| "is_runtime_error (ReplyContractError _) = True"
| "is_runtime_error (ProviderInvocationError _) = True"
| "is_runtime_error (DocumentMcpError _) = True"
| "is_runtime_error _ = False"

definition res_bind :: "'e + 'a \<Rightarrow> ('a \<Rightarrow> 'e + 'b) \<Rightarrow> 'e + 'b" where
  "res_bind m f = (case m of Inl e \<Rightarrow> Inl e | Inr x \<Rightarrow> f x)"

definition raise_if :: "bool \<Rightarrow> 'e \<Rightarrow> 'e + unit" where
  "raise_if c e = (if c then Inl e else Inr ())"

fun map_res :: "('a \<Rightarrow> 'e + 'b) \<Rightarrow> 'a list \<Rightarrow> 'e + 'b list" where
  "map_res f [] = Inr []"
| "map_res f (x # xs) = res_bind (f x) (\<lambda>y. res_bind (map_res f xs) (\<lambda>ys. Inr (y # ys)))"

text \<open>A block of statements that may raise, each with no value: the first exception wins.\<close>

fun seq_res :: "('e + unit) list \<Rightarrow> 'e + unit" where
  "seq_res [] = Inr ()"
| "seq_res (m # ms) = (case m of Inl e \<Rightarrow> Inl e | Inr _ \<Rightarrow> seq_res ms)"

definition is_ok :: "'e + 'a \<Rightarrow> bool" where
  "is_ok r = (case r of Inl _ \<Rightarrow> False | Inr _ \<Rightarrow> True)"

lemma res_bind_simps [simp]:
  "res_bind (Inl e) f = Inl e"
  "res_bind (Inr x) f = f x"
  by (simp_all add: res_bind_def)

lemma res_bind_Inr_iff [res_simps]:
  "res_bind m f = Inr y \<longleftrightarrow> (\<exists>x. m = Inr x \<and> f x = Inr y)"
  by (cases m) auto

lemma res_bind_Inl_iff [res_simps]:
  "res_bind m f = Inl e \<longleftrightarrow> m = Inl e \<or> (\<exists>x. m = Inr x \<and> f x = Inl e)"
  by (cases m) auto

lemma raise_if_Inr [simp]: "raise_if c e = Inr u \<longleftrightarrow> \<not> c"
  by (cases u) (simp add: raise_if_def)

lemma raise_if_Inl [simp]: "raise_if c e = Inl e' \<longleftrightarrow> c \<and> e' = e"
  by (auto simp: raise_if_def)

lemma raise_if_bind [simp]:
  "res_bind (raise_if c e) f = (if c then Inl e else f ())"
  by (simp add: raise_if_def)

lemma seq_res_Inr: "seq_res ms = Inr u \<longleftrightarrow> (\<forall>m\<in>set ms. m = Inr ())"
  by (induction ms) (auto split: sum.splits)

declare seq_res.simps [simp del]

lemma seq_res_append:
  "seq_res (ms @ ns) = (case seq_res ms of Inl e \<Rightarrow> Inl e | Inr _ \<Rightarrow> seq_res ns)"
  by (induction ms) (auto simp: seq_res.simps split: sum.splits)

lemma is_ok_simps [simp]: "is_ok (Inr x)" "\<not> is_ok (Inl e)"
  by (simp_all add: is_ok_def)

lemma is_ok_iff: "is_ok r \<longleftrightarrow> (\<exists>x. r = Inr x)"
  by (cases r) auto

lemma map_res_Inr_list_all2:
  "map_res f xs = Inr ys \<longleftrightarrow> list_all2 (\<lambda>x y. f x = Inr y) xs ys"
  by (induction xs arbitrary: ys) (auto simp: res_simps list_all2_Cons1)

lemma map_res_length: "map_res f xs = Inr ys \<Longrightarrow> length ys = length xs"
  by (simp add: map_res_Inr_list_all2 list_all2_lengthD)

lemma map_res_mem:
  "map_res f xs = Inr ys \<Longrightarrow> y \<in> set ys \<Longrightarrow> \<exists>x\<in>set xs. f x = Inr y"
  by (induction xs arbitrary: ys) (auto simp: res_simps)

lemma map_res_image:
  "map_res f xs = Inr ys \<Longrightarrow> x \<in> set xs \<Longrightarrow> \<exists>y\<in>set ys. f x = Inr y"
  by (induction xs arbitrary: ys) (auto simp: res_simps)

lemma map_res_map:
  "map_res f xs = Inr ys \<Longrightarrow> (\<And>x y. f x = Inr y \<Longrightarrow> g y = h x) \<Longrightarrow> map g ys = map h xs"
  by (induction xs arbitrary: ys) (auto simp: res_simps)

section \<open>Python's list idioms\<close>

text \<open>\<open>xs[-n:]\<close>: the last \<open>n\<close> items; \<open>xs[-0:]\<close> is the whole list, as in Python.\<close>

definition py_last :: "int \<Rightarrow> 'a list \<Rightarrow> 'a list" where
  "py_last n xs =
     (if n \<le> 0 then drop (nat (- n)) xs else drop (length xs - nat n) xs)"

lemma length_py_last: "0 < n \<Longrightarrow> int (length (py_last n xs)) \<le> n"
  by (auto simp: py_last_def)

lemma py_last_short: "0 < n \<Longrightarrow> int (length xs) \<le> n \<Longrightarrow> py_last n xs = xs"
  by (auto simp: py_last_def)

lemma set_py_last: "set (py_last n xs) \<subseteq> set xs"
  by (auto simp: py_last_def dest: in_set_dropD)

lemma py_last_nonempty: "0 < n \<Longrightarrow> xs \<noteq> [] \<Longrightarrow> py_last n xs \<noteq> []"
  by (cases xs) (auto simp: py_last_def)

lemma py_last_idem: "0 < n \<Longrightarrow> py_last n (py_last n xs) = py_last n xs"
  by (intro py_last_short length_py_last)

lemma py_last_eq_append: "\<exists>ys. xs = ys @ py_last n xs"
  by (metis append_take_drop_id py_last_def)

text \<open>
  \<open>min(xs, key=f)\<close> returns the first item with the least key; \<open>arg_min_list\<close> is that function on a
  list that is not empty. \<open>next((x for x in xs if p(x)), None)\<close> is \<open>find\<close>.
\<close>

lemma arg_min_list_mem: "xs \<noteq> [] \<Longrightarrow> arg_min_list f xs \<in> set xs"
  by (rule arg_min_list_in)

lemma arg_min_list_le: "x \<in> set xs \<Longrightarrow> f (arg_min_list f xs) \<le> f x"
  by (metis f_arg_min_list_f List.finite_set Min_le empty_iff empty_set finite_imageI image_eqI)

lemma find_Some_mem: "find P xs = Some x \<Longrightarrow> x \<in> set xs \<and> P x"
  by (auto simp: find_Some_iff)

lemma find_map_key:
  assumes "\<And>x. x \<in> set xs \<Longrightarrow> k (f x) = k x"
  shows "find (\<lambda>x. k x = a) (map f xs) = map_option f (find (\<lambda>x. k x = a) xs)"
  using assms by (induction xs) auto

lemma sorted_key_list_unique:
  "sort_key f xs = sort_key f ys \<Longrightarrow> set xs = set ys"
  by (metis set_sort)

lemma set_map_filter: "set (List.map_filter f xs) = {y. \<exists>x\<in>set xs. f x = Some y}"
  by (induction xs) (auto split: option.splits)

section \<open>Decimal and hexadecimal numerals\<close>

definition digit_char :: "nat \<Rightarrow> char" where
  "digit_char d = char_of (48 + d)"

fun nat_str :: "nat \<Rightarrow> pystr" where
  "nat_str n = (if n < 10 then [digit_char n] else nat_str (n div 10) @ [digit_char (n mod 10)])"

declare nat_str.simps [simp del]

definition int_str :: "int \<Rightarrow> pystr" where
  "int_str i = (if i < 0 then CHR ''-'' # nat_str (nat (- i)) else nat_str (nat i))"

definition hex_digit :: "nat \<Rightarrow> char" where
  "hex_digit d = ''0123456789abcdef'' ! d"

lemma hex_digit_inj:
  assumes "a < 16" "b < 16" "hex_digit a = hex_digit b"
  shows "a = b"
proof -
  have "distinct ''0123456789abcdef''" by simp
  from nth_eq_iff_index_eq [OF this] assms show ?thesis by (simp add: hex_digit_def)
qed

lemma digit_char_range: "d < 10 \<Longrightarrow> of_char (digit_char d) = (48 + d :: nat)"
  by (simp add: digit_char_def)

lemma nat_str_digits: "c \<in> set (nat_str n) \<Longrightarrow> 48 \<le> (of_char c :: nat) \<and> (of_char c :: nat) \<le> 57"
proof (induction n rule: nat_str.induct)
  case (1 n)
  show ?case
  proof (cases "n < 10")
    case True
    with "1.prems" show ?thesis by (simp add: nat_str.simps [of n] digit_char_range)
  next
    case False
    with "1.prems" have "c \<in> set (nat_str (n div 10)) \<or> c = digit_char (n mod 10)"
      by (auto simp: nat_str.simps [of n])
    with False "1.IH" show ?thesis
      by (auto simp: digit_char_range)
  qed
qed

lemma nat_str_nonempty [simp]: "nat_str n \<noteq> []" "[] \<noteq> nat_str n"
  by (subst nat_str.simps, simp)+

lemma digit_char_inj: "a < 10 \<Longrightarrow> b < 10 \<Longrightarrow> digit_char a = digit_char b \<Longrightarrow> a = b"
  by (metis digit_char_range add_left_cancel)

lemma nat_str_inj: "nat_str m = nat_str n \<Longrightarrow> m = n"
proof (induction m arbitrary: n rule: nat_str.induct)
  case (1 m)
  show ?case
  proof (cases "m < 10 \<or> n < 10")
    case True
    with "1.prems" show ?thesis
      by (auto simp: nat_str.simps [of m] nat_str.simps [of n] nat_str_nonempty
          intro: digit_char_inj split: if_splits)
  next
    case False
    with "1.prems" have "nat_str (m div 10) = nat_str (n div 10)"
      and "digit_char (m mod 10) = digit_char (n mod 10)"
      by (simp_all add: nat_str.simps [of m] nat_str.simps [of n])
    with False "1.IH" have "m div 10 = n div 10" and "m mod 10 = n mod 10"
      by (auto intro: digit_char_inj)
    then show ?thesis by (metis div_mult_mod_eq)
  qed
qed

section \<open>UTF-8\<close>

text \<open>\<open>s.encode("utf-8")\<close> for code points below 256: one byte, or two from 128 on.\<close>

definition utf8_char :: "char \<Rightarrow> pybytes" where
  "utf8_char c = (let n = of_char c :: nat in
     if n < 128 then [c] else [char_of (192 + n div 64), char_of (128 + n mod 64)])"

definition utf8 :: "pystr \<Rightarrow> pybytes" where
  "utf8 s = concat (map utf8_char s)"

lemma utf8_simps [simp]:
  "utf8 [] = []"
  "utf8 (c # cs) = utf8_char c @ utf8 cs"
  by (simp_all add: utf8_def)

lemma utf8_append [simp]: "utf8 (s @ t) = utf8 s @ utf8 t"
  by (simp add: utf8_def)

lemma utf8_char_prefix_free:
  assumes "utf8_char c @ s = utf8_char d @ t"
  shows "c = d \<and> s = t"
proof -
  let ?m = "of_char c :: nat" and ?n = "of_char d :: nat"
  have b: "?m < 256" "?n < 256" by simp_all
  have cc: "char_of ?m = c" "char_of ?n = d" by simp_all
  consider "?m < 128" "?n < 128" | "?m < 128" "\<not> ?n < 128"
    | "\<not> ?m < 128" "?n < 128" | "\<not> ?m < 128" "\<not> ?n < 128" by blast
  then show ?thesis
  proof cases
    case 1
    with assms show ?thesis by (simp add: utf8_char_def Let_def)
  next
    case 2
    with assms have "c = char_of (192 + ?n div 64)" by (simp add: utf8_char_def Let_def)
    moreover have "192 + ?n div 64 < 256" using b by arith
    ultimately have "?m = 192 + ?n div 64" by (metis of_char_of mod_less)
    with 2 show ?thesis by simp
  next
    case 3
    with assms have "d = char_of (192 + ?m div 64)" by (simp add: utf8_char_def Let_def)
    moreover have "192 + ?m div 64 < 256" using b by arith
    ultimately have "?n = 192 + ?m div 64" by (metis of_char_of mod_less)
    with 3 show ?thesis by simp
  next
    case 4
    with assms have "(char_of (192 + ?m div 64) :: char) = char_of (192 + ?n div 64)"
      and "(char_of (128 + ?m mod 64) :: char) = char_of (128 + ?n mod 64)" and st: "s = t"
      by (simp_all add: utf8_char_def Let_def)
    moreover have "192 + ?m div 64 < 256" "192 + ?n div 64 < 256"
      "128 + ?m mod 64 < 256" "128 + ?n mod 64 < 256" using b by arith+
    ultimately have "192 + ?m div 64 = 192 + ?n div 64" and "128 + ?m mod 64 = 128 + ?n mod 64"
      by (metis of_char_of mod_less)+
    then have "?m div 64 = ?n div 64" and "?m mod 64 = ?n mod 64" by simp_all
    then have "?m = ?n" by (metis div_mult_mod_eq)
    with cc st show ?thesis by metis
  qed
qed

lemma utf8_inj: "utf8 s = utf8 t \<Longrightarrow> s = t"
proof (induction s arbitrary: t)
  case Nil
  then show ?case by (cases t) (auto simp: utf8_char_def Let_def split: if_splits)
next
  case (Cons c s)
  then obtain d u where t: "t = d # u"
    by (cases t) (auto simp: utf8_char_def Let_def split: if_splits)
  with Cons.prems have "c = d \<and> utf8 s = utf8 u"
    by (auto dest: utf8_char_prefix_free)
  with Cons.IH t show ?case by blast
qed

end
