(* ===== verification/Frozen_Map.thy ===== *)
theory Frozen_Map
  imports Prelude "HOL-Library.AList"
begin

text \<open>
  Python's \<open>dict\<close> and the immutable map of \<open>runtime/state/persistent_map.py\<close>.

  A \<open>dict\<close> is a list of items with distinct keys, in insertion order: \<open>d[k] = v\<close> keeps the place of
  a key that is present and appends a new one. \<open>FrozenMapV1\<close> wraps a \<open>dict\<close>; it looks up, counts and
  rebuilds over the wrapped \<open>dict\<close>, but iterates in the order of \<open>repr\<close> of the keys, which is what
  decides ties where the code takes a minimum.

  The locale \<open>finite_map\<close> is the interface both promise: what a lookup returns after an update or
  a removal, and that iteration yields each entry once. Its lemmas on sizes and entries are proved
  once and interpreted on both.
\<close>

section \<open>The interface\<close>

locale finite_map =
  fixes get :: "'m \<Rightarrow> 'k \<Rightarrow> 'v option"
    and put :: "'m \<Rightarrow> ('k \<times> 'v) list \<Rightarrow> 'm"
    and drop_keys :: "'m \<Rightarrow> 'k set \<Rightarrow> 'm"
    and entries :: "'m \<Rightarrow> ('k \<times> 'v) list"
  assumes get_put: "get (put m kvs) = get m ++ map_of (rev kvs)"
    and get_drop: "get (drop_keys m K) = get m |` (- K)"
    and map_of_entries: "map_of (entries m) = get m"
    and distinct_entries: "distinct (map fst (entries m))"
begin

lemma mem_entries: "(k, v) \<in> set (entries m) \<longleftrightarrow> get m k = Some v"
  by (metis distinct_entries map_of_entries map_of_eq_Some_iff)

lemma dom_entries: "dom (get m) = fst ` set (entries m)"
  by (metis dom_map_of_conv_image_fst map_of_entries)

lemma finite_dom: "finite (dom (get m))"
  by (simp add: dom_entries)

lemma length_entries: "length (entries m) = card (dom (get m))"
  using distinct_entries [of m] distinct_card [of "map fst (entries m)"]
  by (simp add: dom_entries)

lemma distinct_entry_list: "distinct (entries m)"
  using distinct_entries distinct_map by blast

lemma length_put_one: "length (entries (put m [(k, v)])) \<le> Suc (length (entries m))"
proof -
  have "dom (get (put m [(k, v)])) = insert k (dom (get m))" by (simp add: get_put)
  then show ?thesis by (simp add: length_entries card_insert_if finite_dom)
qed

lemma length_put_present:
  "get m k \<noteq> None \<Longrightarrow> length (entries (put m [(k, v)])) = length (entries m)"
  by (simp add: length_entries get_put insert_absorb domIff)

lemma length_put_absent:
  "get m k = None \<Longrightarrow> length (entries (put m [(k, v)])) = Suc (length (entries m))"
  by (simp add: length_entries get_put finite_dom domIff)

lemma length_drop_le: "length (entries (drop_keys m K)) \<le> length (entries m)"
  by (auto simp: length_entries get_drop finite_dom intro!: card_mono)

lemma length_drop_less:
  "k \<in> K \<Longrightarrow> get m k \<noteq> None \<Longrightarrow> length (entries (drop_keys m K)) < length (entries m)"
  unfolding length_entries get_drop
  by (rule psubset_card_mono [OF finite_dom]) auto

lemma length_drop_one:
  "get m k \<noteq> None \<Longrightarrow> length (entries (drop_keys m {k})) = length (entries m) - 1"
proof -
  assume "get m k \<noteq> None"
  moreover have "dom (get m) \<inter> - {k} = dom (get m) - {k}" by auto
  ultimately show ?thesis by (simp add: length_entries get_drop domIff finite_dom)
qed

lemma entries_empty_iff: "entries m = [] \<longleftrightarrow> get m = Map.empty"
  by (metis map_of_entries map_of_eq_empty_iff)

end

section \<open>Python's dict\<close>

typedef ('k, 'v) py_dict = "{xs :: ('k \<times> 'v) list. distinct (map fst xs)}"
  morphisms pd_items Py_Dict
  by (rule exI [of _ "[]"]) simp

setup_lifting type_definition_py_dict

lift_definition pd_empty :: "('k, 'v) py_dict" is "[]" by simp

lift_definition pd_get :: "('k, 'v) py_dict \<Rightarrow> 'k \<Rightarrow> 'v option" is map_of .

lift_definition pd_set :: "'k \<Rightarrow> 'v \<Rightarrow> ('k, 'v) py_dict \<Rightarrow> ('k, 'v) py_dict" is AList.update
  by (rule distinct_update)

lift_definition pd_filter :: "('k \<times> 'v \<Rightarrow> bool) \<Rightarrow> ('k, 'v) py_dict \<Rightarrow> ('k, 'v) py_dict" is List.filter
  by (simp add: distinct_map_filter)

definition pd_update :: "('k, 'v) py_dict \<Rightarrow> ('k \<times> 'v) list \<Rightarrow> ('k, 'v) py_dict" where
  "pd_update d kvs = fold (\<lambda>(k, v) d. pd_set k v d) kvs d"

definition pd_without :: "('k, 'v) py_dict \<Rightarrow> 'k set \<Rightarrow> ('k, 'v) py_dict" where
  "pd_without d K = pd_filter (\<lambda>(k, v). k \<notin> K) d"

definition pd_del :: "'k \<Rightarrow> ('k, 'v) py_dict \<Rightarrow> ('k, 'v) py_dict" where
  "pd_del k d = pd_without d {k}"

definition pd_of :: "('k \<times> 'v) list \<Rightarrow> ('k, 'v) py_dict" where
  "pd_of kvs = pd_update pd_empty kvs"

definition pd_len :: "('k, 'v) py_dict \<Rightarrow> int" where
  "pd_len d = int (length (pd_items d))"

instantiation py_dict :: (equal, equal) equal
begin

definition equal_py_dict :: "('a, 'b) py_dict \<Rightarrow> ('a, 'b) py_dict \<Rightarrow> bool" where
  "equal_py_dict d e \<longleftrightarrow> pd_items d = pd_items e"

instance
  by standard (simp add: equal_py_dict_def pd_items_inject)

end

lemma pd_get_empty [simp]: "pd_get pd_empty = Map.empty"
  by (simp add: pd_get.rep_eq pd_empty.rep_eq)

lemma pd_get_set [simp]: "pd_get (pd_set k v d) = (pd_get d)(k \<mapsto> v)"
  by (simp add: pd_get.rep_eq pd_set.rep_eq update_conv')

lemma pd_distinct [simp]: "distinct (map fst (pd_items d))"
  using pd_items [of d] by simp

lemma pd_get_filter:
  "pd_get (pd_filter P d) k = (case pd_get d k of None \<Rightarrow> None | Some v \<Rightarrow> if P (k, v) then Some v else None)"
proof -
  have "map_of (filter P xs) k =
      (case map_of xs k of None \<Rightarrow> None | Some v \<Rightarrow> if P (k, v) then Some v else None)"
    if "distinct (map fst xs)" for xs
    using that
  proof (induction xs)
    case (Cons x xs)
    then show ?case
      by (cases x) (auto split: option.splits simp: map_of_eq_None_iff)
  qed simp
  then show ?thesis by (simp add: pd_get.rep_eq pd_filter.rep_eq)
qed

lemma pd_get_without [simp]: "pd_get (pd_without d K) = pd_get d |` (- K)"
  by (rule ext) (auto simp: pd_without_def pd_get_filter restrict_map_def split: option.splits)

lemma pd_get_update [simp]: "pd_get (pd_update d kvs) = pd_get d ++ map_of (rev kvs)"
  unfolding pd_update_def
proof (induction kvs arbitrary: d)
  case (Cons kv kvs)
  then show ?case
    by (cases kv) (auto simp: fun_eq_iff map_add_def split: option.splits)
qed simp

lemma pd_get_of [simp]: "pd_get (pd_of kvs) = map_of (rev kvs)"
  by (simp add: pd_of_def)

interpretation pd: finite_map pd_get pd_update pd_without pd_items
  by unfold_locales (simp, simp, simp_all add: pd_get.rep_eq)

section \<open>FrozenMapV1\<close>

text \<open>
  \<open>frozen_map_init\<close> is the constructor on a tuple of items: it copies them into a \<open>dict\<close> and raises
  on a repeated key. \<open>frozen_map_of\<close> is the constructor on a \<open>dict\<close>, whose keys are distinct.
\<close>

datatype ('k, 'v) frozen_map = FrozenMapV1 (view: "('k, 'v) py_dict")

fun frozen_map_copy :: "('k, 'v) py_dict \<Rightarrow> ('k \<times> 'v) list \<Rightarrow> ('k, 'v) py_dict result" where
  "frozen_map_copy copied [] = Inr copied"
| "frozen_map_copy copied ((k, v) # pairs) =
     (if pd_get copied k \<noteq> None then Inl (ValueError ''FrozenMapV1 rejects duplicate keys'')
      else frozen_map_copy (pd_set k v copied) pairs)"

definition frozen_map_init :: "('k \<times> 'v) list \<Rightarrow> ('k, 'v) frozen_map result" where
  "frozen_map_init pairs = res_bind (frozen_map_copy pd_empty pairs) (\<lambda>d. Inr (FrozenMapV1 d))"

definition frozen_map_of :: "('k, 'v) py_dict \<Rightarrow> ('k, 'v) frozen_map" where
  "frozen_map_of d = FrozenMapV1 d"

definition fm_empty :: "('k, 'v) frozen_map" where
  "fm_empty = FrozenMapV1 pd_empty"

definition fm_get :: "('k, 'v) frozen_map \<Rightarrow> 'k \<Rightarrow> 'v option" where
  "fm_get m = pd_get (view m)"

text \<open>\<open>__iter__\<close> sorts the keys by their \<open>repr\<close>; \<open>items()\<close> of the \<open>Mapping\<close> mixin follows it.\<close>

definition fm_items :: "('k \<Rightarrow> pystr) \<Rightarrow> ('k, 'v) frozen_map \<Rightarrow> ('k \<times> 'v) list" where
  "fm_items repr m = sort_key (repr \<circ> fst) (pd_items (view m))"

definition fm_keys :: "('k \<Rightarrow> pystr) \<Rightarrow> ('k, 'v) frozen_map \<Rightarrow> 'k list" where
  "fm_keys repr m = map fst (fm_items repr m)"

definition fm_len :: "('k, 'v) frozen_map \<Rightarrow> int" where
  "fm_len m = pd_len (view m)"

definition with_updates :: "('k, 'v) frozen_map \<Rightarrow> ('k \<times> 'v) list \<Rightarrow> ('k, 'v) frozen_map" where
  "with_updates m items = FrozenMapV1 (pd_update (view m) items)"

definition without_keys :: "('k, 'v) frozen_map \<Rightarrow> 'k set \<Rightarrow> ('k, 'v) frozen_map" where
  "without_keys m keys = FrozenMapV1 (pd_without (view m) keys)"

lemma fm_get_empty [simp]: "fm_get fm_empty = Map.empty"
  by (simp add: fm_get_def fm_empty_def)

lemma fm_get_of [simp]: "fm_get (frozen_map_of d) = pd_get d"
  by (simp add: fm_get_def frozen_map_of_def)

lemma fm_get_updates: "fm_get (with_updates m kvs) = fm_get m ++ map_of (rev kvs)"
  by (simp add: fm_get_def with_updates_def)

lemma fm_get_put [simp]: "fm_get (with_updates m [(k, v)]) = (fm_get m)(k \<mapsto> v)"
  by (simp add: fm_get_updates)

lemma fm_get_without [simp]: "fm_get (without_keys m K) = fm_get m |` (- K)"
  by (simp add: fm_get_def without_keys_def)

lemma set_fm_items: "set (fm_items repr m) = set (pd_items (view m))"
  by (simp add: fm_items_def)

lemma distinct_fm_items: "distinct (map fst (fm_items repr m))"
proof -
  have "mset (map fst (fm_items repr m)) = mset (map fst (pd_items (view m)))"
    by (simp only: fm_items_def mset_map mset_sort)
  then show ?thesis by (metis mset_eq_imp_distinct_iff pd_distinct)
qed

interpretation fm: finite_map fm_get with_updates without_keys "fm_items repr" for repr
proof (unfold_locales)
  fix m :: "('a, 'b) frozen_map"
  show "map_of (fm_items repr m) = fm_get m"
  proof (rule ext)
    fix k
    have "set (fm_items repr m) = set (pd_items (view m))" by (rule set_fm_items)
    then have "map_of (fm_items repr m) k = map_of (pd_items (view m)) k"
      by (metis distinct_fm_items map_of_inject_set pd_distinct)
    then show "map_of (fm_items repr m) k = fm_get m k"
      by (simp add: fm_get_def pd_get.rep_eq)
  qed
qed (simp_all add: fm_get_updates distinct_fm_items)

lemma fm_len_items: "fm_len m = int (length (fm_items repr m))"
  by (simp add: fm_len_def pd_len_def fm_items_def)

lemma fm_len_card: "fm_len m = int (card (dom (fm_get m)))"
  by (simp add: fm_len_items [of _ "\<lambda>_. []"] fm.length_entries)

lemma fm_finite [simp]: "finite (dom (fm_get m))"
  by (rule fm.finite_dom)

lemma fm_len_empty [simp]: "fm_len fm_empty = 0"
  by (simp add: fm_len_card)

lemma fm_len_nonneg [simp]: "0 \<le> fm_len m"
  by (simp add: fm_len_card)

lemma fm_len_put_le: "fm_len (with_updates m [(k, v)]) \<le> fm_len m + 1"
  using fm.length_put_one [of "\<lambda>_. []" m k v] by (simp add: fm_len_items [of _ "\<lambda>_. []"])

lemma fm_len_put_present: "fm_get m k = Some u \<Longrightarrow> fm_len (with_updates m [(k, v)]) = fm_len m"
  using fm.length_put_present [of m k "\<lambda>_. []" v] by (simp add: fm_len_items [of _ "\<lambda>_. []"])

lemma fm_len_put_absent: "fm_get m k = None \<Longrightarrow> fm_len (with_updates m [(k, v)]) = fm_len m + 1"
  using fm.length_put_absent [of m k "\<lambda>_. []" v] by (simp add: fm_len_items [of _ "\<lambda>_. []"])

lemma fm_len_drop_le: "fm_len (without_keys m K) \<le> fm_len m"
  using fm.length_drop_le [of "\<lambda>_. []" m K] by (simp add: fm_len_items [of _ "\<lambda>_. []"])

lemma fm_len_drop_one: "fm_get m k = Some v \<Longrightarrow> fm_len (without_keys m {k}) = fm_len m - 1"
proof -
  assume k: "fm_get m k = Some v"
  have "dom (fm_get m) \<inter> - {k} = dom (fm_get m) - {k}" by auto
  moreover have "card (dom (fm_get m)) = Suc (card (dom (fm_get m) - {k}))"
    using k by (intro card.remove) auto
  ultimately show ?thesis by (simp add: fm_len_card)
qed

lemma fm_len_mono: "dom (fm_get m) \<subseteq> dom (fm_get m') \<Longrightarrow> fm_len m \<le> fm_len m'"
  by (simp add: fm_len_card card_mono)

lemma mem_fm_keys [simp]: "k \<in> set (fm_keys repr m) \<longleftrightarrow> k \<in> dom (fm_get m)"
  by (simp add: fm_keys_def fm.dom_entries [of _ repr])

lemma frozen_map_copy_ok:
  "is_ok (frozen_map_copy d kvs) \<longleftrightarrow> distinct (map fst kvs) \<and> fst ` set kvs \<inter> dom (pd_get d) = {}"
proof (induction d kvs rule: frozen_map_copy.induct)
  case (2 copied k v pairs)
  have "fst ` set pairs \<inter> dom (pd_get (pd_set k v copied)) = {}
      \<longleftrightarrow> k \<notin> fst ` set pairs \<and> fst ` set pairs \<inter> dom (pd_get copied) = {}"
    by auto
  with 2 show ?case by (auto simp del: pd_get_set simp: domIff [symmetric])
qed simp

end
