(* ===== verification/Canonical_Json.thy ===== *)
theory Canonical_Json
  imports Prelude
begin

text \<open>
  Canonical JSON and the domain-separated digests of \<open>runtime/hashing.py\<close>.

  \<open>json_text\<close> is \<open>json.dumps(value, sort_keys=True, separators=(",", ":"))\<close>; its first argument is
  \<open>ensure_ascii\<close> (\<open>True\<close> in \<open>runtime/identity/state_key.py\<close>, \<open>False\<close> in \<open>runtime/hashing.py\<close>).
  A finite float is carried by the text of its \<open>repr\<close>; the code digests none that is not finite.
  SHA-256 is a parameter \<open>sha\<close> of the digests: a function from bytes to the hexadecimal digest.
  The lemmas show that a quoted string can be read back unambiguously, so that texts built from
  quoted parts determine the parts.
\<close>

datatype json =
    JNull
  | JBool bool
  | JInt int
  | JFloat pystr
  | JStr pystr
  | JList "json list"
  | JObj "(pystr \<times> json) list"

section \<open>String literals\<close>

definition hex4 :: "nat \<Rightarrow> pystr" where
  "hex4 n = ''00'' @ [hex_digit (n div 16), hex_digit (n mod 16)]"

definition json_escape :: "bool \<Rightarrow> char \<Rightarrow> pystr" where
  "json_escape ensure_ascii c =
     (if c = CHR 0x22 then [CHR 0x5C, CHR 0x22]
      else if c = CHR 0x5C then [CHR 0x5C, CHR 0x5C]
      else if c = CHR 0x08 then [CHR 0x5C, CHR ''b'']
      else if c = CHR 0x09 then [CHR 0x5C, CHR ''t'']
      else if c = CHR 0x0A then [CHR 0x5C, CHR ''n'']
      else if c = CHR 0x0C then [CHR 0x5C, CHR ''f'']
      else if c = CHR 0x0D then [CHR 0x5C, CHR ''r'']
      else if c < CHR 0x20 \<or> (ensure_ascii \<and> CHR 0x7F \<le> c)
      then [CHR 0x5C, CHR ''u''] @ hex4 (of_char c)
      else [c])"

definition json_quote :: "bool \<Rightarrow> pystr \<Rightarrow> pystr" where
  "json_quote ensure_ascii s = [CHR 0x22] @ concat (map (json_escape ensure_ascii) s) @ [CHR 0x22]"

section \<open>Values\<close>

fun join_with :: "pystr \<Rightarrow> pystr list \<Rightarrow> pystr" where
  "join_with sep [] = []"
| "join_with sep [x] = x"
| "join_with sep (x # y # xs) = x @ sep @ join_with sep (y # xs)"

fun json_text :: "bool \<Rightarrow> json \<Rightarrow> pystr" where
  "json_text a JNull = ''null''"
| "json_text a (JBool b) = (if b then ''true'' else ''false'')"
| "json_text a (JInt i) = int_str i"
| "json_text a (JFloat r) = r"
| "json_text a (JStr s) = json_quote a s"
| "json_text a (JList vs) = ''['' @ join_with '','' (map (\<lambda>v. json_text a v) vs) @ '']''"
| "json_text a (JObj kvs) =
     ''{'' @ join_with '','' (map (\<lambda>(k, t). json_quote a k @ '':'' @ t)
        (sort_key fst (map (\<lambda>(k, v). (k, json_text a v)) kvs))) @ ''}''"

definition canonical_json_bytes :: "json \<Rightarrow> pybytes" where
  "canonical_json_bytes v = utf8 (json_text False v)"

section \<open>Digests\<close>

definition sha256_frame :: "(pybytes \<Rightarrow> pystr) \<Rightarrow> pystr \<Rightarrow> json \<Rightarrow> pystr \<Rightarrow> pystr" where
  "sha256_frame sha domain_tag v prefix =
     prefix @ '':'' @ sha (domain_tag @ [CHR 0x00] @ canonical_json_bytes v)"

definition hash_canonical_model :: "(pybytes \<Rightarrow> pystr) \<Rightarrow> pystr \<Rightarrow> json \<Rightarrow> pystr \<Rightarrow> pystr" where
  "hash_canonical_model sha domain_tag model_dump prefix = sha256_frame sha domain_tag model_dump prefix"

section \<open>Reading a literal back\<close>

lemma hex4_prefix_free:
  assumes "hex4 m @ s = hex4 n @ t" "m < 256" "n < 256"
  shows "m = n \<and> s = t"
proof -
  from assms(1) have "hex_digit (m div 16) = hex_digit (n div 16)"
    and "hex_digit (m mod 16) = hex_digit (n mod 16)" and st: "s = t"
    by (simp_all add: hex4_def)
  moreover have "m div 16 < 16" "n div 16 < 16" using assms(2,3) by arith+
  ultimately have "m div 16 = n div 16" "m mod 16 = n mod 16"
    by (auto intro: hex_digit_inj)
  then have "m = n" by (metis div_mult_mod_eq)
  with st show ?thesis by simp
qed

lemma json_escape_prefix_free:
  assumes "json_escape a c @ s = json_escape a d @ t"
  shows "c = d \<and> s = t"
proof (cases "hd (json_escape a c) = CHR 0x5C \<and> hd (tl (json_escape a c)) = CHR ''u''")
  case True
  then have "json_escape a c = [CHR 0x5C, CHR ''u''] @ hex4 (of_char c)"
    by (auto simp: json_escape_def split: if_splits)
  moreover from this assms have "json_escape a d = [CHR 0x5C, CHR ''u''] @ hex4 (of_char d)"
    by (auto simp: json_escape_def split: if_splits)
  ultimately have "hex4 (of_char c) @ s = hex4 (of_char d) @ t" using assms by simp
  from hex4_prefix_free [OF this] show ?thesis by simp
next
  case False
  with assms show ?thesis by (auto simp: json_escape_def split: if_splits)
qed

lemma json_escape_not_quote: "\<exists>h r. json_escape a c = h # r \<and> h \<noteq> CHR 0x22"
  by (auto simp: json_escape_def)

lemma json_quote_prefix_free:
  assumes "json_quote a s @ u = json_quote a t @ v"
  shows "s = t \<and> u = v"
proof -
  have "concat (map (json_escape a) s) @ CHR 0x22 # u = concat (map (json_escape a) t) @ CHR 0x22 # v
      \<Longrightarrow> s = t \<and> u = v"
  proof (induction s arbitrary: t)
    case Nil
    then show ?case using json_escape_not_quote [of a "hd t"] by (cases t) auto
  next
    case (Cons c s)
    show ?case
    proof (cases t)
      case Nil
      with Cons.prems show ?thesis using json_escape_not_quote [of a c] by auto
    next
      case (Cons d t')
      with Cons.prems
      have "json_escape a c @ (concat (map (json_escape a) s) @ CHR 0x22 # u)
          = json_escape a d @ (concat (map (json_escape a) t') @ CHR 0x22 # v)" by simp
      from json_escape_prefix_free [OF this] Cons.IH Cons show ?thesis by auto
    qed
  qed
  with assms show ?thesis by (simp add: json_quote_def)
qed

lemma json_quote_inj: "json_quote a s = json_quote a t \<Longrightarrow> s = t"
  using json_quote_prefix_free [of a s "[]" t "[]"] by simp

end
