(* ===== verification/Identity.thy ===== *)
theory Identity
  imports Canonical_Json
begin

text \<open>
  Verified conversation identity: \<open>runtime/identity/models.py\<close>, \<open>runtime/identity/state_key.py\<close> and
  \<open>runtime/identity/deployment.py\<close>.

  \<open>conversation_state_key\<close> is the dataclass \<open>ConversationStateKey\<close>, the key of all state of a
  conversation. Its canonical JSON bytes order the records of the coordinator (\<open>key_bytes\<close> of
  \<open>coordinator_root_orders.py\<close>); \<open>key_bytes_inj\<close> shows that these bytes determine the key and the
  suffix, so that two rows that compare equal on them never make Python compare the keys, which have
  no order. Its \<open>repr\<close> gives the iteration order of the frozen maps.
\<close>

datatype surface = Wecom

datatype scene = SceneGroup | SceneDirect

fun scene_str :: "scene \<Rightarrow> pystr" where
  "scene_str SceneGroup = ''group''"
| "scene_str SceneDirect = ''direct''"

fun surface_str :: "surface \<Rightarrow> pystr" where
  "surface_str Wecom = ''wecom''"

record conversation_state_key =
  csk_surface :: surface
  csk_adapter_namespace :: pystr
  csk_tenant_ref :: pystr
  csk_scene :: scene
  csk_subject_ref :: pystr
  csk_principal_ref :: pystr

section \<open>Canonical bytes\<close>

definition canonical_state_key_payload :: "conversation_state_key \<Rightarrow> json" where
  "canonical_state_key_payload key = JObj
     [(''version'', JInt 1),
      (''surface'', JStr (surface_str (csk_surface key))),
      (''adapter_namespace'', JStr (csk_adapter_namespace key)),
      (''tenant_ref'', JStr (csk_tenant_ref key)),
      (''scene'', JStr (scene_str (csk_scene key))),
      (''subject_ref'', JStr (csk_subject_ref key)),
      (''principal_ref'', JStr (csk_principal_ref key))]"

definition state_key_json_bytes :: "json \<Rightarrow> pybytes" where
  "state_key_json_bytes v = utf8 (json_text True v)"

definition state_key_ref :: "(pybytes \<Rightarrow> pystr) \<Rightarrow> conversation_state_key \<Rightarrow> pystr" where
  "state_key_ref sha key = ''csk1:'' @
     sha (''conversation-state-key.v1'' @ [CHR 0x00]
          @ state_key_json_bytes (canonical_state_key_payload key))"

definition key_bytes :: "conversation_state_key \<Rightarrow> pystr \<Rightarrow> pybytes" where
  "key_bytes state_key suffix = state_key_json_bytes (canonical_state_key_payload state_key) @ utf8 suffix"

section \<open>repr\<close>

text \<open>
  \<open>repr\<close> of a \<open>str\<close>: single quotes unless the text holds one and no double quote; the quote, the
  backslash, tab, line feed and carriage return are escaped, other characters that do not print
  are written \<open>\xNN\<close>.
\<close>

definition latin1_printable :: "char \<Rightarrow> bool" where
  "latin1_printable c = ((CHR 0x20 \<le> c \<and> c < CHR 0x7F) \<or> (CHR 0xA1 \<le> c \<and> c \<noteq> CHR 0xAD))"

definition repr_char :: "char \<Rightarrow> char \<Rightarrow> pystr" where
  "repr_char q c =
     (if c = q \<or> c = CHR 0x5C then [CHR 0x5C, c]
      else if c = CHR 0x09 then [CHR 0x5C, CHR ''t'']
      else if c = CHR 0x0A then [CHR 0x5C, CHR ''n'']
      else if c = CHR 0x0D then [CHR 0x5C, CHR ''r'']
      else if latin1_printable c then [c]
      else [CHR 0x5C, CHR ''x'', hex_digit (of_char c div 16), hex_digit (of_char c mod 16)])"

definition str_repr :: "pystr \<Rightarrow> pystr" where
  "str_repr s =
     (let q = (if CHR 0x27 \<in> set s \<and> CHR 0x22 \<notin> set s then CHR 0x22 else CHR 0x27)
      in [q] @ concat (map (repr_char q) s) @ [q])"

definition csk_repr :: "conversation_state_key \<Rightarrow> pystr" where
  "csk_repr k = ''ConversationStateKey(surface='' @ str_repr (surface_str (csk_surface k))
     @ '', adapter_namespace='' @ str_repr (csk_adapter_namespace k)
     @ '', tenant_ref='' @ str_repr (csk_tenant_ref k)
     @ '', scene='' @ str_repr (scene_str (csk_scene k))
     @ '', subject_ref='' @ str_repr (csk_subject_ref k)
     @ '', principal_ref='' @ str_repr (csk_principal_ref k) @ '')''"

definition pair_key_repr :: "conversation_state_key \<times> pystr \<Rightarrow> pystr" where
  "pair_key_repr = (\<lambda>(k, a). ''('' @ csk_repr k @ '', '' @ str_repr a @ '')'')"

definition triple_key_repr :: "conversation_state_key \<times> pystr \<times> pystr \<Rightarrow> pystr" where
  "triple_key_repr = (\<lambda>(k, a, b). ''('' @ csk_repr k @ '', '' @ str_repr a @ '', '' @ str_repr b @ '')'')"

section \<open>Deployment identity\<close>

datatype deployment_identity_error = DeploymentIdentityError int pystr

text \<open>The configured tenant is \<open>str | None\<close>; the guard takes both \<open>None\<close> and \<open>""\<close> as absent.\<close>

definition validate_deployment_identity ::
  "pystr \<Rightarrow> pystr option \<Rightarrow> deployment_identity_error + unit" where
  "validate_deployment_identity request_tenant_ref configured_tenant_ref =
     (case configured_tenant_ref of
        None \<Rightarrow> Inl (DeploymentIdentityError 503 ''deployment_identity_unavailable'')
      | Some tenant \<Rightarrow>
          if tenant = [] then Inl (DeploymentIdentityError 503 ''deployment_identity_unavailable'')
          else if request_tenant_ref \<noteq> tenant
          then Inl (DeploymentIdentityError 403 ''deployment_tenant_mismatch'')
          else Inr ())"

lemma validate_deployment_identity_ok:
  "validate_deployment_identity t c = Inr () \<longleftrightarrow> c = Some t \<and> t \<noteq> []"
  by (auto simp: validate_deployment_identity_def split: option.splits)

section \<open>The bytes determine the key\<close>

lemma payload_text:
  "json_text True (canonical_state_key_payload k) =
     ''{'' @ json_quote True ''adapter_namespace'' @ '':'' @ json_quote True (csk_adapter_namespace k)
     @ '','' @ json_quote True ''principal_ref'' @ '':'' @ json_quote True (csk_principal_ref k)
     @ '','' @ json_quote True ''scene'' @ '':'' @ json_quote True (scene_str (csk_scene k))
     @ '','' @ json_quote True ''subject_ref'' @ '':'' @ json_quote True (csk_subject_ref k)
     @ '','' @ json_quote True ''surface'' @ '':'' @ json_quote True (surface_str (csk_surface k))
     @ '','' @ json_quote True ''tenant_ref'' @ '':'' @ json_quote True (csk_tenant_ref k)
     @ '','' @ json_quote True ''version'' @ '':'' @ int_str 1 @ ''}''"
  by (simp add: canonical_state_key_payload_def)

lemma scene_str_inj: "scene_str a = scene_str b \<Longrightarrow> a = b"
  by (cases a; cases b) simp_all

lemma surface_unique: "(a :: surface) = b"
  by (cases a; cases b) simp

lemma payload_text_prefix_free:
  assumes "json_text True (canonical_state_key_payload k) @ s =
    json_text True (canonical_state_key_payload k') @ s'"
  shows "k = k' \<and> s = s'"
proof -
  have "csk_adapter_namespace k = csk_adapter_namespace k' \<and> csk_principal_ref k = csk_principal_ref k'
      \<and> scene_str (csk_scene k) = scene_str (csk_scene k') \<and> csk_subject_ref k = csk_subject_ref k'
      \<and> csk_tenant_ref k = csk_tenant_ref k' \<and> s = s'"
    using assms unfolding payload_text by (auto dest!: json_quote_prefix_free)
  then show ?thesis
    using surface_unique [of "csk_surface k" "csk_surface k'"] by (auto dest: scene_str_inj)
qed

lemma key_bytes_inj: "key_bytes k s = key_bytes k' s' \<longleftrightarrow> k = k' \<and> s = s'"
proof
  assume "key_bytes k s = key_bytes k' s'"
  then have "utf8 (json_text True (canonical_state_key_payload k) @ s)
      = utf8 (json_text True (canonical_state_key_payload k') @ s')"
    by (simp add: key_bytes_def state_key_json_bytes_def)
  then show "k = k' \<and> s = s'" by (blast dest: utf8_inj payload_text_prefix_free)
qed simp

end
