(* ===== verification/Py_Text.thy ===== *)
theory Py_Text
  imports Prelude
begin

text \<open>
  The \<open>str\<close> methods the code calls: \<open>strip\<close>, \<open>startswith\<close>, \<open>in\<close>, \<open>lower\<close> on ASCII, and the character
  classes of its regular expressions. White space is Python's, for code points below 256.
\<close>

definition py_space :: "char \<Rightarrow> bool" where
  "py_space c = ((CHR 0x09 \<le> c \<and> c \<le> CHR 0x0D) \<or> (CHR 0x1C \<le> c \<and> c \<le> CHR 0x20)
     \<or> c = CHR 0x85 \<or> c = CHR 0xA0)"

definition py_lstrip :: "pystr \<Rightarrow> pystr" where
  "py_lstrip s = dropWhile py_space s"

definition py_strip :: "pystr \<Rightarrow> pystr" where
  "py_strip s = rev (py_lstrip (rev (py_lstrip s)))"

definition startswith :: "pystr \<Rightarrow> pystr \<Rightarrow> bool" where
  "startswith s p = (take (length p) s = p)"

fun py_in :: "pystr \<Rightarrow> pystr \<Rightarrow> bool" where
  "py_in needle [] = (needle = [])"
| "py_in needle (c # cs) = (startswith (c # cs) needle \<or> py_in needle cs)"

definition lower_ascii_char :: "char \<Rightarrow> char" where
  "lower_ascii_char c =
     (if CHR ''A'' \<le> c \<and> c \<le> CHR ''Z'' then char_of (of_char c + 32 :: nat) else c)"

text \<open>\<open>str.lower\<close> on characters below 256: the accented capitals, without the multiplication sign, too.\<close>

definition py_lower :: "pystr \<Rightarrow> pystr" where
  "py_lower s = map (\<lambda>c. if CHR ''A'' \<le> c \<and> c \<le> CHR ''Z'' \<or> CHR 0xC0 \<le> c \<and> c \<le> CHR 0xDE \<and> c \<noteq> CHR 0xD7
     then char_of (of_char c + 32 :: nat) else c) s"

definition lower_ascii :: "pystr \<Rightarrow> pystr" where
  "lower_ascii s = map lower_ascii_char s"

definition is_digit :: "char \<Rightarrow> bool" where
  "is_digit c = (CHR ''0'' \<le> c \<and> c \<le> CHR ''9'')"

definition is_alpha :: "char \<Rightarrow> bool" where
  "is_alpha c = ((CHR ''a'' \<le> c \<and> c \<le> CHR ''z'') \<or> (CHR ''A'' \<le> c \<and> c \<le> CHR ''Z''))"

definition is_alnum :: "char \<Rightarrow> bool" where
  "is_alnum c = (is_alpha c \<or> is_digit c)"

definition is_lower_hex :: "char \<Rightarrow> bool" where
  "is_lower_hex c = (is_digit c \<or> (CHR ''a'' \<le> c \<and> c \<le> CHR ''f''))"

text \<open>\<open>prefix[0-9a-f]{n}\<close>, matched against the whole string.\<close>

definition prefixed_hex :: "pystr \<Rightarrow> nat \<Rightarrow> pystr \<Rightarrow> bool" where
  "prefixed_hex prefix n s =
     (startswith s prefix \<and> length s = length prefix + n
      \<and> list_all is_lower_hex (drop (length prefix) s))"

lemma startswith_iff: "startswith s p \<longleftrightarrow> (\<exists>r. s = p @ r)"
  by (metis append_eq_conv_conj append_take_drop_id startswith_def)

lemma py_in_iff: "py_in needle s \<longleftrightarrow> (\<exists>a b. s = a @ needle @ b)"
proof (induction s)
  case Nil
  then show ?case by auto
next
  case (Cons c cs)
  show ?case
  proof
    assume "py_in needle (c # cs)"
    with Cons.IH show "\<exists>a b. c # cs = a @ needle @ b"
      by (auto simp: startswith_iff) (metis append_Nil append_Cons)+
  next
    assume "\<exists>a b. c # cs = a @ needle @ b"
    then obtain a b where ab: "c # cs = a @ needle @ b" by blast
    show "py_in needle (c # cs)"
    proof (cases a)
      case Nil
      with ab have "startswith (c # cs) needle" by (simp add: startswith_iff)
      then show ?thesis by simp
    next
      case (Cons d ds)
      with ab Cons.IH show ?thesis by auto
    qed
  qed
qed

lemma py_lstrip_fixed: "s = [] \<or> \<not> py_space (hd s) \<Longrightarrow> py_lstrip s = s"
  by (cases s) (auto simp: py_lstrip_def)

lemma py_lstrip_hd: "py_lstrip s \<noteq> [] \<Longrightarrow> \<not> py_space (hd (py_lstrip s))"
  unfolding py_lstrip_def by (rule hd_dropWhile) (metis dropWhile_eq_Nil_conv)

lemma py_strip_ends:
  assumes "py_strip s \<noteq> []"
  shows "\<not> py_space (hd (py_strip s))" and "\<not> py_space (last (py_strip s))"
proof -
  let ?a = "py_lstrip s"
  let ?b = "py_lstrip (rev ?a)"
  have b: "?b \<noteq> []" using assms by (simp add: py_strip_def)
  then have "\<not> py_space (hd ?b)" by (rule py_lstrip_hd)
  with b show "\<not> py_space (last (py_strip s))" by (simp add: py_strip_def last_rev)
  have a: "?a \<noteq> []"
  proof
    assume "?a = []"
    then have "?b = []" by (simp add: py_lstrip_fixed)
    with b show False ..
  qed
  then have ha: "\<not> py_space (hd ?a)" by (rule py_lstrip_hd)
  obtain u where "rev ?a = u @ ?b"
    by (metis py_lstrip_def takeWhile_dropWhile_id)
  then have "?a = rev ?b @ rev u" by (metis rev_append rev_rev_ident)
  with b have "hd (rev ?b) = hd ?a" by (metis hd_append2 rev_is_Nil_conv)
  with ha show "\<not> py_space (hd (py_strip s))" by (simp add: py_strip_def)
qed

lemma py_strip_fixed:
  assumes "s = [] \<or> (\<not> py_space (hd s) \<and> \<not> py_space (last s))"
  shows "py_strip s = s"
proof -
  have "py_lstrip s = s" using assms by (intro py_lstrip_fixed) auto
  moreover have "py_lstrip (rev s) = rev s" using assms by (intro py_lstrip_fixed) (auto simp: hd_rev)
  ultimately show ?thesis by (simp add: py_strip_def)
qed

lemma py_strip_idem [simp]: "py_strip (py_strip s) = py_strip s"
  using py_strip_ends [of s] by (cases "py_strip s = []") (auto intro: py_strip_fixed)

end
