(* ===== verification/Reply_Schema.thy ===== *)
theory Reply_Schema
  imports Py_Text
begin

text \<open>
  The reply the service issues: \<open>schemas/reply.py\<close> and the enumerations of \<open>schemas/type_ids.py\<close>
  it uses. Each Pydantic model is a record or a datatype; its validators are a function that
  returns the value or the message of the first validator that refuses it. Fields whose type is a
  single literal (\<open>contract_version\<close>, \<open>resolve_type\<close>) carry no information and are left out.
\<close>

datatype reply_kind =
    Reply_answer
  | Reply_clarification
  | Reply_human_handoff
  | Reply_unable_to_answer
  | Reply_no_reply

datatype mention_type = Mention_sales

datatype action_execution_status = Executed | Failed | Skipped

datatype action_execution_type =
    Send_material_pack
  | Send_weekly_report
  | Send_monthly_report
  | Mention_sales_effect
  | Send_text

record reply_mention =
  mention_type_of :: mention_type
  mention_reason :: "pystr option"

record primary_reply =
  reply_kind_of :: reply_kind
  reply_text :: pystr
  reply_mentions :: "reply_mention list"

datatype outbound_action =
    SendMaterialPackAction (oa_action_id: pystr) (oa_resolve_ref: pystr) "pystr option"
  | SendWeeklyReportAction (oa_action_id: pystr) (oa_resolve_ref: pystr) pystr pystr
  | SendMonthlyReportAction (oa_action_id: pystr) (oa_resolve_ref: pystr) pystr pystr

fun oa_type :: "outbound_action \<Rightarrow> action_execution_type" where
  "oa_type (SendMaterialPackAction _ _ _) = Send_material_pack"
| "oa_type (SendWeeklyReportAction _ _ _ _) = Send_weekly_report"
| "oa_type (SendMonthlyReportAction _ _ _ _) = Send_monthly_report"

text \<open>\<open>getattr(action, name, None)\<close> for the fields that only some actions have.\<close>

fun oa_material_pack_option :: "outbound_action \<Rightarrow> pystr option" where
  "oa_material_pack_option (SendMaterialPackAction _ _ opt) = opt"
| "oa_material_pack_option _ = None"

fun oa_period :: "outbound_action \<Rightarrow> pystr option" where
  "oa_period (SendMaterialPackAction _ _ _) = None"
| "oa_period (SendWeeklyReportAction _ _ period _) = Some period"
| "oa_period (SendMonthlyReportAction _ _ period _) = Some period"

fun oa_report_date :: "outbound_action \<Rightarrow> pystr option" where
  "oa_report_date (SendMaterialPackAction _ _ _) = None"
| "oa_report_date (SendWeeklyReportAction _ _ _ d) = Some d"
| "oa_report_date (SendMonthlyReportAction _ _ _ d) = Some d"

fun with_action_id :: "outbound_action \<Rightarrow> pystr \<Rightarrow> outbound_action" where
  "with_action_id (SendMaterialPackAction _ r opt) i = SendMaterialPackAction i r opt"
| "with_action_id (SendWeeklyReportAction _ r p d) i = SendWeeklyReportAction i r p d"
| "with_action_id (SendMonthlyReportAction _ r p d) i = SendMonthlyReportAction i r p d"

record reply_response =
  resp_id :: pystr
  resp_reply :: primary_reply
  resp_actions :: "outbound_action list"

section \<open>Validators\<close>

definition reject_raw_locator_text :: "pystr option \<Rightarrow> pystr \<Rightarrow> unit result" where
  "reject_raw_locator_text v field_name =
     (case v of
        None \<Rightarrow> Inr ()
      | Some s \<Rightarrow>
          if s = [] then Inr ()
          else raise_if (py_in ''://'' s \<or> py_in ''/'' s \<or> py_in [CHR 0x5C] s \<or> py_in ''file:'' s
                          \<or> startswith s ''~'')
                 (ValueError (field_name @ '' contains raw locator values'')))"

definition validate_no_reply_shape :: "primary_reply \<Rightarrow> primary_reply result" where
  "validate_no_reply_shape r =
     (if reply_kind_of r = Reply_no_reply \<and> (py_strip (reply_text r) \<noteq> [] \<or> reply_mentions r \<noteq> [])
      then Inl (ValueError ''no_reply must not include text or mentions'') else Inr r)"

fun validate_outbound_action :: "outbound_action \<Rightarrow> outbound_action result" where
  "validate_outbound_action (SendMaterialPackAction i r opt) =
     (if r = [] then Inl (ValueError ''resolve_ref'')
      else res_bind (reject_raw_locator_text (Some r) ''resolve_ref'')
             (\<lambda>_. Inr (SendMaterialPackAction i r opt)))"
| "validate_outbound_action (SendWeeklyReportAction i r p d) =
     (if r = [] then Inl (ValueError ''resolve_ref'')
      else res_bind (reject_raw_locator_text (Some r) ''resolve_ref'')
             (\<lambda>_. if p = [] then Inl (ValueError ''period'')
                  else if d = [] then Inl (ValueError ''report_date'')
                  else Inr (SendWeeklyReportAction i r p d)))"
| "validate_outbound_action (SendMonthlyReportAction i r p d) =
     (if r = [] then Inl (ValueError ''resolve_ref'')
      else res_bind (reject_raw_locator_text (Some r) ''resolve_ref'')
             (\<lambda>_. if p = [] then Inl (ValueError ''period'')
                  else if d = [] then Inl (ValueError ''report_date'')
                  else Inr (SendMonthlyReportAction i r p d)))"

definition validate_reply_response :: "reply_response \<Rightarrow> reply_response result" where
  "validate_reply_response r =
     res_bind (validate_no_reply_shape (resp_reply r)) (\<lambda>reply.
     res_bind (map_res validate_outbound_action (resp_actions r)) (\<lambda>actions.
       if reply_kind_of reply = Reply_no_reply \<and> actions \<noteq> []
       then Inl (ValueError ''no_reply must not include outbound actions'')
       else Inr (r\<lparr>resp_reply := reply, resp_actions := actions\<rparr>)))"

lemma with_action_id_simps [simp]:
  "oa_action_id (with_action_id a i) = i"
  "oa_type (with_action_id a i) = oa_type a"
  "oa_resolve_ref (with_action_id a i) = oa_resolve_ref a"
  by (cases a; simp)+

lemma validate_outbound_action_Inr: "validate_outbound_action a = Inr b \<Longrightarrow> b = a"
  by (cases a) (auto simp: res_simps split: if_splits)

lemma reject_raw_locator_text_ok:
  "reject_raw_locator_text (Some s) f = Inr u \<Longrightarrow> CHR ''/'' \<notin> set s \<and> CHR 0x5C \<notin> set s"
proof -
  assume ok: "reject_raw_locator_text (Some s) f = Inr u"
  have "py_in [c] s" if "c \<in> set s" for c
    using that by (metis append_Cons append_Nil py_in_iff split_list)
  with ok show ?thesis
    by (cases u) (auto simp: reject_raw_locator_text_def split: if_splits)
qed

end
