(* ===== verification/Audit_Validation.thy ===== *)
theory Audit_Validation
  imports Identity Reply_Schema
begin

text \<open>
  The registries and checks of \<open>runtime/state/audit_types.py\<close> and \<open>runtime/state/audit_validation.py\<close>.
  A \<open>Literal\<close> type is a \<open>str\<close> and the list of its members; the run-time checks of the code are what
  keeps a value inside it.
\<close>

section \<open>Registries\<close>

definition registered_reason_codes :: "pystr list" where
  "registered_reason_codes =
     [''action_not_allowed_by_policy'', ''action_ready'',
      ''action_ready_answer_evidence_missing'', ''action_evidence_missing'',
      ''action_ready_with_clarification'', ''action_ready_with_deterministic_answer'',
      ''action_ready_with_knowledge_evidence'', ''action_resolve_unavailable'',
      ''action_unavailable_with_knowledge_evidence'', ''adapter_report_scope_error'',
      ''adapter_report_scope_match_error'', ''adapter_report_scope_products_error'',
      ''alignment_remediation_limit'', ''alignment_replan_failed'',
      ''alignment_return_clarification'', ''alignment_return_clarification_failed'',
      ''alignment_return_unable'', ''alignment_verifier_failed'', ''ambiguous_action_resolve'',
      ''ambiguous_request'', ''answerability_missing_evidence'', ''compliant_product_request'',
      ''customer_service_request'', ''direct_human_handoff'', ''direct_send_command_matched'',
      ''document_context_empty_after_sanitization'', ''document_context_missing'',
      ''document_context_not_found'', ''document_mcp_channel_forbidden'',
      ''document_mcp_disabled'', ''document_mcp_error'', ''document_mcp_policy_forbidden'',
      ''empty_message'', ''empty_query'', ''handoff_requested'', ''insufficient_evidence'',
      ''intent_gate_not_knowledge_like'', ''internal_error'', ''knowledge_answer_composer'',
      ''knowledge_evidence_available'', ''material_pack_option_confirmation_required'',
      ''missing_action_intent'', ''missing_resolve_ref'', ''no_candidate_question_overlap'',
      ''no_match'', ''no_reply'', ''product_list_evidence_missing'', ''qa_entry_corpus_empty'',
      ''qa_entry_corpus_invalid'', ''qa_entry_parse_error'', ''question_recall_hit'',
      ''report_period_metadata_available'', ''sales_mention_unavailable'',
      ''send_scope_conflict'', ''smalltalk_composer'', ''smalltalk_requires_composer'',
      ''t0_human_support_required'', ''composer_not_available'', ''composer_output_rejected'',
      ''expected_or_target_return'', ''principal_or_risk_guarantee'',
      ''peer_or_competitor_comparison'', ''private_contact_request'',
      ''contract_or_restricted_document'', ''restricted_internal_document'',
      ''fee_waiver_request'', ''qualified_investor_or_threshold'', ''unrelated_request'',
      ''unknown'', ''unsupported_action_intent'']"

definition direct_audit_reason_codes :: "pystr list" where
  "direct_audit_reason_codes =
     [''compliant_product_request'', ''customer_service_request'', ''expected_or_target_return'',
      ''principal_or_risk_guarantee'', ''peer_or_competitor_comparison'',
      ''private_contact_request'', ''contract_or_restricted_document'',
      ''restricted_internal_document'', ''fee_waiver_request'',
      ''qualified_investor_or_threshold'', ''unrelated_request'', ''unknown'',
      ''ambiguous_request'', ''direct_human_handoff'', ''no_reply'',
      ''knowledge_answer_composer'', ''smalltalk_composer'', ''composer_not_available'',
      ''composer_output_rejected'', ''insufficient_evidence'']"

definition registered_audit_stages :: "pystr list" where
  "registered_audit_stages =
     [''planner_intent'', ''knowledge_composer'', ''smalltalk_composer'', ''alignment_verifier'',
      ''approved_knowledge_selector'', ''document_product_selector'']"

definition registered_target_slots :: "pystr list" where
  "registered_target_slots =
     [''planner'', ''composer'', ''selector'']"

definition registered_audit_statuses :: "pystr list" where
  "registered_audit_statuses =
     [''success'', ''validation_error'', ''output_contract_error'', ''transport_error'']"

definition direct_redaction_flags :: "pystr list" where
  "direct_redaction_flags =
     [''raw_request_omitted'', ''raw_identity_omitted'', ''raw_content_omitted'',
      ''unkeyed_hashes_omitted'', ''locators_omitted'', ''provider_errors_omitted'',
      ''marker_names_omitted'']"

definition direct_audit_purposes :: "pystr list" where
  "direct_audit_purposes =
     [''message'', ''request_id'', ''request'', ''reply'', ''evidence'', ''directive'', ''plan'',
      ''planner_input'', ''planner_output'', ''composer_input'', ''composer_output'',
      ''verifier_input'', ''verifier_output'', ''approved_selector_input'',
      ''approved_selector_output'', ''document_selector_input'', ''document_selector_output'']"

definition direct_audit_length_purposes :: "pystr list" where
  "direct_audit_length_purposes =
     [''message_chars'', ''message_bytes'', ''reply_chars'', ''reply_bytes'', ''evidence_count'',
      ''manifest_count'', ''invocation_count'']"

definition direct_dependency_names :: "pystr list" where
  "direct_dependency_names =
     [''adapter_capability'', ''adapter_readiness'', ''adapter_business'', ''recall_static'',
      ''recall_document'', ''evidence'', ''planner'', ''knowledge_composer'',
      ''smalltalk_composer'', ''alignment_verifier'', ''approved_selector'',
      ''document_selector'']"

fun reply_kind_str :: "reply_kind \<Rightarrow> pystr" where
  "reply_kind_str Reply_answer = ''answer''"
| "reply_kind_str Reply_clarification = ''clarification''"
| "reply_kind_str Reply_human_handoff = ''human_handoff''"
| "reply_kind_str Reply_unable_to_answer = ''unable_to_answer''"
| "reply_kind_str Reply_no_reply = ''no_reply''"

definition registered_reply_kinds :: "pystr list" where
  "registered_reply_kinds =
     [''answer'', ''clarification'', ''human_handoff'', ''unable_to_answer'', ''no_reply'']"

definition validation_error_by_stage :: "(pystr \<times> pystr) list" where
  "validation_error_by_stage =
     [(''planner_intent'', ''planner_plan_validation_failed''),
      (''knowledge_composer'', ''knowledge_composer_reply_validation_failed''),
      (''smalltalk_composer'', ''smalltalk_composer_reply_validation_failed''),
      (''alignment_verifier'', ''alignment_verifier_verdict_validation_failed''),
      (''approved_knowledge_selector'', ''approved_selector_validation_failed''),
      (''document_product_selector'', ''document_selector_validation_failed'')]"

definition output_contract_errors :: "pystr list" where
  "output_contract_errors =
     [''provider_output_missing'', ''provider_output_type'', ''provider_output_encoding'',
      ''provider_output_too_large'', ''provider_output_contract'']"

definition transport_errors :: "pystr list" where
  "transport_errors =
     [''provider_timeout'', ''provider_auth_failed'', ''provider_rate_limited'',
      ''provider_http_error'', ''provider_transport_unavailable'', ''provider_internal_error'',
      ''direct_provider_stdio_violation'']"

definition program_stage_by_id :: "(pystr \<times> pystr) list" where
  "program_stage_by_id =
     [(''planner_intent.wecom_group.v1@1'', ''planner_intent''),
      (''knowledge_composer.wecom_group.v1@1'', ''knowledge_composer''),
      (''smalltalk_composer.wecom_group.v1@1'', ''smalltalk_composer''),
      (''alignment_verifier.wecom_group.v1@1'', ''alignment_verifier''),
      (''planner_intent.wecom_direct.v1@1'', ''planner_intent''),
      (''knowledge_composer.wecom_direct.v1@1'', ''knowledge_composer''),
      (''smalltalk_composer.wecom_direct.v1@1'', ''smalltalk_composer''),
      (''alignment_verifier.wecom_direct.v1@1'', ''alignment_verifier''),
      (''approved_knowledge_selector.scene_neutral.v1@1'', ''approved_knowledge_selector''),
      (''document_product_selector.scene_neutral.v1@1'', ''document_product_selector'')]"

definition group_audit_program_ids :: "pystr list" where
  "group_audit_program_ids =
     filter (\<lambda>key. py_in ''wecom_group'' key \<or> py_in ''scene_neutral'' key) (map fst program_stage_by_id)"

definition direct_audit_program_ids :: "pystr list" where
  "direct_audit_program_ids =
     filter (\<lambda>key. py_in ''wecom_direct'' key \<or> py_in ''scene_neutral'' key) (map fst program_stage_by_id)"

section \<open>Checks\<close>

definition validate_registered_reason_code :: "pystr \<Rightarrow> unit result" where
  "validate_registered_reason_code reason_code =
     raise_if (reason_code \<notin> set registered_reason_codes)
       (ValueError ''audit reason_code is not registered'')"

definition validate_direct_audit_reason_code :: "pystr \<Rightarrow> unit result" where
  "validate_direct_audit_reason_code reason_code =
     raise_if (reason_code \<notin> set direct_audit_reason_codes)
       (ValueError ''direct audit reason_code is not registered'')"

definition validate_registered_reply_kind :: "reply_kind \<Rightarrow> unit result" where
  "validate_registered_reply_kind kind =
     raise_if (reply_kind_str kind \<notin> set registered_reply_kinds)
       (ValueError ''audit reply_kind is not registered'')"

definition expected_target_slot :: "pystr \<Rightarrow> pystr" where
  "expected_target_slot stage =
     (if stage = ''planner_intent'' then ''planner''
      else if stage \<in> {''approved_knowledge_selector'', ''document_product_selector''} then ''selector''
      else ''composer'')"

definition member_opt :: "'a option \<Rightarrow> 'a list \<Rightarrow> bool" where
  "member_opt v xs = (case v of None \<Rightarrow> False | Some x \<Rightarrow> x \<in> set xs)"

definition validate_program_audit_labels ::
  "int \<Rightarrow> pystr \<Rightarrow> pystr \<Rightarrow> pystr \<Rightarrow> pystr \<Rightarrow> int \<Rightarrow> int \<Rightarrow> int option \<Rightarrow> pystr option \<Rightarrow> unit result" where
  "validate_program_audit_labels ordinal stage program_id target_slot status latency_ms input_bytes
       output_bytes error_code =
     seq_res
      [raise_if (ordinal < 1) (ValueError ''audit ordinal must be positive''),
       raise_if (stage \<notin> set registered_audit_stages) (ValueError ''audit stage is not registered''),
       raise_if (map_of program_stage_by_id program_id \<noteq> Some stage)
         (ValueError ''audit program_id does not match a registered stage''),
       raise_if (target_slot \<notin> set registered_target_slots)
         (ValueError ''audit target_slot is not registered''),
       raise_if (target_slot \<noteq> expected_target_slot stage)
         (ValueError ''audit target_slot is not allowed for stage''),
       raise_if (status \<notin> set registered_audit_statuses)
         (ValueError ''audit status is not registered''),
       raise_if (latency_ms < 0 \<or> input_bytes < 0
                 \<or> (case output_bytes of None \<Rightarrow> False | Some n \<Rightarrow> n < 0))
         (ValueError ''audit counts must be non-negative''),
       (if status = ''success'' then
          raise_if (error_code \<noteq> None)
            (ValueError ''successful audit invocation cannot have an error_code'')
        else if status = ''validation_error'' then
          raise_if (error_code \<noteq> map_of validation_error_by_stage stage)
            (ValueError ''audit validation error_code does not match stage'')
        else if status = ''output_contract_error'' then
          raise_if (\<not> member_opt error_code output_contract_errors)
            (ValueError ''audit output contract error_code is not registered'')
        else if status = ''transport_error'' then
          raise_if (\<not> member_opt error_code transport_errors)
            (ValueError ''audit transport error_code is not registered'')
        else Inl (AssertionError ''unreachable audit status''))]"

definition validate_audit_program_scene :: "pystr list \<Rightarrow> pystr list \<Rightarrow> unit result" where
  "validate_audit_program_scene program_ids allowed_program_ids =
     raise_if (list_ex (\<lambda>p. p \<notin> set allowed_program_ids) program_ids)
       (ValueError ''audit program_id is not registered for the audit scene'')"

definition validate_audit_manifest_refs :: "pystr list \<Rightarrow> unit result" where
  "validate_audit_manifest_refs manifest_refs =
     seq_res
      [raise_if (length manifest_refs > 4 \<or> \<not> distinct manifest_refs)
         (ValueError ''audit manifest refs are not canonical''),
       raise_if (list_ex (\<lambda>ref. ref = [] \<or> length ref > 160) manifest_refs)
         (ValueError ''audit manifest ref is invalid'')]"

definition validate_direct_audit_digest :: "pystr \<Rightarrow> unit result" where
  "validate_direct_audit_digest v =
     seq_res
      [raise_if (length v \<noteq> 69 \<or> \<not> startswith v ''dah1:'')
         (ValueError ''direct audit digest must be dah1''),
       raise_if (list_ex (\<lambda>c. \<not> is_lower_hex c) (drop 5 v))
         (ValueError ''direct audit digest must be dah1'')]"

definition validate_prefixed_digest :: "pystr \<Rightarrow> pystr \<Rightarrow> unit result" where
  "validate_prefixed_digest v prefix =
     (let expected_prefix = prefix @ '':'' in
      seq_res
       [raise_if (length v \<noteq> length expected_prefix + 64 \<or> \<not> startswith v expected_prefix)
          (ValueError ''group audit digest prefix is invalid''),
        raise_if (list_ex (\<lambda>c. \<not> is_lower_hex c) (drop (length expected_prefix) v))
          (ValueError ''group audit digest encoding is invalid'')])"

section \<open>What a check that passes shows\<close>

lemma direct_audit_digest_ok:
  "validate_direct_audit_digest v = Inr u \<longleftrightarrow> prefixed_hex ''dah1:'' 64 v"
  by (auto simp: validate_direct_audit_digest_def seq_res_Inr prefixed_hex_def list_ex_iff list_all_iff eval_nat_numeral)

lemma program_scene_ok:
  "validate_audit_program_scene ps allowed = Inr u \<longleftrightarrow> set ps \<subseteq> set allowed"
  by (auto simp: validate_audit_program_scene_def list_ex_iff)

lemma direct_program_ids_no_group:
  "p \<in> set direct_audit_program_ids \<Longrightarrow> \<not> py_in ''wecom_group'' p"
  by (auto simp: direct_audit_program_ids_def program_stage_by_id_def startswith_def)

end
