(* ===== verification/Audit_Records.thy ===== *)
theory Audit_Records
  imports Audit_Validation
begin

text \<open>
  Audit records: \<open>runtime/state/audit_program_records.py\<close>, \<open>runtime/state/audit_records.py\<close> and
  \<open>build_audit_record\<close> of \<open>runtime/state/coordinator_audit.py\<close>. A dataclass with a \<open>__post_init__\<close> is
  a record and a check of it; building one is \<open>checked check r\<close>, which returns \<open>r\<close> or the exception.
  The digests of a direct conversation are keyed (\<open>dah1:\<close>), and its record is built from the
  proposal alone: neither the request id nor the state key of the commit reaches it.
\<close>

definition checked :: "('a \<Rightarrow> unit result) \<Rightarrow> 'a \<Rightarrow> 'a result" where
  "checked check r = res_bind (check r) (\<lambda>_. Inr r)"

lemma checked_Inr [res_simps]: "checked check r = Inr s \<longleftrightarrow> check r = Inr () \<and> s = r"
  by (auto simp: checked_def res_simps)

section \<open>Programs\<close>

record llm_invocation_audit_proposal =
  la_ordinal :: int
  la_stage :: pystr
  la_program_id :: pystr
  la_target_slot :: pystr
  la_status :: pystr
  la_latency_ms :: int
  la_input_bytes :: int
  la_output_bytes :: "int option"
  la_error_code :: "pystr option"
  la_logical_attempt :: int
  la_transport_attempt :: int
  la_program_version :: "pystr option"
  la_scene_key :: "pystr option"
  la_scene_contract_ref :: "pystr option"
  la_model_family :: "pystr option"
  la_provider_id :: "pystr option"
  la_transport_id :: "pystr option"
  la_input_schema_version :: "pystr option"
  la_output_schema_version :: "pystr option"
  la_osh1 :: "pystr option"
  la_poh1 :: "pystr option"
  la_hph1 :: "pystr option"
  la_prh1 :: "pystr option"
  la_input_digest :: "pystr option"
  la_output_digest :: "pystr option"

definition check_llm_invocation :: "llm_invocation_audit_proposal \<Rightarrow> unit result" where
  "check_llm_invocation p = seq_res
     [validate_program_audit_labels (la_ordinal p) (la_stage p) (la_program_id p) (la_target_slot p)
        (la_status p) (la_latency_ms p) (la_input_bytes p) (la_output_bytes p) (la_error_code p),
      raise_if (la_logical_attempt p < 1 \<or> la_transport_attempt p \<noteq> 1)
        (ValueError ''audit invocation attempts are invalid'')]"

record group_program_audit =
  gp_ordinal :: int
  gp_stage :: pystr
  gp_program_id :: pystr
  gp_program_version :: pystr
  gp_target_slot :: pystr
  gp_scene_key :: pystr
  gp_scene_contract_ref :: "pystr option"
  gp_model_family :: pystr
  gp_provider_id :: pystr
  gp_transport_id :: pystr
  gp_input_schema_version :: pystr
  gp_output_schema_version :: pystr
  gp_status :: pystr
  gp_latency_ms :: int
  gp_input_bytes :: int
  gp_output_bytes :: "int option"
  gp_error_code :: "pystr option"
  gp_osh1 :: pystr
  gp_poh1 :: pystr
  gp_hph1 :: pystr
  gp_prh1 :: pystr
  gp_input_digest :: pystr
  gp_output_digest :: "pystr option"
  gp_logical_attempt :: int
  gp_transport_attempt :: int

text \<open>The closing \<open>match\<close> of both records: a status with an output needs its digest and count.\<close>

definition check_program_output :: "pystr \<Rightarrow> pystr \<Rightarrow> pystr option \<Rightarrow> int option \<Rightarrow> unit result" where
  "check_program_output kind status output_digest output_bytes =
     (if status \<in> {''success'', ''validation_error''} then
        raise_if (output_digest = None \<or> output_bytes = None)
          (ValueError (kind @ '' successful audit requires output digest and count''))
      else if status \<in> {''output_contract_error'', ''transport_error''} then
        raise_if (output_digest \<noteq> None \<or> output_bytes \<noteq> None)
          (ValueError (kind @ '' failed audit forbids output digest and count''))
      else Inr ())"

definition check_group_program :: "group_program_audit \<Rightarrow> unit result" where
  "check_group_program g = seq_res
     ([validate_program_audit_labels (gp_ordinal g) (gp_stage g) (gp_program_id g) (gp_target_slot g)
         (gp_status g) (gp_latency_ms g) (gp_input_bytes g) (gp_output_bytes g) (gp_error_code g),
       raise_if (gp_logical_attempt g < 1 \<or> gp_transport_attempt g \<noteq> 1)
         (ValueError ''group program audit attempts are invalid''),
       raise_if (gp_scene_key g = ''wecom_group.v1'' \<and> gp_scene_contract_ref g = None)
         (ValueError ''group user-facing program requires scene contract ref''),
       raise_if (gp_scene_key g = ''scene_neutral.v1'' \<and> gp_scene_contract_ref g \<noteq> None)
         (ValueError ''group neutral program forbids scene contract ref'')]
      @ map (\<lambda>(v, prefix). validate_prefixed_digest v prefix)
          [(gp_osh1 g, ''osh1''), (gp_poh1 g, ''poh1''), (gp_hph1 g, ''hph1''),
           (gp_prh1 g, ''prh1''), (gp_input_digest g, ''mch1'')]
      @ [case gp_output_digest g of None \<Rightarrow> Inr () | Some d \<Rightarrow> validate_prefixed_digest d ''out1'',
         check_program_output ''group'' (gp_status g) (gp_output_digest g) (gp_output_bytes g)])"

record direct_program_audit =
  dp_ordinal :: int
  dp_logical_attempt :: int
  dp_transport_attempt :: int
  dp_stage :: pystr
  dp_program_id :: pystr
  dp_program_version :: pystr
  dp_target_slot :: pystr
  dp_scene_key :: pystr
  dp_scene_contract_ref :: "pystr option"
  dp_model_family :: pystr
  dp_provider_id :: pystr
  dp_transport_id :: pystr
  dp_input_schema_version :: pystr
  dp_output_schema_version :: pystr
  dp_status :: pystr
  dp_latency_ms :: int
  dp_input_bytes :: int
  dp_output_bytes :: "int option"
  dp_error_code :: "pystr option"
  dp_input_digest :: pystr
  dp_output_digest :: "pystr option"

text \<open>\<open>output_bytes or 0\<close> in the call of the label check; \<open>redacted\<close> is the constant \<open>True\<close>.\<close>

definition check_direct_program :: "direct_program_audit \<Rightarrow> unit result" where
  "check_direct_program d = seq_res
     [validate_program_audit_labels (dp_ordinal d) (dp_stage d) (dp_program_id d) (dp_target_slot d)
        (dp_status d) (dp_latency_ms d) (dp_input_bytes d)
        (Some (case dp_output_bytes d of None \<Rightarrow> 0 | Some n \<Rightarrow> n)) (dp_error_code d),
      raise_if (dp_logical_attempt d < 1 \<or> dp_transport_attempt d < 1)
        (ValueError ''direct program audit attempts must be positive''),
      raise_if (dp_scene_key d = ''wecom_direct.v1'' \<and> dp_scene_contract_ref d = None)
        (ValueError ''direct user-facing program requires scene contract ref''),
      raise_if (dp_scene_key d = ''scene_neutral.v1'' \<and> dp_scene_contract_ref d \<noteq> None)
        (ValueError ''neutral direct program forbids scene contract ref''),
      validate_direct_audit_digest (dp_input_digest d),
      (case dp_output_digest d of None \<Rightarrow> Inr () | Some v \<Rightarrow> validate_direct_audit_digest v),
      check_program_output ''direct'' (dp_status d) (dp_output_digest d) (dp_output_bytes d)]"

section \<open>Commit proposals\<close>

record direct_audit_length =
  dl_purpose :: pystr
  dl_count :: int

definition check_direct_audit_length :: "direct_audit_length \<Rightarrow> unit result" where
  "check_direct_audit_length l =
     raise_if (dl_purpose l \<notin> set direct_audit_length_purposes \<or> dl_count l < 0)
       (ValueError ''direct audit length is invalid'')"

record direct_dependency_count =
  dd_name :: pystr
  dd_count :: int

definition check_direct_dependency_count :: "direct_dependency_count \<Rightarrow> unit result" where
  "check_direct_dependency_count c =
     raise_if (dd_name c \<notin> set direct_dependency_names \<or> dd_count c < 0)
       (ValueError ''direct audit dependency count is invalid'')"

record group_audit_commit_proposal =
  ga_reason_code :: pystr
  ga_manifest_refs :: "pystr list"
  ga_program_attempts :: "llm_invocation_audit_proposal list"

definition check_group_audit_commit_proposal :: "group_audit_commit_proposal \<Rightarrow> unit result" where
  "check_group_audit_commit_proposal g = seq_res
     [validate_registered_reason_code (ga_reason_code g),
      validate_audit_manifest_refs (ga_manifest_refs g),
      raise_if (length (ga_program_attempts g) > 18)
        (ValueError ''group audit proposal accepts at most 18 program attempts'')]"

record direct_audit_commit_proposal =
  da_state_key_digest :: pystr
  da_request_id_digest :: pystr
  da_reason_code :: pystr
  da_manifest_refs :: "pystr list"
  da_content_digests :: "(pystr \<times> pystr) list"
  da_lengths :: "direct_audit_length list"
  da_dependency_counts :: "direct_dependency_count list"
  da_static_registry_id :: pystr
  da_static_registry_version :: pystr
  da_program_attempts :: "llm_invocation_audit_proposal list"

definition check_content_digest :: "pystr \<times> pystr \<Rightarrow> unit result" where
  "check_content_digest = (\<lambda>(purpose, digest). seq_res
     [raise_if (purpose \<notin> set direct_audit_purposes)
        (ValueError ''direct audit content digest purpose is not registered''),
      validate_direct_audit_digest digest])"

definition check_direct_audit_commit_proposal :: "direct_audit_commit_proposal \<Rightarrow> unit result" where
  "check_direct_audit_commit_proposal d = seq_res
     ([validate_direct_audit_digest (da_state_key_digest d),
       validate_direct_audit_digest (da_request_id_digest d),
       validate_direct_audit_reason_code (da_reason_code d),
       validate_audit_manifest_refs (da_manifest_refs d),
       raise_if (length (da_program_attempts d) > 18)
         (ValueError ''direct audit proposal accepts at most 18 program attempts''),
       raise_if (length (da_content_digests d) > 36)
         (ValueError ''direct audit proposal accepts at most 36 content digests''),
       raise_if (length (da_lengths d) > 7)
         (ValueError ''direct audit proposal accepts at most 7 lengths''),
       raise_if (length (da_dependency_counts d) > 12)
         (ValueError ''direct audit proposal accepts at most 12 dependency counts'')]
      @ map check_content_digest (da_content_digests d))"

datatype audit_commit_proposal =
    GroupAuditCommitProposalV1 group_audit_commit_proposal
  | DirectAuditCommitProposalV1 direct_audit_commit_proposal

fun audit_proposal_kind :: "audit_commit_proposal \<Rightarrow> scene" where
  "audit_proposal_kind (GroupAuditCommitProposalV1 _) = SceneGroup"
| "audit_proposal_kind (DirectAuditCommitProposalV1 _) = SceneDirect"

section \<open>Records\<close>

record group_audit_record =
  gr_state_key :: conversation_state_key
  gr_response_id :: pystr
  gr_request_id :: pystr
  gr_reply_kind :: reply_kind
  gr_reason_code :: pystr
  gr_manifest_refs :: "pystr list"
  gr_programs :: "group_program_audit list"
  gr_created_at_epoch_ms :: int
  gr_expires_at_monotonic_ns :: int

definition check_group_audit_record :: "group_audit_record \<Rightarrow> unit result" where
  "check_group_audit_record r = seq_res
     [validate_registered_reply_kind (gr_reply_kind r),
      validate_registered_reason_code (gr_reason_code r),
      validate_audit_manifest_refs (gr_manifest_refs r),
      raise_if (length (gr_programs r) > 18)
        (ValueError ''group audit accepts at most 18 program records''),
      validate_audit_program_scene (map gp_program_id (gr_programs r)) group_audit_program_ids]"

record direct_audit_record =
  dr_state_key_digest :: pystr
  dr_response_id :: pystr
  dr_request_id_digest :: pystr
  dr_reply_kind :: reply_kind
  dr_reason_code :: pystr
  dr_programs :: "direct_program_audit list"
  dr_content_digests :: "(pystr \<times> pystr) list"
  dr_lengths :: "direct_audit_length list"
  dr_manifest_refs :: "pystr list"
  dr_dependency_counts :: "direct_dependency_count list"
  dr_static_registry_id :: pystr
  dr_static_registry_version :: pystr
  dr_created_at_epoch_ms :: int
  dr_expires_at_monotonic_ns :: int
  dr_redaction_flags :: "pystr list"

definition check_direct_audit_record :: "direct_audit_record \<Rightarrow> unit result" where
  "check_direct_audit_record r = seq_res
     ([validate_registered_reply_kind (dr_reply_kind r),
       validate_direct_audit_reason_code (dr_reason_code r),
       validate_direct_audit_digest (dr_state_key_digest r),
       raise_if (\<not> prefixed_hex ''resp-'' 32 (dr_response_id r))
         (ValueError ''direct audit response_id must be server-issued''),
       raise_if (length (dr_programs r) > 18)
         (ValueError ''direct audit accepts at most 18 program records''),
       raise_if (length (dr_content_digests r) > 36)
         (ValueError ''direct audit accepts at most 36 content digests''),
       raise_if (length (dr_lengths r) > 7) (ValueError ''direct audit accepts at most 7 lengths''),
       raise_if (length (dr_manifest_refs r) > 4)
         (ValueError ''direct audit accepts at most 4 manifest refs''),
       raise_if (length (dr_dependency_counts r) > 12)
         (ValueError ''direct audit accepts at most 12 dependency counts''),
       validate_audit_program_scene (map dp_program_id (dr_programs r)) direct_audit_program_ids,
       validate_direct_audit_digest (dr_request_id_digest r)]
      @ map check_content_digest (dr_content_digests r)
      @ [raise_if (dr_redaction_flags r \<noteq> direct_redaction_flags)
           (ValueError ''direct audit redaction_flags must be canonical'')])"

datatype audit_record =
    GroupAuditRecordV1 group_audit_record
  | DirectAuditRecordV1 direct_audit_record

fun ar_created_at_epoch_ms :: "audit_record \<Rightarrow> int" where
  "ar_created_at_epoch_ms (GroupAuditRecordV1 r) = gr_created_at_epoch_ms r"
| "ar_created_at_epoch_ms (DirectAuditRecordV1 r) = dr_created_at_epoch_ms r"

fun ar_expires_at_monotonic_ns :: "audit_record \<Rightarrow> int" where
  "ar_expires_at_monotonic_ns (GroupAuditRecordV1 r) = gr_expires_at_monotonic_ns r"
| "ar_expires_at_monotonic_ns (DirectAuditRecordV1 r) = dr_expires_at_monotonic_ns r"

section \<open>Building a record\<close>

definition required_group_field :: "'a option \<Rightarrow> pystr \<Rightarrow> 'a result" where
  "required_group_field v field_name =
     (case v of None \<Rightarrow> Inl (CoordinatorError (''group_audit_'' @ field_name @ ''_required''))
      | Some x \<Rightarrow> Inr x)"

definition required_group_scene :: "pystr option \<Rightarrow> pystr result" where
  "required_group_scene v =
     (case v of
        Some s \<Rightarrow> if s \<in> {''wecom_group.v1'', ''scene_neutral.v1''} then Inr s
                  else Inl (CoordinatorError ''group_audit_program_scene_invalid'')
      | None \<Rightarrow> Inl (CoordinatorError ''group_audit_program_scene_invalid''))"

definition required_direct_field :: "'a option \<Rightarrow> 'a result" where
  "required_direct_field v =
     (case v of None \<Rightarrow> Inl (CoordinatorError ''direct_audit_program_metadata_required'')
      | Some x \<Rightarrow> Inr x)"

definition required_direct_scene :: "pystr option \<Rightarrow> pystr result" where
  "required_direct_scene v =
     (case v of
        Some s \<Rightarrow> if s \<in> {''wecom_direct.v1'', ''scene_neutral.v1''} then Inr s
                  else Inl (CoordinatorError ''direct_audit_program_scene_invalid'')
      | None \<Rightarrow> Inl (CoordinatorError ''direct_audit_program_scene_invalid''))"

definition build_group_program :: "llm_invocation_audit_proposal \<Rightarrow> group_program_audit result" where
  "build_group_program item =
     res_bind (required_group_field (la_program_version item) ''program_version'') (\<lambda>program_version.
     res_bind (required_group_scene (la_scene_key item)) (\<lambda>scene_key.
     res_bind (required_group_field (la_model_family item) ''model_family'') (\<lambda>model_family.
     res_bind (required_group_field (la_provider_id item) ''provider_id'') (\<lambda>provider_id.
     res_bind (required_group_field (la_transport_id item) ''transport_id'') (\<lambda>transport_id.
     res_bind (required_group_field (la_input_schema_version item) ''input_schema_version'') (\<lambda>isv.
     res_bind (required_group_field (la_output_schema_version item) ''output_schema_version'') (\<lambda>osv.
     res_bind (required_group_field (la_osh1 item) ''osh1'') (\<lambda>osh1.
     res_bind (required_group_field (la_poh1 item) ''poh1'') (\<lambda>poh1.
     res_bind (required_group_field (la_hph1 item) ''hph1'') (\<lambda>hph1.
     res_bind (required_group_field (la_prh1 item) ''prh1'') (\<lambda>prh1.
     res_bind (required_group_field (la_input_digest item) ''input_digest'') (\<lambda>input_digest.
       checked check_group_program
         \<lparr>gp_ordinal = la_ordinal item, gp_stage = la_stage item, gp_program_id = la_program_id item,
          gp_program_version = program_version, gp_target_slot = la_target_slot item,
          gp_scene_key = scene_key, gp_scene_contract_ref = la_scene_contract_ref item,
          gp_model_family = model_family, gp_provider_id = provider_id,
          gp_transport_id = transport_id, gp_input_schema_version = isv,
          gp_output_schema_version = osv, gp_status = la_status item,
          gp_latency_ms = la_latency_ms item, gp_input_bytes = la_input_bytes item,
          gp_output_bytes = la_output_bytes item, gp_error_code = la_error_code item,
          gp_osh1 = osh1, gp_poh1 = poh1, gp_hph1 = hph1, gp_prh1 = prh1,
          gp_input_digest = input_digest, gp_output_digest = la_output_digest item,
          gp_logical_attempt = la_logical_attempt item,
          gp_transport_attempt = la_transport_attempt item\<rparr>))))))))))))"

definition build_direct_program :: "llm_invocation_audit_proposal \<Rightarrow> direct_program_audit result" where
  "build_direct_program item =
     res_bind (required_direct_field (la_program_version item)) (\<lambda>program_version.
     res_bind (required_direct_scene (la_scene_key item)) (\<lambda>scene_key.
     res_bind (required_direct_field (la_model_family item)) (\<lambda>model_family.
     res_bind (required_direct_field (la_provider_id item)) (\<lambda>provider_id.
     res_bind (required_direct_field (la_transport_id item)) (\<lambda>transport_id.
     res_bind (required_direct_field (la_input_schema_version item)) (\<lambda>isv.
     res_bind (required_direct_field (la_output_schema_version item)) (\<lambda>osv.
     res_bind (required_direct_field (la_input_digest item)) (\<lambda>input_digest.
       checked check_direct_program
         \<lparr>dp_ordinal = la_ordinal item, dp_logical_attempt = la_logical_attempt item,
          dp_transport_attempt = la_transport_attempt item, dp_stage = la_stage item,
          dp_program_id = la_program_id item, dp_program_version = program_version,
          dp_target_slot = la_target_slot item, dp_scene_key = scene_key,
          dp_scene_contract_ref = la_scene_contract_ref item, dp_model_family = model_family,
          dp_provider_id = provider_id, dp_transport_id = transport_id,
          dp_input_schema_version = isv, dp_output_schema_version = osv,
          dp_status = la_status item, dp_latency_ms = la_latency_ms item,
          dp_input_bytes = la_input_bytes item,
          dp_output_bytes = (if la_status item \<in> {''success'', ''validation_error''}
                             then la_output_bytes item else None),
          dp_error_code = la_error_code item, dp_input_digest = input_digest,
          dp_output_digest = la_output_digest item\<rparr>))))))))"

fun build_audit_record ::
  "audit_commit_proposal \<Rightarrow> conversation_state_key \<Rightarrow> pystr \<Rightarrow> pystr \<Rightarrow> reply_kind \<Rightarrow> int \<Rightarrow> int
   \<Rightarrow> audit_record result" where
  "build_audit_record (GroupAuditCommitProposalV1 p) state_key response_id request_id kind
       created_at_epoch_ms expires_at_monotonic_ns =
     res_bind (map_res build_group_program (ga_program_attempts p)) (\<lambda>programs.
     res_bind (checked check_group_audit_record
       \<lparr>gr_state_key = state_key, gr_response_id = response_id, gr_request_id = request_id,
        gr_reply_kind = kind, gr_reason_code = ga_reason_code p,
        gr_manifest_refs = ga_manifest_refs p, gr_programs = programs,
        gr_created_at_epoch_ms = created_at_epoch_ms,
        gr_expires_at_monotonic_ns = expires_at_monotonic_ns\<rparr>) (\<lambda>r.
       Inr (GroupAuditRecordV1 r)))"
| "build_audit_record (DirectAuditCommitProposalV1 p) state_key response_id request_id kind
       created_at_epoch_ms expires_at_monotonic_ns =
     res_bind (map_res build_direct_program (da_program_attempts p)) (\<lambda>programs.
     res_bind (checked check_direct_audit_record
       \<lparr>dr_state_key_digest = da_state_key_digest p, dr_response_id = response_id,
        dr_request_id_digest = da_request_id_digest p, dr_reply_kind = kind,
        dr_reason_code = da_reason_code p, dr_programs = programs,
        dr_content_digests = da_content_digests p, dr_lengths = da_lengths p,
        dr_manifest_refs = da_manifest_refs p, dr_dependency_counts = da_dependency_counts p,
        dr_static_registry_id = da_static_registry_id p,
        dr_static_registry_version = da_static_registry_version p,
        dr_created_at_epoch_ms = created_at_epoch_ms,
        dr_expires_at_monotonic_ns = expires_at_monotonic_ns,
        dr_redaction_flags =
          [''raw_request_omitted'', ''raw_identity_omitted'', ''raw_content_omitted'',
           ''unkeyed_hashes_omitted'', ''locators_omitted'', ''provider_errors_omitted'',
           ''marker_names_omitted'']\<rparr>) (\<lambda>r.
       Inr (DirectAuditRecordV1 r)))"

lemma build_audit_record_scene:
  "build_audit_record p k resp req kind c e = Inr a \<Longrightarrow>
     (case a of GroupAuditRecordV1 _ \<Rightarrow> SceneGroup | DirectAuditRecordV1 _ \<Rightarrow> SceneDirect)
       = audit_proposal_kind p"
  by (cases p) (auto simp: res_simps)

lemma build_audit_record_times:
  "build_audit_record p k resp req kind c e = Inr a \<Longrightarrow>
     ar_created_at_epoch_ms a = c \<and> ar_expires_at_monotonic_ns a = e"
  by (cases p) (auto simp: res_simps)

lemma direct_program_checked:
  "build_direct_program item = Inr d \<Longrightarrow> check_direct_program d = Inr ()"
  unfolding build_direct_program_def by (auto simp: res_simps)

lemma check_direct_program_digests:
  "check_direct_program d = Inr () \<Longrightarrow> prefixed_hex ''dah1:'' 64 (dp_input_digest d)
     \<and> (\<forall>v. dp_output_digest d = Some v \<longrightarrow> prefixed_hex ''dah1:'' 64 v)"
  by (auto simp: check_direct_program_def seq_res_Inr direct_audit_digest_ok)

text \<open>C16 A direct audit record that is built carries keyed digests only (of the state key, of the
  request id, of each content item and of each program input and output), a server-issued response
  id, the canonical redaction flags and programs of the direct or neutral scenes, and it does not
  depend on the raw state key or request id of the commit.\<close>
theorem direct_audit_record_redacted:
  assumes "build_audit_record (DirectAuditCommitProposalV1 p) state_key rid request_id kind c e
    = Inr (DirectAuditRecordV1 r)"
  shows "prefixed_hex ''dah1:'' 64 (dr_state_key_digest r)
    \<and> prefixed_hex ''dah1:'' 64 (dr_request_id_digest r)
    \<and> (\<forall>(purpose, digest)\<in>set (dr_content_digests r).
          purpose \<in> set direct_audit_purposes \<and> prefixed_hex ''dah1:'' 64 digest)
    \<and> (\<forall>d\<in>set (dr_programs r). prefixed_hex ''dah1:'' 64 (dp_input_digest d)
          \<and> (\<forall>v. dp_output_digest d = Some v \<longrightarrow> prefixed_hex ''dah1:'' 64 v)
          \<and> \<not> py_in ''wecom_group'' (dp_program_id d))
    \<and> prefixed_hex ''resp-'' 32 (dr_response_id r)
    \<and> dr_redaction_flags r = direct_redaction_flags
    \<and> (\<forall>state_key' request_id'.
          build_audit_record (DirectAuditCommitProposalV1 p) state_key' rid request_id' kind c e
            = Inr (DirectAuditRecordV1 r))"
proof -
  from assms have chk: "check_direct_audit_record r = Inr ()"
    and progs: "list_all2 (\<lambda>x y. build_direct_program x = Inr y) (da_program_attempts p) (dr_programs r)"
    by (auto simp: res_simps map_res_Inr_list_all2)
  have "check_direct_program d = Inr ()" if "d \<in> set (dr_programs r)" for d
    using progs that by (auto simp: list_all2_conv_all_nth in_set_conv_nth dest: direct_program_checked)
  moreover have "\<not> py_in ''wecom_group'' (dp_program_id d)" if "d \<in> set (dr_programs r)" for d
  proof (rule direct_program_ids_no_group)
    from chk have "validate_audit_program_scene (map dp_program_id (dr_programs r))
        direct_audit_program_ids = Inr ()"
      by (simp add: check_direct_audit_record_def seq_res_Inr)
    with that show "dp_program_id d \<in> set direct_audit_program_ids" by (auto simp: program_scene_ok)
  qed
  moreover from chk have
    "(\<forall>x\<in>set (dr_content_digests r). check_content_digest x = Inr ())
     \<and> prefixed_hex ''dah1:'' 64 (dr_state_key_digest r)
     \<and> prefixed_hex ''dah1:'' 64 (dr_request_id_digest r)
     \<and> prefixed_hex ''resp-'' 32 (dr_response_id r)
     \<and> dr_redaction_flags r = direct_redaction_flags"
    by (simp add: check_direct_audit_record_def seq_res_Inr direct_audit_digest_ok)
  ultimately show ?thesis
    using assms
    by (auto simp: check_content_digest_def seq_res_Inr direct_audit_digest_ok
        dest: check_direct_program_digests)
qed

end
