(* ===== verification/Conversation_Schema.thy ===== *)
theory Conversation_Schema
  imports Identity Reply_Schema
begin

text \<open>
  The request contract: \<open>schemas/conversation.py\<close>, and its normalisation into a verified envelope,
  \<open>runtime/identity/normalizer.py\<close>.

  Pydantic refuses a value when one of its validators does and collects their messages; every
  caller maps the refusal to one status, so a model keeps the message of the first. A validator that
  rewrites its field (\<open>strip\<close>, \<open>sorted\<close>) returns the rewritten value.
\<close>

section \<open>Opaque references\<close>

definition opaque_token_char :: "char \<Rightarrow> bool" where
  "opaque_token_char c = (is_alnum c \<or> c \<in> set ''._~-'')"

definition opaque_ref_pattern :: "pystr \<Rightarrow> bool" where
  "opaque_ref_pattern s =
     (case s of [] \<Rightarrow> False
      | c # cs \<Rightarrow> is_alnum c \<and> length cs \<le> 127 \<and> list_all opaque_token_char cs)"

definition reserved_opaque_tokens :: "pystr list" where
  "reserved_opaque_tokens =
     [''unknown'', ''none'', ''null'', ''placeholder'', ''na'', ''-'', ''0'']"

definition validate_prefixed_opaque_ref :: "pystr \<Rightarrow> pystr \<Rightarrow> pystr \<Rightarrow> pystr result" where
  "validate_prefixed_opaque_ref v prefix field_name =
     (let trimmed = py_strip v in
      if trimmed \<noteq> v \<or> list_ex (\<lambda>c. c < CHR 0x20) trimmed
      then Inl (ValueError (field_name @ '' must be a trimmed opaque ref''))
      else if \<not> startswith trimmed prefix
      then Inl (ValueError (field_name @ '' must start with '' @ prefix))
      else let token = drop (length prefix) trimmed in
        if \<not> opaque_ref_pattern token \<or> lower_ascii token \<in> set reserved_opaque_tokens
           \<or> token = ''contract-probe'' \<or> startswith token ''contract-probe-''
        then Inl (ValueError (field_name @ '' must be a valid opaque ref''))
        else Inr trimmed)"

definition validate_canonical_tenant_ref :: "pystr \<Rightarrow> pystr result" where
  "validate_canonical_tenant_ref v = validate_prefixed_opaque_ref v ''tenant:'' ''tenant_ref''"

section \<open>Identity, presentation, scope and grants\<close>

datatype conversation_identity =
    GroupConversationIdentityV1 pystr pystr pystr
  | DirectConversationIdentityV1 pystr pystr pystr

fun ci_scene :: "conversation_identity \<Rightarrow> scene" where
  "ci_scene (GroupConversationIdentityV1 _ _ _) = SceneGroup"
| "ci_scene (DirectConversationIdentityV1 _ _ _) = SceneDirect"

fun ci_tenant_ref :: "conversation_identity \<Rightarrow> pystr" where
  "ci_tenant_ref (GroupConversationIdentityV1 t _ _) = t"
| "ci_tenant_ref (DirectConversationIdentityV1 t _ _) = t"

fun ci_subject_ref :: "conversation_identity \<Rightarrow> pystr" where
  "ci_subject_ref (GroupConversationIdentityV1 _ group_ref _) = group_ref"
| "ci_subject_ref (DirectConversationIdentityV1 _ direct_thread_ref _) = direct_thread_ref"

fun ci_principal_ref :: "conversation_identity \<Rightarrow> pystr" where
  "ci_principal_ref (GroupConversationIdentityV1 _ _ p) = p"
| "ci_principal_ref (DirectConversationIdentityV1 _ _ p) = p"

fun validate_conversation_identity :: "conversation_identity \<Rightarrow> conversation_identity result" where
  "validate_conversation_identity (GroupConversationIdentityV1 t g p) =
     res_bind (validate_canonical_tenant_ref t) (\<lambda>t.
     res_bind (validate_prefixed_opaque_ref g ''group:'' ''group_ref'') (\<lambda>g.
     res_bind (validate_prefixed_opaque_ref p ''principal:'' ''principal_ref'') (\<lambda>p.
       Inr (GroupConversationIdentityV1 t g p))))"
| "validate_conversation_identity (DirectConversationIdentityV1 t d p) =
     res_bind (validate_canonical_tenant_ref t) (\<lambda>t.
     res_bind (validate_prefixed_opaque_ref d ''direct:'' ''direct_thread_ref'') (\<lambda>d.
     res_bind (validate_prefixed_opaque_ref p ''principal:'' ''principal_ref'') (\<lambda>p.
       Inr (DirectConversationIdentityV1 t d p))))"

datatype presentation =
    GroupPresentationV1 pystr pystr
  | DirectPresentationV1 "pystr option"

definition length_within :: "nat \<Rightarrow> nat \<Rightarrow> pystr \<Rightarrow> bool" where
  "length_within lo hi s = (lo \<le> length s \<and> length s \<le> hi)"

fun validate_presentation :: "presentation \<Rightarrow> presentation result" where
  "validate_presentation (GroupPresentationV1 conversation_name principal_name) =
     (if \<not> length_within 1 120 conversation_name then Inl (ValueError ''conversation_name'')
      else if \<not> length_within 1 80 principal_name then Inl (ValueError ''principal_name'')
      else Inr (GroupPresentationV1 conversation_name principal_name))"
| "validate_presentation (DirectPresentationV1 None) = Inr (DirectPresentationV1 None)"
| "validate_presentation (DirectPresentationV1 (Some principal_name)) =
     (if \<not> length_within 1 80 principal_name then Inl (ValueError ''principal_name'')
      else Inr (DirectPresentationV1 (Some principal_name)))"

datatype artifact_type = Artifact_material_pack | Artifact_weekly_report | Artifact_monthly_report

datatype channel_type = Channel_bank | Channel_non_bank | Channel_unknown

record available_artifact_v2 =
  av_type :: artifact_type
  av_options :: "pystr list"

fun validate_options :: "pystr list \<Rightarrow> pystr list \<Rightarrow> pystr list result" where
  "validate_options output [] = Inr output"
| "validate_options output (v # vs) =
     (let option = py_strip v in
      if option = [] \<or> length option > 80
      then Inl (ValueError ''available artifact options must be 1-80 chars'')
      else if option \<in> set output
      then Inl (ValueError ''available artifact options must be unique'')
      else validate_options (output @ [option]) vs)"

definition validate_available_artifact_v2 :: "available_artifact_v2 \<Rightarrow> available_artifact_v2 result" where
  "validate_available_artifact_v2 a =
     (if length (av_options a) > 32 then Inl (ValueError ''options'')
      else res_bind (validate_options [] (av_options a)) (\<lambda>opts.
        if av_type a \<noteq> Artifact_material_pack \<and> opts \<noteq> []
        then Inl (ValueError ''available_artifacts options are only valid for material_pack'')
        else Inr (a\<lparr>av_options := opts\<rparr>)))"

datatype business_scope =
    DistributionScopeV1 pystr channel_type "available_artifact_v2 list"
  | UnscopedScopeV1

fun validate_available_artifacts_unique :: "artifact_type list \<Rightarrow> available_artifact_v2 list \<Rightarrow> unit result" where
  "validate_available_artifacts_unique seen [] = Inr ()"
| "validate_available_artifacts_unique seen (a # as) =
     (if av_type a \<in> set seen
      then Inl (ValueError ''available_artifacts must not contain duplicate artifact types'')
      else validate_available_artifacts_unique (av_type a # seen) as)"

fun validate_business_scope :: "business_scope \<Rightarrow> business_scope result" where
  "validate_business_scope UnscopedScopeV1 = Inr UnscopedScopeV1"
| "validate_business_scope (DistributionScopeV1 name ct artifacts) =
     (if \<not> length_within 1 120 name then Inl (ValueError ''dist_channel_name'')
      else if length artifacts > 3 then Inl (ValueError ''available_artifacts'')
      else res_bind (map_res validate_available_artifact_v2 artifacts) (\<lambda>artifacts.
        res_bind (validate_available_artifacts_unique [] artifacts) (\<lambda>_.
          Inr (DistributionScopeV1 name ct artifacts))))"

datatype read_capability =
    Resolve_material_pack
  | Resolve_weekly_report
  | Resolve_monthly_report
  | Resolve_sales_mention
  | Query_internal_company_info
  | Query_weekly_report_product_list
  | Query_monthly_report_product_list

fun read_capability_str :: "read_capability \<Rightarrow> pystr" where
  "read_capability_str Resolve_material_pack = ''resolve_material_pack''"
| "read_capability_str Resolve_weekly_report = ''resolve_weekly_report''"
| "read_capability_str Resolve_monthly_report = ''resolve_monthly_report''"
| "read_capability_str Resolve_sales_mention = ''resolve_sales_mention''"
| "read_capability_str Query_internal_company_info = ''query_internal_company_info''"
| "read_capability_str Query_weekly_report_product_list = ''query_weekly_report_product_list''"
| "read_capability_str Query_monthly_report_product_list = ''query_monthly_report_product_list''"

datatype outbound_action_type = Out_material_pack | Out_weekly_report | Out_monthly_report

fun outbound_action_str :: "outbound_action_type \<Rightarrow> pystr" where
  "outbound_action_str Out_material_pack = ''send_material_pack''"
| "outbound_action_str Out_weekly_report = ''send_weekly_report''"
| "outbound_action_str Out_monthly_report = ''send_monthly_report''"

fun mention_type_str :: "mention_type \<Rightarrow> pystr" where
  "mention_type_str Mention_sales = ''sales''"

record principal_grants =
  read_capabilities :: "read_capability list"
  outbound_actions :: "outbound_action_type list"
  mention_types :: "mention_type list"

definition canonical_unique_list :: "('a \<Rightarrow> pystr) \<Rightarrow> 'a list \<Rightarrow> pystr \<Rightarrow> 'a list result" where
  "canonical_unique_list str_of values field_name =
     (if \<not> distinct values then Inl (ValueError (field_name @ '' must not contain duplicates''))
      else Inr (sort_key str_of values))"

definition validate_principal_grants :: "principal_grants \<Rightarrow> principal_grants result" where
  "validate_principal_grants g =
     (if length (read_capabilities g) > 5 then Inl (ValueError ''read_capabilities'')
      else if length (outbound_actions g) > 3 then Inl (ValueError ''outbound_actions'')
      else if length (mention_types g) > 1 then Inl (ValueError ''mention_types'')
      else
        res_bind (canonical_unique_list read_capability_str (read_capabilities g) ''read_capabilities'') (\<lambda>rs.
        res_bind (canonical_unique_list outbound_action_str (outbound_actions g) ''outbound_actions'') (\<lambda>os.
        res_bind (canonical_unique_list mention_type_str (mention_types g) ''mention_types'') (\<lambda>ms.
          Inr (g\<lparr>read_capabilities := rs, outbound_actions := os, mention_types := ms\<rparr>)))))"

section \<open>The request\<close>

record reply_request_v2 =
  rq_request_id :: pystr
  rq_message :: pystr
  rq_context_id :: "pystr option"
  rq_identity :: conversation_identity
  rq_presentation :: presentation
  rq_business_scope :: business_scope
  rq_grants :: principal_grants

definition validate_context_id :: "pystr option \<Rightarrow> pystr option result" where
  "validate_context_id c =
     (case c of None \<Rightarrow> Inr None
      | Some v \<Rightarrow> res_bind (validate_prefixed_opaque_ref v ''ctx:'' ''context_id'') (\<lambda>v. Inr (Some v)))"

definition normalize_message :: "pystr \<Rightarrow> pystr result" where
  "normalize_message v =
     (if \<not> length_within 1 20000 v then Inl (ValueError ''message'')
      else let trimmed = py_strip v in
        if trimmed = [] then Inl (ValueError ''message must not be blank'') else Inr trimmed)"

definition validate_scene_consistency :: "reply_request_v2 \<Rightarrow> reply_request_v2 result" where
  "validate_scene_consistency r =
     (case ci_scene (rq_identity r) of
        SceneGroup \<Rightarrow>
          (case rq_presentation r of
             DirectPresentationV1 _ \<Rightarrow> Inl (ValueError ''group identity requires group presentation'')
           | GroupPresentationV1 _ _ \<Rightarrow>
               (case rq_business_scope r of
                  UnscopedScopeV1 \<Rightarrow> Inl (ValueError ''group identity requires distribution scope'')
                | DistributionScopeV1 _ _ _ \<Rightarrow> Inr r))
      | SceneDirect \<Rightarrow>
          (case rq_presentation r of
             GroupPresentationV1 _ _ \<Rightarrow> Inl (ValueError ''direct identity requires direct presentation'')
           | DirectPresentationV1 _ \<Rightarrow>
               (case rq_business_scope r of
                  DistributionScopeV1 _ _ _ \<Rightarrow> Inl (ValueError ''direct identity requires unscoped scope'')
                | UnscopedScopeV1 \<Rightarrow>
                    if \<not> set (read_capabilities (rq_grants r)) \<subseteq> {Query_internal_company_info}
                    then Inl (ValueError ''direct identity has forbidden read capabilities'')
                    else if outbound_actions (rq_grants r) \<noteq> [] \<or> mention_types (rq_grants r) \<noteq> []
                    then Inl (ValueError ''direct identity cannot grant outbound actions or mentions'')
                    else Inr r)))"

definition validate_reply_request_v2 :: "reply_request_v2 \<Rightarrow> reply_request_v2 result" where
  "validate_reply_request_v2 r =
     res_bind (validate_prefixed_opaque_ref (rq_request_id r) ''req:'' ''request_id'') (\<lambda>request_id.
     res_bind (normalize_message (rq_message r)) (\<lambda>message.
     res_bind (validate_context_id (rq_context_id r)) (\<lambda>context_id.
     res_bind (validate_conversation_identity (rq_identity r)) (\<lambda>ident.
     res_bind (validate_presentation (rq_presentation r)) (\<lambda>pres.
     res_bind (validate_business_scope (rq_business_scope r)) (\<lambda>scope.
     res_bind (validate_principal_grants (rq_grants r)) (\<lambda>grants.
       validate_scene_consistency
         (r\<lparr>rq_request_id := request_id, rq_message := message, rq_context_id := context_id,
            rq_identity := ident, rq_presentation := pres, rq_business_scope := scope,
            rq_grants := grants\<rparr>))))))))"

end
