(* ===== verification/Request_Normalizer.thy ===== *)
theory Request_Normalizer
  imports Conversation_Schema
begin

text \<open>
  From a validated request to the kernel the runtime works on: the models of
  \<open>runtime/identity/models.py\<close> and \<open>runtime/identity/normalizer.py\<close>. The request hash digests the
  policy kernel, which leaves out the request id, so that a retry under the same id is told from a
  different request by its content.
\<close>

record verified_identity =
  vi_scene :: scene
  vi_tenant_ref :: pystr
  vi_subject_ref :: pystr
  vi_principal_ref :: pystr

record kernel_reply_request =
  kr_request_id :: pystr
  kr_replay_eligible :: bool
  kr_message :: pystr
  kr_context_id :: "pystr option"
  kr_identity :: verified_identity
  kr_presentation :: presentation
  kr_business_scope :: business_scope
  kr_grants :: principal_grants

record policy_request_kernel =
  pk_adapter_namespace :: pystr
  pk_replay_eligible :: bool
  pk_message :: pystr
  pk_context_id :: "pystr option"
  pk_identity :: verified_identity
  pk_presentation :: presentation
  pk_business_scope :: business_scope
  pk_grants :: principal_grants

record verified_request_envelope =
  ve_adapter_namespace :: pystr
  ve_request :: kernel_reply_request
  ve_state_key :: conversation_state_key
  ve_state_key_ref :: pystr

text \<open>\<open>AuthenticatedAdapterCallerV1.adapter_namespace\<close>: \<open>^[a-z][a-z0-9._-]{0,63}$\<close>.\<close>

definition adapter_namespace_pattern :: "pystr \<Rightarrow> bool" where
  "adapter_namespace_pattern s =
     (case s of [] \<Rightarrow> False
      | c # cs \<Rightarrow> CHR ''a'' \<le> c \<and> c \<le> CHR ''z'' \<and> length cs \<le> 63
          \<and> list_all (\<lambda>d. (CHR ''a'' \<le> d \<and> d \<le> CHR ''z'') \<or> is_digit d \<or> d \<in> set ''._-'') cs)"

definition state_key_of :: "pystr \<Rightarrow> conversation_identity \<Rightarrow> conversation_state_key" where
  "state_key_of adapter_namespace i =
     \<lparr>csk_surface = Wecom, csk_adapter_namespace = adapter_namespace,
      csk_tenant_ref = ci_tenant_ref i, csk_scene = ci_scene i,
      csk_subject_ref = ci_subject_ref i, csk_principal_ref = ci_principal_ref i\<rparr>"

definition normalize_reply_request_v2 ::
  "(pybytes \<Rightarrow> pystr) \<Rightarrow> reply_request_v2 \<Rightarrow> pystr \<Rightarrow> verified_request_envelope result" where
  "normalize_reply_request_v2 sha request adapter_namespace =
     (let i = rq_identity request;
          ident = \<lparr>vi_scene = ci_scene i, vi_tenant_ref = ci_tenant_ref i,
                   vi_subject_ref = ci_subject_ref i, vi_principal_ref = ci_principal_ref i\<rparr>;
          state_key = state_key_of adapter_namespace i
      in if \<not> adapter_namespace_pattern adapter_namespace then Inl (ValueError ''adapter_namespace'')
         else Inr \<lparr>ve_adapter_namespace = adapter_namespace,
           ve_request = \<lparr>kr_request_id = rq_request_id request, kr_replay_eligible = True,
             kr_message = rq_message request, kr_context_id = rq_context_id request,
             kr_identity = ident, kr_presentation = rq_presentation request,
             kr_business_scope = rq_business_scope request, kr_grants = rq_grants request\<rparr>,
           ve_state_key = state_key, ve_state_key_ref = state_key_ref sha state_key\<rparr>)"

definition policy_request_kernel_v1 :: "verified_request_envelope \<Rightarrow> policy_request_kernel" where
  "policy_request_kernel_v1 e =
     \<lparr>pk_adapter_namespace = ve_adapter_namespace e,
      pk_replay_eligible = kr_replay_eligible (ve_request e),
      pk_message = kr_message (ve_request e), pk_context_id = kr_context_id (ve_request e),
      pk_identity = kr_identity (ve_request e), pk_presentation = kr_presentation (ve_request e),
      pk_business_scope = kr_business_scope (ve_request e), pk_grants = kr_grants (ve_request e)\<rparr>"

section \<open>model_dump of the policy kernel\<close>

fun opt_json :: "pystr option \<Rightarrow> json" where
  "opt_json None = JNull"
| "opt_json (Some s) = JStr s"

definition identity_json :: "verified_identity \<Rightarrow> json" where
  "identity_json i = JObj
     [(''contract_version'', JStr ''verified-conversation-identity.v1''), (''surface'', JStr ''wecom''),
      (''scene'', JStr (scene_str (vi_scene i))), (''tenant_ref'', JStr (vi_tenant_ref i)),
      (''subject_ref'', JStr (vi_subject_ref i)), (''principal_ref'', JStr (vi_principal_ref i))]"

fun presentation_json :: "presentation \<Rightarrow> json" where
  "presentation_json (GroupPresentationV1 c p) = JObj
     [(''contract_version'', JStr ''group-presentation.v1''), (''conversation_name'', JStr c),
      (''principal_name'', JStr p)]"
| "presentation_json (DirectPresentationV1 p) = JObj
     [(''contract_version'', JStr ''direct-presentation.v1''), (''principal_name'', opt_json p)]"

fun artifact_type_str :: "artifact_type \<Rightarrow> pystr" where
  "artifact_type_str Artifact_material_pack = ''material_pack''"
| "artifact_type_str Artifact_weekly_report = ''weekly_report''"
| "artifact_type_str Artifact_monthly_report = ''monthly_report''"

fun channel_type_str :: "channel_type \<Rightarrow> pystr" where
  "channel_type_str Channel_bank = ''bank''"
| "channel_type_str Channel_non_bank = ''non_bank''"
| "channel_type_str Channel_unknown = ''unknown''"

fun scope_json :: "business_scope \<Rightarrow> json" where
  "scope_json UnscopedScopeV1 = JObj [(''kind'', JStr ''unscoped'')]"
| "scope_json (DistributionScopeV1 name ct artifacts) = JObj
     [(''kind'', JStr ''distribution''), (''dist_channel_name'', JStr name),
      (''channel_type'', JStr (channel_type_str ct)),
      (''available_artifacts'', JList (map (\<lambda>a. JObj
         [(''type'', JStr (artifact_type_str (av_type a))),
          (''options'', JList (map JStr (av_options a)))]) artifacts))]"

definition grants_json :: "principal_grants \<Rightarrow> json" where
  "grants_json g = JObj
     [(''contract_version'', JStr ''principal-grants.v1''),
      (''read_capabilities'', JList (map (JStr \<circ> read_capability_str) (read_capabilities g))),
      (''outbound_actions'', JList (map (JStr \<circ> outbound_action_str) (outbound_actions g))),
      (''mention_types'', JList (map (JStr \<circ> mention_type_str) (mention_types g)))]"

definition policy_kernel_json :: "policy_request_kernel \<Rightarrow> json" where
  "policy_kernel_json k = JObj
     [(''contract_version'', JStr ''policy-request-kernel.v1''),
      (''adapter_namespace'', JStr (pk_adapter_namespace k)),
      (''replay_eligible'', JBool (pk_replay_eligible k)),
      (''message'', JStr (pk_message k)), (''context_id'', opt_json (pk_context_id k)),
      (''identity'', identity_json (pk_identity k)),
      (''presentation'', presentation_json (pk_presentation k)),
      (''business_scope'', scope_json (pk_business_scope k)),
      (''grants'', grants_json (pk_grants k))]"

definition request_digest_input :: "verified_request_envelope \<Rightarrow> pybytes" where
  "request_digest_input e = ''request-kernel.v1'' @ [CHR 0x00]
     @ utf8 (json_text True (policy_kernel_json (policy_request_kernel_v1 e)))"

definition request_kernel_hash :: "(pybytes \<Rightarrow> pystr) \<Rightarrow> verified_request_envelope \<Rightarrow> pystr" where
  "request_kernel_hash sha e = ''rqh1:'' @ sha (request_digest_input e)"

text \<open>The accessors of \<open>models.py\<close> on the kernel request.\<close>

definition kernel_scene_is_group :: "kernel_reply_request \<Rightarrow> bool" where
  "kernel_scene_is_group r = (vi_scene (kr_identity r) = SceneGroup)"

definition kernel_channel_type :: "kernel_reply_request \<Rightarrow> channel_type" where
  "kernel_channel_type r =
     (case kr_business_scope r of DistributionScopeV1 _ ct _ \<Rightarrow> ct | UnscopedScopeV1 \<Rightarrow> Channel_unknown)"

definition kernel_available_artifacts :: "kernel_reply_request \<Rightarrow> available_artifact_v2 list" where
  "kernel_available_artifacts r =
     (case kr_business_scope r of DistributionScopeV1 _ _ as \<Rightarrow> as | UnscopedScopeV1 \<Rightarrow> [])"

definition kernel_read_capabilities :: "kernel_reply_request \<Rightarrow> read_capability list" where
  "kernel_read_capabilities r = read_capabilities (kr_grants r)"

section \<open>What normalisation keeps\<close>

lemma normalize_ok:
  "normalize_reply_request_v2 sha r ns = Inr e \<Longrightarrow>
     ve_state_key e = state_key_of ns (rq_identity r)
   \<and> kr_request_id (ve_request e) = rq_request_id r
   \<and> kr_message (ve_request e) = rq_message r
   \<and> kr_context_id (ve_request e) = rq_context_id r
   \<and> kr_grants (ve_request e) = rq_grants r
   \<and> kr_business_scope (ve_request e) = rq_business_scope r
   \<and> vi_scene (kr_identity (ve_request e)) = ci_scene (rq_identity r)"
  by (auto simp: normalize_reply_request_v2_def Let_def split: if_splits)

lemma state_key_of_inj: "state_key_of ns i = state_key_of ns' i' \<longleftrightarrow> ns = ns' \<and> i = i'"
  by (cases i; cases i') (auto simp: state_key_of_def)

lemma request_hash_ignores_request_id:
  assumes "normalize_reply_request_v2 sha r ns = Inr e"
    and "normalize_reply_request_v2 sha (r\<lparr>rq_request_id := i\<rparr>) ns = Inr e'"
  shows "request_kernel_hash sha e = request_kernel_hash sha e'"
  using assms
  by (auto simp: normalize_reply_request_v2_def Let_def request_kernel_hash_def
      request_digest_input_def policy_request_kernel_v1_def split: if_splits)

end
