(* ===== verification/Feedback_Schema.thy ===== *)
theory Feedback_Schema
  imports Request_Normalizer
begin

text \<open>
  Execution feedback of the adapter: \<open>schemas/feedback.py\<close> and \<open>schemas/feedback_sanitization.py\<close>.

  One part of the standard library is an argument: \<open>fold_key\<close> is the case folding of the NFC form of
  a key, which may leave the characters a \<open>string\<close> can hold.
\<close>

section \<open>Sanitised adapter results\<close>

definition sanitized_denied_keys :: "pystr list" where
  "sanitized_denied_keys =
     [''authorization'', ''api_key'', ''apikey'', ''access_token'', ''token'', ''secret'',
      ''signature'', ''sig'', ''key'', ''cookie'', ''set_cookie'', ''url'', ''uri'', ''path'',
      ''file_path'', ''group_id'', ''sender_id'', ''tenant_ref'', ''principal_ref'',
      ''direct_thread_ref'', ''target_id'', ''receiver'', ''webhook'', ''resolve_ref'']"

definition canonical_adapter_result_key :: "(pystr \<Rightarrow> pystr) \<Rightarrow> pystr \<Rightarrow> pystr result" where
  "canonical_adapter_result_key fold_key raw_key =
     (let canonical_key = map (\<lambda>c. if c = CHR ''-'' \<or> c = CHR '' '' then CHR ''_'' else c) (fold_key raw_key)
      in if canonical_key = [] \<or> canonical_key \<in> set sanitized_denied_keys
         then Inl (ValueError ''adapter_result contains a forbidden key'') else Inr canonical_key)"

text \<open>
  The mutual recursion of \<open>_sanitize_adapter_result_object\<close> and \<open>_sanitize_adapter_result_value\<close>. An
  object is an item list in the order of the source document; \<open>normalized\<close> is the dictionary built
  so far. The bounds are tested before the members are visited, as in the code.
\<close>

fun sanitize_value :: "(pystr \<Rightarrow> pystr) \<Rightarrow> pystr list \<Rightarrow> nat \<Rightarrow> json \<Rightarrow> json result"
and sanitize_items :: "(pystr \<Rightarrow> pystr) \<Rightarrow> pystr list \<Rightarrow> nat \<Rightarrow> (pystr \<times> json) list \<Rightarrow> (pystr \<times> json) list \<Rightarrow> (pystr \<times> json) list result"
and sanitize_list :: "(pystr \<Rightarrow> pystr) \<Rightarrow> pystr list \<Rightarrow> nat \<Rightarrow> json list \<Rightarrow> json list result" where
  "sanitize_value fk secrets depth (JObj kvs) =
     (if depth > 4 \<or> length kvs > 16
      then Inl (ValueError ''adapter_result exceeds object depth or key bounds'')
      else res_bind (sanitize_items fk secrets depth [] kvs) (\<lambda>kvs'. Inr (JObj kvs')))"
| "sanitize_value fk secrets depth (JList vs) =
     (if depth > 4 \<or> length vs > 16
      then Inl (ValueError ''adapter_result exceeds array depth or item bounds'')
      else res_bind (sanitize_list fk secrets depth vs) (\<lambda>vs'. Inr (JList vs')))"
| "sanitize_value fk secrets depth (JStr s) =
     (if length s > 256
      then Inl (ValueError ''adapter_result string values must be at most 256 chars'')
      else if list_ex (\<lambda>secret. py_in secret s) secrets
      then Inl (ValueError ''adapter_result contains a configured secret'')
      else res_bind (reject_raw_locator_text (Some s) ''adapter_result'') (\<lambda>_. Inr (JStr s)))"
| "sanitize_value fk secrets depth (JBool b) = Inr (JBool b)"
| "sanitize_value fk secrets depth JNull = Inr JNull"
| "sanitize_value fk secrets depth (JInt i) = Inr (JInt i)"
| "sanitize_value fk secrets depth (JFloat r) = Inr (JFloat r)"
| "sanitize_items fk secrets depth normalized [] = Inr normalized"
| "sanitize_items fk secrets depth normalized ((raw_key, nested) # kvs) =
     res_bind (canonical_adapter_result_key fk raw_key) (\<lambda>canonical_key.
       if canonical_key \<in> set (map fst normalized)
       then Inl (ValueError ''adapter_result contains duplicate normalized keys'')
       else res_bind (sanitize_value fk secrets (depth + 1) nested) (\<lambda>v.
         sanitize_items fk secrets depth (normalized @ [(canonical_key, v)]) kvs))"
| "sanitize_list fk secrets depth [] = Inr []"
| "sanitize_list fk secrets depth (v # vs) =
     res_bind (sanitize_value fk secrets (depth + 1) v) (\<lambda>v'.
     res_bind (sanitize_list fk secrets depth vs) (\<lambda>vs'. Inr (v' # vs')))"

definition validate_adapter_result ::
  "(pystr \<Rightarrow> pystr) \<Rightarrow> pystr list \<Rightarrow> (pystr \<times> json) list \<Rightarrow> (pystr \<times> json) list result" where
  "validate_adapter_result fk configured_secrets values =
     (if length values > 16 then Inl (ValueError ''root'')
      else res_bind (sanitize_items fk (filter (\<lambda>s. s \<noteq> []) configured_secrets) 1 [] values) (\<lambda>normalized.
        if length (canonical_json_bytes (JObj normalized)) > 4096
        then Inl (ValueError ''adapter_result canonical JSON exceeds 4096 bytes'')
        else Inr normalized))"

section \<open>Artifacts and executions\<close>

datatype feedback_artifact =
    MaterialPackFeedbackArtifact (fa_resolve_ref: "pystr option") (fa_artifact_ref: "pystr option") "pystr option"
  | WeeklyReportFeedbackArtifact (fa_resolve_ref: "pystr option") (fa_artifact_ref: "pystr option")
      "pystr option" "pystr option"
  | MonthlyReportFeedbackArtifact (fa_resolve_ref: "pystr option") (fa_artifact_ref: "pystr option")
      "pystr option" "pystr option"

record action_execution_feedback =
  ex_action_type :: action_execution_type
  ex_status :: action_execution_status
  ex_action_id :: "pystr option"
  ex_artifact :: "feedback_artifact option"
  ex_adapter_result :: "(pystr \<times> json) list"

record action_feedback_request =
  fb_feedback_id :: pystr
  fb_request_id :: pystr
  fb_response_id :: pystr
  fb_identity :: conversation_identity
  fb_executions :: "action_execution_feedback list"

fun artifact_matches_action :: "action_execution_type \<Rightarrow> feedback_artifact \<Rightarrow> bool" where
  "artifact_matches_action Send_material_pack (MaterialPackFeedbackArtifact _ _ _) = True"
| "artifact_matches_action Send_weekly_report (WeeklyReportFeedbackArtifact _ _ _ _) = True"
| "artifact_matches_action Send_monthly_report (MonthlyReportFeedbackArtifact _ _ _ _) = True"
| "artifact_matches_action _ _ = False"

definition opaque_adapter_ref_char :: "char \<Rightarrow> bool" where
  "opaque_adapter_ref_char c = (is_alnum c \<or> c \<in> set ''._:~-'')"

definition opaque_adapter_ref_pattern :: "pystr \<Rightarrow> bool" where
  "opaque_adapter_ref_pattern s =
     (case s of [] \<Rightarrow> False
      | c # cs \<Rightarrow> is_alnum c \<and> length cs \<le> 159 \<and> list_all opaque_adapter_ref_char cs)"

definition validate_v2_opaque_adapter_ref :: "pystr option \<Rightarrow> pystr \<Rightarrow> bool \<Rightarrow> unit result" where
  "validate_v2_opaque_adapter_ref v field_name required =
     (case v of
        None \<Rightarrow> raise_if required (ValueError (field_name @ '' is required''))
      | Some s \<Rightarrow>
          if s = [] \<or> length s > 160 \<or> s \<noteq> py_strip s \<or> \<not> opaque_adapter_ref_pattern s
             \<or> py_in ''..'' s \<or> startswith s ''.'' \<or> startswith s ''~''
             \<or> list_ex (\<lambda>c. c < CHR 0x20) s
          then Inl (ValueError (field_name @ '' must be an opaque adapter ref''))
          else reject_raw_locator_text (Some s) field_name)"

text \<open>
  \<open>date.fromisoformat(d).isoformat() == d\<close>: ten characters \<open>YYYY-MM-DD\<close> that name a day of the
  proleptic Gregorian calendar, from year 1 on.
\<close>

definition digit_val :: "char \<Rightarrow> nat" where
  "digit_val c = of_char c - 48"

definition leap_year :: "nat \<Rightarrow> bool" where
  "leap_year y = (y mod 4 = 0 \<and> (y mod 100 \<noteq> 0 \<or> y mod 400 = 0))"

definition days_in_month :: "nat \<Rightarrow> nat \<Rightarrow> nat" where
  "days_in_month y m =
     (if m = 2 then (if leap_year y then 29 else 28)
      else if m \<in> {4, 6, 9, 11} then 30 else 31)"

fun date_ok :: "pystr \<Rightarrow> bool" where
  "date_ok [y1, y2, y3, y4, s1, m1, m2, s2, d1, d2] =
     (list_all is_digit [y1, y2, y3, y4, m1, m2, d1, d2] \<and> s1 = CHR ''-'' \<and> s2 = CHR ''-''
      \<and> (let y = digit_val y1 * 1000 + digit_val y2 * 100 + digit_val y3 * 10 + digit_val y4;
             m = digit_val m1 * 10 + digit_val m2;
             d = digit_val d1 * 10 + digit_val d2
         in 1 \<le> y \<and> 1 \<le> m \<and> m \<le> 12 \<and> 1 \<le> d \<and> d \<le> days_in_month y m))"
| "date_ok _ = False"

definition validate_v2_report_metadata ::
  "pystr option \<Rightarrow> pystr option \<Rightarrow> unit result" where
  "validate_v2_report_metadata period report_date =
     (case period of
        None \<Rightarrow> Inl (ValueError ''report feedback requires period of 1-40 chars'')
      | Some p \<Rightarrow>
          if p = [] \<or> length p > 40 then Inl (ValueError ''report feedback requires period of 1-40 chars'')
          else (case report_date of
              None \<Rightarrow> Inl (ValueError ''report feedback requires report_date'')
            | Some d \<Rightarrow>
                if d = [] then Inl (ValueError ''report feedback requires report_date'')
                else raise_if (\<not> date_ok d) (ValueError ''report_date must be strict ISO YYYY-MM-DD'')))"

fun validate_artifact_metadata :: "feedback_artifact \<Rightarrow> unit result" where
  "validate_artifact_metadata (MaterialPackFeedbackArtifact _ _ None) = Inr ()"
| "validate_artifact_metadata (MaterialPackFeedbackArtifact _ _ (Some option)) =
     raise_if (option = [] \<or> length option > 80)
       (ValueError ''material feedback option must be 1-80 chars when present'')"
| "validate_artifact_metadata (WeeklyReportFeedbackArtifact _ _ period report_date) =
     validate_v2_report_metadata period report_date"
| "validate_artifact_metadata (MonthlyReportFeedbackArtifact _ _ period report_date) =
     validate_v2_report_metadata period report_date"

definition validate_v2_feedback_artifact ::
  "action_execution_type \<Rightarrow> action_execution_status \<Rightarrow> feedback_artifact \<Rightarrow> unit result" where
  "validate_v2_feedback_artifact action_type status artifact =
     (if \<not> artifact_matches_action action_type artifact
      then Inl (ValueError ''feedback artifact does not match action type'')
      else res_bind (validate_v2_opaque_adapter_ref (fa_resolve_ref artifact) ''resolve_ref'' True) (\<lambda>_.
        res_bind (case status of
            Executed \<Rightarrow> validate_v2_opaque_adapter_ref (fa_artifact_ref artifact) ''artifact_ref'' True
          | _ \<Rightarrow> raise_if (fa_artifact_ref artifact \<noteq> None)
                   (ValueError ''non-executed send feedback forbids artifact_ref'')) (\<lambda>_.
        validate_artifact_metadata artifact)))"

definition validate_artifact_fields :: "feedback_artifact \<Rightarrow> unit result" where
  "validate_artifact_fields a =
     res_bind (reject_raw_locator_text (fa_resolve_ref a) ''resolve_ref'') (\<lambda>_.
       reject_raw_locator_text (fa_artifact_ref a) ''artifact_ref'')"

fun send_action :: "action_execution_type \<Rightarrow> bool" where
  "send_action Send_material_pack = True"
| "send_action Send_weekly_report = True"
| "send_action Send_monthly_report = True"
| "send_action _ = False"

definition validate_v2_effect_binding :: "action_execution_feedback \<Rightarrow> unit result" where
  "validate_v2_effect_binding e =
     (if send_action (ex_action_type e) then
        (case (ex_action_id e, ex_artifact e) of
           (Some _, Some artifact) \<Rightarrow>
             validate_v2_feedback_artifact (ex_action_type e) (ex_status e) artifact
         | _ \<Rightarrow> Inl (ValueError ''send feedback requires action_id and artifact''))
      else raise_if (ex_action_id e \<noteq> None \<or> ex_artifact e \<noteq> None)
             (ValueError ''response-level feedback forbids action_id and artifact''))"

definition validate_execution ::
  "(pystr \<Rightarrow> pystr) \<Rightarrow> pystr list \<Rightarrow> action_execution_feedback \<Rightarrow> action_execution_feedback result" where
  "validate_execution fk secrets e =
     res_bind (case ex_action_id e of None \<Rightarrow> Inr ()
        | Some i \<Rightarrow> raise_if (\<not> prefixed_hex ''act-'' 32 i)
                     (ValueError ''action_id must be a server-issued action id'')) (\<lambda>_.
     res_bind (case ex_artifact e of None \<Rightarrow> Inr () | Some a \<Rightarrow> validate_artifact_fields a) (\<lambda>_.
     res_bind (validate_adapter_result fk secrets (ex_adapter_result e)) (\<lambda>r.
     res_bind (validate_v2_effect_binding e) (\<lambda>_.
       Inr (e\<lparr>ex_adapter_result := r\<rparr>)))))"

definition validate_execution_keys :: "action_execution_feedback list \<Rightarrow> unit result" where
  "validate_execution_keys es =
     raise_if (\<not> distinct (List.map_filter ex_action_id es)
               \<or> \<not> distinct (map ex_action_type (filter (\<lambda>e. ex_action_id e = None) es)))
       (ValueError ''feedback execution effects must be unique'')"

definition validate_action_feedback_request ::
  "(pystr \<Rightarrow> pystr) \<Rightarrow> pystr list \<Rightarrow> action_feedback_request \<Rightarrow> action_feedback_request result" where
  "validate_action_feedback_request fk secrets f =
     res_bind (validate_prefixed_opaque_ref (fb_feedback_id f) ''fb:'' ''feedback_id'') (\<lambda>feedback_id.
     res_bind (validate_prefixed_opaque_ref (fb_request_id f) ''req:'' ''request_id'') (\<lambda>request_id.
     res_bind (raise_if (\<not> prefixed_hex ''resp-'' 32 (fb_response_id f)) (ValueError ''response_id'')) (\<lambda>_.
     res_bind (validate_conversation_identity (fb_identity f)) (\<lambda>ident.
     res_bind (raise_if (length (fb_executions f) > 5) (ValueError ''executions'')) (\<lambda>_.
     res_bind (map_res (validate_execution fk secrets) (fb_executions f)) (\<lambda>es.
     res_bind (validate_execution_keys es) (\<lambda>_.
       Inr (f\<lparr>fb_feedback_id := feedback_id, fb_request_id := request_id, fb_identity := ident,
              fb_executions := es\<rparr>))))))))"

definition feedback_state_key_v2 :: "action_feedback_request \<Rightarrow> pystr \<Rightarrow> conversation_state_key" where
  "feedback_state_key_v2 f adapter_namespace = state_key_of adapter_namespace (fb_identity f)"

end
