(* ===== verification/Hashing.thy ===== *)
theory Hashing
  imports Feedback_Schema
begin

text \<open>
  The digests of the transaction layer in \<open>runtime/hashing.py\<close>: the hash of a feedback request, the
  reference of a clarification and the id of a feedback receipt. Each is a domain tag, a zero byte
  and canonical JSON, digested by the parameter \<open>sha\<close>.
\<close>

section \<open>model_dump of a feedback request\<close>

fun action_execution_type_str :: "action_execution_type \<Rightarrow> pystr" where
  "action_execution_type_str Send_material_pack = ''send_material_pack''"
| "action_execution_type_str Send_weekly_report = ''send_weekly_report''"
| "action_execution_type_str Send_monthly_report = ''send_monthly_report''"
| "action_execution_type_str Mention_sales_effect = ''mention_sales''"
| "action_execution_type_str Send_text = ''send_text''"

fun action_execution_status_str :: "action_execution_status \<Rightarrow> pystr" where
  "action_execution_status_str Executed = ''executed''"
| "action_execution_status_str Failed = ''failed''"
| "action_execution_status_str Skipped = ''skipped''"

fun feedback_artifact_json :: "feedback_artifact \<Rightarrow> json" where
  "feedback_artifact_json (MaterialPackFeedbackArtifact r a option) = JObj
     [(''resolve_ref'', opt_json r), (''artifact_ref'', opt_json a),
      (''type'', JStr ''material_pack''), (''option'', opt_json option)]"
| "feedback_artifact_json (WeeklyReportFeedbackArtifact r a period report_date) = JObj
     [(''resolve_ref'', opt_json r), (''artifact_ref'', opt_json a),
      (''type'', JStr ''weekly_report''), (''period'', opt_json period),
      (''report_date'', opt_json report_date)]"
| "feedback_artifact_json (MonthlyReportFeedbackArtifact r a period report_date) = JObj
     [(''resolve_ref'', opt_json r), (''artifact_ref'', opt_json a),
      (''type'', JStr ''monthly_report''), (''period'', opt_json period),
      (''report_date'', opt_json report_date)]"

definition execution_json :: "action_execution_feedback \<Rightarrow> json" where
  "execution_json e = JObj
     [(''action_type'', JStr (action_execution_type_str (ex_action_type e))),
      (''status'', JStr (action_execution_status_str (ex_status e))),
      (''action_id'', opt_json (ex_action_id e)),
      (''artifact'', case ex_artifact e of None \<Rightarrow> JNull | Some a \<Rightarrow> feedback_artifact_json a),
      (''adapter_result'', JObj (ex_adapter_result e))]"

fun conversation_identity_json :: "conversation_identity \<Rightarrow> json" where
  "conversation_identity_json (GroupConversationIdentityV1 t g p) = JObj
     [(''contract_version'', JStr ''conversation-identity.v1''), (''surface'', JStr ''wecom''),
      (''scene'', JStr ''group''), (''tenant_ref'', JStr t), (''group_ref'', JStr g),
      (''principal_ref'', JStr p)]"
| "conversation_identity_json (DirectConversationIdentityV1 t d p) = JObj
     [(''contract_version'', JStr ''conversation-identity.v1''), (''surface'', JStr ''wecom''),
      (''scene'', JStr ''direct''), (''tenant_ref'', JStr t), (''direct_thread_ref'', JStr d),
      (''principal_ref'', JStr p)]"

definition feedback_json :: "action_feedback_request \<Rightarrow> json" where
  "feedback_json f = JObj
     [(''contract_version'', JStr ''action-feedback.v2''),
      (''feedback_id'', JStr (fb_feedback_id f)), (''request_id'', JStr (fb_request_id f)),
      (''response_id'', JStr (fb_response_id f)),
      (''identity'', conversation_identity_json (fb_identity f)),
      (''executions'', JList (map execution_json (fb_executions f)))]"

section \<open>The digests\<close>

definition feedback_hash :: "(pybytes \<Rightarrow> pystr) \<Rightarrow> action_feedback_request \<Rightarrow> pystr" where
  "feedback_hash sha f =
     ''fbh1:'' @ sha (''action-feedback.v2'' @ [CHR 0x00] @ canonical_json_bytes (feedback_json f))"

definition clarification_ref_hash ::
  "(pybytes \<Rightarrow> pystr) \<Rightarrow> conversation_state_key \<Rightarrow> int \<Rightarrow> pystr \<Rightarrow> pystr" where
  "clarification_ref_hash sha state_key ordinal proposal =
     ''clr1:'' @ sha (''clarification-record.v1'' @ [CHR 0x00] @ canonical_json_bytes (JObj
       [(''state_key_ref'', JStr (state_key_ref sha state_key)), (''ordinal'', JInt ordinal),
        (''proposal'', JStr proposal)]))"

definition feedback_receipt_id ::
  "(pybytes \<Rightarrow> pystr) \<Rightarrow> conversation_state_key \<Rightarrow> pystr \<Rightarrow> pystr \<Rightarrow> pystr \<Rightarrow> int \<Rightarrow> pystr" where
  "feedback_receipt_id sha state_key feedback_id feedback_digest response_id record_revision =
     ''fbr1:'' @ sha (''feedback-receipt.v1'' @ [CHR 0x00] @ canonical_json_bytes (JObj
       [(''state_key_ref'', JStr (state_key_ref sha state_key)), (''feedback_id'', JStr feedback_id),
        (''feedback_hash'', JStr feedback_digest), (''response_id'', JStr response_id),
        (''record_revision'', JInt record_revision)]))"

end
