(* ===== verification/State_Records.thy ===== *)
theory State_Records
  imports Audit_Records Hashing
begin

text \<open>
  The immutable records of the transaction layer: \<open>runtime/state/conversation_records.py\<close>,
  \<open>effect_records.py\<close>, \<open>transaction_records.py\<close> and \<open>coordinator_config.py\<close>. Field names carry a
  prefix per record. Fields whose type is a single literal (\<open>contract_version\<close>, \<open>kind\<close>, \<open>role\<close>) are
  the constructor; \<open>phase\<close> is the constructor of \<open>issued_response_record\<close>.
\<close>

section \<open>Conversation\<close>

record state_revision_record =
  sr_revision_epoch :: pybytes
  sr_revision :: int
  sr_created_at_monotonic_ns :: int
  sr_updated_at_monotonic_ns :: int
  sr_expires_at_monotonic_ns :: int

datatype turn_role = Role_user | Role_assistant

record conversation_turn_record =
  ct_role :: turn_role
  ct_text :: pystr
  ct_ordinal :: int
  ct_created_at_epoch_ms :: int
  ct_pol1 :: pystr
  ct_par1 :: pystr
  ct_grh1 :: pystr
  ct_bsh1 :: pystr
  ct_reply_kind :: "pystr option"
  ct_clarification_ref :: "pystr option"

datatype clarification_kind = Ck_material_pack_option | Ck_report_scope | Ck_destination | Ck_other

record pending_clarification_record =
  pc_clarification_ref :: pystr
  pc_kind :: clarification_kind
  pc_slots :: "pystr list"
  pc_question :: pystr
  pc_topic :: "artifact_type option"
  pc_originating_turn_ordinal :: int
  pc_created_at_epoch_ms :: int
  pc_pol1 :: pystr
  pc_par1 :: pystr
  pc_grh1 :: pystr
  pc_bsh1 :: pystr

record assistant_turn_proposal =
  at_text :: pystr
  at_reply_kind :: pystr
  at_clarification_requested :: bool

record pending_clarification_proposal =
  pcp_kind :: clarification_kind
  pcp_slots :: "pystr list"
  pcp_question :: pystr
  pcp_topic :: "artifact_type option"

section \<open>Issued responses and their effects\<close>

record pending_issued_response =
  pr_state_key :: conversation_state_key
  pr_request_id :: pystr
  pr_request_hash :: pystr
  pr_replay_eligible :: bool
  pr_owner_token :: pybytes
  pr_revision_epoch :: pybytes
  pr_reserved_state_revision :: int
  pr_created_at_epoch_ms :: int
  pr_created_at_monotonic_ns :: int
  pr_expires_at_monotonic_ns :: int

record issued_effect =
  ie_effect_key :: pystr
  ie_effect_type :: action_execution_type
  ie_action_id :: "pystr option"
  ie_resolve_ref :: "pystr option"
  ie_material_pack_option :: "pystr option"
  ie_period :: "pystr option"
  ie_report_date :: "pystr option"
  ie_status :: "action_execution_status option"
  ie_artifact_ref :: "pystr option"
  ie_status_history :: "action_execution_status list"

record feedback_receipt =
  fr_receipt_id :: pystr
  fr_state_key :: conversation_state_key
  fr_feedback_id :: pystr
  fr_feedback_hash :: pystr
  fr_response_id :: pystr
  fr_issued_record_revision :: int
  fr_stored :: int
  fr_created_at_epoch_ms :: int
  fr_created_at_monotonic_ns :: int
  fr_expires_at_monotonic_ns :: int

record complete_issued_response =
  cr_state_key :: conversation_state_key
  cr_request_id :: pystr
  cr_request_hash :: pystr
  cr_replay_eligible :: bool
  cr_revision_epoch :: pybytes
  cr_committed_state_revision :: int
  cr_record_revision :: int
  cr_response :: reply_response
  cr_effects :: "issued_effect list"
  cr_receipts :: "feedback_receipt list"
  cr_issued_at_epoch_ms :: int
  cr_completed_at_monotonic_ns :: int
  cr_expires_at_monotonic_ns :: int
  cr_pol1 :: pystr
  cr_par1 :: pystr
  cr_grh1 :: pystr
  cr_bsh1 :: pystr

datatype issued_response_record =
    Pending pending_issued_response
  | Complete complete_issued_response

fun ir_state_key :: "issued_response_record \<Rightarrow> conversation_state_key" where
  "ir_state_key (Pending p) = pr_state_key p"
| "ir_state_key (Complete c) = cr_state_key c"

fun ir_request_id :: "issued_response_record \<Rightarrow> pystr" where
  "ir_request_id (Pending p) = pr_request_id p"
| "ir_request_id (Complete c) = cr_request_id c"

fun ir_request_hash :: "issued_response_record \<Rightarrow> pystr" where
  "ir_request_hash (Pending p) = pr_request_hash p"
| "ir_request_hash (Complete c) = cr_request_hash c"

fun ir_replay_eligible :: "issued_response_record \<Rightarrow> bool" where
  "ir_replay_eligible (Pending p) = pr_replay_eligible p"
| "ir_replay_eligible (Complete c) = cr_replay_eligible c"

fun ir_expires_at_monotonic_ns :: "issued_response_record \<Rightarrow> int" where
  "ir_expires_at_monotonic_ns (Pending p) = pr_expires_at_monotonic_ns p"
| "ir_expires_at_monotonic_ns (Complete c) = cr_expires_at_monotonic_ns c"

section \<open>Feedback\<close>

record prepared_effect_transition =
  pt_effect_key :: pystr
  pt_effect_type :: action_execution_type
  pt_expected_status :: "action_execution_status option"
  pt_requested_status :: action_execution_status
  pt_expected_artifact_ref :: "pystr option"
  pt_requested_artifact_ref :: "pystr option"
  pt_is_noop :: bool

record prepared_feedback =
  pf_state_key :: conversation_state_key
  pf_feedback_id :: pystr
  pf_feedback_hash :: pystr
  pf_request_id :: pystr
  pf_response_id :: pystr
  pf_commit_token :: pybytes
  pf_revision_epoch :: pybytes
  pf_expected_state_revision :: int
  pf_expected_issued_record_revision :: int
  pf_transitions :: "prepared_effect_transition list"
  pf_expires_at_monotonic_ns :: int

record feedback_receipt_replay =
  rr_state_key :: conversation_state_key
  rr_feedback_id :: pystr
  rr_feedback_hash :: pystr
  rr_request_id :: pystr
  rr_response_id :: pystr
  rr_receipt_id :: pystr
  rr_issued_record_revision :: int

datatype feedback_preparation =
    PreparedFeedback prepared_feedback
  | FeedbackReceiptReplay feedback_receipt_replay

record prepared_feedback_token_record =
  tk_preparation :: prepared_feedback
  tk_created_at_monotonic_ns :: int

datatype issued_response_lookup =
    IssuedFound complete_issued_response
  | IssuedNotFound
  | IssuedIdentityMismatch

record feedback_commit_result =
  fcr_receipt_id :: pystr
  fcr_stored :: int
  fcr_replayed :: bool

record action_ledger_record =
  al_state_key :: conversation_state_key
  al_response_id :: pystr
  al_action_id :: pystr
  al_action_type :: action_execution_type
  al_status :: action_execution_status
  al_artifact_ref :: "pystr option"
  al_status_revision :: int
  al_received_at_epoch_ms :: int
  al_expires_at_monotonic_ns :: int
  al_pol1 :: pystr
  al_par1 :: pystr
  al_grh1 :: pystr
  al_bsh1 :: pystr

section \<open>Transactions\<close>

record turn_admission_snapshot =
  sn_state_key :: conversation_state_key
  sn_par1 :: pystr
  sn_grh1 :: pystr
  sn_bsh1 :: pystr
  sn_ledger_rows :: "action_ledger_record list"
  sn_turns :: "conversation_turn_record list"
  sn_pending_clarification :: "pending_clarification_record option"
  sn_revision_epoch :: pybytes
  sn_state_revision :: int
  sn_snapshot_at_epoch_ms :: int
  sn_snapshot_at_monotonic_ns :: int
  sn_pending_reply :: bool

record new_reply_reservation =
  nr_state_key :: conversation_state_key
  nr_request_id :: pystr
  nr_request_hash :: pystr
  nr_replay_eligible :: bool
  nr_owner_token :: pybytes
  nr_revision_epoch :: pybytes
  nr_state_revision :: int

record completed_reply_replay =
  cp_state_key :: conversation_state_key
  cp_request_id :: pystr
  cp_request_hash :: pystr
  cp_response :: reply_response
  cp_issued_at_epoch_ms :: int
  cp_issued_record_revision :: int

datatype reservation_result =
    NewReplyReservation new_reply_reservation
  | CompletedReplyReplay completed_reply_replay

record reply_commit_proposal =
  rp_state_key :: conversation_state_key
  rp_request_id :: pystr
  rp_request_hash :: pystr
  rp_replay_eligible :: bool
  rp_owner_token :: pybytes
  rp_expected_revision_epoch :: pybytes
  rp_expected_state_revision :: int
  rp_response :: reply_response
  rp_pol1 :: pystr
  rp_par1 :: pystr
  rp_grh1 :: pystr
  rp_bsh1 :: pystr
  rp_user_turn :: pystr
  rp_assistant_turn :: assistant_turn_proposal
  rp_clarification :: "pending_clarification_proposal option"
  rp_audit :: audit_commit_proposal

definition check_reply_commit_proposal :: "reply_commit_proposal \<Rightarrow> unit result" where
  "check_reply_commit_proposal p =
     raise_if (csk_scene (rp_state_key p) \<noteq> audit_proposal_kind (rp_audit p))
       (ValueError ''reply commit audit scene does not match state key'')"

section \<open>Configuration\<close>

record coordinator_config =
  cfg_issued_response_capacity :: int
  cfg_conversation_max_sessions :: int
  cfg_feedback_receipt_capacity :: int
  cfg_conversation_ttl_ms :: int
  cfg_conversation_max_messages :: int
  cfg_issued_ttl_ns :: int
  cfg_issued_pending_ttl_ns :: int
  cfg_state_revision_capacity :: int

definition build_coordinator_config ::
  "int \<Rightarrow> int \<Rightarrow> int \<Rightarrow> int \<Rightarrow> int \<Rightarrow> int \<Rightarrow> int \<Rightarrow> coordinator_config result" where
  "build_coordinator_config issued_response_capacity conversation_max_sessions
       feedback_receipt_capacity conversation_ttl_seconds conversation_max_messages
       issued_response_ttl_seconds issued_response_pending_ttl_seconds =
     (if issued_response_capacity < 1
      then Inl (CoordinatorConfigError ''issued_response_capacity must be positive'')
      else if conversation_max_sessions < 1
      then Inl (CoordinatorConfigError ''conversation_max_sessions must be positive'')
      else if feedback_receipt_capacity < issued_response_capacity
      then Inl (CoordinatorConfigError ''feedback_receipt_capacity must cover issued_response_capacity'')
      else if conversation_ttl_seconds < 1 \<or> conversation_max_messages < 1
      then Inl (CoordinatorConfigError ''conversation retention must be positive'')
      else if issued_response_ttl_seconds < 60 \<or> issued_response_pending_ttl_seconds < 5
      then Inl (CoordinatorConfigError ''issued response retention is below the contract minimum'')
      else if issued_response_pending_ttl_seconds > issued_response_ttl_seconds
      then Inl (CoordinatorConfigError ''issued pending retention cannot exceed complete retention'')
      else Inr \<lparr>cfg_issued_response_capacity = issued_response_capacity,
        cfg_conversation_max_sessions = conversation_max_sessions,
        cfg_feedback_receipt_capacity = feedback_receipt_capacity,
        cfg_conversation_ttl_ms = conversation_ttl_seconds * 1000,
        cfg_conversation_max_messages = conversation_max_messages,
        cfg_issued_ttl_ns = issued_response_ttl_seconds * 1000000000,
        cfg_issued_pending_ttl_ns = issued_response_pending_ttl_seconds * 1000000000,
        cfg_state_revision_capacity = conversation_max_sessions + issued_response_capacity + 5000 + 1\<rparr>)"

text \<open>What the lemmas on the coordinator use of a configuration that \<open>build_coordinator_config\<close> made.\<close>

definition valid_config :: "coordinator_config \<Rightarrow> bool" where
  "valid_config cfg =
     (1 \<le> cfg_issued_response_capacity cfg \<and> 1 \<le> cfg_conversation_max_sessions cfg
      \<and> cfg_issued_response_capacity cfg \<le> cfg_feedback_receipt_capacity cfg
      \<and> 1 \<le> cfg_conversation_ttl_ms cfg \<and> 1 \<le> cfg_conversation_max_messages cfg
      \<and> 0 < cfg_issued_pending_ttl_ns cfg
      \<and> cfg_issued_pending_ttl_ns cfg \<le> cfg_issued_ttl_ns cfg
      \<and> cfg_state_revision_capacity cfg
          = cfg_conversation_max_sessions cfg + cfg_issued_response_capacity cfg + 5001)"

lemma build_coordinator_config_valid:
  "build_coordinator_config ic ms fc ttl mm ittl pttl = Inr cfg \<Longrightarrow> valid_config cfg"
  by (auto simp: build_coordinator_config_def valid_config_def split: if_splits)

end
