(* ===== verification/Root_State.thy ===== *)
theory Root_State
  imports Frozen_Map State_Records
begin

text \<open>
  The root of the coordinator, \<open>runtime/state/coordinator_state.py\<close>, and its derived orders,
  \<open>runtime/state/coordinator_root_orders.py\<close>. The root is one immutable value: twelve maps keyed by
  conversation, request, response or action, and thirteen orders that \<open>with_root_orders\<close> derives
  from the maps before a publication.

  An order is a list of tuples (rank, canonical bytes, key), sorted as Python sorts tuples. The
  third component is compared only between rows that tie on the bytes; those have the same state key
  (\<open>key_bytes_inj\<close>), which has no order of its own, and differ in the strings after it
  (\<open>root_key_suffix\<close>), so sorting on rank, bytes and these strings is the order of the code.
\<close>

type_synonym issued_key = "conversation_state_key \<times> pystr"
type_synonym ledger_key = "conversation_state_key \<times> pystr \<times> pystr"

datatype root_record_key =
    RkState conversation_state_key
  | RkPair issued_key
  | RkTriple ledger_key

type_synonym root_order_entry = "int \<times> pybytes \<times> root_record_key"

record coordinator_state_root =
  root_revision :: int
  issued_records :: "(issued_key, issued_response_record) frozen_map"
  pending_request_by_state :: "(conversation_state_key, issued_key) frozen_map"
  feedback_receipts :: "(issued_key, feedback_receipt) frozen_map"
  prepared_feedback_tokens :: "(issued_key, prepared_feedback_token_record) frozen_map"
  state_revisions :: "(conversation_state_key, state_revision_record) frozen_map"
  response_index :: "(pystr, issued_key) frozen_map"
  action_index :: "(pystr, ledger_key) frozen_map"
  conversation_turns :: "(conversation_state_key, conversation_turn_record list) frozen_map"
  clarification_records :: "(conversation_state_key, pending_clarification_record) frozen_map"
  audit_records :: "(issued_key, audit_record) frozen_map"
  action_ledger_records :: "(ledger_key, action_ledger_record) frozen_map"
  issued_expiry_order :: "root_order_entry list"
  issued_complete_eviction_order :: "root_order_entry list"
  conversation_expiry_order :: "root_order_entry list"
  state_session_eviction_order :: "root_order_entry list"
  clarification_expiry_order :: "root_order_entry list"
  audit_expiry_order :: "root_order_entry list"
  audit_eviction_order :: "root_order_entry list"
  action_ledger_expiry_order :: "root_order_entry list"
  action_ledger_eviction_order :: "root_order_entry list"
  feedback_receipt_expiry_order :: "root_order_entry list"
  prepared_token_expiry_order :: "root_order_entry list"
  state_revision_expiry_order :: "root_order_entry list"
  state_revision_eviction_order :: "root_order_entry list"

definition empty_coordinator_root :: coordinator_state_root where
  "empty_coordinator_root =
     \<lparr>root_revision = 0, issued_records = fm_empty, pending_request_by_state = fm_empty,
      feedback_receipts = fm_empty, prepared_feedback_tokens = fm_empty,
      state_revisions = fm_empty, response_index = fm_empty, action_index = fm_empty,
      conversation_turns = fm_empty, clarification_records = fm_empty, audit_records = fm_empty,
      action_ledger_records = fm_empty,
      issued_expiry_order = [], issued_complete_eviction_order = [],
      conversation_expiry_order = [], state_session_eviction_order = [],
      clarification_expiry_order = [], audit_expiry_order = [], audit_eviction_order = [],
      action_ledger_expiry_order = [], action_ledger_eviction_order = [],
      feedback_receipt_expiry_order = [], prepared_token_expiry_order = [],
      state_revision_expiry_order = [], state_revision_eviction_order = []\<rparr>"

datatype journal_operation =
    Reply_reserve | Reply_commit | Reply_abort | Feedback_prepare | Feedback_commit | Cleanup

datatype journal_outcome = Staging | Committed | Rolled_back

record reply_state_journal =
  jr_transaction_id :: pybytes
  jr_operation :: journal_operation
  jr_initiating_state_key :: "conversation_state_key option"
  jr_affected_state_keys :: "conversation_state_key list"
  jr_prior_root :: coordinator_state_root
  jr_candidate_root :: coordinator_state_root
  jr_outcome :: journal_outcome

definition build_journal ::
  "pybytes \<Rightarrow> journal_operation \<Rightarrow> conversation_state_key option \<Rightarrow> conversation_state_key list
   \<Rightarrow> coordinator_state_root \<Rightarrow> coordinator_state_root \<Rightarrow> reply_state_journal" where
  "build_journal transaction_token operation initiating affected prior candidate =
     \<lparr>jr_transaction_id = transaction_token, jr_operation = operation,
      jr_initiating_state_key = initiating, jr_affected_state_keys = affected,
      jr_prior_root = prior, jr_candidate_root = candidate, jr_outcome = Staging\<rparr>"

section \<open>Orders\<close>

fun root_key_state :: "root_record_key \<Rightarrow> conversation_state_key" where
  "root_key_state (RkState k) = k"
| "root_key_state (RkPair (k, _)) = k"
| "root_key_state (RkTriple (k, _, _)) = k"

fun root_key_suffix :: "root_record_key \<Rightarrow> pystr list" where
  "root_key_suffix (RkState _) = []"
| "root_key_suffix (RkPair (_, a)) = [a]"
| "root_key_suffix (RkTriple (_, a, b)) = [a, b]"

definition order_key :: "root_order_entry \<Rightarrow> int \<times> pybytes \<times> pystr list" where
  "order_key = (\<lambda>(rank, bytes, key). (rank, bytes, root_key_suffix key))"

definition sorted_order :: "root_order_entry list \<Rightarrow> root_order_entry list" where
  "sorted_order rows = sort_key order_key rows"

text \<open>
  \<open>keys\<close> of the session order is a frozen set, whose iteration order is arbitrary; the sort is on
  rank and bytes, which determine the row, so the model may list the keys in any order without
  repetition.
\<close>

definition max_default :: "int \<Rightarrow> int list \<Rightarrow> int" where
  "max_default d xs = (case xs of [] \<Rightarrow> d | _ \<Rightarrow> Max (set xs))"

definition session_keys ::
  "(conversation_state_key, conversation_turn_record list) frozen_map
   \<Rightarrow> (conversation_state_key, pending_clarification_record) frozen_map \<Rightarrow> conversation_state_key list" where
  "session_keys turns clarifications =
     remdups (fm_keys csk_repr turns @ fm_keys csk_repr clarifications)"

definition session_epoch ::
  "(conversation_state_key, conversation_turn_record list) frozen_map
   \<Rightarrow> (conversation_state_key, pending_clarification_record) frozen_map \<Rightarrow> conversation_state_key \<Rightarrow> int" where
  "session_epoch turns clarifications key =
     (let turn_epoch = max_default (- 1) (map ct_created_at_epoch_ms
            (case fm_get turns key of None \<Rightarrow> [] | Some ts \<Rightarrow> ts));
          clarification_epoch = (case fm_get clarifications key of
            None \<Rightarrow> - 1 | Some c \<Rightarrow> pc_created_at_epoch_ms c)
      in max turn_epoch clarification_epoch)"

definition session_eviction_order ::
  "(conversation_state_key, conversation_turn_record list) frozen_map
   \<Rightarrow> (conversation_state_key, pending_clarification_record) frozen_map
   \<Rightarrow> (int \<times> pybytes \<times> conversation_state_key) list" where
  "session_eviction_order turns clarifications =
     sort_key (\<lambda>(epoch, bytes, _). (epoch, bytes))
       (map (\<lambda>key. (session_epoch turns clarifications key,
                    state_key_json_bytes (canonical_state_key_payload key), key))
          (session_keys turns clarifications))"

fun is_complete :: "issued_response_record \<Rightarrow> bool" where
  "is_complete (Complete _) = True"
| "is_complete (Pending _) = False"

definition pair_order :: "('v \<Rightarrow> int) \<Rightarrow> (issued_key, 'v) frozen_map \<Rightarrow> root_order_entry list" where
  "pair_order rank m = sorted_order
     (map (\<lambda>((k, a), v). (rank v, key_bytes k a, RkPair (k, a))) (fm_items pair_key_repr m))"

definition ledger_order :: "(action_ledger_record \<Rightarrow> int) \<Rightarrow> (ledger_key, action_ledger_record) frozen_map
   \<Rightarrow> root_order_entry list" where
  "ledger_order rank m = sorted_order
     (map (\<lambda>((k, a, b), v). (rank v, key_bytes k b, RkTriple (k, a, b))) (fm_items triple_key_repr m))"

definition complete_order :: "(issued_key, issued_response_record) frozen_map \<Rightarrow> root_order_entry list" where
  "complete_order m = sorted_order
     (List.map_filter (\<lambda>((k, a), v). case v of
          Complete c \<Rightarrow> Some (cr_completed_at_monotonic_ns c, key_bytes k a, RkPair (k, a))
        | Pending _ \<Rightarrow> None) (fm_items pair_key_repr m))"

definition turn_order ::
  "(conversation_state_key, conversation_turn_record list) frozen_map \<Rightarrow> root_order_entry list" where
  "turn_order m = sorted_order
     (concat (map (\<lambda>(k, turns). map (\<lambda>t. (ct_created_at_epoch_ms t,
          key_bytes k (int_str (ct_ordinal t)), RkPair (k, int_str (ct_ordinal t)))) turns)
        (fm_items csk_repr m)))"

definition clarification_order ::
  "(conversation_state_key, pending_clarification_record) frozen_map \<Rightarrow> root_order_entry list" where
  "clarification_order m = sorted_order
     (map (\<lambda>(k, c). (pc_created_at_epoch_ms c, key_bytes k (pc_clarification_ref c), RkState k))
        (fm_items csk_repr m))"

definition revision_order ::
  "(conversation_state_key, state_revision_record) frozen_map \<Rightarrow> root_order_entry list" where
  "revision_order m = sorted_order
     (map (\<lambda>(k, r). (sr_expires_at_monotonic_ns r, key_bytes k [], RkState k)) (fm_items csk_repr m))"

definition with_root_orders :: "coordinator_state_root \<Rightarrow> coordinator_state_root" where
  "with_root_orders root = root
     \<lparr>issued_expiry_order := pair_order ir_expires_at_monotonic_ns (issued_records root),
      issued_complete_eviction_order := complete_order (issued_records root),
      conversation_expiry_order := turn_order (conversation_turns root),
      clarification_expiry_order := clarification_order (clarification_records root),
      feedback_receipt_expiry_order := pair_order fr_expires_at_monotonic_ns (feedback_receipts root),
      prepared_token_expiry_order :=
        pair_order (\<lambda>t. pf_expires_at_monotonic_ns (tk_preparation t)) (prepared_feedback_tokens root),
      state_revision_expiry_order := revision_order (state_revisions root),
      state_revision_eviction_order := revision_order (state_revisions root),
      action_ledger_expiry_order := ledger_order al_expires_at_monotonic_ns (action_ledger_records root),
      action_ledger_eviction_order := ledger_order al_received_at_epoch_ms (action_ledger_records root),
      audit_expiry_order := pair_order ar_expires_at_monotonic_ns (audit_records root),
      audit_eviction_order := pair_order ar_created_at_epoch_ms (audit_records root),
      state_session_eviction_order :=
        map (\<lambda>(epoch, key, state_key). (epoch, key, RkState state_key))
          (session_eviction_order (conversation_turns root) (clarification_records root))\<rparr>"

section \<open>Lemmas on the orders\<close>

text \<open>
  Lemmas on the root and its orders: which fields \<open>with_root_orders\<close> leaves alone, that it depends on
  the maps only, that sorting never compares two state keys, and what the session order lists.
\<close>

lemma with_root_orders_maps [simp]:
  "root_revision (with_root_orders r) = root_revision r"
  "issued_records (with_root_orders r) = issued_records r"
  "pending_request_by_state (with_root_orders r) = pending_request_by_state r"
  "feedback_receipts (with_root_orders r) = feedback_receipts r"
  "prepared_feedback_tokens (with_root_orders r) = prepared_feedback_tokens r"
  "state_revisions (with_root_orders r) = state_revisions r"
  "response_index (with_root_orders r) = response_index r"
  "action_index (with_root_orders r) = action_index r"
  "conversation_turns (with_root_orders r) = conversation_turns r"
  "clarification_records (with_root_orders r) = clarification_records r"
  "audit_records (with_root_orders r) = audit_records r"
  "action_ledger_records (with_root_orders r) = action_ledger_records r"
  by (simp_all add: with_root_orders_def)

lemma with_root_orders_idem [simp]: "with_root_orders (with_root_orders r) = with_root_orders r"
  by (simp add: with_root_orders_def)

section \<open>Ties\<close>

lemma set_sorted_order [simp]: "set (sorted_order rows) = set rows"
  by (simp add: sorted_order_def)

lemma sorted_sorted_order: "sorted (map order_key (sorted_order rows))"
  by (simp add: sorted_order_def)

definition row_bytes_ok :: "root_order_entry \<Rightarrow> bool" where
  "row_bytes_ok row = (\<exists>suffix. fst (snd row) = key_bytes (root_key_state (snd (snd row))) suffix)"

lemma rows_bytes_ok:
  "row \<in> set (pair_order rank m) \<Longrightarrow> row_bytes_ok row"
  "row \<in> set (complete_order mi) \<Longrightarrow> row_bytes_ok row"
  "row \<in> set (turn_order mt) \<Longrightarrow> row_bytes_ok row"
  "row \<in> set (clarification_order mc) \<Longrightarrow> row_bytes_ok row"
  "row \<in> set (revision_order mr) \<Longrightarrow> row_bytes_ok row"
  "row \<in> set (ledger_order lrank ml) \<Longrightarrow> row_bytes_ok row"
  by (auto simp: pair_order_def complete_order_def turn_order_def clarification_order_def
      revision_order_def ledger_order_def row_bytes_ok_def map_filter_def
      split: option.splits issued_response_record.splits)

definition derived_orders :: "coordinator_state_root \<Rightarrow> root_order_entry list list" where
  "derived_orders r =
     [issued_expiry_order r, issued_complete_eviction_order r, conversation_expiry_order r,
      clarification_expiry_order r, feedback_receipt_expiry_order r, prepared_token_expiry_order r,
      state_revision_expiry_order r, state_revision_eviction_order r, action_ledger_expiry_order r,
      action_ledger_eviction_order r, audit_expiry_order r, audit_eviction_order r]"

lemma derived_rows_ok:
  "order \<in> set (derived_orders (with_root_orders r)) \<Longrightarrow> row \<in> set order \<Longrightarrow> row_bytes_ok row"
  by (auto simp: derived_orders_def with_root_orders_def intro: rows_bytes_ok)

text \<open>C17 Sorting the orders never compares two \<open>ConversationStateKey\<close> objects, which have no order
  (Python would raise \<open>TypeError\<close>): two rows of a derived order that tie on the canonical bytes
  belong to the same conversation.\<close>
theorem order_ties_share_state_key:
  assumes "order \<in> set (derived_orders (with_root_orders root))"
    and "row \<in> set order" and "row' \<in> set order"
    and "fst (snd row) = fst (snd row')"
  shows "root_key_state (snd (snd row)) = root_key_state (snd (snd row'))"
  using derived_rows_ok [OF assms(1,2)] derived_rows_ok [OF assms(1,3)] assms(4)
  by (auto simp: row_bytes_ok_def key_bytes_inj)

section \<open>The session order\<close>

lemma set_session_keys [simp]:
  "set (session_keys t c) = dom (fm_get t) \<union> dom (fm_get c)"
  by (auto simp: session_keys_def)

lemma distinct_session_keys [simp]: "distinct (session_keys t c)"
  by (simp add: session_keys_def)

lemma length_session_order:
  "length (session_eviction_order t c) = card (dom (fm_get t) \<union> dom (fm_get c))"
  using distinct_card [OF distinct_session_keys, of t c] by (simp add: session_eviction_order_def)

lemma session_order_rows:
  "(e, b, k) \<in> set (session_eviction_order t c) \<longleftrightarrow>
     k \<in> dom (fm_get t) \<union> dom (fm_get c) \<and> e = session_epoch t c k
     \<and> b = state_key_json_bytes (canonical_state_key_payload k)"
  by (auto simp: session_eviction_order_def simp del: set_session_keys)
     (simp_all add: image_iff, blast+)?

lemma session_order_hd_min:
  assumes "session_eviction_order t c = (e, b, v) # rest"
    and "k \<in> dom (fm_get t) \<union> dom (fm_get c)"
  shows "(e, b) \<le> (session_epoch t c k, state_key_json_bytes (canonical_state_key_payload k))"
proof -
  let ?f = "\<lambda>(epoch, bytes, _ :: conversation_state_key). (epoch :: int, bytes :: pybytes)"
  have "sorted (map ?f (session_eviction_order t c))" by (simp add: session_eviction_order_def)
  moreover have "(session_epoch t c k, state_key_json_bytes (canonical_state_key_payload k), k)
      \<in> set (session_eviction_order t c)" using assms(2) by (simp add: session_order_rows)
  ultimately show ?thesis using assms(1) by auto
qed

lemma session_epoch_restrict:
  assumes "fm_get t' k = fm_get t k" "fm_get c' k = fm_get c k"
  shows "session_epoch t' c' k = session_epoch t c k"
  using assms by (simp add: session_epoch_def)

end
