(* ===== verification/Retention.thy ===== *)
theory Retention
  imports Root_State
begin

text \<open>
  Bounded retention, \<open>runtime/state/coordinator_retention.py\<close>: the loops that evict sessions and
  ledger rows, the eviction of a completed response, the pruning of state revisions that nothing
  pins, and \<open>prepare_root_for_publication\<close>, the last step before a root is published, with its
  validation. A loop is a \<open>function\<close> that terminates because each round removes a key. The set
  \<open>pending\<close> stands for the membership test on \<open>root.pending_request_by_state\<close>, which the loop does
  not change.
\<close>

definition action_ledger_capacity :: int where
  "action_ledger_capacity = 5000"

section \<open>Sessions\<close>

function session_loop ::
  "int \<Rightarrow> (conversation_state_key \<Rightarrow> bool)
   \<Rightarrow> (conversation_state_key, conversation_turn_record list) frozen_map
   \<Rightarrow> (conversation_state_key, pending_clarification_record) frozen_map
   \<Rightarrow> ((conversation_state_key, conversation_turn_record list) frozen_map
       \<times> (conversation_state_key, pending_clarification_record) frozen_map) result" where
  "session_loop capacity pending turns clarifications =
     (if int (length (session_eviction_order turns clarifications)) > capacity
      then (case session_eviction_order turns clarifications of
              [] \<Rightarrow> Inl IndexError
            | (_, _, victim) # _ \<Rightarrow>
                if pending victim then Inl (CoordinatorError ''state_store_unavailable'')
                else session_loop capacity pending
                       (without_keys turns {victim}) (without_keys clarifications {victim}))
      else Inr (turns, clarifications))"
  by pat_completeness auto

lemma session_order_victim:
  assumes "session_eviction_order t c = (e, b, v) # rest"
  shows "v \<in> dom (fm_get t) \<union> dom (fm_get c)"
  using assms session_order_rows [of e b v t c] by auto

termination session_loop
proof (relation "measure (\<lambda>(_, _, t, c). card (dom (fm_get t) \<union> dom (fm_get c)))", goal_cases)
  case 1
  show ?case by simp
next
  case (2 capacity pending t c row rest e y b victim)
  then have "session_eviction_order t c = (e, b, victim) # rest" by simp
  then have "victim \<in> dom (fm_get t) \<union> dom (fm_get c)" by (rule session_order_victim)
  then have "dom (fm_get (without_keys t {victim})) \<union> dom (fm_get (without_keys c {victim}))
      \<subset> dom (fm_get t) \<union> dom (fm_get c)"
    by auto
  then show ?case by (simp add: psubset_card_mono)
qed

declare session_loop.simps [simp del]

section \<open>Revisions\<close>

definition pinned_state_keys :: "coordinator_state_root \<Rightarrow> conversation_state_key set" where
  "pinned_state_keys root =
     set (fm_keys csk_repr (conversation_turns root))
     \<union> set (fm_keys csk_repr (clarification_records root))
     \<union> fst ` set (fm_keys pair_key_repr (issued_records root))
     \<union> fst ` set (fm_keys pair_key_repr (feedback_receipts root))
     \<union> fst ` set (fm_keys pair_key_repr (prepared_feedback_tokens root))
     \<union> fst ` set (fm_keys triple_key_repr (action_ledger_records root))
     \<union> fst ` set (fm_keys pair_key_repr (audit_records root))"

definition without_unpinned_revisions :: "coordinator_state_root \<Rightarrow> coordinator_state_root" where
  "without_unpinned_revisions root =
     (let pinned = pinned_state_keys root;
          removable = set (filter (\<lambda>key. key \<notin> pinned) (fm_keys csk_repr (state_revisions root)))
      in root\<lparr>state_revisions := without_keys (state_revisions root) removable\<rparr>)"

definition enforce_session_capacity :: "coordinator_state_root \<Rightarrow> int \<Rightarrow> coordinator_state_root result" where
  "enforce_session_capacity root capacity =
     res_bind (session_loop capacity (\<lambda>k. fm_get (pending_request_by_state root) k \<noteq> None)
                 (conversation_turns root) (clarification_records root))
       (\<lambda>(turns, clarifications). Inr (without_unpinned_revisions
          (root\<lparr>conversation_turns := turns, clarification_records := clarifications\<rparr>)))"

section \<open>Eviction of a completed response\<close>

definition complete_candidates :: "coordinator_state_root \<Rightarrow> (int \<times> issued_key \<times> complete_issued_response) list" where
  "complete_candidates root = List.map_filter
     (\<lambda>(key, record). case record of
         Complete c \<Rightarrow> Some (cr_completed_at_monotonic_ns c, key, c) | Pending _ \<Rightarrow> None)
     (fm_items pair_key_repr (issued_records root))"

definition effect_action_ids :: "issued_effect list \<Rightarrow> pystr set" where
  "effect_action_ids effects = set (List.map_filter ie_action_id effects)"

definition issued_capacity_eviction_candidate ::
  "coordinator_state_root \<Rightarrow> int \<Rightarrow> coordinator_state_root option result" where
  "issued_capacity_eviction_candidate root capacity =
     (if fm_len (issued_records root) < capacity then Inr None
      else let complete = complete_candidates root in
        if complete = [] then Inl (CoordinatorError ''issued_response_store_unavailable'')
        else case arg_min_list (\<lambda>(completed_at, key, _). (completed_at, snd key)) complete of
          (_, key, record) \<Rightarrow>
            Inr (Some (root
              \<lparr>root_revision := root_revision root + 1,
               issued_records := without_keys (issued_records root) {key},
               response_index := without_keys (response_index root) {resp_id (cr_response record)},
               action_index := without_keys (action_index root)
                 (effect_action_ids (cr_effects record))\<rparr>)))"

section \<open>Publication\<close>

function ledger_loop :: "(ledger_key, action_ledger_record) frozen_map \<Rightarrow> (ledger_key, action_ledger_record) frozen_map" where
  "ledger_loop ledger =
     (if fm_len ledger > action_ledger_capacity
      then let victim = fst (arg_min_list (\<lambda>((k, _, a), row). (al_received_at_epoch_ms row, key_bytes k a))
                               (fm_items triple_key_repr ledger))
           in ledger_loop (without_keys ledger {victim})
      else ledger)"
  by pat_completeness auto

lemma ledger_victim:
  assumes "fm_len ledger > action_ledger_capacity"
  shows "fm_get ledger (fst (arg_min_list f (fm_items triple_key_repr ledger))) \<noteq> None"
proof -
  have "fm_items triple_key_repr ledger \<noteq> []"
    using assms by (auto simp: action_ledger_capacity_def fm_len_items [of _ triple_key_repr])
  then have "arg_min_list f (fm_items triple_key_repr ledger) \<in> set (fm_items triple_key_repr ledger)"
    by (rule arg_min_list_mem)
  then show ?thesis by (metis fm.mem_entries option.distinct(1) prod.collapse)
qed

termination ledger_loop
proof (relation "measure (\<lambda>l. nat (fm_len l))", goal_cases)
  case 1
  show ?case by simp
next
  case (2 ledger victim)
  then obtain v where v: "fm_get ledger victim = Some v" using ledger_victim by blast
  have "0 < fm_len ledger" using 2 by (simp add: action_ledger_capacity_def)
  with v show ?case by (simp add: fm_len_drop_one)
qed

declare ledger_loop.simps [simp del]

definition enforce_inactive_record_capacities :: "coordinator_state_root \<Rightarrow> coordinator_state_root" where
  "enforce_inactive_record_capacities root =
     root\<lparr>action_ledger_records := ledger_loop (action_ledger_records root)\<rparr>"

definition enforce_state_revision_capacity ::
  "coordinator_state_root \<Rightarrow> int \<Rightarrow> coordinator_state_root result" where
  "enforce_state_revision_capacity root capacity =
     (let pruned = without_unpinned_revisions root in
      if fm_len (state_revisions pruned) \<le> capacity then Inr pruned
      else let pinned = pinned_state_keys pruned;
               removable = sort_key (\<lambda>(updated, bytes, _). (updated, bytes))
                 (map (\<lambda>(k, r). (sr_updated_at_monotonic_ns r, key_bytes k [], k))
                   (filter (\<lambda>(k, r). k \<notin> pinned) (fm_items csk_repr (state_revisions pruned))));
               excess = fm_len (state_revisions pruned) - capacity
           in if int (length removable) < excess
              then Inl (CoordinatorError ''state_store_unavailable'')
              else Inr (pruned\<lparr>state_revisions := without_keys (state_revisions pruned)
                     (set (map (\<lambda>(_, _, k). k) (take (nat excess) removable)))\<rparr>))"

definition order_fields :: "coordinator_state_root \<Rightarrow> root_order_entry list list" where
  "order_fields r =
     [issued_expiry_order r, issued_complete_eviction_order r, conversation_expiry_order r,
      state_session_eviction_order r, clarification_expiry_order r, audit_expiry_order r,
      audit_eviction_order r, action_ledger_expiry_order r, action_ledger_eviction_order r,
      feedback_receipt_expiry_order r, prepared_token_expiry_order r,
      state_revision_expiry_order r, state_revision_eviction_order r]"

definition check_pending_entry :: "coordinator_state_root \<Rightarrow> conversation_state_key \<times> issued_key \<Rightarrow> bool" where
  "check_pending_entry root = (\<lambda>(state_key, issued_key).
     case fm_get (issued_records root) issued_key of
       Some (Pending p) \<Rightarrow> pr_state_key p = state_key | _ \<Rightarrow> False)"

definition check_response_entry :: "coordinator_state_root \<Rightarrow> pystr \<times> issued_key \<Rightarrow> bool" where
  "check_response_entry root = (\<lambda>(rid, issued_key).
     case fm_get (issued_records root) issued_key of
       Some (Complete c) \<Rightarrow> resp_id (cr_response c) = rid | _ \<Rightarrow> False)"

definition check_action_entry :: "coordinator_state_root \<Rightarrow> pystr \<times> ledger_key \<Rightarrow> bool" where
  "check_action_entry root = (\<lambda>(action_id, state_key, rid, effect_key).
     case fm_get (response_index root) rid of
       None \<Rightarrow> False
     | Some issued_key \<Rightarrow> fst issued_key = state_key
         \<and> (case fm_get (issued_records root) issued_key of
              Some (Complete c) \<Rightarrow>
                (case find (\<lambda>e. ie_effect_key e = effect_key) (cr_effects c) of
                   None \<Rightarrow> False | Some e \<Rightarrow> ie_action_id e = Some action_id)
            | _ \<Rightarrow> False))"

definition validate_root :: "coordinator_state_root \<Rightarrow> unit result" where
  "validate_root root =
     seq_res
      (map (\<lambda>entry. raise_if (\<not> check_pending_entry root entry) (CoordinatorError ''state_store_unavailable''))
         (fm_items csk_repr (pending_request_by_state root))
       @ map (\<lambda>entry. raise_if (\<not> check_response_entry root entry) (CoordinatorError ''state_store_unavailable''))
         (fm_items str_repr (response_index root))
       @ map (\<lambda>entry. raise_if (\<not> check_action_entry root entry) (CoordinatorError ''state_store_unavailable''))
         (fm_items str_repr (action_index root))
       @ [raise_if (order_fields root \<noteq> order_fields (with_root_orders root))
            (CoordinatorError ''state_store_unavailable'')])"

definition prepare_root_for_publication ::
  "coordinator_state_root \<Rightarrow> int \<Rightarrow> coordinator_state_root result" where
  "prepare_root_for_publication root state_revision_capacity =
     res_bind (enforce_state_revision_capacity (enforce_inactive_record_capacities root)
                 state_revision_capacity) (\<lambda>bounded.
       let ordered = with_root_orders bounded in
       res_bind (validate_root ordered) (\<lambda>_. Inr ordered))"

end
