(* ===== verification/Effects.thy ===== *)
theory Effects
  imports State_Records
begin

text \<open>
  Effects of an issued response and their status machine: \<open>runtime/state/coordinator_effects.py\<close>.
  An effect starts without a status; feedback moves it to executed, failed or skipped, from failed or
  skipped to executed, and nowhere from executed. \<open>prepare_effect_transitions\<close> checks a feedback
  request against the record; \<open>apply_effect_transitions\<close> is the update a commit makes.
\<close>

section \<open>Definitions\<close>

definition response_level_effect :: "pystr \<Rightarrow> action_execution_type \<Rightarrow> issued_effect" where
  "response_level_effect key type =
     \<lparr>ie_effect_key = key, ie_effect_type = type, ie_action_id = None, ie_resolve_ref = None,
      ie_material_pack_option = None, ie_period = None, ie_report_date = None, ie_status = None,
      ie_artifact_ref = None, ie_status_history = []\<rparr>"

definition action_effect :: "outbound_action \<Rightarrow> issued_effect" where
  "action_effect action =
     \<lparr>ie_effect_key = ''action:'' @ oa_action_id action, ie_effect_type = oa_type action,
      ie_action_id = Some (oa_action_id action), ie_resolve_ref = Some (oa_resolve_ref action),
      ie_material_pack_option = oa_material_pack_option action, ie_period = oa_period action,
      ie_report_date = oa_report_date action, ie_status = None, ie_artifact_ref = None,
      ie_status_history = []\<rparr>"

definition derive_issued_effects :: "reply_response \<Rightarrow> issued_effect list" where
  "derive_issued_effects response =
     (if reply_kind_of (resp_reply response) \<noteq> Reply_no_reply \<and> reply_text (resp_reply response) \<noteq> []
      then [response_level_effect ''send_text'' Send_text] else [])
     @ map (\<lambda>_. response_level_effect ''mention:sales'' Mention_sales_effect)
         (filter (\<lambda>m. mention_type_of m = Mention_sales) (reply_mentions (resp_reply response)))
     @ map action_effect (resp_actions response)"

definition execution_set_key :: "action_execution_feedback \<Rightarrow> pystr result" where
  "execution_set_key execution =
     (case (ex_action_type execution, ex_action_id execution, ex_artifact execution) of
        (Send_text, None, None) \<Rightarrow> Inr ''send_text''
      | (Mention_sales_effect, None, None) \<Rightarrow> Inr ''mention:sales''
      | (type, Some action_id, Some _) \<Rightarrow>
          if send_action type then Inr (''action:'' @ action_id)
          else Inl (CoordinatorError ''feedback_effect_mismatch'')
      | _ \<Rightarrow> Inl (CoordinatorError ''feedback_effect_mismatch''))"

fun validate_execution_set :: "pystr list \<Rightarrow> action_execution_feedback list \<Rightarrow> unit result" where
  "validate_execution_set effect_keys [] = Inr ()"
| "validate_execution_set effect_keys (e # es) =
     res_bind (execution_set_key e) (\<lambda>effect_key.
       if effect_key \<in> set effect_keys then Inl (CoordinatorError ''feedback_effect_duplicate'')
       else validate_execution_set (effect_key # effect_keys) es)"

definition effect_metadata_matches :: "issued_effect \<Rightarrow> action_execution_feedback \<Rightarrow> bool" where
  "effect_metadata_matches effect execution =
     (case (ex_action_type execution, ex_artifact execution) of
        (Send_material_pack, Some (MaterialPackFeedbackArtifact resolve_ref _ option)) \<Rightarrow>
          resolve_ref = ie_resolve_ref effect \<and> option = ie_material_pack_option effect
          \<and> ie_period effect = None \<and> ie_report_date effect = None
      | (Send_weekly_report, Some (WeeklyReportFeedbackArtifact resolve_ref _ period report_date)) \<Rightarrow>
          resolve_ref = ie_resolve_ref effect \<and> period = ie_period effect
          \<and> report_date = ie_report_date effect \<and> ie_material_pack_option effect = None
      | (Send_monthly_report, Some (MonthlyReportFeedbackArtifact resolve_ref _ period report_date)) \<Rightarrow>
          resolve_ref = ie_resolve_ref effect \<and> period = ie_period effect
          \<and> report_date = ie_report_date effect \<and> ie_material_pack_option effect = None
      | (Send_text, None) \<Rightarrow> True
      | (Mention_sales_effect, None) \<Rightarrow> True
      | _ \<Rightarrow> False)"

definition validate_effect_metadata :: "issued_effect \<Rightarrow> action_execution_feedback \<Rightarrow> unit result" where
  "validate_effect_metadata effect execution =
     raise_if (\<not> effect_metadata_matches effect execution)
       (CoordinatorError ''feedback_effect_metadata_mismatch'')"

definition validate_status_transition ::
  "action_execution_status option \<Rightarrow> pystr option \<Rightarrow> action_execution_status \<Rightarrow> pystr option \<Rightarrow> unit result" where
  "validate_status_transition current current_artifact requested requested_artifact =
     (if current = Some requested \<and> current_artifact = requested_artifact then Inr ()
      else if current = None then Inr ()
      else if current \<in> {Some Failed, Some Skipped} \<and> requested = Executed then Inr ()
      else Inl (CoordinatorError ''feedback_effect_conflict''))"

definition execution_effect_key :: "action_execution_feedback \<Rightarrow> pystr" where
  "execution_effect_key execution =
     (case ex_action_id execution of
        Some action_id \<Rightarrow> ''action:'' @ action_id
      | None \<Rightarrow> if ex_action_type execution = Mention_sales_effect then ''mention:sales'' else ''send_text'')"

definition find_effect :: "pystr \<Rightarrow> issued_effect list \<Rightarrow> issued_effect option" where
  "find_effect effect_key effects = find (\<lambda>e. ie_effect_key e = effect_key) effects"

definition prepare_transition ::
  "issued_effect list \<Rightarrow> action_execution_feedback \<Rightarrow> prepared_effect_transition result" where
  "prepare_transition effects execution =
     (case find_effect (execution_effect_key execution) effects of
        None \<Rightarrow> Inl (CoordinatorError ''feedback_effect_mismatch'')
      | Some effect \<Rightarrow>
          if ie_effect_type effect \<noteq> ex_action_type execution
          then Inl (CoordinatorError ''feedback_effect_mismatch'')
          else res_bind (validate_effect_metadata effect execution) (\<lambda>_.
            let artifact_ref = (case ex_artifact execution of None \<Rightarrow> None | Some a \<Rightarrow> fa_artifact_ref a) in
            res_bind (validate_status_transition (ie_status effect) (ie_artifact_ref effect)
                        (ex_status execution) artifact_ref) (\<lambda>_.
              Inr \<lparr>pt_effect_key = ie_effect_key effect, pt_effect_type = ie_effect_type effect,
                   pt_expected_status = ie_status effect, pt_requested_status = ex_status execution,
                   pt_expected_artifact_ref = ie_artifact_ref effect,
                   pt_requested_artifact_ref = artifact_ref,
                   pt_is_noop = (ie_status effect = Some (ex_status execution)
                                 \<and> ie_artifact_ref effect = artifact_ref)\<rparr>)))"

definition prepare_effect_transitions ::
  "complete_issued_response \<Rightarrow> action_feedback_request \<Rightarrow> prepared_effect_transition list result" where
  "prepare_effect_transitions record feedback =
     res_bind (validate_execution_set [] (fb_executions feedback)) (\<lambda>_.
       map_res (prepare_transition (cr_effects record)) (fb_executions feedback))"

text \<open>\<open>{t.effect_key: t for t in transitions}\<close>: the last transition of a key wins.\<close>

definition transition_by_key :: "prepared_effect_transition list \<Rightarrow> pystr \<Rightarrow> prepared_effect_transition option" where
  "transition_by_key transitions = map_of (rev (map (\<lambda>t. (pt_effect_key t, t)) transitions))"

definition apply_effect_transition :: "prepared_effect_transition list \<Rightarrow> issued_effect \<Rightarrow> issued_effect" where
  "apply_effect_transition transitions effect =
     (case transition_by_key transitions (ie_effect_key effect) of
        None \<Rightarrow> effect
      | Some t \<Rightarrow>
          if pt_is_noop t then effect
          else effect\<lparr>ie_status := Some (pt_requested_status t),
                      ie_artifact_ref := pt_requested_artifact_ref t,
                      ie_status_history := ie_status_history effect @ [pt_requested_status t]\<rparr>)"

definition apply_effect_transitions ::
  "issued_effect list \<Rightarrow> prepared_effect_transition list \<Rightarrow> issued_effect list" where
  "apply_effect_transitions effects transitions = map (apply_effect_transition transitions) effects"

section \<open>Well-formed effects\<close>

text \<open>The histories the status machine allows: at most one step before executed.\<close>

fun legal_history :: "action_execution_status list \<Rightarrow> bool" where
  "legal_history [] = True"
| "legal_history [s] = True"
| "legal_history [s, s'] = (s \<noteq> Executed \<and> s' = Executed)"
| "legal_history _ = False"

definition effect_ok :: "issued_effect \<Rightarrow> bool" where
  "effect_ok e = (legal_history (ie_status_history e)
     \<and> ie_status e = (if ie_status_history e = [] then None else Some (last (ie_status_history e)))
     \<and> (\<forall>i. ie_action_id e = Some i \<longrightarrow> ie_effect_key e = ''action:'' @ i)
     \<and> (ie_action_id e = None \<longrightarrow> ie_effect_key e \<in> {''send_text'', ''mention:sales''})
     \<and> (ie_action_id e \<noteq> None \<longleftrightarrow> send_action (ie_effect_type e)))"

text \<open>Effects that share a key (two mentions, or an action id used twice) move together.\<close>

definition effects_ok :: "issued_effect list \<Rightarrow> bool" where
  "effects_ok es = ((\<forall>e\<in>set es. effect_ok e)
     \<and> (\<forall>e\<in>set es. \<forall>e'\<in>set es. ie_effect_key e = ie_effect_key e' \<longrightarrow>
          ie_status e = ie_status e' \<and> ie_artifact_ref e = ie_artifact_ref e'
          \<and> ie_status_history e = ie_status_history e' \<and> ie_action_id e = ie_action_id e'))"

lemma action_key_neq [simp]:
  "''action:'' @ i \<noteq> ''send_text''" "''action:'' @ i \<noteq> ''mention:sales''"
  "''send_text'' \<noteq> ''action:'' @ i" "''mention:sales'' \<noteq> ''action:'' @ i"
  by simp_all

lemma effect_ok_initial:
  "effect_ok (response_level_effect ''send_text'' Send_text)"
  "effect_ok (response_level_effect ''mention:sales'' Mention_sales_effect)"
  "effect_ok (action_effect a)"
  by (cases a; simp add: effect_ok_def response_level_effect_def action_effect_def)+

lemma derive_issued_effects_set:
  "e \<in> set (derive_issued_effects r) \<Longrightarrow>
     e = response_level_effect ''send_text'' Send_text
   \<or> e = response_level_effect ''mention:sales'' Mention_sales_effect
   \<or> (\<exists>a\<in>set (resp_actions r). e = action_effect a)"
  by (auto simp: derive_issued_effects_def split: if_splits)

lemma derive_issued_effects_fresh:
  "e \<in> set (derive_issued_effects r) \<Longrightarrow>
     ie_status e = None \<and> ie_artifact_ref e = None \<and> ie_status_history e = []"
  by (auto dest!: derive_issued_effects_set simp: response_level_effect_def action_effect_def)

lemma derive_issued_effects_effect_ok:
  "e \<in> set (derive_issued_effects r) \<Longrightarrow> effect_ok e"
  by (auto dest!: derive_issued_effects_set simp: effect_ok_initial)

lemma effect_key_action_id:
  assumes "effect_ok e" "effect_ok e'" "ie_effect_key e = ie_effect_key e'"
  shows "ie_action_id e = ie_action_id e'"
  using assms by (cases "ie_action_id e"; cases "ie_action_id e'") (auto simp: effect_ok_def)

lemma derive_issued_effects_ok: "effects_ok (derive_issued_effects r)"
  unfolding effects_ok_def
  by (auto simp: derive_issued_effects_effect_ok derive_issued_effects_fresh
      intro: effect_key_action_id)

section \<open>Preparing transitions\<close>

definition status_step_ok :: "action_execution_status option \<Rightarrow> action_execution_status \<Rightarrow> bool" where
  "status_step_ok current requested =
     (current = None \<or> (current \<in> {Some Failed, Some Skipped} \<and> requested = Executed))"

lemma validate_status_transition_ok:
  "validate_status_transition c ca r ra = Inr u \<longleftrightarrow> (c = Some r \<and> ca = ra) \<or> status_step_ok c r"
  by (auto simp: validate_status_transition_def status_step_ok_def)

definition transition_ok :: "issued_effect list \<Rightarrow> prepared_effect_transition \<Rightarrow> bool" where
  "transition_ok effects t =
     (\<exists>e. find_effect (pt_effect_key t) effects = Some e
        \<and> pt_expected_status t = ie_status e \<and> pt_expected_artifact_ref t = ie_artifact_ref e
        \<and> pt_effect_type t = ie_effect_type e
        \<and> pt_is_noop t = (ie_status e = Some (pt_requested_status t)
                          \<and> ie_artifact_ref e = pt_requested_artifact_ref t)
        \<and> (pt_is_noop t \<or> status_step_ok (ie_status e) (pt_requested_status t)))"

lemma find_effect_Some: "find_effect k es = Some e \<Longrightarrow> e \<in> set es \<and> ie_effect_key e = k"
  unfolding find_effect_def by (auto dest: find_Some_mem)

definition reported_artifact_ref :: "action_execution_feedback \<Rightarrow> pystr option" where
  "reported_artifact_ref x = (case ex_artifact x of None \<Rightarrow> None | Some a \<Rightarrow> fa_artifact_ref a)"

lemma prepare_transition_Inr:
  assumes "prepare_transition effects x = Inr t"
  obtains e where "find_effect (execution_effect_key x) effects = Some e"
    and "ie_effect_type e = ex_action_type x"
    and "ie_effect_key e = execution_effect_key x"
    and "(ie_status e = Some (ex_status x) \<and> ie_artifact_ref e = reported_artifact_ref x)
         \<or> status_step_ok (ie_status e) (ex_status x)"
    and "t = \<lparr>pt_effect_key = ie_effect_key e, pt_effect_type = ie_effect_type e,
       pt_expected_status = ie_status e, pt_requested_status = ex_status x,
       pt_expected_artifact_ref = ie_artifact_ref e,
       pt_requested_artifact_ref = reported_artifact_ref x,
       pt_is_noop = (ie_status e = Some (ex_status x) \<and> ie_artifact_ref e = reported_artifact_ref x)\<rparr>"
proof (cases "find_effect (execution_effect_key x) effects")
  case None
  with assms show thesis by (simp add: prepare_transition_def)
next
  case (Some e)
  from find_effect_Some [OF this] have "ie_effect_key e = execution_effect_key x" by simp
  with Some assms show thesis
    by (intro that [of e])
       (auto simp: prepare_transition_def Let_def res_simps validate_status_transition_ok
         reported_artifact_ref_def split: if_splits)
qed

lemma prepare_transition_ok:
  assumes "prepare_transition effects x = Inr t"
  shows "transition_ok effects t" and "pt_effect_key t = execution_effect_key x"
    and "pt_requested_status t = ex_status x"
  by (rule prepare_transition_Inr [OF assms]; simp add: transition_ok_def; fail)+

lemma prepare_effect_transitions_ok:
  "prepare_effect_transitions record feedback = Inr ts \<Longrightarrow> t \<in> set ts \<Longrightarrow> transition_ok (cr_effects record) t"
  by (auto simp: prepare_effect_transitions_def res_simps dest!: map_res_mem intro: prepare_transition_ok)

lemma execution_set_key_effect_key:
  "execution_set_key x = Inr k \<Longrightarrow> k = execution_effect_key x"
  by (auto simp: execution_set_key_def execution_effect_key_def
      split: option.splits action_execution_type.splits if_splits)

lemma validate_execution_set_distinct:
  "validate_execution_set ks xs = Inr u \<Longrightarrow>
     distinct (map execution_effect_key xs) \<and> set ks \<inter> set (map execution_effect_key xs) = {}"
  by (induction ks xs rule: validate_execution_set.induct)
     (auto simp: res_simps dest!: execution_set_key_effect_key split: if_splits)

lemma prepare_effect_transitions_keys:
  assumes "prepare_effect_transitions record feedback = Inr ts"
  shows "map pt_effect_key ts = map execution_effect_key (fb_executions feedback)"
    and "distinct (map pt_effect_key ts)"
proof -
  from assms have *: "map_res (prepare_transition (cr_effects record)) (fb_executions feedback) = Inr ts"
    and d: "distinct (map execution_effect_key (fb_executions feedback))"
    by (auto simp: prepare_effect_transitions_def res_simps dest: validate_execution_set_distinct)
  from * show "map pt_effect_key ts = map execution_effect_key (fb_executions feedback)"
    by (rule map_res_map) (rule prepare_transition_ok)
  with d show "distinct (map pt_effect_key ts)" by metis
qed

section \<open>Applying transitions\<close>

lemma transition_by_key_Some:
  "transition_by_key ts k = Some t \<Longrightarrow> t \<in> set ts \<and> pt_effect_key t = k"
  unfolding transition_by_key_def by (auto dest!: map_of_SomeD)

lemma transition_by_key_distinct:
  assumes "distinct (map pt_effect_key ts)" "t \<in> set ts"
  shows "transition_by_key ts (pt_effect_key t) = Some t"
  unfolding transition_by_key_def
proof (rule map_of_is_SomeI)
  show "distinct (map fst (rev (map (\<lambda>t. (pt_effect_key t, t)) ts)))"
    using assms(1) by (simp add: rev_map [symmetric] comp_def)
  show "(pt_effect_key t, t) \<in> set (rev (map (\<lambda>t. (pt_effect_key t, t)) ts))"
    using assms(2) by auto
qed

lemma apply_effect_transition_keeps [simp]:
  "ie_effect_key (apply_effect_transition ts e) = ie_effect_key e"
  "ie_effect_type (apply_effect_transition ts e) = ie_effect_type e"
  "ie_action_id (apply_effect_transition ts e) = ie_action_id e"
  "ie_resolve_ref (apply_effect_transition ts e) = ie_resolve_ref e"
  by (auto simp: apply_effect_transition_def split: option.splits)

lemma find_effect_apply:
  "find_effect k (apply_effect_transitions es ts) = map_option (apply_effect_transition ts) (find_effect k es)"
  unfolding find_effect_def apply_effect_transitions_def by (rule find_map_key) simp

lemma effects_ok_same:
  assumes "effects_ok es" "e \<in> set es" "find_effect (ie_effect_key e) es = Some e'"
  shows "ie_status e = ie_status e' \<and> ie_artifact_ref e = ie_artifact_ref e'"
proof -
  from assms(3) have "e' \<in> set es" "ie_effect_key e' = ie_effect_key e" by (auto dest: find_effect_Some)
  with assms(1,2) show ?thesis unfolding effects_ok_def by metis
qed

lemma effects_ok_effect_ok: "effects_ok es \<Longrightarrow> e \<in> set es \<Longrightarrow> effect_ok e"
  by (simp add: effects_ok_def)

lemma legal_history_snoc:
  assumes "legal_history h" "st = (if h = [] then None else Some (last h))" "status_step_ok st r"
  shows "legal_history (h @ [r])"
  using assms by (cases h rule: legal_history.cases) (auto simp: status_step_ok_def split: if_splits)

lemma apply_effect_transition_effect_ok:
  assumes es: "effects_ok es" and e: "e \<in> set es" and ts: "\<forall>t\<in>set ts. transition_ok es t"
  shows "effect_ok (apply_effect_transition ts e)"
proof (cases "transition_by_key ts (ie_effect_key e)")
  case None
  with effects_ok_effect_ok [OF es e] show ?thesis by (simp add: apply_effect_transition_def)
next
  case (Some t)
  then have t: "t \<in> set ts" "pt_effect_key t = ie_effect_key e" by (auto dest: transition_by_key_Some)
  with ts obtain e' where e': "find_effect (ie_effect_key e) es = Some e'"
    and step: "pt_is_noop t \<or> status_step_ok (ie_status e') (pt_requested_status t)"
    by (fastforce simp: transition_ok_def)
  have "ie_status e = ie_status e'" using effects_ok_same [OF es e e'] by simp
  with effects_ok_effect_ok [OF es e] step show ?thesis
    using legal_history_snoc [of "ie_status_history e" "ie_status e" "pt_requested_status t"]
    by (auto simp: apply_effect_transition_def Some effect_ok_def)
qed

lemma apply_effect_transition_same:
  assumes "ie_effect_key e = ie_effect_key e'" "ie_status e = ie_status e'"
    "ie_artifact_ref e = ie_artifact_ref e'" "ie_status_history e = ie_status_history e'"
  shows "ie_status (apply_effect_transition ts e) = ie_status (apply_effect_transition ts e')"
    "ie_artifact_ref (apply_effect_transition ts e) = ie_artifact_ref (apply_effect_transition ts e')"
    "ie_status_history (apply_effect_transition ts e) = ie_status_history (apply_effect_transition ts e')"
  using assms by (simp_all add: apply_effect_transition_def split: option.split)

lemma apply_effect_transitions_ok:
  assumes es: "effects_ok es" and ts: "\<forall>t\<in>set ts. transition_ok es t"
  shows "effects_ok (apply_effect_transitions es ts)"
proof -
  let ?f = "apply_effect_transition ts"
  have "\<forall>e\<in>set es. effect_ok (apply_effect_transition ts e)"
    using apply_effect_transition_effect_ok [OF es _ ts] by blast
  moreover have "ie_status (?f e) = ie_status (?f e') \<and> ie_artifact_ref (?f e) = ie_artifact_ref (?f e')
      \<and> ie_status_history (?f e) = ie_status_history (?f e') \<and> ie_action_id (?f e) = ie_action_id (?f e')"
    if "e \<in> set es" "e' \<in> set es" "ie_effect_key e = ie_effect_key e'" for e e'
  proof -
    from es that have "ie_status e = ie_status e'" "ie_artifact_ref e = ie_artifact_ref e'"
      "ie_status_history e = ie_status_history e'" "ie_action_id e = ie_action_id e'"
      unfolding effects_ok_def by metis+
    with apply_effect_transition_same [OF that(3), of ts] show ?thesis by simp
  qed
  ultimately show ?thesis
    unfolding effects_ok_def apply_effect_transitions_def set_map ball_simps(9)
      apply_effect_transition_keeps(1) by blast
qed

text \<open>Executed is terminal: applying transitions that were prepared against the record never
  changes the status, the artifact or the history of an effect that is executed.\<close>
theorem executed_effect_terminal:
  assumes "effects_ok (cr_effects record)"
    and "prepare_effect_transitions record feedback = Inr ts"
    and "e \<in> set (cr_effects record)" and "ie_status e = Some Executed"
  shows "apply_effect_transition ts e = e"
proof (cases "transition_by_key ts (ie_effect_key e)")
  case None
  then show ?thesis by (simp add: apply_effect_transition_def)
next
  case (Some t)
  then have t: "t \<in> set ts" "pt_effect_key t = ie_effect_key e" by (auto dest: transition_by_key_Some)
  with prepare_effect_transitions_ok [OF assms(2)] have "transition_ok (cr_effects record) t" by blast
  then obtain e' where e': "find_effect (ie_effect_key e) (cr_effects record) = Some e'"
    and step: "pt_is_noop t \<or> status_step_ok (ie_status e') (pt_requested_status t)"
    unfolding transition_ok_def t by blast
  from effects_ok_same [OF assms(1,3) e'] assms(4) have "ie_status e' = Some Executed" by simp
  with step have "pt_is_noop t" by (simp add: status_step_ok_def)
  then show ?thesis by (simp add: apply_effect_transition_def Some)
qed

text \<open>A feedback request that is accepted reports, for each execution in order, an effect the
  response really has, of the same type, and the committed effects carry the reported statuses.\<close>
theorem accepted_feedback_is_applied:
  assumes "effects_ok (cr_effects record)"
    and "prepare_effect_transitions record feedback = Inr ts"
    and "x \<in> set (fb_executions feedback)"
  shows "\<exists>e. find_effect (execution_effect_key x) (cr_effects record) = Some e
    \<and> ie_effect_type e = ex_action_type x
    \<and> find_effect (execution_effect_key x) (apply_effect_transitions (cr_effects record) ts)
        = Some (apply_effect_transition ts e)
    \<and> ie_status (apply_effect_transition ts e) = Some (ex_status x)
    \<and> ie_artifact_ref (apply_effect_transition ts e)
        = reported_artifact_ref x"
proof -
  from assms(2,3) obtain t where t: "t \<in> set ts" and px: "prepare_transition (cr_effects record) x = Inr t"
    by (auto simp: prepare_effect_transitions_def res_simps dest: map_res_image)
  from px obtain e where e: "find_effect (execution_effect_key x) (cr_effects record) = Some e"
    and ty: "ie_effect_type e = ex_action_type x" and ek: "ie_effect_key e = execution_effect_key x"
    and tk: "pt_effect_key t = execution_effect_key x" "pt_requested_status t = ex_status x"
      "pt_requested_artifact_ref t = reported_artifact_ref x"
      "pt_is_noop t = (ie_status e = Some (ex_status x) \<and> ie_artifact_ref e = reported_artifact_ref x)"
    by (rule prepare_transition_Inr) simp
  from transition_by_key_distinct [OF prepare_effect_transitions_keys(2) [OF assms(2)] t]
  have "transition_by_key ts (pt_effect_key t) = Some t" .
  with ek tk(1) have "transition_by_key ts (ie_effect_key e) = Some t" by simp
  with e ty tk(2-4) show ?thesis by (auto simp: find_effect_apply apply_effect_transition_def)
qed

end
