(* ===== verification/Issued_Store.thy ===== *)
theory Issued_Store
  imports Retention Effects
begin

text \<open>
  Lookup of issued responses (\<open>runtime/state/issued_response_store.py\<close>), server-issued identifiers
  (\<open>coordinator_response_ids.py\<close>) and the action ledger (\<open>coordinator_ledger.py\<close>). The hexadecimal
  texts of \<open>uuid4\<close> are arguments: \<open>response_hex\<close> for the response, \<open>action_hex i\<close> for the action at
  position \<open>i\<close>.
\<close>

section \<open>Lookup\<close>

definition lookup_issued :: "coordinator_state_root \<Rightarrow> conversation_state_key \<Rightarrow> pystr \<Rightarrow> issued_response_lookup" where
  "lookup_issued root state_key rid =
     (case fm_get (response_index root) rid of
        None \<Rightarrow> IssuedNotFound
      | Some (indexed_state_key, request_id) \<Rightarrow>
          if indexed_state_key \<noteq> state_key then IssuedIdentityMismatch
          else (case fm_get (issued_records root) (indexed_state_key, request_id) of
                  Some (Complete record) \<Rightarrow> IssuedFound record
                | _ \<Rightarrow> IssuedNotFound))"

section \<open>Identifiers\<close>

fun issue_action_ids :: "(nat \<Rightarrow> pystr) \<Rightarrow> nat \<Rightarrow> outbound_action list \<Rightarrow> outbound_action list" where
  "issue_action_ids action_hex i [] = []"
| "issue_action_ids action_hex i (a # as) =
     with_action_id a (if oa_action_id a \<noteq> [] then oa_action_id a else ''act-'' @ action_hex i)
     # issue_action_ids action_hex (i + 1) as"

definition issue_response_ids :: "pystr \<Rightarrow> (nat \<Rightarrow> pystr) \<Rightarrow> reply_response \<Rightarrow> reply_response" where
  "issue_response_ids response_hex action_hex response =
     response\<lparr>resp_id := (if resp_id response \<noteq> [] then resp_id response else ''resp-'' @ response_hex),
              resp_actions := issue_action_ids action_hex 0 (resp_actions response)\<rparr>"

section \<open>Ledger\<close>

fun ledger_updates_of ::
  "coordinator_state_root \<Rightarrow> complete_issued_response \<Rightarrow> prepared_effect_transition list \<Rightarrow> int \<Rightarrow> int
   \<Rightarrow> issued_effect list \<Rightarrow> (ledger_key \<times> action_ledger_record) list" where
  "ledger_updates_of root record transitions received expires [] = []"
| "ledger_updates_of root record transitions received expires (effect # effects) =
     (case (transition_by_key transitions (ie_effect_key effect), ie_action_id effect) of
        (Some t, Some action_id) \<Rightarrow>
          if pt_is_noop t \<or> \<not> send_action (ie_effect_type effect) then []
          else let key = (cr_state_key record, resp_id (cr_response record), action_id) in
            [(key,
              \<lparr>al_state_key = cr_state_key record, al_response_id = resp_id (cr_response record),
               al_action_id = action_id, al_action_type = ie_effect_type effect,
               al_status = pt_requested_status t, al_artifact_ref = pt_requested_artifact_ref t,
               al_status_revision =
                 (case fm_get (action_ledger_records root) key of
                    Some previous \<Rightarrow> al_status_revision previous + 1 | None \<Rightarrow> 1),
               al_received_at_epoch_ms = received, al_expires_at_monotonic_ns = expires,
               al_pol1 = cr_pol1 record, al_par1 = cr_par1 record,
               al_grh1 = cr_grh1 record, al_bsh1 = cr_bsh1 record\<rparr>)]
      | _ \<Rightarrow> []) @ ledger_updates_of root record transitions received expires effects"

definition derive_ledger_updates ::
  "coordinator_state_root \<Rightarrow> complete_issued_response \<Rightarrow> prepared_effect_transition list \<Rightarrow> int \<Rightarrow> int
   \<Rightarrow> (ledger_key, action_ledger_record) py_dict" where
  "derive_ledger_updates root record transitions received expires =
     pd_of (ledger_updates_of root record transitions received expires (cr_effects record))"

definition issued_effect_identity :: "coordinator_state_root \<Rightarrow> action_ledger_record \<Rightarrow> ledger_key option" where
  "issued_effect_identity root row =
     (case fm_get (response_index root) (al_response_id row) of
        None \<Rightarrow> None
      | Some issued_key \<Rightarrow>
          if fst issued_key \<noteq> al_state_key row then None
          else (case fm_get (issued_records root) issued_key of
              Some (Complete record) \<Rightarrow>
                if cr_state_key record \<noteq> al_state_key row
                   \<or> resp_id (cr_response record) \<noteq> al_response_id row then None
                else (case filter (\<lambda>e. ie_action_id e = Some (al_action_id row)
                                       \<and> ie_effect_type e = al_action_type row) (cr_effects record) of
                        [e] \<Rightarrow> Some (al_state_key row, al_response_id row, ie_effect_key e)
                      | _ \<Rightarrow> None)
            | _ \<Rightarrow> None))"

definition admitted_row :: "conversation_state_key \<Rightarrow> pystr \<Rightarrow> pystr \<Rightarrow> pystr \<Rightarrow> action_ledger_record \<Rightarrow> bool" where
  "admitted_row state_key par1 grh1 bsh1 row =
     (al_state_key row = state_key \<and> al_par1 row = par1 \<and> al_grh1 row = grh1 \<and> al_bsh1 row = bsh1)"

text \<open>\<open>sorted(..., reverse=True)\<close> keeps the order of rows that tie, as reversing twice does.\<close>

definition admitted_action_ledger_rows ::
  "coordinator_state_root \<Rightarrow> conversation_state_key \<Rightarrow> pystr \<Rightarrow> pystr \<Rightarrow> pystr \<Rightarrow> action_ledger_record list" where
  "admitted_action_ledger_rows root state_key par1 grh1 bsh1 =
     (let rows = pd_of (List.map_filter
            (\<lambda>(_, row). if admitted_row state_key par1 grh1 bsh1 row
                        then map_option (\<lambda>i. (i, row)) (issued_effect_identity root row) else None)
            (fm_items triple_key_repr (action_ledger_records root)))
      in take 20 (rev (sort_key (\<lambda>row. (al_received_at_epoch_ms row, al_response_id row, al_action_id row))
           (rev (map snd (pd_items rows))))))"

section \<open>Lemmas\<close>

lemma issue_action_ids_ids:
  "(\<And>i. action_hex i \<noteq> []) \<Longrightarrow> a \<in> set (issue_action_ids action_hex i as) \<Longrightarrow> oa_action_id a \<noteq> []"
  by (induction as arbitrary: i) (auto split: if_splits)

lemma issue_response_ids_id [simp]:
  "resp_id (issue_response_ids rh ah r) = (if resp_id r \<noteq> [] then resp_id r else ''resp-'' @ rh)"
  "resp_reply (issue_response_ids rh ah r) = resp_reply r"
  by (simp_all add: issue_response_ids_def)

lemma pd_items_of_mem: "x \<in> set (pd_items (pd_of xs)) \<Longrightarrow> x \<in> set xs"
proof -
  assume "x \<in> set (pd_items (pd_of xs))"
  then have "pd_get (pd_of xs) (fst x) = Some (snd x)" using pd.mem_entries [of "fst x" "snd x"] by simp
  then show ?thesis by (auto dest: map_of_SomeD)
qed

text \<open>The ledger rows admitted to a turn belong to the conversation and to the policy context that
  asks, are at most twenty, are rows of the ledger, and each reports an effect of a response that is
  still issued to that conversation.\<close>
theorem admitted_rows_isolated:
  "length (admitted_action_ledger_rows root k par1 grh1 bsh1) \<le> 20
   \<and> (\<forall>row\<in>set (admitted_action_ledger_rows root k par1 grh1 bsh1).
        admitted_row k par1 grh1 bsh1 row
        \<and> row \<in> ran (fm_get (action_ledger_records root))
        \<and> (\<exists>q c. fm_get (response_index root) (al_response_id row) = Some (k, q)
             \<and> fm_get (issued_records root) (k, q) = Some (Complete c)
             \<and> (\<exists>e\<in>set (cr_effects c). ie_action_id e = Some (al_action_id row)
                    \<and> ie_effect_type e = al_action_type row)))"
proof -
  have "admitted_row k par1 grh1 bsh1 row \<and> row \<in> ran (fm_get (action_ledger_records root))
      \<and> issued_effect_identity root row \<noteq> None"
    if "row \<in> set (admitted_action_ledger_rows root k par1 grh1 bsh1)" for row
    using that
    by (auto simp: admitted_action_ledger_rows_def Let_def map_filter_def fm.mem_entries ran_def
        dest!: in_set_takeD pd_items_of_mem split: if_splits) blast
  moreover have "\<exists>q c. fm_get (response_index root) (al_response_id row) = Some (al_state_key row, q)
      \<and> fm_get (issued_records root) (al_state_key row, q) = Some (Complete c)
      \<and> (\<exists>e\<in>set (cr_effects c). ie_action_id e = Some (al_action_id row)
             \<and> ie_effect_type e = al_action_type row)"
    if "issued_effect_identity root row \<noteq> None" for row
  proof -
    from that obtain q c e where "fm_get (response_index root) (al_response_id row) = Some (al_state_key row, q)"
      "fm_get (issued_records root) (al_state_key row, q) = Some (Complete c)"
      "filter (\<lambda>e. ie_action_id e = Some (al_action_id row)
          \<and> ie_effect_type e = al_action_type row) (cr_effects c) = [e]"
      by (auto simp: issued_effect_identity_def split: option.splits if_splits
          issued_response_record.splits list.splits)
    moreover from this(3) have "e \<in> set (cr_effects c) \<and> ie_action_id e = Some (al_action_id row)
        \<and> ie_effect_type e = al_action_type row"
      by (auto dest!: filter_eq_ConsD)
    ultimately show ?thesis by blast
  qed
  moreover have "length (admitted_action_ledger_rows root k par1 grh1 bsh1) \<le> 20"
    by (simp add: admitted_action_ledger_rows_def)
  ultimately show ?thesis by (fastforce simp: admitted_row_def)
qed

lemma lookup_found_iff:
  "lookup_issued root k rid = IssuedFound c \<longleftrightarrow>
     (\<exists>q. fm_get (response_index root) rid = Some (k, q) \<and> fm_get (issued_records root) (k, q) = Some (Complete c))"
  by (auto simp: lookup_issued_def split: option.splits issued_response_record.splits if_splits)

end
