(* ===== verification/Reply_Commit.thy ===== *)
theory Reply_Commit
  imports Issued_Store
begin

text \<open>
  Admission snapshot, reservation and abort of a reply, \<open>runtime/state/coordinator_reservations.py\<close>, and
  its commit, \<open>coordinator_reply_commit.py\<close>.
  Clock readings and random tokens are arguments in the order the code draws them: \<open>epoch_token\<close> is
  \<open>token_bytes(16)\<close>, drawn for a conversation without a revision, \<open>owner_token\<close> is
  \<open>token_bytes(32)\<close>.
\<close>

definition fresh_revision :: "coordinator_config \<Rightarrow> pybytes \<Rightarrow> int \<Rightarrow> state_revision_record" where
  "fresh_revision cfg epoch_token now =
     \<lparr>sr_revision_epoch = epoch_token, sr_revision = 0, sr_created_at_monotonic_ns = now,
      sr_updated_at_monotonic_ns = now, sr_expires_at_monotonic_ns = now + cfg_issued_ttl_ns cfg\<rparr>"

definition current_revision ::
  "coordinator_config \<Rightarrow> coordinator_state_root \<Rightarrow> conversation_state_key \<Rightarrow> pybytes \<Rightarrow> int \<Rightarrow> state_revision_record" where
  "current_revision cfg root state_key epoch_token now =
     (case fm_get (state_revisions root) state_key of
        Some r \<Rightarrow> r | None \<Rightarrow> fresh_revision cfg epoch_token now)"

definition read_turn_admission_snapshot ::
  "coordinator_config \<Rightarrow> coordinator_state_root \<Rightarrow> conversation_state_key \<Rightarrow> pystr \<Rightarrow> pystr \<Rightarrow> pystr
   \<Rightarrow> int \<Rightarrow> int \<Rightarrow> pybytes \<Rightarrow> turn_admission_snapshot" where
  "read_turn_admission_snapshot cfg root state_key par1 grh1 bsh1 now_monotonic_ns now_epoch_ms epoch_token =
     (let revision = current_revision cfg root state_key epoch_token now_monotonic_ns;
          turns = filter (\<lambda>t. ct_par1 t = par1 \<and> ct_grh1 t = grh1 \<and> ct_bsh1 t = bsh1)
            (case fm_get (conversation_turns root) state_key of None \<Rightarrow> [] | Some ts \<Rightarrow> ts);
          clarification = (case fm_get (clarification_records root) state_key of
              None \<Rightarrow> None
            | Some c \<Rightarrow> if pc_par1 c \<noteq> par1 \<or> pc_grh1 c \<noteq> grh1 \<or> pc_bsh1 c \<noteq> bsh1 then None else Some c)
      in \<lparr>sn_state_key = state_key, sn_par1 = par1, sn_grh1 = grh1, sn_bsh1 = bsh1,
          sn_ledger_rows = admitted_action_ledger_rows root state_key par1 grh1 bsh1,
          sn_turns = turns, sn_pending_clarification = clarification,
          sn_revision_epoch = sr_revision_epoch revision, sn_state_revision = sr_revision revision,
          sn_snapshot_at_epoch_ms = now_epoch_ms, sn_snapshot_at_monotonic_ns = now_monotonic_ns,
          sn_pending_reply = (fm_get (pending_request_by_state root) state_key \<noteq> None)\<rparr>)"

definition existing_reservation_result ::
  "coordinator_state_root \<Rightarrow> conversation_state_key \<Rightarrow> pystr \<Rightarrow> pystr \<Rightarrow> bool \<Rightarrow> reservation_result option result" where
  "existing_reservation_result root state_key request_id request_hash replay_eligible =
     (case fm_get (issued_records root) (state_key, request_id) of
        Some existing \<Rightarrow>
          if ir_request_hash existing \<noteq> request_hash \<or> ir_replay_eligible existing \<noteq> replay_eligible
          then Inl (CoordinatorError ''request_id_conflict'')
          else (case existing of
              Pending _ \<Rightarrow> Inl (CoordinatorError ''request_in_progress'')
            | Complete c \<Rightarrow>
                if \<not> replay_eligible then Inl (CoordinatorError ''request_id_conflict'')
                else Inr (Some (CompletedReplyReplay
                  \<lparr>cp_state_key = state_key, cp_request_id = request_id, cp_request_hash = request_hash,
                   cp_response = cr_response c, cp_issued_at_epoch_ms = cr_issued_at_epoch_ms c,
                   cp_issued_record_revision = cr_record_revision c\<rparr>)))
      | None \<Rightarrow>
          if fm_get (pending_request_by_state root) state_key \<noteq> None
          then Inl (CoordinatorError ''conversation_turn_in_progress'') else Inr None)"

definition reserve_reply_candidate ::
  "coordinator_config \<Rightarrow> coordinator_state_root \<Rightarrow> conversation_state_key \<Rightarrow> pystr \<Rightarrow> pystr \<Rightarrow> bool
   \<Rightarrow> int \<Rightarrow> pybytes \<Rightarrow> pybytes \<Rightarrow> int
   \<Rightarrow> (coordinator_state_root option \<times> reservation_result) result" where
  "reserve_reply_candidate cfg root state_key request_id request_hash replay_eligible
       now_monotonic_ns epoch_token owner_token now_epoch_ms =
     res_bind (existing_reservation_result root state_key request_id request_hash replay_eligible) (\<lambda>existing.
       case existing of
         Some result \<Rightarrow> Inr (None, result)
       | None \<Rightarrow>
          let state_revision = current_revision cfg root state_key epoch_token now_monotonic_ns;
              existing_key = (state_key, request_id);
              record = \<lparr>pr_state_key = state_key, pr_request_id = request_id,
                pr_request_hash = request_hash, pr_replay_eligible = replay_eligible,
                pr_owner_token = owner_token, pr_revision_epoch = sr_revision_epoch state_revision,
                pr_reserved_state_revision = sr_revision state_revision,
                pr_created_at_epoch_ms = now_epoch_ms, pr_created_at_monotonic_ns = now_monotonic_ns,
                pr_expires_at_monotonic_ns = now_monotonic_ns + cfg_issued_pending_ttl_ns cfg\<rparr>
          in Inr (Some (root
               \<lparr>root_revision := root_revision root + 1,
                issued_records := with_updates (issued_records root) [(existing_key, Pending record)],
                pending_request_by_state :=
                  with_updates (pending_request_by_state root) [(state_key, existing_key)],
                state_revisions := with_updates (state_revisions root) [(state_key, state_revision)]\<rparr>),
             NewReplyReservation \<lparr>nr_state_key = state_key, nr_request_id = request_id,
               nr_request_hash = request_hash, nr_replay_eligible = replay_eligible,
               nr_owner_token = owner_token, nr_revision_epoch = sr_revision_epoch state_revision,
               nr_state_revision = sr_revision state_revision\<rparr>))"

definition abort_reply_candidate ::
  "coordinator_state_root \<Rightarrow> conversation_state_key \<Rightarrow> pystr \<Rightarrow> pybytes \<Rightarrow> coordinator_state_root result" where
  "abort_reply_candidate root state_key request_id owner_token =
     (case fm_get (issued_records root) (state_key, request_id) of
        Some (Pending pending) \<Rightarrow>
          if pr_owner_token pending \<noteq> owner_token then Inl (CoordinatorError ''reservation_not_found'')
          else Inr (root
            \<lparr>root_revision := root_revision root + 1,
             issued_records := without_keys (issued_records root) {(state_key, request_id)},
             pending_request_by_state := without_keys (pending_request_by_state root) {state_key}\<rparr>)
      | _ \<Rightarrow> Inl (CoordinatorError ''reservation_not_found''))"

section \<open>Committing a reply\<close>

text \<open>
  \<open>commit_reply_candidate\<close>. The
  commit turns the pending record of its reservation into a complete one, bumps the revision of the
  conversation, appends the two turns, replaces the pending clarification and adds the audit record.
\<close>

definition user_turn_record :: "reply_commit_proposal \<Rightarrow> int \<Rightarrow> int \<Rightarrow> conversation_turn_record" where
  "user_turn_record p ordinal now =
     \<lparr>ct_role = Role_user, ct_text = rp_user_turn p, ct_ordinal = ordinal,
      ct_created_at_epoch_ms = now, ct_pol1 = rp_pol1 p, ct_par1 = rp_par1 p, ct_grh1 = rp_grh1 p,
      ct_bsh1 = rp_bsh1 p, ct_reply_kind = None, ct_clarification_ref = None\<rparr>"

definition assistant_turn_record :: "reply_commit_proposal \<Rightarrow> int \<Rightarrow> int \<Rightarrow> pystr option \<Rightarrow> conversation_turn_record" where
  "assistant_turn_record p ordinal now ref =
     \<lparr>ct_role = Role_assistant, ct_text = at_text (rp_assistant_turn p), ct_ordinal = ordinal,
      ct_created_at_epoch_ms = now, ct_pol1 = rp_pol1 p, ct_par1 = rp_par1 p, ct_grh1 = rp_grh1 p,
      ct_bsh1 = rp_bsh1 p, ct_reply_kind = Some (at_reply_kind (rp_assistant_turn p)),
      ct_clarification_ref = ref\<rparr>"

definition commit_clarification ::
  "(pybytes \<Rightarrow> pystr) \<Rightarrow> reply_commit_proposal \<Rightarrow> int \<Rightarrow> int \<Rightarrow> pending_clarification_record option" where
  "commit_clarification sha p next_ordinal now = map_option (\<lambda>c.
     \<lparr>pc_clarification_ref = clarification_ref_hash sha (rp_state_key p) (next_ordinal + 1) (pcp_question c),
      pc_kind = pcp_kind c, pc_slots = pcp_slots c, pc_question = pcp_question c,
      pc_topic = pcp_topic c, pc_originating_turn_ordinal = next_ordinal + 1,
      pc_created_at_epoch_ms = now, pc_pol1 = rp_pol1 p, pc_par1 = rp_par1 p,
      pc_grh1 = rp_grh1 p, pc_bsh1 = rp_bsh1 p\<rparr>) (rp_clarification p)"

text \<open>The audit map before the insertion: at capacity the oldest record is evicted.\<close>

definition evict_audit :: "(issued_key, audit_record) frozen_map \<Rightarrow> int \<Rightarrow> (issued_key, audit_record) frozen_map" where
  "evict_audit audits capacity =
     (if fm_len audits \<ge> capacity
      then without_keys audits
        {fst (arg_min_list (\<lambda>((k, a), r). (ar_created_at_epoch_ms r, key_bytes k a)) (fm_items pair_key_repr audits))}
      else audits)"

definition complete_record ::
  "coordinator_config \<Rightarrow> reply_commit_proposal \<Rightarrow> state_revision_record \<Rightarrow> reply_response \<Rightarrow> int \<Rightarrow> int
   \<Rightarrow> complete_issued_response" where
  "complete_record cfg p revised response now_monotonic_ns now_epoch_ms =
     \<lparr>cr_state_key = rp_state_key p, cr_request_id = rp_request_id p, cr_request_hash = rp_request_hash p,
      cr_replay_eligible = rp_replay_eligible p, cr_revision_epoch = sr_revision_epoch revised,
      cr_committed_state_revision = sr_revision revised, cr_record_revision = 1,
      cr_response = response, cr_effects = derive_issued_effects response, cr_receipts = [],
      cr_issued_at_epoch_ms = now_epoch_ms, cr_completed_at_monotonic_ns = now_monotonic_ns,
      cr_expires_at_monotonic_ns = now_monotonic_ns + cfg_issued_ttl_ns cfg,
      cr_pol1 = rp_pol1 p, cr_par1 = rp_par1 p, cr_grh1 = rp_grh1 p, cr_bsh1 = rp_bsh1 p\<rparr>"

definition action_entries :: "conversation_state_key \<Rightarrow> pystr \<Rightarrow> issued_effect list \<Rightarrow> (pystr \<times> ledger_key) list" where
  "action_entries state_key rid effects =
     List.map_filter (\<lambda>e. map_option (\<lambda>i. (i, state_key, rid, ie_effect_key e)) (ie_action_id e)) effects"

definition bumped_revision :: "coordinator_config \<Rightarrow> state_revision_record \<Rightarrow> int \<Rightarrow> state_revision_record" where
  "bumped_revision cfg r now =
     \<lparr>sr_revision_epoch = sr_revision_epoch r, sr_revision = sr_revision r + 1,
      sr_created_at_monotonic_ns = sr_created_at_monotonic_ns r, sr_updated_at_monotonic_ns = now,
      sr_expires_at_monotonic_ns = now + cfg_issued_ttl_ns cfg\<rparr>"

definition prior_turns :: "coordinator_state_root \<Rightarrow> conversation_state_key \<Rightarrow> conversation_turn_record list" where
  "prior_turns root k = (case fm_get (conversation_turns root) k of None \<Rightarrow> [] | Some ts \<Rightarrow> ts)"

text \<open>The candidate before session capacity is enforced.\<close>

definition committed_root ::
  "(pybytes \<Rightarrow> pystr) \<Rightarrow> coordinator_config \<Rightarrow> coordinator_state_root \<Rightarrow> reply_commit_proposal
   \<Rightarrow> state_revision_record \<Rightarrow> reply_response \<Rightarrow> audit_record \<Rightarrow> int \<Rightarrow> int \<Rightarrow> coordinator_state_root" where
  "committed_root sha cfg root p revision response audit now_monotonic_ns now_epoch_ms =
     (let k = rp_state_key p;
          revised = bumped_revision cfg revision now_monotonic_ns;
          next_ordinal = int (length (prior_turns root k));
          clarification = commit_clarification sha p next_ordinal now_epoch_ms;
          turns = py_last (cfg_conversation_max_messages cfg)
            (prior_turns root k
             @ [user_turn_record p next_ordinal now_epoch_ms,
                assistant_turn_record p (next_ordinal + 1) now_epoch_ms
                  (map_option pc_clarification_ref clarification)]);
          record = complete_record cfg p revised response now_monotonic_ns now_epoch_ms
      in root
        \<lparr>root_revision := root_revision root + 1,
         issued_records := with_updates (issued_records root) [((k, rp_request_id p), Complete record)],
         pending_request_by_state := without_keys (pending_request_by_state root) {k},
         state_revisions := with_updates (state_revisions root) [(k, revised)],
         response_index := with_updates (response_index root) [(resp_id response, (k, rp_request_id p))],
         action_index := with_updates (action_index root)
           (pd_items (pd_of (action_entries k (resp_id response) (cr_effects record)))),
         conversation_turns := with_updates (conversation_turns root) [(k, turns)],
         clarification_records := (case clarification of
             Some c \<Rightarrow> with_updates (clarification_records root) [(k, c)]
           | None \<Rightarrow> without_keys (clarification_records root) {k}),
         audit_records := with_updates
           (evict_audit (audit_records root) (cfg_conversation_max_sessions cfg))
           [((k, resp_id response), audit)]\<rparr>)"

definition commit_reply_candidate ::
  "(pybytes \<Rightarrow> pystr) \<Rightarrow> coordinator_config \<Rightarrow> coordinator_state_root \<Rightarrow> reply_commit_proposal
   \<Rightarrow> pystr \<Rightarrow> (nat \<Rightarrow> pystr) \<Rightarrow> int \<Rightarrow> int \<Rightarrow> (coordinator_state_root \<times> reply_response) result" where
  "commit_reply_candidate sha cfg root proposal response_hex action_hex now_monotonic_ns now_epoch_ms =
     (case fm_get (issued_records root) (rp_state_key proposal, rp_request_id proposal) of
        Some (Pending pending) \<Rightarrow>
          if pr_owner_token pending \<noteq> rp_owner_token proposal
          then Inl (CoordinatorError ''reservation_not_found'')
          else (case fm_get (state_revisions root) (rp_state_key proposal) of
              None \<Rightarrow> Inl (CoordinatorError ''conversation_state_changed'')
            | Some revision \<Rightarrow>
                if sr_revision_epoch revision \<noteq> rp_expected_revision_epoch proposal
                   \<or> sr_revision revision \<noteq> rp_expected_state_revision proposal
                then Inl (CoordinatorError ''conversation_state_changed'')
                else if pr_request_hash pending \<noteq> rp_request_hash proposal
                   \<or> pr_replay_eligible pending \<noteq> rp_replay_eligible proposal
                then Inl (CoordinatorError ''request_id_conflict'')
                else let response = issue_response_ids response_hex action_hex (rp_response proposal) in
                  if fm_get (response_index root) (resp_id response) \<noteq> None
                  then Inl (CoordinatorError ''state_store_unavailable'')
                  else if (reply_kind_of (resp_reply response) = Reply_clarification)
                          \<noteq> at_clarification_requested (rp_assistant_turn proposal)
                  then Inl (CoordinatorError ''reply_commit_invalid'')
                  else if (rp_clarification proposal \<noteq> None)
                          \<noteq> at_clarification_requested (rp_assistant_turn proposal)
                  then Inl (CoordinatorError ''reply_commit_invalid'')
                  else res_bind (build_audit_record (rp_audit proposal) (rp_state_key proposal)
                          (resp_id response) (rp_request_id proposal)
                          (reply_kind_of (resp_reply response)) now_epoch_ms
                          (now_monotonic_ns + cfg_issued_ttl_ns cfg)) (\<lambda>audit.
                    res_bind (enforce_session_capacity
                        (committed_root sha cfg root proposal revision response audit
                           now_monotonic_ns now_epoch_ms)
                        (cfg_conversation_max_sessions cfg)) (\<lambda>candidate.
                      Inr (candidate, response))))
      | _ \<Rightarrow> Inl (CoordinatorError ''reservation_not_found''))"

end
