(* ===== verification/Feedback_Commit.thy ===== *)
theory Feedback_Commit
  imports Issued_Store
begin

text \<open>
  Feedback in two phases: \<open>runtime/state/coordinator_feedback.py\<close>. Preparation checks the feedback
  against the issued record and stores a token bound to the revisions it saw; the commit applies it
  only when both revisions are still current, and leaves a receipt under which a repeated request is
  answered without another effect.
\<close>

definition resolve_feedback_record ::
  "coordinator_state_root \<Rightarrow> conversation_state_key \<Rightarrow> action_feedback_request \<Rightarrow> complete_issued_response result" where
  "resolve_feedback_record root state_key feedback =
     (case lookup_issued root state_key (fb_response_id feedback) of
        IssuedNotFound \<Rightarrow> Inl (CoordinatorError ''issued_response_not_found'')
      | IssuedIdentityMismatch \<Rightarrow> Inl (CoordinatorError ''feedback_identity_mismatch'')
      | IssuedFound record \<Rightarrow>
          if cr_request_id record \<noteq> fb_request_id feedback
          then Inl (CoordinatorError ''feedback_effect_mismatch'') else Inr record)"

definition feedback_commit_inputs ::
  "coordinator_state_root \<Rightarrow> prepared_feedback \<Rightarrow> int \<Rightarrow> (complete_issued_response \<times> state_revision_record) result" where
  "feedback_commit_inputs root prepared now_monotonic_ns =
     (case fm_get (prepared_feedback_tokens root) (pf_state_key prepared, pf_feedback_id prepared) of
        None \<Rightarrow> Inl (CoordinatorError ''feedback_token_not_found'')
      | Some stored \<Rightarrow>
          if pf_commit_token (tk_preparation stored) \<noteq> pf_commit_token prepared
          then Inl (CoordinatorError ''feedback_token_not_found'')
          else if now_monotonic_ns \<ge> pf_expires_at_monotonic_ns prepared
          then Inl (CoordinatorError ''feedback_token_expired'')
          else (case (lookup_issued root (pf_state_key prepared) (pf_response_id prepared),
                      fm_get (state_revisions root) (pf_state_key prepared)) of
              (IssuedFound record, Some revision) \<Rightarrow>
                if sr_revision_epoch revision \<noteq> pf_revision_epoch prepared
                   \<or> sr_revision revision \<noteq> pf_expected_state_revision prepared
                   \<or> cr_record_revision record \<noteq> pf_expected_issued_record_revision prepared
                then Inl (CoordinatorError ''conversation_state_changed'')
                else Inr (record, revision)
            | _ \<Rightarrow> Inl (CoordinatorError ''conversation_state_changed'')))"

definition requires_prepared_token_drop :: "py_error \<Rightarrow> bool" where
  "requires_prepared_token_drop e =
     (e = CoordinatorError ''feedback_token_expired'' \<or> e = CoordinatorError ''conversation_state_changed'')"

definition feedback_token_ttl_ns :: int where
  "feedback_token_ttl_ns = 30000000000"

definition prepare_feedback_candidate ::
  "(pybytes \<Rightarrow> pystr) \<Rightarrow> coordinator_config \<Rightarrow> coordinator_state_root \<Rightarrow> conversation_state_key
   \<Rightarrow> action_feedback_request \<Rightarrow> complete_issued_response \<Rightarrow> pybytes \<Rightarrow> int \<Rightarrow> int
   \<Rightarrow> (coordinator_state_root option \<times> feedback_preparation) result" where
  "prepare_feedback_candidate sha cfg root state_key feedback record commit_token now_expiry now_created =
     (let digest = feedback_hash sha feedback;
          token_key = (state_key, fb_feedback_id feedback)
      in case fm_get (feedback_receipts root) token_key of
        Some receipt \<Rightarrow>
          if fr_feedback_hash receipt \<noteq> digest then Inl (CoordinatorError ''feedback_id_conflict'')
          else Inr (None, FeedbackReceiptReplay
            \<lparr>rr_state_key = state_key, rr_feedback_id = fb_feedback_id feedback,
             rr_feedback_hash = digest, rr_request_id = fb_request_id feedback,
             rr_response_id = fb_response_id feedback, rr_receipt_id = fr_receipt_id receipt,
             rr_issued_record_revision = fr_issued_record_revision receipt\<rparr>)
      | None \<Rightarrow>
        (case fm_get (prepared_feedback_tokens root) token_key of
          Some existing \<Rightarrow>
            if pf_feedback_hash (tk_preparation existing) \<noteq> digest
            then Inl (CoordinatorError ''feedback_id_conflict'')
            else Inr (None, PreparedFeedback (tk_preparation existing))
        | None \<Rightarrow>
            if fm_len (prepared_feedback_tokens root) \<ge> cfg_issued_response_capacity cfg
            then Inl (CoordinatorError ''feedback_store_unavailable'')
            else (case fm_get (state_revisions root) state_key of
                None \<Rightarrow> Inl (CoordinatorError ''conversation_state_changed'')
              | Some revision \<Rightarrow>
                  res_bind (prepare_effect_transitions record feedback) (\<lambda>transitions.
                    let prepared =
                      \<lparr>pf_state_key = state_key, pf_feedback_id = fb_feedback_id feedback,
                       pf_feedback_hash = digest, pf_request_id = fb_request_id feedback,
                       pf_response_id = fb_response_id feedback, pf_commit_token = commit_token,
                       pf_revision_epoch = sr_revision_epoch revision,
                       pf_expected_state_revision = sr_revision revision,
                       pf_expected_issued_record_revision = cr_record_revision record,
                       pf_transitions = transitions,
                       pf_expires_at_monotonic_ns = now_expiry + feedback_token_ttl_ns\<rparr>
                    in Inr (Some (root
                        \<lparr>root_revision := root_revision root + 1,
                         prepared_feedback_tokens := with_updates (prepared_feedback_tokens root)
                           [(token_key, \<lparr>tk_preparation = prepared,
                                         tk_created_at_monotonic_ns = now_created\<rparr>)]\<rparr>),
                      PreparedFeedback prepared)))))"

definition next_state_revision :: "coordinator_config \<Rightarrow> state_revision_record \<Rightarrow> int \<Rightarrow> state_revision_record" where
  "next_state_revision cfg r now =
     \<lparr>sr_revision_epoch = sr_revision_epoch r, sr_revision = sr_revision r + 1,
      sr_created_at_monotonic_ns = sr_created_at_monotonic_ns r, sr_updated_at_monotonic_ns = now,
      sr_expires_at_monotonic_ns = now + cfg_issued_ttl_ns cfg\<rparr>"

definition commit_receipt ::
  "(pybytes \<Rightarrow> pystr) \<Rightarrow> coordinator_config \<Rightarrow> prepared_feedback \<Rightarrow> int \<Rightarrow> int \<Rightarrow> int \<Rightarrow> feedback_receipt" where
  "commit_receipt sha cfg prepared record_revision now_monotonic_ns now_epoch_ms =
     \<lparr>fr_receipt_id = feedback_receipt_id sha (pf_state_key prepared) (pf_feedback_id prepared)
        (pf_feedback_hash prepared) (pf_response_id prepared) record_revision,
      fr_state_key = pf_state_key prepared, fr_feedback_id = pf_feedback_id prepared,
      fr_feedback_hash = pf_feedback_hash prepared, fr_response_id = pf_response_id prepared,
      fr_issued_record_revision = record_revision,
      fr_stored = int (length (filter (\<lambda>t. \<not> pt_is_noop t) (pf_transitions prepared))),
      fr_created_at_epoch_ms = now_epoch_ms, fr_created_at_monotonic_ns = now_monotonic_ns,
      fr_expires_at_monotonic_ns = now_monotonic_ns + cfg_issued_ttl_ns cfg\<rparr>"

definition updated_record ::
  "complete_issued_response \<Rightarrow> prepared_feedback \<Rightarrow> feedback_receipt \<Rightarrow> complete_issued_response" where
  "updated_record record prepared receipt = record
     \<lparr>cr_effects := apply_effect_transitions (cr_effects record) (pf_transitions prepared),
      cr_receipts := cr_receipts record @ [receipt],
      cr_record_revision := cr_record_revision record + 1\<rparr>"

definition feedback_root ::
  "(pybytes \<Rightarrow> pystr) \<Rightarrow> coordinator_config \<Rightarrow> coordinator_state_root \<Rightarrow> prepared_feedback
   \<Rightarrow> complete_issued_response \<Rightarrow> state_revision_record \<Rightarrow> int \<Rightarrow> int \<Rightarrow> coordinator_state_root" where
  "feedback_root sha cfg root prepared record revision now_monotonic_ns now_epoch_ms =
     (let receipt = commit_receipt sha cfg prepared (cr_record_revision record + 1) now_monotonic_ns now_epoch_ms;
          complete = updated_record record prepared receipt;
          token_key = (pf_state_key prepared, pf_feedback_id prepared);
          ledger_updates = derive_ledger_updates root complete (pf_transitions prepared) now_epoch_ms
            (now_monotonic_ns + cfg_issued_ttl_ns cfg)
      in root
        \<lparr>root_revision := root_revision root + 1,
         issued_records := with_updates (issued_records root)
           [((pf_state_key prepared, pf_request_id prepared), Complete complete)],
         feedback_receipts := with_updates (feedback_receipts root) [(token_key, receipt)],
         prepared_feedback_tokens := without_keys (prepared_feedback_tokens root) {token_key},
         state_revisions := with_updates (state_revisions root)
           [(pf_state_key prepared, next_state_revision cfg revision now_monotonic_ns)],
         action_ledger_records :=
           with_updates (action_ledger_records root) (pd_items ledger_updates)\<rparr>)"

definition record_receipt_limit :: int where
  "record_receipt_limit = 64"

definition commit_feedback_candidate ::
  "(pybytes \<Rightarrow> pystr) \<Rightarrow> coordinator_config \<Rightarrow> coordinator_state_root \<Rightarrow> prepared_feedback \<Rightarrow> int \<Rightarrow> int
   \<Rightarrow> (coordinator_state_root \<times> feedback_commit_result) result" where
  "commit_feedback_candidate sha cfg root prepared now_monotonic_ns now_epoch_ms =
     res_bind (feedback_commit_inputs root prepared now_monotonic_ns) (\<lambda>(record, revision).
       if int (length (cr_receipts record)) \<ge> record_receipt_limit
          \<or> fm_len (feedback_receipts root) \<ge> cfg_feedback_receipt_capacity cfg
       then Inl (CoordinatorError ''feedback_store_unavailable'')
       else let receipt = commit_receipt sha cfg prepared (cr_record_revision record + 1)
                  now_monotonic_ns now_epoch_ms
         in Inr (feedback_root sha cfg root prepared record revision now_monotonic_ns now_epoch_ms,
                 \<lparr>fcr_receipt_id = fr_receipt_id receipt, fcr_stored = fr_stored receipt,
                  fcr_replayed = False\<rparr>))"

definition drop_prepared_token_candidate ::
  "coordinator_state_root \<Rightarrow> prepared_feedback \<Rightarrow> coordinator_state_root" where
  "drop_prepared_token_candidate root prepared = root
     \<lparr>root_revision := root_revision root + 1,
      prepared_feedback_tokens := without_keys (prepared_feedback_tokens root)
        {(pf_state_key prepared, pf_feedback_id prepared)}\<rparr>"

end
