(* ===== verification/Cleanup.thy ===== *)
theory Cleanup
  imports Issued_Store
begin

text \<open>
  Expiry: \<open>cleanup_candidate\<close> of \<open>runtime/state/coordinator_cleanup.py\<close>. It computes what has expired
  at the two clock readings, and when there is anything, the root without it and the number of items
  removed; with nothing to remove it returns no candidate.
\<close>

definition retained_turn_list :: "coordinator_config \<Rightarrow> int \<Rightarrow> conversation_turn_record list \<Rightarrow> conversation_turn_record list" where
  "retained_turn_list cfg now_epoch_ms turns =
     py_last (cfg_conversation_max_messages cfg)
       (filter (\<lambda>t. ct_created_at_epoch_ms t + cfg_conversation_ttl_ms cfg > now_epoch_ms) turns)"

definition retained_turns ::
  "coordinator_config \<Rightarrow> int \<Rightarrow> coordinator_state_root
   \<Rightarrow> (conversation_state_key, conversation_turn_record list) py_dict" where
  "retained_turns cfg now_epoch_ms root = pd_of (List.map_filter
     (\<lambda>(k, turns). let retained = retained_turn_list cfg now_epoch_ms turns in
        if retained \<noteq> [] then Some (k, retained) else None)
     (fm_items csk_repr (conversation_turns root)))"

definition keys_where :: "('k \<Rightarrow> pystr) \<Rightarrow> ('k \<Rightarrow> 'v \<Rightarrow> bool) \<Rightarrow> ('k, 'v) frozen_map \<Rightarrow> 'k set" where
  "keys_where repr P m = set (map fst (filter (\<lambda>(k, v). P k v) (fm_items repr m)))"

definition expired_turn_states :: "coordinator_config \<Rightarrow> int \<Rightarrow> coordinator_state_root \<Rightarrow> conversation_state_key set" where
  "expired_turn_states cfg now_epoch_ms root =
     keys_where csk_repr (\<lambda>k _. pd_get (retained_turns cfg now_epoch_ms root) k = None) (conversation_turns root)"

definition changed_turn_states :: "coordinator_config \<Rightarrow> int \<Rightarrow> coordinator_state_root \<Rightarrow> conversation_state_key set" where
  "changed_turn_states cfg now_epoch_ms root =
     set (map fst (filter (\<lambda>(k, turns). Some turns \<noteq> fm_get (conversation_turns root) k)
       (pd_items (retained_turns cfg now_epoch_ms root))))"

definition expired_clarifications :: "coordinator_config \<Rightarrow> int \<Rightarrow> coordinator_state_root \<Rightarrow> conversation_state_key set" where
  "expired_clarifications cfg now_epoch_ms root =
     keys_where csk_repr (\<lambda>_ c. pc_created_at_epoch_ms c + cfg_conversation_ttl_ms cfg \<le> now_epoch_ms)
       (clarification_records root)"

definition expired_audits :: "int \<Rightarrow> coordinator_state_root \<Rightarrow> issued_key set" where
  "expired_audits now root =
     keys_where pair_key_repr (\<lambda>_ r. ar_expires_at_monotonic_ns r \<le> now) (audit_records root)"

definition expired_tokens :: "int \<Rightarrow> coordinator_state_root \<Rightarrow> issued_key set" where
  "expired_tokens now root =
     keys_where pair_key_repr (\<lambda>_ t. pf_expires_at_monotonic_ns (tk_preparation t) \<le> now)
       (prepared_feedback_tokens root)"

definition expired_records :: "int \<Rightarrow> coordinator_state_root \<Rightarrow> issued_key set" where
  "expired_records now root =
     keys_where pair_key_repr (\<lambda>_ r. ir_expires_at_monotonic_ns r \<le> now) (issued_records root)"

definition expired_feedback_receipts :: "int \<Rightarrow> coordinator_state_root \<Rightarrow> issued_key set" where
  "expired_feedback_receipts now root =
     keys_where pair_key_repr (\<lambda>_ r. fr_expires_at_monotonic_ns r \<le> now) (feedback_receipts root)"

definition expired_ledger_rows :: "int \<Rightarrow> coordinator_state_root \<Rightarrow> ledger_key set" where
  "expired_ledger_rows now root =
     keys_where triple_key_repr (\<lambda>_ r. al_expires_at_monotonic_ns r \<le> now) (action_ledger_records root)"

definition live_receipts :: "int \<Rightarrow> complete_issued_response \<Rightarrow> feedback_receipt list" where
  "live_receipts now c = filter (\<lambda>r. fr_expires_at_monotonic_ns r > now) (cr_receipts c)"

fun retain_record :: "int \<Rightarrow> issued_response_record \<Rightarrow> issued_response_record" where
  "retain_record now (Complete c) =
     (if live_receipts now c \<noteq> cr_receipts c then Complete (c\<lparr>cr_receipts := live_receipts now c\<rparr>)
      else Complete c)"
| "retain_record now (Pending p) = Pending p"

definition retained_issued_records ::
  "int \<Rightarrow> coordinator_state_root \<Rightarrow> (issued_key, issued_response_record) py_dict" where
  "retained_issued_records now root = pd_of (List.map_filter
     (\<lambda>(key, r). if key \<in> expired_records now root then None else Some (key, retain_record now r))
     (fm_items pair_key_repr (issued_records root)))"

definition changed_issued_receipts :: "int \<Rightarrow> coordinator_state_root \<Rightarrow> bool" where
  "changed_issued_receipts now root = list_ex
     (\<lambda>(key, r). key \<notin> expired_records now root
        \<and> (case r of Complete c \<Rightarrow> live_receipts now c \<noteq> cr_receipts c | Pending _ \<Rightarrow> False))
     (fm_items pair_key_repr (issued_records root))"

definition expired_complete :: "int \<Rightarrow> coordinator_state_root \<Rightarrow> complete_issued_response list" where
  "expired_complete now root = List.map_filter
     (\<lambda>(key, r). case r of
         Complete c \<Rightarrow> if key \<in> expired_records now root then Some c else None
       | Pending _ \<Rightarrow> None) (fm_items pair_key_repr (issued_records root))"

definition nothing_expired :: "coordinator_config \<Rightarrow> int \<Rightarrow> int \<Rightarrow> coordinator_state_root \<Rightarrow> bool" where
  "nothing_expired cfg now_monotonic_ns now_epoch_ms root =
     (expired_tokens now_monotonic_ns root = {} \<and> expired_records now_monotonic_ns root = {}
      \<and> expired_feedback_receipts now_monotonic_ns root = {}
      \<and> expired_ledger_rows now_monotonic_ns root = {}
      \<and> expired_turn_states cfg now_epoch_ms root = {}
      \<and> changed_turn_states cfg now_epoch_ms root = {}
      \<and> expired_clarifications cfg now_epoch_ms root = {}
      \<and> expired_audits now_monotonic_ns root = {}
      \<and> \<not> changed_issued_receipts now_monotonic_ns root)"

definition cleaned_root :: "coordinator_config \<Rightarrow> int \<Rightarrow> int \<Rightarrow> coordinator_state_root \<Rightarrow> coordinator_state_root" where
  "cleaned_root cfg now_monotonic_ns now_epoch_ms root =
     (let pending_states = keys_where csk_repr (\<lambda>_ key. key \<in> expired_records now_monotonic_ns root)
            (pending_request_by_state root);
          response_ids = set (map (\<lambda>c. resp_id (cr_response c)) (expired_complete now_monotonic_ns root));
          action_ids = \<Union> (set (map (\<lambda>c. effect_action_ids (cr_effects c)) (expired_complete now_monotonic_ns root)))
      in root
        \<lparr>root_revision := root_revision root + 1,
         issued_records := frozen_map_of (retained_issued_records now_monotonic_ns root),
         pending_request_by_state := without_keys (pending_request_by_state root) pending_states,
         prepared_feedback_tokens :=
           without_keys (prepared_feedback_tokens root) (expired_tokens now_monotonic_ns root),
         response_index := without_keys (response_index root) response_ids,
         action_index := without_keys (action_index root) action_ids,
         feedback_receipts :=
           without_keys (feedback_receipts root) (expired_feedback_receipts now_monotonic_ns root),
         action_ledger_records :=
           without_keys (action_ledger_records root) (expired_ledger_rows now_monotonic_ns root),
         conversation_turns := frozen_map_of (retained_turns cfg now_epoch_ms root),
         clarification_records :=
           without_keys (clarification_records root) (expired_clarifications cfg now_epoch_ms root),
         audit_records := without_keys (audit_records root) (expired_audits now_monotonic_ns root)\<rparr>)"

definition cleanup_candidate ::
  "coordinator_state_root \<Rightarrow> int \<Rightarrow> int \<Rightarrow> coordinator_config \<Rightarrow> coordinator_state_root option \<times> int" where
  "cleanup_candidate root now_monotonic_ns now_epoch_ms cfg =
     (if nothing_expired cfg now_monotonic_ns now_epoch_ms root then (None, 0)
      else (Some (without_unpinned_revisions (cleaned_root cfg now_monotonic_ns now_epoch_ms root)),
        int (card (expired_tokens now_monotonic_ns root) + card (expired_records now_monotonic_ns root)
             + card (expired_feedback_receipts now_monotonic_ns root)
             + card (expired_ledger_rows now_monotonic_ns root)
             + card (expired_turn_states cfg now_epoch_ms root)
             + card (changed_turn_states cfg now_epoch_ms root)
             + card (expired_clarifications cfg now_epoch_ms root)
             + card (expired_audits now_monotonic_ns root))))"

end
