(* ===== verification/Coordinator.thy ===== *)
theory Coordinator
  imports Reply_Commit Feedback_Commit Cleanup
begin

text \<open>
  The transaction coordinator, \<open>ReplyStateTransactionCoordinatorV1\<close> of
  \<open>runtime/state/transaction_coordinator.py\<close>. Every method holds the lock from its first statement to
  its last, so the methods are atomic and their interleavings are sequences of calls; an operation
  takes the coordinator and returns it with a result, because an operation that raises may still have
  published (the cleanup before a reservation, the drop of a stale token).

  What an operation draws from its environment is one record of readings: the clocks, the random
  tokens, the hexadecimal texts of the uuids, the journal's transaction ids and what the fault hook
  does at the \<open>i\<close>-th publication of the call. They are arbitrary: no lemma assumes a monotonic clock or
  fresh tokens unless it says so.
\<close>

record coordinator =
  co_config :: coordinator_config
  co_root :: coordinator_state_root
  co_last_journal :: "reply_state_journal option"

record readings =
  io_cleanup_monotonic_ns :: int
  io_cleanup_epoch_ms :: int
  io_monotonic_ns :: int
  io_second_monotonic_ns :: int
  io_epoch_ms :: int
  io_epoch_token :: pybytes
  io_token :: pybytes
  io_response_hex :: pystr
  io_action_hex :: "nat \<Rightarrow> pystr"
  io_transaction_id :: "nat \<Rightarrow> pybytes"
  io_fault :: "nat \<Rightarrow> journal_operation \<Rightarrow> py_error option"

definition new_coordinator :: "coordinator_config \<Rightarrow> coordinator" where
  "new_coordinator cfg =
     \<lparr>co_config = cfg, co_root = empty_coordinator_root, co_last_journal = None\<rparr>"

text \<open>\<open>__init__\<close> with the default root.\<close>

definition coordinator_init :: "int \<Rightarrow> int \<Rightarrow> int \<Rightarrow> int \<Rightarrow> int \<Rightarrow> int \<Rightarrow> int \<Rightarrow> coordinator result" where
  "coordinator_init ic ms fc ttl mm ittl pttl =
     res_bind (build_coordinator_config ic ms fc ttl mm ittl pttl) (\<lambda>cfg. Inr (new_coordinator cfg))"

definition co_bind ::
  "coordinator \<times> 'a result \<Rightarrow> (coordinator \<Rightarrow> 'a \<Rightarrow> coordinator \<times> 'b result) \<Rightarrow> coordinator \<times> 'b result" where
  "co_bind m f = (case m of (co, Inl e) \<Rightarrow> (co, Inl e) | (co, Inr x) \<Rightarrow> f co x)"

lemma co_bind_simps [simp]:
  "co_bind (co, Inl e) f = (co, Inl e)"
  "co_bind (co, Inr x) f = f co x"
  by (simp_all add: co_bind_def)

definition publish ::
  "readings \<Rightarrow> nat \<Rightarrow> journal_operation \<Rightarrow> conversation_state_key option \<Rightarrow> conversation_state_key list
   \<Rightarrow> coordinator_state_root \<Rightarrow> coordinator \<Rightarrow> coordinator \<times> unit result" where
  "publish io i operation initiating affected candidate co =
     (case prepare_root_for_publication candidate (cfg_state_revision_capacity (co_config co)) of
        Inl e \<Rightarrow> (co, Inl e)
      | Inr candidate \<Rightarrow>
          if root_revision candidate \<noteq> root_revision (co_root co) + 1
          then (co, Inl (CoordinatorError ''state_store_unavailable''))
          else let journal = build_journal (io_transaction_id io i) operation initiating affected
                     (co_root co) candidate
            in (case io_fault io i operation of
                 None \<Rightarrow> (co\<lparr>co_root := candidate,
                             co_last_journal := Some (journal\<lparr>jr_outcome := Committed\<rparr>)\<rparr>, Inr ())
               | Some e \<Rightarrow>
                   if is_runtime_error e
                   then (co\<lparr>co_last_journal := Some (journal\<lparr>jr_outcome := Rolled_back\<rparr>)\<rparr>, Inl e)
                   else (co, Inl e)))"

definition cleanup_locked :: "readings \<Rightarrow> nat \<Rightarrow> coordinator \<Rightarrow> coordinator \<times> int result" where
  "cleanup_locked io i co =
     (case cleanup_candidate (co_root co) (io_cleanup_monotonic_ns io) (io_cleanup_epoch_ms io) (co_config co) of
        (None, removed) \<Rightarrow> (co, Inr removed)
      | (Some candidate, removed) \<Rightarrow>
          co_bind (publish io i Cleanup None [] candidate co) (\<lambda>co _. (co, Inr removed)))"

definition co_cleanup :: "readings \<Rightarrow> coordinator \<Rightarrow> coordinator \<times> int result" where
  "co_cleanup io co = cleanup_locked io 0 co"

definition lookup_issued_response :: "coordinator \<Rightarrow> conversation_state_key \<Rightarrow> pystr \<Rightarrow> issued_response_lookup" where
  "lookup_issued_response co state_key rid = lookup_issued (co_root co) state_key rid"

definition co_read_turn_admission_snapshot ::
  "readings \<Rightarrow> coordinator \<Rightarrow> conversation_state_key \<Rightarrow> pystr \<Rightarrow> pystr \<Rightarrow> pystr \<Rightarrow> turn_admission_snapshot" where
  "co_read_turn_admission_snapshot io co state_key par1 grh1 bsh1 =
     read_turn_admission_snapshot (co_config co) (co_root co) state_key par1 grh1 bsh1
       (io_monotonic_ns io) (io_epoch_ms io) (io_epoch_token io)"

definition reserve_reply ::
  "readings \<Rightarrow> conversation_state_key \<Rightarrow> pystr \<Rightarrow> pystr \<Rightarrow> bool \<Rightarrow> coordinator
   \<Rightarrow> coordinator \<times> reservation_result result" where
  "reserve_reply io state_key request_id request_hash replay_eligible co =
     co_bind (cleanup_locked io 0 co) (\<lambda>co _.
     case existing_reservation_result (co_root co) state_key request_id request_hash replay_eligible of
       Inl e \<Rightarrow> (co, Inl e)
     | Inr (Some replay) \<Rightarrow> (co, Inr replay)
     | Inr None \<Rightarrow>
       (case issued_capacity_eviction_candidate (co_root co)
               (cfg_issued_response_capacity (co_config co)) of
          Inl e \<Rightarrow> (co, Inl e)
        | Inr eviction \<Rightarrow>
          co_bind (case eviction of None \<Rightarrow> (co, Inr ())
                   | Some candidate \<Rightarrow> publish io 1 Cleanup None [] candidate co) (\<lambda>co _.
          case reserve_reply_candidate (co_config co) (co_root co) state_key request_id request_hash
                 replay_eligible (io_monotonic_ns io) (io_epoch_token io) (io_token io) (io_epoch_ms io) of
            Inl e \<Rightarrow> (co, Inl e)
          | Inr (None, reservation) \<Rightarrow> (co, Inr reservation)
          | Inr (Some candidate, reservation) \<Rightarrow>
              co_bind (publish io 2 Reply_reserve (Some state_key) [state_key] candidate co)
                (\<lambda>co _. (co, Inr reservation)))))"

definition abort_reply ::
  "readings \<Rightarrow> conversation_state_key \<Rightarrow> pystr \<Rightarrow> pybytes \<Rightarrow> coordinator \<Rightarrow> coordinator \<times> unit result" where
  "abort_reply io state_key request_id owner_token co =
     (case abort_reply_candidate (co_root co) state_key request_id owner_token of
        Inl e \<Rightarrow> (co, Inl e)
      | Inr candidate \<Rightarrow> publish io 0 Reply_abort (Some state_key) [state_key] candidate co)"

definition commit_reply ::
  "(pybytes \<Rightarrow> pystr) \<Rightarrow> readings \<Rightarrow> reply_commit_proposal \<Rightarrow> coordinator
   \<Rightarrow> coordinator \<times> reply_response result" where
  "commit_reply sha io proposal co =
     (case commit_reply_candidate sha (co_config co) (co_root co) proposal (io_response_hex io)
             (io_action_hex io) (io_monotonic_ns io) (io_epoch_ms io) of
        Inl e \<Rightarrow> (co, Inl e)
      | Inr (candidate, response) \<Rightarrow>
          co_bind (publish io 0 Reply_commit (Some (rp_state_key proposal)) [rp_state_key proposal]
                     candidate co)
            (\<lambda>co _. (co, Inr response)))"

definition prepare_feedback ::
  "(pybytes \<Rightarrow> pystr) \<Rightarrow> readings \<Rightarrow> conversation_state_key \<Rightarrow> action_feedback_request \<Rightarrow> coordinator
   \<Rightarrow> coordinator \<times> feedback_preparation result" where
  "prepare_feedback sha io state_key feedback co =
     co_bind (cleanup_locked io 0 co) (\<lambda>co _.
     case res_bind (resolve_feedback_record (co_root co) state_key feedback) (\<lambda>record.
            prepare_feedback_candidate sha (co_config co) (co_root co) state_key feedback record
              (io_token io) (io_monotonic_ns io) (io_second_monotonic_ns io)) of
       Inl e \<Rightarrow> (co, Inl e)
     | Inr (None, prepared) \<Rightarrow> (co, Inr prepared)
     | Inr (Some candidate, prepared) \<Rightarrow>
         co_bind (publish io 1 Feedback_prepare (Some state_key) [state_key] candidate co)
           (\<lambda>co _. (co, Inr prepared)))"

definition commit_feedback ::
  "(pybytes \<Rightarrow> pystr) \<Rightarrow> readings \<Rightarrow> prepared_feedback \<Rightarrow> coordinator
   \<Rightarrow> coordinator \<times> feedback_commit_result result" where
  "commit_feedback sha io prepared co =
     (case commit_feedback_candidate sha (co_config co) (co_root co) prepared (io_monotonic_ns io)
             (io_epoch_ms io) of
        Inl e \<Rightarrow>
          if requires_prepared_token_drop e
          then co_bind (publish io 0 Feedback_commit (Some (pf_state_key prepared)) [pf_state_key prepared]
                          (drop_prepared_token_candidate (co_root co) prepared) co)
                 (\<lambda>co _. (co, Inl e))
          else (co, Inl e)
      | Inr (candidate, result) \<Rightarrow>
          co_bind (publish io 0 Feedback_commit (Some (pf_state_key prepared)) [pf_state_key prepared]
                     candidate co)
            (\<lambda>co _. (co, Inr result)))"

end
