(* ===== verification/Root_Invariant.thy ===== *)
theory Root_Invariant
  imports Coordinator
begin

text \<open>
  The invariant of the coordinator's root. Each clause is a property of the maps it mentions, taken
  as partial functions, so that an update of the root becomes an update of a function:

  \<^item> \<open>inv_issued\<close>: a record is filed under its own conversation and request, and is well formed;
  \<^item> \<open>inv_pending\<close>: a conversation is marked pending exactly when it has a pending record, so it has
    at most one;
  \<^item> \<open>inv_response\<close>: the response index lists exactly the complete records;
  \<^item> \<open>inv_action\<close>: an indexed action resolves to an effect of an issued response;
  \<^item> \<open>inv_tokens\<close>: a feedback token is bound to a revision its conversation has reached, and while
    that revision is current its transitions fit the record;
  \<^item> \<open>inv_ledger\<close>, \<open>inv_receipts\<close>, \<open>inv_audit\<close>, \<open>inv_turns\<close>: the records of the other maps agree
    with their keys and bounds.

  \<open>candidate_ok\<close> is what every operation establishes of its candidate, \<open>root_ok\<close> what holds of a
  published root.
\<close>

section \<open>Clauses\<close>

fun record_ok :: "issued_response_record \<Rightarrow> bool" where
  "record_ok (Pending p) = True"
| "record_ok (Complete c) = (effects_ok (cr_effects c)
     \<and> int (length (cr_receipts c)) \<le> record_receipt_limit \<and> 1 \<le> cr_record_revision c)"

definition inv_issued :: "(issued_key \<Rightarrow> issued_response_record option) \<Rightarrow> bool" where
  "inv_issued im = (\<forall>k a r. im (k, a) = Some r \<longrightarrow> ir_state_key r = k \<and> ir_request_id r = a \<and> record_ok r)"

definition inv_pending ::
  "(issued_key \<Rightarrow> issued_response_record option) \<Rightarrow> (conversation_state_key \<Rightarrow> issued_key option) \<Rightarrow> bool" where
  "inv_pending im pm = (\<forall>k ik. pm k = Some ik \<longleftrightarrow> (\<exists>a p. ik = (k, a) \<and> im (k, a) = Some (Pending p)))"

definition inv_response ::
  "(issued_key \<Rightarrow> issued_response_record option) \<Rightarrow> (pystr \<Rightarrow> issued_key option) \<Rightarrow> bool" where
  "inv_response im rm =
     (\<forall>rid ik. rm rid = Some ik \<longleftrightarrow> (\<exists>c. im ik = Some (Complete c) \<and> resp_id (cr_response c) = rid))"

definition inv_action ::
  "(issued_key \<Rightarrow> issued_response_record option) \<Rightarrow> (pystr \<Rightarrow> ledger_key option) \<Rightarrow> bool" where
  "inv_action im am = (\<forall>aid k rid ek. am aid = Some (k, rid, ek) \<longrightarrow>
     (\<exists>q c e. im (k, q) = Some (Complete c) \<and> resp_id (cr_response c) = rid
        \<and> find_effect ek (cr_effects c) = Some e \<and> ie_action_id e = Some aid))"

definition token_ok ::
  "(issued_key \<Rightarrow> issued_response_record option) \<Rightarrow> (conversation_state_key \<Rightarrow> state_revision_record option)
   \<Rightarrow> conversation_state_key \<Rightarrow> pystr \<Rightarrow> prepared_feedback \<Rightarrow> bool" where
  "token_ok im sm k f p = (pf_state_key p = k \<and> pf_feedback_id p = f
     \<and> (\<exists>r. sm k = Some r \<and> sr_revision_epoch r = pf_revision_epoch p
          \<and> pf_expected_state_revision p \<le> sr_revision r
          \<and> (sr_revision r = pf_expected_state_revision p \<longrightarrow>
               (\<forall>q c. im (k, q) = Some (Complete c) \<longrightarrow> resp_id (cr_response c) = pf_response_id p \<longrightarrow>
                  q = pf_request_id p \<and> (\<forall>t\<in>set (pf_transitions p). transition_ok (cr_effects c) t)))))"

definition inv_tokens ::
  "(issued_key \<Rightarrow> issued_response_record option) \<Rightarrow> (conversation_state_key \<Rightarrow> state_revision_record option)
   \<Rightarrow> (issued_key \<Rightarrow> prepared_feedback_token_record option) \<Rightarrow> bool" where
  "inv_tokens im sm km = (\<forall>k f t. km (k, f) = Some t \<longrightarrow> token_ok im sm k f (tk_preparation t))"

definition inv_ledger :: "(ledger_key \<Rightarrow> action_ledger_record option) \<Rightarrow> bool" where
  "inv_ledger lm = (\<forall>k rid a row. lm (k, rid, a) = Some row \<longrightarrow>
     al_state_key row = k \<and> al_response_id row = rid \<and> al_action_id row = a
     \<and> 1 \<le> al_status_revision row \<and> send_action (al_action_type row))"

definition inv_receipts :: "(issued_key \<Rightarrow> feedback_receipt option) \<Rightarrow> bool" where
  "inv_receipts fm = (\<forall>k f r. fm (k, f) = Some r \<longrightarrow> fr_state_key r = k \<and> fr_feedback_id r = f)"

fun audit_scene :: "audit_record \<Rightarrow> scene" where
  "audit_scene (GroupAuditRecordV1 _) = SceneGroup"
| "audit_scene (DirectAuditRecordV1 _) = SceneDirect"

definition inv_audit :: "(issued_key \<Rightarrow> audit_record option) \<Rightarrow> bool" where
  "inv_audit um = (\<forall>k rid a. um (k, rid) = Some a \<longrightarrow> audit_scene a = csk_scene k)"

definition inv_turns ::
  "coordinator_config \<Rightarrow> (conversation_state_key \<Rightarrow> conversation_turn_record list option) \<Rightarrow> bool" where
  "inv_turns cfg tm = (\<forall>k ts. tm k = Some ts \<longrightarrow>
     ts \<noteq> [] \<and> int (length ts) \<le> cfg_conversation_max_messages cfg)"

definition session_count :: "coordinator_state_root \<Rightarrow> int" where
  "session_count root =
     int (card (dom (fm_get (conversation_turns root)) \<union> dom (fm_get (clarification_records root))))"

definition inv_bounds :: "coordinator_config \<Rightarrow> coordinator_state_root \<Rightarrow> bool" where
  "inv_bounds cfg root =
     (fm_len (issued_records root) \<le> cfg_issued_response_capacity cfg
      \<and> session_count root \<le> cfg_conversation_max_sessions cfg
      \<and> fm_len (audit_records root) \<le> cfg_conversation_max_sessions cfg
      \<and> fm_len (feedback_receipts root) \<le> cfg_feedback_receipt_capacity cfg
      \<and> fm_len (prepared_feedback_tokens root) \<le> cfg_issued_response_capacity cfg)"

definition indexes_ok :: "coordinator_state_root \<Rightarrow> bool" where
  "indexes_ok root =
     (inv_issued (fm_get (issued_records root))
      \<and> inv_pending (fm_get (issued_records root)) (fm_get (pending_request_by_state root))
      \<and> inv_response (fm_get (issued_records root)) (fm_get (response_index root))
      \<and> inv_action (fm_get (issued_records root)) (fm_get (action_index root)))"

definition candidate_ok :: "coordinator_config \<Rightarrow> coordinator_state_root \<Rightarrow> bool" where
  "candidate_ok cfg root =
     (indexes_ok root
      \<and> inv_tokens (fm_get (issued_records root)) (fm_get (state_revisions root))
          (fm_get (prepared_feedback_tokens root))
      \<and> inv_ledger (fm_get (action_ledger_records root))
      \<and> inv_receipts (fm_get (feedback_receipts root))
      \<and> inv_audit (fm_get (audit_records root))
      \<and> inv_turns cfg (fm_get (conversation_turns root))
      \<and> pinned_state_keys root \<subseteq> dom (fm_get (state_revisions root))
      \<and> inv_bounds cfg root)"

definition root_ok :: "coordinator_config \<Rightarrow> coordinator_state_root \<Rightarrow> bool" where
  "root_ok cfg root =
     (candidate_ok cfg root
      \<and> dom (fm_get (state_revisions root)) = pinned_state_keys root
      \<and> fm_len (state_revisions root) \<le> cfg_state_revision_capacity cfg
      \<and> fm_len (action_ledger_records root) \<le> action_ledger_capacity
      \<and> with_root_orders root = root)"

section \<open>Consequences of the clauses\<close>

lemma inv_issued_pending:
  "inv_issued im \<Longrightarrow> im (k, a) = Some (Pending p) \<Longrightarrow> pr_state_key p = k \<and> pr_request_id p = a"
  unfolding inv_issued_def by (metis ir_request_id.simps(1) ir_state_key.simps(1))

lemma inv_issued_complete:
  "inv_issued im \<Longrightarrow> im (k, a) = Some (Complete c) \<Longrightarrow>
     cr_state_key c = k \<and> cr_request_id c = a \<and> effects_ok (cr_effects c)
     \<and> int (length (cr_receipts c)) \<le> record_receipt_limit \<and> 1 \<le> cr_record_revision c"
  unfolding inv_issued_def by (metis ir_request_id.simps(2) ir_state_key.simps(2) record_ok.simps(2))

lemma inv_pending_unique:
  "inv_pending im pm \<Longrightarrow> im (k, a) = Some (Pending p) \<Longrightarrow> im (k, b) = Some (Pending p') \<Longrightarrow> a = b"
  unfolding inv_pending_def by (metis option.inject prod.inject)

lemma inv_response_unique:
  "inv_response im rm \<Longrightarrow> im x = Some (Complete c) \<Longrightarrow> im y = Some (Complete d) \<Longrightarrow>
     resp_id (cr_response c) = resp_id (cr_response d) \<Longrightarrow> x = y"
  unfolding inv_response_def by (metis option.inject)

section \<open>Pinned conversations\<close>

lemma fst_fm_keys: "fst ` set (fm_keys repr m) = {k. \<exists>a. fm_get m (k, a) \<noteq> None}"
  by (force simp: domIff)

lemma mem_pinned:
  "k \<in> pinned_state_keys root \<longleftrightarrow>
     fm_get (conversation_turns root) k \<noteq> None \<or> fm_get (clarification_records root) k \<noteq> None
     \<or> (\<exists>a. fm_get (issued_records root) (k, a) \<noteq> None)
     \<or> (\<exists>a. fm_get (feedback_receipts root) (k, a) \<noteq> None)
     \<or> (\<exists>a. fm_get (prepared_feedback_tokens root) (k, a) \<noteq> None)
     \<or> (\<exists>a. fm_get (action_ledger_records root) (k, a) \<noteq> None)
     \<or> (\<exists>a. fm_get (audit_records root) (k, a) \<noteq> None)"
  unfolding pinned_state_keys_def fst_fm_keys by (auto simp: domIff)

lemma pinned_unfold_cong:
  assumes "conversation_turns r = conversation_turns r'" "clarification_records r = clarification_records r'"
    "issued_records r = issued_records r'" "feedback_receipts r = feedback_receipts r'"
    "prepared_feedback_tokens r = prepared_feedback_tokens r'"
    "action_ledger_records r = action_ledger_records r'" "audit_records r = audit_records r'"
  shows "pinned_state_keys r = pinned_state_keys r'"
  using assms by (simp add: pinned_state_keys_def)

lemma pinned_orders [simp]: "pinned_state_keys (with_root_orders r) = pinned_state_keys r"
  by (rule pinned_unfold_cong) simp_all

lemma without_unpinned_maps [simp]:
  "root_revision (without_unpinned_revisions r) = root_revision r"
  "issued_records (without_unpinned_revisions r) = issued_records r"
  "pending_request_by_state (without_unpinned_revisions r) = pending_request_by_state r"
  "feedback_receipts (without_unpinned_revisions r) = feedback_receipts r"
  "prepared_feedback_tokens (without_unpinned_revisions r) = prepared_feedback_tokens r"
  "response_index (without_unpinned_revisions r) = response_index r"
  "action_index (without_unpinned_revisions r) = action_index r"
  "conversation_turns (without_unpinned_revisions r) = conversation_turns r"
  "clarification_records (without_unpinned_revisions r) = clarification_records r"
  "audit_records (without_unpinned_revisions r) = audit_records r"
  "action_ledger_records (without_unpinned_revisions r) = action_ledger_records r"
  by (simp_all add: without_unpinned_revisions_def Let_def)

lemma pinned_without_unpinned [simp]:
  "pinned_state_keys (without_unpinned_revisions r) = pinned_state_keys r"
  by (rule pinned_unfold_cong) simp_all

lemma revisions_without_unpinned [simp]:
  "fm_get (state_revisions (without_unpinned_revisions r)) = fm_get (state_revisions r) |` pinned_state_keys r"
  by (rule ext) (auto simp: without_unpinned_revisions_def Let_def restrict_map_def)

lemma session_count_cong:
  "conversation_turns r = conversation_turns r' \<Longrightarrow> clarification_records r = clarification_records r' \<Longrightarrow>
     session_count r = session_count r'"
  by (simp add: session_count_def)

section \<open>Tokens\<close>

text \<open>
  A state step is good for the tokens of a conversation when its revision grows, or stays while the
  complete records of the conversation keep their response ids and effects.
\<close>

definition token_step ::
  "(issued_key \<Rightarrow> issued_response_record option) \<Rightarrow> (conversation_state_key \<Rightarrow> state_revision_record option)
   \<Rightarrow> (issued_key \<Rightarrow> issued_response_record option) \<Rightarrow> (conversation_state_key \<Rightarrow> state_revision_record option)
   \<Rightarrow> conversation_state_key \<Rightarrow> bool" where
  "token_step im sm im' sm' k = (\<forall>r. sm k = Some r \<longrightarrow> (\<exists>r'. sm' k = Some r'
     \<and> sr_revision_epoch r' = sr_revision_epoch r
     \<and> (sr_revision r < sr_revision r'
        \<or> (sr_revision r' = sr_revision r
           \<and> (\<forall>q c'. im' (k, q) = Some (Complete c') \<longrightarrow>
                (\<exists>c. im (k, q) = Some (Complete c) \<and> resp_id (cr_response c) = resp_id (cr_response c')
                   \<and> cr_effects c' = cr_effects c))))))"

lemma token_ok_step:
  assumes ok: "token_ok im sm k f p" and step: "token_step im sm im' sm' k"
  shows "token_ok im' sm' k f p"
proof -
  from ok obtain r where r: "sm k = Some r" "sr_revision_epoch r = pf_revision_epoch p"
    "pf_expected_state_revision p \<le> sr_revision r"
    "sr_revision r = pf_expected_state_revision p \<Longrightarrow> im (k, q) = Some (Complete c) \<Longrightarrow>
       resp_id (cr_response c) = pf_response_id p \<Longrightarrow>
       q = pf_request_id p \<and> (\<forall>t\<in>set (pf_transitions p). transition_ok (cr_effects c) t)" for q c
    unfolding token_ok_def by blast
  from step r(1) obtain r' where r': "sm' k = Some r'" "sr_revision_epoch r' = sr_revision_epoch r"
    and rev: "sr_revision r < sr_revision r' \<or> (sr_revision r' = sr_revision r
       \<and> (\<forall>q c'. im' (k, q) = Some (Complete c') \<longrightarrow>
            (\<exists>c. im (k, q) = Some (Complete c) \<and> resp_id (cr_response c) = resp_id (cr_response c')
               \<and> cr_effects c' = cr_effects c)))"
    unfolding token_step_def by blast
  have "q = pf_request_id p \<and> (\<forall>t\<in>set (pf_transitions p). transition_ok (cr_effects c') t)"
    if cur: "sr_revision r' = pf_expected_state_revision p"
      and c': "im' (k, q) = Some (Complete c')" "resp_id (cr_response c') = pf_response_id p" for q c'
  proof -
    from cur r(3) rev have "sr_revision r = pf_expected_state_revision p" by linarith
    moreover from cur r(3) rev c'(1) obtain c where "im (k, q) = Some (Complete c)"
      "resp_id (cr_response c) = resp_id (cr_response c')" "cr_effects c' = cr_effects c" by force
    ultimately show ?thesis using r(4) c'(2) by auto
  qed
  moreover have "pf_expected_state_revision p \<le> sr_revision r'" using r(3) rev by linarith
  ultimately show ?thesis using ok r r' unfolding token_ok_def by auto
qed

lemma inv_tokens_step:
  assumes "inv_tokens im sm km" and "\<And>k f t. km' (k, f) = Some t \<Longrightarrow> km (k, f) = Some t"
    and "\<And>k f t. km' (k, f) = Some t \<Longrightarrow> token_step im sm im' sm' k"
  shows "inv_tokens im' sm' km'"
  unfolding inv_tokens_def
proof (intro allI impI)
  fix k f t
  assume t: "km' (k, f) = Some t"
  with assms(1,2) have "token_ok im sm k f (tk_preparation t)" unfolding inv_tokens_def by blast
  from token_ok_step [OF this assms(3) [OF t]] show "token_ok im' sm' k f (tk_preparation t)" .
qed

lemma inv_tokens_revision:
  "inv_tokens im sm km \<Longrightarrow> km (k, f) = Some t \<Longrightarrow> \<exists>r. sm k = Some r"
  unfolding inv_tokens_def token_ok_def by blast

end
