(* ===== verification/Publication.thy ===== *)
theory Publication
  imports Root_Invariant
begin

text \<open>
  What \<open>prepare_root_for_publication\<close> does to a well-formed candidate: it trims the ledger, drops the
  revisions nothing pins, derives the orders, and its validation passes. The only failure left is
  the bound on pinned conversations: \<open>enforce_state_revision_capacity\<close> looks for a revision to evict
  after the pruning has removed every candidate for eviction.
\<close>

section \<open>The ledger bound\<close>

lemma ledger_loop_spec:
  "fm_get (ledger_loop ledger) \<subseteq>\<^sub>m fm_get ledger \<and> fm_len (ledger_loop ledger) \<le> action_ledger_capacity
   \<and> (fm_len ledger \<le> action_ledger_capacity \<longrightarrow> ledger_loop ledger = ledger)"
proof (induction ledger rule: ledger_loop.induct)
  case (1 ledger)
  show ?case
  proof (cases "fm_len ledger > action_ledger_capacity")
    case True
    define victim where "victim = fst (arg_min_list
      (\<lambda>((k, _, a), row). (al_received_at_epoch_ms row, key_bytes k a)) (fm_items triple_key_repr ledger))"
    have eq: "ledger_loop ledger = ledger_loop (without_keys ledger {victim})"
      using True by (subst ledger_loop.simps) (simp add: victim_def)
    have "fm_get (ledger_loop (without_keys ledger {victim})) \<subseteq>\<^sub>m fm_get (without_keys ledger {victim})
      \<and> fm_len (ledger_loop (without_keys ledger {victim})) \<le> action_ledger_capacity"
      using "1.IH" [OF True victim_def] by blast
    moreover have "fm_get (without_keys ledger {victim}) \<subseteq>\<^sub>m fm_get ledger"
      by (auto simp: map_le_def)
    ultimately show ?thesis using True unfolding eq by (auto intro: map_le_trans)
  next
    case False
    then have "ledger_loop ledger = ledger" by (subst ledger_loop.simps) simp
    with False show ?thesis by simp
  qed
qed

lemma ledger_loop_mem: "fm_get (ledger_loop l) x = Some y \<Longrightarrow> fm_get l x = Some y"
  using ledger_loop_spec [of l] by (metis domI map_le_def)

section \<open>The revision bound\<close>

lemma enforce_state_revision_capacity_eq:
  "enforce_state_revision_capacity root capacity =
     (if fm_len (state_revisions (without_unpinned_revisions root)) \<le> capacity
      then Inr (without_unpinned_revisions root) else Inl (CoordinatorError ''state_store_unavailable''))"
proof -
  let ?p = "without_unpinned_revisions root"
  have "k \<in> pinned_state_keys ?p" if "(k, r) \<in> set (fm_items csk_repr (state_revisions ?p))" for k r
    using that by (auto simp: fm.mem_entries restrict_map_def split: if_splits)
  then have "filter (\<lambda>(k, r). k \<notin> pinned_state_keys ?p) (fm_items csk_repr (state_revisions ?p)) = []"
    by (auto simp: filter_empty_conv)
  then show ?thesis
    by (simp add: enforce_state_revision_capacity_def Let_def)
qed

section \<open>Validation\<close>

lemma validate_root_Inr:
  "validate_root root = Inr u \<longleftrightarrow>
     (\<forall>e\<in>set (fm_items csk_repr (pending_request_by_state root)). check_pending_entry root e)
   \<and> (\<forall>e\<in>set (fm_items str_repr (response_index root)). check_response_entry root e)
   \<and> (\<forall>e\<in>set (fm_items str_repr (action_index root)). check_action_entry root e)
   \<and> order_fields root = order_fields (with_root_orders root)"
  unfolding validate_root_def seq_res_Inr by (simp add: ball_Un conj_ac)

lemma indexes_validated:
  assumes "indexes_ok root"
  shows "validate_root (with_root_orders root) = Inr ()"
proof -
  let ?r = "with_root_orders root"
  from assms have pend: "check_pending_entry ?r e"
    if "e \<in> set (fm_items csk_repr (pending_request_by_state ?r))" for e
    using that by (cases e)
      (auto simp: indexes_ok_def inv_pending_def check_pending_entry_def fm.mem_entries
        dest: inv_issued_pending)
  from assms have resp: "check_response_entry ?r e"
    if "e \<in> set (fm_items str_repr (response_index ?r))" for e
    using that by (cases e)
      (auto simp: indexes_ok_def inv_response_def check_response_entry_def fm.mem_entries)
  have act: "check_action_entry ?r e"
    if "e \<in> set (fm_items str_repr (action_index ?r))" for e
  proof -
    obtain aid k rid ek where e: "e = (aid, k, rid, ek)" by (metis prod_cases4)
    from that e have "fm_get (action_index root) aid = Some (k, rid, ek)" by (simp add: fm.mem_entries)
    with assms obtain q c x where c: "fm_get (issued_records root) (k, q) = Some (Complete c)"
      "resp_id (cr_response c) = rid" "find_effect ek (cr_effects c) = Some x" "ie_action_id x = Some aid"
      unfolding indexes_ok_def inv_action_def by blast
    with assms have "fm_get (response_index root) rid = Some (k, q)"
      unfolding indexes_ok_def inv_response_def by blast
    with c e show ?thesis by (simp add: check_action_entry_def find_effect_def)
  qed
  from pend resp act show ?thesis unfolding validate_root_Inr by simp
qed

section \<open>The published root\<close>

definition published_root :: "coordinator_state_root \<Rightarrow> coordinator_state_root" where
  "published_root c = with_root_orders (without_unpinned_revisions (enforce_inactive_record_capacities c))"

lemma inactive_maps [simp]:
  "root_revision (enforce_inactive_record_capacities r) = root_revision r"
  "issued_records (enforce_inactive_record_capacities r) = issued_records r"
  "pending_request_by_state (enforce_inactive_record_capacities r) = pending_request_by_state r"
  "feedback_receipts (enforce_inactive_record_capacities r) = feedback_receipts r"
  "prepared_feedback_tokens (enforce_inactive_record_capacities r) = prepared_feedback_tokens r"
  "state_revisions (enforce_inactive_record_capacities r) = state_revisions r"
  "response_index (enforce_inactive_record_capacities r) = response_index r"
  "action_index (enforce_inactive_record_capacities r) = action_index r"
  "conversation_turns (enforce_inactive_record_capacities r) = conversation_turns r"
  "clarification_records (enforce_inactive_record_capacities r) = clarification_records r"
  "audit_records (enforce_inactive_record_capacities r) = audit_records r"
  "action_ledger_records (enforce_inactive_record_capacities r) = ledger_loop (action_ledger_records r)"
  by (simp_all add: enforce_inactive_record_capacities_def)

lemma published_maps [simp]:
  "root_revision (published_root r) = root_revision r"
  "issued_records (published_root r) = issued_records r"
  "pending_request_by_state (published_root r) = pending_request_by_state r"
  "feedback_receipts (published_root r) = feedback_receipts r"
  "prepared_feedback_tokens (published_root r) = prepared_feedback_tokens r"
  "response_index (published_root r) = response_index r"
  "action_index (published_root r) = action_index r"
  "conversation_turns (published_root r) = conversation_turns r"
  "clarification_records (published_root r) = clarification_records r"
  "audit_records (published_root r) = audit_records r"
  "action_ledger_records (published_root r) = ledger_loop (action_ledger_records r)"
  by (simp_all add: published_root_def)

lemma published_revisions:
  "fm_get (state_revisions (published_root r)) =
     fm_get (state_revisions r) |` pinned_state_keys (enforce_inactive_record_capacities r)"
  by (simp add: published_root_def)

lemma pinned_published:
  "pinned_state_keys (published_root r) = pinned_state_keys (enforce_inactive_record_capacities r)"
  by (simp add: published_root_def)

lemma pinned_inactive: "pinned_state_keys (enforce_inactive_record_capacities r) \<subseteq> pinned_state_keys r"
proof
  fix k
  assume "k \<in> pinned_state_keys (enforce_inactive_record_capacities r)"
  then show "k \<in> pinned_state_keys r"
    unfolding mem_pinned by (auto dest: ledger_loop_mem) (blast dest: ledger_loop_mem)
qed

lemma prepare_root_eq:
  assumes "indexes_ok c"
  shows "prepare_root_for_publication c capacity =
    (if fm_len (state_revisions (published_root c)) \<le> capacity then Inr (published_root c)
     else Inl (CoordinatorError ''state_store_unavailable''))"
proof -
  have "indexes_ok (without_unpinned_revisions (enforce_inactive_record_capacities c))"
    using assms by (simp add: indexes_ok_def)
  from indexes_validated [OF this] show ?thesis
    by (simp add: prepare_root_for_publication_def enforce_state_revision_capacity_eq Let_def
        published_root_def)
qed

lemma published_root_ok:
  assumes "candidate_ok cfg c" and "fm_len (state_revisions (published_root c)) \<le> cfg_state_revision_capacity cfg"
  shows "root_ok cfg (published_root c)"
proof -
  let ?p = "published_root c"
  have pin: "pinned_state_keys ?p \<subseteq> pinned_state_keys c" by (simp add: pinned_published pinned_inactive)
  have sub: "pinned_state_keys c \<subseteq> dom (fm_get (state_revisions c))"
    using assms(1) by (simp add: candidate_ok_def)
  have dom: "dom (fm_get (state_revisions ?p)) = pinned_state_keys ?p"
    using pin sub by (auto simp: published_revisions pinned_published [symmetric] restrict_map_def dom_def)
  have tok: "inv_tokens (fm_get (issued_records ?p)) (fm_get (state_revisions ?p))
      (fm_get (prepared_feedback_tokens ?p))"
  proof (rule inv_tokens_step)
    show "inv_tokens (fm_get (issued_records c)) (fm_get (state_revisions c)) (fm_get (prepared_feedback_tokens c))"
      using assms(1) by (simp add: candidate_ok_def)
    fix k f t
    assume t: "fm_get (prepared_feedback_tokens ?p) (k, f) = Some t"
    then show "fm_get (prepared_feedback_tokens c) (k, f) = Some t" by simp
    from t have "k \<in> pinned_state_keys ?p" unfolding mem_pinned by auto
    then show "token_step (fm_get (issued_records c)) (fm_get (state_revisions c))
        (fm_get (issued_records ?p)) (fm_get (state_revisions ?p)) k"
      by (auto simp: token_step_def published_revisions pinned_published [symmetric])
  qed
  have led: "inv_ledger (fm_get (action_ledger_records ?p))"
    using assms(1) unfolding candidate_ok_def inv_ledger_def published_maps
    by (blast dest: ledger_loop_mem)
  have "candidate_ok cfg ?p"
    using assms(1) tok led dom
    by (simp add: candidate_ok_def indexes_ok_def inv_bounds_def session_count_def)
  with dom assms(2) show ?thesis
    using ledger_loop_spec [of "action_ledger_records c"]
    by (simp add: root_ok_def) (simp add: published_root_def)
qed

text \<open>C14 Publication validates: a candidate whose indexes are consistent is refused only when more
  conversations are pinned than the revision capacity allows (the eviction branch of
  \<open>enforce_state_revision_capacity\<close> never has a revision to evict), and what is published then
  satisfies the whole invariant of the root.\<close>
theorem publication_validates:
  assumes "candidate_ok cfg c"
  shows "prepare_root_for_publication c (cfg_state_revision_capacity cfg) =
      (if fm_len (state_revisions (published_root c)) \<le> cfg_state_revision_capacity cfg
       then Inr (published_root c) else Inl (CoordinatorError ''state_store_unavailable''))
    \<and> dom (fm_get (state_revisions (published_root c))) = pinned_state_keys (published_root c)
    \<and> (fm_len (state_revisions (published_root c)) \<le> cfg_state_revision_capacity cfg \<longrightarrow>
         root_ok cfg (published_root c))"
proof -
  have "pinned_state_keys c \<subseteq> dom (fm_get (state_revisions c))"
    using assms by (simp add: candidate_ok_def)
  then have "dom (fm_get (state_revisions (published_root c))) = pinned_state_keys (published_root c)"
    using pinned_inactive [of c]
    by (auto simp: published_revisions pinned_published restrict_map_def dom_def)
  moreover have "indexes_ok c" using assms by (simp add: candidate_ok_def)
  ultimately show ?thesis using assms published_root_ok prepare_root_eq by simp
qed

lemma prepare_root_Inr:
  assumes "candidate_ok cfg c" "prepare_root_for_publication c (cfg_state_revision_capacity cfg) = Inr r"
  shows "r = published_root c \<and> root_ok cfg r"
proof -
  have "indexes_ok c" using assms(1) by (simp add: candidate_ok_def)
  with assms show ?thesis by (auto simp: prepare_root_eq published_root_ok split: if_splits)
qed

end
