(* ===== verification/Session_Eviction.thy ===== *)
theory Session_Eviction
  imports Publication
begin

text \<open>
  What \<open>enforce_session_capacity\<close> removes: the oldest conversations, as many as exceed the capacity,
  and none with a pending reply.
\<close>

definition session_rank ::
  "(conversation_state_key, conversation_turn_record list) frozen_map
   \<Rightarrow> (conversation_state_key, pending_clarification_record) frozen_map
   \<Rightarrow> conversation_state_key \<Rightarrow> int \<times> pybytes" where
  "session_rank t c k = (session_epoch t c k, state_key_json_bytes (canonical_state_key_payload k))"

definition session_dom ::
  "(conversation_state_key, conversation_turn_record list) frozen_map
   \<Rightarrow> (conversation_state_key, pending_clarification_record) frozen_map \<Rightarrow> conversation_state_key set" where
  "session_dom t c = dom (fm_get t) \<union> dom (fm_get c)"

lemma restrict_map_UNIV [simp]: "m |` UNIV = m"
  by (simp add: restrict_map_def)

lemma session_dom_without [simp]:
  "session_dom (without_keys t V) (without_keys c V) = session_dom t c - V"
  by (auto simp: session_dom_def)

lemma finite_session_dom [simp]: "finite (session_dom t c)"
  by (simp add: session_dom_def)

lemma session_rank_without: "k \<notin> V \<Longrightarrow> session_rank (without_keys t V) (without_keys c V) k = session_rank t c k"
  by (simp add: session_rank_def session_epoch_def)

lemma card_session_order: "length (session_eviction_order t c) = card (session_dom t c)"
  by (simp add: length_session_order session_dom_def)

definition oldest_session ::
  "(conversation_state_key, conversation_turn_record list) frozen_map
   \<Rightarrow> (conversation_state_key, pending_clarification_record) frozen_map \<Rightarrow> conversation_state_key" where
  "oldest_session t c = (case session_eviction_order t c of (_, _, v) # _ \<Rightarrow> v)"

lemma oldest_session:
  assumes "session_dom t c \<noteq> {}"
  shows "oldest_session t c \<in> session_dom t c"
    and "k \<in> session_dom t c \<Longrightarrow> session_rank t c (oldest_session t c) \<le> session_rank t c k"
proof -
  from assms obtain e b v rest where o: "session_eviction_order t c = (e, b, v) # rest"
    using card_session_order [of t c] by (cases "session_eviction_order t c") auto
  then have v: "oldest_session t c = v" by (simp add: oldest_session_def)
  from o have "(e, b, v) \<in> set (session_eviction_order t c)" by simp
  then have rank: "v \<in> session_dom t c \<and> session_rank t c v = (e, b)"
    unfolding session_order_rows session_rank_def session_dom_def by simp
  with v show "oldest_session t c \<in> session_dom t c" by simp
  show "session_rank t c (oldest_session t c) \<le> session_rank t c k" if "k \<in> session_dom t c"
    using session_order_hd_min [OF o] that rank v by (simp add: session_rank_def session_dom_def)
qed

lemma session_loop_step:
  assumes "0 \<le> capacity"
  shows "session_loop capacity pending t c =
    (if int (card (session_dom t c)) \<le> capacity then Inr (t, c)
     else if pending (oldest_session t c) then Inl (CoordinatorError ''state_store_unavailable'')
     else session_loop capacity pending (without_keys t {oldest_session t c})
            (without_keys c {oldest_session t c}))"
proof (cases "int (card (session_dom t c)) \<le> capacity")
  case True
  then show ?thesis by (subst session_loop.simps) (simp add: card_session_order)
next
  case False
  with assms obtain e b v rest where o: "session_eviction_order t c = (e, b, v) # rest"
    using card_session_order [of t c] by (cases "session_eviction_order t c") auto
  moreover from False o have "capacity < 1 + int (length rest)" using card_session_order [of t c] by simp
  ultimately show ?thesis
    using False by (subst session_loop.simps) (simp add: oldest_session_def)
qed

definition older_than :: "conversation_state_key set \<Rightarrow> conversation_state_key set
   \<Rightarrow> (conversation_state_key \<Rightarrow> int \<times> pybytes) \<Rightarrow> bool" where
  "older_than V D rank = (\<forall>v\<in>V. \<forall>k\<in>D - V. rank v \<le> rank k)"

text \<open>The loop ends in one of two ways, after removing a set \<open>V\<close> of the oldest conversations.\<close>

lemma session_loop_spec:
  assumes "0 \<le> capacity"
  shows "\<exists>V \<subseteq> session_dom t c. (\<forall>v\<in>V. \<not> pending v) \<and> older_than V (session_dom t c) (session_rank t c)
    \<and> (case session_loop capacity pending t c of
         Inr (t', c') \<Rightarrow> fm_get t' = fm_get t |` (- V) \<and> fm_get c' = fm_get c |` (- V)
           \<and> int (card V) = max 0 (int (card (session_dom t c)) - capacity)
       | Inl e \<Rightarrow> e = CoordinatorError ''state_store_unavailable''
           \<and> (\<exists>v\<in>session_dom t c - V. pending v \<and> older_than (insert v V) (session_dom t c) (session_rank t c)
                \<and> capacity < int (card (session_dom t c)) - int (card V)))"
proof (induction "card (session_dom t c)" arbitrary: t c rule: less_induct)
  case less
  let ?D = "session_dom t c" and ?v = "oldest_session t c"
  show ?case
  proof (cases "int (card ?D) \<le> capacity")
    case True
    with assms show ?thesis
      by (intro exI [of _ "{}"]) (simp add: session_loop_step older_than_def)
  next
    case False
    with assms have ne: "?D \<noteq> {}" by auto
    note v = oldest_session(1) [OF ne] and min = oldest_session(2) [OF ne]
    show ?thesis
    proof (cases "pending ?v")
      case True
      with False assms v min show ?thesis
        by (intro exI [of _ "{}"]) (auto simp: session_loop_step older_than_def)
    next
      case np: False
      let ?t = "without_keys t {?v}" and ?c = "without_keys c {?v}"
      have "card (session_dom ?t ?c) < card ?D" using v by (simp add: card_gt_0_iff ne)
      from less [OF this] obtain V where V: "V \<subseteq> ?D - {?v}" "\<forall>v\<in>V. \<not> pending v"
        and old: "older_than V (?D - {?v}) (session_rank ?t ?c)"
        and res: "case session_loop capacity pending ?t ?c of
         Inr (t', c') \<Rightarrow> fm_get t' = fm_get ?t |` (- V) \<and> fm_get c' = fm_get ?c |` (- V)
           \<and> int (card V) = max 0 (int (card (?D - {?v})) - capacity)
       | Inl e \<Rightarrow> e = CoordinatorError ''state_store_unavailable''
           \<and> (\<exists>v\<in>?D - {?v} - V. pending v \<and> older_than (insert v V) (?D - {?v}) (session_rank ?t ?c)
                \<and> capacity < int (card (?D - {?v})) - int (card V))"
        unfolding session_dom_without by blast
      have lift: "older_than (insert ?v W) ?D (session_rank t c)"
        if "W \<subseteq> ?D - {?v}" "older_than W (?D - {?v}) (session_rank ?t ?c)" for W
        unfolding older_than_def
      proof (intro ballI)
        fix w k
        assume w: "w \<in> insert ?v W" and k: "k \<in> ?D - insert ?v W"
        then have kk: "k \<in> ?D - {?v} - W" by blast
        show "session_rank t c w \<le> session_rank t c k"
        proof (cases "w = ?v")
          case True
          with min k show ?thesis by blast
        next
          case ne: False
          with w have "w \<in> W" by blast
          with that(2) kk have "session_rank ?t ?c w \<le> session_rank ?t ?c k"
            unfolding older_than_def by blast
          moreover from \<open>w \<in> W\<close> that(1) have "w \<notin> {?v}" by blast
          ultimately show ?thesis using k by (simp add: session_rank_without)
        qed
      qed
      have fin: "finite V" using V(1) by (rule finite_subset) simp
      have card: "card (insert ?v V) = Suc (card V)" using V(1) fin by (subst card_insert_disjoint) auto
      have cd: "int (card (?D - {?v})) = int (card ?D) - 1"
        using v ne by (simp add: card_gt_0_iff of_nat_diff Suc_leI)
      show ?thesis
      proof (intro exI [of _ "insert ?v V"] conjI)
        show "insert ?v V \<subseteq> ?D" using v V by auto
        show "\<forall>w\<in>insert ?v V. \<not> pending w" using np V by auto
        show "older_than (insert ?v V) ?D (session_rank t c)" using lift [OF V(1) old] .
        have eq: "session_loop capacity pending t c = session_loop capacity pending ?t ?c"
          using False np by (subst session_loop_step [OF assms]) simp
        show "case session_loop capacity pending t c of
            Inr (t', c') \<Rightarrow> fm_get t' = fm_get t |` (- insert ?v V) \<and> fm_get c' = fm_get c |` (- insert ?v V)
              \<and> int (card (insert ?v V)) = max 0 (int (card ?D) - capacity)
          | Inl e \<Rightarrow> e = CoordinatorError ''state_store_unavailable''
              \<and> (\<exists>w\<in>?D - insert ?v V. pending w
                   \<and> older_than (insert w (insert ?v V)) ?D (session_rank t c)
                   \<and> capacity < int (card ?D) - int (card (insert ?v V)))"
        proof (cases "session_loop capacity pending ?t ?c")
          case (Inl e)
          with res obtain w where w: "w \<in> ?D - {?v} - V" "pending w"
            "older_than (insert w V) (?D - {?v}) (session_rank ?t ?c)"
            "capacity < int (card (?D - {?v})) - int (card V)"
            and e: "e = CoordinatorError ''state_store_unavailable''" by auto
          have "older_than (insert w (insert ?v V)) ?D (session_rank t c)"
            using lift [of "insert w V"] w V(1) by (simp add: insert_commute)
          moreover have "w \<in> ?D - insert ?v V" using w(1) by blast
          moreover have "capacity < int (card ?D) - int (card (insert ?v V))"
            using w(4) unfolding card cd by simp
          ultimately show ?thesis unfolding eq Inl e using w(2) by auto
        next
          case (Inr x)
          obtain t' c' where x: "x = (t', c')" by (cases x)
          have "- V \<inter> - {?v} = - insert ?v V" by blast
          with res False show ?thesis unfolding eq Inr x card by (simp add: cd Int_commute)
        qed
      qed
    qed
  qed
qed

end
