(* ===== verification/Removal.thy ===== *)
theory Removal
  imports Session_Eviction
begin

text \<open>
  Operations that only remove: pruning of revisions, session capacity, eviction of a response, abort
  and cleanup. \<open>shrink_indexes\<close> is the shared argument: when a set of issued records goes, together
  with the index entries that point to it, the indexes stay consistent.
\<close>

definition candidate_core :: "coordinator_config \<Rightarrow> coordinator_state_root \<Rightarrow> bool" where
  "candidate_core cfg root =
     (indexes_ok root
      \<and> inv_tokens (fm_get (issued_records root)) (fm_get (state_revisions root))
          (fm_get (prepared_feedback_tokens root))
      \<and> inv_ledger (fm_get (action_ledger_records root))
      \<and> inv_receipts (fm_get (feedback_receipts root))
      \<and> inv_audit (fm_get (audit_records root))
      \<and> inv_turns cfg (fm_get (conversation_turns root))
      \<and> pinned_state_keys root \<subseteq> dom (fm_get (state_revisions root))
      \<and> fm_len (issued_records root) \<le> cfg_issued_response_capacity cfg
      \<and> fm_len (audit_records root) \<le> cfg_conversation_max_sessions cfg
      \<and> fm_len (feedback_receipts root) \<le> cfg_feedback_receipt_capacity cfg
      \<and> fm_len (prepared_feedback_tokens root) \<le> cfg_issued_response_capacity cfg)"

lemma candidate_ok_iff:
  "candidate_ok cfg root \<longleftrightarrow>
     candidate_core cfg root \<and> session_count root \<le> cfg_conversation_max_sessions cfg"
  by (auto simp: candidate_ok_def candidate_core_def inv_bounds_def)

lemma root_ok_candidate: "root_ok cfg root \<Longrightarrow> candidate_ok cfg root"
  by (simp add: root_ok_def)

lemma root_ok_core: "root_ok cfg root \<Longrightarrow> candidate_core cfg root"
  by (simp add: root_ok_def candidate_ok_iff)

section \<open>Pruning\<close>

lemma prune_core:
  assumes "candidate_core cfg c"
  shows "candidate_core cfg (without_unpinned_revisions c)"
proof -
  let ?p = "without_unpinned_revisions c"
  have "inv_tokens (fm_get (issued_records ?p)) (fm_get (state_revisions ?p))
      (fm_get (prepared_feedback_tokens ?p))"
  proof (rule inv_tokens_step)
    show "inv_tokens (fm_get (issued_records c)) (fm_get (state_revisions c)) (fm_get (prepared_feedback_tokens c))"
      using assms by (simp add: candidate_core_def)
    fix k f t
    assume t: "fm_get (prepared_feedback_tokens ?p) (k, f) = Some t"
    then show "fm_get (prepared_feedback_tokens c) (k, f) = Some t" by simp
    from t have "k \<in> pinned_state_keys c" unfolding mem_pinned by auto
    then show "token_step (fm_get (issued_records c)) (fm_get (state_revisions c))
        (fm_get (issued_records ?p)) (fm_get (state_revisions ?p)) k"
      by (auto simp: token_step_def)
  qed
  with assms show ?thesis by (simp add: candidate_core_def indexes_ok_def)
qed

section \<open>Session capacity\<close>

lemma session_count_dom:
  "session_count r = int (card (session_dom (conversation_turns r) (clarification_records r)))"
  by (simp add: session_count_def session_dom_def)

lemma pinned_fewer_sessions:
  assumes "fm_get t = fm_get (conversation_turns c) |` V" "fm_get l = fm_get (clarification_records c) |` W"
  shows "pinned_state_keys (c\<lparr>conversation_turns := t, clarification_records := l\<rparr>) \<subseteq> pinned_state_keys c"
  using assms by (auto simp: mem_pinned restrict_map_def split: if_splits)

lemma inv_turns_restrict: "inv_turns cfg tm \<Longrightarrow> inv_turns cfg (tm |` V)"
  by (simp add: inv_turns_def restrict_map_def)

lemma fewer_sessions_core:
  assumes "candidate_core cfg c"
    and "fm_get t = fm_get (conversation_turns c) |` V" "fm_get l = fm_get (clarification_records c) |` W"
  shows "candidate_core cfg (c\<lparr>conversation_turns := t, clarification_records := l\<rparr>)"
  using assms pinned_fewer_sessions [OF assms(2,3)]
  by (auto simp: candidate_core_def indexes_ok_def inv_turns_restrict)

lemma enforce_session_capacity_cases:
  assumes "0 \<le> capacity"
  obtains (raises) v where "enforce_session_capacity c capacity = Inl (CoordinatorError ''state_store_unavailable'')"
      and "fm_get (pending_request_by_state c) v \<noteq> None"
  | (evicts) V t l where
      "enforce_session_capacity c capacity = Inr (without_unpinned_revisions
         (c\<lparr>conversation_turns := t, clarification_records := l\<rparr>))"
      and "V \<subseteq> session_dom (conversation_turns c) (clarification_records c)"
      and "fm_get t = fm_get (conversation_turns c) |` (- V)"
      and "fm_get l = fm_get (clarification_records c) |` (- V)"
      and "\<forall>v\<in>V. fm_get (pending_request_by_state c) v = None"
      and "older_than V (session_dom (conversation_turns c) (clarification_records c))
             (session_rank (conversation_turns c) (clarification_records c))"
      and "int (card V) = max 0 (session_count c - capacity)"
proof -
  let ?p = "\<lambda>k. fm_get (pending_request_by_state c) k \<noteq> None"
  let ?loop = "session_loop capacity ?p (conversation_turns c) (clarification_records c)"
  from session_loop_spec [OF assms, of "conversation_turns c" "clarification_records c" ?p]
  obtain V where V: "V \<subseteq> session_dom (conversation_turns c) (clarification_records c)" "\<forall>v\<in>V. \<not> ?p v"
    "older_than V (session_dom (conversation_turns c) (clarification_records c))
             (session_rank (conversation_turns c) (clarification_records c))"
    and res: "case ?loop of
         Inr (t', c') \<Rightarrow> fm_get t' = fm_get (conversation_turns c) |` (- V)
           \<and> fm_get c' = fm_get (clarification_records c) |` (- V)
           \<and> int (card V) = max 0 (session_count c - capacity)
       | Inl e \<Rightarrow> e = CoordinatorError ''state_store_unavailable'' \<and> (\<exists>v. ?p v)"
    unfolding session_count_dom by (fastforce split: sum.splits prod.splits)
  from V(2) have V2: "\<forall>v\<in>V. fm_get (pending_request_by_state c) v = None" by blast
  show thesis
  proof (cases ?loop)
    case (Inl e)
    with res raises show ?thesis by (auto simp: enforce_session_capacity_def)
  next
    case (Inr x)
    obtain t l where x: "x = (t, l)" by (cases x)
    from Inr x res V(1,3) V2 show ?thesis
      by (intro evicts [where V = V and t = t and l = l]) (auto simp: enforce_session_capacity_def)
  qed
qed

lemma enforce_session_ok:
  assumes core: "candidate_core cfg c" and ok: "enforce_session_capacity c capacity = Inr r"
    and cap: "0 \<le> capacity" "capacity = cfg_conversation_max_sessions cfg"
  shows "candidate_ok cfg r"
proof (rule enforce_session_capacity_cases [OF cap(1), of c])
  fix v
  assume "enforce_session_capacity c capacity = Inl (CoordinatorError ''state_store_unavailable'')"
  with ok show ?thesis by simp
next
  fix V t l
  assume evicts: "enforce_session_capacity c capacity = Inr (without_unpinned_revisions
       (c\<lparr>conversation_turns := t, clarification_records := l\<rparr>))"
    "V \<subseteq> session_dom (conversation_turns c) (clarification_records c)"
    "fm_get t = fm_get (conversation_turns c) |` (- V)"
    "fm_get l = fm_get (clarification_records c) |` (- V)"
    and card_V: "int (card V) = max 0 (session_count c - capacity)"
  let ?c = "c\<lparr>conversation_turns := t, clarification_records := l\<rparr>"
  from evicts ok have r: "r = without_unpinned_revisions ?c" by simp
  from fewer_sessions_core [OF core evicts(3,4)] have "candidate_core cfg r"
    unfolding r by (rule prune_core)
  moreover have "session_dom t l = session_dom (conversation_turns c) (clarification_records c) - V"
    using evicts(3,4) by (auto simp: session_dom_def restrict_map_def dom_def)
  then have "session_count r = session_count c - int (card V)"
    using evicts(2) by (simp add: r session_count_dom card_Diff_subset finite_subset of_nat_diff card_mono)
  with card_V cap have "session_count r \<le> cfg_conversation_max_sessions cfg" by simp
  ultimately show ?thesis by (simp add: candidate_ok_iff)
qed

section \<open>Removing issued records\<close>

definition benign :: "(issued_response_record \<Rightarrow> issued_response_record) \<Rightarrow> bool" where
  "benign f = ((\<forall>p. f (Pending p) = Pending p)
     \<and> (\<forall>c. \<exists>c'. f (Complete c) = Complete c' \<and> cr_response c' = cr_response c
          \<and> cr_effects c' = cr_effects c \<and> cr_state_key c' = cr_state_key c
          \<and> cr_request_id c' = cr_request_id c \<and> cr_record_revision c' = cr_record_revision c
          \<and> length (cr_receipts c') \<le> length (cr_receipts c)))"

lemma benign_id: "benign (\<lambda>r. r)"
  by (simp add: benign_def)

lemma benign_Complete_back:
  assumes "benign f" "f r = Complete c'"
  shows "\<exists>c. r = Complete c \<and> cr_response c' = cr_response c \<and> cr_effects c' = cr_effects c
    \<and> cr_state_key c' = cr_state_key c \<and> cr_request_id c' = cr_request_id c
    \<and> cr_record_revision c' = cr_record_revision c \<and> length (cr_receipts c') \<le> length (cr_receipts c)"
proof (cases r)
  case (Pending p)
  with assms show ?thesis by (simp add: benign_def)
next
  case (Complete c)
  from assms(1) obtain d where "f (Complete c) = Complete d" "cr_response d = cr_response c"
    "cr_effects d = cr_effects c" "cr_state_key d = cr_state_key c" "cr_request_id d = cr_request_id c"
    "cr_record_revision d = cr_record_revision c" "length (cr_receipts d) \<le> length (cr_receipts c)"
    unfolding benign_def by blast
  with Complete assms(2) show ?thesis by simp
qed

lemma benign_Complete: "benign f \<Longrightarrow> \<exists>c'. f (Complete c) = Complete c' \<and> cr_response c' = cr_response c
    \<and> cr_effects c' = cr_effects c"
  by (auto simp: benign_def)

lemma benign_Pending: "benign f \<Longrightarrow> f r = Pending p \<longleftrightarrow> r = Pending p"
  by (cases r) (auto simp: benign_def, metis issued_response_record.distinct(1))

definition removed_map ::
  "(issued_response_record \<Rightarrow> issued_response_record) \<Rightarrow> issued_key set
   \<Rightarrow> (issued_key \<Rightarrow> issued_response_record option) \<Rightarrow> issued_key \<Rightarrow> issued_response_record option" where
  "removed_map f K im = (\<lambda>ik. if ik \<in> K then None else map_option f (im ik))"

lemma removed_map_Some: "removed_map f K im ik = Some r \<longleftrightarrow> ik \<notin> K \<and> (\<exists>s. im ik = Some s \<and> r = f s)"
  by (auto simp: removed_map_def)

definition removed_complete ::
  "issued_key set \<Rightarrow> (issued_key \<Rightarrow> issued_response_record option) \<Rightarrow> complete_issued_response set" where
  "removed_complete K im = {c. \<exists>ik\<in>K. im ik = Some (Complete c)}"

lemma shrink_issued: "benign f \<Longrightarrow> inv_issued im \<Longrightarrow> inv_issued (removed_map f K im)"
  unfolding inv_issued_def
proof (intro allI impI)
  fix k a r
  assume f: "benign f" and inv: "\<forall>k a r. im (k, a) = Some r \<longrightarrow> ir_state_key r = k \<and> ir_request_id r = a \<and> record_ok r"
    and "removed_map f K im (k, a) = Some r"
  then obtain s where s: "im (k, a) = Some s" "r = f s" by (auto simp: removed_map_Some)
  with inv have old: "ir_state_key s = k \<and> ir_request_id s = a \<and> record_ok s" by blast
  show "ir_state_key r = k \<and> ir_request_id r = a \<and> record_ok r"
  proof (cases s)
    case (Pending p)
    with f old s show ?thesis by (simp add: benign_def)
  next
    case (Complete c)
    with f obtain c' where "r = Complete c'" "cr_effects c' = cr_effects c" "cr_state_key c' = cr_state_key c"
      "cr_request_id c' = cr_request_id c" "cr_record_revision c' = cr_record_revision c"
      "length (cr_receipts c') \<le> length (cr_receipts c)" using s(2) unfolding benign_def by metis
    with old Complete show ?thesis by simp
  qed
qed

lemma shrink_pending:
  assumes "benign f" "inv_pending im pm"
  shows "inv_pending (removed_map f K im) (pm |` {k. \<forall>ik\<in>K. pm k \<noteq> Some ik})"
  unfolding inv_pending_def
proof (intro allI)
  fix k ik
  have pm: "pm k = Some ik \<longleftrightarrow> (\<exists>a p. ik = (k, a) \<and> im (k, a) = Some (Pending p))"
    using assms(2) unfolding inv_pending_def by blast
  have "(pm |` {k. \<forall>ik\<in>K. pm k \<noteq> Some ik}) k = Some ik \<longleftrightarrow> pm k = Some ik \<and> ik \<notin> K"
    by (auto simp: restrict_map_def)
  moreover have "removed_map f K im (k, a) = Some (Pending p) \<longleftrightarrow> (k, a) \<notin> K \<and> im (k, a) = Some (Pending p)" for a p
    using benign_Pending [OF assms(1)] unfolding removed_map_Some by metis
  ultimately show "(pm |` {k. \<forall>ik\<in>K. pm k \<noteq> Some ik}) k = Some ik \<longleftrightarrow>
      (\<exists>a p. ik = (k, a) \<and> removed_map f K im (k, a) = Some (Pending p))"
    using pm by auto
qed

lemma shrink_response:
  assumes "benign f" "inv_response im rm"
  shows "inv_response (removed_map f K im)
    (rm |` (- (\<lambda>c. resp_id (cr_response c)) ` removed_complete K im))"
  unfolding inv_response_def
proof (intro allI)
  fix rid ik
  have rm: "rm rid = Some ik \<longleftrightarrow> (\<exists>c. im ik = Some (Complete c) \<and> resp_id (cr_response c) = rid)" for ik
    using assms(2) unfolding inv_response_def by blast
  have 1: "(\<exists>c'. removed_map f K im ik = Some (Complete c') \<and> resp_id (cr_response c') = rid) \<longleftrightarrow>
      ik \<notin> K \<and> rm rid = Some ik"
    unfolding removed_map_Some rm
    using benign_Complete_back [OF assms(1)] benign_Complete [OF assms(1)] by metis
  have 2: "rid \<in> (\<lambda>c. resp_id (cr_response c)) ` removed_complete K im \<longleftrightarrow> ik \<in> K"
    if ik: "rm rid = Some ik"
  proof
    assume "rid \<in> (\<lambda>c. resp_id (cr_response c)) ` removed_complete K im"
    then obtain c ik' where "ik' \<in> K" "im ik' = Some (Complete c)" "resp_id (cr_response c) = rid"
      unfolding removed_complete_def by blast
    moreover from this rm [of ik'] have "rm rid = Some ik'" by blast
    ultimately show "ik \<in> K" using ik by simp
  next
    assume "ik \<in> K"
    with ik rm [of ik] show "rid \<in> (\<lambda>c. resp_id (cr_response c)) ` removed_complete K im"
      unfolding removed_complete_def by blast
  qed
  show "(rm |` (- (\<lambda>c. resp_id (cr_response c)) ` removed_complete K im)) rid = Some ik \<longleftrightarrow>
      (\<exists>c'. removed_map f K im ik = Some (Complete c') \<and> resp_id (cr_response c') = rid)"
    unfolding 1 using 2 by (auto simp: restrict_map_def)
qed

lemma effect_action_ids_mem: "a \<in> effect_action_ids es \<longleftrightarrow> (\<exists>e\<in>set es. ie_action_id e = Some a)"
  by (auto simp: effect_action_ids_def map_filter_def image_iff)

lemma shrink_action:
  assumes "benign f" "inv_action im am"
  shows "inv_action (removed_map f K im)
    (am |` (- (\<Union>c\<in>removed_complete K im. effect_action_ids (cr_effects c))))"
  unfolding inv_action_def
proof (intro allI impI)
  fix aid k rid ek
  assume "(am |` (- (\<Union>c\<in>removed_complete K im. effect_action_ids (cr_effects c)))) aid = Some (k, rid, ek)"
  then have am: "am aid = Some (k, rid, ek)"
    and nin: "\<And>c. c \<in> removed_complete K im \<Longrightarrow> aid \<notin> effect_action_ids (cr_effects c)"
    by (auto simp: restrict_map_def split: if_splits)
  from am assms(2) obtain q c e where c: "im (k, q) = Some (Complete c)" "resp_id (cr_response c) = rid"
    and e: "find_effect ek (cr_effects c) = Some e" "ie_action_id e = Some aid"
    unfolding inv_action_def by blast
  from e have "aid \<in> effect_action_ids (cr_effects c)"
    unfolding effect_action_ids_mem by (blast dest: find_effect_Some)
  with nin c(1) have "(k, q) \<notin> K" unfolding removed_complete_def by blast
  with c e benign_Complete [OF assms(1), of c] show "\<exists>q c e. removed_map f K im (k, q) = Some (Complete c)
      \<and> resp_id (cr_response c) = rid \<and> find_effect ek (cr_effects c) = Some e \<and> ie_action_id e = Some aid"
    unfolding removed_map_Some by metis
qed

lemmas shrink_indexes = shrink_issued shrink_pending shrink_response shrink_action

lemma shrink_token_step:
  assumes "benign f" "sm' k = sm k"
  shows "token_step im sm (removed_map f K im) sm' k"
  unfolding token_step_def removed_map_Some assms(2)
  using benign_Complete_back [OF assms(1)] by (metis order_refl)

end
