(* ===== verification/Candidates.thy ===== *)
theory Candidates
  imports Removal
begin

text \<open>
  Every operation turns a well-formed root into a well-formed candidate. Removals go through
  \<open>shrink_indexes\<close>; a reservation adds a pending record, a commit turns it into a complete one, and
  feedback updates the effects of a complete one.
\<close>

lemma candidate_core_indexes: "candidate_core cfg r \<Longrightarrow> indexes_ok r"
  by (simp add: candidate_core_def)

lemma restrict_id_iff: "m |` A = m \<longleftrightarrow> dom m \<subseteq> A"
proof
  assume eq: "m |` A = m"
  have "dom (m |` A) \<subseteq> A" by auto
  then show "dom m \<subseteq> A" by (simp add: eq)
next
  assume "dom m \<subseteq> A"
  then have "x \<notin> A \<Longrightarrow> m x = None" for x by (auto simp: domIff)
  then show "m |` A = m" by (auto simp: fun_eq_iff restrict_map_def)
qed

lemma set_fm_keys: "set (fm_keys repr m) = dom (fm_get m)"
  by auto

lemma pinned_dom:
  "pinned_state_keys root =
     dom (fm_get (conversation_turns root)) \<union> dom (fm_get (clarification_records root))
     \<union> fst ` dom (fm_get (issued_records root)) \<union> fst ` dom (fm_get (feedback_receipts root))
     \<union> fst ` dom (fm_get (prepared_feedback_tokens root))
     \<union> fst ` dom (fm_get (action_ledger_records root)) \<union> fst ` dom (fm_get (audit_records root))"
  by (simp only: pinned_state_keys_def set_fm_keys)

lemma pinned_mono:
  assumes "dom (fm_get (conversation_turns r)) \<subseteq> dom (fm_get (conversation_turns r'))"
    and "dom (fm_get (clarification_records r)) \<subseteq> dom (fm_get (clarification_records r'))"
    and "dom (fm_get (issued_records r)) \<subseteq> dom (fm_get (issued_records r'))"
    and "dom (fm_get (feedback_receipts r)) \<subseteq> dom (fm_get (feedback_receipts r'))"
    and "dom (fm_get (prepared_feedback_tokens r)) \<subseteq> dom (fm_get (prepared_feedback_tokens r'))"
    and "dom (fm_get (action_ledger_records r)) \<subseteq> dom (fm_get (action_ledger_records r'))"
    and "dom (fm_get (audit_records r)) \<subseteq> dom (fm_get (audit_records r'))"
  shows "pinned_state_keys r \<subseteq> pinned_state_keys r'"
  unfolding pinned_dom by (intro Un_mono image_mono assms)

section \<open>Eviction\<close>

lemma complete_candidates_mem:
  "(t, key, c) \<in> set (complete_candidates root) \<longleftrightarrow>
     fm_get (issued_records root) key = Some (Complete c) \<and> t = cr_completed_at_monotonic_ns c"
  (is "?L \<longleftrightarrow> ?R")
proof
  assume ?L
  then obtain k r where "(k, r) \<in> set (fm_items pair_key_repr (issued_records root))"
    "(case r of Complete c \<Rightarrow> Some (cr_completed_at_monotonic_ns c, k, c) | Pending _ \<Rightarrow> None) = Some (t, key, c)"
    unfolding complete_candidates_def set_map_filter by auto
  then show ?R by (cases r) (auto simp: fm.mem_entries)
next
  assume ?R
  then have "(key, Complete c) \<in> set (fm_items pair_key_repr (issued_records root))"
    and "t = cr_completed_at_monotonic_ns c" by (simp_all add: fm.mem_entries)
  then show ?L unfolding complete_candidates_def set_map_filter by force
qed

lemma eviction_cases:
  assumes "issued_capacity_eviction_candidate root capacity = Inr (Some cand)"
  obtains key c where "fm_get (issued_records root) key = Some (Complete c)"
    and "\<forall>key' c'. fm_get (issued_records root) key' = Some (Complete c') \<longrightarrow>
           (cr_completed_at_monotonic_ns c, snd key) \<le> (cr_completed_at_monotonic_ns c', snd key')"
    and "cand = root
      \<lparr>root_revision := root_revision root + 1,
       issued_records := without_keys (issued_records root) {key},
       response_index := without_keys (response_index root) {resp_id (cr_response c)},
       action_index := without_keys (action_index root) (effect_action_ids (cr_effects c))\<rparr>"
proof -
  let ?f = "\<lambda>(completed_at, key :: issued_key, _ :: complete_issued_response). (completed_at :: int, snd key)"
  let ?xs = "complete_candidates root"
  obtain t key c where min: "arg_min_list ?f ?xs = (t, key, c)" by (metis prod_cases3)
  from assms have ne: "?xs \<noteq> []"
    by (auto simp: issued_capacity_eviction_candidate_def Let_def split: if_splits)
  from arg_min_list_mem [OF ne, of ?f] min
  have mem: "fm_get (issued_records root) key = Some (Complete c)" "t = cr_completed_at_monotonic_ns c"
    by (simp_all add: complete_candidates_mem)
  have "(cr_completed_at_monotonic_ns c, snd key) \<le> (cr_completed_at_monotonic_ns c', snd key')"
    if "fm_get (issued_records root) key' = Some (Complete c')" for key' c'
    using arg_min_list_le [of "(cr_completed_at_monotonic_ns c', key', c')" ?xs ?f] that min mem(2)
    by (simp add: complete_candidates_mem)
  with mem assms min ne show thesis
    by (intro that [of key c])
       (auto simp: issued_capacity_eviction_candidate_def Let_def split: if_splits)
qed

lemma without_keys_removed: "fm_get (without_keys m K) = removed_map (\<lambda>r. r) K (fm_get m)"
  by (rule ext) (auto simp: removed_map_def restrict_map_def option.map_ident)

lemma eviction_ok:
  assumes ok: "root_ok cfg root"
    and ev: "issued_capacity_eviction_candidate root (cfg_issued_response_capacity cfg) = Inr (Some cand)"
  shows "candidate_ok cfg cand \<and> fm_len (issued_records cand) < cfg_issued_response_capacity cfg
    \<and> root_revision cand = root_revision root + 1"
proof -
  let ?im = "fm_get (issued_records root)"
  from ok have core: "candidate_core cfg root" and cand: "candidate_ok cfg root"
    by (simp_all add: root_ok_core root_ok_candidate)
  obtain key c where key: "?im key = Some (Complete c)" and cd: "cand = root
      \<lparr>root_revision := root_revision root + 1,
       issued_records := without_keys (issued_records root) {key},
       response_index := without_keys (response_index root) {resp_id (cr_response c)},
       action_index := without_keys (action_index root) (effect_action_ids (cr_effects c))\<rparr>"
    by (rule eviction_cases [OF ev])
  have rc: "removed_complete {key} ?im = {c}" using key by (auto simp: removed_complete_def)
  have pm: "fm_get (pending_request_by_state root) |`
      {k. \<forall>ik\<in>{key}. fm_get (pending_request_by_state root) k \<noteq> Some ik} = fm_get (pending_request_by_state root)"
    using core key unfolding restrict_id_iff candidate_core_def indexes_ok_def inv_pending_def by auto
  have len: "fm_len (without_keys (issued_records root) {key}) = fm_len (issued_records root) - 1"
    using key by (rule fm_len_drop_one)
  have idx: "indexes_ok cand"
    using core shrink_issued [OF benign_id, of ?im "{key}"]
      shrink_pending [OF benign_id, of ?im "fm_get (pending_request_by_state root)" "{key}"]
      shrink_response [OF benign_id, of ?im "fm_get (response_index root)" "{key}"]
      shrink_action [OF benign_id, of ?im "fm_get (action_index root)" "{key}"]
    unfolding pm rc candidate_core_def indexes_ok_def cd
    by (simp add: without_keys_removed [of "issued_records root"] del: fm_get_without)
       (simp add: removed_map_def)
  have pin: "pinned_state_keys cand \<subseteq> pinned_state_keys root"
    by (rule pinned_mono) (auto simp: cd)
  have tok: "inv_tokens (fm_get (issued_records cand)) (fm_get (state_revisions cand))
      (fm_get (prepared_feedback_tokens cand))"
  proof (rule inv_tokens_step)
    show "inv_tokens ?im (fm_get (state_revisions root)) (fm_get (prepared_feedback_tokens root))"
      using core by (simp add: candidate_core_def)
    show "token_step ?im (fm_get (state_revisions root)) (fm_get (issued_records cand))
        (fm_get (state_revisions cand)) k" for k
      using shrink_token_step [OF benign_id] by (simp add: cd without_keys_removed del: fm_get_without)
  qed (simp add: cd)
  have "session_count cand = session_count root" by (rule session_count_cong) (simp_all add: cd)
  with idx pin tok cand core len show ?thesis
    by (auto simp: candidate_ok_iff candidate_core_def cd)
qed

section \<open>Abort and drop\<close>

lemma abort_cases:
  assumes "abort_reply_candidate root k q token = Inr cand"
  obtains p where "fm_get (issued_records root) (k, q) = Some (Pending p)" and "pr_owner_token p = token"
    and "cand = root
      \<lparr>root_revision := root_revision root + 1,
       issued_records := without_keys (issued_records root) {(k, q)},
       pending_request_by_state := without_keys (pending_request_by_state root) {k}\<rparr>"
  using assms
  by (auto simp: abort_reply_candidate_def split: option.splits issued_response_record.splits if_splits)

lemma abort_ok:
  assumes ok: "root_ok cfg root" and ab: "abort_reply_candidate root k q token = Inr cand"
  shows "candidate_ok cfg cand \<and> root_revision cand = root_revision root + 1"
proof -
  let ?im = "fm_get (issued_records root)" and ?pm = "fm_get (pending_request_by_state root)"
  from ok have core: "candidate_core cfg root" and cnt: "session_count root \<le> cfg_conversation_max_sessions cfg"
    by (simp_all add: root_ok_def candidate_ok_iff)
  obtain p where p: "?im (k, q) = Some (Pending p)" and cd: "cand = root
      \<lparr>root_revision := root_revision root + 1,
       issued_records := without_keys (issued_records root) {(k, q)},
       pending_request_by_state := without_keys (pending_request_by_state root) {k}\<rparr>"
    by (rule abort_cases [OF ab])
  have pk: "?pm k' = Some (k, q) \<longleftrightarrow> k' = k" for k'
    using core p unfolding candidate_core_def indexes_ok_def inv_pending_def by auto
  have pm: "?pm |` {k'. \<forall>ik\<in>{(k, q)}. ?pm k' \<noteq> Some ik} = ?pm |` (- {k})"
    by (rule arg_cong [where f = "restrict_map ?pm"]) (auto simp: pk)
  have rc: "removed_complete {(k, q)} ?im = {}" using p by (auto simp: removed_complete_def)
  have idx: "indexes_ok cand"
    using core shrink_issued [OF benign_id, of ?im "{(k, q)}"]
      shrink_pending [OF benign_id, of ?im ?pm "{(k, q)}"]
      shrink_response [OF benign_id, of ?im "fm_get (response_index root)" "{(k, q)}"]
      shrink_action [OF benign_id, of ?im "fm_get (action_index root)" "{(k, q)}"]
    unfolding pm rc candidate_core_def indexes_ok_def cd
    by (simp add: without_keys_removed [of "issued_records root"] del: fm_get_without)
       (simp add: removed_map_def)
  have pin: "pinned_state_keys cand \<subseteq> pinned_state_keys root"
    by (rule pinned_mono) (auto simp: cd)
  have tok: "inv_tokens (fm_get (issued_records cand)) (fm_get (state_revisions cand))
      (fm_get (prepared_feedback_tokens cand))"
  proof (rule inv_tokens_step)
    show "inv_tokens ?im (fm_get (state_revisions root)) (fm_get (prepared_feedback_tokens root))"
      using core by (simp add: candidate_core_def)
    show "token_step ?im (fm_get (state_revisions root)) (fm_get (issued_records cand))
        (fm_get (state_revisions cand)) k" for k
      using shrink_token_step [OF benign_id] by (simp add: cd without_keys_removed del: fm_get_without)
  qed (simp add: cd)
  have "session_count cand = session_count root" by (rule session_count_cong) (simp_all add: cd)
  with idx pin tok cnt core fm_len_drop_le [of "issued_records root" "{(k, q)}"] show ?thesis
    by (auto simp: candidate_ok_iff candidate_core_def cd)
qed

lemma drop_token_ok:
  assumes ok: "root_ok cfg root" and cd: "cand = drop_prepared_token_candidate root p"
  shows "candidate_ok cfg cand \<and> root_revision cand = root_revision root + 1"
proof -
  from ok have core: "candidate_core cfg root" and cnt: "session_count root \<le> cfg_conversation_max_sessions cfg"
    by (simp_all add: root_ok_def candidate_ok_iff)
  have pin: "pinned_state_keys cand \<subseteq> pinned_state_keys root"
    by (rule pinned_mono) (auto simp: cd drop_prepared_token_candidate_def)
  have "inv_tokens (fm_get (issued_records root)) (fm_get (state_revisions root))
      (fm_get (prepared_feedback_tokens root))" using core by (simp add: candidate_core_def)
  then have tok: "inv_tokens (fm_get (issued_records cand)) (fm_get (state_revisions cand))
      (fm_get (prepared_feedback_tokens cand))"
    by (auto simp: inv_tokens_def cd drop_prepared_token_candidate_def restrict_map_def)
  have "session_count cand = session_count root"
    by (rule session_count_cong) (simp_all add: cd drop_prepared_token_candidate_def)
  with core cnt pin tok fm_len_drop_le [of "prepared_feedback_tokens root"] show ?thesis
    by (auto simp: candidate_ok_iff candidate_core_def indexes_ok_def cd drop_prepared_token_candidate_def
        intro: order_trans)
qed

section \<open>Cleanup\<close>

lemma map_of_rev_map_filter:
  "distinct (map fst xs) \<Longrightarrow>
     map_of (rev (List.map_filter (\<lambda>(k, v). map_option (Pair k) (g k v)) xs)) x =
       (case map_of xs x of None \<Rightarrow> None | Some v \<Rightarrow> g x v)"
proof (induction xs)
  case (Cons y ys)
  obtain k v where y: "y = (k, v)" by (cases y)
  with Cons.prems have "map_of ys k = None" by (simp add: map_of_eq_None_iff)
  with Cons y show ?case by (auto simp: map_add_def split: option.splits)
qed simp

lemma fm_rebuild:
  assumes "\<And>k v. h (k, v) = map_option (Pair k) (g k v)"
  shows "pd_get (pd_of (List.map_filter h (fm_items repr m))) x =
    (case fm_get m x of None \<Rightarrow> None | Some v \<Rightarrow> g x v)"
proof -
  have "h = (\<lambda>(k, v). map_option (Pair k) (g k v))" using assms by auto
  then show ?thesis
    using map_of_rev_map_filter [OF distinct_fm_items [of repr m], of g x]
    by (simp add: fm.map_of_entries)
qed

lemma keys_where_mem: "k \<in> keys_where repr P m \<longleftrightarrow> (\<exists>v. fm_get m k = Some v \<and> P k v)"
  unfolding keys_where_def by (force simp: fm.mem_entries)

lemma retained_issued_get:
  "pd_get (retained_issued_records now root) =
     removed_map (retain_record now) (expired_records now root) (fm_get (issued_records root))"
proof (rule ext)
  fix x
  let ?g = "\<lambda>k v. if k \<in> expired_records now root then None else Some (retain_record now v)"
  have "pd_get (retained_issued_records now root) x =
      (case fm_get (issued_records root) x of None \<Rightarrow> None | Some v \<Rightarrow> ?g x v)"
    unfolding retained_issued_records_def by (rule fm_rebuild) simp
  then show "pd_get (retained_issued_records now root) x =
      removed_map (retain_record now) (expired_records now root) (fm_get (issued_records root)) x"
    by (simp add: removed_map_def split: option.splits)
qed

lemma retained_turns_get:
  "pd_get (retained_turns cfg now root) k =
     (case fm_get (conversation_turns root) k of None \<Rightarrow> None
      | Some ts \<Rightarrow> if retained_turn_list cfg now ts \<noteq> [] then Some (retained_turn_list cfg now ts) else None)"
  unfolding retained_turns_def by (rule fm_rebuild) (simp add: Let_def)

lemma benign_retain: "benign (retain_record now)"
  by (auto simp: benign_def live_receipts_def)

lemma set_expired_complete:
  "set (expired_complete now root) = removed_complete (expired_records now root) (fm_get (issued_records root))"
  unfolding expired_complete_def set_map_filter removed_complete_def
  by (auto simp: fm.mem_entries [of _ _ pair_key_repr, symmetric] split: issued_response_record.splits if_splits)
     force

lemma cleaned_indexes:
  assumes "indexes_ok root"
  shows "indexes_ok (cleaned_root cfg now epoch root)"
proof -
  let ?K = "expired_records now root"
  let ?im = "fm_get (issued_records root)" and ?pm = "fm_get (pending_request_by_state root)"
  have pm: "- keys_where csk_repr (\<lambda>_ key. key \<in> ?K) (pending_request_by_state root)
      = {k. \<forall>ik\<in>?K. ?pm k \<noteq> Some ik}"
    by (auto simp: keys_where_mem)
  show ?thesis
    using assms shrink_issued [OF benign_retain, of ?im now ?K]
      shrink_pending [OF benign_retain, of ?im ?pm now ?K]
      shrink_response [OF benign_retain, of ?im "fm_get (response_index root)" now ?K]
      shrink_action [OF benign_retain, of ?im "fm_get (action_index root)" now ?K]
    unfolding indexes_ok_def
    by (simp add: cleaned_root_def Let_def retained_issued_get pm set_expired_complete)
qed

lemma cleaned_pinned:
  "pinned_state_keys (cleaned_root cfg now epoch root) \<subseteq> pinned_state_keys root"
proof (rule pinned_mono)
  show "dom (fm_get (conversation_turns (cleaned_root cfg now epoch root))) \<subseteq> dom (fm_get (conversation_turns root))"
    by (auto simp: cleaned_root_def Let_def retained_turns_get split: option.splits)
  show "dom (fm_get (issued_records (cleaned_root cfg now epoch root))) \<subseteq> dom (fm_get (issued_records root))"
    by (auto simp: cleaned_root_def Let_def retained_issued_get removed_map_def split: if_splits)
qed (auto simp: cleaned_root_def Let_def)

lemma cleaned_tokens:
  assumes "inv_tokens (fm_get (issued_records root)) (fm_get (state_revisions root))
      (fm_get (prepared_feedback_tokens root))"
  shows "inv_tokens (fm_get (issued_records (cleaned_root cfg now epoch root)))
      (fm_get (state_revisions (cleaned_root cfg now epoch root)))
      (fm_get (prepared_feedback_tokens (cleaned_root cfg now epoch root)))"
  by (rule inv_tokens_step [OF assms])
     (auto simp: cleaned_root_def Let_def retained_issued_get restrict_map_def
       intro!: shrink_token_step benign_retain split: if_splits)

lemma cleaned_turns:
  assumes "1 \<le> cfg_conversation_max_messages cfg"
  shows "inv_turns cfg (fm_get (conversation_turns (cleaned_root cfg now epoch root)))"
  using assms length_py_last [of "cfg_conversation_max_messages cfg"]
  by (auto simp: inv_turns_def cleaned_root_def Let_def retained_turns_get retained_turn_list_def
      split: option.splits if_splits)

lemma inv_restrict:
  "inv_ledger lm \<Longrightarrow> inv_ledger (lm |` A)"
  "inv_receipts rm \<Longrightarrow> inv_receipts (rm |` B)"
  "inv_audit um \<Longrightarrow> inv_audit (um |` C)"
  by (simp_all add: inv_ledger_def inv_receipts_def inv_audit_def restrict_map_def)

lemma cleaned_core:
  assumes core: "candidate_core cfg root" and cfg: "1 \<le> cfg_conversation_max_messages cfg"
  shows "candidate_core cfg (cleaned_root cfg now epoch root)"
proof -
  let ?c = "cleaned_root cfg now epoch root"
  have "fm_len (issued_records ?c) \<le> fm_len (issued_records root)"
    by (rule fm_len_mono) (auto simp: cleaned_root_def Let_def retained_issued_get removed_map_def split: if_splits)
  moreover have "fm_len (audit_records ?c) \<le> fm_len (audit_records root)"
    "fm_len (feedback_receipts ?c) \<le> fm_len (feedback_receipts root)"
    "fm_len (prepared_feedback_tokens ?c) \<le> fm_len (prepared_feedback_tokens root)"
    by (simp_all add: cleaned_root_def Let_def fm_len_drop_le)
  moreover have "inv_ledger (fm_get (action_ledger_records ?c))" "inv_receipts (fm_get (feedback_receipts ?c))"
    "inv_audit (fm_get (audit_records ?c))" "state_revisions ?c = state_revisions root"
    using core by (simp_all add: candidate_core_def cleaned_root_def Let_def inv_restrict)
  ultimately show ?thesis
    using core cleaned_indexes [of root cfg now epoch] cleaned_tokens [of root cfg now epoch]
      cleaned_turns [OF cfg, of now epoch root] cleaned_pinned [of cfg now epoch root]
    by (auto simp: candidate_core_def)
qed

lemma cleanup_ok:
  assumes ok: "root_ok cfg root" and cfg: "valid_config cfg"
    and cl: "cleanup_candidate root now epoch cfg = (Some cand, n)"
  shows "candidate_ok cfg cand \<and> root_revision cand = root_revision root + 1"
proof -
  from ok have core: "candidate_core cfg root" and cnt: "session_count root \<le> cfg_conversation_max_sessions cfg"
    by (simp_all add: root_ok_def candidate_ok_iff)
  from cl have cd: "cand = without_unpinned_revisions (cleaned_root cfg now epoch root)"
    by (auto simp: cleanup_candidate_def split: if_splits)
  from cfg have "candidate_core cfg cand"
    unfolding cd by (intro prune_core cleaned_core core) (simp add: valid_config_def)
  moreover have "session_count cand \<le> session_count root"
    unfolding cd session_count_def
    by (auto simp: cleaned_root_def Let_def retained_turns_get restrict_map_def intro!: card_mono
        split: option.splits if_splits)
  moreover have "root_revision cand = root_revision root + 1"
    by (simp add: cd cleaned_root_def Let_def)
  ultimately show ?thesis using cnt by (simp add: candidate_ok_iff)
qed

end
