(* ===== verification/Transitions.thy ===== *)
theory Transitions
  imports Candidates
begin

text \<open>
  Operations that add: reservation, commit of a reply, preparation and commit of feedback. Each turns
  a well-formed root into a well-formed candidate one root revision later.
\<close>

section \<open>Reservation\<close>

lemma existing_None:
  "existing_reservation_result root k q h e = Inr None \<Longrightarrow>
     fm_get (issued_records root) (k, q) = None \<and> fm_get (pending_request_by_state root) k = None"
  by (cases "fm_get (pending_request_by_state root) k")
     (auto simp: existing_reservation_result_def split: option.splits issued_response_record.splits if_splits)

definition reservation_record ::
  "coordinator_config \<Rightarrow> conversation_state_key \<Rightarrow> pystr \<Rightarrow> pystr \<Rightarrow> bool \<Rightarrow> state_revision_record \<Rightarrow> int
   \<Rightarrow> pybytes \<Rightarrow> int \<Rightarrow> pending_issued_response" where
  "reservation_record cfg k q h e revision now owner_token epoch =
     \<lparr>pr_state_key = k, pr_request_id = q, pr_request_hash = h, pr_replay_eligible = e,
      pr_owner_token = owner_token, pr_revision_epoch = sr_revision_epoch revision,
      pr_reserved_state_revision = sr_revision revision, pr_created_at_epoch_ms = epoch,
      pr_created_at_monotonic_ns = now,
      pr_expires_at_monotonic_ns = now + cfg_issued_pending_ttl_ns cfg\<rparr>"

lemma reserve_cases:
  assumes "reserve_reply_candidate cfg root k q h e now et ot epoch = Inr (Some cand, res)"
  shows "existing_reservation_result root k q h e = Inr None
    \<and> cand = root
        \<lparr>root_revision := root_revision root + 1,
         issued_records := with_updates (issued_records root)
           [((k, q), Pending (reservation_record cfg k q h e (current_revision cfg root k et now) now ot epoch))],
         pending_request_by_state := with_updates (pending_request_by_state root) [(k, (k, q))],
         state_revisions := with_updates (state_revisions root) [(k, current_revision cfg root k et now)]\<rparr>
    \<and> res = NewReplyReservation \<lparr>nr_state_key = k, nr_request_id = q, nr_request_hash = h,
        nr_replay_eligible = e, nr_owner_token = ot,
        nr_revision_epoch = sr_revision_epoch (current_revision cfg root k et now),
        nr_state_revision = sr_revision (current_revision cfg root k et now)\<rparr>"
  using assms
  by (auto simp: reserve_reply_candidate_def res_simps Let_def reservation_record_def split: option.splits)

lemma reserve_ok:
  assumes ok: "root_ok cfg root"
    and space: "fm_len (issued_records root) < cfg_issued_response_capacity cfg"
    and rs: "reserve_reply_candidate cfg root k q h e now et ot epoch = Inr (Some cand, res)"
  shows "candidate_ok cfg cand \<and> root_revision cand = root_revision root + 1"
proof -
  let ?im = "fm_get (issued_records root)" and ?pm = "fm_get (pending_request_by_state root)"
  let ?sm = "fm_get (state_revisions root)"
  define rev where "rev = current_revision cfg root k et now"
  define rec where "rec = reservation_record cfg k q h e rev now ot epoch"
  from reserve_cases [OF rs] have ex: "existing_reservation_result root k q h e = Inr None"
    and cd: "cand = root
        \<lparr>root_revision := root_revision root + 1,
         issued_records := with_updates (issued_records root) [((k, q), Pending rec)],
         pending_request_by_state := with_updates (pending_request_by_state root) [(k, (k, q))],
         state_revisions := with_updates (state_revisions root) [(k, rev)]\<rparr>"
    by (simp_all add: rec_def rev_def)
  from existing_None [OF ex] have new: "?im (k, q) = None" "?pm k = None" by simp_all
  from ok have core: "candidate_core cfg root" and cnt: "session_count root \<le> cfg_conversation_max_sessions cfg"
    by (simp_all add: root_ok_def candidate_ok_iff)
  then have idx: "inv_issued ?im" "inv_pending ?im ?pm" "inv_response ?im (fm_get (response_index root))"
    "inv_action ?im (fm_get (action_index root))"
    by (simp_all add: candidate_core_def indexes_ok_def)
  have "pr_state_key rec = k" "pr_request_id rec = q" by (simp_all add: rec_def reservation_record_def)
  then have "inv_issued (?im((k, q) \<mapsto> Pending rec))"
    using idx(1) by (auto simp: inv_issued_def)
  moreover have "inv_pending (?im((k, q) \<mapsto> Pending rec)) (?pm(k \<mapsto> (k, q)))"
    unfolding inv_pending_def
  proof (intro allI)
    fix k' ik
    have none: "?im (k, a) \<noteq> Some (Pending x)" for a x
      using idx(2) new(2) unfolding inv_pending_def by (metis option.distinct(1))
    show "(?pm(k \<mapsto> (k, q))) k' = Some ik \<longleftrightarrow>
        (\<exists>a x. ik = (k', a) \<and> (?im((k, q) \<mapsto> Pending rec)) (k', a) = Some (Pending x))"
    proof (cases "k' = k")
      case True
      with none show ?thesis by auto
    next
      case False
      moreover have "?pm k' = Some ik \<longleftrightarrow> (\<exists>a x. ik = (k', a) \<and> ?im (k', a) = Some (Pending x))"
        using idx(2) unfolding inv_pending_def by blast
      ultimately show ?thesis by simp
    qed
  qed
  moreover have "inv_response (?im((k, q) \<mapsto> Pending rec)) (fm_get (response_index root))"
    using idx(3) new unfolding inv_response_def by (auto simp: fun_upd_apply)
  moreover have "inv_action (?im((k, q) \<mapsto> Pending rec)) (fm_get (action_index root))"
    using idx(4) new unfolding inv_action_def by (auto simp: fun_upd_apply) (metis option.distinct(1))
  ultimately have "indexes_ok cand" by (simp add: indexes_ok_def cd)
  moreover have "inv_tokens (fm_get (issued_records cand)) (fm_get (state_revisions cand))
      (fm_get (prepared_feedback_tokens cand))"
  proof (rule inv_tokens_step)
    show "inv_tokens ?im ?sm (fm_get (prepared_feedback_tokens root))"
      using core by (simp add: candidate_core_def)
    show "token_step ?im ?sm (fm_get (issued_records cand)) (fm_get (state_revisions cand)) k'" for k'
      by (auto simp: token_step_def cd rev_def current_revision_def)
  qed (simp add: cd)
  moreover have "pinned_state_keys cand \<subseteq> insert k (pinned_state_keys root)"
    by (auto simp: cd pinned_dom)
  moreover have "fm_len (issued_records cand) \<le> cfg_issued_response_capacity cfg"
    using space new(1) by (simp add: cd fm_len_put_absent)
  moreover have "session_count cand = session_count root" by (rule session_count_cong) (simp_all add: cd)
  ultimately show ?thesis
    using core cnt by (auto simp: candidate_ok_iff candidate_core_def cd)
qed

section \<open>Commit of a reply\<close>

lemma commit_reply_cases:
  assumes "commit_reply_candidate sha cfg root p rh ah now epoch = Inr (cand, response)"
  obtains pending revision audit where
      "fm_get (issued_records root) (rp_state_key p, rp_request_id p) = Some (Pending pending)"
    and "pr_owner_token pending = rp_owner_token p"
    and "fm_get (state_revisions root) (rp_state_key p) = Some revision"
    and "sr_revision_epoch revision = rp_expected_revision_epoch p"
    and "sr_revision revision = rp_expected_state_revision p"
    and "pr_request_hash pending = rp_request_hash p"
    and "pr_replay_eligible pending = rp_replay_eligible p"
    and "response = issue_response_ids rh ah (rp_response p)"
    and "fm_get (response_index root) (resp_id response) = None"
    and "build_audit_record (rp_audit p) (rp_state_key p) (resp_id response) (rp_request_id p)
           (reply_kind_of (resp_reply response)) epoch (now + cfg_issued_ttl_ns cfg) = Inr audit"
    and "enforce_session_capacity (committed_root sha cfg root p revision response audit now epoch)
           (cfg_conversation_max_sessions cfg) = Inr cand"
proof -
  from assms obtain pending where a: "fm_get (issued_records root) (rp_state_key p, rp_request_id p) = Some (Pending pending)"
    by (auto simp: commit_reply_candidate_def split: option.splits issued_response_record.splits)
  with assms obtain revision where b: "fm_get (state_revisions root) (rp_state_key p) = Some revision"
    and c: "pr_owner_token pending = rp_owner_token p"
    by (auto simp: commit_reply_candidate_def split: option.splits if_splits)
  let ?r = "issue_response_ids rh ah (rp_response p)"
  from assms a b c have main: "sr_revision_epoch revision = rp_expected_revision_epoch p"
    "sr_revision revision = rp_expected_state_revision p"
    "pr_request_hash pending = rp_request_hash p" "pr_replay_eligible pending = rp_replay_eligible p"
    "fm_get (response_index root) (resp_id ?r) = None"
    and rest: "res_bind (build_audit_record (rp_audit p) (rp_state_key p) (resp_id ?r) (rp_request_id p)
           (reply_kind_of (resp_reply ?r)) epoch (now + cfg_issued_ttl_ns cfg)) (\<lambda>audit.
         res_bind (enforce_session_capacity (committed_root sha cfg root p revision ?r audit now epoch)
           (cfg_conversation_max_sessions cfg)) (\<lambda>candidate. Inr (candidate, ?r))) = Inr (cand, response)"
    by (simp_all add: commit_reply_candidate_def Let_def del: not_None_eq issue_response_ids_id
        split: if_split_asm)
  from rest obtain audit where resp: "response = ?r"
    and d: "build_audit_record (rp_audit p) (rp_state_key p) (resp_id ?r) (rp_request_id p)
           (reply_kind_of (resp_reply ?r)) epoch (now + cfg_issued_ttl_ns cfg) = Inr audit"
    and e: "enforce_session_capacity (committed_root sha cfg root p revision ?r audit now epoch)
           (cfg_conversation_max_sessions cfg) = Inr cand"
    by (auto simp: res_simps simp del: issue_response_ids_id)
  show thesis
    by (rule that [OF a c b main(1-4) resp main(5) [folded resp] d [folded resp] e [folded resp]])
qed

lemma evict_audit_len:
  assumes "fm_len audits \<le> capacity" "1 \<le> capacity"
  shows "fm_len (evict_audit audits capacity) < capacity"
proof (cases "fm_len audits \<ge> capacity")
  case True
  let ?f = "\<lambda>((k, a), r). (ar_created_at_epoch_ms r, key_bytes k a)"
  let ?v = "arg_min_list ?f (fm_items pair_key_repr audits)"
  from True assms have "fm_items pair_key_repr audits \<noteq> []"
    by (auto simp: fm_len_items [of _ pair_key_repr])
  then have "?v \<in> set (fm_items pair_key_repr audits)" by (rule arg_min_list_mem)
  then have "fm_get audits (fst ?v) = Some (snd ?v)" by (metis fm.mem_entries prod.collapse)
  from fm_len_drop_one [OF this] assms(1) True show ?thesis by (simp add: evict_audit_def)
next
  case False
  then show ?thesis by (simp add: evict_audit_def)
qed

lemma evict_audit_sub: "fm_get (evict_audit audits capacity) \<subseteq>\<^sub>m fm_get audits"
  by (auto simp: evict_audit_def map_le_def)

lemma action_entries_mem:
  "(aid, k', rid', ek) \<in> set (action_entries k rid es) \<longleftrightarrow>
     k' = k \<and> rid' = rid \<and> (\<exists>e\<in>set es. ie_action_id e = Some aid \<and> ie_effect_key e = ek)"
  by (auto simp: action_entries_def set_map_filter)

lemma fm_get_updates_dict:
  "fm_get (with_updates m (pd_items d)) = fm_get m ++ pd_get d"
proof -
  have "map_of (rev (pd_items d)) = pd_get d"
  proof (rule ext)
    fix x
    have "distinct (map fst (rev (pd_items d)))" by (simp add: rev_map [symmetric])
    then show "map_of (rev (pd_items d)) x = pd_get d x"
      by (metis map_of_inject_set pd.map_of_entries pd_distinct set_rev)
  qed
  then show ?thesis by (simp add: fm_get_updates)
qed

lemma find_effect_self:
  assumes "effects_ok es" "e \<in> set es"
  shows "\<exists>e'. find_effect (ie_effect_key e) es = Some e' \<and> ie_action_id e' = ie_action_id e"
proof -
  from assms(2) obtain e' where e': "find_effect (ie_effect_key e) es = Some e'"
    unfolding find_effect_def by (metis (mono_tags, lifting) find_None_iff not_None_eq)
  then have "e' \<in> set es" "ie_effect_key e' = ie_effect_key e" by (auto dest: find_effect_Some)
  with e' assms effect_key_action_id [of e' e] effects_ok_effect_ok show ?thesis by blast
qed

text \<open>A pending record becomes complete: the four index clauses.\<close>

lemma complete_issued:
  assumes "inv_issued im" "record_ok (Complete c)" "cr_state_key c = k" "cr_request_id c = q"
  shows "inv_issued (im((k, q) \<mapsto> Complete c))"
  unfolding inv_issued_def
proof (intro allI impI)
  fix k' a r
  assume r: "(im((k, q) \<mapsto> Complete c)) (k', a) = Some r"
  show "ir_state_key r = k' \<and> ir_request_id r = a \<and> record_ok r"
  proof (cases "(k', a) = (k, q)")
    case True
    with r have "r = Complete c" "k' = k" "a = q" by (auto split: if_splits)
    with assms(2-4) show ?thesis by (simp only: ir_state_key.simps ir_request_id.simps)
  next
    case False
    with r have "im (k', a) = Some r" by (simp only: fun_upd_apply if_False)
    with assms(1) show ?thesis unfolding inv_issued_def by blast
  qed
qed

lemma complete_pending:
  assumes "inv_pending im pm" "im (k, q) = Some (Pending x)"
  shows "inv_pending (im((k, q) \<mapsto> Complete c)) (pm |` (- {k}))"
  unfolding inv_pending_def
proof (intro allI)
  fix k' ik
  have pm: "pm k' = Some ik \<longleftrightarrow> (\<exists>a y. ik = (k', a) \<and> im (k', a) = Some (Pending y))"
    using assms(1) unfolding inv_pending_def by blast
  show "(pm |` (- {k})) k' = Some ik \<longleftrightarrow>
      (\<exists>a y. ik = (k', a) \<and> (im((k, q) \<mapsto> Complete c)) (k', a) = Some (Pending y))"
  proof (cases "k' = k")
    case True
    have "(im((k, q) \<mapsto> Complete c)) (k, a) \<noteq> Some (Pending y)" for a y
    proof
      assume y: "(im((k, q) \<mapsto> Complete c)) (k, a) = Some (Pending y)"
      then have "a \<noteq> q" by auto
      with y have "im (k, a) = Some (Pending y)" by simp
      from inv_pending_unique [OF assms(1) this assms(2)] \<open>a \<noteq> q\<close> show False by simp
    qed
    with True show ?thesis by simp
  next
    case False
    with pm show ?thesis by simp
  qed
qed

lemma complete_response:
  assumes "inv_response im rm" "im (k, q) = Some (Pending x)" "rm (resp_id (cr_response c)) = None"
  shows "inv_response (im((k, q) \<mapsto> Complete c)) (rm(resp_id (cr_response c) \<mapsto> (k, q)))"
  unfolding inv_response_def
proof (intro allI)
  fix rid ik
  have rm: "rm rid = Some ik \<longleftrightarrow> (\<exists>d. im ik = Some (Complete d) \<and> resp_id (cr_response d) = rid)" for rid ik
    using assms(1) unfolding inv_response_def by blast
  show "(rm(resp_id (cr_response c) \<mapsto> (k, q))) rid = Some ik \<longleftrightarrow>
      (\<exists>d. (im((k, q) \<mapsto> Complete c)) ik = Some (Complete d) \<and> resp_id (cr_response d) = rid)"
  proof (cases "ik = (k, q)")
    case True
    with rm [of rid "(k, q)"] assms(2) show ?thesis by auto
  next
    case False
    with rm [of rid ik] rm [of "resp_id (cr_response c)" ik] assms(3) show ?thesis by auto
  qed
qed

lemma complete_action:
  assumes "inv_action im am" "im (k, q) = Some (Pending x)"
    and new: "\<And>aid v. am' aid = Some v \<Longrightarrow> am aid = Some v
      \<or> (\<exists>e\<in>set (cr_effects c). v = (k, resp_id (cr_response c), ie_effect_key e) \<and> ie_action_id e = Some aid)"
    and es: "effects_ok (cr_effects c)"
  shows "inv_action (im((k, q) \<mapsto> Complete c)) am'"
  unfolding inv_action_def
proof (intro allI impI)
  fix aid k' rid ek
  assume "am' aid = Some (k', rid, ek)"
  from new [OF this] show "\<exists>q' d e. (im((k, q) \<mapsto> Complete c)) (k', q') = Some (Complete d)
      \<and> resp_id (cr_response d) = rid \<and> find_effect ek (cr_effects d) = Some e \<and> ie_action_id e = Some aid"
  proof
    assume "am aid = Some (k', rid, ek)"
    with assms(1) obtain q' d e where d: "im (k', q') = Some (Complete d)" "resp_id (cr_response d) = rid"
      "find_effect ek (cr_effects d) = Some e" "ie_action_id e = Some aid" unfolding inv_action_def by blast
    with assms(2) have "(k', q') \<noteq> (k, q)" by auto
    with d show ?thesis by (metis fun_upd_apply)
  next
    assume "\<exists>e\<in>set (cr_effects c). (k', rid, ek) = (k, resp_id (cr_response c), ie_effect_key e)
        \<and> ie_action_id e = Some aid"
    then obtain e where e: "e \<in> set (cr_effects c)" "k' = k" "rid = resp_id (cr_response c)"
      "ek = ie_effect_key e" "ie_action_id e = Some aid" by blast
    from find_effect_self [OF es e(1)] e(2-5) show ?thesis
      by (intro exI [of _ q] exI [of _ c]) auto
  qed
qed

lemma committed_root_core:
  assumes ok: "root_ok cfg root" and cfg: "valid_config cfg"
    and pend: "fm_get (issued_records root) (rp_state_key p, rp_request_id p) = Some (Pending x)"
    and rev: "fm_get (state_revisions root) (rp_state_key p) = Some revision"
    and fresh: "fm_get (response_index root) (resp_id response) = None"
    and scene: "audit_scene audit = csk_scene (rp_state_key p)"
  shows "candidate_core cfg (committed_root sha cfg root p revision response audit now epoch)"
    (is "candidate_core cfg ?c")
proof -
  let ?k = "rp_state_key p" and ?q = "rp_request_id p"
  let ?im = "fm_get (issued_records root)" and ?sm = "fm_get (state_revisions root)"
  define c where "c = complete_record cfg p (bumped_revision cfg revision now) response now epoch"
  from ok have core: "candidate_core cfg root" by (rule root_ok_core)
  then have idx: "inv_issued ?im" "inv_pending ?im (fm_get (pending_request_by_state root))"
    "inv_response ?im (fm_get (response_index root))" "inv_action ?im (fm_get (action_index root))"
    by (simp_all add: candidate_core_def indexes_ok_def)
  have c: "cr_state_key c = ?k" "cr_request_id c = ?q" "cr_response c = response"
    "cr_effects c = derive_issued_effects response" "cr_receipts c = []" "cr_record_revision c = 1"
    by (simp_all add: c_def complete_record_def)
  have rc: "record_ok (Complete c)"
    by (simp add: c derive_issued_effects_ok record_receipt_limit_def)
  have im: "fm_get (issued_records ?c) = ?im((?k, ?q) \<mapsto> Complete c)"
    and sm: "fm_get (state_revisions ?c) = ?sm(?k \<mapsto> bumped_revision cfg revision now)"
    and pm: "fm_get (pending_request_by_state ?c) = fm_get (pending_request_by_state root) |` (- {?k})"
    and rm: "fm_get (response_index ?c) = (fm_get (response_index root))(resp_id response \<mapsto> (?k, ?q))"
    and am: "fm_get (action_index ?c) = fm_get (action_index root)
      ++ pd_get (pd_of (action_entries ?k (resp_id response) (cr_effects c)))"
    by (simp_all add: committed_root_def Let_def c_def fm_get_updates_dict del: pd_get_of)
  have act: "fm_get (action_index root) aid = Some v
      \<or> (\<exists>e\<in>set (cr_effects c). v = (?k, resp_id (cr_response c), ie_effect_key e) \<and> ie_action_id e = Some aid)"
    if "fm_get (action_index ?c) aid = Some v" for aid v
  proof -
    obtain k' rid' ek where v: "v = (k', rid', ek)" by (cases v)
    from that show ?thesis
      unfolding am map_add_Some_iff pd_get_of
      by (auto dest!: map_of_SomeD simp: v action_entries_mem c(3))
  qed
  have "indexes_ok ?c"
    unfolding indexes_ok_def
    using complete_issued [OF idx(1) rc c(1,2)] complete_pending [OF idx(2) pend, of c]
      complete_response [OF idx(3) pend, of c] fresh
      complete_action [OF idx(4) pend act] rc
    by (simp add: im pm rm c(3))
  moreover have "inv_tokens (fm_get (issued_records ?c)) (fm_get (state_revisions ?c))
      (fm_get (prepared_feedback_tokens ?c))"
  proof (rule inv_tokens_step)
    show "inv_tokens ?im ?sm (fm_get (prepared_feedback_tokens root))"
      using core by (simp add: candidate_core_def)
    show "token_step ?im ?sm (fm_get (issued_records ?c)) (fm_get (state_revisions ?c)) k" for k
      using rev by (auto simp: token_step_def im sm bumped_revision_def)
  qed (simp add: committed_root_def Let_def)
  moreover have "inv_turns cfg (fm_get (conversation_turns ?c))"
    using core cfg length_py_last [of "cfg_conversation_max_messages cfg"]
      py_last_nonempty [of "cfg_conversation_max_messages cfg"]
    by (auto simp: committed_root_def Let_def candidate_core_def inv_turns_def valid_config_def)
  moreover have "inv_audit (fm_get (audit_records ?c))"
    using core scene evict_audit_sub [of "audit_records root" "cfg_conversation_max_sessions cfg"]
    by (auto simp: committed_root_def Let_def candidate_core_def inv_audit_def map_le_def dom_def
        evict_audit_def restrict_map_def split: if_splits)
  moreover have "pinned_state_keys ?c \<subseteq> insert ?k (pinned_state_keys root)"
    by (auto simp: committed_root_def Let_def pinned_dom evict_audit_def split: option.splits if_splits)
  moreover have "fm_len (issued_records ?c) = fm_len (issued_records root)"
    using pend by (simp add: committed_root_def Let_def fm_len_put_present)
  moreover have "fm_len (audit_records ?c) \<le> cfg_conversation_max_sessions cfg"
    using evict_audit_len [of "audit_records root" "cfg_conversation_max_sessions cfg"] core cfg
      fm_len_put_le [of "evict_audit (audit_records root) (cfg_conversation_max_sessions cfg)"
        "(?k, resp_id response)" audit]
    by (simp add: committed_root_def Let_def candidate_core_def valid_config_def)
  ultimately show ?thesis
    using core by (auto simp: candidate_core_def sm) (auto simp: committed_root_def Let_def)
qed

lemma commit_reply_ok:
  assumes ok: "root_ok cfg root" and cfg: "valid_config cfg"
    and chk: "check_reply_commit_proposal p = Inr ()"
    and cr: "commit_reply_candidate sha cfg root p rh ah now epoch = Inr (cand, response)"
  shows "candidate_ok cfg cand \<and> root_revision cand = root_revision root + 1"
proof (rule commit_reply_cases [OF cr])
  fix pending revision audit
  assume a: "fm_get (issued_records root) (rp_state_key p, rp_request_id p) = Some (Pending pending)"
    "fm_get (state_revisions root) (rp_state_key p) = Some revision"
    "fm_get (response_index root) (resp_id response) = None"
    and au: "build_audit_record (rp_audit p) (rp_state_key p) (resp_id response) (rp_request_id p)
           (reply_kind_of (resp_reply response)) epoch (now + cfg_issued_ttl_ns cfg) = Inr audit"
    and en: "enforce_session_capacity (committed_root sha cfg root p revision response audit now epoch)
           (cfg_conversation_max_sessions cfg) = Inr cand"
  let ?c = "committed_root sha cfg root p revision response audit now epoch"
  have "audit_scene audit = csk_scene (rp_state_key p)"
    using build_audit_record_scene [OF au] chk
    by (cases audit) (auto simp: check_reply_commit_proposal_def)
  from committed_root_core [OF ok cfg a this] have core: "candidate_core cfg ?c" .
  have pos: "0 \<le> cfg_conversation_max_sessions cfg" using cfg by (simp add: valid_config_def)
  have "root_revision ?c = root_revision root + 1" by (simp add: committed_root_def Let_def)
  moreover have "root_revision cand = root_revision ?c"
    using en by (auto simp: enforce_session_capacity_def res_simps)
  ultimately show ?thesis using enforce_session_ok [OF core en pos refl] by simp
qed

end
