(* ===== verification/Feedback_Transitions.thy ===== *)
theory Feedback_Transitions
  imports Transitions
begin

text \<open>
  Preparation and commit of feedback keep the root well formed. A commit is given a preparation by
  its caller; \<open>genuine_preparation\<close> says that the caller passes the one the stored token belongs to
  (the objects are immutable and the commit token is random), which is the case for a preparation
  that \<open>prepare_feedback\<close> returned.
\<close>

definition genuine_preparation :: "coordinator_state_root \<Rightarrow> prepared_feedback \<Rightarrow> bool" where
  "genuine_preparation root p =
     (case fm_get (prepared_feedback_tokens root) (pf_state_key p, pf_feedback_id p) of
        None \<Rightarrow> True
      | Some t \<Rightarrow> pf_commit_token (tk_preparation t) = pf_commit_token p \<longrightarrow> tk_preparation t = p)"

section \<open>Preparation\<close>

lemma resolve_feedback_record_Inr:
  "resolve_feedback_record root k f = Inr c \<Longrightarrow>
     (\<exists>q. fm_get (response_index root) (fb_response_id f) = Some (k, q)
        \<and> fm_get (issued_records root) (k, q) = Some (Complete c)) \<and> cr_request_id c = fb_request_id f"
  by (auto simp: resolve_feedback_record_def lookup_found_iff split: issued_response_lookup.splits if_splits)

lemma prepare_cases:
  assumes "prepare_feedback_candidate sha cfg root k f c token e1 e2 = Inr (Some cand, prep)"
  obtains revision transitions prepared where "fm_get (state_revisions root) k = Some revision"
    and "prepare_effect_transitions c f = Inr transitions"
    and "fm_len (prepared_feedback_tokens root) < cfg_issued_response_capacity cfg"
    and "fm_get (feedback_receipts root) (k, fb_feedback_id f) = None"
    and "prepared = \<lparr>pf_state_key = k, pf_feedback_id = fb_feedback_id f,
           pf_feedback_hash = feedback_hash sha f, pf_request_id = fb_request_id f,
           pf_response_id = fb_response_id f, pf_commit_token = token,
           pf_revision_epoch = sr_revision_epoch revision,
           pf_expected_state_revision = sr_revision revision,
           pf_expected_issued_record_revision = cr_record_revision c, pf_transitions = transitions,
           pf_expires_at_monotonic_ns = e1 + feedback_token_ttl_ns\<rparr>"
    and "prep = PreparedFeedback prepared"
    and "cand = root\<lparr>root_revision := root_revision root + 1,
           prepared_feedback_tokens := with_updates (prepared_feedback_tokens root)
             [((k, fb_feedback_id f), \<lparr>tk_preparation = prepared, tk_created_at_monotonic_ns = e2\<rparr>)]\<rparr>"
  using assms
  by (fastforce simp: prepare_feedback_candidate_def Let_def res_simps split: option.splits if_splits)

lemma prepare_feedback_ok:
  assumes ok: "root_ok cfg root"
    and rec: "resolve_feedback_record root k f = Inr c"
    and pr: "prepare_feedback_candidate sha cfg root k f c token e1 e2 = Inr (Some cand, prep)"
  shows "candidate_ok cfg cand \<and> root_revision cand = root_revision root + 1"
proof (rule prepare_cases [OF pr])
  fix revision transitions prepared
  assume rev: "fm_get (state_revisions root) k = Some revision"
    and ts: "prepare_effect_transitions c f = Inr transitions"
    and space: "fm_len (prepared_feedback_tokens root) < cfg_issued_response_capacity cfg"
    and p: "prepared = \<lparr>pf_state_key = k, pf_feedback_id = fb_feedback_id f,
           pf_feedback_hash = feedback_hash sha f, pf_request_id = fb_request_id f,
           pf_response_id = fb_response_id f, pf_commit_token = token,
           pf_revision_epoch = sr_revision_epoch revision,
           pf_expected_state_revision = sr_revision revision,
           pf_expected_issued_record_revision = cr_record_revision c, pf_transitions = transitions,
           pf_expires_at_monotonic_ns = e1 + feedback_token_ttl_ns\<rparr>"
    and cd: "cand = root\<lparr>root_revision := root_revision root + 1,
           prepared_feedback_tokens := with_updates (prepared_feedback_tokens root)
             [((k, fb_feedback_id f), \<lparr>tk_preparation = prepared, tk_created_at_monotonic_ns = e2\<rparr>)]\<rparr>"
  let ?im = "fm_get (issued_records root)" and ?sm = "fm_get (state_revisions root)"
  from ok have core: "candidate_core cfg root" and cnt: "session_count root \<le> cfg_conversation_max_sessions cfg"
    by (simp_all add: root_ok_def candidate_ok_iff)
  from core have idx: "inv_issued ?im" "inv_response ?im (fm_get (response_index root))"
    by (simp_all add: candidate_core_def indexes_ok_def)
  from resolve_feedback_record_Inr [OF rec] obtain q where
    q: "fm_get (response_index root) (fb_response_id f) = Some (k, q)" "?im (k, q) = Some (Complete c)"
    and req: "cr_request_id c = fb_request_id f" by blast
  have "q = fb_request_id f" using inv_issued_complete [OF idx(1) q(2)] req by simp
  have rid: "resp_id (cr_response c) = fb_response_id f"
    using idx(2) q unfolding inv_response_def by (metis issued_response_record.inject(2) option.inject)
  have fit: "q' = fb_request_id f \<and> (\<forall>t\<in>set transitions. transition_ok (cr_effects c') t)"
    if "?im (k, q') = Some (Complete c')" "resp_id (cr_response c') = fb_response_id f" for q' c'
  proof -
    from inv_response_unique [OF idx(2) that(1) q(2)] that(2) rid have "q' = q" by simp
    with that(1) q(2) \<open>q = fb_request_id f\<close> prepare_effect_transitions_ok [OF ts] show ?thesis by simp
  qed
  then have new: "token_ok ?im ?sm k (fb_feedback_id f) prepared"
    unfolding token_ok_def p by (simp add: rev)
  have old: "inv_tokens ?im ?sm (fm_get (prepared_feedback_tokens root))"
    using core by (simp add: candidate_core_def)
  have "inv_tokens ?im ?sm (fm_get (prepared_feedback_tokens cand))"
    unfolding inv_tokens_def
  proof (intro allI impI)
    fix k' f' t
    assume t: "fm_get (prepared_feedback_tokens cand) (k', f') = Some t"
    show "token_ok ?im ?sm k' f' (tk_preparation t)"
    proof (cases "(k', f') = (k, fb_feedback_id f)")
      case True
      with t new show ?thesis by (auto simp: cd)
    next
      case False
      have upd: "fm_get (prepared_feedback_tokens cand) = (fm_get (prepared_feedback_tokens root))
          ((k, fb_feedback_id f) \<mapsto> \<lparr>tk_preparation = prepared, tk_created_at_monotonic_ns = e2\<rparr>)"
        by (simp add: cd)
      from t have "fm_get (prepared_feedback_tokens root) (k', f') = Some t"
        unfolding upd fun_upd_other [OF False] .
      with old show ?thesis unfolding inv_tokens_def by blast
    qed
  qed
  moreover have "pinned_state_keys cand \<subseteq> insert k (pinned_state_keys root)"
    by (auto simp: cd pinned_dom)
  moreover have "k \<in> dom ?sm" using rev by blast
  moreover have "session_count cand = session_count root" by (rule session_count_cong) (simp_all add: cd)
  moreover have "fm_len (prepared_feedback_tokens cand) \<le> cfg_issued_response_capacity cfg"
    using space fm_len_put_le [of "prepared_feedback_tokens root"] by (simp add: cd) (meson add1_zle_eq order_trans)
  ultimately show ?thesis
    using core cnt by (auto simp: candidate_ok_iff candidate_core_def indexes_ok_def cd)
qed

section \<open>Commit\<close>

lemma feedback_commit_inputs_Inr:
  assumes "feedback_commit_inputs root p now = Inr (c, revision)"
  obtains stored q where
      "fm_get (prepared_feedback_tokens root) (pf_state_key p, pf_feedback_id p) = Some stored"
    and "pf_commit_token (tk_preparation stored) = pf_commit_token p"
    and "now < pf_expires_at_monotonic_ns p"
    and "fm_get (response_index root) (pf_response_id p) = Some (pf_state_key p, q)"
    and "fm_get (issued_records root) (pf_state_key p, q) = Some (Complete c)"
    and "fm_get (state_revisions root) (pf_state_key p) = Some revision"
    and "sr_revision_epoch revision = pf_revision_epoch p"
    and "sr_revision revision = pf_expected_state_revision p"
    and "cr_record_revision c = pf_expected_issued_record_revision p"
proof -
  from assms obtain stored where s: "fm_get (prepared_feedback_tokens root) (pf_state_key p, pf_feedback_id p) = Some stored"
    by (auto simp: feedback_commit_inputs_def split: option.splits)
  with assms have "lookup_issued root (pf_state_key p) (pf_response_id p) = IssuedFound c"
    and rest: "fm_get (state_revisions root) (pf_state_key p) = Some revision"
    "pf_commit_token (tk_preparation stored) = pf_commit_token p" "now < pf_expires_at_monotonic_ns p"
    "sr_revision_epoch revision = pf_revision_epoch p"
    "sr_revision revision = pf_expected_state_revision p"
    "cr_record_revision c = pf_expected_issued_record_revision p"
    by (auto simp: feedback_commit_inputs_def split: if_splits issued_response_lookup.splits option.splits)
  then obtain q where "fm_get (response_index root) (pf_response_id p) = Some (pf_state_key p, q)"
    "fm_get (issued_records root) (pf_state_key p, q) = Some (Complete c)"
    unfolding lookup_found_iff by blast
  with s rest show thesis by (intro that [of stored q]) simp_all
qed

lemma ledger_updates_mem:
  "(key, row) \<in> set (ledger_updates_of root c ts received expires es) \<Longrightarrow>
     key = (cr_state_key c, resp_id (cr_response c), al_action_id row)
     \<and> al_state_key row = cr_state_key c \<and> al_response_id row = resp_id (cr_response c)
     \<and> send_action (al_action_type row)
     \<and> al_status_revision row = (case fm_get (action_ledger_records root) key of
          Some previous \<Rightarrow> al_status_revision previous + 1 | None \<Rightarrow> 1)"
  by (induction es) (auto simp: Let_def split: option.splits if_splits)

text \<open>A complete record is replaced by one with the same response and the same effect keys.\<close>

lemma update_pending:
  assumes "inv_pending im pm" "im (k, q) = Some (Complete c)"
  shows "inv_pending (im((k, q) \<mapsto> Complete c')) pm"
  unfolding inv_pending_def
proof (intro allI)
  fix k' ik
  have "pm k' = Some ik \<longleftrightarrow> (\<exists>a y. ik = (k', a) \<and> im (k', a) = Some (Pending y))"
    using assms(1) unfolding inv_pending_def by blast
  moreover have "(im((k, q) \<mapsto> Complete c')) (k', a) = Some (Pending y) \<longleftrightarrow> im (k', a) = Some (Pending y)" for a y
    using assms(2) by auto
  ultimately show "pm k' = Some ik \<longleftrightarrow>
      (\<exists>a y. ik = (k', a) \<and> (im((k, q) \<mapsto> Complete c')) (k', a) = Some (Pending y))" by simp
qed

lemma update_response:
  assumes "inv_response im rm" "im (k, q) = Some (Complete c)" "cr_response c' = cr_response c"
  shows "inv_response (im((k, q) \<mapsto> Complete c')) rm"
  unfolding inv_response_def
proof (intro allI)
  fix rid ik
  have "rm rid = Some ik \<longleftrightarrow> (\<exists>d. im ik = Some (Complete d) \<and> resp_id (cr_response d) = rid)"
    using assms(1) unfolding inv_response_def by blast
  then show "rm rid = Some ik \<longleftrightarrow>
      (\<exists>d. (im((k, q) \<mapsto> Complete c')) ik = Some (Complete d) \<and> resp_id (cr_response d) = rid)"
    using assms(2,3) by (cases "ik = (k, q)") auto
qed

lemma update_action:
  assumes "inv_action im am" "im (k, q) = Some (Complete c)" "cr_response c' = cr_response c"
    and "\<And>ek e. find_effect ek (cr_effects c) = Some e \<Longrightarrow>
      \<exists>e'. find_effect ek (cr_effects c') = Some e' \<and> ie_action_id e' = ie_action_id e"
  shows "inv_action (im((k, q) \<mapsto> Complete c')) am"
  unfolding inv_action_def
proof (intro allI impI)
  fix aid k' rid ek
  assume "am aid = Some (k', rid, ek)"
  with assms(1) obtain q' d e where d: "im (k', q') = Some (Complete d)" "resp_id (cr_response d) = rid"
    "find_effect ek (cr_effects d) = Some e" "ie_action_id e = Some aid" unfolding inv_action_def by blast
  show "\<exists>p d e. (im((k, q) \<mapsto> Complete c')) (k', p) = Some (Complete d) \<and> resp_id (cr_response d) = rid
      \<and> find_effect ek (cr_effects d) = Some e \<and> ie_action_id e = Some aid"
  proof (cases "(k', q') = (k, q)")
    case True
    with d assms(2) have "d = c" by simp
    with d(3,4) assms(4) obtain e' where "find_effect ek (cr_effects c') = Some e'" "ie_action_id e' = Some aid"
      by metis
    with True d(2) \<open>d = c\<close> assms(3) show ?thesis
      by (intro exI [of _ q] exI [of _ c'] exI [of _ e']) auto
  next
    case False
    with d show ?thesis by (intro exI [of _ q'] exI [of _ d] exI [of _ e]) auto
  qed
qed

lemma commit_feedback_cases:
  assumes "commit_feedback_candidate sha cfg root p now epoch = Inr (cand, result)"
  obtains c revision where "feedback_commit_inputs root p now = Inr (c, revision)"
    and "int (length (cr_receipts c)) < record_receipt_limit"
    and "fm_len (feedback_receipts root) < cfg_feedback_receipt_capacity cfg"
    and "cand = feedback_root sha cfg root p c revision now epoch"
    and "result = \<lparr>fcr_receipt_id = fr_receipt_id (commit_receipt sha cfg p (cr_record_revision c + 1) now epoch),
          fcr_stored = fr_stored (commit_receipt sha cfg p (cr_record_revision c + 1) now epoch),
          fcr_replayed = False\<rparr>"
  using assms
  by (auto simp: commit_feedback_candidate_def Let_def res_simps split: if_splits)

lemma feedback_ledger_ok:
  assumes "inv_ledger (fm_get (action_ledger_records root))"
  shows "inv_ledger (fm_get (action_ledger_records root) ++ pd_get (derive_ledger_updates root c ts received expires))"
  unfolding inv_ledger_def
proof (intro allI impI)
  fix k rid a row
  assume "(fm_get (action_ledger_records root) ++ pd_get (derive_ledger_updates root c ts received expires))
      (k, rid, a) = Some row"
  then consider (old) "fm_get (action_ledger_records root) (k, rid, a) = Some row"
    | (new) "((k, rid, a), row) \<in> set (ledger_updates_of root c ts received expires (cr_effects c))"
    by (auto simp: map_add_Some_iff derive_ledger_updates_def dest!: map_of_SomeD)
  then show "al_state_key row = k \<and> al_response_id row = rid \<and> al_action_id row = a
      \<and> 1 \<le> al_status_revision row \<and> send_action (al_action_type row)"
  proof cases
    case old
    with assms show ?thesis unfolding inv_ledger_def by blast
  next
    case new
    from ledger_updates_mem [OF new] have "al_state_key row = k \<and> al_response_id row = rid \<and> al_action_id row = a
        \<and> send_action (al_action_type row)"
      and rev: "al_status_revision row = (case fm_get (action_ledger_records root) (k, rid, a) of
          Some previous \<Rightarrow> al_status_revision previous + 1 | None \<Rightarrow> 1)" by auto
    moreover have "1 \<le> al_status_revision x" if "fm_get (action_ledger_records root) (k, rid, a) = Some x" for x
      using assms that unfolding inv_ledger_def by blast
    then have "1 \<le> al_status_revision row"
      unfolding rev by (cases "fm_get (action_ledger_records root) (k, rid, a)") auto
    ultimately show ?thesis by blast
  qed
qed

lemma union_sub:
  "L \<subseteq> insert k L' \<Longrightarrow> T \<subseteq> T' \<Longrightarrow>
     A \<union> B \<union> insert k I \<union> insert k R \<union> T \<union> L \<union> U \<subseteq> insert k (A \<union> B \<union> I \<union> R \<union> T' \<union> L' \<union> U)"
  by blast

lemma commit_feedback_ok:
  assumes ok: "root_ok cfg root" and gen: "genuine_preparation root p"
    and cf: "commit_feedback_candidate sha cfg root p now epoch = Inr (cand, result)"
  shows "candidate_ok cfg cand \<and> root_revision cand = root_revision root + 1"
proof (rule commit_feedback_cases [OF cf], rule feedback_commit_inputs_Inr, assumption)
  fix c revision stored q
  let ?k = "pf_state_key p" and ?f = "pf_feedback_id p"
  let ?im = "fm_get (issued_records root)" and ?sm = "fm_get (state_revisions root)"
  assume lim: "int (length (cr_receipts c)) < record_receipt_limit"
    and cap: "fm_len (feedback_receipts root) < cfg_feedback_receipt_capacity cfg"
    and cd: "cand = feedback_root sha cfg root p c revision now epoch"
    and st: "fm_get (prepared_feedback_tokens root) (?k, ?f) = Some stored"
    "pf_commit_token (tk_preparation stored) = pf_commit_token p"
    and rid: "fm_get (response_index root) (pf_response_id p) = Some (?k, q)"
    and im: "?im (?k, q) = Some (Complete c)" and rev: "?sm ?k = Some revision"
    and cur: "sr_revision revision = pf_expected_state_revision p"
  define c' where "c' = updated_record c p (commit_receipt sha cfg p (cr_record_revision c + 1) now epoch)"
  from ok have core: "candidate_core cfg root" and cnt: "session_count root \<le> cfg_conversation_max_sessions cfg"
    by (simp_all add: root_ok_def candidate_ok_iff)
  then have idx: "inv_issued ?im" "inv_pending ?im (fm_get (pending_request_by_state root))"
    "inv_response ?im (fm_get (response_index root))" "inv_action ?im (fm_get (action_index root))"
    and toks: "inv_tokens ?im ?sm (fm_get (prepared_feedback_tokens root))"
    by (simp_all add: candidate_core_def indexes_ok_def)
  have resp: "resp_id (cr_response c) = pf_response_id p"
    using idx(3) rid im unfolding inv_response_def by (metis issued_response_record.inject(2) option.inject)
  have "tk_preparation stored = p" using gen st by (simp add: genuine_preparation_def)
  with toks st(1) have "token_ok ?im ?sm ?k ?f p" unfolding inv_tokens_def by metis
  with rev cur im resp have q: "q = pf_request_id p"
    and fit: "\<forall>t\<in>set (pf_transitions p). transition_ok (cr_effects c) t"
    unfolding token_ok_def by auto
  note c = inv_issued_complete [OF idx(1) im]
  have rc: "record_ok (Complete c')" and c': "cr_state_key c' = ?k" "cr_request_id c' = q" "cr_response c' = cr_response c"
    and ef: "cr_effects c' = apply_effect_transitions (cr_effects c) (pf_transitions p)"
    using c lim apply_effect_transitions_ok [OF _ fit] by (simp_all add: c'_def updated_record_def)
  have fe: "\<exists>e'. find_effect ek (cr_effects c') = Some e' \<and> ie_action_id e' = ie_action_id e"
    if "find_effect ek (cr_effects c) = Some e" for ek e
    using that by (simp add: ef find_effect_apply)
  have im': "fm_get (issued_records cand) = ?im((?k, q) \<mapsto> Complete c')"
    and sm': "fm_get (state_revisions cand) = ?sm(?k \<mapsto> next_state_revision cfg revision now)"
    by (simp_all add: cd feedback_root_def Let_def c'_def q)
  have "indexes_ok cand"
    unfolding indexes_ok_def im'
    using complete_issued [OF idx(1) rc c'(1,2)] update_pending [OF idx(2) im, of c']
      update_response [OF idx(3) im c'(3)] update_action [OF idx(4) im c'(3) fe]
    by (simp add: cd feedback_root_def Let_def)
  moreover have "inv_tokens (fm_get (issued_records cand)) (fm_get (state_revisions cand))
      (fm_get (prepared_feedback_tokens cand))"
  proof (rule inv_tokens_step [OF toks])
    show "token_step ?im ?sm (fm_get (issued_records cand)) (fm_get (state_revisions cand)) k" for k
      using rev by (auto simp: token_step_def im' sm' next_state_revision_def)
  qed (auto simp: cd feedback_root_def Let_def restrict_map_def split: if_splits)
  moreover have "inv_ledger (fm_get (action_ledger_records cand))"
    using core by (simp add: cd feedback_root_def Let_def fm_get_updates_dict feedback_ledger_ok candidate_core_def)
  moreover have "inv_receipts (fm_get (feedback_receipts cand))"
    using core by (auto simp: cd feedback_root_def Let_def candidate_core_def inv_receipts_def commit_receipt_def)
  moreover have "pinned_state_keys cand \<subseteq> insert ?k (pinned_state_keys root)"
  proof -
    have led_sub: "fst ` dom (fm_get (action_ledger_records cand))
        \<subseteq> insert ?k (fst ` dom (fm_get (action_ledger_records root)))"
      by (auto simp: cd feedback_root_def Let_def fm_get_updates_dict derive_ledger_updates_def
          updated_record_def c dest!: map_of_SomeD ledger_updates_mem)
    have parts: "conversation_turns cand = conversation_turns root"
      "clarification_records cand = clarification_records root" "audit_records cand = audit_records root"
      "dom (fm_get (issued_records cand)) = insert (?k, q) (dom (fm_get (issued_records root)))"
      "dom (fm_get (feedback_receipts cand)) = insert (?k, ?f) (dom (fm_get (feedback_receipts root)))"
      by (auto simp: cd feedback_root_def Let_def q)
    have toks_sub: "fst ` dom (fm_get (prepared_feedback_tokens cand))
        \<subseteq> fst ` dom (fm_get (prepared_feedback_tokens root))"
      by (rule image_mono) (auto simp: cd feedback_root_def Let_def)
    show ?thesis
      unfolding pinned_dom parts image_insert fst_conv by (rule union_sub [OF led_sub toks_sub])
  qed
  moreover have "fm_len (issued_records cand) = fm_len (issued_records root)"
    using im by (simp add: cd feedback_root_def Let_def q fm_len_put_present)
  moreover have "fm_len (feedback_receipts cand) \<le> cfg_feedback_receipt_capacity cfg"
    using cap fm_len_put_le [of "feedback_receipts root" "(?k, ?f)"
        "commit_receipt sha cfg p (cr_record_revision c + 1) now epoch"]
    by (simp add: cd feedback_root_def Let_def)
  moreover have "fm_len (prepared_feedback_tokens cand) \<le> fm_len (prepared_feedback_tokens root)"
    by (simp add: cd feedback_root_def Let_def fm_len_drop_le)
  moreover have "session_count cand = session_count root"
    by (rule session_count_cong) (simp_all add: cd feedback_root_def Let_def)
  moreover have "root_revision cand = root_revision root + 1" "audit_records cand = audit_records root"
    "conversation_turns cand = conversation_turns root"
    by (simp_all add: cd feedback_root_def Let_def)
  ultimately show ?thesis
    using core cnt by (auto simp: candidate_ok_iff candidate_core_def sm')
qed

end
