(* ===== verification/Transition_System.thy ===== *)
theory Transition_System
  imports Main
begin

text \<open>
  The interface of a stateful component to a proof about its histories: initial states, atomic
  operations as a step relation, an invariant and a rank that no step lowers. The laws are proved
  once per component, on its own operations; the consequences for every history are proved here.
\<close>

locale invariant_system =
  fixes start :: "'s \<Rightarrow> bool"
    and step :: "'s \<Rightarrow> 's \<Rightarrow> bool"
    and inv :: "'s \<Rightarrow> bool"
  assumes start_inv: "start s \<Longrightarrow> inv s"
    and step_inv: "inv s \<Longrightarrow> step s s' \<Longrightarrow> inv s'"
begin

lemma steps_inv: "rtranclp step s s' \<Longrightarrow> inv s \<Longrightarrow> inv s'"
  by (induction rule: rtranclp_induct) (blast intro: step_inv)+

lemma reachable_inv: "start s \<Longrightarrow> rtranclp step s s' \<Longrightarrow> inv s'"
  by (blast intro: steps_inv start_inv)

end

locale ranked_system = invariant_system +
  fixes rank :: "'s \<Rightarrow> int"
  assumes step_rank: "inv s \<Longrightarrow> step s s' \<Longrightarrow> rank s \<le> rank s'"
begin

lemma steps_rank: "rtranclp step s s' \<Longrightarrow> inv s \<Longrightarrow> rank s \<le> rank s'"
proof (induction rule: rtranclp_induct)
  case (step y z)
  then have "inv y" by (blast intro: steps_inv)
  from step_rank [OF this step.hyps(2)] step.IH [OF step.prems] show ?case by linarith
qed simp

end

end
