(* ===== verification/Coordinator_Correct.thy ===== *)
theory Coordinator_Correct
  imports Feedback_Transitions Transition_System
begin

text \<open>
  The coordinator as a transition system: its steps are the calls of its methods, its invariant is
  \<open>coordinator_ok\<close>, its rank the root revision. \<open>publish_cases\<close> says what a publication does, and the
  operations follow from the candidates they publish.
\<close>

section \<open>Publication\<close>

definition journal_ok :: "coordinator \<Rightarrow> bool" where
  "journal_ok co = (case co_last_journal co of
      None \<Rightarrow> True
    | Some j \<Rightarrow> root_revision (jr_candidate_root j) = root_revision (jr_prior_root j) + 1
        \<and> (case jr_outcome j of
             Committed \<Rightarrow> co_root co = jr_candidate_root j
           | Rolled_back \<Rightarrow> co_root co = jr_prior_root j
           | Staging \<Rightarrow> False))"

definition coordinator_ok :: "coordinator \<Rightarrow> bool" where
  "coordinator_ok co =
     (valid_config (co_config co) \<and> root_ok (co_config co) (co_root co) \<and> journal_ok co)"

lemma publish_cases:
  assumes ok: "coordinator_ok co" and cand: "candidate_ok (co_config co) cand"
    and rev: "root_revision cand = root_revision (co_root co) + 1"
    and pub: "publish io i op k ks cand co = (co', r)"
  shows "coordinator_ok co' \<and> co_config co' = co_config co
    \<and> ((r = Inr () \<and> co_root co' = published_root cand)
       \<or> (\<exists>e. r = Inl e \<and> co_root co' = co_root co))"
proof -
  let ?cap = "cfg_state_revision_capacity (co_config co)"
  have idx: "indexes_ok cand" using cand by (simp add: candidate_ok_def)
  show ?thesis
  proof (cases "fm_len (state_revisions (published_root cand)) \<le> ?cap")
    case True
    from published_root_ok [OF cand this] have "root_ok (co_config co) (published_root cand)" .
    with ok pub rev True show ?thesis
      by (auto simp: publish_def prepare_root_eq [OF idx] Let_def coordinator_ok_def journal_ok_def
          build_journal_def split: option.splits if_splits)
  next
    case False
    with ok pub show ?thesis by (auto simp: publish_def prepare_root_eq [OF idx])
  qed
qed

lemma cleanup_locked_cases:
  assumes ok: "coordinator_ok co" and cl: "cleanup_locked io i co = (co', r)"
  shows "coordinator_ok co' \<and> co_config co' = co_config co
    \<and> (co_root co' = co_root co
       \<or> (\<exists>cand n. cleanup_candidate (co_root co) (io_cleanup_monotonic_ns io) (io_cleanup_epoch_ms io)
              (co_config co) = (Some cand, n) \<and> r = Inr n \<and> co_root co' = published_root cand))"
proof (cases "cleanup_candidate (co_root co) (io_cleanup_monotonic_ns io) (io_cleanup_epoch_ms io) (co_config co)")
  case (Pair cand n)
  show ?thesis
  proof (cases cand)
    case None
    with Pair cl ok show ?thesis by (simp add: cleanup_locked_def)
  next
    case (Some c)
    obtain co1 r1 where p: "publish io i Cleanup None [] c co = (co1, r1)" by fastforce
    from ok Pair Some have "candidate_ok (co_config co) c \<and> root_revision c = root_revision (co_root co) + 1"
      by (intro cleanup_ok) (auto simp: coordinator_ok_def)
    with publish_cases [OF ok _ _ p] have "coordinator_ok co1 \<and> co_config co1 = co_config co
      \<and> ((r1 = Inr () \<and> co_root co1 = published_root c) \<or> (\<exists>e. r1 = Inl e \<and> co_root co1 = co_root co))"
      by blast
    with cl Pair Some p show ?thesis
      by (auto simp: cleanup_locked_def)
  qed
qed

lemma published_revision:
  "root_revision cand = root_revision (co_root co) + 1 \<Longrightarrow> co_root co' = published_root cand \<Longrightarrow>
     root_revision (co_root co') = root_revision (co_root co) + 1"
  by simp

section \<open>Operations keep the invariant\<close>

definition advances :: "coordinator \<Rightarrow> coordinator \<Rightarrow> bool" where
  "advances co co' = (coordinator_ok co' \<and> co_config co' = co_config co
     \<and> root_revision (co_root co) \<le> root_revision (co_root co'))"

lemma advances_refl: "coordinator_ok co \<Longrightarrow> advances co co"
  by (simp add: advances_def)

lemma advances_trans: "advances a b \<Longrightarrow> advances b c \<Longrightarrow> advances a c"
  by (auto simp: advances_def)

lemma advances_ok: "advances a b \<Longrightarrow> coordinator_ok b"
  by (simp add: advances_def)

lemma publish_advances:
  assumes "coordinator_ok co" "candidate_ok (co_config co) cand"
    "root_revision cand = root_revision (co_root co) + 1" "publish io i op k ks cand co = (co', r)"
  shows "advances co co'"
  using publish_cases [OF assms] assms(3) by (auto simp: advances_def)

lemma cleanup_advances:
  assumes "coordinator_ok co" "cleanup_locked io i co = (co', r)"
  shows "advances co co'"
proof -
  have "root_revision (co_root co) \<le> root_revision (co_root co')"
    if "cleanup_candidate (co_root co) (io_cleanup_monotonic_ns io) (io_cleanup_epoch_ms io)
              (co_config co) = (Some cand, n)" "co_root co' = published_root cand" for cand n
    using cleanup_ok [OF _ _ that(1)] assms(1) that(2) by (simp add: coordinator_ok_def)
  with cleanup_locked_cases [OF assms] show ?thesis by (auto simp: advances_def)
qed

lemma abort_advances:
  assumes ok: "coordinator_ok co" and op: "abort_reply io k q token co = (co', r)"
  shows "advances co co'"
proof (cases "abort_reply_candidate (co_root co) k q token")
  case (Inl e)
  with op ok show ?thesis by (simp add: abort_reply_def advances_refl)
next
  case (Inr cand)
  with ok have "candidate_ok (co_config co) cand \<and> root_revision cand = root_revision (co_root co) + 1"
    by (intro abort_ok) (auto simp: coordinator_ok_def)
  with op Inr ok show ?thesis by (auto simp: abort_reply_def intro: publish_advances)
qed

lemma commit_reply_advances:
  assumes ok: "coordinator_ok co" and chk: "check_reply_commit_proposal p = Inr ()"
    and op: "commit_reply sha io p co = (co', r)"
  shows "advances co co'"
proof (cases "commit_reply_candidate sha (co_config co) (co_root co) p (io_response_hex io)
             (io_action_hex io) (io_monotonic_ns io) (io_epoch_ms io)")
  case (Inl e)
  with op ok show ?thesis by (simp add: commit_reply_def advances_refl)
next
  case (Inr x)
  obtain cand response where x: "x = (cand, response)" by (cases x)
  obtain co1 r1 where p: "publish io 0 Reply_commit (Some (rp_state_key p)) [rp_state_key p] cand co = (co1, r1)"
    by fastforce
  from Inr x ok chk have "candidate_ok (co_config co) cand \<and> root_revision cand = root_revision (co_root co) + 1"
    by (intro commit_reply_ok) (auto simp: coordinator_ok_def)
  with publish_advances [OF ok _ _ p] have "advances co co1" by blast
  moreover have "co' = co1" using op Inr x p by (cases r1) (simp_all add: commit_reply_def)
  ultimately show ?thesis by simp
qed

lemma prepare_feedback_advances:
  assumes ok: "coordinator_ok co" and op: "prepare_feedback sha io k f co = (co', r)"
  shows "advances co co'"
proof -
  obtain co1 r1 where cl: "cleanup_locked io 0 co = (co1, r1)" by fastforce
  from cleanup_advances [OF ok cl] have adv: "advances co co1" .
  then have ok1: "coordinator_ok co1" by (rule advances_ok)
  show ?thesis
  proof (cases r1)
    case (Inl e)
    with op cl adv show ?thesis by (simp add: prepare_feedback_def)
  next
    case (Inr n)
    let ?cand = "res_bind (resolve_feedback_record (co_root co1) k f) (\<lambda>record.
            prepare_feedback_candidate sha (co_config co1) (co_root co1) k f record
              (io_token io) (io_monotonic_ns io) (io_second_monotonic_ns io))"
    have op1: "(case ?cand of Inl e \<Rightarrow> (co1, Inl e) | Inr (None, prepared) \<Rightarrow> (co1, Inr prepared)
        | Inr (Some candidate, prepared) \<Rightarrow>
            co_bind (publish io 1 Feedback_prepare (Some k) [k] candidate co1) (\<lambda>co _. (co, Inr prepared)))
        = (co', r)"
      using op cl Inr by (simp add: prepare_feedback_def)
    show ?thesis
    proof (cases ?cand)
      case (Inl e)
      with op1 adv show ?thesis by simp
    next
      case (Inr x)
      obtain cand prep where x: "x = (cand, prep)" by (cases x)
      show ?thesis
      proof (cases cand)
        case None
        with op1 Inr x adv show ?thesis by simp
      next
        case (Some c)
        obtain co2 r2 where p: "publish io 1 Feedback_prepare (Some k) [k] c co1 = (co2, r2)" by fastforce
        from Inr x Some obtain issued where "resolve_feedback_record (co_root co1) k f = Inr issued"
          "prepare_feedback_candidate sha (co_config co1) (co_root co1) k f issued
              (io_token io) (io_monotonic_ns io) (io_second_monotonic_ns io) = Inr (Some c, prep)"
          by (auto simp: res_simps)
        with ok1 have "candidate_ok (co_config co1) c \<and> root_revision c = root_revision (co_root co1) + 1"
          by (intro prepare_feedback_ok) (auto simp: coordinator_ok_def)
        with publish_advances [OF ok1 _ _ p] have "advances co1 co2" by blast
        moreover have "co' = co2" using op1 Inr x Some p by (cases r2) simp_all
        ultimately show ?thesis using adv advances_trans by blast
      qed
    qed
  qed
qed

lemma commit_feedback_advances:
  assumes ok: "coordinator_ok co" and gen: "genuine_preparation (co_root co) p"
    and op: "commit_feedback sha io p co = (co', r)"
  shows "advances co co'"
proof -
  have via: "advances co co1"
    if "publish io 0 Feedback_commit (Some (pf_state_key p)) [pf_state_key p] cand co = (co1, r1)"
      "candidate_ok (co_config co) cand \<and> root_revision cand = root_revision (co_root co) + 1" for cand co1 r1
    using publish_advances [OF ok _ _ that(1)] that(2) by blast
  show ?thesis
  proof (cases "commit_feedback_candidate sha (co_config co) (co_root co) p (io_monotonic_ns io) (io_epoch_ms io)")
    case (Inl e)
    let ?drop = "drop_prepared_token_candidate (co_root co) p"
    obtain co1 r1 where p: "publish io 0 Feedback_commit (Some (pf_state_key p)) [pf_state_key p] ?drop co = (co1, r1)"
      by fastforce
    have "candidate_ok (co_config co) ?drop \<and> root_revision ?drop = root_revision (co_root co) + 1"
      using ok drop_token_ok [of "co_config co" "co_root co" ?drop p] by (simp add: coordinator_ok_def)
    with via [OF p] have "advances co co1" by blast
    moreover have "co' = co1 \<or> co' = co"
      using op Inl p by (cases r1) (auto simp: commit_feedback_def split: if_splits)
    ultimately show ?thesis using ok advances_refl by blast
  next
    case (Inr x)
    obtain cand result where x: "x = (cand, result)" by (cases x)
    obtain co1 r1 where p: "publish io 0 Feedback_commit (Some (pf_state_key p)) [pf_state_key p] cand co = (co1, r1)"
      by fastforce
    from Inr x ok gen have "candidate_ok (co_config co) cand \<and> root_revision cand = root_revision (co_root co) + 1"
      by (intro commit_feedback_ok) (auto simp: coordinator_ok_def)
    with via [OF p] have "advances co co1" by blast
    moreover have "co' = co1" using op Inr x p by (cases r1) (simp_all add: commit_feedback_def)
    ultimately show ?thesis by simp
  qed
qed

text \<open>The last part of \<open>reserve_reply\<close>, after the cleanup and the eviction.\<close>

definition reserve_tail ::
  "readings \<Rightarrow> conversation_state_key \<Rightarrow> pystr \<Rightarrow> pystr \<Rightarrow> bool \<Rightarrow> coordinator
   \<Rightarrow> coordinator \<times> reservation_result result" where
  "reserve_tail io k q h e co =
     (case reserve_reply_candidate (co_config co) (co_root co) k q h e
             (io_monotonic_ns io) (io_epoch_token io) (io_token io) (io_epoch_ms io) of
        Inl e \<Rightarrow> (co, Inl e)
      | Inr (None, reservation) \<Rightarrow> (co, Inr reservation)
      | Inr (Some candidate, reservation) \<Rightarrow>
          co_bind (publish io 2 Reply_reserve (Some k) [k] candidate co) (\<lambda>co _. (co, Inr reservation)))"

lemma reserve_tail_advances:
  assumes ok: "coordinator_ok co"
    and space: "fm_len (issued_records (co_root co)) < cfg_issued_response_capacity (co_config co)"
    and op: "reserve_tail io k q h e co = (co', r)"
  shows "advances co co'"
proof (cases "reserve_reply_candidate (co_config co) (co_root co) k q h e
             (io_monotonic_ns io) (io_epoch_token io) (io_token io) (io_epoch_ms io)")
  case (Inl e)
  with op ok show ?thesis by (simp add: reserve_tail_def advances_refl)
next
  case (Inr x)
  obtain cand res where x: "x = (cand, res)" by (cases x)
  show ?thesis
  proof (cases cand)
    case None
    with op Inr x ok show ?thesis by (simp add: reserve_tail_def advances_refl)
  next
    case (Some c)
    obtain co1 r1 where p: "publish io 2 Reply_reserve (Some k) [k] c co = (co1, r1)" by fastforce
    from Inr x Some ok space
    have "candidate_ok (co_config co) c \<and> root_revision c = root_revision (co_root co) + 1"
      by (intro reserve_ok) (auto simp: coordinator_ok_def)
    with publish_advances [OF ok _ _ p] have "advances co co1" by blast
    moreover have "co' = co1" using op Inr x Some p by (cases r1) (simp_all add: reserve_tail_def)
    ultimately show ?thesis by simp
  qed
qed

lemma reserve_reply_cases:
  assumes ok: "coordinator_ok co" and op: "reserve_reply io k q h e co = (co', r)"
  obtains (cleanup_failed) err where "cleanup_locked io 0 co = (co', Inl err)" "r = Inl err"
  | (existing) co1 n where "cleanup_locked io 0 co = (co1, Inr n)" "co' = co1"
      "(\<exists>err. existing_reservation_result (co_root co1) k q h e = Inl err \<and> r = Inl err)
       \<or> (\<exists>res. existing_reservation_result (co_root co1) k q h e = Inr (Some res) \<and> r = Inr res)"
  | (no_space) co1 n err where "cleanup_locked io 0 co = (co1, Inr n)" "co' = co1"
      "existing_reservation_result (co_root co1) k q h e = Inr None" "r = Inl err"
  | (tail) co1 n co2 where "cleanup_locked io 0 co = (co1, Inr n)"
      "existing_reservation_result (co_root co1) k q h e = Inr None" "advances co1 co2"
      "fm_len (issued_records (co_root co2)) < cfg_issued_response_capacity (co_config co2)"
      "reserve_tail io k q h e co2 = (co', r)"
  | (eviction_failed) co1 n err where "cleanup_locked io 0 co = (co1, Inr n)" "advances co1 co'"
      "existing_reservation_result (co_root co1) k q h e = Inr None" "r = Inl err"
proof -
  obtain co1 r1 where cl: "cleanup_locked io 0 co = (co1, r1)" by fastforce
  have ok1: "coordinator_ok co1" using cleanup_advances [OF ok cl] by (rule advances_ok)
  show thesis
  proof (cases r1)
    case (Inl err)
    with cl op cleanup_failed show ?thesis by (simp add: reserve_reply_def)
  next
    case (Inr n)
    let ?ex = "existing_reservation_result (co_root co1) k q h e"
    let ?ev = "issued_capacity_eviction_candidate (co_root co1) (cfg_issued_response_capacity (co_config co1))"
    show ?thesis
    proof (cases "?ex = Inr None")
      case False
      with op cl Inr have "co' = co1 \<and> ((\<exists>err. ?ex = Inl err \<and> r = Inl err) \<or> (\<exists>res. ?ex = Inr (Some res) \<and> r = Inr res))"
        by (auto simp: reserve_reply_def split: sum.splits option.splits)
      with cl Inr existing show ?thesis by blast
    next
      case True
      show ?thesis
      proof (cases ?ev)
        case (Inl err)
        with op cl Inr True have "co' = co1" "r = Inl err" by (simp_all add: reserve_reply_def)
        with cl Inr True no_space show ?thesis by blast
      next
        case ev: (Inr eviction)
        show ?thesis
        proof (cases eviction)
          case None
          with ev have "fm_len (issued_records (co_root co1)) < cfg_issued_response_capacity (co_config co1)"
            by (auto simp: issued_capacity_eviction_candidate_def Let_def split: if_splits prod.splits)
          moreover have "reserve_tail io k q h e co1 = (co', r)"
            using op cl Inr True ev None by (simp add: reserve_reply_def reserve_tail_def)
          ultimately show ?thesis
            using tail cl Inr True advances_refl [OF ok1] by blast
        next
          case (Some c)
          obtain co2 r2 where p: "publish io 1 Cleanup None [] c co1 = (co2, r2)" by fastforce
          from ev Some ok1 have c: "candidate_ok (co_config co1) c
              \<and> fm_len (issued_records c) < cfg_issued_response_capacity (co_config co1)
              \<and> root_revision c = root_revision (co_root co1) + 1"
            by (intro eviction_ok) (auto simp: coordinator_ok_def)
          with publish_advances [OF ok1 _ _ p] have adv: "advances co1 co2" by blast
          show ?thesis
          proof (cases r2)
            case (Inl err)
            with op cl Inr True ev Some p have "co' = co2" "r = Inl err" by (simp_all add: reserve_reply_def)
            with cl Inr True adv eviction_failed show ?thesis by blast
          next
            case r2: (Inr u)
            with publish_cases [OF ok1 _ _ p] c have "co_root co2 = published_root c" "co_config co2 = co_config co1"
              by auto
            with c have "fm_len (issued_records (co_root co2)) < cfg_issued_response_capacity (co_config co2)"
              by simp
            moreover have "reserve_tail io k q h e co2 = (co', r)"
              using op cl Inr True ev Some p r2 by (simp add: reserve_reply_def reserve_tail_def)
            ultimately show ?thesis using tail cl Inr True adv by blast
          qed
        qed
      qed
    qed
  qed
qed

lemma reserve_reply_advances:
  assumes ok: "coordinator_ok co" and op: "reserve_reply io k q h e co = (co', r)"
  shows "advances co co'"
  using ok op
proof (cases rule: reserve_reply_cases)
  case (cleanup_failed err)
  then show ?thesis by (blast intro: cleanup_advances ok)
next
  case (existing co1 n)
  then show ?thesis by (blast intro: cleanup_advances ok)
next
  case (no_space co1 n err)
  then show ?thesis by (blast intro: cleanup_advances ok)
next
  case (tail co1 n co2)
  from cleanup_advances [OF ok tail(1)] tail(3) have "advances co co2" by (rule advances_trans)
  with reserve_tail_advances [OF advances_ok [OF this] tail(4,5)] show ?thesis by (blast intro: advances_trans)
next
  case (eviction_failed co1 n err)
  with cleanup_advances [OF ok eviction_failed(1)] show ?thesis by (blast intro: advances_trans)
qed

section \<open>Histories\<close>

text \<open>A history is any sequence of method calls by clients that build their proposals with the
  dataclass constructors and commit the preparations they were given.\<close>

inductive co_step :: "(pybytes \<Rightarrow> pystr) \<Rightarrow> coordinator \<Rightarrow> coordinator \<Rightarrow> bool" for sha where
  step_cleanup: "co_cleanup io co = (co', n) \<Longrightarrow> co_step sha co co'"
| step_reserve: "reserve_reply io k q h e co = (co', res) \<Longrightarrow> co_step sha co co'"
| step_abort: "abort_reply io k q token co = (co', ab) \<Longrightarrow> co_step sha co co'"
| step_commit: "check_reply_commit_proposal p = Inr () \<Longrightarrow> commit_reply sha io p co = (co', resp) \<Longrightarrow>
    co_step sha co co'"
| step_prepare: "prepare_feedback sha io k f co = (co', prep) \<Longrightarrow> co_step sha co co'"
| step_feedback: "genuine_preparation (co_root co) pf \<Longrightarrow> commit_feedback sha io pf co = (co', fres) \<Longrightarrow>
    co_step sha co co'"

inductive_cases co_step_cases: "co_step sha co co'"

definition co_start :: "coordinator \<Rightarrow> bool" where
  "co_start co = (\<exists>ic ms fc ttl mm ittl pttl. coordinator_init ic ms fc ttl mm ittl pttl = Inr co)"

lemma co_step_advances:
  assumes "co_step sha co co'" and ok: "coordinator_ok co"
  shows "advances co co'"
  using assms(1)
proof cases
  case (step_cleanup io n)
  then show ?thesis using cleanup_advances [OF ok] unfolding co_cleanup_def by blast
qed (blast intro: reserve_reply_advances abort_advances commit_reply_advances
       prepare_feedback_advances commit_feedback_advances ok)+

lemma empty_root_ok:
  assumes "valid_config cfg"
  shows "root_ok cfg empty_coordinator_root"
proof -
  have keys: "session_eviction_order fm_empty fm_empty = []"
    by (simp add: session_eviction_order_def session_keys_def fm_keys_def fm_items_def fm_empty_def pd_empty.rep_eq)
  have "with_root_orders empty_coordinator_root = empty_coordinator_root"
    by (simp add: with_root_orders_def empty_coordinator_root_def pair_order_def complete_order_def
        turn_order_def clarification_order_def revision_order_def ledger_order_def sorted_order_def
        fm_items_def fm_empty_def pd_empty.rep_eq keys [unfolded fm_empty_def])
  with assms show ?thesis
    by (simp add: root_ok_def candidate_ok_def indexes_ok_def inv_bounds_def session_count_def
        inv_issued_def inv_pending_def inv_response_def inv_action_def inv_tokens_def inv_ledger_def
        inv_receipts_def inv_audit_def inv_turns_def pinned_dom empty_coordinator_root_def
        valid_config_def action_ledger_capacity_def)
qed

interpretation co: ranked_system co_start "co_step sha" coordinator_ok "\<lambda>co. root_revision (co_root co)"
  for sha
proof (unfold_locales, goal_cases)
  case (1 co)
  then obtain ic ms fc ttl mm ittl pttl cfg where
    "build_coordinator_config ic ms fc ttl mm ittl pttl = Inr cfg" "co = new_coordinator cfg"
    by (auto simp: co_start_def coordinator_init_def res_simps)
  then show ?case
    by (auto simp: coordinator_ok_def new_coordinator_def journal_ok_def
        intro: empty_root_ok dest: build_coordinator_config_valid)
next
  case (2 co co')
  then show ?case by (blast intro: co_step_advances advances_ok)
next
  case (3 co co')
  then show ?case using co_step_advances [of sha co co'] by (simp add: advances_def)
qed

end
