(* ===== verification/Coordinator_Theorems.thy ===== *)
theory Coordinator_Theorems
  imports Coordinator_Correct
begin

text \<open>
  What a client of the coordinator may rely on: the consequences of the invariant for its methods.
  \<open>coordinator_ok\<close> holds of every coordinator a history reaches (\<open>reachable_coordinator_ok\<close>), so the
  theorems take it as their hypothesis.
\<close>

section \<open>Histories\<close>

text \<open>C1 The invariant: whatever sequence of calls, clock readings, random tokens and hook faults, a
  coordinator keeps its indexes consistent, its capacities respected, its orders derived from its
  maps and its journal in step with its root.\<close>
theorem reachable_coordinator_ok:
  assumes "co_start co0" and "rtranclp (co_step sha) co0 co"
  shows "coordinator_ok co"
  using assms by (rule co.reachable_inv)

text \<open>The root revision never goes back along a history.\<close>
theorem reachable_root_revision_monotone:
  assumes "co_start co0" and "rtranclp (co_step sha) co0 co1" and "rtranclp (co_step sha) co1 co2"
  shows "root_revision (co_root co1) \<le> root_revision (co_root co2)"
  using co.steps_rank [OF assms(3)] co.reachable_inv [OF assms(1,2)] by blast

text \<open>C12 Retention is bounded along every history: issued records, sessions, audit records, receipts,
  tokens, ledger rows, state revisions, the turns of each conversation, the receipts of each record
  and the status history of each effect.\<close>
theorem reachable_retention_bounded:
  assumes "co_start co0" and "rtranclp (co_step sha) co0 co"
  shows "fm_len (issued_records (co_root co)) \<le> cfg_issued_response_capacity (co_config co)
    \<and> session_count (co_root co) \<le> cfg_conversation_max_sessions (co_config co)
    \<and> fm_len (audit_records (co_root co)) \<le> cfg_conversation_max_sessions (co_config co)
    \<and> fm_len (feedback_receipts (co_root co)) \<le> cfg_feedback_receipt_capacity (co_config co)
    \<and> fm_len (prepared_feedback_tokens (co_root co)) \<le> cfg_issued_response_capacity (co_config co)
    \<and> fm_len (action_ledger_records (co_root co)) \<le> 5000
    \<and> fm_len (state_revisions (co_root co)) \<le> cfg_state_revision_capacity (co_config co)
    \<and> (\<forall>turns\<in>ran (fm_get (conversation_turns (co_root co))).
          int (length turns) \<le> cfg_conversation_max_messages (co_config co))
    \<and> (\<forall>issued\<in>ran (fm_get (issued_records (co_root co))). case issued of
          Pending _ \<Rightarrow> True
        | Complete c \<Rightarrow> length (cr_receipts c) \<le> 64
            \<and> (\<forall>e\<in>set (cr_effects c). length (ie_status_history e) \<le> 2))"
proof -
  have ok: "coordinator_ok co" using assms by (rule co.reachable_inv)
  have hist: "length (ie_status_history e) \<le> 2" if "effect_ok e" for e
  proof -
    have "legal_history h \<Longrightarrow> length h \<le> 2" for h by (cases h rule: legal_history.cases) auto
    with that show ?thesis by (simp add: effect_ok_def)
  qed
  have "case issued of Pending _ \<Rightarrow> True
        | Complete c \<Rightarrow> length (cr_receipts c) \<le> 64
            \<and> (\<forall>e\<in>set (cr_effects c). length (ie_status_history e) \<le> 2)"
    if "issued \<in> ran (fm_get (issued_records (co_root co)))" for issued
  proof (cases issued)
    case (Complete c)
    with that obtain k a where im: "fm_get (issued_records (co_root co)) (k, a) = Some (Complete c)"
      by (auto simp: ran_def)
    have "inv_issued (fm_get (issued_records (co_root co)))"
      using ok by (simp add: coordinator_ok_def root_ok_def candidate_ok_def indexes_ok_def)
    from inv_issued_complete [OF this im]
    have "length (cr_receipts c) \<le> 64" and es: "effects_ok (cr_effects c)"
      by (simp_all add: record_receipt_limit_def)
    moreover have "length (ie_status_history e) \<le> 2" if "e \<in> set (cr_effects c)" for e
      using hist effects_ok_effect_ok [OF es that] .
    ultimately show ?thesis using Complete by simp
  qed simp
  moreover have "int (length turns) \<le> cfg_conversation_max_messages (co_config co)"
    if "turns \<in> ran (fm_get (conversation_turns (co_root co)))" for turns
    using ok that
    by (auto simp: coordinator_ok_def root_ok_def candidate_ok_def inv_turns_def ran_def)
  ultimately show ?thesis
    using ok by (simp add: coordinator_ok_def root_ok_def candidate_ok_def inv_bounds_def action_ledger_capacity_def)
qed

section \<open>Publication\<close>

text \<open>A publication is atomic: either it succeeds, the root becomes the candidate (bounded, ordered
  and validated) with the next revision and the journal says committed, or it raises and the root is
  the one before; a fault of the hook is journalled as rolled back.\<close>
theorem publish_atomic:
  "case publish io i op k ks cand co of
     (co', Inr _) \<Rightarrow> prepare_root_for_publication cand (cfg_state_revision_capacity (co_config co)) = Inr (co_root co')
        \<and> root_revision (co_root co') = root_revision (co_root co) + 1
        \<and> io_fault io i op = None
        \<and> co_last_journal co' = Some \<lparr>jr_transaction_id = io_transaction_id io i, jr_operation = op,
            jr_initiating_state_key = k, jr_affected_state_keys = ks, jr_prior_root = co_root co,
            jr_candidate_root = co_root co', jr_outcome = Committed\<rparr>
   | (co', Inl e) \<Rightarrow> co_root co' = co_root co \<and> co_config co' = co_config co
        \<and> (co_last_journal co' = co_last_journal co
           \<or> (io_fault io i op = Some e \<and> map_option jr_outcome (co_last_journal co') = Some Rolled_back))"
  by (auto simp: publish_def Let_def build_journal_def split: sum.splits option.splits prod.splits)

section \<open>Cleanup\<close>

lemma coordinator_ok_root: "coordinator_ok co \<Longrightarrow> root_ok (co_config co) (co_root co)"
  by (simp add: coordinator_ok_def)

lemma coordinator_ok_indexes:
  "coordinator_ok co \<Longrightarrow> inv_issued (fm_get (issued_records (co_root co)))
     \<and> inv_pending (fm_get (issued_records (co_root co))) (fm_get (pending_request_by_state (co_root co)))
     \<and> inv_response (fm_get (issued_records (co_root co))) (fm_get (response_index (co_root co)))
     \<and> inv_action (fm_get (issued_records (co_root co))) (fm_get (action_index (co_root co)))"
  by (simp add: coordinator_ok_def root_ok_def candidate_ok_def indexes_ok_def)

lemma published_revisions_le:
  assumes "dom (fm_get (state_revisions c)) \<subseteq> dom (fm_get (state_revisions r))"
  shows "fm_len (state_revisions (published_root c)) \<le> fm_len (state_revisions r)"
  by (rule fm_len_mono) (use assms in \<open>auto simp: published_revisions\<close>)

lemma publish_succeeds:
  assumes ok: "coordinator_ok co" and cand: "candidate_ok (co_config co) cand"
    and rev: "root_revision cand = root_revision (co_root co) + 1"
    and fit: "fm_len (state_revisions (published_root cand)) \<le> cfg_state_revision_capacity (co_config co)"
    and hook: "io_fault io i op = None"
  obtains j where "publish io i op k ks cand co =
    (co\<lparr>co_root := published_root cand, co_last_journal := Some j\<rparr>, Inr ())"
proof -
  have "indexes_ok cand" using cand by (simp add: candidate_ok_def)
  with fit rev hook show thesis
    by (intro that) (simp add: publish_def prepare_root_eq Let_def)
qed

lemma cleaned_root_revisions:
  "state_revisions (cleaned_root cfg now epoch root) = state_revisions root"
  by (simp add: cleaned_root_def Let_def)

lemma cleaned_revisions_sub:
  "cleanup_candidate root now epoch cfg = (Some cand, n) \<Longrightarrow>
     dom (fm_get (state_revisions cand)) \<subseteq> dom (fm_get (state_revisions root))"
  by (auto simp: cleanup_candidate_def cleaned_root_revisions restrict_map_def split: if_splits)

text \<open>Without a fault, cleanup cannot raise.\<close>

lemma cleanup_total:
  assumes ok: "coordinator_ok co" and hook: "io_fault io i Cleanup = None"
  obtains j where "cleanup_locked io i co =
      (case cleanup_candidate (co_root co) (io_cleanup_monotonic_ns io) (io_cleanup_epoch_ms io) (co_config co) of
         (None, n) \<Rightarrow> (co, Inr n)
       | (Some cand, n) \<Rightarrow> (co\<lparr>co_root := published_root cand, co_last_journal := Some j\<rparr>, Inr n))"
proof (cases "cleanup_candidate (co_root co) (io_cleanup_monotonic_ns io) (io_cleanup_epoch_ms io) (co_config co)")
  case (Pair cand n)
  show thesis
  proof (cases cand)
    case None
    with Pair show ?thesis by (intro that) (simp add: cleanup_locked_def)
  next
    case (Some c)
    from ok Pair Some have c: "candidate_ok (co_config co) c \<and> root_revision c = root_revision (co_root co) + 1"
      by (intro cleanup_ok) (auto simp: coordinator_ok_def)
    have "fm_len (state_revisions (published_root c)) \<le> fm_len (state_revisions (co_root co))"
      using Pair Some by (intro published_revisions_le cleaned_revisions_sub) auto
    then have fit: "fm_len (state_revisions (published_root c)) \<le> cfg_state_revision_capacity (co_config co)"
      using coordinator_ok_root [OF ok] by (simp add: root_ok_def)
    from c obtain j where "publish io i Cleanup None [] c co =
        (co\<lparr>co_root := published_root c, co_last_journal := Some j\<rparr>, Inr ())"
      using publish_succeeds [OF ok _ _ fit hook] by blast
    with Pair Some show ?thesis by (intro that [of j]) (simp add: cleanup_locked_def)
  qed
qed

end
