(* ===== verification/Cleanup_Theorems.thy ===== *)
theory Cleanup_Theorems
  imports Coordinator_Theorems
begin

text \<open>
  Cleanup removes exactly what has expired at its two clock readings. \<open>cleaned_view\<close> is the abstract
  specification, one equation for each map; the implementation meets it whether or not it published a
  root, and a second cleanup at the same readings finds nothing to do.
\<close>

definition unexpired :: "('v \<Rightarrow> int) \<Rightarrow> int \<Rightarrow> ('k \<Rightarrow> 'v option) \<Rightarrow> 'k \<Rightarrow> 'v option" where
  "unexpired expires now m k =
     (case m k of None \<Rightarrow> None | Some v \<Rightarrow> if now < expires v then Some v else None)"

definition cleaned_view ::
  "coordinator_config \<Rightarrow> int \<Rightarrow> int \<Rightarrow> coordinator_state_root \<Rightarrow> coordinator_state_root \<Rightarrow> bool" where
  "cleaned_view cfg now epoch root root' =
     (fm_get (issued_records root') =
        (\<lambda>key. map_option (retain_record now) (unexpired ir_expires_at_monotonic_ns now (fm_get (issued_records root)) key))
      \<and> fm_get (prepared_feedback_tokens root') =
        unexpired (\<lambda>t. pf_expires_at_monotonic_ns (tk_preparation t)) now (fm_get (prepared_feedback_tokens root))
      \<and> fm_get (feedback_receipts root') =
        unexpired fr_expires_at_monotonic_ns now (fm_get (feedback_receipts root))
      \<and> fm_get (action_ledger_records root') =
        unexpired al_expires_at_monotonic_ns now (fm_get (action_ledger_records root))
      \<and> fm_get (audit_records root') = unexpired ar_expires_at_monotonic_ns now (fm_get (audit_records root))
      \<and> fm_get (clarification_records root') =
        unexpired (\<lambda>c. pc_created_at_epoch_ms c + cfg_conversation_ttl_ms cfg) epoch (fm_get (clarification_records root))
      \<and> fm_get (conversation_turns root') = (\<lambda>k. case fm_get (conversation_turns root) k of
          None \<Rightarrow> None
        | Some ts \<Rightarrow> if retained_turn_list cfg epoch ts = [] then None else Some (retained_turn_list cfg epoch ts)))"

section \<open>The parts\<close>

lemma restrict_unexpired:
  "m |` (- {k. \<exists>v. m k = Some v \<and> expires v \<le> now}) = unexpired expires now m"
  by (rule ext) (auto simp: unexpired_def restrict_map_def split: option.splits)

lemma keys_where_set: "keys_where repr P m = {k. \<exists>v. fm_get m k = Some v \<and> P k v}"
  by (auto simp: keys_where_mem)

lemma removed_unexpired:
  "removed_map f {k. \<exists>v. m k = Some v \<and> expires v \<le> now} m =
     (\<lambda>k. map_option f (unexpired expires now m k))"
  by (rule ext) (auto simp: removed_map_def unexpired_def split: option.splits)

lemmas expired_sets = expired_tokens_def expired_records_def expired_feedback_receipts_def
  expired_ledger_rows_def expired_clarifications_def expired_audits_def keys_where_set

lemma unexpired_idem [simp]: "unexpired expires now (unexpired expires now m) = unexpired expires now m"
  by (rule ext) (simp add: unexpired_def split: option.splits)

lemma unexpired_Some: "unexpired expires now m k = Some v \<longleftrightarrow> m k = Some v \<and> now < expires v"
  by (auto simp: unexpired_def split: option.splits)

lemma unexpired_all: "{k. \<exists>v. m k = Some v \<and> expires v \<le> now} = {} \<Longrightarrow> unexpired expires now m = m"
  by (rule ext) (force simp: unexpired_def split: option.splits)

lemma ledger_loop_fits:
  "fm_len ledger \<le> action_ledger_capacity \<Longrightarrow> ledger_loop ledger = ledger"
  by (subst ledger_loop.simps) simp

lemma cleaned_root_view:
  assumes "fm_len (action_ledger_records root) \<le> action_ledger_capacity"
  shows "cleaned_view cfg now epoch root
    (published_root (without_unpinned_revisions (cleaned_root cfg now epoch root)))"
proof -
  have "fm_len (without_keys (action_ledger_records root) (expired_ledger_rows now root)) \<le> action_ledger_capacity"
    using assms fm_len_drop_le [of "action_ledger_records root"] order_trans by blast
  then have led: "ledger_loop (without_keys (action_ledger_records root) (expired_ledger_rows now root))
      = without_keys (action_ledger_records root) (expired_ledger_rows now root)"
    by (rule ledger_loop_fits)
  have turns: "pd_get (retained_turns cfg epoch root) = (\<lambda>k. case fm_get (conversation_turns root) k of
      None \<Rightarrow> None
    | Some ts \<Rightarrow> if retained_turn_list cfg epoch ts = [] then None else Some (retained_turn_list cfg epoch ts))"
    by (rule ext) (simp add: retained_turns_get split: option.splits)
  show ?thesis
    unfolding cleaned_view_def published_maps without_unpinned_maps
    by (simp add: cleaned_root_def Let_def turns retained_issued_get removed_unexpired restrict_unexpired
        led [unfolded expired_ledger_rows_def keys_where_set] expired_sets)
qed

lemma changed_turn_states_mem:
  "k \<in> changed_turn_states cfg epoch root \<longleftrightarrow>
     (\<exists>ts. fm_get (conversation_turns root) k = Some ts \<and> retained_turn_list cfg epoch ts \<noteq> []
        \<and> retained_turn_list cfg epoch ts \<noteq> ts)"
proof -
  have "k \<in> changed_turn_states cfg epoch root \<longleftrightarrow>
      (\<exists>ts. pd_get (retained_turns cfg epoch root) k = Some ts \<and> Some ts \<noteq> fm_get (conversation_turns root) k)"
    unfolding changed_turn_states_def by (force simp: pd.mem_entries)
  then show ?thesis by (auto simp: retained_turns_get split: option.splits if_splits)
qed

lemma ex_fm_items:
  "(\<exists>x\<in>set (fm_items repr m). P x) \<longleftrightarrow> (\<exists>k v. fm_get m k = Some v \<and> P (k, v))"
  by (metis fm.mem_entries prod.collapse)

lemma changed_receipts_mem:
  "changed_issued_receipts now root \<longleftrightarrow>
     (\<exists>key c. fm_get (issued_records root) key = Some (Complete c) \<and> now < cr_expires_at_monotonic_ns c
        \<and> live_receipts now c \<noteq> cr_receipts c)"
proof -
  have live: "key \<notin> expired_records now root \<longleftrightarrow> now < ir_expires_at_monotonic_ns r"
    if "fm_get (issued_records root) key = Some r" for key r
    using that by (auto simp: expired_sets)
  have "changed_issued_receipts now root \<longleftrightarrow> (\<exists>key r. fm_get (issued_records root) key = Some r
      \<and> now < ir_expires_at_monotonic_ns r
      \<and> (case r of Complete c \<Rightarrow> live_receipts now c \<noteq> cr_receipts c | Pending _ \<Rightarrow> False))"
    unfolding changed_issued_receipts_def list_ex_iff ex_fm_items case_prod_conv
    by (rule iff_exI, rule iff_exI, rule conj_cong, rule refl, simp only: live)
  also have "\<dots> \<longleftrightarrow> (\<exists>key c. fm_get (issued_records root) key = Some (Complete c)
      \<and> now < cr_expires_at_monotonic_ns c \<and> live_receipts now c \<noteq> cr_receipts c)" (is "?L \<longleftrightarrow> ?R")
  proof
    assume ?L
    then obtain key r where r: "fm_get (issued_records root) key = Some r" "now < ir_expires_at_monotonic_ns r"
      "case r of Complete c \<Rightarrow> live_receipts now c \<noteq> cr_receipts c | Pending _ \<Rightarrow> False" by blast
    then obtain c where "r = Complete c" by (cases r) auto
    with r show ?R by (intro exI [of _ key] exI [of _ c]) simp
  next
    assume ?R
    then obtain key c where "fm_get (issued_records root) key = Some (Complete c)"
      "now < cr_expires_at_monotonic_ns c" "live_receipts now c \<noteq> cr_receipts c" by blast
    then show ?L by (intro exI [of _ key] exI [of _ "Complete c"]) simp
  qed
  finally show ?thesis .
qed

lemma retained_turn_list_idem:
  assumes "1 \<le> cfg_conversation_max_messages cfg"
  shows "retained_turn_list cfg epoch (retained_turn_list cfg epoch ts) = retained_turn_list cfg epoch ts"
proof -
  let ?M = "cfg_conversation_max_messages cfg" and ?P = "\<lambda>t. ct_created_at_epoch_ms t + cfg_conversation_ttl_ms cfg > epoch"
  let ?ys = "py_last ?M (filter ?P ts)"
  have "filter ?P ?ys = ?ys"
    using set_py_last [of ?M "filter ?P ts"] by (intro filter_True) auto
  moreover have "py_last ?M ?ys = ?ys"
    using assms by (simp add: py_last_idem)
  ultimately show ?thesis by (simp add: retained_turn_list_def)
qed

text \<open>After a cleanup nothing is left to remove at the same readings.\<close>

lemma cleaned_view_nothing:
  assumes "cleaned_view cfg now epoch root root'" and "1 \<le> cfg_conversation_max_messages cfg"
  shows "nothing_expired cfg now epoch root'"
proof -
  have issued: "fm_get (issued_records root') key = Some r \<Longrightarrow>
      (\<exists>s. r = retain_record now s \<and> now < ir_expires_at_monotonic_ns s)" for key r
    using assms(1) by (auto simp: cleaned_view_def unexpired_Some)
  have keep: "ir_expires_at_monotonic_ns (retain_record now s) = ir_expires_at_monotonic_ns s" for s
    by (cases s) simp_all
  have live: "retain_record now s = Complete c \<Longrightarrow> live_receipts now c = cr_receipts c" for s c
    by (cases s) (auto simp: live_receipts_def split: if_splits)
  have "expired_records now root' = {}"
    by (auto simp: expired_sets keep dest!: issued)
  moreover have "\<not> changed_issued_receipts now root'"
    unfolding changed_receipts_mem by (metis issued live)
  moreover have "expired_tokens now root' = {}" "expired_feedback_receipts now root' = {}"
    "expired_ledger_rows now root' = {}" "expired_audits now root' = {}"
    "expired_clarifications cfg epoch root' = {}"
    using assms(1) by (auto simp: cleaned_view_def expired_sets unexpired_Some)
  moreover have "expired_turn_states cfg epoch root' = {}" "changed_turn_states cfg epoch root' = {}"
    using assms
    by (auto simp: cleaned_view_def expired_turn_states_def keys_where_set retained_turns_get
        changed_turn_states_mem retained_turn_list_idem split: option.splits if_splits)
  ultimately show ?thesis by (simp add: nothing_expired_def)
qed

lemma nothing_expired_view:
  assumes "nothing_expired cfg now epoch root"
  shows "cleaned_view cfg now epoch root root"
proof -
  have recs: "unexpired ir_expires_at_monotonic_ns now (fm_get (issued_records root)) = fm_get (issued_records root)"
    using assms by (intro unexpired_all) (auto simp: nothing_expired_def expired_sets)
  have "map_option (retain_record now) (fm_get (issued_records root) key) = fm_get (issued_records root) key" for key
  proof (cases "fm_get (issued_records root) key")
    case (Some r)
    with recs have "now < ir_expires_at_monotonic_ns r" by (metis unexpired_Some)
    have "live_receipts now c = cr_receipts c" if "r = Complete c" for c
    proof (rule ccontr)
      assume "live_receipts now c \<noteq> cr_receipts c"
      with Some that \<open>now < ir_expires_at_monotonic_ns r\<close> have "changed_issued_receipts now root"
        unfolding changed_receipts_mem by (intro exI [of _ key] exI [of _ c]) simp
      with assms show False by (simp add: nothing_expired_def)
    qed
    with Some show ?thesis by (cases r) simp_all
  qed simp
  moreover have "retained_turn_list cfg epoch ts = ts \<and> ts \<noteq> []"
    if "fm_get (conversation_turns root) k = Some ts" for k ts
  proof -
    have ne: "retained_turn_list cfg epoch ts \<noteq> []"
    proof
      assume "retained_turn_list cfg epoch ts = []"
      with that have "k \<in> expired_turn_states cfg epoch root"
        by (simp add: expired_turn_states_def keys_where_set retained_turns_get)
      with assms show False by (simp add: nothing_expired_def)
    qed
    moreover have "k \<notin> changed_turn_states cfg epoch root" using assms by (simp add: nothing_expired_def)
    ultimately show ?thesis using that by (auto simp: changed_turn_states_mem)
  qed
  moreover have "unexpired (\<lambda>t. pf_expires_at_monotonic_ns (tk_preparation t)) now (fm_get (prepared_feedback_tokens root))
      = fm_get (prepared_feedback_tokens root)"
    "unexpired fr_expires_at_monotonic_ns now (fm_get (feedback_receipts root)) = fm_get (feedback_receipts root)"
    "unexpired al_expires_at_monotonic_ns now (fm_get (action_ledger_records root)) = fm_get (action_ledger_records root)"
    "unexpired ar_expires_at_monotonic_ns now (fm_get (audit_records root)) = fm_get (audit_records root)"
    "unexpired (\<lambda>c. pc_created_at_epoch_ms c + cfg_conversation_ttl_ms cfg) epoch (fm_get (clarification_records root))
      = fm_get (clarification_records root)"
    using assms by (auto simp: nothing_expired_def expired_sets intro!: unexpired_all)
  ultimately show ?thesis
    unfolding cleaned_view_def recs by (auto simp: fun_eq_iff split: option.splits)
qed

section \<open>The operation\<close>

lemma cleanup_meets_view:
  assumes ok: "coordinator_ok co" and cl: "cleanup_locked io i co = (co', Inr n)"
  shows "cleaned_view (co_config co) (io_cleanup_monotonic_ns io) (io_cleanup_epoch_ms io) (co_root co) (co_root co')
    \<and> coordinator_ok co' \<and> co_config co' = co_config co"
proof -
  let ?now = "io_cleanup_monotonic_ns io" and ?epoch = "io_cleanup_epoch_ms io"
  let ?cfg = "co_config co" and ?root = "co_root co"
  from ok have led: "fm_len (action_ledger_records ?root) \<le> action_ledger_capacity"
    by (simp add: coordinator_ok_def root_ok_def)
  from cleanup_locked_cases [OF ok cl] have inv: "coordinator_ok co' \<and> co_config co' = co_config co" by blast
  show ?thesis
  proof (cases "nothing_expired ?cfg ?now ?epoch ?root")
    case True
    with cl have "co' = co" by (simp add: cleanup_locked_def cleanup_candidate_def)
    with True nothing_expired_view inv show ?thesis by simp
  next
    case False
    let ?c = "without_unpinned_revisions (cleaned_root ?cfg ?now ?epoch ?root)"
    obtain m where cand: "cleanup_candidate ?root ?now ?epoch ?cfg = (Some ?c, m)"
      using False by (simp add: cleanup_candidate_def)
    obtain co1 r1 where p: "publish io i Cleanup None [] ?c co = (co1, r1)" by fastforce
    from cl cand p have r1: "co' = co1" "r1 = Inr ()" by (auto simp: cleanup_locked_def co_bind_def split: sum.splits)
    from ok cand have "candidate_ok ?cfg ?c \<and> root_revision ?c = root_revision ?root + 1"
      by (intro cleanup_ok) (auto simp: coordinator_ok_def)
    with publish_cases [OF ok _ _ p] r1 have "co_root co' = published_root ?c" by auto
    with cleaned_root_view [OF led] inv show ?thesis by simp
  qed
qed

lemma cleanup_returns:
  assumes "coordinator_ok co" and "io_fault io i Cleanup = None"
  obtains co' n where "cleanup_locked io i co = (co', Inr n)"
  by (rule cleanup_total [OF assms]) (auto split: prod.splits option.splits)

text \<open>C9 Cleanup removes exactly what has expired. Without a fault of the hook it returns; every map
  then holds the entries that are unexpired at the two clock readings and no other (a record keeps its
  unexpired receipts, a conversation its latest unexpired turns), and a second cleanup at the same
  readings removes nothing and leaves the coordinator as it is.\<close>
theorem cleanup_exact:
  assumes "coordinator_ok co" and "io_fault io 0 Cleanup = None"
  shows "\<exists>co' n. co_cleanup io co = (co', Inr n)
    \<and> cleaned_view (co_config co) (io_cleanup_monotonic_ns io) (io_cleanup_epoch_ms io) (co_root co) (co_root co')
    \<and> coordinator_ok co'
    \<and> co_cleanup io co' = (co', Inr 0)"
proof -
  from cleanup_returns [OF assms] obtain co' n where cl: "cleanup_locked io 0 co = (co', Inr n)" .
  from cleanup_meets_view [OF assms(1) cl] have view: "cleaned_view (co_config co) (io_cleanup_monotonic_ns io)
      (io_cleanup_epoch_ms io) (co_root co) (co_root co')" and ok': "coordinator_ok co'"
    and cfg: "co_config co' = co_config co" by simp_all
  have "1 \<le> cfg_conversation_max_messages (co_config co)"
    using assms(1) by (simp add: coordinator_ok_def valid_config_def)
  from cleaned_view_nothing [OF view this] cfg have "cleanup_locked io 0 co' = (co', Inr 0)"
    by (simp add: cleanup_locked_def cleanup_candidate_def)
  with cl view ok' show ?thesis by (auto simp: co_cleanup_def)
qed

end
