(* ===== verification/Reply_Theorems.thy ===== *)
theory Reply_Theorems
  imports Cleanup_Theorems
begin

text \<open>
  The life of a reply on the coordinator: reservation, commit, replay and abort.
\<close>

section \<open>Reservation\<close>

lemma cleaned_view_issued:
  assumes "cleaned_view cfg now epoch root root'"
  shows "fm_get (issued_records root') key =
    map_option (retain_record now) (unexpired ir_expires_at_monotonic_ns now (fm_get (issued_records root)) key)"
  using assms by (simp add: cleaned_view_def)

lemma cleaned_view_pending:
  assumes "cleaned_view cfg now epoch root root'" "fm_get (issued_records root) key = Some (Pending p)"
    "now < pr_expires_at_monotonic_ns p"
  shows "fm_get (issued_records root') key = Some (Pending p)"
  using assms by (simp add: cleaned_view_issued unexpired_def)

lemma retain_record_Pending: "retain_record now r = Pending p \<longleftrightarrow> r = Pending p"
  by (cases r) simp_all

lemma cleaned_view_back:
  assumes "cleaned_view cfg now epoch root root'" "fm_get (issued_records root') key = Some r"
  obtains s where "fm_get (issued_records root) key = Some s" "now < ir_expires_at_monotonic_ns s"
    "r = retain_record now s"
  using assms(2) unfolding cleaned_view_issued [OF assms(1)] by (auto simp: unexpired_Some)

lemma cleaned_view_dom:
  assumes "cleaned_view cfg now epoch root root'"
  shows "dom (fm_get (issued_records root')) \<subseteq> dom (fm_get (issued_records root))"
proof
  fix key
  assume "key \<in> dom (fm_get (issued_records root'))"
  then obtain r where "fm_get (issued_records root') key = Some r" by blast
  then show "key \<in> dom (fm_get (issued_records root))" by (rule cleaned_view_back [OF assms]) blast
qed

lemma cleaned_view_pending_back:
  assumes "cleaned_view cfg now epoch root root'" "fm_get (issued_records root') key = Some (Pending p)"
  shows "fm_get (issued_records root) key = Some (Pending p)"
  by (rule cleaned_view_back [OF assms]) (metis retain_record_Pending)

lemma pending_unexpired_unique:
  assumes "coordinator_ok co" "fm_get (issued_records (co_root co)) (k, a) = Some (Pending p)"
  shows "fm_get (pending_request_by_state (co_root co)) k = Some (k, a)"
  using coordinator_ok_indexes [OF assms(1)] assms(2) unfolding inv_pending_def by blast

lemma existing_pending:
  assumes ok: "coordinator_ok co"
    and pend: "fm_get (issued_records (co_root co)) (k, a) = Some (Pending p)"
  shows "existing_reservation_result (co_root co) k a h e =
      Inl (CoordinatorError (if h = pr_request_hash p \<and> e = pr_replay_eligible p
        then ''request_in_progress'' else ''request_id_conflict''))"
    and "existing_reservation_result (co_root co) k q h e \<noteq> Inr None"
    and "fm_get (issued_records (co_root co)) (k, q) = None \<Longrightarrow>
      existing_reservation_result (co_root co) k q h e = Inl (CoordinatorError ''conversation_turn_in_progress'')"
    and "existing_reservation_result (co_root co) k q h e \<noteq> Inr (Some (NewReplyReservation nr))"
  using pending_unexpired_unique [OF assms] pend
  by (auto simp: existing_reservation_result_def split: option.splits issued_response_record.splits)

lemma reserve_existing:
  assumes "cleanup_locked io 0 co = (co1, Inr n)"
    and "existing_reservation_result (co_root co1) k q h e = x" "x \<noteq> Inr None"
  shows "reserve_reply io k q h e co = (co1, case x of Inl err \<Rightarrow> Inl err | Inr r \<Rightarrow> Inr (the r))"
  using assms by (cases x) (auto simp: reserve_reply_def)

text \<open>C3 Single flight: while a conversation has an unexpired pending reply, no reservation for it
  succeeds. The same request is told that it is in progress (or in conflict, when it differs), any
  other new request that a turn of the conversation is in progress, and the pending reservation stays.\<close>
theorem reservation_single_flight:
  assumes ok: "coordinator_ok co" and hook: "io_fault io 0 Cleanup = None"
    and pend: "fm_get (issued_records (co_root co)) (k, a) = Some (Pending p)"
    and live: "io_cleanup_monotonic_ns io < pr_expires_at_monotonic_ns p"
  shows "case reserve_reply io k q h e co of (co', r) \<Rightarrow>
      fm_get (issued_records (co_root co')) (k, a) = Some (Pending p)
      \<and> (\<nexists>nr. r = Inr (NewReplyReservation nr))
      \<and> r = (if q = a then Inl (CoordinatorError (if h = pr_request_hash p \<and> e = pr_replay_eligible p
                  then ''request_in_progress'' else ''request_id_conflict''))
             else if fm_get (issued_records (co_root co)) (k, q) = None
             then Inl (CoordinatorError ''conversation_turn_in_progress'')
             else r)"
proof -
  from cleanup_returns [OF ok hook] obtain co1 n where cl: "cleanup_locked io 0 co = (co1, Inr n)" .
  from cleanup_meets_view [OF ok cl] have view: "cleaned_view (co_config co) (io_cleanup_monotonic_ns io)
      (io_cleanup_epoch_ms io) (co_root co) (co_root co1)" and ok1: "coordinator_ok co1" by simp_all
  from cleaned_view_pending [OF view pend live]
  have pend1: "fm_get (issued_records (co_root co1)) (k, a) = Some (Pending p)" .
  have gone: "fm_get (issued_records (co_root co)) (k, q) = None \<Longrightarrow> fm_get (issued_records (co_root co1)) (k, q) = None"
    by (simp add: cleaned_view_issued [OF view] unexpired_def)
  note ex = existing_pending [OF ok1 pend1]
  let ?x = "existing_reservation_result (co_root co1) k q h e"
  have "reserve_reply io k q h e co = (co1, case ?x of Inl err \<Rightarrow> Inl err | Inr r \<Rightarrow> Inr (the r))"
    by (rule reserve_existing [OF cl refl ex(2)])
  moreover have "(case ?x of Inl err \<Rightarrow> Inl err | Inr r \<Rightarrow> Inr (the r)) \<noteq> Inr (NewReplyReservation nr)" for nr
    using ex(2) [of q h e] ex(4) [of q h e nr] by (auto split: sum.splits)
  ultimately show ?thesis
    using pend1 ex(1) ex(3) [OF gone, of h e] by (auto simp: ex(1))
qed

lemma publish_fits:
  assumes ok: "coordinator_ok co" and cand: "candidate_ok (co_config co) cand"
    and rev: "root_revision cand = root_revision (co_root co) + 1"
    and fit: "fm_len (state_revisions (published_root cand)) \<le> cfg_state_revision_capacity (co_config co)"
    and hook: "io_fault io i op = None"
  obtains co' where "publish io i op k ks cand co = (co', Inr ())" "co_root co' = published_root cand"
    "coordinator_ok co'" "co_config co' = co_config co"
proof -
  obtain j where p: "publish io i op k ks cand co =
      (co\<lparr>co_root := published_root cand, co_last_journal := Some j\<rparr>, Inr ())"
    by (rule publish_succeeds [OF ok cand rev fit hook])
  from publish_cases [OF ok cand rev p] show thesis by (intro that [OF p]) auto
qed

lemma revisions_fit:
  assumes "coordinator_ok co" "dom (fm_get (state_revisions c)) \<subseteq> dom (fm_get (state_revisions (co_root co)))"
  shows "fm_len (state_revisions (published_root c)) \<le> cfg_state_revision_capacity (co_config co)"
  using published_revisions_le [OF assms(2)] coordinator_ok_root [OF assms(1)] by (simp add: root_ok_def)

lemma publish_revisions_sub:
  assumes "publish io i op k ks cand co = (co', Inr ())" "indexes_ok cand"
  shows "dom (fm_get (state_revisions (co_root co'))) \<subseteq> dom (fm_get (state_revisions cand))"
proof -
  have "co_root co' = published_root cand"
    using assms by (auto simp: publish_def prepare_root_eq Let_def split: if_splits option.splits)
  then show ?thesis by (auto simp: published_revisions)
qed

lemma evict_for_space:
  assumes ok: "coordinator_ok co" and hook: "io_fault io 1 Cleanup = None"
    and some: "fm_len (issued_records (co_root co)) < cfg_issued_response_capacity (co_config co)
      \<or> (\<exists>key c. fm_get (issued_records (co_root co)) key = Some (Complete c))"
  obtains ev co' where
    "issued_capacity_eviction_candidate (co_root co) (cfg_issued_response_capacity (co_config co)) = Inr ev"
    "(case ev of None \<Rightarrow> (co, Inr ()) | Some c \<Rightarrow> publish io 1 Cleanup None [] c co) = (co', Inr ())"
    "coordinator_ok co'" "co_config co' = co_config co"
    "fm_len (issued_records (co_root co')) < cfg_issued_response_capacity (co_config co)"
    "fm_get (issued_records (co_root co')) \<subseteq>\<^sub>m fm_get (issued_records (co_root co))"
    "pending_request_by_state (co_root co') = pending_request_by_state (co_root co)"
    "fm_get (state_revisions (co_root co')) \<subseteq>\<^sub>m fm_get (state_revisions (co_root co))"
proof -
  let ?ev = "issued_capacity_eviction_candidate (co_root co) (cfg_issued_response_capacity (co_config co))"
  have root: "root_ok (co_config co) (co_root co)" using ok by (rule coordinator_ok_root)
  show thesis
  proof (cases "fm_len (issued_records (co_root co)) < cfg_issued_response_capacity (co_config co)")
    case True
    with ok show ?thesis by (intro that [of None co]) (simp_all add: issued_capacity_eviction_candidate_def)
  next
    case False
    with some obtain key c where "fm_get (issued_records (co_root co)) key = Some (Complete c)" by blast
    then have "(cr_completed_at_monotonic_ns c, key, c) \<in> set (complete_candidates (co_root co))"
      by (simp add: complete_candidates_mem)
    then have "complete_candidates (co_root co) \<noteq> []" by auto
    with False obtain cand where ev: "?ev = Inr (Some cand)"
      unfolding issued_capacity_eviction_candidate_def Let_def
      by (metis (no_types, lifting) case_prod_beta)
    note c = eviction_ok [OF root ev]
    have parts: "fm_get (issued_records cand) \<subseteq>\<^sub>m fm_get (issued_records (co_root co))"
      "pending_request_by_state cand = pending_request_by_state (co_root co)"
      "state_revisions cand = state_revisions (co_root co)"
      by (rule eviction_cases [OF ev]; simp add: map_le_def)+
    have "fm_len (state_revisions (published_root cand)) \<le> cfg_state_revision_capacity (co_config co)"
      by (rule revisions_fit [OF ok]) (simp add: parts)
    with c obtain co' where p: "publish io 1 Cleanup None [] cand co = (co', Inr ())"
      "co_root co' = published_root cand" "coordinator_ok co'" "co_config co' = co_config co"
      using publish_fits [OF ok _ _ _ hook] by blast
    from p(2) parts(3) have "fm_get (state_revisions (co_root co')) \<subseteq>\<^sub>m fm_get (state_revisions (co_root co))"
      by (simp add: published_revisions map_le_def)
    with p ev c parts show ?thesis
      by (intro that [of "Some cand" co']) (simp_all add: published_maps)
  qed
qed

lemma cleaned_view_none:
  assumes "cleaned_view cfg now epoch root root'" "fm_get (issued_records root) key = None"
  shows "fm_get (issued_records root') key = None"
  using assms by (simp add: cleaned_view_issued unexpired_def)

lemma cleanup_revisions_sub:
  assumes ok: "coordinator_ok co" and cl: "cleanup_locked io i co = (co', r)"
  shows "fm_get (state_revisions (co_root co')) \<subseteq>\<^sub>m fm_get (state_revisions (co_root co))"
proof -
  have "fm_get (state_revisions (published_root cand)) \<subseteq>\<^sub>m fm_get (state_revisions (co_root co))"
    if "cleanup_candidate (co_root co) now epoch cfg = (Some cand, n)" for cand n now epoch cfg
    using that
    by (auto simp: cleanup_candidate_def published_revisions cleaned_root_revisions map_le_def
        restrict_map_def split: if_splits)
  with cleanup_locked_cases [OF ok cl] show ?thesis by (metis map_le_refl)
qed

lemma reserve_tail_succeeds:
  assumes ok: "coordinator_ok co" and hook: "io_fault io 2 Reply_reserve = None"
    and none: "fm_get (issued_records (co_root co)) (k, q) = None"
    and idle: "fm_get (pending_request_by_state (co_root co)) k = None"
    and space: "fm_len (issued_records (co_root co)) < cfg_issued_response_capacity (co_config co)"
    and room: "fm_len (state_revisions (co_root co)) < cfg_state_revision_capacity (co_config co)"
  defines "rv \<equiv> current_revision (co_config co) (co_root co) k (io_epoch_token io) (io_monotonic_ns io)"
  obtains co' where "reserve_tail io k q h e co = (co', Inr (NewReplyReservation
        \<lparr>nr_state_key = k, nr_request_id = q, nr_request_hash = h, nr_replay_eligible = e,
         nr_owner_token = io_token io, nr_revision_epoch = sr_revision_epoch rv, nr_state_revision = sr_revision rv\<rparr>))"
    and "coordinator_ok co'"
    and "fm_get (issued_records (co_root co')) = (fm_get (issued_records (co_root co)))((k, q) \<mapsto>
        Pending (reservation_record (co_config co) k q h e rv (io_monotonic_ns io) (io_token io) (io_epoch_ms io)))"
    and "fm_get (pending_request_by_state (co_root co')) k = Some (k, q)"
    and "fm_get (state_revisions (co_root co')) k = Some rv"
    and "conversation_turns (co_root co') = conversation_turns (co_root co) \<and>
       clarification_records (co_root co') = clarification_records (co_root co) \<and>
       prepared_feedback_tokens (co_root co') = prepared_feedback_tokens (co_root co) \<and>
       feedback_receipts (co_root co') = feedback_receipts (co_root co)"
proof -
  let ?rec = "reservation_record (co_config co) k q h e rv (io_monotonic_ns io) (io_token io) (io_epoch_ms io)"
  let ?rc = "reserve_reply_candidate (co_config co) (co_root co) k q h e
             (io_monotonic_ns io) (io_epoch_token io) (io_token io) (io_epoch_ms io)"
  have "existing_reservation_result (co_root co) k q h e = Inr None"
    using none idle by (simp add: existing_reservation_result_def)
  then obtain cand res where rc: "?rc = Inr (Some cand, res)"
    by (auto simp: reserve_reply_candidate_def Let_def)
  note c = reserve_cases [OF rc]
  from reserve_ok [OF coordinator_ok_root [OF ok] space rc]
  have cand: "candidate_ok (co_config co) cand" "root_revision cand = root_revision (co_root co) + 1" by simp_all
  have sm: "fm_get (state_revisions cand) = (fm_get (state_revisions (co_root co)))(k \<mapsto> rv)"
    using c by (simp add: rv_def)
  have "fm_len (state_revisions (published_root cand)) \<le> fm_len (state_revisions cand)"
    by (rule fm_len_mono) (auto simp: published_revisions)
  also have "\<dots> \<le> fm_len (state_revisions (co_root co)) + 1"
    using c fm_len_put_le by simp
  finally have fit: "fm_len (state_revisions (published_root cand)) \<le> cfg_state_revision_capacity (co_config co)"
    using room by simp
  obtain co' where p: "publish io 2 Reply_reserve (Some k) [k] cand co = (co', Inr ())"
      "co_root co' = published_root cand" "coordinator_ok co'" "co_config co' = co_config co"
    by (rule publish_fits [OF ok cand fit hook])
  have "k \<in> pinned_state_keys (enforce_inactive_record_capacities cand)"
    unfolding mem_pinned using c by auto
  with sm p(2) have "fm_get (state_revisions (co_root co')) k = Some rv"
    by (simp add: published_revisions)
  moreover have "fm_get (issued_records (co_root co')) = (fm_get (issued_records (co_root co)))((k, q) \<mapsto> Pending ?rec)"
    using c p(2) by (simp add: rv_def)
  moreover have "fm_get (pending_request_by_state (co_root co')) k = Some (k, q)"
    using c p(2) by simp
  moreover have "conversation_turns (co_root co') = conversation_turns (co_root co) \<and>
       clarification_records (co_root co') = clarification_records (co_root co) \<and>
       prepared_feedback_tokens (co_root co') = prepared_feedback_tokens (co_root co) \<and>
       feedback_receipts (co_root co') = feedback_receipts (co_root co)"
    using c p(2) by simp
  ultimately show thesis
    using c rc p(1,3) by (intro that) (simp_all add: reserve_tail_def rv_def)
qed

lemma reserve_reply_succeeds:
  assumes ok: "coordinator_ok co" and hook: "\<And>i op. io_fault io i op = None"
    and none: "fm_get (issued_records (co_root co)) (k, q) = None"
    and idle: "fm_get (pending_request_by_state (co_root co)) k = None"
    and space: "fm_len (issued_records (co_root co)) < cfg_issued_response_capacity (co_config co)
      \<or> (\<exists>key c. fm_get (issued_records (co_root co)) key = Some (Complete c))"
    and room: "fm_len (state_revisions (co_root co)) < cfg_state_revision_capacity (co_config co)"
  shows "\<exists>co' nr p. reserve_reply io k q h e co = (co', Inr (NewReplyReservation nr))
    \<and> coordinator_ok co'
    \<and> nr_owner_token nr = io_token io
    \<and> fm_get (issued_records (co_root co')) (k, q) = Some (Pending p)
    \<and> pr_owner_token p = io_token io \<and> pr_request_hash p = h \<and> pr_replay_eligible p = e
    \<and> fm_get (pending_request_by_state (co_root co')) k = Some (k, q)
    \<and> (\<exists>rv. fm_get (state_revisions (co_root co')) k = Some rv
          \<and> nr_revision_epoch nr = sr_revision_epoch rv \<and> nr_state_revision nr = sr_revision rv)"
proof -
  from cleanup_returns [OF ok hook] obtain co1 n where cl: "cleanup_locked io 0 co = (co1, Inr n)" .
  from cleanup_meets_view [OF ok cl] have view: "cleaned_view (co_config co) (io_cleanup_monotonic_ns io)
      (io_cleanup_epoch_ms io) (co_root co) (co_root co1)" and ok1: "coordinator_ok co1"
    and cfg1: "co_config co1 = co_config co" by simp_all
  from cleaned_view_none [OF view none] have none1: "fm_get (issued_records (co_root co1)) (k, q) = None" .
  have idle1: "fm_get (pending_request_by_state (co_root co1)) k = None"
  proof (rule ccontr)
    assume "fm_get (pending_request_by_state (co_root co1)) k \<noteq> None"
    then obtain a p where "fm_get (issued_records (co_root co1)) (k, a) = Some (Pending p)"
      using coordinator_ok_indexes [OF ok1] unfolding inv_pending_def by blast
    then have "fm_get (issued_records (co_root co)) (k, a) = Some (Pending p)"
      by (rule cleaned_view_pending_back [OF view])
    from pending_unexpired_unique [OF ok this] idle show False by simp
  qed
  have dom1: "dom (fm_get (issued_records (co_root co1))) \<subseteq> dom (fm_get (issued_records (co_root co)))"
    by (rule cleaned_view_dom [OF view])
  have space1: "fm_len (issued_records (co_root co1)) < cfg_issued_response_capacity (co_config co1)
      \<or> (\<exists>key c. fm_get (issued_records (co_root co1)) key = Some (Complete c))"
  proof (rule disjCI)
    assume none: "\<not> (\<exists>key c. fm_get (issued_records (co_root co1)) key = Some (Complete c))"
    show "fm_len (issued_records (co_root co1)) < cfg_issued_response_capacity (co_config co1)"
    proof (cases "\<exists>key c. fm_get (issued_records (co_root co)) key = Some (Complete c)")
      case True
      then obtain key c where c: "fm_get (issued_records (co_root co)) key = Some (Complete c)" by blast
      have "fm_get (issued_records (co_root co1)) key = None"
      proof (rule ccontr)
        assume "fm_get (issued_records (co_root co1)) key \<noteq> None"
        then obtain r where r: "fm_get (issued_records (co_root co1)) key = Some r" by blast
        have "r = retain_record (io_cleanup_monotonic_ns io) (Complete c)"
          by (rule cleaned_view_back [OF view r]) (use c in simp)
        then have "\<exists>c'. r = Complete c'" by simp
        with none r show False by blast
      qed
      with c dom1 have "dom (fm_get (issued_records (co_root co1))) \<subset> dom (fm_get (issued_records (co_root co)))"
        by blast
      then have "fm_len (issued_records (co_root co1)) < fm_len (issued_records (co_root co))"
        by (simp add: fm_len_card psubset_card_mono)
      with coordinator_ok_root [OF ok] cfg1 show ?thesis
        by (simp add: root_ok_def candidate_ok_def inv_bounds_def)
    next
      case False
      with space fm_len_mono [OF dom1] cfg1 show ?thesis by simp
    qed
  qed
  obtain ev co2 where ev: "issued_capacity_eviction_candidate (co_root co1) (cfg_issued_response_capacity (co_config co1)) = Inr ev"
    "(case ev of None \<Rightarrow> (co1, Inr ()) | Some c \<Rightarrow> publish io 1 Cleanup None [] c co1) = (co2, Inr ())"
    and ok2: "coordinator_ok co2" and cfg2: "co_config co2 = co_config co1"
    and space2: "fm_len (issued_records (co_root co2)) < cfg_issued_response_capacity (co_config co1)"
    and sub: "fm_get (issued_records (co_root co2)) \<subseteq>\<^sub>m fm_get (issued_records (co_root co1))"
    and pend2: "pending_request_by_state (co_root co2) = pending_request_by_state (co_root co1)"
    and revs: "fm_get (state_revisions (co_root co2)) \<subseteq>\<^sub>m fm_get (state_revisions (co_root co1))"
    by (rule evict_for_space [OF ok1 hook space1])
  have none2: "fm_get (issued_records (co_root co2)) (k, q) = None"
    using map_le_implies_dom_le [OF sub] none1 by blast
  have "dom (fm_get (state_revisions (co_root co2))) \<subseteq> dom (fm_get (state_revisions (co_root co)))"
    using map_le_implies_dom_le [OF revs] map_le_implies_dom_le [OF cleanup_revisions_sub [OF ok cl]] by blast
  then have "fm_len (state_revisions (co_root co2)) \<le> fm_len (state_revisions (co_root co))" by (rule fm_len_mono)
  with room cfg1 cfg2 have room2: "fm_len (state_revisions (co_root co2)) < cfg_state_revision_capacity (co_config co2)"
    by simp
  have "existing_reservation_result (co_root co1) k q h e = Inr None"
    using none1 idle1 by (simp add: existing_reservation_result_def)
  with cl ev have via: "reserve_reply io k q h e co = reserve_tail io k q h e co2"
    by (simp add: reserve_reply_def reserve_tail_def)
  let ?rv = "current_revision (co_config co2) (co_root co2) k (io_epoch_token io) (io_monotonic_ns io)"
  obtain co' where tail: "reserve_tail io k q h e co2 = (co', Inr (NewReplyReservation
        \<lparr>nr_state_key = k, nr_request_id = q, nr_request_hash = h, nr_replay_eligible = e,
         nr_owner_token = io_token io, nr_revision_epoch = sr_revision_epoch ?rv, nr_state_revision = sr_revision ?rv\<rparr>))"
      "coordinator_ok co'"
      "fm_get (issued_records (co_root co')) = (fm_get (issued_records (co_root co2)))((k, q) \<mapsto>
        Pending (reservation_record (co_config co2) k q h e ?rv (io_monotonic_ns io) (io_token io) (io_epoch_ms io)))"
      "fm_get (pending_request_by_state (co_root co')) k = Some (k, q)"
      "fm_get (state_revisions (co_root co')) k = Some ?rv"
      "conversation_turns (co_root co') = conversation_turns (co_root co2) \<and>
       clarification_records (co_root co') = clarification_records (co_root co2) \<and>
       prepared_feedback_tokens (co_root co') = prepared_feedback_tokens (co_root co2) \<and>
       feedback_receipts (co_root co') = feedback_receipts (co_root co2)"
    by (rule reserve_tail_succeeds [OF ok2 hook none2 idle1 [folded pend2] space2 [folded cfg2] room2, of h e])
  show ?thesis
    by (intro exI conjI, rule via [unfolded tail(1)], rule tail(2), simp, simp add: tail(3),
        simp_all add: reservation_record_def tail(4,5))
qed

text \<open>C10 A reservation succeeds whenever it may: for an idle conversation and a request that is not
  issued, without hook faults, with a complete record to evict or room for one more and with room for
  the conversation's revision, the client gets a reservation bound to its token and to the current
  revision, and the pending record is filed under the conversation.\<close>
theorem reservation_succeeds:
  assumes ok: "coordinator_ok co" and hook: "\<And>i op. io_fault io i op = None"
    and none: "fm_get (issued_records (co_root co)) (k, q) = None"
    and idle: "fm_get (pending_request_by_state (co_root co)) k = None"
    and space: "fm_len (issued_records (co_root co)) < cfg_issued_response_capacity (co_config co)
      \<or> (\<exists>key c. fm_get (issued_records (co_root co)) key = Some (Complete c))"
    and room: "fm_len (state_revisions (co_root co)) < cfg_state_revision_capacity (co_config co)"
  shows "\<exists>co' nr p. reserve_reply io k q h e co = (co', Inr (NewReplyReservation nr))
    \<and> coordinator_ok co'
    \<and> nr_owner_token nr = io_token io
    \<and> fm_get (issued_records (co_root co')) (k, q) = Some (Pending p)
    \<and> pr_owner_token p = io_token io \<and> pr_request_hash p = h \<and> pr_replay_eligible p = e
    \<and> fm_get (pending_request_by_state (co_root co')) k = Some (k, q)
    \<and> (\<exists>rv. fm_get (state_revisions (co_root co')) k = Some rv
          \<and> nr_revision_epoch nr = sr_revision_epoch rv \<and> nr_state_revision nr = sr_revision rv)"
  by (rule reserve_reply_succeeds [OF assms])

section \<open>Commit\<close>

lemma enforce_session_maps:
  assumes "enforce_session_capacity c capacity = Inr r"
  shows "issued_records r = issued_records c" "pending_request_by_state r = pending_request_by_state c"
    "response_index r = response_index c" "action_index r = action_index c"
    "prepared_feedback_tokens r = prepared_feedback_tokens c" "feedback_receipts r = feedback_receipts c"
    "action_ledger_records r = action_ledger_records c" "audit_records r = audit_records c"
    "root_revision r = root_revision c"
    "fm_get (state_revisions r) = fm_get (state_revisions c) |` pinned_state_keys r"
  using assms by (auto simp: enforce_session_capacity_def res_simps)

lemma publish_Inl: "publish io i op k ks cand co = (co', Inl e) \<Longrightarrow> co_root co' = co_root co"
  by (auto simp: publish_def Let_def split: sum.splits option.splits if_splits)

lemma commit_reply_outcome:
  assumes ok: "coordinator_ok co" and chk: "check_reply_commit_proposal p = Inr ()"
    and op: "commit_reply sha io p co = (co', Inr response)"
  obtains pending revision audit cand where
      "fm_get (issued_records (co_root co)) (rp_state_key p, rp_request_id p) = Some (Pending pending)"
    and "pr_owner_token pending = rp_owner_token p"
    and "pr_request_hash pending = rp_request_hash p" "pr_replay_eligible pending = rp_replay_eligible p"
    and "fm_get (state_revisions (co_root co)) (rp_state_key p) = Some revision"
    and "sr_revision_epoch revision = rp_expected_revision_epoch p"
    and "sr_revision revision = rp_expected_state_revision p"
    and "response = issue_response_ids (io_response_hex io) (io_action_hex io) (rp_response p)"
    and "enforce_session_capacity
           (committed_root sha (co_config co) (co_root co) p revision response audit (io_monotonic_ns io) (io_epoch_ms io))
           (cfg_conversation_max_sessions (co_config co)) = Inr cand"
    and "co_root co' = published_root cand" "coordinator_ok co'" "co_config co' = co_config co"
proof -
  let ?cr = "commit_reply_candidate sha (co_config co) (co_root co) p (io_response_hex io)
             (io_action_hex io) (io_monotonic_ns io) (io_epoch_ms io)"
  from op obtain cand where cr: "?cr = Inr (cand, response)"
    and pub: "publish io 0 Reply_commit (Some (rp_state_key p)) [rp_state_key p] cand co = (co', Inr ())"
    by (cases ?cr) (auto simp: commit_reply_def co_bind_def split: prod.splits sum.splits)
  from ok chk cr have "candidate_ok (co_config co) cand" "root_revision cand = root_revision (co_root co) + 1"
    using commit_reply_ok [of "co_config co" "co_root co" p] by (auto simp: coordinator_ok_def)
  from publish_cases [OF ok this pub] have p: "co_root co' = published_root cand" "coordinator_ok co'"
    "co_config co' = co_config co" by auto
  show thesis
    by (rule commit_reply_cases [OF cr], rule that) (assumption | rule p)+
qed

lemma lookup_complete:
  assumes "coordinator_ok co" "fm_get (issued_records (co_root co)) (k, q) = Some (Complete c)"
  shows "lookup_issued_response co k (resp_id (cr_response c)) = IssuedFound c"
proof -
  have "fm_get (response_index (co_root co)) (resp_id (cr_response c)) = Some (k, q)"
    using coordinator_ok_indexes [OF assms(1)] assms(2) unfolding inv_response_def by blast
  with assms(2) show ?thesis by (simp add: lookup_issued_response_def lookup_found_iff)
qed

lemma revision_pinned:
  assumes ok: "coordinator_ok co" and "fm_get (issued_records (co_root co)) (k, q) = Some r"
  shows "k \<in> dom (fm_get (state_revisions (co_root co)))"
proof -
  from assms(2) have "k \<in> pinned_state_keys (co_root co)" unfolding mem_pinned by auto
  with coordinator_ok_root [OF ok] show ?thesis by (simp add: root_ok_def)
qed

lemma commit_publishes:
  assumes en: "enforce_session_capacity
           (committed_root sha cfg root p revision response audit now epoch) capacity = Inr cand"
    and root: "co_root co' = published_root cand" and ok': "coordinator_ok co'"
  defines "c \<equiv> complete_record cfg p (bumped_revision cfg revision now) response now epoch"
  shows "fm_get (issued_records (co_root co')) =
      (fm_get (issued_records root))((rp_state_key p, rp_request_id p) \<mapsto> Complete c)"
    and "fm_get (pending_request_by_state (co_root co')) = (fm_get (pending_request_by_state root))(rp_state_key p := None)"
    and "fm_get (state_revisions (co_root co')) (rp_state_key p) = Some (bumped_revision cfg revision now)"
    and "prepared_feedback_tokens (co_root co') = prepared_feedback_tokens root"
    and "feedback_receipts (co_root co') = feedback_receipts root"
    and "lookup_issued_response co' (rp_state_key p) (resp_id response) = IssuedFound c"
proof -
  let ?c = "committed_root sha cfg root p revision response audit now epoch"
  note m = enforce_session_maps [OF en]
  show im: "fm_get (issued_records (co_root co')) =
      (fm_get (issued_records root))((rp_state_key p, rp_request_id p) \<mapsto> Complete c)"
    by (simp add: root m committed_root_def Let_def c_def)
  show "fm_get (pending_request_by_state (co_root co')) = (fm_get (pending_request_by_state root))(rp_state_key p := None)"
    by (simp add: root m committed_root_def Let_def restrict_map_def fun_eq_iff)
  show "prepared_feedback_tokens (co_root co') = prepared_feedback_tokens root"
    "feedback_receipts (co_root co') = feedback_receipts root"
    by (simp_all add: root m committed_root_def Let_def)
  have "rp_state_key p \<in> dom (fm_get (state_revisions (co_root co')))"
    by (rule revision_pinned [OF ok', of _ "rp_request_id p"]) (simp add: im)
  then show "fm_get (state_revisions (co_root co')) (rp_state_key p) = Some (bumped_revision cfg revision now)"
    by (auto simp: root published_revisions m(10) committed_root_def Let_def restrict_map_def split: if_splits)
  have "fm_get (issued_records (co_root co')) (rp_state_key p, rp_request_id p) = Some (Complete c)"
    by (simp add: im)
  from lookup_complete [OF ok' this] show "lookup_issued_response co' (rp_state_key p) (resp_id response) = IssuedFound c"
    by (simp add: c_def complete_record_def)
qed

text \<open>C4 A commit is all or nothing. When it succeeds the proposal owned the pending record and was
  made at the current revision; the record is now complete with the issued response, the only change
  among the issued records, the conversation is idle again, its revision is the next one of the same
  epoch, and a lookup of the response finds the record. When it fails the root is unchanged.\<close>
theorem commit_reply_all_or_nothing:
  assumes ok: "coordinator_ok co" and chk: "check_reply_commit_proposal p = Inr ()"
  shows "case commit_reply sha io p co of
      (co', Inl e) \<Rightarrow> co_root co' = co_root co
    | (co', Inr response) \<Rightarrow> \<exists>pending revision c.
        fm_get (issued_records (co_root co)) (rp_state_key p, rp_request_id p) = Some (Pending pending)
        \<and> pr_owner_token pending = rp_owner_token p \<and> pr_request_hash pending = rp_request_hash p
        \<and> fm_get (state_revisions (co_root co)) (rp_state_key p) = Some revision
        \<and> sr_revision_epoch revision = rp_expected_revision_epoch p
        \<and> sr_revision revision = rp_expected_state_revision p
        \<and> response = issue_response_ids (io_response_hex io) (io_action_hex io) (rp_response p)
        \<and> cr_response c = response \<and> cr_effects c = derive_issued_effects response
        \<and> cr_request_hash c = rp_request_hash p
        \<and> fm_get (issued_records (co_root co')) = (fm_get (issued_records (co_root co)))
            ((rp_state_key p, rp_request_id p) \<mapsto> Complete c)
        \<and> fm_get (pending_request_by_state (co_root co')) (rp_state_key p) = None
        \<and> fm_get (state_revisions (co_root co')) (rp_state_key p) =
            Some (bumped_revision (co_config co) revision (io_monotonic_ns io))
        \<and> lookup_issued_response co' (rp_state_key p) (resp_id response) = IssuedFound c"
proof -
  obtain co' r where op: "commit_reply sha io p co = (co', r)" by fastforce
  show ?thesis
  proof (cases r)
    case (Inl e)
    have "co_root co' = co_root co"
      using op Inl
      by (auto simp: commit_reply_def co_bind_def split: sum.splits prod.splits dest: publish_Inl)
    with op Inl show ?thesis by simp
  next
    case (Inr response)
    show ?thesis
    proof (rule commit_reply_outcome [OF ok chk op [unfolded Inr]])
      fix pending revision audit cand
      assume a: "fm_get (issued_records (co_root co)) (rp_state_key p, rp_request_id p) = Some (Pending pending)"
        "pr_owner_token pending = rp_owner_token p" "pr_request_hash pending = rp_request_hash p"
        "fm_get (state_revisions (co_root co)) (rp_state_key p) = Some revision"
        "sr_revision_epoch revision = rp_expected_revision_epoch p"
        "sr_revision revision = rp_expected_state_revision p"
        "response = issue_response_ids (io_response_hex io) (io_action_hex io) (rp_response p)"
        and en: "enforce_session_capacity (committed_root sha (co_config co) (co_root co) p revision response audit
            (io_monotonic_ns io) (io_epoch_ms io)) (cfg_conversation_max_sessions (co_config co)) = Inr cand"
        and root: "co_root co' = published_root cand" "coordinator_ok co'"
      let ?c = "complete_record (co_config co) p (bumped_revision (co_config co) revision (io_monotonic_ns io))
        response (io_monotonic_ns io) (io_epoch_ms io)"
      have c: "cr_response ?c = response" "cr_effects ?c = derive_issued_effects response"
        "cr_request_hash ?c = rp_request_hash p" by (simp_all add: complete_record_def)
      note m = commit_publishes [OF en root]
      show ?thesis
        unfolding op Inr prod.case sum.case
        by (intro exI conjI, rule a(1), rule a(2), rule a(3), rule a(4), rule a(5), rule a(6), rule a(7),
            rule c(1), rule c(2), rule c(3), rule m(1), simp add: m(2), rule m(3), rule m(6))
    qed
  qed
qed

text \<open>A stale or foreign writer cannot commit: unless the proposal carries the owner token of the
  pending record it names and was made at the conversation's current revision, the commit raises and
  changes nothing, the journal included.\<close>
theorem stale_reply_commit_refused:
  "(\<exists>e. commit_reply sha io p co = (co, Inl (CoordinatorError e)))
   \<or> (\<exists>pending revision.
        fm_get (issued_records (co_root co)) (rp_state_key p, rp_request_id p) = Some (Pending pending)
        \<and> pr_owner_token pending = rp_owner_token p
        \<and> fm_get (state_revisions (co_root co)) (rp_state_key p) = Some revision
        \<and> sr_revision_epoch revision = rp_expected_revision_epoch p
        \<and> sr_revision revision = rp_expected_state_revision p)"
  by (auto simp: commit_reply_def commit_reply_candidate_def
      split: option.splits issued_response_record.splits if_splits)

lemma reserve_complete:
  assumes "cleanup_locked io 0 co = (co1, Inr n)"
    and "fm_get (issued_records (co_root co1)) (k, q) = Some (Complete c)"
  shows "reserve_reply io k q h e co = (co1,
    if h \<noteq> cr_request_hash c \<or> e \<noteq> cr_replay_eligible c \<or> \<not> e
    then Inl (CoordinatorError ''request_id_conflict'')
    else Inr (CompletedReplyReplay \<lparr>cp_state_key = k, cp_request_id = q, cp_request_hash = h,
      cp_response = cr_response c, cp_issued_at_epoch_ms = cr_issued_at_epoch_ms c,
      cp_issued_record_revision = cr_record_revision c\<rparr>))"
  using assms by (auto simp: reserve_reply_def existing_reservation_result_def)

text \<open>C7 A committed reply is replayed, not recomputed: until the record expires, the same request
  gets the response that was committed, and the same request id with another hash is a conflict.
  Either way no new reservation is made.\<close>
theorem committed_reply_is_replayed:
  assumes ok: "coordinator_ok co" and chk: "check_reply_commit_proposal p = Inr ()"
    and op: "commit_reply sha io p co = (co', Inr response)"
    and eligible: "rp_replay_eligible p" and hook: "io_fault io' 0 Cleanup = None"
    and live: "io_cleanup_monotonic_ns io' < io_monotonic_ns io + cfg_issued_ttl_ns (co_config co)"
  shows "\<exists>r. snd (reserve_reply io' (rp_state_key p) (rp_request_id p) h True co') =
     (if h = rp_request_hash p then Inr (CompletedReplyReplay r) else Inl (CoordinatorError ''request_id_conflict''))
     \<and> cp_response r = response \<and> cp_issued_record_revision r = 1"
proof (rule commit_reply_outcome [OF ok chk op])
  fix pending revision audit cand
  assume en: "enforce_session_capacity (committed_root sha (co_config co) (co_root co) p revision response audit
      (io_monotonic_ns io) (io_epoch_ms io)) (cfg_conversation_max_sessions (co_config co)) = Inr cand"
    and root: "co_root co' = published_root cand" "coordinator_ok co'"
  let ?c = "complete_record (co_config co) p (bumped_revision (co_config co) revision (io_monotonic_ns io))
    response (io_monotonic_ns io) (io_epoch_ms io)"
  from commit_publishes(1) [OF en root]
  have im: "fm_get (issued_records (co_root co')) (rp_state_key p, rp_request_id p) = Some (Complete ?c)" by simp
  from cleanup_returns [OF root(2) hook] obtain co1 n where cl: "cleanup_locked io' 0 co' = (co1, Inr n)" .
  from cleanup_meets_view [OF root(2) cl] have view: "cleaned_view (co_config co') (io_cleanup_monotonic_ns io')
      (io_cleanup_epoch_ms io') (co_root co') (co_root co1)" by simp
  have "fm_get (issued_records (co_root co1)) (rp_state_key p, rp_request_id p) = Some (Complete ?c)"
    using live by (simp add: cleaned_view_issued [OF view] im unexpired_def complete_record_def live_receipts_def)
  from reserve_complete [OF cl this, of h True] eligible show ?thesis
    by (simp add: complete_record_def) (metis completed_reply_replay.select_convs(4,6))
qed

section \<open>Abort\<close>

text \<open>C11 An abort needs the owner token. With another token, or for a request that is not pending, it
  changes nothing; with the right one it removes the pending record and frees the conversation, and
  every other record, revision and transcript stays.\<close>
theorem abort_needs_owner:
  assumes ok: "coordinator_ok co"
  shows "case abort_reply io k q token co of
      (co', Inl e) \<Rightarrow> co_root co' = co_root co
    | (co', Inr _) \<Rightarrow> (\<exists>p. fm_get (issued_records (co_root co)) (k, q) = Some (Pending p) \<and> pr_owner_token p = token)
        \<and> fm_get (issued_records (co_root co')) = (fm_get (issued_records (co_root co)))((k, q) := None)
        \<and> fm_get (pending_request_by_state (co_root co')) = (fm_get (pending_request_by_state (co_root co)))(k := None)
        \<and> conversation_turns (co_root co') = conversation_turns (co_root co)
        \<and> clarification_records (co_root co') = clarification_records (co_root co)
        \<and> response_index (co_root co') = response_index (co_root co)
        \<and> action_ledger_records (co_root co') = action_ledger_records (co_root co)"
proof (cases "abort_reply_candidate (co_root co) k q token")
  case (Inl e)
  then show ?thesis by (simp add: abort_reply_def)
next
  case (Inr cand)
  obtain co' r where op: "abort_reply io k q token co = (co', r)" by fastforce
  with Inr have pub: "publish io 0 Reply_abort (Some k) [k] cand co = (co', r)"
    by (simp add: abort_reply_def)
  have "candidate_ok (co_config co) cand \<and> root_revision cand = root_revision (co_root co) + 1"
    using ok Inr by (intro abort_ok) (auto simp: coordinator_ok_def)
  with publish_cases [OF ok _ _ pub]
  have out: "(r = Inr () \<and> co_root co' = published_root cand) \<or> (\<exists>e. r = Inl e \<and> co_root co' = co_root co)"
    by blast
  have led: "fm_len (action_ledger_records (co_root co)) \<le> action_ledger_capacity"
    using ok by (simp add: coordinator_ok_def root_ok_def)
  have cand: "(\<exists>p. fm_get (issued_records (co_root co)) (k, q) = Some (Pending p) \<and> pr_owner_token p = token)
     \<and> cand = (co_root co)\<lparr>root_revision := root_revision (co_root co) + 1,
         issued_records := without_keys (issued_records (co_root co)) {(k, q)},
         pending_request_by_state := without_keys (pending_request_by_state (co_root co)) {k}\<rparr>"
    using Inr by (auto simp: abort_reply_candidate_def split: option.splits issued_response_record.splits if_splits)
  have del: "m |` (- {x}) = m(x := None)" for m :: "'k \<Rightarrow> 'v option" and x
    by (simp add: restrict_map_def fun_eq_iff)
  show ?thesis
  proof (cases r)
    case (Inl e)
    with out op show ?thesis by simp
  next
    case (Inr u)
    with out have "co_root co' = published_root cand" by auto
    with cand have eqs: "fm_get (issued_records (co_root co')) = fm_get (issued_records (co_root co)) |` (- {(k, q)})"
      "fm_get (pending_request_by_state (co_root co')) = fm_get (pending_request_by_state (co_root co)) |` (- {k})"
      "conversation_turns (co_root co') = conversation_turns (co_root co)"
      "clarification_records (co_root co') = clarification_records (co_root co)"
      "response_index (co_root co') = response_index (co_root co)"
      "action_ledger_records (co_root co') = action_ledger_records (co_root co)"
      by (simp_all add: ledger_loop_fits [OF led])
    with cand op Inr show ?thesis by (simp add: restrict_map_def fun_eq_iff)
  qed
qed

end
