(* ===== verification/Feedback_Theorems.thy ===== *)
theory Feedback_Theorems
  imports Reply_Theorems
begin

text \<open>
  The life of feedback on the coordinator: a prepared token is committed at most once, its effects are
  applied to the record it was prepared for, and a repeated request is answered from the receipt.
\<close>

section \<open>What a commit publishes\<close>

lemma feedback_commit_facts:
  assumes ok: "root_ok cfg root" and gen: "genuine_preparation root p"
    and inp: "feedback_commit_inputs root p now = Inr (c, revision)"
  shows "fm_get (prepared_feedback_tokens root) (pf_state_key p, pf_feedback_id p) \<noteq> None"
    and "fm_get (issued_records root) (pf_state_key p, pf_request_id p) = Some (Complete c)"
    and "resp_id (cr_response c) = pf_response_id p"
    and "fm_get (state_revisions root) (pf_state_key p) = Some revision"
    and "\<forall>t\<in>set (pf_transitions p). transition_ok (cr_effects c) t"
    and "effects_ok (cr_effects c)"
    and "now < pf_expires_at_monotonic_ns p"
    and "sr_revision revision = pf_expected_state_revision p"
    and "cr_record_revision c = pf_expected_issued_record_revision p"
proof -
  obtain stored q where st: "fm_get (prepared_feedback_tokens root) (pf_state_key p, pf_feedback_id p) = Some stored"
    "pf_commit_token (tk_preparation stored) = pf_commit_token p"
    and now: "now < pf_expires_at_monotonic_ns p"
    and rid: "fm_get (response_index root) (pf_response_id p) = Some (pf_state_key p, q)"
    and im: "fm_get (issued_records root) (pf_state_key p, q) = Some (Complete c)"
    and rv: "fm_get (state_revisions root) (pf_state_key p) = Some revision"
    and cur: "sr_revision revision = pf_expected_state_revision p"
    and rr: "cr_record_revision c = pf_expected_issued_record_revision p"
    by (rule feedback_commit_inputs_Inr [OF inp])
  from ok have idx: "inv_issued (fm_get (issued_records root))"
    "inv_response (fm_get (issued_records root)) (fm_get (response_index root))"
    and toks: "inv_tokens (fm_get (issued_records root)) (fm_get (state_revisions root))
       (fm_get (prepared_feedback_tokens root))"
    by (simp_all add: root_ok_def candidate_ok_def indexes_ok_def)
  show resp: "resp_id (cr_response c) = pf_response_id p"
    using idx(2) rid im unfolding inv_response_def by (metis issued_response_record.inject(2) option.inject)
  have "tk_preparation stored = p" using gen st by (simp add: genuine_preparation_def)
  with toks st(1) have "token_ok (fm_get (issued_records root)) (fm_get (state_revisions root))
      (pf_state_key p) (pf_feedback_id p) p"
    unfolding inv_tokens_def by metis
  with rv cur im resp have q: "q = pf_request_id p"
    and "\<forall>t\<in>set (pf_transitions p). transition_ok (cr_effects c) t"
    unfolding token_ok_def by auto
  then show "\<forall>t\<in>set (pf_transitions p). transition_ok (cr_effects c) t" by simp
  show "effects_ok (cr_effects c)" using inv_issued_complete [OF idx(1) im] by simp
  show "fm_get (issued_records root) (pf_state_key p, pf_request_id p) = Some (Complete c)" using im q by simp
  show "fm_get (prepared_feedback_tokens root) (pf_state_key p, pf_feedback_id p) \<noteq> None" using st(1) by simp
qed (use feedback_commit_inputs_Inr [OF inp] in blast)+

lemma commit_feedback_outcome:
  assumes ok: "coordinator_ok co" and gen: "genuine_preparation (co_root co) p"
    and op: "commit_feedback sha io p co = (co', Inr result)"
  obtains c revision where "feedback_commit_inputs (co_root co) p (io_monotonic_ns io) = Inr (c, revision)"
    and "co_root co' = published_root
      (feedback_root sha (co_config co) (co_root co) p c revision (io_monotonic_ns io) (io_epoch_ms io))"
    and "coordinator_ok co'" "co_config co' = co_config co"
    and "result = \<lparr>fcr_receipt_id = fr_receipt_id (commit_receipt sha (co_config co) p (cr_record_revision c + 1)
            (io_monotonic_ns io) (io_epoch_ms io)),
          fcr_stored = fr_stored (commit_receipt sha (co_config co) p (cr_record_revision c + 1)
            (io_monotonic_ns io) (io_epoch_ms io)),
          fcr_replayed = False\<rparr>"
proof -
  let ?cf = "commit_feedback_candidate sha (co_config co) (co_root co) p (io_monotonic_ns io) (io_epoch_ms io)"
  show thesis
  proof (cases ?cf)
    case (Inl e)
    with op show ?thesis
      by (auto simp: commit_feedback_def co_bind_def split: if_splits prod.splits sum.splits)
  next
    case (Inr x)
    obtain cand res where x: "x = (cand, res)" by (cases x)
    from op Inr x have pub: "publish io 0 Feedback_commit (Some (pf_state_key p)) [pf_state_key p] cand co = (co', Inr ())"
      and res: "res = result"
      by (auto simp: commit_feedback_def co_bind_def split: prod.splits sum.splits)
    note cf = Inr [unfolded x]
    from ok gen cf have "candidate_ok (co_config co) cand" "root_revision cand = root_revision (co_root co) + 1"
      using commit_feedback_ok [of "co_config co" "co_root co" p] by (auto simp: coordinator_ok_def)
    from publish_cases [OF ok this pub] have out: "co_root co' = published_root cand" "coordinator_ok co'"
      "co_config co' = co_config co" by auto
    show ?thesis
      by (rule commit_feedback_cases [OF cf], rule that) (use out res in auto)
  qed
qed

lemma feedback_publishes:
  assumes root: "co_root co' = published_root (feedback_root sha cfg root p c revision now epoch)"
    and ok': "coordinator_ok co'"
  shows "fm_get (issued_records (co_root co')) = (fm_get (issued_records root))((pf_state_key p, pf_request_id p) \<mapsto>
      Complete (updated_record c p (commit_receipt sha cfg p (cr_record_revision c + 1) now epoch)))"
    and "fm_get (feedback_receipts (co_root co')) = (fm_get (feedback_receipts root))
      ((pf_state_key p, pf_feedback_id p) \<mapsto> commit_receipt sha cfg p (cr_record_revision c + 1) now epoch)"
    and "fm_get (prepared_feedback_tokens (co_root co')) =
      (fm_get (prepared_feedback_tokens root))((pf_state_key p, pf_feedback_id p) := None)"
    and "fm_get (state_revisions (co_root co')) (pf_state_key p) = Some (next_state_revision cfg revision now)"
    and "conversation_turns (co_root co') = conversation_turns root"
proof -
  show im: "fm_get (issued_records (co_root co')) = (fm_get (issued_records root))((pf_state_key p, pf_request_id p) \<mapsto>
      Complete (updated_record c p (commit_receipt sha cfg p (cr_record_revision c + 1) now epoch)))"
    by (simp add: root feedback_root_def Let_def)
  show "fm_get (feedback_receipts (co_root co')) = (fm_get (feedback_receipts root))
      ((pf_state_key p, pf_feedback_id p) \<mapsto> commit_receipt sha cfg p (cr_record_revision c + 1) now epoch)"
    "conversation_turns (co_root co') = conversation_turns root"
    by (simp_all add: root feedback_root_def Let_def)
  show "fm_get (prepared_feedback_tokens (co_root co')) =
      (fm_get (prepared_feedback_tokens root))((pf_state_key p, pf_feedback_id p) := None)"
    by (simp add: root feedback_root_def Let_def restrict_map_def fun_eq_iff)
  have "pf_state_key p \<in> dom (fm_get (state_revisions (co_root co')))"
    by (rule revision_pinned [OF ok', of _ "pf_request_id p"]) (simp add: im)
  then show "fm_get (state_revisions (co_root co')) (pf_state_key p) = Some (next_state_revision cfg revision now)"
    by (auto simp: root published_revisions feedback_root_def Let_def restrict_map_def split: if_splits)
qed

section \<open>Properties\<close>

text \<open>C5 Feedback is applied once, to the record it was prepared for. A successful commit consumed a
  stored token at the revisions the token names; it applies the prepared transitions to the effects of
  that record and to no other record, advances the record revision and the state revision by one,
  stores the receipt it reports and removes the token, so that committing the same preparation again
  fails with \<open>feedback_token_not_found\<close> and changes nothing.\<close>
theorem feedback_applied_once:
  assumes ok: "coordinator_ok co" and gen: "genuine_preparation (co_root co) p"
    and op: "commit_feedback sha io p co = (co', Inr result)"
  shows "\<exists>c c' receipt.
      fm_get (prepared_feedback_tokens (co_root co)) (pf_state_key p, pf_feedback_id p) \<noteq> None
    \<and> fm_get (issued_records (co_root co)) (pf_state_key p, pf_request_id p) = Some (Complete c)
    \<and> cr_record_revision c = pf_expected_issued_record_revision p
    \<and> fm_get (issued_records (co_root co')) =
        (fm_get (issued_records (co_root co)))((pf_state_key p, pf_request_id p) \<mapsto> Complete c')
    \<and> cr_effects c' = apply_effect_transitions (cr_effects c) (pf_transitions p)
    \<and> cr_response c' = cr_response c \<and> cr_record_revision c' = cr_record_revision c + 1
    \<and> map_option sr_revision (fm_get (state_revisions (co_root co')) (pf_state_key p)) =
        Some (pf_expected_state_revision p + 1)
    \<and> fm_get (feedback_receipts (co_root co')) (pf_state_key p, pf_feedback_id p) = Some receipt
    \<and> fr_receipt_id receipt = fcr_receipt_id result \<and> fr_feedback_hash receipt = pf_feedback_hash p
    \<and> commit_feedback sha io' p co' = (co', Inl (CoordinatorError ''feedback_token_not_found''))"
proof (rule commit_feedback_outcome [OF ok gen op])
  fix c revision
  assume inp: "feedback_commit_inputs (co_root co) p (io_monotonic_ns io) = Inr (c, revision)"
    and root: "co_root co' = published_root
      (feedback_root sha (co_config co) (co_root co) p c revision (io_monotonic_ns io) (io_epoch_ms io))"
      "coordinator_ok co'"
    and res: "result = \<lparr>fcr_receipt_id = fr_receipt_id (commit_receipt sha (co_config co) p (cr_record_revision c + 1)
            (io_monotonic_ns io) (io_epoch_ms io)),
          fcr_stored = fr_stored (commit_receipt sha (co_config co) p (cr_record_revision c + 1)
            (io_monotonic_ns io) (io_epoch_ms io)),
          fcr_replayed = False\<rparr>"
  let ?r = "commit_receipt sha (co_config co) p (cr_record_revision c + 1) (io_monotonic_ns io) (io_epoch_ms io)"
  let ?c' = "updated_record c p ?r"
  note f = feedback_commit_facts [OF coordinator_ok_root [OF ok] gen inp]
  note m = feedback_publishes [OF root]
  have "commit_feedback sha io' p co' = (co', Inl (CoordinatorError ''feedback_token_not_found''))"
    by (simp add: commit_feedback_def commit_feedback_candidate_def feedback_commit_inputs_def m(3)
        requires_prepared_token_drop_def)
  moreover have "map_option sr_revision (fm_get (state_revisions (co_root co')) (pf_state_key p)) =
        Some (pf_expected_state_revision p + 1)"
    by (simp add: m(4) next_state_revision_def f(8))
  moreover have "cr_effects ?c' = apply_effect_transitions (cr_effects c) (pf_transitions p)"
    "cr_response ?c' = cr_response c" "cr_record_revision ?c' = cr_record_revision c + 1"
    by (simp_all add: updated_record_def)
  moreover have "fr_receipt_id ?r = fcr_receipt_id result" "fr_feedback_hash ?r = pf_feedback_hash p"
    by (simp_all add: commit_receipt_def res)
  moreover have "fm_get (feedback_receipts (co_root co')) (pf_state_key p, pf_feedback_id p) = Some ?r"
    by (simp add: m(2))
  ultimately show ?thesis using f(1,2,9) m(1) by blast
qed

lemma cleaned_view_complete:
  assumes "cleaned_view cfg now epoch root root'" "fm_get (issued_records root) key = Some (Complete c)"
    "now < cr_expires_at_monotonic_ns c"
  obtains c' where "fm_get (issued_records root') key = Some (Complete c')"
    "cr_response c' = cr_response c" "cr_request_id c' = cr_request_id c"
proof -
  have "fm_get (issued_records root') key = Some (retain_record now (Complete c))"
    using assms by (simp add: cleaned_view_issued unexpired_def)
  then show thesis by (intro that [of "c\<lparr>cr_receipts := live_receipts now c\<rparr>"]) simp_all
qed

lemma prepare_existing_receipt:
  assumes cl: "cleanup_locked io 0 co = (co1, Inr n)" and ok: "coordinator_ok co1"
    and rec: "fm_get (issued_records (co_root co1)) (k, q) = Some (Complete c)"
    and f: "fb_response_id f = resp_id (cr_response c)" "fb_request_id f = cr_request_id c"
    and receipt: "fm_get (feedback_receipts (co_root co1)) (k, fb_feedback_id f) = Some r"
  shows "prepare_feedback sha io k f co = (co1,
    if fr_feedback_hash r \<noteq> feedback_hash sha f then Inl (CoordinatorError ''feedback_id_conflict'')
    else Inr (FeedbackReceiptReplay \<lparr>rr_state_key = k, rr_feedback_id = fb_feedback_id f,
      rr_feedback_hash = feedback_hash sha f, rr_request_id = fb_request_id f,
      rr_response_id = fb_response_id f, rr_receipt_id = fr_receipt_id r,
      rr_issued_record_revision = fr_issued_record_revision r\<rparr>))"
proof -
  have "resolve_feedback_record (co_root co1) k f = Inr c"
    using lookup_complete [OF ok rec] f
    by (simp add: resolve_feedback_record_def lookup_issued_response_def)
  with cl receipt show ?thesis
    by (simp add: prepare_feedback_def prepare_feedback_candidate_def Let_def)
qed

lemma unexpired_live: "m k = Some v \<Longrightarrow> now < expires v \<Longrightarrow> unexpired expires now m k = Some v"
  by (simp add: unexpired_def)

text \<open>Committed feedback is answered from its receipt: as long as the record and the receipt are
  unexpired, the same feedback prepared again gets the stored receipt id and no token, and another
  feedback under the same id is a conflict.\<close>
theorem committed_feedback_is_replayed:
  assumes ok: "coordinator_ok co" and gen: "genuine_preparation (co_root co) p"
    and op: "commit_feedback sha io p co = (co', Inr result)"
    and f: "fb_feedback_id f = pf_feedback_id p" "fb_response_id f = pf_response_id p"
      "fb_request_id f = pf_request_id p"
    and hook: "io_fault io' 0 Cleanup = None"
    and live: "io_cleanup_monotonic_ns io' < io_monotonic_ns io + cfg_issued_ttl_ns (co_config co)"
    and rec: "\<And>c. lookup_issued_response co (pf_state_key p) (pf_response_id p) = IssuedFound c \<Longrightarrow>
      io_cleanup_monotonic_ns io' < cr_expires_at_monotonic_ns c"
  shows "\<exists>r. snd (prepare_feedback sha io' (pf_state_key p) f co') =
      (if feedback_hash sha f = pf_feedback_hash p then Inr (FeedbackReceiptReplay r)
       else Inl (CoordinatorError ''feedback_id_conflict''))
    \<and> rr_receipt_id r = fcr_receipt_id result"
proof (rule commit_feedback_outcome [OF ok gen op])
  fix c revision
  assume inp: "feedback_commit_inputs (co_root co) p (io_monotonic_ns io) = Inr (c, revision)"
    and root: "co_root co' = published_root
      (feedback_root sha (co_config co) (co_root co) p c revision (io_monotonic_ns io) (io_epoch_ms io))"
      "coordinator_ok co'"
    and res: "result = \<lparr>fcr_receipt_id = fr_receipt_id (commit_receipt sha (co_config co) p (cr_record_revision c + 1)
            (io_monotonic_ns io) (io_epoch_ms io)),
          fcr_stored = fr_stored (commit_receipt sha (co_config co) p (cr_record_revision c + 1)
            (io_monotonic_ns io) (io_epoch_ms io)),
          fcr_replayed = False\<rparr>"
  let ?r = "commit_receipt sha (co_config co) p (cr_record_revision c + 1) (io_monotonic_ns io) (io_epoch_ms io)"
  let ?c' = "updated_record c p ?r"
  note facts = feedback_commit_facts [OF coordinator_ok_root [OF ok] gen inp]
  note m = feedback_publishes [OF root]
  have im: "fm_get (issued_records (co_root co')) (pf_state_key p, pf_request_id p) = Some (Complete ?c')"
    by (simp add: m(1))
  have rm: "fm_get (feedback_receipts (co_root co')) (pf_state_key p, pf_feedback_id p) = Some ?r"
    by (simp add: m(2))
  from cleanup_returns [OF root(2) hook] obtain co1 n where cl: "cleanup_locked io' 0 co' = (co1, Inr n)" .
  from cleanup_meets_view [OF root(2) cl] have view: "cleaned_view (co_config co') (io_cleanup_monotonic_ns io')
      (io_cleanup_epoch_ms io') (co_root co') (co_root co1)" and ok1: "coordinator_ok co1" by simp_all
  have "lookup_issued_response co (pf_state_key p) (pf_response_id p) = IssuedFound c"
    using lookup_complete [OF ok facts(2)] facts(3) by simp
  from rec [OF this] have "io_cleanup_monotonic_ns io' < cr_expires_at_monotonic_ns ?c'"
    by (simp add: updated_record_def)
  then obtain c1 where c1: "fm_get (issued_records (co_root co1)) (pf_state_key p, pf_request_id p) = Some (Complete c1)"
    "cr_response c1 = cr_response ?c'" "cr_request_id c1 = cr_request_id ?c'"
    by (rule cleaned_view_complete [OF view im])
  have "fm_get (feedback_receipts (co_root co1)) (pf_state_key p, pf_feedback_id p) = Some ?r"
  proof -
    have "fm_get (feedback_receipts (co_root co1)) =
        unexpired fr_expires_at_monotonic_ns (io_cleanup_monotonic_ns io') (fm_get (feedback_receipts (co_root co')))"
      using view by (simp add: cleaned_view_def)
    with rm live show ?thesis by (simp add: unexpired_live commit_receipt_def)
  qed
  then have receipt: "fm_get (feedback_receipts (co_root co1)) (pf_state_key p, fb_feedback_id f) = Some ?r"
    by (simp add: f)
  have "inv_issued (fm_get (issued_records (co_root co')))"
    using coordinator_ok_indexes [OF root(2)] by blast
  from inv_issued_complete [OF this im] have "cr_request_id ?c' = pf_request_id p" by blast
  with c1 facts(3) f have ids: "fb_response_id f = resp_id (cr_response c1)" "fb_request_id f = cr_request_id c1"
    by (simp_all add: updated_record_def)
  from prepare_existing_receipt [OF cl ok1 c1(1) ids receipt, of sha] show ?thesis
    by (simp add: res commit_receipt_def) (metis feedback_receipt_replay.select_convs(6))
qed

end
