(* ===== verification/Effect_History.thy ===== *)
theory Effect_History
  imports Feedback_Theorems "HOL-Library.Sublist"
begin

text \<open>
  What a step may do to the effects of an issued response: nothing, except that a commit of feedback
  extends status histories. In particular an executed effect stays as it is for as long as its record
  is kept.
\<close>

definition effect_later :: "issued_effect \<Rightarrow> issued_effect \<Rightarrow> bool" where
  "effect_later e e' = (ie_effect_key e' = ie_effect_key e \<and> ie_action_id e' = ie_action_id e
     \<and> ie_effect_type e' = ie_effect_type e
     \<and> prefix (ie_status_history e) (ie_status_history e')
     \<and> (ie_status e = Some Executed \<longrightarrow> e' = e))"

lemma effect_later_refl [simp]: "effect_later e e"
  by (simp add: effect_later_def)

lemma executed_unchanged:
  assumes es: "effects_ok es" and ts: "\<forall>t\<in>set ts. transition_ok es t"
    and e: "e \<in> set es" "ie_status e = Some Executed"
  shows "apply_effect_transition ts e = e"
proof (cases "transition_by_key ts (ie_effect_key e)")
  case None
  then show ?thesis by (simp add: apply_effect_transition_def)
next
  case (Some t)
  then have "t \<in> set ts" "pt_effect_key t = ie_effect_key e" by (auto dest: transition_by_key_Some)
  with ts obtain e' where e': "find_effect (ie_effect_key e) es = Some e'"
    and step: "pt_is_noop t \<or> status_step_ok (ie_status e') (pt_requested_status t)"
    unfolding transition_ok_def by metis
  from effects_ok_same [OF es e(1) e'] e(2) have "ie_status e' = Some Executed" by simp
  with step have "pt_is_noop t" by (simp add: status_step_ok_def)
  then show ?thesis by (simp add: apply_effect_transition_def Some)
qed

lemma apply_effect_later:
  assumes "effects_ok es" "\<forall>t\<in>set ts. transition_ok es t" "e \<in> set es"
  shows "effect_later e (apply_effect_transition ts e)"
proof -
  have "ie_effect_type (apply_effect_transition ts e) = ie_effect_type e"
    "prefix (ie_status_history e) (ie_status_history (apply_effect_transition ts e))"
    by (auto simp: apply_effect_transition_def split: option.splits)
  with executed_unchanged [OF assms] show ?thesis by (simp add: effect_later_def)
qed

section \<open>Steps that add no complete record\<close>

definition keeps_complete ::
  "(issued_key \<Rightarrow> issued_response_record option) \<Rightarrow> (issued_key \<Rightarrow> issued_response_record option) \<Rightarrow> bool" where
  "keeps_complete im im' = (\<forall>key c'. im' key = Some (Complete c') \<longrightarrow>
     (\<exists>c. im key = Some (Complete c) \<and> cr_response c' = cr_response c \<and> cr_effects c' = cr_effects c))"

lemma keeps_complete_refl [simp]: "keeps_complete im im"
  by (simp add: keeps_complete_def)

lemma keeps_complete_trans: "keeps_complete a b \<Longrightarrow> keeps_complete b c \<Longrightarrow> keeps_complete a c"
  unfolding keeps_complete_def by metis

lemma keeps_complete_sub: "im' \<subseteq>\<^sub>m im \<Longrightarrow> keeps_complete im im'"
  unfolding keeps_complete_def map_le_def by (metis domI)

lemma keeps_complete_removed: "keeps_complete im (removed_map (retain_record now) K im)"
  unfolding keeps_complete_def
proof (intro allI impI)
  fix key c'
  assume "removed_map (retain_record now) K im key = Some (Complete c')"
  then obtain s where s: "im key = Some s" "retain_record now s = Complete c'"
    by (auto simp: removed_map_def split: if_splits option.splits)
  then show "\<exists>c. im key = Some (Complete c) \<and> cr_response c' = cr_response c \<and> cr_effects c' = cr_effects c"
    by (cases s) (auto split: if_splits)
qed

lemma prepare_root_issued:
  "prepare_root_for_publication c cap = Inr r \<Longrightarrow> issued_records r = issued_records c"
  by (auto simp: prepare_root_for_publication_def enforce_state_revision_capacity_def Let_def res_simps
      split: if_splits)

lemma publish_issued:
  "publish io i op k ks cand co = (co', r) \<Longrightarrow>
     issued_records (co_root co') = issued_records (co_root co) \<and> (\<forall>u. r \<noteq> Inr u)
     \<or> issued_records (co_root co') = issued_records cand"
  by (auto simp: publish_def Let_def dest!: prepare_root_issued split: sum.splits option.splits if_splits)

lemma publish_keeps:
  assumes "publish io i op k ks cand co = (co', r)"
    and "keeps_complete (fm_get (issued_records (co_root co))) (fm_get (issued_records cand))"
  shows "keeps_complete (fm_get (issued_records (co_root co))) (fm_get (issued_records (co_root co')))"
  using publish_issued [OF assms(1)] assms(2) by auto

lemma co_bind_result:
  "co_bind m (\<lambda>co _. (co, Inr x)) = (co', r) \<Longrightarrow> fst m = co'"
  by (cases m; cases "snd m") (auto simp: co_bind_def split: sum.splits)

lemma cleanup_keeps:
  assumes "cleanup_locked io i co = (co', r)"
  shows "keeps_complete (fm_get (issued_records (co_root co))) (fm_get (issued_records (co_root co')))"
proof (cases "nothing_expired (co_config co) (io_cleanup_monotonic_ns io) (io_cleanup_epoch_ms io) (co_root co)")
  case True
  with assms show ?thesis by (simp add: cleanup_locked_def cleanup_candidate_def)
next
  case False
  let ?c = "without_unpinned_revisions (cleaned_root (co_config co) (io_cleanup_monotonic_ns io)
    (io_cleanup_epoch_ms io) (co_root co))"
  obtain n where "cleanup_candidate (co_root co) (io_cleanup_monotonic_ns io) (io_cleanup_epoch_ms io)
      (co_config co) = (Some ?c, n)"
    using False by (simp add: cleanup_candidate_def)
  with assms have "fst (publish io i Cleanup None [] ?c co) = co'"
    by (auto simp: cleanup_locked_def dest: co_bind_result)
  then obtain r' where p: "publish io i Cleanup None [] ?c co = (co', r')"
    by (metis prod.collapse)
  have "fm_get (issued_records ?c) = removed_map (retain_record (io_cleanup_monotonic_ns io))
      (expired_records (io_cleanup_monotonic_ns io) (co_root co)) (fm_get (issued_records (co_root co)))"
    by (simp add: cleaned_root_def Let_def retained_issued_get)
  with publish_keeps [OF p] keeps_complete_removed show ?thesis by simp
qed

lemma reserve_candidate_keeps:
  assumes "reserve_reply_candidate cfg root k q h e now et ot epoch = Inr (Some cand, res)"
  shows "keeps_complete (fm_get (issued_records root)) (fm_get (issued_records cand))"
  using reserve_cases [OF assms] by (auto simp: keeps_complete_def)

lemma eviction_keeps:
  assumes "issued_capacity_eviction_candidate root capacity = Inr (Some cand)"
  shows "keeps_complete (fm_get (issued_records root)) (fm_get (issued_records cand))"
  by (rule eviction_cases [OF assms]) (auto intro: keeps_complete_sub simp: map_le_def)

lemma reserve_tail_keeps:
  assumes "reserve_tail io k q h e co = (co', r)"
  shows "keeps_complete (fm_get (issued_records (co_root co))) (fm_get (issued_records (co_root co')))"
proof (cases "reserve_reply_candidate (co_config co) (co_root co) k q h e
             (io_monotonic_ns io) (io_epoch_token io) (io_token io) (io_epoch_ms io)")
  case (Inl e)
  with assms show ?thesis by (simp add: reserve_tail_def)
next
  case (Inr x)
  obtain cand res where x: "x = (cand, res)" by (cases x)
  show ?thesis
  proof (cases cand)
    case None
    with assms Inr x show ?thesis by (simp add: reserve_tail_def)
  next
    case (Some c)
    with assms Inr x have "fst (publish io 2 Reply_reserve (Some k) [k] c co) = co'"
      by (auto simp: reserve_tail_def dest: co_bind_result)
    then obtain r' where p: "publish io 2 Reply_reserve (Some k) [k] c co = (co', r')" by (metis prod.collapse)
    from Inr x Some have rc: "reserve_reply_candidate (co_config co) (co_root co) k q h e
             (io_monotonic_ns io) (io_epoch_token io) (io_token io) (io_epoch_ms io) = Inr (Some c, res)" by simp
    from publish_keeps [OF p reserve_candidate_keeps [OF rc]] show ?thesis .
  qed
qed

lemma reserve_reply_unfold:
  "reserve_reply io k q h e co = co_bind (cleanup_locked io 0 co) (\<lambda>co _.
     case existing_reservation_result (co_root co) k q h e of
       Inl err \<Rightarrow> (co, Inl err)
     | Inr (Some replay) \<Rightarrow> (co, Inr replay)
     | Inr None \<Rightarrow>
       (case issued_capacity_eviction_candidate (co_root co) (cfg_issued_response_capacity (co_config co)) of
          Inl err \<Rightarrow> (co, Inl err)
        | Inr eviction \<Rightarrow>
          co_bind (case eviction of None \<Rightarrow> (co, Inr ()) | Some c \<Rightarrow> publish io 1 Cleanup None [] c co)
            (\<lambda>co _. reserve_tail io k q h e co)))"
  unfolding reserve_reply_def reserve_tail_def ..

lemma co_bind_cases:
  assumes "co_bind m f = (co', r)"
  obtains (failed) err where "m = (co', Inl err)"
  | (returned) co1 x where "m = (co1, Inr x)" "f co1 x = (co', r)"
  using assms by (cases m; cases "snd m") (auto simp: co_bind_def split: sum.splits)

lemma eviction_publish_keeps:
  assumes ev: "issued_capacity_eviction_candidate (co_root co) capacity = Inr eviction"
    and p: "(case eviction of None \<Rightarrow> (co, Inr ()) | Some c \<Rightarrow> publish io 1 Cleanup None [] c co) = (co', r)"
  shows "keeps_complete (fm_get (issued_records (co_root co))) (fm_get (issued_records (co_root co')))"
proof (cases eviction)
  case None
  with p show ?thesis by simp
next
  case (Some c)
  with p have "publish io 1 Cleanup None [] c co = (co', r)" by simp
  then show ?thesis using eviction_keeps [OF ev [unfolded Some]] by (rule publish_keeps)
qed

lemma reserve_keeps:
  assumes "reserve_reply io k q h e co = (co', r)"
  shows "keeps_complete (fm_get (issued_records (co_root co))) (fm_get (issued_records (co_root co')))"
proof (rule co_bind_cases [OF assms [unfolded reserve_reply_unfold]])
  fix err
  assume "cleanup_locked io 0 co = (co', Inl err)"
  then show ?thesis by (rule cleanup_keeps)
next
  fix co1 n
  assume cl: "cleanup_locked io 0 co = (co1, Inr n)"
    and rest: "(case existing_reservation_result (co_root co1) k q h e of
       Inl err \<Rightarrow> (co1, Inl err)
     | Inr (Some replay) \<Rightarrow> (co1, Inr replay)
     | Inr None \<Rightarrow>
       (case issued_capacity_eviction_candidate (co_root co1) (cfg_issued_response_capacity (co_config co1)) of
          Inl err \<Rightarrow> (co1, Inl err)
        | Inr eviction \<Rightarrow>
          co_bind (case eviction of None \<Rightarrow> (co1, Inr ()) | Some c \<Rightarrow> publish io 1 Cleanup None [] c co1)
            (\<lambda>co _. reserve_tail io k q h e co))) = (co', r)"
  let ?ev = "issued_capacity_eviction_candidate (co_root co1) (cfg_issued_response_capacity (co_config co1))"
  note first = cleanup_keeps [OF cl]
  show ?thesis
  proof (cases "existing_reservation_result (co_root co1) k q h e = Inr None \<and> (\<exists>eviction. ?ev = Inr eviction)")
    case False
    with rest have "co' = co1" by (auto split: sum.splits option.splits)
    with first show ?thesis by simp
  next
    case True
    then obtain eviction where ev: "?ev = Inr eviction" by blast
    with True rest have b: "co_bind (case eviction of None \<Rightarrow> (co1, Inr ()) | Some c \<Rightarrow> publish io 1 Cleanup None [] c co1)
            (\<lambda>co _. reserve_tail io k q h e co) = (co', r)" by simp
    show ?thesis
    proof (rule co_bind_cases [OF b])
      fix err
      assume "(case eviction of None \<Rightarrow> (co1, Inr ()) | Some c \<Rightarrow> publish io 1 Cleanup None [] c co1) = (co', Inl err)"
      from keeps_complete_trans [OF first eviction_publish_keeps [OF ev this]] show ?thesis .
    next
      fix co2 u
      assume p: "(case eviction of None \<Rightarrow> (co1, Inr ()) | Some c \<Rightarrow> publish io 1 Cleanup None [] c co1) = (co2, Inr u)"
        and t: "reserve_tail io k q h e co2 = (co', r)"
      from keeps_complete_trans [OF keeps_complete_trans [OF first eviction_publish_keeps [OF ev p]] reserve_tail_keeps [OF t]]
      show ?thesis .
    qed
  qed
qed

lemma abort_keeps:
  assumes "abort_reply io k q token co = (co', r)"
  shows "keeps_complete (fm_get (issued_records (co_root co))) (fm_get (issued_records (co_root co')))"
proof (cases "abort_reply_candidate (co_root co) k q token")
  case (Inl err)
  with assms show ?thesis by (simp add: abort_reply_def)
next
  case (Inr cand)
  with assms have p: "publish io 0 Reply_abort (Some k) [k] cand co = (co', r)" by (simp add: abort_reply_def)
  have "fm_get (issued_records cand) \<subseteq>\<^sub>m fm_get (issued_records (co_root co))"
    using Inr by (auto simp: abort_reply_candidate_def map_le_def restrict_map_def
        split: option.splits issued_response_record.splits if_splits)
  from publish_keeps [OF p keeps_complete_sub [OF this]] show ?thesis .
qed

lemma prepare_keeps:
  assumes "prepare_feedback sha io k f co = (co', r)"
  shows "keeps_complete (fm_get (issued_records (co_root co))) (fm_get (issued_records (co_root co')))"
proof (rule co_bind_cases [OF assms [unfolded prepare_feedback_def]])
  fix err
  assume "cleanup_locked io 0 co = (co', Inl err)"
  then show ?thesis by (rule cleanup_keeps)
next
  fix co1 :: coordinator and n
  let ?cand = "res_bind (resolve_feedback_record (co_root co1) k f) (\<lambda>record.
            prepare_feedback_candidate sha (co_config co1) (co_root co1) k f record
              (io_token io) (io_monotonic_ns io) (io_second_monotonic_ns io))"
  assume cl: "cleanup_locked io 0 co = (co1, Inr n)"
    and rest: "(case ?cand of Inl err \<Rightarrow> (co1, Inl err) | Inr (None, prepared) \<Rightarrow> (co1, Inr prepared)
     | Inr (Some candidate, prepared) \<Rightarrow>
         co_bind (publish io 1 Feedback_prepare (Some k) [k] candidate co1) (\<lambda>co _. (co, Inr prepared))) = (co', r)"
  note first = cleanup_keeps [OF cl]
  show ?thesis
  proof (cases "\<exists>cand prep. ?cand = Inr (Some cand, prep)")
    case False
    with rest have "co' = co1" by (auto split: sum.splits option.splits prod.splits)
    with first show ?thesis by simp
  next
    case True
    then obtain cand prep c where x: "?cand = Inr (Some cand, prep)"
      and pc: "prepare_feedback_candidate sha (co_config co1) (co_root co1) k f c
              (io_token io) (io_monotonic_ns io) (io_second_monotonic_ns io) = Inr (Some cand, prep)"
      by (auto simp: res_simps)
    with rest have "fst (publish io 1 Feedback_prepare (Some k) [k] cand co1) = co'"
      by (auto dest: co_bind_result)
    then obtain r' where p: "publish io 1 Feedback_prepare (Some k) [k] cand co1 = (co', r')"
      by (metis prod.collapse)
    have "issued_records cand = issued_records (co_root co1)"
      by (rule prepare_cases [OF pc]) simp
    then have "keeps_complete (fm_get (issued_records (co_root co1))) (fm_get (issued_records cand))" by simp
    from keeps_complete_trans [OF first publish_keeps [OF p this]] show ?thesis .
  qed
qed

section \<open>Every step\<close>

lemma keeps_complete_later:
  assumes "keeps_complete im im'" "im key = Some (Complete c)" "im' key = Some (Complete c')"
  shows "cr_response c' = cr_response c \<and> list_all2 effect_later (cr_effects c) (cr_effects c')"
proof -
  from assms(1,3) obtain d where "im key = Some (Complete d)" "cr_response c' = cr_response d"
    "cr_effects c' = cr_effects d" unfolding keeps_complete_def by blast
  with assms(2) show ?thesis by (simp add: list.rel_refl)
qed

lemma commit_reply_later:
  assumes ok: "coordinator_ok co" and chk: "check_reply_commit_proposal p = Inr ()"
    and op: "commit_reply sha io p co = (co', r)"
    and im: "fm_get (issued_records (co_root co)) key = Some (Complete c)"
  shows "fm_get (issued_records (co_root co')) key = Some (Complete c)"
proof (cases r)
  case (Inl e)
  have "co_root co' = co_root co"
    using op Inl
    by (auto simp: commit_reply_def co_bind_def split: sum.splits prod.splits dest: publish_Inl)
  with im show ?thesis by simp
next
  case (Inr response)
  show ?thesis
  proof (rule commit_reply_outcome [OF ok chk op [unfolded Inr]])
    fix pending revision audit cand
    assume p: "fm_get (issued_records (co_root co)) (rp_state_key p, rp_request_id p) = Some (Pending pending)"
      and en: "enforce_session_capacity (committed_root sha (co_config co) (co_root co) p revision response audit
        (io_monotonic_ns io) (io_epoch_ms io)) (cfg_conversation_max_sessions (co_config co)) = Inr cand"
      and root: "co_root co' = published_root cand" "coordinator_ok co'"
    from p im have "key \<noteq> (rp_state_key p, rp_request_id p)" by auto
    with commit_publishes(1) [OF en root] im show ?thesis by simp
  qed
qed

lemma publish_issued_Inl:
  "publish io i op k ks cand co = (co', Inl e) \<Longrightarrow> issued_records (co_root co') = issued_records (co_root co)"
  by (simp add: publish_Inl)

lemma commit_feedback_later:
  assumes ok: "coordinator_ok co" and gen: "genuine_preparation (co_root co) p"
    and op: "commit_feedback sha io p co = (co', r)"
    and im: "fm_get (issued_records (co_root co)) key = Some (Complete c)"
    and im': "fm_get (issued_records (co_root co')) key = Some (Complete c')"
  shows "cr_response c' = cr_response c \<and> list_all2 effect_later (cr_effects c) (cr_effects c')"
proof (cases r)
  case (Inl e)
  have "issued_records (co_root co') = issued_records (co_root co)"
  proof (cases "commit_feedback_candidate sha (co_config co) (co_root co) p (io_monotonic_ns io) (io_epoch_ms io)")
    case (Inl err)
    let ?drop = "drop_prepared_token_candidate (co_root co) p"
    obtain co1 r1 where p: "publish io 0 Feedback_commit (Some (pf_state_key p)) [pf_state_key p] ?drop co = (co1, r1)"
      by fastforce
    have "co' = co1 \<or> co' = co"
      using op Inl p by (cases r1) (auto simp: commit_feedback_def split: if_splits)
    with publish_issued [OF p] show ?thesis by (auto simp: drop_prepared_token_candidate_def)
  next
    case (Inr x)
    with op \<open>r = Inl e\<close> show ?thesis
      by (auto simp: commit_feedback_def co_bind_def split: prod.splits sum.splits dest: publish_issued_Inl)
  qed
  with im im' show ?thesis by (simp add: list.rel_refl)
next
  case (Inr result)
  show ?thesis
  proof (rule commit_feedback_outcome [OF ok gen op [unfolded Inr]])
    fix d revision
    assume inp: "feedback_commit_inputs (co_root co) p (io_monotonic_ns io) = Inr (d, revision)"
      and root: "co_root co' = published_root
        (feedback_root sha (co_config co) (co_root co) p d revision (io_monotonic_ns io) (io_epoch_ms io))"
        "coordinator_ok co'"
    note f = feedback_commit_facts [OF coordinator_ok_root [OF ok] gen inp]
    show ?thesis
    proof (cases "key = (pf_state_key p, pf_request_id p)")
      case True
      with f(2) im have "d = c" by simp
      with True im' feedback_publishes(1) [OF root]
      have c': "cr_response c' = cr_response c" "cr_effects c' = apply_effect_transitions (cr_effects c) (pf_transitions p)"
        by (auto simp: updated_record_def)
      have "\<forall>e\<in>set (cr_effects c). effect_later e (apply_effect_transition (pf_transitions p) e)"
        using apply_effect_later [OF f(6,5)] \<open>d = c\<close> by simp
      then have "list_all2 effect_later (cr_effects c) (cr_effects c')"
        by (simp add: c'(2) apply_effect_transitions_def list_all2_map2 list_all2_same)
      with c'(1) show ?thesis by simp
    next
      case False
      with im im' feedback_publishes(1) [OF root] show ?thesis by (simp add: list.rel_refl)
    qed
  qed
qed

text \<open>C6 The effects of an issued response only move forward. Over any step of the coordinator, a
  record that is complete before and after carries the same response and the same effects in the same
  order, the status history of each grows at its end only, and an effect reported as executed does not
  change at all.\<close>
theorem effects_move_forward:
  assumes ok: "coordinator_ok co" and step: "co_step sha co co'"
    and im: "fm_get (issued_records (co_root co)) key = Some (Complete c)"
    and im': "fm_get (issued_records (co_root co')) key = Some (Complete c')"
  shows "cr_response c' = cr_response c \<and> list_all2 effect_later (cr_effects c) (cr_effects c')"
  using step
proof (rule co_step_cases)
  fix io n
  assume "co_cleanup io co = (co', n)"
  then have "cleanup_locked io 0 co = (co', n)" by (simp add: co_cleanup_def)
  from keeps_complete_later [OF cleanup_keeps [OF this] im im'] show ?thesis .
next
  fix io k q h e res
  assume "reserve_reply io k q h e co = (co', res)"
  from keeps_complete_later [OF reserve_keeps [OF this] im im'] show ?thesis .
next
  fix io k q token ab
  assume "abort_reply io k q token co = (co', ab)"
  from keeps_complete_later [OF abort_keeps [OF this] im im'] show ?thesis .
next
  fix p io resp
  assume "check_reply_commit_proposal p = Inr ()" "commit_reply sha io p co = (co', resp)"
  from commit_reply_later [OF ok this im] im' show ?thesis by (simp add: list.rel_refl)
next
  fix io k f prep
  assume "prepare_feedback sha io k f co = (co', prep)"
  from keeps_complete_later [OF prepare_keeps [OF this] im im'] show ?thesis .
next
  fix pf io fres
  assume "genuine_preparation (co_root co) pf" "commit_feedback sha io pf co = (co', fres)"
  from commit_feedback_later [OF ok this im im'] show ?thesis .
qed

end
