(* ===== verification/Progress.thy ===== *)
theory Progress
  imports Effect_History
begin

text \<open>
  The operations succeed when they may: with no fault of the hook and room in the stores, a client
  that follows the protocol gets through reservation, commit, preparation and commit of feedback.
\<close>

section \<open>Commit of a reply\<close>

lemma enforce_session_fits:
  assumes "session_count c \<le> capacity" "0 \<le> capacity"
  shows "enforce_session_capacity c capacity = Inr (without_unpinned_revisions c)"
proof -
  have "session_loop capacity p (conversation_turns c) (clarification_records c) =
      Inr (conversation_turns c, clarification_records c)" for p
    using assms by (simp add: session_loop_step session_count_dom)
  then show ?thesis by (simp add: enforce_session_capacity_def)
qed

lemma committed_session_count:
  "session_count (committed_root sha cfg root p revision response audit now epoch) \<le> session_count root + 1"
proof -
  let ?c = "committed_root sha cfg root p revision response audit now epoch"
  have "dom (fm_get (conversation_turns ?c)) \<union> dom (fm_get (clarification_records ?c))
      \<subseteq> insert (rp_state_key p) (dom (fm_get (conversation_turns root)) \<union> dom (fm_get (clarification_records root)))"
    by (auto simp: committed_root_def Let_def split: option.splits)
  then have "card (dom (fm_get (conversation_turns ?c)) \<union> dom (fm_get (clarification_records ?c)))
      \<le> Suc (card (dom (fm_get (conversation_turns root)) \<union> dom (fm_get (clarification_records root))))"
    (is "card ?A \<le> Suc (card ?B)")
  proof -
    assume sub: "?A \<subseteq> insert (rp_state_key p) ?B"
    have "card ?A \<le> card (insert (rp_state_key p) ?B)" by (rule card_mono [OF _ sub]) simp
    also have "\<dots> \<le> Suc (card ?B)" by (simp add: card_insert_if)
    finally show "card ?A \<le> Suc (card ?B)" .
  qed
  then show ?thesis by (simp add: session_count_def)
qed

lemma commit_reply_progress:
  assumes ok: "coordinator_ok co" and chk: "check_reply_commit_proposal p = Inr ()"
    and hook: "io_fault io 0 Reply_commit = None"
    and pend: "fm_get (issued_records (co_root co)) (rp_state_key p, rp_request_id p) = Some (Pending pending)"
      "pr_owner_token pending = rp_owner_token p" "pr_request_hash pending = rp_request_hash p"
      "pr_replay_eligible pending = rp_replay_eligible p"
    and rev: "fm_get (state_revisions (co_root co)) (rp_state_key p) = Some revision"
      "sr_revision_epoch revision = rp_expected_revision_epoch p"
      "sr_revision revision = rp_expected_state_revision p"
    and resp: "response = issue_response_ids (io_response_hex io) (io_action_hex io) (rp_response p)"
      "fm_get (response_index (co_root co)) (resp_id response) = None"
    and clar: "(reply_kind_of (resp_reply response) = Reply_clarification) = at_clarification_requested (rp_assistant_turn p)"
      "(rp_clarification p \<noteq> None) = at_clarification_requested (rp_assistant_turn p)"
    and aud: "build_audit_record (rp_audit p) (rp_state_key p) (resp_id response) (rp_request_id p)
        (reply_kind_of (resp_reply response)) (io_epoch_ms io)
        (io_monotonic_ns io + cfg_issued_ttl_ns (co_config co)) = Inr audit"
    and room: "session_count (co_root co) < cfg_conversation_max_sessions (co_config co)"
  obtains co' where "commit_reply sha io p co = (co', Inr response)" "coordinator_ok co'"
    "co_config co' = co_config co"
    "co_root co' = published_root (without_unpinned_revisions (committed_root sha (co_config co) (co_root co) p
       revision response audit (io_monotonic_ns io) (io_epoch_ms io)))"
proof -
  let ?c = "committed_root sha (co_config co) (co_root co) p revision response audit (io_monotonic_ns io) (io_epoch_ms io)"
  let ?cr = "commit_reply_candidate sha (co_config co) (co_root co) p (io_response_hex io)
             (io_action_hex io) (io_monotonic_ns io) (io_epoch_ms io)"
  have "session_count ?c \<le> cfg_conversation_max_sessions (co_config co)"
    using committed_session_count room by (meson add1_zle_eq order_trans)
  moreover have "0 \<le> cfg_conversation_max_sessions (co_config co)"
    using ok by (simp add: coordinator_ok_def valid_config_def)
  ultimately have en: "enforce_session_capacity ?c (cfg_conversation_max_sessions (co_config co)) =
      Inr (without_unpinned_revisions ?c)" by (rule enforce_session_fits)
  have cr: "?cr = Inr (without_unpinned_revisions ?c, response)"
    using pend rev resp clar aud en
    by (simp add: commit_reply_candidate_def Let_def resp(1) [symmetric] del: issue_response_ids_id)
  from ok chk have cand: "candidate_ok (co_config co) (without_unpinned_revisions ?c)"
    "root_revision (without_unpinned_revisions ?c) = root_revision (co_root co) + 1"
    using commit_reply_ok [OF _ _ chk cr] by (simp_all add: coordinator_ok_def)
  have "dom (fm_get (state_revisions (without_unpinned_revisions ?c))) \<subseteq> dom (fm_get (state_revisions (co_root co)))"
    using rev(1) by (auto simp: committed_root_def Let_def restrict_map_def split: if_splits)
  from publish_fits [OF ok cand revisions_fit [OF ok this] hook]
  obtain co' where "publish io 0 Reply_commit (Some (rp_state_key p)) [rp_state_key p]
      (without_unpinned_revisions ?c) co = (co', Inr ())" "co_root co' = published_root (without_unpinned_revisions ?c)"
    "coordinator_ok co'" "co_config co' = co_config co" .
  with cr show thesis by (intro that [of co']) (simp_all add: commit_reply_def)
qed

section \<open>Feedback\<close>

lemma prepare_feedback_progress:
  assumes ok: "coordinator_ok co" and hook: "io_fault io 0 Cleanup = None" "io_fault io 1 Feedback_prepare = None"
    and cl: "cleanup_locked io 0 co = (co1, Inr n)"
    and rec: "resolve_feedback_record (co_root co1) k f = Inr c"
    and new: "fm_get (feedback_receipts (co_root co1)) (k, fb_feedback_id f) = None"
      "fm_get (prepared_feedback_tokens (co_root co1)) (k, fb_feedback_id f) = None"
    and room: "fm_len (prepared_feedback_tokens (co_root co1)) < cfg_issued_response_capacity (co_config co1)"
    and rev: "fm_get (state_revisions (co_root co1)) k = Some revision"
    and ts: "prepare_effect_transitions c f = Inr transitions"
    and prep: "prepared = \<lparr>pf_state_key = k, pf_feedback_id = fb_feedback_id f,
           pf_feedback_hash = feedback_hash sha f, pf_request_id = fb_request_id f,
           pf_response_id = fb_response_id f, pf_commit_token = io_token io,
           pf_revision_epoch = sr_revision_epoch revision,
           pf_expected_state_revision = sr_revision revision,
           pf_expected_issued_record_revision = cr_record_revision c, pf_transitions = transitions,
           pf_expires_at_monotonic_ns = io_monotonic_ns io + feedback_token_ttl_ns\<rparr>"
  obtains co' where "prepare_feedback sha io k f co = (co', Inr (PreparedFeedback prepared))" "coordinator_ok co'"
    "co_config co' = co_config co1"
    "fm_get (prepared_feedback_tokens (co_root co')) (k, fb_feedback_id f) =
       Some \<lparr>tk_preparation = prepared, tk_created_at_monotonic_ns = io_second_monotonic_ns io\<rparr>"
    "issued_records (co_root co') = issued_records (co_root co1)"
    "response_index (co_root co') = response_index (co_root co1)"
    "feedback_receipts (co_root co') = feedback_receipts (co_root co1)"
    "fm_get (state_revisions (co_root co')) k = Some revision"
proof -
  let ?cand = "(co_root co1)\<lparr>root_revision := root_revision (co_root co1) + 1,
      prepared_feedback_tokens := with_updates (prepared_feedback_tokens (co_root co1))
        [((k, fb_feedback_id f), \<lparr>tk_preparation = prepared, tk_created_at_monotonic_ns = io_second_monotonic_ns io\<rparr>)]\<rparr>"
  have ok1: "coordinator_ok co1" using cleanup_meets_view [OF ok cl] by simp
  have pc: "prepare_feedback_candidate sha (co_config co1) (co_root co1) k f c (io_token io)
      (io_monotonic_ns io) (io_second_monotonic_ns io) = Inr (Some ?cand, PreparedFeedback prepared)"
    using new room rev ts by (simp add: prepare_feedback_candidate_def Let_def prep)
  from prepare_feedback_ok [OF coordinator_ok_root [OF ok1] rec pc]
  have cand: "candidate_ok (co_config co1) ?cand" "root_revision ?cand = root_revision (co_root co1) + 1" by simp_all
  have fit: "fm_len (state_revisions (published_root ?cand)) \<le> cfg_state_revision_capacity (co_config co1)"
    by (rule revisions_fit [OF ok1]) simp
  obtain co' where p: "publish io 1 Feedback_prepare (Some k) [k] ?cand co1 = (co', Inr ())"
    "co_root co' = published_root ?cand" "coordinator_ok co'" "co_config co' = co_config co1"
    by (rule publish_fits [OF ok1 cand fit hook(2)])
  from pc rec cl p(1) have op: "prepare_feedback sha io k f co = (co', Inr (PreparedFeedback prepared))"
    by (simp add: prepare_feedback_def)
  have "k \<in> pinned_state_keys (enforce_inactive_record_capacities ?cand)" unfolding mem_pinned by auto
  with p(2) rev have "fm_get (state_revisions (co_root co')) k = Some revision" by (simp add: published_revisions)
  with op p show thesis by (intro that [of co']) simp_all
qed

lemma commit_feedback_progress:
  assumes ok: "coordinator_ok co" and gen: "genuine_preparation (co_root co) p"
    and hook: "io_fault io 0 Feedback_commit = None"
    and inp: "feedback_commit_inputs (co_root co) p (io_monotonic_ns io) = Inr (c, revision)"
    and room: "int (length (cr_receipts c)) < record_receipt_limit"
      "fm_len (feedback_receipts (co_root co)) < cfg_feedback_receipt_capacity (co_config co)"
  obtains co' result where "commit_feedback sha io p co = (co', Inr result)" "coordinator_ok co'"
proof -
  let ?cf = "commit_feedback_candidate sha (co_config co) (co_root co) p (io_monotonic_ns io) (io_epoch_ms io)"
  let ?c = "feedback_root sha (co_config co) (co_root co) p c revision (io_monotonic_ns io) (io_epoch_ms io)"
  from inp room obtain res where cf: "?cf = Inr (?c, res)"
    by (simp add: commit_feedback_candidate_def Let_def)
  from commit_feedback_ok [OF coordinator_ok_root [OF ok] gen cf]
  have cand: "candidate_ok (co_config co) ?c" "root_revision ?c = root_revision (co_root co) + 1" by simp_all
  have "dom (fm_get (state_revisions ?c)) \<subseteq> dom (fm_get (state_revisions (co_root co)))"
    using feedback_commit_facts(4) [OF coordinator_ok_root [OF ok] gen inp]
    by (auto simp: feedback_root_def Let_def)
  from publish_fits [OF ok cand revisions_fit [OF ok this] hook]
  obtain co' where "publish io 0 Feedback_commit (Some (pf_state_key p)) [pf_state_key p] ?c co = (co', Inr ())"
    "coordinator_ok co'" by blast
  with cf show thesis by (intro that [of co' res]) (simp_all add: commit_feedback_def)
qed

end
