(* ===== verification/Example_World.thy ===== *)
theory Example_World
  imports Progress
begin

text \<open>
  One concrete history of the coordinator: a fresh coordinator, a reservation, its commit, the
  preparation of feedback and the commit of it. The witnesses of the coordinator's properties apply
  them along this history.
\<close>

definition demo_key :: conversation_state_key where
  "demo_key = \<lparr>csk_surface = Wecom, csk_adapter_namespace = ''adapter'', csk_tenant_ref = ''tenant:one'',
     csk_scene = SceneGroup, csk_subject_ref = ''group:one'', csk_principal_ref = ''principal:one''\<rparr>"

definition demo_config :: coordinator_config where
  "demo_config = \<lparr>cfg_issued_response_capacity = 4, cfg_conversation_max_sessions = 4,
     cfg_feedback_receipt_capacity = 8, cfg_conversation_ttl_ms = 3600000,
     cfg_conversation_max_messages = 4, cfg_issued_ttl_ns = 3600000000000,
     cfg_issued_pending_ttl_ns = 60000000000, cfg_state_revision_capacity = 5009\<rparr>"

definition demo_io :: "int \<Rightarrow> readings" where
  "demo_io t = \<lparr>io_cleanup_monotonic_ns = t, io_cleanup_epoch_ms = t, io_monotonic_ns = t,
     io_second_monotonic_ns = t, io_epoch_ms = t, io_epoch_token = ''epoch'', io_token = ''token'',
     io_response_hex = ''0a'', io_action_hex = (\<lambda>_. ''0b''), io_transaction_id = (\<lambda>_. ''tx''),
     io_fault = (\<lambda>_ _. None)\<rparr>"

lemma demo_io_simps [simp]:
  "io_cleanup_monotonic_ns (demo_io t) = t" "io_cleanup_epoch_ms (demo_io t) = t"
  "io_monotonic_ns (demo_io t) = t" "io_second_monotonic_ns (demo_io t) = t" "io_epoch_ms (demo_io t) = t"
  "io_epoch_token (demo_io t) = ''epoch''" "io_token (demo_io t) = ''token''"
  "io_response_hex (demo_io t) = ''0a''" "io_action_hex (demo_io t) = (\<lambda>_. ''0b'')"
  "io_fault (demo_io t) i op = None"
  by (simp_all add: demo_io_def)

section \<open>The start\<close>

definition demo_start :: coordinator where
  "demo_start = new_coordinator demo_config"

lemma demo_start_root [simp]: "co_root demo_start = empty_coordinator_root" "co_config demo_start = demo_config"
  by (simp_all add: demo_start_def new_coordinator_def)

lemma demo_start_ok: "co_start demo_start"
proof -
  have "coordinator_init 4 4 8 3600 4 3600 60 = Inr demo_start"
    by (simp add: coordinator_init_def build_coordinator_config_def demo_start_def demo_config_def)
  then show ?thesis unfolding co_start_def by blast
qed

lemma demo_start_inv: "coordinator_ok demo_start"
  by (rule co.reachable_inv [OF demo_start_ok rtranclp.rtrancl_refl])

section \<open>A reservation\<close>

lemma cleanup_nothing:
  "nothing_expired (co_config co) (io_cleanup_monotonic_ns io) (io_cleanup_epoch_ms io) (co_root co) \<Longrightarrow>
     cleanup_locked io i co = (co, Inr 0)"
  by (simp add: cleanup_locked_def cleanup_candidate_def)

lemma nothing_expired_intro:
  assumes "cleaned_view cfg now epoch root root" "1 \<le> cfg_conversation_max_messages cfg"
  shows "nothing_expired cfg now epoch root"
  using assms by (rule cleaned_view_nothing)

lemma unexpired_empty [simp]: "unexpired expires now (\<lambda>x. None) = (\<lambda>x. None)"
  by (simp add: unexpired_def fun_eq_iff)

lemma demo_start_cleanup: "cleanup_locked (demo_io t) i demo_start = (demo_start, Inr 0)"
  by (intro cleanup_nothing nothing_expired_intro)
     (simp_all add: cleaned_view_def unexpired_def empty_coordinator_root_def demo_config_def)

definition demo_reserved :: coordinator where
  "demo_reserved = fst (reserve_reply (demo_io 0) demo_key ''request-1'' ''hash-1'' True demo_start)"

definition demo_revision :: state_revision_record where
  "demo_revision = \<lparr>sr_revision_epoch = ''epoch'', sr_revision = 0, sr_created_at_monotonic_ns = 0,
     sr_updated_at_monotonic_ns = 0, sr_expires_at_monotonic_ns = 3600000000000\<rparr>"

definition demo_pending :: pending_issued_response where
  "demo_pending = \<lparr>pr_state_key = demo_key, pr_request_id = ''request-1'', pr_request_hash = ''hash-1'',
      pr_replay_eligible = True, pr_owner_token = ''token'', pr_revision_epoch = ''epoch'',
      pr_reserved_state_revision = 0, pr_created_at_epoch_ms = 0, pr_created_at_monotonic_ns = 0,
      pr_expires_at_monotonic_ns = 60000000000\<rparr>"

lemma demo_reserved:
  "coordinator_ok demo_reserved"
  "fm_get (issued_records (co_root demo_reserved)) = [(demo_key, ''request-1'') \<mapsto> Pending demo_pending]"
  "fm_get (state_revisions (co_root demo_reserved)) demo_key = Some demo_revision"
  "co_config demo_reserved = demo_config"
  "conversation_turns (co_root demo_reserved) = fm_empty \<and> clarification_records (co_root demo_reserved) = fm_empty
   \<and> prepared_feedback_tokens (co_root demo_reserved) = fm_empty \<and> feedback_receipts (co_root demo_reserved) = fm_empty"
proof -
  have revision: "current_revision demo_config empty_coordinator_root demo_key ''epoch'' 0 = demo_revision"
    by (simp add: current_revision_def empty_coordinator_root_def fresh_revision_def demo_revision_def demo_config_def)
  have pend: "reservation_record demo_config demo_key ''request-1'' ''hash-1'' True demo_revision 0 ''token'' 0
      = demo_pending"
    by (simp add: reservation_record_def demo_pending_def demo_revision_def demo_config_def)
  have empty: "fm_get (issued_records empty_coordinator_root) = Map.empty"
    "fm_get (pending_request_by_state empty_coordinator_root) = Map.empty"
    "fm_len (issued_records empty_coordinator_root) = 0"
    "fm_len (state_revisions empty_coordinator_root) = 0"
    by (simp_all add: empty_coordinator_root_def fun_eq_iff)
  have frame: "conversation_turns empty_coordinator_root = fm_empty"
    "clarification_records empty_coordinator_root = fm_empty"
    "prepared_feedback_tokens empty_coordinator_root = fm_empty"
    "feedback_receipts empty_coordinator_root = fm_empty"
    by (simp_all add: empty_coordinator_root_def)
  obtain co' where tail: "\<exists>nr. reserve_tail (demo_io 0) demo_key ''request-1'' ''hash-1'' True demo_start = (co', Inr nr)"
    and co': "coordinator_ok co'"
      "fm_get (issued_records (co_root co')) = [(demo_key, ''request-1'') \<mapsto> Pending demo_pending]"
      "fm_get (state_revisions (co_root co')) demo_key = Some demo_revision"
      "conversation_turns (co_root co') = fm_empty \<and> clarification_records (co_root co') = fm_empty
       \<and> prepared_feedback_tokens (co_root co') = fm_empty \<and> feedback_receipts (co_root co') = fm_empty"
    by (rule reserve_tail_succeeds [OF demo_start_inv, of "demo_io 0" demo_key "''request-1''" "''hash-1''" True])
       (simp_all add: empty frame demo_config_def revision [unfolded demo_config_def] pend [unfolded demo_config_def])
  have "fst (reserve_reply (demo_io 0) demo_key ''request-1'' ''hash-1'' True demo_start) = co'"
    using tail
    by (auto simp: reserve_reply_unfold demo_start_cleanup existing_reservation_result_def
        issued_capacity_eviction_candidate_def empty demo_config_def)
  with co' show "coordinator_ok demo_reserved"
    "fm_get (issued_records (co_root demo_reserved)) = [(demo_key, ''request-1'') \<mapsto> Pending demo_pending]"
    "fm_get (state_revisions (co_root demo_reserved)) demo_key = Some demo_revision"
    "conversation_turns (co_root demo_reserved) = fm_empty \<and> clarification_records (co_root demo_reserved) = fm_empty
     \<and> prepared_feedback_tokens (co_root demo_reserved) = fm_empty \<and> feedback_receipts (co_root demo_reserved) = fm_empty"
    by (simp_all add: demo_reserved_def)
  obtain res where "reserve_reply (demo_io 0) demo_key ''request-1'' ''hash-1'' True demo_start = (demo_reserved, res)"
    by (metis demo_reserved_def prod.collapse)
  from reserve_reply_advances [OF demo_start_inv this] show "co_config demo_reserved = demo_config"
    by (simp add: advances_def)
qed

section \<open>A commit\<close>

definition demo_proposal :: reply_commit_proposal where
  "demo_proposal = \<lparr>rp_state_key = demo_key, rp_request_id = ''request-1'', rp_request_hash = ''hash-1'',
     rp_replay_eligible = True, rp_owner_token = ''token'', rp_expected_revision_epoch = ''epoch'',
     rp_expected_state_revision = 0,
     rp_response = \<lparr>resp_id = [], resp_reply = \<lparr>reply_kind_of = Reply_answer, reply_text = ''hello'',
        reply_mentions = []\<rparr>, resp_actions = [SendMaterialPackAction [] ''ref-1'' None]\<rparr>,
     rp_pol1 = ''pol1:a'', rp_par1 = ''par1:a'', rp_grh1 = ''grh1:a'', rp_bsh1 = ''bsh1:a'',
     rp_user_turn = ''hi'',
     rp_assistant_turn = \<lparr>at_text = ''hello'', at_reply_kind = ''answer'', at_clarification_requested = False\<rparr>,
     rp_clarification = None,
     rp_audit = GroupAuditCommitProposalV1
       \<lparr>ga_reason_code = ''action_ready'', ga_manifest_refs = [], ga_program_attempts = []\<rparr>\<rparr>"

definition demo_response :: reply_response where
  "demo_response = \<lparr>resp_id = ''resp-0a'', resp_reply = \<lparr>reply_kind_of = Reply_answer, reply_text = ''hello'',
        reply_mentions = []\<rparr>, resp_actions = [SendMaterialPackAction ''act-0b'' ''ref-1'' None]\<rparr>"

definition demo_audit :: audit_record where
  "demo_audit = GroupAuditRecordV1 \<lparr>gr_state_key = demo_key, gr_response_id = ''resp-0a'',
     gr_request_id = ''request-1'', gr_reply_kind = Reply_answer, gr_reason_code = ''action_ready'',
     gr_manifest_refs = [], gr_programs = [], gr_created_at_epoch_ms = 1,
     gr_expires_at_monotonic_ns = 3600000000001\<rparr>"

lemma demo_proposal_fields [simp]:
  "rp_state_key demo_proposal = demo_key" "rp_request_id demo_proposal = ''request-1''"
  "rp_request_hash demo_proposal = ''hash-1''" "rp_replay_eligible demo_proposal"
  "rp_owner_token demo_proposal = ''token''" "rp_expected_revision_epoch demo_proposal = ''epoch''"
  "rp_expected_state_revision demo_proposal = 0" "rp_clarification demo_proposal = None"
  "\<not> at_clarification_requested (rp_assistant_turn demo_proposal)"
  by (simp_all add: demo_proposal_def)

lemma demo_response_issued:
  "issue_response_ids ''0a'' (\<lambda>_. ''0b'') (rp_response demo_proposal) = demo_response"
  by code_simp

lemma demo_audit_built:
  "build_audit_record (rp_audit demo_proposal) demo_key ''resp-0a'' ''request-1'' Reply_answer 1 3600000000001
     = Inr demo_audit"
  by code_simp

lemma demo_check: "check_reply_commit_proposal demo_proposal = Inr ()"
  by code_simp

definition demo_committed :: coordinator where
  "demo_committed = fst (commit_reply (\<lambda>_. ''sha'') (demo_io 1) demo_proposal demo_reserved)"

definition demo_complete :: complete_issued_response where
  "demo_complete = complete_record demo_config demo_proposal (bumped_revision demo_config demo_revision 1) demo_response 1 1"

lemma demo_reserved_response_index: "fm_get (response_index (co_root demo_reserved)) rid = None"
proof (rule ccontr)
  assume "fm_get (response_index (co_root demo_reserved)) rid \<noteq> None"
  then obtain ik where ik: "fm_get (response_index (co_root demo_reserved)) rid = Some ik" by blast
  then obtain c where "fm_get (issued_records (co_root demo_reserved)) ik = Some (Complete c)"
    using coordinator_ok_indexes [OF demo_reserved(1)] unfolding inv_response_def by blast
  then show False by (simp add: demo_reserved(2) split: if_splits)
qed

lemma demo_session_count: "session_count (co_root demo_reserved) = 0"
  using demo_reserved(5) by (simp add: session_count_def)

lemma demo_committed:
  "commit_reply (\<lambda>_. ''sha'') (demo_io 1) demo_proposal demo_reserved = (demo_committed, Inr demo_response)"
  "coordinator_ok demo_committed"
  "co_config demo_committed = demo_config"
  "fm_get (issued_records (co_root demo_committed)) = [(demo_key, ''request-1'') \<mapsto> Complete demo_complete]"
  "fm_get (state_revisions (co_root demo_committed)) demo_key = Some (bumped_revision demo_config demo_revision 1)"
  "prepared_feedback_tokens (co_root demo_committed) = fm_empty"
  "feedback_receipts (co_root demo_committed) = fm_empty"
  "lookup_issued_response demo_committed demo_key ''resp-0a'' = IssuedFound demo_complete"
proof -
  let ?sha = "\<lambda>_ :: pybytes. ''sha''"
  have resp: "demo_response = issue_response_ids (io_response_hex (demo_io 1)) (io_action_hex (demo_io 1)) (rp_response demo_proposal)"
    by (simp only: demo_io_simps demo_response_issued)
  have rid: "resp_id demo_response = ''resp-0a''" "reply_kind_of (resp_reply demo_response) = Reply_answer"
    by (simp_all add: demo_response_def)
  obtain co' where op: "commit_reply ?sha (demo_io 1) demo_proposal demo_reserved = (co', Inr demo_response)"
    and co': "coordinator_ok co'" "co_config co' = co_config demo_reserved"
    and root: "co_root co' = published_root (without_unpinned_revisions (committed_root ?sha (co_config demo_reserved)
       (co_root demo_reserved) demo_proposal demo_revision demo_response demo_audit (io_monotonic_ns (demo_io 1)) (io_epoch_ms (demo_io 1))))"
    by (rule commit_reply_progress [OF demo_reserved(1) demo_check, of "demo_io 1" demo_pending demo_revision demo_response demo_audit ?sha])
       (use demo_audit_built in \<open>simp_all add: demo_reserved demo_revision_def demo_pending_def demo_response_issued rid
          demo_reserved_response_index demo_session_count demo_config_def\<close>)
  have same: "demo_committed = co'" by (simp add: demo_committed_def op)
  show "commit_reply ?sha (demo_io 1) demo_proposal demo_reserved = (demo_committed, Inr demo_response)"
    using op same by simp
  show ok: "coordinator_ok demo_committed" and "co_config demo_committed = demo_config"
    using co' same demo_reserved(4) by simp_all
  have en: "enforce_session_capacity (committed_root ?sha demo_config (co_root demo_reserved) demo_proposal demo_revision
       demo_response demo_audit 1 1) 4 = Inr (without_unpinned_revisions (committed_root ?sha demo_config
         (co_root demo_reserved) demo_proposal demo_revision demo_response demo_audit 1 1))"
    using committed_session_count [of ?sha demo_config "co_root demo_reserved" demo_proposal demo_revision
        demo_response demo_audit 1 1] demo_session_count
    by (intro enforce_session_fits) simp_all
  have root': "co_root demo_committed = published_root (without_unpinned_revisions (committed_root ?sha demo_config
         (co_root demo_reserved) demo_proposal demo_revision demo_response demo_audit 1 1))"
    using root same demo_reserved(4) by simp
  note m = commit_publishes [OF en root' ok, simplified, folded demo_complete_def]
  show "fm_get (issued_records (co_root demo_committed)) = [(demo_key, ''request-1'') \<mapsto> Complete demo_complete]"
    by (simp add: m(1) demo_reserved(2))
  show "fm_get (state_revisions (co_root demo_committed)) demo_key = Some (bumped_revision demo_config demo_revision 1)"
    by (rule m(3))
  show "prepared_feedback_tokens (co_root demo_committed) = fm_empty" "feedback_receipts (co_root demo_committed) = fm_empty"
    using m(4,5) demo_reserved(5) by simp_all
  show "lookup_issued_response demo_committed demo_key ''resp-0a'' = IssuedFound demo_complete"
    using m(6) by (simp add: rid)
qed

section \<open>Feedback\<close>

definition demo_feedback :: action_feedback_request where
  "demo_feedback = \<lparr>fb_feedback_id = ''feedback-1'', fb_request_id = ''request-1'', fb_response_id = ''resp-0a'',
     fb_identity = GroupConversationIdentityV1 ''tenant:one'' ''group:one'' ''principal:one'',
     fb_executions = [\<lparr>ex_action_type = Send_material_pack, ex_status = Executed, ex_action_id = Some ''act-0b'',
       ex_artifact = Some (MaterialPackFeedbackArtifact (Some ''ref-1'') (Some ''artifact-1'') None),
       ex_adapter_result = []\<rparr>]\<rparr>"

definition demo_transitions :: "prepared_effect_transition list" where
  "demo_transitions = [\<lparr>pt_effect_key = ''action:act-0b'', pt_effect_type = Send_material_pack,
     pt_expected_status = None, pt_requested_status = Executed, pt_expected_artifact_ref = None,
     pt_requested_artifact_ref = Some ''artifact-1'', pt_is_noop = False\<rparr>]"

lemma demo_feedback_fields [simp]:
  "fb_feedback_id demo_feedback = ''feedback-1''" "fb_request_id demo_feedback = ''request-1''"
  "fb_response_id demo_feedback = ''resp-0a''"
  by (simp_all add: demo_feedback_def)

lemma demo_transitions_prepared: "prepare_effect_transitions demo_complete demo_feedback = Inr demo_transitions"
  by code_simp

lemma demo_complete_fields [simp]:
  "cr_request_id demo_complete = ''request-1''" "resp_id (cr_response demo_complete) = ''resp-0a''"
  "cr_record_revision demo_complete = 1" "cr_receipts demo_complete = []"
  "cr_expires_at_monotonic_ns demo_complete = 3600000000001"
  "cr_request_hash demo_complete = ''hash-1''" "cr_state_key demo_complete = demo_key"
  by (simp_all add: demo_complete_def complete_record_def demo_response_def demo_config_def)

definition demo_prepared :: prepared_feedback where
  "demo_prepared = \<lparr>pf_state_key = demo_key, pf_feedback_id = ''feedback-1'', pf_feedback_hash = ''fbh1:sha'',
     pf_request_id = ''request-1'', pf_response_id = ''resp-0a'', pf_commit_token = ''token'',
     pf_revision_epoch = ''epoch'', pf_expected_state_revision = 1, pf_expected_issued_record_revision = 1,
     pf_transitions = demo_transitions, pf_expires_at_monotonic_ns = 30000000002\<rparr>"

lemma demo_prepared_fields [simp]:
  "pf_state_key demo_prepared = demo_key" "pf_feedback_id demo_prepared = ''feedback-1''"
  "pf_feedback_hash demo_prepared = ''fbh1:sha''" "pf_request_id demo_prepared = ''request-1''"
  "pf_response_id demo_prepared = ''resp-0a''" "pf_commit_token demo_prepared = ''token''"
  "pf_revision_epoch demo_prepared = ''epoch''" "pf_expected_state_revision demo_prepared = 1"
  "pf_expected_issued_record_revision demo_prepared = 1"
  "pf_expires_at_monotonic_ns demo_prepared = 30000000002"
  by (simp_all add: demo_prepared_def)

definition demo_with_token :: coordinator where
  "demo_with_token = fst (prepare_feedback (\<lambda>_. ''sha'') (demo_io 2) demo_key demo_feedback demo_committed)"

lemma demo_committed_cleanup:
  obtains co1 n where "cleanup_locked (demo_io t) 0 demo_committed = (co1, Inr n)" "coordinator_ok co1"
    "co_config co1 = demo_config"
    "t < 3600000000001 \<Longrightarrow> fm_get (issued_records (co_root co1)) = [(demo_key, ''request-1'') \<mapsto> Complete demo_complete]"
    "fm_get (prepared_feedback_tokens (co_root co1)) = Map.empty"
    "fm_get (feedback_receipts (co_root co1)) = Map.empty"
    "fm_get (state_revisions (co_root co1)) \<subseteq>\<^sub>m fm_get (state_revisions (co_root demo_committed))"
proof -
  from cleanup_returns [OF demo_committed(2), of "demo_io t" 0] obtain co1 n
    where cl: "cleanup_locked (demo_io t) 0 demo_committed = (co1, Inr n)" by auto
  from cleanup_meets_view [OF demo_committed(2) cl]
  have view: "cleaned_view demo_config t t (co_root demo_committed) (co_root co1)"
    and ok1: "coordinator_ok co1" and cfg1: "co_config co1 = demo_config"
    by (simp_all add: demo_committed(3))
  from view have none: "fm_get (prepared_feedback_tokens (co_root co1)) = Map.empty"
    "fm_get (feedback_receipts (co_root co1)) = Map.empty"
    by (simp_all add: cleaned_view_def demo_committed(6,7) fun_eq_iff unexpired_def)
  have "retain_record t (Complete demo_complete) = Complete demo_complete"
    by (simp add: live_receipts_def)
  then have "t < 3600000000001 \<Longrightarrow>
      fm_get (issued_records (co_root co1)) = [(demo_key, ''request-1'') \<mapsto> Complete demo_complete]"
    by (simp add: fun_eq_iff cleaned_view_issued [OF view] demo_committed(4) unexpired_def)
  from that [OF cl ok1 cfg1 this none cleanup_revisions_sub [OF demo_committed(2) cl]] show thesis by simp
qed

lemma demo_with_token:
  "prepare_feedback (\<lambda>_. ''sha'') (demo_io 2) demo_key demo_feedback demo_committed =
     (demo_with_token, Inr (PreparedFeedback demo_prepared))"
  "coordinator_ok demo_with_token" "co_config demo_with_token = demo_config"
  "fm_get (prepared_feedback_tokens (co_root demo_with_token)) (demo_key, ''feedback-1'') =
     Some \<lparr>tk_preparation = demo_prepared, tk_created_at_monotonic_ns = 2\<rparr>"
  "fm_get (issued_records (co_root demo_with_token)) = [(demo_key, ''request-1'') \<mapsto> Complete demo_complete]"
  "fm_get (feedback_receipts (co_root demo_with_token)) = Map.empty"
  "fm_get (state_revisions (co_root demo_with_token)) demo_key = Some (bumped_revision demo_config demo_revision 1)"
proof -
  let ?sha = "\<lambda>_ :: pybytes. ''sha''"
  obtain co1 n where cl: "cleanup_locked (demo_io 2) 0 demo_committed = (co1, Inr n)" and ok1: "coordinator_ok co1"
    and cfg1: "co_config co1 = demo_config"
    and im: "fm_get (issued_records (co_root co1)) = [(demo_key, ''request-1'') \<mapsto> Complete demo_complete]"
    and none: "fm_get (prepared_feedback_tokens (co_root co1)) = Map.empty"
      "fm_get (feedback_receipts (co_root co1)) = Map.empty"
    and revs: "fm_get (state_revisions (co_root co1)) \<subseteq>\<^sub>m fm_get (state_revisions (co_root demo_committed))"
    by (rule demo_committed_cleanup [of 2]) simp
  have rec: "fm_get (issued_records (co_root co1)) (demo_key, ''request-1'') = Some (Complete demo_complete)"
    by (simp add: im)
  have rv: "fm_get (state_revisions (co_root co1)) demo_key = Some (bumped_revision demo_config demo_revision 1)"
    using revision_pinned [OF ok1 rec] revs demo_committed(5) by (metis map_le_def)
  have res: "resolve_feedback_record (co_root co1) demo_key demo_feedback = Inr demo_complete"
    using lookup_complete [OF ok1 rec] by (simp add: resolve_feedback_record_def lookup_issued_response_def)
  have len: "fm_len (prepared_feedback_tokens (co_root co1)) = 0" by (simp add: fm_len_card none)
  have prep: "demo_prepared = \<lparr>pf_state_key = demo_key, pf_feedback_id = fb_feedback_id demo_feedback,
           pf_feedback_hash = feedback_hash ?sha demo_feedback, pf_request_id = fb_request_id demo_feedback,
           pf_response_id = fb_response_id demo_feedback, pf_commit_token = io_token (demo_io 2),
           pf_revision_epoch = sr_revision_epoch (bumped_revision demo_config demo_revision 1),
           pf_expected_state_revision = sr_revision (bumped_revision demo_config demo_revision 1),
           pf_expected_issued_record_revision = cr_record_revision demo_complete, pf_transitions = demo_transitions,
           pf_expires_at_monotonic_ns = io_monotonic_ns (demo_io 2) + feedback_token_ttl_ns\<rparr>"
    by (simp add: demo_prepared_def bumped_revision_def demo_revision_def feedback_token_ttl_ns_def feedback_hash_def)
  obtain co' where op: "prepare_feedback ?sha (demo_io 2) demo_key demo_feedback demo_committed =
      (co', Inr (PreparedFeedback demo_prepared))"
    and co': "coordinator_ok co'" "co_config co' = co_config co1"
      "fm_get (prepared_feedback_tokens (co_root co')) (demo_key, fb_feedback_id demo_feedback) =
         Some \<lparr>tk_preparation = demo_prepared, tk_created_at_monotonic_ns = io_second_monotonic_ns (demo_io 2)\<rparr>"
      "issued_records (co_root co') = issued_records (co_root co1)"
      "response_index (co_root co') = response_index (co_root co1)"
      "feedback_receipts (co_root co') = feedback_receipts (co_root co1)"
      "fm_get (state_revisions (co_root co')) demo_key = Some (bumped_revision demo_config demo_revision 1)"
    by (rule prepare_feedback_progress [OF demo_committed(2) _ _ cl res _ _ _ rv demo_transitions_prepared prep])
       (simp_all add: none len cfg1 demo_config_def)
  have same: "demo_with_token = co'" by (simp add: demo_with_token_def op)
  show "prepare_feedback ?sha (demo_io 2) demo_key demo_feedback demo_committed =
     (demo_with_token, Inr (PreparedFeedback demo_prepared))" using op same by simp
  show "coordinator_ok demo_with_token" "co_config demo_with_token = demo_config"
    "fm_get (prepared_feedback_tokens (co_root demo_with_token)) (demo_key, ''feedback-1'') =
     Some \<lparr>tk_preparation = demo_prepared, tk_created_at_monotonic_ns = 2\<rparr>"
    "fm_get (issued_records (co_root demo_with_token)) = [(demo_key, ''request-1'') \<mapsto> Complete demo_complete]"
    "fm_get (feedback_receipts (co_root demo_with_token)) = Map.empty"
    "fm_get (state_revisions (co_root demo_with_token)) demo_key = Some (bumped_revision demo_config demo_revision 1)"
    using co' by (simp_all add: same cfg1 im none)
qed

definition demo_finished :: coordinator where
  "demo_finished = fst (commit_feedback (\<lambda>_. ''sha'') (demo_io 3) demo_prepared demo_with_token)"

lemma demo_genuine: "genuine_preparation (co_root demo_with_token) demo_prepared"
  by (simp add: genuine_preparation_def demo_with_token(4))

lemma demo_inputs:
  "feedback_commit_inputs (co_root demo_with_token) demo_prepared 3 =
     Inr (demo_complete, bumped_revision demo_config demo_revision 1)"
proof -
  have "fm_get (issued_records (co_root demo_with_token)) (demo_key, ''request-1'') = Some (Complete demo_complete)"
    by (simp add: demo_with_token(5))
  from lookup_complete [OF demo_with_token(2) this]
  have "lookup_issued (co_root demo_with_token) demo_key ''resp-0a'' = IssuedFound demo_complete"
    by (simp add: lookup_issued_response_def)
  then show ?thesis
    by (simp add: feedback_commit_inputs_def demo_with_token(4,7) bumped_revision_def demo_revision_def)
qed

lemma demo_finished:
  obtains result where "commit_feedback (\<lambda>_. ''sha'') (demo_io 3) demo_prepared demo_with_token = (demo_finished, Inr result)"
    and "coordinator_ok demo_finished"
proof -
  obtain co' result where "commit_feedback (\<lambda>_. ''sha'') (demo_io 3) demo_prepared demo_with_token = (co', Inr result)"
    "coordinator_ok co'"
    by (rule commit_feedback_progress [OF demo_with_token(2) demo_genuine, of "demo_io 3" demo_complete
          "bumped_revision demo_config demo_revision 1" "\<lambda>_. ''sha''"])
       (simp_all add: demo_inputs record_receipt_limit_def fm_len_card demo_with_token(3,6) demo_config_def)
  then show thesis by (intro that [of result]) (simp_all add: demo_finished_def)
qed

end
