(* ===== verification/Retention_Theorems.thy ===== *)
theory Retention_Theorems
  imports Reply_Theorems Cleanup_Theorems
begin

text \<open>
  What bounded retention removes and what lookup finds: the oldest sessions and none with a pending
  reply, the oldest completed response and never a pending one, the oldest ledger rows; a lookup by
  response id that never crosses conversations; and the ordinals a saturated history hands out.
\<close>

section \<open>Eviction\<close>

definition root_sessions :: "coordinator_state_root \<Rightarrow> conversation_state_key set" where
  "root_sessions root = session_dom (conversation_turns root) (clarification_records root)"

definition root_session_rank :: "coordinator_state_root \<Rightarrow> conversation_state_key \<Rightarrow> int \<times> pybytes" where
  "root_session_rank root = session_rank (conversation_turns root) (clarification_records root)"

text \<open>Enforcing the session capacity removes exactly the excess of conversations, each at least as
  old as every one it keeps and none with a pending reply, and leaves the others as they are.\<close>

theorem session_eviction_removes_oldest:
  assumes "0 \<le> capacity" and "enforce_session_capacity root capacity = Inr root'"
    and "evicted = root_sessions root - root_sessions root'"
  shows "int (card evicted) = max 0 (int (card (root_sessions root)) - capacity)
    \<and> (\<forall>v\<in>evicted. fm_get (pending_request_by_state root) v = None
         \<and> (\<forall>k\<in>root_sessions root'. root_session_rank root v \<le> root_session_rank root k))
    \<and> fm_get (conversation_turns root') = fm_get (conversation_turns root) |` (- evicted)
    \<and> fm_get (clarification_records root') = fm_get (clarification_records root) |` (- evicted)"
proof (rule enforce_session_capacity_cases [OF assms(1), of root])
  fix v assume "enforce_session_capacity root capacity = Inl (CoordinatorError ''state_store_unavailable'')"
  with assms(2) show ?thesis by simp
next
  fix V t l
  assume cand: "enforce_session_capacity root capacity = Inr (without_unpinned_revisions
         (root\<lparr>conversation_turns := t, clarification_records := l\<rparr>))"
    and V: "V \<subseteq> session_dom (conversation_turns root) (clarification_records root)"
    and t: "fm_get t = fm_get (conversation_turns root) |` (- V)"
    and l: "fm_get l = fm_get (clarification_records root) |` (- V)"
    and idle: "\<forall>v\<in>V. fm_get (pending_request_by_state root) v = None"
    and old: "older_than V (session_dom (conversation_turns root) (clarification_records root))
             (session_rank (conversation_turns root) (clarification_records root))"
    and card: "int (card V) = max 0 (session_count root - capacity)"
  from assms(2) cand have maps: "conversation_turns root' = t" "clarification_records root' = l"
    by (auto simp: without_unpinned_revisions_def Let_def)
  then have sess: "root_sessions root' = root_sessions root - V"
    by (auto simp: root_sessions_def session_dom_def t l restrict_map_def split: if_splits)
  with V have ev: "evicted = V" by (auto simp: assms(3) root_sessions_def)
  show ?thesis
    using card idle old unfolding ev sess
    by (auto simp: maps t l root_sessions_def root_session_rank_def older_than_def session_count_def session_dom_def)
qed

definition is_complete :: "issued_response_record option \<Rightarrow> bool" where
  "is_complete r = (case r of Some (Complete _) \<Rightarrow> True | _ \<Rightarrow> False)"

definition completed_rank :: "coordinator_state_root \<Rightarrow> issued_key \<Rightarrow> int \<times> pystr" where
  "completed_rank root key =
     (case fm_get (issued_records root) key of
        Some (Complete c) \<Rightarrow> (cr_completed_at_monotonic_ns c, snd key) | _ \<Rightarrow> (0, []))"

text \<open>A full response store makes room by removing its oldest completed response together with the
  index entries of it; a pending response is never removed, and a store of pending responses only
  raises an error.\<close>

theorem response_eviction_removes_oldest_complete:
  assumes "capacity \<le> fm_len (issued_records root)"
  shows "case issued_capacity_eviction_candidate root capacity of
      Inl e \<Rightarrow> e = CoordinatorError ''issued_response_store_unavailable''
        \<and> (\<forall>key. \<not> is_complete (fm_get (issued_records root) key))
    | Inr None \<Rightarrow> False
    | Inr (Some root') \<Rightarrow> \<exists>key. is_complete (fm_get (issued_records root) key)
        \<and> fm_get (issued_records root') = (fm_get (issued_records root))(key := None)
        \<and> pending_request_by_state root' = pending_request_by_state root
        \<and> (\<forall>other. is_complete (fm_get (issued_records root) other)
             \<longrightarrow> completed_rank root key \<le> completed_rank root other)"
proof (cases "issued_capacity_eviction_candidate root capacity")
  case (Inl e)
  then have "complete_candidates root = []" "e = CoordinatorError ''issued_response_store_unavailable''"
    by (auto simp: issued_capacity_eviction_candidate_def Let_def split: if_splits prod.splits)
  moreover have "\<not> is_complete (fm_get (issued_records root) key)" for key
  proof
    assume "is_complete (fm_get (issued_records root) key)"
    then obtain c where "fm_get (issued_records root) key = Some (Complete c)"
      by (auto simp: is_complete_def split: option.splits issued_response_record.splits)
    then have "(cr_completed_at_monotonic_ns c, key, c) \<in> set (complete_candidates root)"
      by (simp add: complete_candidates_mem)
    with calculation show False by simp
  qed
  ultimately show ?thesis using Inl by simp
next
  case (Inr x)
  with assms have "x \<noteq> None"
    by (auto simp: issued_capacity_eviction_candidate_def Let_def split: if_splits prod.splits)
  with Inr obtain root' where cand: "issued_capacity_eviction_candidate root capacity = Inr (Some root')" by auto
  then show ?thesis
  proof (rule eviction_cases)
    fix key c
    assume key: "fm_get (issued_records root) key = Some (Complete c)"
      and least: "\<forall>key' c'. fm_get (issued_records root) key' = Some (Complete c') \<longrightarrow>
           (cr_completed_at_monotonic_ns c, snd key) \<le> (cr_completed_at_monotonic_ns c', snd key')"
      and root': "root' = root
      \<lparr>root_revision := root_revision root + 1,
       issued_records := without_keys (issued_records root) {key},
       response_index := without_keys (response_index root) {resp_id (cr_response c)},
       action_index := without_keys (action_index root) (effect_action_ids (cr_effects c))\<rparr>"
    have "completed_rank root key \<le> completed_rank root other"
      if "is_complete (fm_get (issued_records root) other)" for other
    proof -
      from that obtain c' where "fm_get (issued_records root) other = Some (Complete c')"
        by (auto simp: is_complete_def split: option.splits issued_response_record.splits)
      moreover from this have "(cr_completed_at_monotonic_ns c, snd key) \<le> (cr_completed_at_monotonic_ns c', snd other)"
        using least by blast
      ultimately show ?thesis using key by (simp add: completed_rank_def)
    qed
    moreover have "fm_get (issued_records root') = (fm_get (issued_records root))(key := None)"
      by (rule ext) (simp add: root' restrict_map_def)
    moreover have "is_complete (fm_get (issued_records root) key)" by (simp add: is_complete_def key)
    moreover have "pending_request_by_state root' = pending_request_by_state root" by (simp add: root')
    ultimately show ?thesis unfolding cand sum.case option.case by blast
  qed
qed

definition ledger_rank :: "ledger_key \<Rightarrow> action_ledger_record \<Rightarrow> int \<times> pybytes" where
  "ledger_rank key row = (al_received_at_epoch_ms row, key_bytes (fst key) (snd (snd key)))"

lemma ledger_loop_oldest:
  "fm_get ledger old = Some row \<Longrightarrow> fm_get (ledger_loop ledger) old = None
   \<Longrightarrow> fm_get (ledger_loop ledger) kept = Some row' \<Longrightarrow> ledger_rank old row \<le> ledger_rank kept row'"
proof (induction ledger rule: ledger_loop.induct)
  case (1 ledger)
  let ?f = "\<lambda>((k, _, a), row). (al_received_at_epoch_ms row, key_bytes k a)"
  have rank: "?f (key, row) = ledger_rank key row" for key row
    by (cases key) (simp add: ledger_rank_def)
  define victim where "victim = fst (arg_min_list ?f (fm_items triple_key_repr ledger))"
  from "1.prems" have full: "fm_len ledger > action_ledger_capacity"
    using ledger_loop_fits [of ledger] by force
  have eq: "ledger_loop ledger = ledger_loop (without_keys ledger {victim})"
    using full by (subst ledger_loop.simps) (simp add: victim_def)
  show ?case
  proof (cases "old = victim")
    case True
    from "1.prems"(3) have "fm_get ledger kept = Some row'" by (rule ledger_loop_mem)
    then have mem: "(kept, row') \<in> set (fm_items triple_key_repr ledger)" by (simp add: fm.mem_entries)
    obtain vrow where v: "arg_min_list ?f (fm_items triple_key_repr ledger) = (victim, vrow)"
      by (metis victim_def prod.collapse)
    from mem have "fm_items triple_key_repr ledger \<noteq> []" by auto
    from arg_min_list_mem [OF this, of ?f] have "fm_get ledger victim = Some vrow" by (simp add: v fm.mem_entries)
    with True "1.prems"(1) have "vrow = row" by simp
    with arg_min_list_le [OF mem, of ?f] True show ?thesis by (simp only: v rank)
  next
    case False
    with "1.prems" show ?thesis
      using "1.IH" [OF full victim_def] unfolding eq by simp
  qed
qed

text \<open>C39 The action ledger is cut to its capacity by dropping rows that are at least as old as every row
  that stays, and no other.\<close>

theorem ledger_keeps_newest:
  assumes "ledger' = ledger_loop ledger"
  shows "fm_get ledger' \<subseteq>\<^sub>m fm_get ledger \<and> fm_len ledger' \<le> action_ledger_capacity
    \<and> (\<forall>old row kept row'. fm_get ledger old = Some row \<longrightarrow> fm_get ledger' old = None
         \<longrightarrow> fm_get ledger' kept = Some row' \<longrightarrow> ledger_rank old row \<le> ledger_rank kept row')
    \<and> (fm_len ledger \<le> action_ledger_capacity \<longrightarrow> ledger' = ledger)"
  using ledger_loop_spec [of ledger] ledger_loop_oldest [of ledger] unfolding assms by blast

section \<open>Lookup\<close>

definition issued_in :: "coordinator_state_root \<Rightarrow> conversation_state_key \<Rightarrow> pystr \<Rightarrow> complete_issued_response \<Rightarrow> bool" where
  "issued_in root k rid c =
     (\<exists>q. fm_get (issued_records root) (k, q) = Some (Complete c) \<and> resp_id (cr_response c) = rid)"

text \<open>A response id looked up from a conversation finds the completed response issued there; it is a
  mismatch exactly when the id was issued to another conversation, and not found when it was issued to
  none.\<close>

theorem lookup_never_crosses_conversations:
  assumes "coordinator_ok co"
  shows "case lookup_issued_response co k rid of
      IssuedFound c \<Rightarrow> issued_in (co_root co) k rid c
    | IssuedIdentityMismatch \<Rightarrow> \<exists>k' c. k' \<noteq> k \<and> issued_in (co_root co) k' rid c
    | IssuedNotFound \<Rightarrow> \<forall>k' c. \<not> issued_in (co_root co) k' rid c"
proof -
  let ?r = "co_root co"
  have idx: "fm_get (response_index ?r) (resp_id (cr_response c)) = Some (k, q)"
    if "fm_get (issued_records ?r) (k, q) = Some (Complete c)" for k q c
    using coordinator_ok_indexes [OF assms] that unfolding inv_response_def by blast
  have stored: "\<exists>c. fm_get (issued_records ?r) key = Some (Complete c) \<and> resp_id (cr_response c) = i"
    if "fm_get (response_index ?r) i = Some key" for key i
    using coordinator_ok_indexes [OF assms] that unfolding inv_response_def by blast
  show ?thesis
  proof (cases "fm_get (response_index ?r) rid")
    case None
    with idx have "\<not> issued_in ?r k' rid c" for k' c by (auto simp: issued_in_def)
    with None show ?thesis by (simp add: lookup_issued_response_def lookup_issued_def)
  next
    case (Some key)
    obtain k' q where key: "key = (k', q)" by (cases key)
    from stored [OF Some] key obtain c where "fm_get (issued_records ?r) (k', q) = Some (Complete c)" "resp_id (cr_response c) = rid"
      by auto
    with Some key show ?thesis
      by (auto simp: lookup_issued_response_def lookup_issued_def issued_in_def)
  qed
qed

section \<open>Ordinals\<close>

lemma committed_turns:
  "prior_turns (committed_root sha cfg root p revision response audit now epoch) (rp_state_key p)
   = py_last (cfg_conversation_max_messages cfg)
      (prior_turns root (rp_state_key p)
       @ [user_turn_record p (int (length (prior_turns root (rp_state_key p)))) epoch,
          assistant_turn_record p (int (length (prior_turns root (rp_state_key p))) + 1) epoch
            (map_option pc_clarification_ref
              (commit_clarification sha p (int (length (prior_turns root (rp_state_key p)))) epoch))])"
  by (simp add: committed_root_def Let_def prior_turns_def)

text \<open>C40 Once a conversation has reached its bound of messages, every later commit numbers its two turns
  alike: after two commits the history holds two turns of one ordinal, and two clarifications of the
  same question have the same reference.\<close>

theorem saturated_history_repeats_ordinals:
  assumes "4 \<le> cfg_conversation_max_messages cfg"
    and "int (length (prior_turns root (rp_state_key p))) = cfg_conversation_max_messages cfg"
    and "rp_state_key p' = rp_state_key p"
    and "root1 = committed_root sha cfg root p revision response audit now epoch"
    and "root2 = committed_root sha cfg root1 p' revision' response' audit' now' epoch'"
    and "map_option pcp_question (rp_clarification p) = map_option pcp_question (rp_clarification p')"
  shows "\<not> distinct (map ct_ordinal (prior_turns root2 (rp_state_key p)))
    \<and> map_option pc_clarification_ref (fm_get (clarification_records root1) (rp_state_key p))
      = map_option pc_clarification_ref (fm_get (clarification_records root2) (rp_state_key p))"
proof -
  let ?k = "rp_state_key p" and ?max = "cfg_conversation_max_messages cfg"
  let ?n = "length (prior_turns root ?k)"
  from assms(1,2) have n: "4 \<le> ?n" "?max = int ?n" by auto
  then have ne: "prior_turns root ?k \<noteq> []" by auto
  have p1: "prior_turns root1 ?k = drop 2 (prior_turns root ?k)
      @ [user_turn_record p (int ?n) epoch, assistant_turn_record p (int ?n + 1) epoch
          (map_option pc_clarification_ref (commit_clarification sha p (int ?n) epoch))]"
    unfolding assms(4) committed_turns using n by (simp add: py_last_def)
  then have len: "length (prior_turns root1 ?k) = ?n" using n by simp
  have p2: "prior_turns root2 ?k = drop 2 (prior_turns root1 ?k)
      @ [user_turn_record p' (int ?n) epoch', assistant_turn_record p' (int ?n + 1) epoch'
          (map_option pc_clarification_ref (commit_clarification sha p' (int ?n) epoch'))]"
    unfolding assms(5) assms(3) [symmetric] committed_turns using n ne len assms(3) by (simp add: py_last_def)
  have "drop 2 (prior_turns root1 ?k) = drop 4 (prior_turns root ?k)
      @ [user_turn_record p (int ?n) epoch, assistant_turn_record p (int ?n + 1) epoch
          (map_option pc_clarification_ref (commit_clarification sha p (int ?n) epoch))]"
    unfolding p1 using n by simp
  with p2 have "\<not> distinct (map ct_ordinal (prior_turns root2 ?k))"
    by (simp add: user_turn_record_def assistant_turn_record_def)
  moreover have "fm_get (clarification_records root1) ?k = commit_clarification sha p (int ?n) epoch"
    by (auto simp: assms(4) committed_root_def Let_def split: option.splits)
  moreover have "fm_get (clarification_records root2) ?k = commit_clarification sha p' (int ?n) epoch'"
    using len assms(3) by (auto simp: assms(5) committed_root_def Let_def split: option.splits)
  ultimately show ?thesis using assms(3,6)
    by (cases "rp_clarification p"; cases "rp_clarification p'") (auto simp: commit_clarification_def)
qed

end
