(* ===== verification/Witnesses_World.thy ===== *)
theory Witnesses_World
  imports Example_World Retention_Theorems
begin

text \<open>
  The properties of the stores and of the coordinator, applied along the history of
  \<open>Example_World\<close>, and the retention and lookup properties at small roots.
\<close>

section \<open>The history as steps\<close>

abbreviation demo_sha :: "pybytes \<Rightarrow> pystr" where
  "demo_sha \<equiv> (\<lambda>_. ''sha'')"

lemma demo_step_reserve: "co_step demo_sha demo_start demo_reserved"
proof -
  have "reserve_reply (demo_io 0) demo_key ''request-1'' ''hash-1'' True demo_start =
      (demo_reserved, snd (reserve_reply (demo_io 0) demo_key ''request-1'' ''hash-1'' True demo_start))"
    by (simp add: demo_reserved_def)
  then show ?thesis by (rule step_reserve)
qed

lemma demo_step_commit: "co_step demo_sha demo_reserved demo_committed"
  by (rule step_commit [OF demo_check demo_committed(1)])

lemma demo_step_prepare: "co_step demo_sha demo_committed demo_with_token"
  by (rule step_prepare [OF demo_with_token(1)])

lemma demo_step_feedback: "co_step demo_sha demo_with_token demo_finished"
  by (rule demo_finished) (rule step_feedback [OF demo_genuine])

lemma demo_reachable:
  "rtranclp (co_step demo_sha) demo_start demo_committed"
  "rtranclp (co_step demo_sha) demo_committed demo_finished"
  "rtranclp (co_step demo_sha) demo_start demo_finished"
proof -
  show a: "rtranclp (co_step demo_sha) demo_start demo_committed"
    using demo_step_reserve demo_step_commit by (meson rtranclp.rtrancl_into_rtrancl rtranclp.rtrancl_refl)
  show b: "rtranclp (co_step demo_sha) demo_committed demo_finished"
    using demo_step_prepare demo_step_feedback by (meson rtranclp.rtrancl_into_rtrancl rtranclp.rtrancl_refl)
  from a b show "rtranclp (co_step demo_sha) demo_start demo_finished" by (rule rtranclp_trans)
qed

lemma demo_complete_effects_ok: "effects_ok (cr_effects demo_complete)"
  by (simp add: demo_complete_def complete_record_def derive_issued_effects_ok)

section \<open>Witnesses\<close>

theorem reachable_coordinator_ok_witness: "coordinator_ok demo_finished"
  by (rule reachable_coordinator_ok [OF demo_start_ok demo_reachable(3)])

theorem reachable_root_revision_monotone_witness:
  "root_revision (co_root demo_committed) \<le> root_revision (co_root demo_finished)"
  by (rule reachable_root_revision_monotone [OF demo_start_ok demo_reachable(1,2)])

theorem reachable_retention_bounded_witness:
  "fm_len (issued_records (co_root demo_finished)) \<le> cfg_issued_response_capacity (co_config demo_finished)"
  using reachable_retention_bounded [OF demo_start_ok demo_reachable(3)] by blast

theorem publication_validates_witness:
  "dom (fm_get (state_revisions (published_root (co_root demo_committed)))) =
     pinned_state_keys (published_root (co_root demo_committed))"
proof -
  have "candidate_ok demo_config (co_root demo_committed)"
    using coordinator_ok_root [OF demo_committed(2)] by (simp add: root_ok_def demo_committed(3))
  from publication_validates [OF this] show ?thesis by blast
qed

theorem cleanup_exact_witness: "\<exists>co' n. co_cleanup (demo_io 5) demo_committed = (co', Inr n)"
  using cleanup_exact [OF demo_committed(2), of "demo_io 5"] by auto

theorem reservation_single_flight_witness:
  "snd (reserve_reply (demo_io 1) demo_key ''request-2'' ''hash-2'' True demo_reserved) =
     Inl (CoordinatorError ''conversation_turn_in_progress'')"
proof -
  have pend: "fm_get (issued_records (co_root demo_reserved)) (demo_key, ''request-1'') = Some (Pending demo_pending)"
    by (simp add: demo_reserved(2))
  show ?thesis
    using reservation_single_flight [OF demo_reserved(1) _ pend, of "demo_io 1" "''request-2''" "''hash-2''" True]
    by (auto simp: demo_pending_def demo_reserved(2) split: prod.splits)
qed

theorem reservation_succeeds_witness:
  "\<exists>co' nr. reserve_reply (demo_io 0) demo_key ''request-1'' ''hash-1'' True demo_start =
     (co', Inr (NewReplyReservation nr))"
  using reservation_succeeds [OF demo_start_inv, of "demo_io 0" demo_key "''request-1''" "''hash-1''" True]
  by (auto simp: empty_coordinator_root_def demo_config_def)

theorem commit_reply_all_or_nothing_witness:
  "fm_get (pending_request_by_state (co_root demo_committed)) demo_key = None"
  using commit_reply_all_or_nothing [OF demo_reserved(1) demo_check, where sha = demo_sha and io = "demo_io 1"]
  by (auto simp: demo_committed(1))

theorem committed_reply_is_replayed_witness:
  "\<exists>r. snd (reserve_reply (demo_io 2) demo_key ''request-1'' ''hash-1'' True demo_committed) =
     Inr (CompletedReplyReplay r) \<and> cp_response r = demo_response"
  using committed_reply_is_replayed [OF demo_reserved(1) demo_check demo_committed(1), of "demo_io 2" "''hash-1''"]
  by (auto simp: demo_reserved(4) demo_config_def)

theorem abort_needs_owner_witness:
  "co_root (fst (abort_reply (demo_io 1) demo_key ''request-1'' ''wrong'' demo_reserved)) = co_root demo_reserved"
  using abort_needs_owner [OF demo_reserved(1), where io = "demo_io 1" and k = demo_key and q = "''request-1''" and token = "''wrong''"]
  by (auto simp: demo_reserved(2) demo_pending_def split: prod.splits sum.splits)

theorem feedback_applied_once_witness:
  "commit_feedback demo_sha (demo_io 4) demo_prepared demo_finished =
     (demo_finished, Inl (CoordinatorError ''feedback_token_not_found''))"
proof (rule demo_finished)
  fix result
  assume "commit_feedback demo_sha (demo_io 3) demo_prepared demo_with_token = (demo_finished, Inr result)"
  from feedback_applied_once [OF demo_with_token(2) demo_genuine this, of "demo_io 4"] show ?thesis by blast
qed

theorem committed_feedback_is_replayed_witness:
  "\<exists>r. snd (prepare_feedback demo_sha (demo_io 4) demo_key demo_feedback demo_finished) =
     Inr (FeedbackReceiptReplay r)"
proof (rule demo_finished)
  fix result
  assume op: "commit_feedback demo_sha (demo_io 3) demo_prepared demo_with_token = (demo_finished, Inr result)"
  have "fm_get (issued_records (co_root demo_with_token)) (demo_key, ''request-1'') = Some (Complete demo_complete)"
    by (simp add: demo_with_token(5))
  from lookup_complete [OF demo_with_token(2) this]
  have "lookup_issued_response demo_with_token demo_key ''resp-0a'' = IssuedFound demo_complete" by simp
  with committed_feedback_is_replayed [OF demo_with_token(2) demo_genuine op, of demo_feedback "demo_io 4"]
  show ?thesis by (auto simp: demo_with_token(3) demo_config_def feedback_hash_def)
qed

theorem effects_move_forward_witness:
  "\<exists>c'. fm_get (issued_records (co_root demo_finished)) (demo_key, ''request-1'') = Some (Complete c')
     \<and> cr_response c' = demo_response"
proof (rule demo_finished)
  fix result
  assume op: "commit_feedback demo_sha (demo_io 3) demo_prepared demo_with_token = (demo_finished, Inr result)"
  have im: "fm_get (issued_records (co_root demo_with_token)) (demo_key, ''request-1'') = Some (Complete demo_complete)"
    by (simp add: demo_with_token(5))
  obtain c' where im': "fm_get (issued_records (co_root demo_finished)) (demo_key, ''request-1'') = Some (Complete c')"
    by (rule commit_feedback_outcome [OF demo_with_token(2) demo_genuine op], drule (1) feedback_publishes(1)) simp
  from effects_move_forward [OF demo_with_token(2) demo_step_feedback im im'] im' show ?thesis
    by (auto simp: demo_complete_def complete_record_def)
qed

definition demo_done :: complete_issued_response where
  "demo_done = demo_complete\<lparr>cr_effects := apply_effect_transitions (cr_effects demo_complete) demo_transitions\<rparr>"

theorem executed_effect_terminal_witness:
  "\<exists>ts e. prepare_effect_transitions demo_done demo_feedback = Inr ts \<and> e \<in> set (cr_effects demo_done)
     \<and> ie_status e = Some Executed \<and> apply_effect_transition ts e = e"
proof -
  let ?e = "cr_effects demo_done ! 1"
  have ok: "effects_ok (cr_effects demo_done)"
    using apply_effect_transitions_ok [OF demo_complete_effects_ok]
      prepare_effect_transitions_ok [OF demo_transitions_prepared] by (simp add: demo_done_def)
  have "case prepare_effect_transitions demo_done demo_feedback of Inl _ \<Rightarrow> False | Inr _ \<Rightarrow> True" by code_simp
  then obtain ts where ts: "prepare_effect_transitions demo_done demo_feedback = Inr ts" by (auto split: sum.splits)
  have e: "?e \<in> set (cr_effects demo_done)" "ie_status ?e = Some Executed" by code_simp+
  from executed_effect_terminal [OF ok ts e] ts e show ?thesis by blast
qed

theorem accepted_feedback_is_applied_witness:
  "\<exists>e. find_effect ''action:act-0b'' (cr_effects demo_complete) = Some e
     \<and> ie_status (apply_effect_transition demo_transitions e) = Some Executed"
proof -
  let ?x = "hd (fb_executions demo_feedback)"
  have x: "?x \<in> set (fb_executions demo_feedback)" "execution_effect_key ?x = ''action:act-0b''" "ex_status ?x = Executed"
    by code_simp+
  from accepted_feedback_is_applied [OF demo_complete_effects_ok demo_transitions_prepared x(1)] x(2,3)
  show ?thesis by auto
qed

definition demo_ledger_row :: "pystr \<Rightarrow> action_ledger_record" where
  "demo_ledger_row rid = \<lparr>al_state_key = demo_key, al_response_id = rid, al_action_id = ''act-0b'',
     al_action_type = Send_material_pack, al_status = Executed, al_artifact_ref = None, al_status_revision = 1,
     al_received_at_epoch_ms = 3, al_expires_at_monotonic_ns = 9, al_pol1 = [], al_par1 = [], al_grh1 = [],
     al_bsh1 = []\<rparr>"

lemma ledger_order_mem:
  "fm_get m (k, a, b) = Some v \<Longrightarrow> (rank v, key_bytes k b, RkTriple (k, a, b)) \<in> set (ledger_order rank m)"
  unfolding ledger_order_def set_sorted_order set_map
  by (intro image_eqI [of _ _ "((k, a, b), v)"]) (simp_all add: fm.mem_entries)

theorem order_ties_share_state_key_witness:
  "\<exists>order row row'. order \<in> set (derived_orders (with_root_orders (empty_coordinator_root
       \<lparr>action_ledger_records := frozen_map_of (pd_of
          [((demo_key, ''resp-0a'', ''act-0b''), demo_ledger_row ''resp-0a''),
           ((demo_key, ''resp-0c'', ''act-0b''), demo_ledger_row ''resp-0c'')])\<rparr>)))
     \<and> row \<in> set order \<and> row' \<in> set order \<and> row \<noteq> row'
     \<and> root_key_state (snd (snd row)) = root_key_state (snd (snd row'))"
proof -
  let ?m = "frozen_map_of (pd_of [((demo_key, ''resp-0a'', ''act-0b''), demo_ledger_row ''resp-0a''),
           ((demo_key, ''resp-0c'', ''act-0b''), demo_ledger_row ''resp-0c'')])"
  let ?root = "empty_coordinator_root\<lparr>action_ledger_records := ?m\<rparr>"
  let ?order = "ledger_order al_expires_at_monotonic_ns ?m"
  let ?row = "\<lambda>rid. (9, key_bytes demo_key ''act-0b'', RkTriple (demo_key, rid, ''act-0b''))"
  have order: "?order \<in> set (derived_orders (with_root_orders ?root))"
    by (simp add: derived_orders_def with_root_orders_def)
  have "fm_get ?m (demo_key, ''resp-0a'', ''act-0b'') = Some (demo_ledger_row ''resp-0a'')"
    "fm_get ?m (demo_key, ''resp-0c'', ''act-0b'') = Some (demo_ledger_row ''resp-0c'')" by simp_all
  from this [THEN ledger_order_mem, of al_expires_at_monotonic_ns]
  have rows: "?row ''resp-0a'' \<in> set ?order" "?row ''resp-0c'' \<in> set ?order"
    by (simp_all add: demo_ledger_row_def)
  have tie: "fst (snd (?row ''resp-0a'')) = fst (snd (?row ''resp-0c''))" by simp
  from order_ties_share_state_key [OF order rows tie] order rows show ?thesis by blast
qed

theorem admitted_rows_isolated_witness:
  "length (admitted_action_ledger_rows (co_root demo_finished) demo_key ''par1:a'' ''grh1:a'' ''bsh1:a'') \<le> 20"
  using admitted_rows_isolated by blast

definition demo_digest :: pystr where
  "demo_digest = ''dah1:'' @ replicate 64 CHR ''a''"

definition demo_direct_proposal :: direct_audit_commit_proposal where
  "demo_direct_proposal = \<lparr>da_state_key_digest = demo_digest, da_request_id_digest = demo_digest,
     da_reason_code = ''no_reply'', da_manifest_refs = [], da_content_digests = [(''message'', demo_digest)],
     da_lengths = [], da_dependency_counts = [], da_static_registry_id = [], da_static_registry_version = [],
     da_program_attempts = []\<rparr>"

theorem direct_audit_record_redacted_witness:
  "\<exists>r. build_audit_record (DirectAuditCommitProposalV1 demo_direct_proposal) demo_key
       (''resp-'' @ replicate 32 CHR ''0'') ''request-1'' Reply_no_reply 1 2 = Inr (DirectAuditRecordV1 r)
     \<and> dr_redaction_flags r = direct_redaction_flags"
proof -
  have "case build_audit_record (DirectAuditCommitProposalV1 demo_direct_proposal) demo_key
       (''resp-'' @ replicate 32 CHR ''0'') ''request-1'' Reply_no_reply 1 2 of
      Inr (DirectAuditRecordV1 _) \<Rightarrow> True | _ \<Rightarrow> False"
    by code_simp
  then obtain r where "build_audit_record (DirectAuditCommitProposalV1 demo_direct_proposal) demo_key
       (''resp-'' @ replicate 32 CHR ''0'') ''request-1'' Reply_no_reply 1 2 = Inr (DirectAuditRecordV1 r)"
    by (auto split: sum.splits audit_record.splits)
  with direct_audit_record_redacted [OF this] show ?thesis by blast
qed

section \<open>Retention and lookups\<close>

text \<open>
  The retention and lookup properties at concrete roots: the empty root with a few records added, and
  the coordinator of \<open>Example_World\<close> after its first commit.
\<close>

definition demo_turns :: "conversation_turn_record list" where
  "demo_turns = map (\<lambda>i. user_turn_record demo_proposal i 0) [0, 1, 2, 3]"

definition demo_history_root :: coordinator_state_root where
  "demo_history_root = empty_coordinator_root
     \<lparr>conversation_turns := with_updates fm_empty [(demo_key, demo_turns)]\<rparr>"

lemma demo_history_sessions: "root_sessions demo_history_root = {demo_key}"
  by (simp add: root_sessions_def session_dom_def demo_history_root_def empty_coordinator_root_def)

theorem session_eviction_removes_oldest_witness:
  "case enforce_session_capacity demo_history_root 0 of
     Inr root' \<Rightarrow> card (root_sessions demo_history_root - root_sessions root') = 1 | Inl _ \<Rightarrow> False"
proof (rule enforce_session_capacity_cases [of 0 demo_history_root])
  fix V t l
  assume "enforce_session_capacity demo_history_root 0 = Inr (without_unpinned_revisions
         (demo_history_root\<lparr>conversation_turns := t, clarification_records := l\<rparr>))"
  then show ?thesis
    using session_eviction_removes_oldest [where capacity = 0 and root = demo_history_root, OF _ _ refl]
    by (simp add: demo_history_sessions)
qed (simp_all add: demo_history_root_def empty_coordinator_root_def)

theorem response_eviction_removes_oldest_complete_witness:
  "case issued_capacity_eviction_candidate (co_root demo_committed) 1 of
     Inr (Some root') \<Rightarrow> fm_get (issued_records root') (demo_key, ''request-1'') = None | _ \<Rightarrow> False"
proof -
  have full: "1 \<le> fm_len (issued_records (co_root demo_committed))"
    by (simp add: fm_len_card demo_committed(4))
  have complete: "is_complete (fm_get (issued_records (co_root demo_committed)) (demo_key, ''request-1''))"
    by (simp add: demo_committed(4) is_complete_def)
  show ?thesis
    using response_eviction_removes_oldest_complete [OF full] complete
    by (auto simp: demo_committed(4) is_complete_def split: sum.splits option.splits if_splits)
qed

definition demo_ledger :: "(ledger_key, action_ledger_record) frozen_map" where
  "demo_ledger = with_updates fm_empty [((demo_key, ''resp-0a'', ''act-0b''),
     \<lparr>al_state_key = demo_key, al_response_id = ''resp-0a'', al_action_id = ''act-0b'',
      al_action_type = Send_material_pack, al_status = Executed, al_artifact_ref = None,
      al_status_revision = 1, al_received_at_epoch_ms = 0, al_expires_at_monotonic_ns = 1,
      al_pol1 = [], al_par1 = [], al_grh1 = [], al_bsh1 = []\<rparr>)]"

theorem ledger_keeps_newest_witness: "ledger_loop demo_ledger = demo_ledger \<and> fm_len (ledger_loop demo_ledger) = 1"
proof -
  have "fm_len demo_ledger = 1" by (simp add: demo_ledger_def fm_len_card)
  with ledger_keeps_newest [where ledger = demo_ledger, OF refl] show ?thesis
    by (simp add: action_ledger_capacity_def)
qed

theorem lookup_never_crosses_conversations_witness:
  "case lookup_issued_response demo_committed (demo_key\<lparr>csk_principal_ref := ''principal:two''\<rparr>) ''resp-0a'' of
     IssuedIdentityMismatch \<Rightarrow> True | _ \<Rightarrow> False"
proof -
  let ?k = "demo_key\<lparr>csk_principal_ref := ''principal:two''\<rparr>"
  have other: "?k \<noteq> demo_key" by (simp add: demo_key_def)
  have "issued_in (co_root demo_committed) demo_key ''resp-0a'' demo_complete"
    by (simp add: issued_in_def demo_committed(4))
  moreover have "\<not> issued_in (co_root demo_committed) ?k ''resp-0a'' c" for c
    using other by (auto simp: issued_in_def demo_committed(4) split: if_splits)
  ultimately show ?thesis
    using lookup_never_crosses_conversations [OF demo_committed(2), where k = ?k and rid = "''resp-0a''"]
    by (auto split: issued_response_lookup.splits)
qed

definition demo_question :: reply_commit_proposal where
  "demo_question = demo_proposal
     \<lparr>rp_clarification := Some \<lparr>pcp_kind = Ck_destination, pcp_slots = [], pcp_question = ''Where to?'', pcp_topic = None\<rparr>\<rparr>"

definition demo_once :: coordinator_state_root where
  "demo_once = committed_root demo_sha demo_config demo_history_root demo_question demo_revision demo_response demo_audit 1 1"

definition demo_twice :: coordinator_state_root where
  "demo_twice = committed_root demo_sha demo_config demo_once demo_question demo_revision demo_response demo_audit 2 2"

theorem saturated_history_repeats_ordinals_witness:
  "\<not> distinct (map ct_ordinal (prior_turns demo_twice demo_key))"
proof -
  have key: "rp_state_key demo_question = demo_key" by (simp add: demo_question_def demo_proposal_def)
  have len: "int (length (prior_turns demo_history_root (rp_state_key demo_question))) = cfg_conversation_max_messages demo_config"
    by (simp add: key prior_turns_def demo_history_root_def demo_turns_def demo_config_def)
  show ?thesis
    using saturated_history_repeats_ordinals [OF _ len refl demo_once_def demo_twice_def refl]
    by (simp add: key demo_config_def)
qed

end
