(* ===== verification/Json_Injective.thy ===== *)
theory Json_Injective
  imports Canonical_Json Py_Text
begin

text \<open>
  Canonical JSON determines the value it was made from, up to the order of object members. The
  proof reads a text from the left: every value's text has a first character of its own kind, and
  no text of a value can be continued into the text of another one before a delimiter.

  \<open>json_norm\<close> sorts the members of every object, which is the value the text determines;
  \<open>json_ok\<close> asks that keys of an object are distinct (they come from a dictionary) and that a float
  is carried by a text Python's \<open>repr\<close> can produce for a finite one.
\<close>

section \<open>Normal forms\<close>

fun json_norm :: "json \<Rightarrow> json" where
  "json_norm (JList vs) = JList (map json_norm vs)"
| "json_norm (JObj kvs) = JObj (sort_key fst (map (\<lambda>(k, v). (k, json_norm v)) kvs))"
| "json_norm v = v"

definition number_char :: "char \<Rightarrow> bool" where
  "number_char c = (is_digit c \<or> c \<in> set ''+-.e'')"

definition float_repr :: "pystr \<Rightarrow> bool" where
  "float_repr r = (list_all number_char r \<and> (CHR ''.'' \<in> set r \<or> CHR ''e'' \<in> set r))"

fun json_ok :: "json \<Rightarrow> bool" where
  "json_ok (JFloat r) = float_repr r"
| "json_ok (JList vs) = (\<forall>v\<in>set vs. json_ok v)"
| "json_ok (JObj kvs) = (distinct (map fst kvs) \<and> (\<forall>kv\<in>set kvs. json_ok (snd kv)))"
| "json_ok _ = True"

text \<open>Objects in a normal form list their members by increasing key.\<close>

fun json_sorted :: "json \<Rightarrow> bool" where
  "json_sorted (JFloat r) = float_repr r"
| "json_sorted (JList vs) = (\<forall>v\<in>set vs. json_sorted v)"
| "json_sorted (JObj kvs) = (sorted (map fst kvs) \<and> (\<forall>kv\<in>set kvs. json_sorted (snd kv)))"
| "json_sorted _ = True"

lemma sort_key_map_snd:
  "sort_key fst (map (\<lambda>(k, v). (k, f v)) kvs) = map (\<lambda>(k, v). (k, f v)) (sort_key fst kvs)"
  for kvs :: "('k::linorder \<times> 'v) list"
proof (induction kvs)
  case (Cons kv kvs)
  have "insort_key fst (k, f v) (map (\<lambda>(k, v). (k, f v)) xs)
      = map (\<lambda>(k, v). (k, f v)) (insort_key fst (k, v) xs)" for k v and xs :: "('k \<times> 'v) list"
    by (induction xs) auto
  with Cons show ?case by (cases kv) simp
qed simp

lemma json_norm_sorted: "json_ok v \<Longrightarrow> json_sorted (json_norm v)"
  by (induction v rule: json_norm.induct) (auto simp: split_beta)

lemma json_text_norm: "json_text a (json_norm v) = json_text a v"
proof (induction v rule: json_norm.induct)
  case (2 kvs)
  let ?n = "map (\<lambda>(k, v). (k, json_norm v)) kvs"
  have "sort_key fst (map (\<lambda>(k, v). (k, json_text a v)) (sort_key fst ?n))
      = sort_key fst (map (\<lambda>(k, v). (k, json_text a v)) ?n)"
    by (simp only: sort_key_map_snd) (simp add: sort_key_id_if_sorted)
  also have "map (\<lambda>(k, v). (k, json_text a v)) ?n = map (\<lambda>(k, v). (k, json_text a v)) kvs"
    using 2 by (auto simp: comp_def)
  finally show ?case by simp
qed (auto cong: map_cong)

section \<open>Delimiters and first characters\<close>

definition stops :: "pystr \<Rightarrow> bool" where
  "stops s = (s = [] \<or> hd s \<in> set '',]}'')"

lemma stops_simps [simp]:
  "stops []" "stops (CHR '','' # s)" "stops (CHR '']'' # s)" "stops (CHR ''}'' # s)"
  by (simp_all add: stops_def)

lemma number_char_not_delimiter [simp]:
  "\<not> number_char CHR '',''" "\<not> number_char CHR '']''" "\<not> number_char CHR ''}''"
  "\<not> number_char CHR 0x22" "\<not> number_char CHR ''{''" "\<not> number_char CHR ''[''"
  "\<not> number_char CHR ''t''" "\<not> number_char CHR ''f''" "\<not> number_char CHR ''n''"
  by (simp_all add: number_char_def is_digit_def)

lemma number_token:
  assumes "list_all number_char u" "list_all number_char v" "stops s" "stops t" "u @ s = v @ t"
  shows "u = v \<and> s = t"
proof -
  have "takeWhile number_char (w @ r) = w" if "list_all number_char w" "stops r" for w r
    using that by (cases r) (auto simp: stops_def list_all_iff takeWhile_append2)
  with assms have "u = v" by metis
  with assms(5) show ?thesis by simp
qed

lemma nat_str_number: "list_all number_char (nat_str n)"
proof -
  have "is_digit c" if "c \<in> set (nat_str n)" for c
    using nat_str_digits [OF that]
    by (auto simp: is_digit_def less_eq_char_def)
  then show ?thesis by (auto simp: list_all_iff number_char_def)
qed

lemma nat_str_no_mark: "c \<in> set (nat_str n) \<Longrightarrow> c \<notin> set ''+-.e''"
  using nat_str_digits [of c n] by auto

lemma int_str_number: "list_all number_char (int_str i)"
  by (auto simp: int_str_def nat_str_number) (simp add: number_char_def)

lemma int_str_nonempty [simp]: "int_str i \<noteq> []"
  by (simp add: int_str_def)

lemma int_str_inj: "int_str i = int_str j \<Longrightarrow> i = j"
  using nat_str_no_mark [of "CHR ''-''" "nat i"] nat_str_no_mark [of "CHR ''-''" "nat j"]
  by (auto simp: int_str_def dest: nat_str_inj split: if_splits)
    (metis list.set_intros(1))+

lemma int_str_not_float: "float_repr r \<Longrightarrow> int_str i \<noteq> r"
  using nat_str_no_mark [of "CHR ''.''"] nat_str_no_mark [of "CHR ''e''"]
  by (auto simp: float_repr_def int_str_def split: if_splits)

fun head_char :: "json \<Rightarrow> char \<Rightarrow> bool" where
  "head_char JNull c = (c = CHR ''n'')"
| "head_char (JBool b) c = (c = (if b then CHR ''t'' else CHR ''f''))"
| "head_char (JInt i) c = number_char c"
| "head_char (JFloat r) c = number_char c"
| "head_char (JStr s) c = (c = CHR 0x22)"
| "head_char (JList vs) c = (c = CHR ''['')"
| "head_char (JObj kvs) c = (c = CHR ''{'')"

lemma json_text_head:
  assumes "json_sorted v"
  obtains c r where "json_text a v = c # r" "head_char v c"
proof -
  have "json_text a v \<noteq> [] \<and> head_char v (hd (json_text a v))"
  proof (cases v)
    case (JInt i)
    with int_str_number [of i] show ?thesis by (cases "int_str i") auto
  next
    case (JFloat r)
    with assms show ?thesis by (cases r) (auto simp: float_repr_def)
  qed (auto simp: json_quote_def)
  with that show thesis by (cases "json_text a v") auto
qed

lemma head_char_not_delimiter: "head_char v c \<Longrightarrow> c \<notin> set '',]}''"
  by (cases v) (auto split: if_splits)

section \<open>Sequences\<close>

lemma join_with_Cons:
  "join_with sep (x # xs) = x @ (if xs = [] then [] else sep @ join_with sep xs)"
  by (cases xs) auto

lemma join_prefix_free:
  assumes "\<And>x y s t. x \<in> set xs \<Longrightarrow> y \<in> set ys \<Longrightarrow> stops s \<Longrightarrow> stops t \<Longrightarrow> f x @ s = f y @ t
      \<Longrightarrow> x = y \<and> s = t"
    and "\<And>x. x \<in> set xs \<union> set ys \<Longrightarrow> f x \<noteq> [] \<and> hd (f x) \<noteq> c"
    and "c \<in> set '']}''"
    and "join_with '','' (map f xs) @ c # s = join_with '','' (map f ys) @ c # t"
  shows "xs = ys \<and> s = t"
  using assms
proof (induction xs arbitrary: ys)
  case Nil
  show ?case
  proof (cases ys)
    case (Cons y ys')
    with Nil.prems(2) [of y] obtain h r where "f y = h # r" "h \<noteq> c" by (cases "f y") auto
    with Nil.prems(4) Cons show ?thesis by (simp add: join_with_Cons)
  qed (use Nil.prems(4) in simp)
next
  case (Cons x xs)
  from Cons.prems(2) [of x] obtain h r where fx: "f x = h # r" "h \<noteq> c" by (cases "f x") auto
  with Cons.prems(4) obtain y ys' where ys: "ys = y # ys'" by (cases ys) (auto simp: join_with_Cons)
  let ?tail = "\<lambda>zs u. (if zs = [] then [] else '','' @ join_with '','' (map f zs)) @ c # u"
  have stop: "stops (?tail zs u)" for zs u using Cons.prems(3) by (auto simp: stops_def)
  have "f x @ ?tail xs s = f y @ ?tail ys' t" using Cons.prems(4) ys by (simp add: join_with_Cons)
  then have xy: "x = y" and tails: "?tail xs s = ?tail ys' t"
    using Cons.prems(1) [of x y, OF _ _ stop stop] ys by auto
  show ?case
  proof (cases "xs = [] \<or> ys' = []")
    case True
    with tails xy ys Cons.prems(3) show ?thesis by (auto split: if_splits)
  next
    case False
    with tails have "join_with '','' (map f xs) @ c # s = join_with '','' (map f ys') @ c # t" by simp
    from Cons.IH [OF _ _ Cons.prems(3) this] Cons.prems(1,2) ys
    have "xs = ys' \<and> s = t" by (metis Un_iff list.set_intros(2))
    with xy ys show ?thesis by simp
  qed
qed

section \<open>Values\<close>

definition member_text :: "bool \<Rightarrow> pystr \<times> json \<Rightarrow> pystr" where
  "member_text a kv = json_quote a (fst kv) @ '':'' @ json_text a (snd kv)"

lemma object_text:
  assumes "sorted (map fst kvs)"
  shows "json_text a (JObj kvs) = ''{'' @ join_with '','' (map (member_text a) kvs) @ ''}''"
  using assms
  by (simp add: sort_key_map_snd sort_key_id_if_sorted member_text_def [abs_def] comp_def case_prod_unfold)

lemma member_text_head: "member_text a kv \<noteq> [] \<and> hd (member_text a kv) = CHR 0x22"
  by (simp add: member_text_def json_quote_def)

fun number_json :: "json \<Rightarrow> bool" where
  "number_json (JInt i) = True"
| "number_json (JFloat r) = True"
| "number_json _ = False"

lemma number_prefix_free:
  assumes "number_json v" "number_json w" "json_sorted v" "json_sorted w" "stops s" "stops t"
    and "json_text a v @ s = json_text a w @ t"
  shows "v = w \<and> s = t"
proof -
  have "list_all number_char (json_text a u)" if "number_json u" "json_sorted u" for u
    using that by (cases u) (auto simp: float_repr_def int_str_number)
  then have "json_text a v = json_text a w" "s = t" using assms number_token by metis+
  with assms(1-4) show ?thesis
    by (cases v; cases w) (auto dest: int_str_inj int_str_not_float)
qed

lemma leaf_prefix_free:
  assumes "\<nexists>vs. v = JList vs" "\<nexists>kvs. v = JObj kvs" "json_sorted v" "json_sorted w" "stops s" "stops t"
    and eq: "json_text a v @ s = json_text a w @ t"
  shows "v = w \<and> s = t"
proof -
  obtain c r where c: "json_text a v = c # r" "head_char v c" using json_text_head assms(3) by blast
  obtain d u where d: "json_text a w = d # u" "head_char w d" using json_text_head assms(4) by blast
  from c d eq have cd: "c = d" by simp
  show ?thesis
  proof (cases "number_json v \<or> number_json w")
    case True
    with c(2) d(2) cd have "number_json v" "number_json w"
      by (cases v; cases w; auto split: if_splits)+
    with number_prefix_free assms show ?thesis by blast
  next
    case False
    with c(2) d(2) cd assms(1,2) eq show ?thesis
      by (cases v; cases w) (auto split: if_splits dest: json_quote_prefix_free)
  qed
qed

lemma json_text_prefix_free:
  assumes "json_sorted v" "json_sorted w" "stops s" "stops t"
    and "json_text a v @ s = json_text a w @ t"
  shows "v = w \<and> s = t"
  using assms
proof (induction v arbitrary: w s t)
  case (JList vs)
  obtain c r where "json_text a w = c # r" "head_char w c" using json_text_head JList.prems(2) by blast
  with JList.prems(5) obtain ws where w: "w = JList ws"
    by (cases w) (auto simp: number_char_def is_digit_def split: if_splits)
  with JList.prems(5)
  have "join_with '','' (map (json_text a) vs) @ CHR '']'' # s
      = join_with '','' (map (json_text a) ws) @ CHR '']'' # t" by simp
  moreover have "json_text a v \<noteq> [] \<and> hd (json_text a v) \<noteq> CHR '']''" if "v \<in> set vs \<union> set ws" for v
  proof -
    from that JList.prems(1,2) w have "json_sorted v" by auto
    then obtain c r where "json_text a v = c # r" "head_char v c" using json_text_head by blast
    with head_char_not_delimiter [of v c] show ?thesis by auto
  qed
  ultimately have "vs = ws \<and> s = t"
    using JList.IH JList.prems(1,2) w by (intro join_prefix_free [where f = "json_text a" and c = "CHR '']''"]) auto
  with w show ?case by simp
next
  case (JObj kvs)
  obtain c r where "json_text a w = c # r" "head_char w c" using json_text_head JObj.prems(2) by blast
  with JObj.prems(5) obtain kws where w: "w = JObj kws"
    by (cases w) (auto simp: number_char_def is_digit_def split: if_splits)
  with JObj.prems(1,2,5)
  have "join_with '','' (map (member_text a) kvs) @ CHR ''}'' # s
      = join_with '','' (map (member_text a) kws) @ CHR ''}'' # t"
    by (simp del: json_text.simps add: object_text)
  moreover have "x = y \<and> s' = t'"
    if "x \<in> set kvs" "y \<in> set kws" "stops s'" "stops t'" "member_text a x @ s' = member_text a y @ t'"
    for x y s' t'
  proof -
    from that(5) have "fst x = fst y" and "json_text a (snd x) @ s' = json_text a (snd y) @ t'"
      by (auto simp: member_text_def dest!: json_quote_prefix_free)
    moreover have "json_sorted (snd x)" "json_sorted (snd y)" using JObj.prems(1,2) that(1,2) w by auto
    ultimately show ?thesis using JObj.IH [of x "snd x" "snd y"] that by (cases x; cases y) auto
  qed
  ultimately have "kvs = kws \<and> s = t"
    using member_text_head [of a] by (intro join_prefix_free [where f = "member_text a" and c = "CHR ''}''"]) auto
  with w show ?case by simp
next
  case JNull
  then show ?case using leaf_prefix_free [where v = JNull and w = w and a = a and s = s and t = t] by simp
next
  case (JBool b)
  then show ?case using leaf_prefix_free [where v = "JBool b" and w = w and a = a and s = s and t = t] by simp
next
  case (JInt i)
  then show ?case using leaf_prefix_free [where v = "JInt i" and w = w and a = a and s = s and t = t] by simp
next
  case (JFloat r)
  then show ?case using leaf_prefix_free [where v = "JFloat r" and w = w and a = a and s = s and t = t] by simp
next
  case (JStr x)
  then show ?case using leaf_prefix_free [where v = "JStr x" and w = w and a = a and s = s and t = t] by simp
qed

lemma json_text_inj:
  assumes "json_ok v" "json_ok w" "json_text a v = json_text a w"
  shows "json_norm v = json_norm w"
  using json_text_prefix_free [of "json_norm v" "json_norm w" "[]" "[]" a] assms
  by (simp add: json_norm_sorted json_text_norm)

text \<open>C37 Two values have the same canonical bytes exactly when they differ in the order of object members at most.\<close>

theorem canonical_json_determines_value:
  assumes "json_ok v" and "json_ok w"
  shows "canonical_json_bytes v = canonical_json_bytes w \<longleftrightarrow> json_norm v = json_norm w"
  using assms json_text_inj [of v w False] json_text_norm [of False v] json_text_norm [of False w]
  by (auto simp: canonical_json_bytes_def dest!: utf8_inj)

theorem canonical_json_determines_value_witness:
  "canonical_json_bytes (JObj [(''b'', JInt 1), (''a'', JNull)]) = canonical_json_bytes (JObj [(''a'', JNull), (''b'', JInt 1)])
   \<and> canonical_json_bytes (JList [JStr ''1'']) \<noteq> canonical_json_bytes (JList [JInt 1])"
  using canonical_json_determines_value [where v = "JObj [(''b'', JInt 1), (''a'', JNull)]"
      and w = "JObj [(''a'', JNull), (''b'', JInt 1)]"]
    canonical_json_determines_value [where v = "JList [JStr ''1'']" and w = "JList [JInt 1]"]
  by simp

end
