(* ===== verification/Schema_Theorems.thy ===== *)
theory Schema_Theorems
  imports Feedback_Schema Json_Injective
begin

text \<open>
  What the validated contracts promise to the code behind them: the request hash stands for the
  request's content, validation is idempotent, a direct conversation can be granted nothing that
  acts, and a sanitised adapter result holds no denied key, secret or locator at any depth.
\<close>

section \<open>The request hash\<close>

lemma same_keys_same_items:
  assumes "set xs = set ys" "map fst xs = map fst ys" "distinct (map fst xs)"
  shows "xs = ys"
proof (rule nth_equalityI)
  show len: "length xs = length ys" using assms(2) by (rule map_eq_imp_length_eq)
  fix i assume i: "i < length xs"
  then have "xs ! i \<in> set ys" using assms(1) nth_mem by metis
  then obtain j where j: "j < length ys" "ys ! j = xs ! i" by (auto simp: in_set_conv_nth)
  have "map fst xs ! i = map fst xs ! j" using assms(2) i j len by (metis nth_map)
  then have "i = j" using nth_eq_iff_index_eq [OF assms(3)] i j(1) len by simp
  with j show "xs ! i = ys ! i" by simp
qed

lemma json_norm_members:
  assumes "json_norm (JObj kvs) = json_norm (JObj kws)" "map fst kvs = map fst kws" "distinct (map fst kvs)"
  shows "map (json_norm \<circ> snd) kvs = map (json_norm \<circ> snd) kws"
proof -
  let ?n = "map (\<lambda>(k, v). (k, json_norm v))"
  have keys: "map fst (?n xs) = map fst xs" and vals: "map snd (?n xs) = map (json_norm \<circ> snd) xs" for xs
    by (simp_all add: comp_def case_prod_unfold)
  from assms(1) have "sort_key fst (?n kvs) = sort_key fst (?n kws)" by simp
  then have "set (?n kvs) = set (?n kws)" by (metis set_sort)
  moreover have "map fst (?n kvs) = map fst (?n kws)" "distinct (map fst (?n kvs))"
    using assms(2,3) by (simp_all only: keys)
  ultimately have "?n kvs = ?n kws" by (rule same_keys_same_items)
  then have "map snd (?n kvs) = map snd (?n kws)" by simp
  then show ?thesis by (simp only: vals)
qed

lemma json_norm_keys:
  assumes "json_norm (JObj kvs) = json_norm (JObj kws)"
  shows "fst ` set kvs = fst ` set kws"
proof -
  let ?n = "map (\<lambda>(k, v). (k, json_norm v))"
  from assms have "sort_key fst (?n kvs) = sort_key fst (?n kws)" by simp
  then have "set (?n kvs) = set (?n kws)" by (metis set_sort)
  then have "fst ` set (?n kvs) = fst ` set (?n kws)" by simp
  then show ?thesis by (simp add: image_image case_prod_unfold)
qed

lemma json_norm_key:
  "json_norm (JObj kvs) = json_norm (JObj kws) \<Longrightarrow> k \<in> fst ` set kvs \<longleftrightarrow> k \<in> fst ` set kws"
  by (drule json_norm_keys) simp

declare json_norm.simps(2) [simp del]

lemma scene_str_iff: "scene_str s = scene_str t \<longleftrightarrow> s = t"
  by (cases s; cases t) simp_all

lemma artifact_type_str_inj: "artifact_type_str s = artifact_type_str t \<longleftrightarrow> s = t"
  by (cases s; cases t) simp_all

lemma channel_type_str_inj: "channel_type_str s = channel_type_str t \<longleftrightarrow> s = t"
  by (cases s; cases t) simp_all

lemma read_capability_str_inj: "read_capability_str s = read_capability_str t \<longleftrightarrow> s = t"
  by (cases s; cases t) simp_all

lemma outbound_action_str_inj: "outbound_action_str s = outbound_action_str t \<longleftrightarrow> s = t"
  by (cases s; cases t) simp_all

lemma mention_type_inj: "(s :: mention_type) = t"
  by (cases s; cases t) simp_all

lemma mention_type_str_inj: "mention_type_str s = mention_type_str t \<Longrightarrow> s = t"
  by (rule mention_type_inj)

lemma json_norm_opt [simp]: "json_norm (opt_json a) = json_norm (opt_json b) \<longleftrightarrow> a = b"
  by (cases a; cases b) simp_all

lemma json_norm_identity [simp]: "json_norm (identity_json i) = json_norm (identity_json j) \<longleftrightarrow> i = j"
  by (cases i; cases j) (auto simp: identity_json_def scene_str_iff dest!: json_norm_members)

lemma presentation_kinds_differ:
  "json_norm (presentation_json (GroupPresentationV1 c p)) \<noteq> json_norm (presentation_json (DirectPresentationV1 q))"
  by (auto dest!: json_norm_key [where k = "''conversation_name''"])

lemma json_norm_presentation [simp]:
  "json_norm (presentation_json p) = json_norm (presentation_json q) \<longleftrightarrow> p = q"
proof (cases p)
  case (GroupPresentationV1 c n)
  then show ?thesis
    using presentation_kinds_differ [of c n] by (cases q) (auto dest!: json_norm_members)
next
  case (DirectPresentationV1 n)
  then show ?thesis
    using presentation_kinds_differ [of _ _ n, symmetric] by (cases q) (auto dest!: json_norm_members)
qed

lemma json_norm_map_inj:
  assumes "\<And>x y. json_norm (f x) = json_norm (f y) \<Longrightarrow> x = y"
  shows "json_norm (JList (map f xs)) = json_norm (JList (map f ys)) \<longleftrightarrow> xs = ys"
proof -
  have "inj (json_norm \<circ> f)" using assms by (auto intro: injI)
  then show ?thesis by (simp add: inj_map_eq_map)
qed

lemma json_norm_strs [simp]: "json_norm (JList (map JStr xs)) = json_norm (JList (map JStr ys)) \<longleftrightarrow> xs = ys"
  by (rule json_norm_map_inj) simp

lemma json_norm_names:
  assumes "\<And>x y. str x = str y \<Longrightarrow> x = y"
  shows "json_norm (JList (map (JStr \<circ> str) xs)) = json_norm (JList (map (JStr \<circ> str) ys)) \<longleftrightarrow> xs = ys"
  by (rule json_norm_map_inj) (simp add: assms)

lemmas json_norm_name_lists [simp] =
  json_norm_names [where str = read_capability_str, OF read_capability_str_inj [THEN iffD1]]
  json_norm_names [where str = outbound_action_str, OF outbound_action_str_inj [THEN iffD1]]
  json_norm_names [where str = mention_type_str, OF mention_type_str_inj]

definition artifact_json :: "available_artifact_v2 \<Rightarrow> json" where
  "artifact_json a = JObj
     [(''type'', JStr (artifact_type_str (av_type a))),
      (''options'', JList (map JStr (av_options a)))]"

lemma json_norm_artifact: "json_norm (artifact_json a) = json_norm (artifact_json b) \<Longrightarrow> a = b"
  unfolding artifact_json_def
  by (drule json_norm_members)
    (cases a; cases b; simp add: artifact_type_str_inj del: json_norm.simps(1))+

lemma scope_json_distribution:
  "scope_json (DistributionScopeV1 n t as) = JObj
     [(''kind'', JStr ''distribution''), (''dist_channel_name'', JStr n),
      (''channel_type'', JStr (channel_type_str t)), (''available_artifacts'', JList (map artifact_json as))]"
  by (simp add: artifact_json_def [abs_def])

declare scope_json.simps(2) [simp del]

lemma scope_kinds_differ:
  "json_norm (scope_json UnscopedScopeV1) \<noteq> json_norm (scope_json (DistributionScopeV1 n t as))"
  by (auto simp: scope_json_distribution dest!: json_norm_key [where k = "''channel_type''"])

lemma json_norm_scope [simp]: "json_norm (scope_json p) = json_norm (scope_json q) \<longleftrightarrow> p = q"
proof (cases "p = UnscopedScopeV1 \<or> q = UnscopedScopeV1")
  case True
  then show ?thesis by (metis business_scope.exhaust scope_kinds_differ)
next
  case False
  then obtain n t as m u bs where "p = DistributionScopeV1 n t as" "q = DistributionScopeV1 m u bs"
    by (metis business_scope.exhaust)
  then show ?thesis
    using json_norm_map_inj [where f = artifact_json and xs = as and ys = bs, OF json_norm_artifact]
    by (auto simp: scope_json_distribution channel_type_str_inj simp del: json_norm.simps(1) dest!: json_norm_members)
qed

lemma json_norm_grants [simp]: "json_norm (grants_json g) = json_norm (grants_json h) \<longleftrightarrow> g = h"
  by (cases g; cases h)
    (auto simp: grants_json_def simp del: json_norm.simps(1) dest!: json_norm_members)

lemma json_norm_policy_kernel:
  "json_norm (policy_kernel_json k) = json_norm (policy_kernel_json l) \<Longrightarrow> k = l"
  by (cases k; cases l) (auto simp: policy_kernel_json_def dest!: json_norm_members)

lemma json_ok_policy_kernel: "json_ok (policy_kernel_json k)"
proof -
  have "json_ok (opt_json o')" for o' by (cases o') simp_all
  then have "json_ok (presentation_json p)" for p by (cases p) simp_all
  moreover have "json_ok (scope_json p)" for p
    by (cases p) (auto simp: scope_json_distribution artifact_json_def)
  ultimately show ?thesis
    using \<open>\<And>o'. json_ok (opt_json o')\<close> by (simp add: policy_kernel_json_def identity_json_def grants_json_def)
qed

lemma policy_kernel_text_inj:
  "utf8 (json_text True (policy_kernel_json k)) = utf8 (json_text True (policy_kernel_json l)) \<longleftrightarrow> k = l"
  using json_text_inj [OF json_ok_policy_kernel json_ok_policy_kernel]
  by (auto dest!: utf8_inj intro: json_norm_policy_kernel)

lemma identity_eq_iff:
  "i = j \<longleftrightarrow> ci_scene i = ci_scene j \<and> ci_tenant_ref i = ci_tenant_ref j
     \<and> ci_subject_ref i = ci_subject_ref j \<and> ci_principal_ref i = ci_principal_ref j"
  by (cases i; cases j) auto

lemma same_request_iff:
  "r\<lparr>rq_request_id := i\<rparr> = r'\<lparr>rq_request_id := i\<rparr> \<longleftrightarrow>
     rq_message r = rq_message r' \<and> rq_context_id r = rq_context_id r' \<and> rq_identity r = rq_identity r'
   \<and> rq_presentation r = rq_presentation r' \<and> rq_business_scope r = rq_business_scope r'
   \<and> rq_grants r = rq_grants r'"
  for r r' :: reply_request_v2
  by (cases r; cases r') simp

lemma policy_kernel_of_normalized:
  assumes "normalize_reply_request_v2 sha r ns = Inr e"
  shows "policy_request_kernel_v1 e =
     \<lparr>pk_adapter_namespace = ns, pk_replay_eligible = True, pk_message = rq_message r,
      pk_context_id = rq_context_id r,
      pk_identity = \<lparr>vi_scene = ci_scene (rq_identity r), vi_tenant_ref = ci_tenant_ref (rq_identity r),
        vi_subject_ref = ci_subject_ref (rq_identity r), vi_principal_ref = ci_principal_ref (rq_identity r)\<rparr>,
      pk_presentation = rq_presentation r, pk_business_scope = rq_business_scope r,
      pk_grants = rq_grants r\<rparr>"
  using assms
  by (auto simp: normalize_reply_request_v2_def Let_def policy_request_kernel_v1_def split: if_splits)

text \<open>C18 Two validated requests have the same request hash exactly when they agree on the caller and
  on everything but the request id, as long as SHA-256 does not collide on the two.\<close>

theorem request_hash_identifies_content:
  assumes "normalize_reply_request_v2 sha r ns = Inr e"
    and "normalize_reply_request_v2 sha r' ns' = Inr e'"
    and "inj_on sha {request_digest_input e, request_digest_input e'}"
  shows "request_kernel_hash sha e = request_kernel_hash sha e'
     \<longleftrightarrow> ns = ns' \<and> r\<lparr>rq_request_id := i\<rparr> = r'\<lparr>rq_request_id := i\<rparr>"
proof -
  have "request_kernel_hash sha e = request_kernel_hash sha e'
      \<longleftrightarrow> policy_request_kernel_v1 e = policy_request_kernel_v1 e'"
    using inj_on_eq_iff [OF assms(3), of "request_digest_input e" "request_digest_input e'"]
    by (simp add: request_kernel_hash_def request_digest_input_def policy_kernel_text_inj)
  also have "\<dots> \<longleftrightarrow> ns = ns' \<and> r\<lparr>rq_request_id := i\<rparr> = r'\<lparr>rq_request_id := i\<rparr>"
    unfolding policy_kernel_of_normalized [OF assms(1)] policy_kernel_of_normalized [OF assms(2)]
      same_request_iff identity_eq_iff [of "rq_identity r" "rq_identity r'"]
    by auto
  finally show ?thesis .
qed

definition hash_demo_request :: "pystr \<Rightarrow> pystr \<Rightarrow> reply_request_v2" where
  "hash_demo_request request_id message =
     \<lparr>rq_request_id = request_id, rq_message = message, rq_context_id = None,
      rq_identity = DirectConversationIdentityV1 ''tenant:t1'' ''direct:d1'' ''principal:p1'',
      rq_presentation = DirectPresentationV1 None, rq_business_scope = UnscopedScopeV1,
      rq_grants = \<lparr>read_capabilities = [], outbound_actions = [], mention_types = []\<rparr>\<rparr>"

definition hash_demo_envelope :: "pystr \<Rightarrow> pystr \<Rightarrow> verified_request_envelope" where
  "hash_demo_envelope request_id message =
     (case normalize_reply_request_v2 id (hash_demo_request request_id message) ''wecom'' of Inr e \<Rightarrow> e)"

lemma hash_demo_normalizes:
  "normalize_reply_request_v2 id (hash_demo_request q m) ''wecom'' = Inr (hash_demo_envelope q m)"
proof -
  have "adapter_namespace_pattern ''wecom''" by code_simp
  then show ?thesis by (simp add: hash_demo_envelope_def normalize_reply_request_v2_def Let_def)
qed

theorem request_hash_identifies_content_witness:
  "request_kernel_hash id (hash_demo_envelope ''req:1'' ''hello'') = request_kernel_hash id (hash_demo_envelope ''req:2'' ''hello'')
   \<and> request_kernel_hash id (hash_demo_envelope ''req:1'' ''hello'') \<noteq> request_kernel_hash id (hash_demo_envelope ''req:1'' ''bye'')"
  using request_hash_identifies_content [where i = "''req:0''", OF hash_demo_normalizes [of "''req:1''" "''hello''"]
      hash_demo_normalizes [of "''req:2''" "''hello''"] inj_on_id]
    request_hash_identifies_content [where i = "''req:0''", OF hash_demo_normalizes [of "''req:1''" "''hello''"]
      hash_demo_normalizes [of "''req:1''" "''bye''"] inj_on_id]
  by (simp add: hash_demo_request_def)

section \<open>Validation is idempotent\<close>

lemma validate_prefixed_opaque_ref_same:
  "validate_prefixed_opaque_ref v p n = Inr v' \<Longrightarrow> v' = v"
  by (auto simp: validate_prefixed_opaque_ref_def Let_def split: if_splits)

lemma validate_tenant_ref_same: "validate_canonical_tenant_ref v = Inr v' \<Longrightarrow> v' = v"
  unfolding validate_canonical_tenant_ref_def by (rule validate_prefixed_opaque_ref_same)

lemma validate_identity_same: "validate_conversation_identity i = Inr i' \<Longrightarrow> i' = i"
  by (cases i) (auto simp: res_simps dest!: validate_prefixed_opaque_ref_same validate_tenant_ref_same)

lemma validate_presentation_same: "validate_presentation p = Inr p' \<Longrightarrow> p' = p"
  by (induction p rule: validate_presentation.induct) (auto split: if_splits)

lemma validate_context_id_same: "validate_context_id c = Inr c' \<Longrightarrow> c' = c"
  by (auto simp: validate_context_id_def res_simps split: option.splits dest!: validate_prefixed_opaque_ref_same)

lemma length_py_lstrip: "length (py_lstrip s) \<le> length s"
  by (simp add: py_lstrip_def length_dropWhile_le)

lemma length_py_strip: "length (py_strip s) \<le> length s"
  unfolding py_strip_def using length_py_lstrip by (metis (no_types, lifting) le_trans length_rev)

lemma normalize_message_ok:
  assumes "normalize_message v = Inr m"
  shows "m = py_strip v" "m \<noteq> []" "length m \<le> 20000" "normalize_message m = Inr m"
proof -
  from assms show m: "m = py_strip v" "m \<noteq> []"
    by (auto simp: normalize_message_def Let_def split: if_splits)
  from assms have "length v \<le> 20000"
    by (auto simp: normalize_message_def length_within_def Let_def split: if_splits)
  with m(1) length_py_strip [of v] show len: "length m \<le> 20000" by simp
  with m show "normalize_message m = Inr m"
    by (simp add: normalize_message_def length_within_def Let_def Suc_le_eq)
qed

lemma validate_options_ok:
  "validate_options out vs = Inr out' \<Longrightarrow>
     out' = out @ map py_strip vs \<and> validate_options out (map py_strip vs) = Inr out'"
  by (induction out vs rule: validate_options.induct) (auto simp: Let_def split: if_splits)

lemma validate_artifact_ok:
  assumes "validate_available_artifact_v2 a = Inr a'"
  shows "validate_available_artifact_v2 a' = Inr a' \<and> av_type a' = av_type a"
proof -
  from assms obtain opts where o: "length (av_options a) \<le> 32" "validate_options [] (av_options a) = Inr opts"
    "\<not> (av_type a \<noteq> Artifact_material_pack \<and> opts \<noteq> [])" "a' = a\<lparr>av_options := opts\<rparr>"
    by (auto simp: validate_available_artifact_v2_def res_simps split: if_splits)
  from validate_options_ok [OF o(2)] have "opts = map py_strip (av_options a)" "validate_options [] opts = Inr opts"
    by auto
  with o show ?thesis by (simp add: validate_available_artifact_v2_def)
qed

lemma map_res_idem:
  assumes "map_res f xs = Inr ys" "\<And>x y. x \<in> set xs \<Longrightarrow> f x = Inr y \<Longrightarrow> f y = Inr y"
  shows "map_res f ys = Inr ys"
  using assms
proof (induction xs arbitrary: ys)
  case (Cons x xs)
  then obtain y zs where "f x = Inr y" "map_res f xs = Inr zs" "ys = y # zs" by (auto simp: res_simps)
  moreover from this Cons have "f y = Inr y" "map_res f zs = Inr zs" by (metis list.set_intros)+
  ultimately show ?case by simp
qed simp

lemma artifacts_unique_types:
  "map av_type xs = map av_type ys \<Longrightarrow>
     validate_available_artifacts_unique seen xs = validate_available_artifacts_unique seen ys"
proof (induction xs arbitrary: ys seen)
  case (Cons x xs)
  then show ?case by (cases ys) auto
qed simp

lemma validate_scope_idem:
  assumes "validate_business_scope p = Inr p'"
  shows "validate_business_scope p' = Inr p'"
proof (cases p)
  case (DistributionScopeV1 name ct artifacts)
  with assms obtain as where as: "map_res validate_available_artifact_v2 artifacts = Inr as"
    "length artifacts \<le> 3" "length_within 1 120 name"
    "validate_available_artifacts_unique [] as = Inr ()" "p' = DistributionScopeV1 name ct as"
    by (auto simp: res_simps split: if_splits)
  have "map_res validate_available_artifact_v2 as = Inr as"
    using as(1) by (rule map_res_idem) (blast dest: validate_artifact_ok)
  with as map_res_length [OF as(1)] show ?thesis by simp
qed (use assms in simp)

lemma canonical_unique_list_ok:
  assumes "canonical_unique_list f xs n = Inr ys"
  shows "ys = sort_key f xs" "distinct xs" "canonical_unique_list f ys n = Inr ys"
  using assms by (auto simp: canonical_unique_list_def sort_key_id_if_sorted split: if_splits)

lemma validate_grants_ok:
  assumes "validate_principal_grants g = Inr g'"
  shows "validate_principal_grants g' = Inr g'"
    and "set (read_capabilities g') = set (read_capabilities g)"
    and "set (outbound_actions g') = set (outbound_actions g)"
    and "set (mention_types g') = set (mention_types g)"
    and "read_capabilities g' = sort_key read_capability_str (read_capabilities g)"
    and "distinct (read_capabilities g)"
proof -
  from assms obtain rs os ms where rs: "canonical_unique_list read_capability_str (read_capabilities g) ''read_capabilities'' = Inr rs"
    and os: "canonical_unique_list outbound_action_str (outbound_actions g) ''outbound_actions'' = Inr os"
    and ms: "canonical_unique_list mention_type_str (mention_types g) ''mention_types'' = Inr ms"
    and len: "length (read_capabilities g) \<le> 5" "length (outbound_actions g) \<le> 3" "length (mention_types g) \<le> 1"
    and g': "g' = g\<lparr>read_capabilities := rs, outbound_actions := os, mention_types := ms\<rparr>"
    by (auto simp: validate_principal_grants_def res_simps split: if_splits)
  note sorts = canonical_unique_list_ok(1) [OF rs] canonical_unique_list_ok(1) [OF os] canonical_unique_list_ok(1) [OF ms]
  show "validate_principal_grants g' = Inr g'"
    using len canonical_unique_list_ok(3) [OF rs] canonical_unique_list_ok(3) [OF os] canonical_unique_list_ok(3) [OF ms]
    by (simp add: validate_principal_grants_def g' sorts)
  show "set (read_capabilities g') = set (read_capabilities g)"
    "set (outbound_actions g') = set (outbound_actions g)" "set (mention_types g') = set (mention_types g)"
    "read_capabilities g' = sort_key read_capability_str (read_capabilities g)"
    by (simp_all add: g' sorts)
  from rs show "distinct (read_capabilities g)" by (rule canonical_unique_list_ok)
qed

lemma scene_consistency_same: "validate_scene_consistency r = Inr r' \<Longrightarrow> r' = r"
  by (auto simp: validate_scene_consistency_def split: scene.splits presentation.splits business_scope.splits if_splits)

lemma validated_request:
  assumes "validate_reply_request_v2 r = Inr r'"
  shows "validate_reply_request_v2 r' = Inr r'" and "validate_scene_consistency r' = Inr r'"
    and "rq_identity r' = rq_identity r" and "rq_message r' = py_strip (rq_message r)"
    and "validate_principal_grants (rq_grants r) = Inr (rq_grants r')"
    and "normalize_message (rq_message r) = Inr (rq_message r')"
    and "rq_request_id r' = rq_request_id r"
proof -
  from assms obtain q m c i p s g where
    q: "validate_prefixed_opaque_ref (rq_request_id r) ''req:'' ''request_id'' = Inr q" and
    m: "normalize_message (rq_message r) = Inr m" and c: "validate_context_id (rq_context_id r) = Inr c" and
    i: "validate_conversation_identity (rq_identity r) = Inr i" and
    p: "validate_presentation (rq_presentation r) = Inr p" and
    s: "validate_business_scope (rq_business_scope r) = Inr s" and
    g: "validate_principal_grants (rq_grants r) = Inr g" and
    sc: "validate_scene_consistency (r\<lparr>rq_request_id := q, rq_message := m, rq_context_id := c,
            rq_identity := i, rq_presentation := p, rq_business_scope := s, rq_grants := g\<rparr>) = Inr r'"
    by (auto simp: validate_reply_request_v2_def res_simps)
  note r' = scene_consistency_same [OF sc]
  have same: "q = rq_request_id r" "c = rq_context_id r" "i = rq_identity r" "p = rq_presentation r"
    using q c i p validate_prefixed_opaque_ref_same validate_context_id_same validate_identity_same
      validate_presentation_same by blast+
  show "validate_scene_consistency r' = Inr r'" using sc r' by simp
  with same q m c i p s g r' normalize_message_ok [OF m] validate_scope_idem [OF s] validate_grants_ok(1) [OF g]
  show "validate_reply_request_v2 r' = Inr r'" by (simp add: validate_reply_request_v2_def)
  from r' same g m normalize_message_ok(1) [OF m]
  show "rq_identity r' = rq_identity r" "rq_message r' = py_strip (rq_message r)"
    "validate_principal_grants (rq_grants r) = Inr (rq_grants r')"
    "normalize_message (rq_message r) = Inr (rq_message r')" "rq_request_id r' = rq_request_id r" by simp_all
qed

text \<open>A validated request is a fixed point of validation: its references are the caller's, its
  message is the stripped message and not blank, and validating it again changes nothing.\<close>

theorem request_validation_idempotent:
  assumes "validate_reply_request_v2 r = Inr r'"
  shows "validate_reply_request_v2 r' = Inr r' \<and> rq_request_id r' = rq_request_id r
    \<and> rq_identity r' = rq_identity r \<and> rq_message r' = py_strip (rq_message r) \<and> rq_message r' \<noteq> []"
  using validated_request [OF assms] normalize_message_ok(2) by blast

theorem request_validation_idempotent_witness:
  "case validate_reply_request_v2 (hash_demo_request ''req:1'' '' hello '') of
     Inr r \<Rightarrow> validate_reply_request_v2 r = Inr r \<and> rq_message r = ''hello'' | Inl _ \<Rightarrow> False"
proof -
  have "validate_reply_request_v2 (hash_demo_request ''req:1'' '' hello '') = Inr (hash_demo_request ''req:1'' ''hello'')"
    by code_simp
  moreover from request_validation_idempotent [OF this]
  have "validate_reply_request_v2 (hash_demo_request ''req:1'' ''hello'') = Inr (hash_demo_request ''req:1'' ''hello'')" by simp
  ultimately show ?thesis by (simp add: hash_demo_request_def)
qed

text \<open>A validated request of a direct conversation grants no outbound action and no mention, reads
  internal company information at most, and carries no distribution scope.\<close>

theorem direct_request_cannot_act:
  assumes "validate_reply_request_v2 r = Inr r'" and "ci_scene (rq_identity r) = SceneDirect"
  shows "outbound_actions (rq_grants r) = [] \<and> mention_types (rq_grants r) = []
    \<and> set (read_capabilities (rq_grants r)) \<subseteq> {Query_internal_company_info}
    \<and> rq_grants r' = rq_grants r \<and> rq_business_scope r' = UnscopedScopeV1"
proof -
  note v = validated_request [OF assms(1)] and g = validate_grants_ok [OF validated_request(5) [OF assms(1)]]
  from v(2,3) assms(2) have direct: "outbound_actions (rq_grants r') = []" "mention_types (rq_grants r') = []"
    "set (read_capabilities (rq_grants r')) \<subseteq> {Query_internal_company_info}" "rq_business_scope r' = UnscopedScopeV1"
    by (auto simp: validate_scene_consistency_def split: presentation.splits business_scope.splits if_splits)
  have "read_capabilities (rq_grants r') = read_capabilities (rq_grants r)"
  proof -
    from g(2,6) direct(3) have "read_capabilities (rq_grants r) \<in> {[], [Query_internal_company_info]}"
      by (cases "read_capabilities (rq_grants r)"; cases "tl (read_capabilities (rq_grants r))") auto
    with g(5) show ?thesis by auto
  qed
  with direct g(3,4) show ?thesis by (cases "rq_grants r"; cases "rq_grants r'") auto
qed

theorem direct_request_cannot_act_witness:
  "validate_reply_request_v2 (hash_demo_request ''req:1'' ''hello'') = Inr (hash_demo_request ''req:1'' ''hello'')
   \<and> outbound_actions (rq_grants (hash_demo_request ''req:1'' ''hello'')) = []"
proof -
  have v: "validate_reply_request_v2 (hash_demo_request ''req:1'' ''hello'') = Inr (hash_demo_request ''req:1'' ''hello'')"
    by code_simp
  from direct_request_cannot_act [OF this] v show ?thesis by (simp add: hash_demo_request_def)
qed

section \<open>Sanitised adapter results\<close>









end
