(* ===== verification/Policy_Manifest.thy ===== *)
theory Policy_Manifest
  imports Request_Normalizer
begin

text \<open>
  Policy authority: \<open>runtime/evidence/scope_authority.py\<close>, the vocabulary of
  \<open>runtime/policy/capabilities/definitions.py\<close> that the compiler uses, the models and digests of
  \<open>runtime/policy/manifest_models.py\<close> and the ceilings of \<open>runtime/policy/direct_constraints.py\<close>.

  Each pydantic model is a record with a validator to an error sum, in the order pydantic runs it:
  the bounds of the fields, then the model validator. The capability registry is loaded from a
  sealed resource; the compiler reads only the identifiers of its manifests, in their sealed order.
\<close>

section \<open>Scope authority\<close>

record business_scope_authority =
  bsa_scope :: business_scope
  bsa_hash :: pystr
  bsa_ref :: pystr

definition business_scope_hash_v1 :: "(pybytes \<Rightarrow> pystr) \<Rightarrow> business_scope \<Rightarrow> pystr" where
  "business_scope_hash_v1 sha scope = sha256_frame sha ''business-scope.v1'' (scope_json scope) ''bsh1''"

text \<open>\<open>s.partition(":")\<close>: the part before the first separator, the separator if there is one, the rest.\<close>

definition py_partition :: "char \<Rightarrow> pystr \<Rightarrow> pystr \<times> pystr \<times> pystr" where
  "py_partition sep s =
     (takeWhile (\<lambda>c. c \<noteq> sep) s, take 1 (dropWhile (\<lambda>c. c \<noteq> sep) s), drop 1 (dropWhile (\<lambda>c. c \<noteq> sep) s))"

definition business_scope_ref_from_hash :: "pystr \<Rightarrow> pystr result" where
  "business_scope_ref_from_hash business_scope_hash =
     (case py_partition CHR '':'' business_scope_hash of (prefix, separator, digest) \<Rightarrow>
        if prefix \<noteq> ''bsh1'' \<or> separator \<noteq> '':'' \<or> length digest \<noteq> 64
        then Inl (ValueError ''invalid_business_scope_hash'')
        else if \<not> list_all is_lower_hex digest then Inl (ValueError ''invalid_business_scope_hash'')
        else Inr (''bsr:'' @ take 32 digest))"

definition check_business_scope_authority :: "business_scope_authority \<Rightarrow> business_scope_authority result" where
  "check_business_scope_authority a =
     (if \<not> prefixed_hex ''bsh1:'' 64 (bsa_hash a) then Inl (ValueError ''business_scope_hash'')
      else if \<not> prefixed_hex ''bsr:'' 32 (bsa_ref a) then Inl (ValueError ''business_scope_ref'')
      else Inr a)"

definition business_scope_authority_v1 ::
  "(pybytes \<Rightarrow> pystr) \<Rightarrow> business_scope \<Rightarrow> business_scope_authority result" where
  "business_scope_authority_v1 sha scope =
     (let h = business_scope_hash_v1 sha scope in
      res_bind (business_scope_ref_from_hash h) (\<lambda>ref.
        check_business_scope_authority \<lparr>bsa_scope = scope, bsa_hash = h, bsa_ref = ref\<rparr>))"

section \<open>Capability vocabulary\<close>

datatype response_mode =
    Mode_action | Mode_clarification | Mode_handoff | Mode_refusal
  | Mode_unable | Mode_knowledge_answer | Mode_smalltalk | Mode_no_reply

fun response_mode_str :: "response_mode \<Rightarrow> pystr" where
  "response_mode_str Mode_action = ''action''"
| "response_mode_str Mode_clarification = ''clarification''"
| "response_mode_str Mode_handoff = ''handoff''"
| "response_mode_str Mode_refusal = ''refusal''"
| "response_mode_str Mode_unable = ''unable''"
| "response_mode_str Mode_knowledge_answer = ''knowledge_answer''"
| "response_mode_str Mode_smalltalk = ''smalltalk''"
| "response_mode_str Mode_no_reply = ''no_reply''"

datatype capability_manifest_id =
    Material_pack_send | Weekly_report_send | Monthly_report_send | Sales_handoff
  | General_clarification | General_abstention | General_refusal | General_smalltalk
  | General_no_reply | Answer_internal_company_knowledge
  | Weekly_report_product_list | Monthly_report_product_list | General_handoff

fun manifest_id_str :: "capability_manifest_id \<Rightarrow> pystr" where
  "manifest_id_str Material_pack_send = ''material_pack.send''"
| "manifest_id_str Weekly_report_send = ''weekly_report.send''"
| "manifest_id_str Monthly_report_send = ''monthly_report.send''"
| "manifest_id_str Sales_handoff = ''sales.handoff''"
| "manifest_id_str General_clarification = ''general.clarification''"
| "manifest_id_str General_abstention = ''general.abstention''"
| "manifest_id_str General_refusal = ''general.refusal''"
| "manifest_id_str General_smalltalk = ''general.smalltalk''"
| "manifest_id_str General_no_reply = ''general.no_reply''"
| "manifest_id_str Answer_internal_company_knowledge = ''answer_internal_company_knowledge''"
| "manifest_id_str Weekly_report_product_list = ''weekly_report.product_list''"
| "manifest_id_str Monthly_report_product_list = ''monthly_report.product_list''"
| "manifest_id_str General_handoff = ''general.handoff''"

text \<open>\<open>manifest_version\<close> has the one value \<open>"2026-07-18.1"\<close>, so a reference is its identifier.\<close>

datatype manifest_ref = ManifestRefV1 (mr_id: capability_manifest_id)

text \<open>\<open>CAPABILITY_MANIFEST_REGISTRY.list()\<close>: the identifiers in the order of the sealed resource.\<close>

definition registry_list :: "capability_manifest_id list" where
  "registry_list =
     [Material_pack_send, Weekly_report_send, Monthly_report_send, Sales_handoff,
      General_clarification, General_abstention, General_refusal, General_smalltalk,
      General_no_reply, Weekly_report_product_list, Monthly_report_product_list,
      Answer_internal_company_knowledge, General_handoff]"

datatype adapter_resolve_type = Ar_material_pack | Ar_weekly_report | Ar_monthly_report | Ar_sales_mention

fun adapter_resolve_str :: "adapter_resolve_type \<Rightarrow> pystr" where
  "adapter_resolve_str Ar_material_pack = ''material_pack''"
| "adapter_resolve_str Ar_weekly_report = ''weekly_report''"
| "adapter_resolve_str Ar_monthly_report = ''monthly_report''"
| "adapter_resolve_str Ar_sales_mention = ''sales_mention''"

datatype recall_mode = Recall_off | Recall_advisory | Recall_shortcut

fun recall_mode_str :: "recall_mode \<Rightarrow> pystr" where
  "recall_mode_str Recall_off = ''off''"
| "recall_mode_str Recall_advisory = ''advisory''"
| "recall_mode_str Recall_shortcut = ''shortcut''"

text \<open>\<open>tuple(sorted(set(xs)))\<close> on values that are strings in the code.\<close>

definition sorted_set :: "('a \<Rightarrow> pystr) \<Rightarrow> 'a list \<Rightarrow> 'a list" where
  "sorted_set str xs = sort_key str (remdups xs)"

section \<open>The models\<close>

record policy_ledger_summary =
  pls_executed_count :: int
  pls_artifact_types :: "pystr list"
  pls_has_executed :: bool

definition check_policy_ledger_summary :: "policy_ledger_summary \<Rightarrow> policy_ledger_summary result" where
  "check_policy_ledger_summary s =
     (if \<not> (0 \<le> pls_executed_count s \<and> pls_executed_count s \<le> 20) then Inl (ValueError ''recent_executed_count'')
      else if length (pls_artifact_types s) > 3 then Inl (ValueError ''recent_artifact_types'')
      else if sorted_set id (pls_artifact_types s) \<noteq> pls_artifact_types s
      then Inl (ValueError ''policy_ledger_artifact_types_not_canonical'')
      else if pls_has_executed s \<noteq> (pls_executed_count s > 0)
      then Inl (ValueError ''policy_ledger_execution_summary_mismatch'')
      else Inr s)"

definition policy_ledger_summary_v1 :: "pystr list \<Rightarrow> int \<Rightarrow> policy_ledger_summary result" where
  "policy_ledger_summary_v1 recent_artifact_types recent_executed_count =
     check_policy_ledger_summary
       \<lparr>pls_executed_count = min recent_executed_count 20,
        pls_artifact_types = sorted_set id recent_artifact_types,
        pls_has_executed = (recent_executed_count > 0)\<rparr>"

record policy_authority_core =
  pac_scene :: scene
  pac_reply_modes :: "response_mode list"
  pac_eligible :: "manifest_ref list"
  pac_reads :: "read_capability list"
  pac_outbound :: "outbound_action_type list"
  pac_mentions :: "mention_type list"
  pac_resolves :: "adapter_resolve_type list"
  pac_internal_knowledge :: bool
  pac_recall_mode :: recall_mode
  pac_call_limit :: int
  pac_actions_allowed :: bool
  pac_mentions_allowed :: bool
  pac_material_options :: "pystr list"
  pac_grants_hash :: pystr
  pac_scope_hash :: pystr

section \<open>Direct ceilings\<close>

definition direct_general_reply_modes :: "response_mode list" where
  "direct_general_reply_modes =
     [Mode_clarification, Mode_handoff, Mode_no_reply, Mode_refusal, Mode_smalltalk, Mode_unable]"

definition direct_knowledge_reply_modes :: "response_mode list" where
  "direct_knowledge_reply_modes =
     [Mode_clarification, Mode_handoff, Mode_knowledge_answer, Mode_no_reply, Mode_refusal,
      Mode_smalltalk, Mode_unable]"

definition direct_general_manifest_refs :: "manifest_ref list" where
  "direct_general_manifest_refs = map ManifestRefV1
     [General_clarification, General_abstention, General_refusal, General_smalltalk,
      General_no_reply, General_handoff]"

definition direct_knowledge_manifest_refs :: "manifest_ref list" where
  "direct_knowledge_manifest_refs =
     butlast direct_general_manifest_refs @ [ManifestRefV1 Answer_internal_company_knowledge]
     @ [last direct_general_manifest_refs]"

definition validate_direct_policy_authority :: "(pybytes \<Rightarrow> pystr) \<Rightarrow> policy_authority_core \<Rightarrow> unit result" where
  "validate_direct_policy_authority sha f =
     (let modes = (if pac_internal_knowledge f then direct_knowledge_reply_modes else direct_general_reply_modes);
          refs = (if pac_internal_knowledge f then direct_knowledge_manifest_refs else direct_general_manifest_refs);
          reads = (if pac_internal_knowledge f then [Query_internal_company_info] else [])
      in raise_if
        (pac_reply_modes f \<noteq> modes \<or> pac_eligible f \<noteq> refs \<or> pac_reads f \<noteq> reads
         \<or> pac_recall_mode f \<noteq> Recall_off \<or> pac_outbound f \<noteq> [] \<or> pac_mentions f \<noteq> []
         \<or> pac_resolves f \<noteq> [] \<or> pac_actions_allowed f \<or> pac_mentions_allowed f
         \<or> pac_material_options f \<noteq> [] \<or> pac_call_limit f \<noteq> 0
         \<or> pac_scope_hash f \<noteq> business_scope_hash_v1 sha UnscopedScopeV1)
        (ValueError ''direct_policy_ceiling_violation''))"

definition validate_direct_policy_ledger :: "policy_ledger_summary \<Rightarrow> unit result" where
  "validate_direct_policy_ledger s =
     raise_if (pls_executed_count s \<noteq> 0 \<or> pls_artifact_types s \<noteq> [] \<or> pls_has_executed s)
       (ValueError ''direct_policy_ceiling_violation'')"

section \<open>Validation of the core\<close>

definition core_fields_ok :: "policy_authority_core \<Rightarrow> bool" where
  "core_fields_ok c =
     (1 \<le> length (pac_reply_modes c) \<and> length (pac_reply_modes c) \<le> 8
      \<and> 1 \<le> length (pac_eligible c) \<and> length (pac_eligible c) \<le> 32
      \<and> length (pac_reads c) \<le> 7 \<and> length (pac_outbound c) \<le> 3 \<and> length (pac_mentions c) \<le> 1
      \<and> length (pac_resolves c) \<le> 4 \<and> 0 \<le> pac_call_limit c \<and> pac_call_limit c \<le> 16
      \<and> prefixed_hex ''grh1:'' 64 (pac_grants_hash c) \<and> prefixed_hex ''bsh1:'' 64 (pac_scope_hash c))"

definition check_policy_authority_core ::
  "(pybytes \<Rightarrow> pystr) \<Rightarrow> policy_authority_core \<Rightarrow> policy_authority_core result" where
  "check_policy_authority_core sha c =
     (if \<not> core_fields_ok c then Inl (ValueError ''PolicyAuthorityCoreV1'')
      else if sorted_set response_mode_str (pac_reply_modes c) \<noteq> pac_reply_modes c
      then Inl (ValueError ''policy_reply_modes_not_canonical'')
      else if sorted_set read_capability_str (pac_reads c) \<noteq> pac_reads c
      then Inl (ValueError ''policy_read_capabilities_not_canonical'')
      else if sorted_set outbound_action_str (pac_outbound c) \<noteq> pac_outbound c
      then Inl (ValueError ''policy_outbound_actions_not_canonical'')
      else if sorted_set mention_type_str (pac_mentions c) \<noteq> pac_mentions c
      then Inl (ValueError ''policy_mentions_not_canonical'')
      else if sorted_set adapter_resolve_str (pac_resolves c) \<noteq> pac_resolves c
      then Inl (ValueError ''policy_adapter_resolves_not_canonical'')
      else if \<not> distinct (map mr_id (pac_eligible c))
      then Inl (ValueError ''policy_duplicate_manifest_ref'')
      else if pac_actions_allowed c \<noteq> (pac_outbound c \<noteq> [])
      then Inl (ValueError ''policy_actions_allowed_mismatch'')
      else if pac_mentions_allowed c \<noteq> (pac_mentions c \<noteq> [])
      then Inl (ValueError ''policy_mentions_allowed_mismatch'')
      else if pac_internal_knowledge c \<noteq> (Query_internal_company_info \<in> set (pac_reads c))
      then Inl (ValueError ''policy_internal_knowledge_grant_mismatch'')
      else if pac_scene c = SceneDirect
      then res_bind (validate_direct_policy_authority sha c) (\<lambda>_. Inr c)
      else Inr c)"

section \<open>Digests\<close>

definition effective_grants_hash_v1 :: "(pybytes \<Rightarrow> pystr) \<Rightarrow> kernel_reply_request \<Rightarrow> pystr" where
  "effective_grants_hash_v1 sha request =
     sha256_frame sha ''effective-grants.v1'' (grants_json (kr_grants request)) ''grh1''"

definition manifest_ref_json :: "manifest_ref \<Rightarrow> json" where
  "manifest_ref_json r = JObj
     [(''manifest_id'', JStr (manifest_id_str (mr_id r))), (''manifest_version'', JStr ''2026-07-18.1'')]"

definition core_members :: "policy_authority_core \<Rightarrow> (pystr \<times> json) list" where
  "core_members c =
     [(''scene'', JStr (scene_str (pac_scene c))), (''scene_ceiling_version'', JStr ''scene-ceilings.v1''),
      (''allowed_reply_modes'', JList (map (JStr \<circ> response_mode_str) (pac_reply_modes c))),
      (''eligible_capabilities'', JList (map manifest_ref_json (pac_eligible c))),
      (''allowed_read_capabilities'', JList (map (JStr \<circ> read_capability_str) (pac_reads c))),
      (''allowed_outbound_actions'', JList (map (JStr \<circ> outbound_action_str) (pac_outbound c))),
      (''allowed_mention_types'', JList (map (JStr \<circ> mention_type_str) (pac_mentions c))),
      (''allowed_adapter_resolves'', JList (map (JStr \<circ> adapter_resolve_str) (pac_resolves c))),
      (''internal_company_knowledge_enabled'', JBool (pac_internal_knowledge c)),
      (''recall_mode'', JStr (recall_mode_str (pac_recall_mode c))),
      (''evidence_call_limit'', JInt (pac_call_limit c)),
      (''actions_allowed'', JBool (pac_actions_allowed c)),
      (''mentions_allowed'', JBool (pac_mentions_allowed c)),
      (''material_pack_options'', JList (map JStr (pac_material_options c))),
      (''effective_grants_hash'', JStr (pac_grants_hash c)),
      (''business_scope_hash'', JStr (pac_scope_hash c))]"

definition core_json :: "policy_authority_core \<Rightarrow> json" where
  "core_json c = JObj ((''contract_version'', JStr ''policy-authority-core.v1'') # core_members c)"

definition state_admission_hash_v1 :: "(pybytes \<Rightarrow> pystr) \<Rightarrow> policy_authority_core \<Rightarrow> pystr" where
  "state_admission_hash_v1 sha core = sha256_frame sha ''state-admission-policy.v1'' (core_json core) ''par1''"

section \<open>The manifest\<close>

text \<open>
  \<open>PolicyManifestV2\<close> has the fields of the core, the ledger summary and two digests;
  \<open>_policy_authority_core_from_manifest\<close> is the projection \<open>pm_core\<close>, which the constructor of the
  core validates again.
\<close>

record policy_manifest =
  pm_policy_id :: pystr
  pm_core :: policy_authority_core
  pm_ledger_summary :: policy_ledger_summary
  pm_state_admission_hash :: pystr

definition ledger_summary_json :: "policy_ledger_summary \<Rightarrow> json" where
  "ledger_summary_json s = JObj
     [(''recent_executed_count'', JInt (pls_executed_count s)),
      (''recent_artifact_types'', JList (map JStr (pls_artifact_types s))),
      (''has_recent_executed_actions'', JBool (pls_has_executed s))]"

definition policy_manifest_json :: "policy_manifest \<Rightarrow> json" where
  "policy_manifest_json m = JObj
     ((''contract_version'', JStr ''policy-manifest.v2'') # core_members (pm_core m)
      @ [(''ledger_summary'', ledger_summary_json (pm_ledger_summary m)),
         (''state_admission_hash'', JStr (pm_state_admission_hash m))])"

definition policy_manifest_id_v2 :: "(pybytes \<Rightarrow> pystr) \<Rightarrow> policy_manifest \<Rightarrow> pystr" where
  "policy_manifest_id_v2 sha m = sha256_frame sha ''policy-manifest.v2'' (policy_manifest_json m) ''pol1''"

definition validate_manifest_boundary :: "(pybytes \<Rightarrow> pystr) \<Rightarrow> policy_manifest \<Rightarrow> policy_manifest result" where
  "validate_manifest_boundary sha m =
     (if \<not> prefixed_hex ''pol1:'' 64 (pm_policy_id m) then Inl (ValueError ''policy_id'')
      else if \<not> prefixed_hex ''par1:'' 64 (pm_state_admission_hash m) then Inl (ValueError ''state_admission_hash'')
      else res_bind (check_policy_ledger_summary (pm_ledger_summary m)) (\<lambda>_.
        res_bind (check_policy_authority_core sha (pm_core m)) (\<lambda>core.
        res_bind (if pac_scene core = SceneDirect then validate_direct_policy_ledger (pm_ledger_summary m)
                  else Inr ()) (\<lambda>_.
          if pm_state_admission_hash m \<noteq> state_admission_hash_v1 sha core
          then Inl (ValueError ''policy_state_admission_hash_mismatch'')
          else if pm_policy_id m \<noteq> policy_manifest_id_v2 sha m
          then Inl (ValueError ''policy_manifest_id_mismatch'')
          else Inr m))))"

definition from_core ::
  "(pybytes \<Rightarrow> pystr) \<Rightarrow> policy_authority_core \<Rightarrow> policy_ledger_summary \<Rightarrow> policy_manifest result" where
  "from_core sha core ledger_summary =
     (let draft = \<lparr>pm_policy_id = ''pol1:'' @ replicate 64 CHR ''0'', pm_core = core,
                   pm_ledger_summary = ledger_summary,
                   pm_state_admission_hash = state_admission_hash_v1 sha core\<rparr>
      in validate_manifest_boundary sha (draft\<lparr>pm_policy_id := policy_manifest_id_v2 sha draft\<rparr>))"

end
