(* ===== verification/Policy_Compiler.thy ===== *)
theory Policy_Compiler
  imports Policy_Manifest
begin

text \<open>
  \<open>runtime/policy/manifest_compiler.py\<close>: from a kernel request and the authority of its scope to the
  policy core, and with a ledger summary to the manifest. The \<open>dict.get\<close> tables are functions to an
  option; the loop over the registry is a filter with the tests of its \<open>continue\<close> statements.
\<close>

fun manifest_read_requirements :: "capability_manifest_id \<Rightarrow> read_capability option" where
  "manifest_read_requirements Material_pack_send = Some Resolve_material_pack"
| "manifest_read_requirements Weekly_report_send = Some Resolve_weekly_report"
| "manifest_read_requirements Monthly_report_send = Some Resolve_monthly_report"
| "manifest_read_requirements Sales_handoff = Some Resolve_sales_mention"
| "manifest_read_requirements Answer_internal_company_knowledge = Some Query_internal_company_info"
| "manifest_read_requirements Weekly_report_product_list = Some Query_weekly_report_product_list"
| "manifest_read_requirements Monthly_report_product_list = Some Query_monthly_report_product_list"
| "manifest_read_requirements _ = None"

fun manifest_action_requirements :: "capability_manifest_id \<Rightarrow> outbound_action_type option" where
  "manifest_action_requirements Material_pack_send = Some Out_material_pack"
| "manifest_action_requirements Weekly_report_send = Some Out_weekly_report"
| "manifest_action_requirements Monthly_report_send = Some Out_monthly_report"
| "manifest_action_requirements _ = None"

fun manifest_resolve_requirements :: "capability_manifest_id \<Rightarrow> adapter_resolve_type option" where
  "manifest_resolve_requirements Material_pack_send = Some Ar_material_pack"
| "manifest_resolve_requirements Weekly_report_send = Some Ar_weekly_report"
| "manifest_resolve_requirements Monthly_report_send = Some Ar_monthly_report"
| "manifest_resolve_requirements Sales_handoff = Some Ar_sales_mention"
| "manifest_resolve_requirements Weekly_report_product_list = Some Ar_weekly_report"
| "manifest_resolve_requirements Monthly_report_product_list = Some Ar_monthly_report"
| "manifest_resolve_requirements _ = None"

definition artifact_is_missing :: "capability_manifest_id \<Rightarrow> artifact_type list \<Rightarrow> bool" where
  "artifact_is_missing manifest_id artifact_types =
     ((manifest_id = Material_pack_send \<and> Artifact_material_pack \<notin> set artifact_types)
      \<or> (manifest_id \<in> {Weekly_report_send, Weekly_report_product_list}
          \<and> Artifact_weekly_report \<notin> set artifact_types)
      \<or> (manifest_id \<in> {Monthly_report_send, Monthly_report_product_list}
          \<and> Artifact_monthly_report \<notin> set artifact_types))"

definition manifest_eligible :: "kernel_reply_request \<Rightarrow> scene \<Rightarrow> bool \<Rightarrow> capability_manifest_id \<Rightarrow> bool" where
  "manifest_eligible request scene internal_company_knowledge_enabled manifest_id =
     (let read_grants = read_capabilities (kr_grants request);
          action_grants = outbound_actions (kr_grants request);
          mention_grants = mention_types (kr_grants request);
          artifact_types = map av_type (kernel_available_artifacts request);
          read_requirement = manifest_read_requirements manifest_id;
          action_requirement = manifest_action_requirements manifest_id
      in if \<not> (case read_requirement of None \<Rightarrow> True | Some c \<Rightarrow> c \<in> set read_grants) then False
         else if read_requirement = Some Query_internal_company_info \<and> \<not> internal_company_knowledge_enabled then False
         else if \<not> (case action_requirement of None \<Rightarrow> True | Some a \<Rightarrow> a \<in> set action_grants) then False
         else if manifest_id = Sales_handoff \<and> Mention_sales \<notin> set mention_grants then False
         else if artifact_is_missing manifest_id artifact_types then False
         else if manifest_id = General_handoff \<and> scene \<noteq> SceneDirect then False
         else if scene = SceneDirect \<and> manifest_id \<in>
             {Material_pack_send, Weekly_report_send, Monthly_report_send, Sales_handoff,
              Weekly_report_product_list, Monthly_report_product_list} then False
         else True)"

definition eligible_manifest_refs :: "kernel_reply_request \<Rightarrow> scene \<Rightarrow> bool \<Rightarrow> manifest_ref list" where
  "eligible_manifest_refs request scene internal_company_knowledge_enabled =
     map ManifestRefV1 (filter (manifest_eligible request scene internal_company_knowledge_enabled) registry_list)"

definition allowed_resolves :: "manifest_ref list \<Rightarrow> scene \<Rightarrow> adapter_resolve_type list" where
  "allowed_resolves refs scene =
     (if scene = SceneDirect then []
      else sorted_set adapter_resolve_str (List.map_filter (\<lambda>ref. manifest_resolve_requirements (mr_id ref)) refs))"

definition policy_reply_modes :: "manifest_ref list \<Rightarrow> response_mode list" where
  "policy_reply_modes refs =
     (let manifest_ids = map mr_id refs;
          base = [Mode_clarification, Mode_handoff, Mode_no_reply, Mode_refusal, Mode_smalltalk, Mode_unable];
          action = (if list_ex (\<lambda>i. i \<in> {Material_pack_send, Weekly_report_send, Monthly_report_send}) manifest_ids
                    then [Mode_action] else []);
          knowledge = (if list_ex (\<lambda>i. i \<in> {Answer_internal_company_knowledge, Weekly_report_product_list,
                          Monthly_report_product_list}) manifest_ids
                       then [Mode_knowledge_answer] else [])
      in sorted_set response_mode_str (base @ action @ knowledge))"

definition canonical_material_options :: "kernel_reply_request \<Rightarrow> pystr list" where
  "canonical_material_options request =
     (case find (\<lambda>a. av_type a = Artifact_material_pack) (kernel_available_artifacts request) of
        None \<Rightarrow> [] | Some a \<Rightarrow> av_options a)"

fun parse_recall_mode :: "pystr \<Rightarrow> recall_mode option" where
  "parse_recall_mode s =
     (if s = ''shortcut'' then Some Recall_shortcut
      else if s = ''advisory'' then Some Recall_advisory
      else if s = ''off'' then Some Recall_off else None)"

text \<open>The read capabilities that survive the ceiling of the scene.\<close>

definition policy_reads :: "kernel_reply_request \<Rightarrow> scene \<Rightarrow> read_capability list" where
  "policy_reads request scene =
     (let reads = sorted_set read_capability_str (read_capabilities (kr_grants request)) in
      if scene = SceneDirect
      then filter (\<lambda>c. c = Query_internal_company_info \<and> kr_business_scope request = UnscopedScopeV1) reads
      else reads)"

definition compile_policy_authority_core_v1 ::
  "(pybytes \<Rightarrow> pystr) \<Rightarrow> kernel_reply_request \<Rightarrow> business_scope_authority \<Rightarrow> pystr \<Rightarrow> policy_authority_core result" where
  "compile_policy_authority_core_v1 sha request scope_authority group_recall_mode =
     (if kr_business_scope request \<noteq> bsa_scope scope_authority
      then Inl (ValueError ''business_scope_authority_mismatch'')
      else case parse_recall_mode group_recall_mode of
        None \<Rightarrow> Inl (ValueError ''invalid_group_recall_mode'')
      | Some mode \<Rightarrow>
          let scene = (if kernel_scene_is_group request then SceneGroup else SceneDirect);
              reads = policy_reads request scene;
              knowledge = (Query_internal_company_info \<in> set reads);
              refs = eligible_manifest_refs request scene knowledge;
              actions = (if scene = SceneDirect then []
                         else sorted_set outbound_action_str (outbound_actions (kr_grants request)));
              mentions = (if scene = SceneDirect then []
                          else sorted_set mention_type_str (mention_types (kr_grants request)));
              resolves = allowed_resolves refs scene
          in check_policy_authority_core sha
            \<lparr>pac_scene = scene, pac_reply_modes = policy_reply_modes refs, pac_eligible = refs,
             pac_reads = reads, pac_outbound = actions, pac_mentions = mentions, pac_resolves = resolves,
             pac_internal_knowledge = knowledge,
             pac_recall_mode = (if scene = SceneDirect then Recall_off else mode),
             pac_call_limit = min (int (length resolves)) 16,
             pac_actions_allowed = (actions \<noteq> []), pac_mentions_allowed = (mentions \<noteq> []),
             pac_material_options = canonical_material_options request,
             pac_grants_hash = effective_grants_hash_v1 sha request,
             pac_scope_hash = bsa_hash scope_authority\<rparr>)"

definition compile_policy_manifest_v2 ::
  "(pybytes \<Rightarrow> pystr) \<Rightarrow> kernel_reply_request \<Rightarrow> business_scope_authority \<Rightarrow> policy_ledger_summary \<Rightarrow> pystr
   \<Rightarrow> policy_manifest result" where
  "compile_policy_manifest_v2 sha request scope_authority ledger_summary group_recall_mode =
     res_bind (compile_policy_authority_core_v1 sha request scope_authority group_recall_mode)
       (\<lambda>core. from_core sha core ledger_summary)"

end
