(* ===== verification/Plan_Models.thy ===== *)
theory Plan_Models
  imports Policy_Compiler
begin

text \<open>
  The data of planning: the planner's \<open>PlanSpec\<close> (\<open>runtime/planning/plan_spec.py\<close>), the executable
  plan (\<open>runtime/planning/models.py\<close>), guardrail decisions (\<open>runtime/validation/guardrail_types.py\<close>),
  the deterministic inputs (\<open>compiler_inputs.py\<close>) and the plan's digest (\<open>plan_hash.py\<close>).

  A pydantic model is a record and a validator to an error sum: the bounds of the fields, then the
  model validator; an instance inside another model is not validated a second time. \<open>confidence\<close> is the
  rational value of the float, and \<open>float_text\<close> the JSON text pydantic gives it.
\<close>

section \<open>Vocabulary\<close>

datatype answerability_policy =
    Ans_answer | Ans_send | Ans_clarify | Ans_abstain | Ans_refuse | Ans_handoff | Ans_smalltalk | Ans_no_reply

fun answerability_str :: "answerability_policy \<Rightarrow> pystr" where
  "answerability_str Ans_answer = ''answer''"
| "answerability_str Ans_send = ''send''"
| "answerability_str Ans_clarify = ''clarify''"
| "answerability_str Ans_abstain = ''abstain''"
| "answerability_str Ans_refuse = ''refuse''"
| "answerability_str Ans_handoff = ''handoff''"
| "answerability_str Ans_smalltalk = ''smalltalk''"
| "answerability_str Ans_no_reply = ''no_reply''"

datatype artifact_kind =
    Kind_material_pack | Kind_weekly_report | Kind_monthly_report | Kind_multi_action
  | Kind_knowledge_answer | Kind_human_support | Kind_refusal | Kind_unclear | Kind_smalltalk

fun artifact_kind_str :: "artifact_kind \<Rightarrow> pystr" where
  "artifact_kind_str Kind_material_pack = ''material_pack''"
| "artifact_kind_str Kind_weekly_report = ''weekly_report''"
| "artifact_kind_str Kind_monthly_report = ''monthly_report''"
| "artifact_kind_str Kind_multi_action = ''multi_action''"
| "artifact_kind_str Kind_knowledge_answer = ''knowledge_answer''"
| "artifact_kind_str Kind_human_support = ''human_support''"
| "artifact_kind_str Kind_refusal = ''refusal''"
| "artifact_kind_str Kind_unclear = ''unclear''"
| "artifact_kind_str Kind_smalltalk = ''smalltalk''"

datatype capability_name =
    Cap_material_pack | Cap_weekly_report | Cap_monthly_report | Cap_sales_mention | Cap_document_context

fun capability_name_str :: "capability_name \<Rightarrow> pystr" where
  "capability_name_str Cap_material_pack = ''material_pack''"
| "capability_name_str Cap_weekly_report = ''weekly_report''"
| "capability_name_str Cap_monthly_report = ''monthly_report''"
| "capability_name_str Cap_sales_mention = ''sales_mention''"
| "capability_name_str Cap_document_context = ''document_context''"

datatype compliance_reason =
    Reason_compliant_product_request | Reason_customer_service_request | Reason_expected_or_target_return
  | Reason_principal_or_risk_guarantee | Reason_peer_or_competitor_comparison | Reason_private_contact_request
  | Reason_contract_or_restricted_document | Reason_restricted_internal_document | Reason_fee_waiver_request
  | Reason_qualified_investor_or_threshold | Reason_unrelated_request | Reason_unknown

fun compliance_reason_str :: "compliance_reason \<Rightarrow> pystr" where
  "compliance_reason_str Reason_compliant_product_request = ''compliant_product_request''"
| "compliance_reason_str Reason_customer_service_request = ''customer_service_request''"
| "compliance_reason_str Reason_expected_or_target_return = ''expected_or_target_return''"
| "compliance_reason_str Reason_principal_or_risk_guarantee = ''principal_or_risk_guarantee''"
| "compliance_reason_str Reason_peer_or_competitor_comparison = ''peer_or_competitor_comparison''"
| "compliance_reason_str Reason_private_contact_request = ''private_contact_request''"
| "compliance_reason_str Reason_contract_or_restricted_document = ''contract_or_restricted_document''"
| "compliance_reason_str Reason_restricted_internal_document = ''restricted_internal_document''"
| "compliance_reason_str Reason_fee_waiver_request = ''fee_waiver_request''"
| "compliance_reason_str Reason_qualified_investor_or_threshold = ''qualified_investor_or_threshold''"
| "compliance_reason_str Reason_unrelated_request = ''unrelated_request''"
| "compliance_reason_str Reason_unknown = ''unknown''"

datatype plan_origin =
    Origin_planner | Origin_input_policy | Origin_direct_send | Origin_approved_static_shortcut
  | Origin_deterministic | Origin_remediation

fun plan_origin_str :: "plan_origin \<Rightarrow> pystr" where
  "plan_origin_str Origin_planner = ''planner''"
| "plan_origin_str Origin_input_policy = ''input_policy''"
| "plan_origin_str Origin_direct_send = ''direct_send''"
| "plan_origin_str Origin_approved_static_shortcut = ''approved_static_shortcut''"
| "plan_origin_str Origin_deterministic = ''deterministic''"
| "plan_origin_str Origin_remediation = ''remediation''"

definition opt_within :: "nat \<Rightarrow> pystr option \<Rightarrow> bool" where
  "opt_within hi s = (case s of None \<Rightarrow> True | Some t \<Rightarrow> length t \<le> hi)"

section \<open>Guardrail decisions\<close>

datatype guardrail_outcome =
    Guard_allow | Guard_block | Guard_require_clarification | Guard_require_confirmation | Guard_abstain

fun guardrail_outcome_str :: "guardrail_outcome \<Rightarrow> pystr" where
  "guardrail_outcome_str Guard_allow = ''allow''"
| "guardrail_outcome_str Guard_block = ''block''"
| "guardrail_outcome_str Guard_require_clarification = ''require_clarification''"
| "guardrail_outcome_str Guard_require_confirmation = ''require_confirmation''"
| "guardrail_outcome_str Guard_abstain = ''abstain''"

datatype guardrail_phase = Phase_input | Phase_retrieval_source | Phase_execution_tool | Phase_output

fun guardrail_phase_str :: "guardrail_phase \<Rightarrow> pystr" where
  "guardrail_phase_str Phase_input = ''input''"
| "guardrail_phase_str Phase_retrieval_source = ''retrieval_source''"
| "guardrail_phase_str Phase_execution_tool = ''execution_tool''"
| "guardrail_phase_str Phase_output = ''output''"

record guardrail_decision =
  gd_outcome :: guardrail_outcome
  gd_phase :: guardrail_phase
  gd_reason_code :: pystr
  gd_human_reason :: pystr
  gd_capability_id :: "pystr option"
  gd_artifact_ids :: "pystr list"
  gd_source_scopes :: "(pystr \<times> json) list list"
  gd_evidence_required :: "pystr list"
  gd_evidence_seen :: "pystr list"
  gd_metadata :: "(pystr \<times> json) list"

text \<open>\<open>make_decision\<close> as its callers use it: the other parameters keep their defaults.\<close>

definition make_decision ::
  "guardrail_outcome \<Rightarrow> guardrail_phase \<Rightarrow> pystr \<Rightarrow> pystr \<Rightarrow> (pystr \<times> json) list \<Rightarrow> guardrail_decision result" where
  "make_decision outcome phase reason_code human_reason metadata =
     (if reason_code = [] then Inl (ValueError ''reason_code'')
      else Inr \<lparr>gd_outcome = outcome, gd_phase = phase, gd_reason_code = reason_code,
        gd_human_reason = human_reason, gd_capability_id = None, gd_artifact_ids = [],
        gd_source_scopes = [], gd_evidence_required = [], gd_evidence_seen = [], gd_metadata = metadata\<rparr>)"

section \<open>The planner's specification\<close>

datatype plan_domain_scope =
    DistributionPlanDomainScopeV2 pystr channel_type "pystr option" "pystr list"
  | UnscopedPlanDomainScopeV2

definition check_product_ids :: "pystr list \<Rightarrow> pystr \<Rightarrow> pystr \<Rightarrow> unit result" where
  "check_product_ids ids duplicate invalid =
     (if \<not> distinct ids then Inl (ValueError duplicate)
      else if list_ex (\<lambda>p. p = [] \<or> length p > 160) ids then Inl (ValueError invalid)
      else Inr ())"

fun check_plan_domain_scope :: "plan_domain_scope \<Rightarrow> unit result" where
  "check_plan_domain_scope UnscopedPlanDomainScopeV2 = Inr ()"
| "check_plan_domain_scope (DistributionPlanDomainScopeV2 ref kind option ids) =
     seq_res [raise_if (\<not> prefixed_hex ''bsr:'' 32 ref) (ValueError ''business_scope_ref''),
       raise_if (\<not> opt_within 80 option) (ValueError ''material_pack_option''),
       raise_if (length ids > 1000) (ValueError ''product_ids''),
       check_product_ids ids ''duplicate_product_id'' ''invalid_product_id'']"

record evidence_contract =
  ec_required_fact_types :: "pystr list"
  ec_any_of_fact_types :: "pystr list"
  ec_allowed_source_types :: "pystr list"
  ec_forbidden_source_types :: "pystr list"
  ec_min_facts :: int

definition check_evidence_contract :: "evidence_contract \<Rightarrow> unit result" where
  "check_evidence_contract c =
     seq_res [raise_if (\<not> (0 \<le> ec_min_facts c \<and> ec_min_facts c \<le> 16)) (ValueError ''min_facts''),
       raise_if (set (ec_required_fact_types c) \<inter> set (ec_any_of_fact_types c) \<noteq> {})
         (ValueError ''required and any-of evidence facts must not overlap''),
       raise_if (set (ec_allowed_source_types c) \<inter> set (ec_forbidden_source_types c) \<noteq> {})
         (ValueError ''allowed and forbidden evidence sources must not overlap'')]"

record plan_step =
  ps_step_id :: pystr
  ps_description :: pystr
  ps_uses_artifacts :: "pystr list"
  ps_required_artifacts :: "pystr list"
  ps_allowed_artifacts :: "pystr list"
  ps_forbidden_artifacts :: "pystr list"
  ps_required_tools :: "pystr list"
  ps_evidence_query :: "pystr option"

definition check_plan_step :: "plan_step \<Rightarrow> unit result" where
  "check_plan_step s =
     seq_res [raise_if (ps_step_id s = []) (ValueError ''step_id''),
       raise_if (\<not> length_within 1 300 (ps_description s)) (ValueError ''description''),
       raise_if (\<not> opt_within 200 (ps_evidence_query s)) (ValueError ''evidence_query'')]"

record plan_unit =
  pu_unit_id :: pystr
  pu_selected_capability_id :: pystr
  pu_domain_scope :: plan_domain_scope
  pu_required_artifacts :: "pystr list"
  pu_allowed_artifacts :: "pystr list"
  pu_forbidden_artifacts :: "pystr list"
  pu_required_tools :: "pystr list"
  pu_answerability :: answerability_policy
  pu_output_schema_ref :: pystr
  pu_output_schema :: "(pystr \<times> json) list option"
  pu_evidence_contract_ref :: "pystr option"
  pu_evidence_contract :: "evidence_contract option"
  pu_steps :: "plan_step list"
  pu_acceptance_criteria :: "pystr list"
  pu_abstention_cases :: "pystr list"
  pu_risk_flags :: "pystr list"

text \<open>\<open>^[a-z][a-z0-9_]*(\.[a-z][a-z0-9_]*)*$\<close>: the flag says that a segment starts here.\<close>

fun dotted_name :: "bool \<Rightarrow> pystr \<Rightarrow> bool" where
  "dotted_name start [] = (\<not> start)"
| "dotted_name start (c # cs) =
     (if start then CHR ''a'' \<le> c \<and> c \<le> CHR ''z'' \<and> dotted_name False cs
      else if c = CHR ''.'' then dotted_name True cs
      else ((CHR ''a'' \<le> c \<and> c \<le> CHR ''z'') \<or> is_digit c \<or> c = CHR ''_'') \<and> dotted_name False cs)"

definition check_plan_unit :: "plan_unit \<Rightarrow> unit result" where
  "check_plan_unit u =
     (let required = set (pu_required_artifacts u);
          allowed = set (pu_allowed_artifacts u);
          forbidden = set (pu_forbidden_artifacts u)
      in seq_res
       ([raise_if (pu_unit_id u = []) (ValueError ''unit_id''),
         raise_if (\<not> dotted_name True (pu_selected_capability_id u)) (ValueError ''selected_capability_id''),
         check_plan_domain_scope (pu_domain_scope u),
         raise_if (pu_output_schema_ref u = []) (ValueError ''output_schema_ref''),
         (case pu_evidence_contract u of None \<Rightarrow> Inr () | Some c \<Rightarrow> check_evidence_contract c)]
        @ map check_plan_step (pu_steps u)
        @ [raise_if (required \<inter> forbidden \<noteq> {}) (ValueError ''required_artifacts cannot also be forbidden''),
           raise_if (allowed \<inter> forbidden \<noteq> {}) (ValueError ''allowed_artifacts cannot also be forbidden''),
           raise_if (required \<noteq> {} \<and> allowed \<noteq> {} \<and> \<not> required \<subseteq> allowed)
             (ValueError ''required_artifacts must be included in allowed_artifacts'')]))"

record plan_spec =
  spec_plan_id :: pystr
  spec_user_intent_summary :: pystr
  spec_plan_units :: "plan_unit list"
  spec_risk_flags :: "pystr list"

definition check_plan_spec :: "plan_spec \<Rightarrow> plan_spec result" where
  "check_plan_spec s =
     res_bind (seq_res
       ([raise_if (spec_plan_id s = []) (ValueError ''plan_id''),
         raise_if (\<not> length_within 1 500 (spec_user_intent_summary s)) (ValueError ''user_intent_summary'')]
        @ map check_plan_unit (spec_plan_units s)
        @ [raise_if (\<not> (1 \<le> length (spec_plan_units s) \<and> length (spec_plan_units s) \<le> 4)) (ValueError ''plan_units'')]))
       (\<lambda>_. Inr s)"

end
