(* ===== verification/Execution_Plan.thy ===== *)
theory Execution_Plan
  imports Plan_Models Complex_Main
begin

text \<open>
  The executable plan of \<open>runtime/planning/models.py\<close> with its validators, its digest
  (\<open>runtime/planning/plan_hash.py\<close>) and its check against the final policy
  (\<open>runtime/planning/validation.py\<close>).
\<close>

section \<open>Scopes, lookups and actions\<close>

record plan_time_range =
  tr_period :: "pystr option"
  tr_start :: "pystr option"
  tr_end :: "pystr option"
  tr_label :: "pystr option"

definition check_time_range :: "plan_time_range \<Rightarrow> unit result" where
  "check_time_range t =
     (let values = [tr_period t, tr_start t, tr_end t, tr_label t] in
      if \<not> list_all (opt_within 80) values then Inl (ValueError ''time_range'')
      else if list_ex (\<lambda>v. case v of None \<Rightarrow> False | Some s \<Rightarrow> list_ex (\<lambda>c. c < CHR 0x20) s) values
      then Inl (ValueError ''execution_plan_time_range_control_character'')
      else Inr ())"

datatype execution_scope =
    DistributionExecutionDomainScopeV2 pystr channel_type "pystr option" "pystr list" "plan_time_range option"
  | UnscopedExecutionDomainScopeV2

fun check_execution_scope :: "execution_scope \<Rightarrow> unit result" where
  "check_execution_scope UnscopedExecutionDomainScopeV2 = Inr ()"
| "check_execution_scope (DistributionExecutionDomainScopeV2 ref kind option ids time_range) =
     seq_res [raise_if (\<not> prefixed_hex ''bsr:'' 32 ref) (ValueError ''business_scope_ref''),
       raise_if (\<not> opt_within 80 option) (ValueError ''material_pack_option''),
       raise_if (length ids > 1000) (ValueError ''product_ids''),
       (case time_range of None \<Rightarrow> Inr () | Some t \<Rightarrow> check_time_range t),
       check_product_ids ids ''execution_scope_duplicate_product_id'' ''execution_scope_invalid_product_id'']"

record adapter_resolve =
  are_type :: adapter_resolve_type
  are_material_pack_option :: "pystr option"
  are_artifact_id :: "pystr option"

definition check_adapter_resolve :: "adapter_resolve \<Rightarrow> unit result" where
  "check_adapter_resolve r =
     seq_res [raise_if (\<not> opt_within 80 (are_material_pack_option r)) (ValueError ''material_pack_option''),
       raise_if (\<not> opt_within 160 (are_artifact_id r)) (ValueError ''artifact_id'')]"

record action_intent =
  ai_action_type :: outbound_action_type
  ai_capability :: capability_name
  ai_material_pack_option :: "pystr option"

definition check_action_intent :: "action_intent \<Rightarrow> unit result" where
  "check_action_intent i =
     raise_if (\<not> opt_within 80 (ai_material_pack_option i)) (ValueError ''material_pack_option'')"

section \<open>Units\<close>

record execution_unit =
  eu_unit_id :: pystr
  eu_manifest_ref :: manifest_ref
  eu_answerability :: answerability_policy
  eu_artifact_kind :: artifact_kind
  eu_runtime_capabilities :: "capability_name list"
  eu_answer_capabilities :: "capability_name list"
  eu_adapter_resolves :: "adapter_resolve list"
  eu_action_intents :: "action_intent list"
  eu_scope :: execution_scope
  eu_evidence_query :: "pystr option"
  eu_ambiguity_slots :: "pystr list"
  eu_risk_flags :: "pystr list"

definition check_execution_unit :: "execution_unit \<Rightarrow> execution_unit result" where
  "check_execution_unit u =
     res_bind (seq_res
       [raise_if (\<not> length_within 1 120 (eu_unit_id u)) (ValueError ''unit_id''),
        raise_if (length (eu_runtime_capabilities u) > 8) (ValueError ''runtime_capabilities''),
        raise_if (length (eu_answer_capabilities u) > 4) (ValueError ''answer_capabilities''),
        raise_if (length (eu_adapter_resolves u) > 8) (ValueError ''adapter_resolves''),
        raise_if (length (eu_action_intents u) > 3) (ValueError ''action_intents''),
        raise_if (\<not> opt_within 200 (eu_evidence_query u)) (ValueError ''evidence_query''),
        raise_if (length (eu_ambiguity_slots u) > 8) (ValueError ''ambiguity_slots''),
        raise_if (\<not> list_all (\<lambda>f. f = ''weekly_report_rationale_required'') (eu_risk_flags u)) (ValueError ''risk_flags''),
        raise_if (sorted_set capability_name_str (eu_runtime_capabilities u) \<noteq> eu_runtime_capabilities u)
          (ValueError ''execution_unit_runtime_capabilities_not_canonical''),
        raise_if (sorted_set capability_name_str (eu_answer_capabilities u) \<noteq> eu_answer_capabilities u)
          (ValueError ''execution_unit_answer_capabilities_not_canonical''),
        raise_if (\<not> distinct (eu_ambiguity_slots u)) (ValueError ''execution_unit_ambiguity_slots_not_canonical''),
        raise_if (list_ex (\<lambda>s. s = [] \<or> length s > 120) (eu_ambiguity_slots u))
          (ValueError ''execution_unit_invalid_ambiguity_slot'')])
       (\<lambda>_. Inr u)"

section \<open>The plan\<close>

record compliance_decision =
  cd_is_compliant :: "bool option"
  cd_reason_code :: compliance_reason
  cd_reason :: pystr

record execution_plan =
  ep_id :: pystr
  ep_origin :: plan_origin
  ep_user_need :: pystr
  ep_artifact_kind :: artifact_kind
  ep_response_mode :: response_mode
  ep_compliance :: compliance_decision
  ep_units :: "execution_unit list"
  ep_selected_manifest_refs :: "manifest_ref list"
  ep_adapter_resolves :: "adapter_resolve list"
  ep_action_intents :: "action_intent list"
  ep_guardrail_decisions :: "guardrail_decision list"
  ep_confidence :: rat
  ep_plan_spec :: "plan_spec option"

text \<open>
  The loops of \<open>_selected_manifest_refs\<close> and \<open>_unique_resolves\<close>: the first item of every key, in order.
\<close>

fun first_by :: "('a \<Rightarrow> 'k) \<Rightarrow> 'k list \<Rightarrow> 'a list \<Rightarrow> 'a list" where
  "first_by key seen [] = []"
| "first_by key seen (x # xs) =
     (if key x \<in> set seen then first_by key seen xs else x # first_by key (key x # seen) xs)"

definition selected_manifest_refs :: "execution_unit list \<Rightarrow> manifest_ref list" where
  "selected_manifest_refs units = first_by (\<lambda>r. manifest_id_str (mr_id r)) [] (map eu_manifest_ref units)"

definition resolve_key :: "adapter_resolve \<Rightarrow> adapter_resolve_type \<times> pystr option \<times> pystr option" where
  "resolve_key r = (are_type r, are_material_pack_option r, are_artifact_id r)"

definition unique_resolves :: "adapter_resolve list \<Rightarrow> adapter_resolve list" where
  "unique_resolves rs = first_by resolve_key [] rs"

section \<open>The digest\<close>

text \<open>\<open>json.loads(..., parse_float=str)\<close>: a float of the JSON text becomes its text.\<close>

fun stringify_floats :: "json \<Rightarrow> json" where
  "stringify_floats (JFloat r) = JStr r"
| "stringify_floats (JList vs) = JList (map stringify_floats vs)"
| "stringify_floats (JObj kvs) = JObj (map (\<lambda>(k, v). (k, stringify_floats v)) kvs)"
| "stringify_floats v = v"

definition resolve_json :: "adapter_resolve \<Rightarrow> json" where
  "resolve_json r = JObj
     [(''resolve_type'', JStr (adapter_resolve_str (are_type r))),
      (''material_pack_option'', opt_json (are_material_pack_option r)),
      (''artifact_id'', opt_json (are_artifact_id r))]"

definition intent_json :: "action_intent \<Rightarrow> json" where
  "intent_json i = JObj
     [(''action_type'', JStr (outbound_action_str (ai_action_type i))),
      (''capability'', JStr (capability_name_str (ai_capability i))),
      (''material_pack_option'', opt_json (ai_material_pack_option i))]"

definition time_range_json :: "plan_time_range \<Rightarrow> json" where
  "time_range_json t = JObj
     [(''period'', opt_json (tr_period t)), (''start'', opt_json (tr_start t)),
      (''end'', opt_json (tr_end t)), (''label'', opt_json (tr_label t))]"

fun execution_scope_json :: "execution_scope \<Rightarrow> json" where
  "execution_scope_json UnscopedExecutionDomainScopeV2 = JObj [(''kind'', JStr ''unscoped'')]"
| "execution_scope_json (DistributionExecutionDomainScopeV2 ref kind option ids time_range) = JObj
     [(''kind'', JStr ''distribution''), (''business_scope_ref'', JStr ref),
      (''channel_kind'', JStr (channel_type_str kind)), (''material_pack_option'', opt_json option),
      (''product_ids'', JList (map JStr ids)),
      (''time_range'', case time_range of None \<Rightarrow> JNull | Some t \<Rightarrow> time_range_json t)]"

definition unit_json :: "execution_unit \<Rightarrow> json" where
  "unit_json u = JObj
     [(''unit_id'', JStr (eu_unit_id u)), (''manifest_ref'', manifest_ref_json (eu_manifest_ref u)),
      (''answerability_policy'', JStr (answerability_str (eu_answerability u))),
      (''artifact_kind'', JStr (artifact_kind_str (eu_artifact_kind u))),
      (''runtime_capabilities'', JList (map (JStr \<circ> capability_name_str) (eu_runtime_capabilities u))),
      (''answer_capabilities'', JList (map (JStr \<circ> capability_name_str) (eu_answer_capabilities u))),
      (''adapter_resolves'', JList (map resolve_json (eu_adapter_resolves u))),
      (''action_intents'', JList (map intent_json (eu_action_intents u))),
      (''scope'', execution_scope_json (eu_scope u)), (''evidence_query'', opt_json (eu_evidence_query u)),
      (''ambiguity_slots'', JList (map JStr (eu_ambiguity_slots u))),
      (''risk_flags'', JList (map JStr (eu_risk_flags u)))]"

text \<open>The decisions have no member \<open>message\<close>, so the \<open>pop\<close> of the code removes nothing.\<close>

definition guardrail_json :: "guardrail_decision \<Rightarrow> json" where
  "guardrail_json d = JObj
     [(''outcome'', JStr (guardrail_outcome_str (gd_outcome d))), (''phase'', JStr (guardrail_phase_str (gd_phase d))),
      (''reason_code'', JStr (gd_reason_code d)), (''human_readable_reason'', JStr (gd_human_reason d)),
      (''capability_id'', opt_json (gd_capability_id d)), (''artifact_ids'', JList (map JStr (gd_artifact_ids d))),
      (''source_scopes'', JList (map (stringify_floats \<circ> JObj) (gd_source_scopes d))),
      (''evidence_required'', JList (map JStr (gd_evidence_required d))),
      (''evidence_seen'', JList (map JStr (gd_evidence_seen d))),
      (''metadata'', stringify_floats (JObj (gd_metadata d)))]"

fun opt_bool_json :: "bool option \<Rightarrow> json" where
  "opt_bool_json None = JNull"
| "opt_bool_json (Some b) = JBool b"

definition plan_json :: "(rat \<Rightarrow> pystr) \<Rightarrow> execution_plan \<Rightarrow> json" where
  "plan_json float_text p = JObj
     [(''contract_version'', JStr ''execution-plan.v2''), (''origin'', JStr (plan_origin_str (ep_origin p))),
      (''user_need'', JStr (ep_user_need p)), (''artifact_kind'', JStr (artifact_kind_str (ep_artifact_kind p))),
      (''response_mode'', JStr (response_mode_str (ep_response_mode p))),
      (''compliance'', JObj [(''is_compliant'', opt_bool_json (cd_is_compliant (ep_compliance p))),
         (''reason_code'', JStr (compliance_reason_str (cd_reason_code (ep_compliance p)))), (''reason'', JStr [])]),
      (''units'', JList (map unit_json (ep_units p))),
      (''selected_manifest_refs'', JList (map manifest_ref_json (ep_selected_manifest_refs p))),
      (''adapter_resolves'', JList (map resolve_json (ep_adapter_resolves p))),
      (''action_intents'', JList (map intent_json (ep_action_intents p))),
      (''guardrail_decisions'', JList (map guardrail_json (ep_guardrail_decisions p))),
      (''confidence'', JStr (float_text (ep_confidence p))), (''plan_spec'', JNull)]"

definition execution_plan_id_v2 :: "(pybytes \<Rightarrow> pystr) \<Rightarrow> (rat \<Rightarrow> pystr) \<Rightarrow> execution_plan \<Rightarrow> pystr" where
  "execution_plan_id_v2 sha float_text p = sha256_frame sha ''execution-plan.v2'' (plan_json float_text p) ''epl1''"

section \<open>Validation\<close>

definition check_execution_plan ::
  "(pybytes \<Rightarrow> pystr) \<Rightarrow> (rat \<Rightarrow> pystr) \<Rightarrow> execution_plan \<Rightarrow> execution_plan result" where
  "check_execution_plan sha float_text p =
     res_bind (seq_res
       [raise_if (\<not> prefixed_hex ''epl1:'' 64 (ep_id p)) (ValueError ''execution_plan_id''),
        raise_if (\<not> length_within 1 500 (ep_user_need p)) (ValueError ''user_need''),
        raise_if (length (cd_reason (ep_compliance p)) > 400) (ValueError ''reason''),
        raise_if (\<not> (1 \<le> length (ep_units p) \<and> length (ep_units p) \<le> 4)) (ValueError ''units''),
        raise_if (\<not> (1 \<le> length (ep_selected_manifest_refs p) \<and> length (ep_selected_manifest_refs p) \<le> 4))
          (ValueError ''selected_manifest_refs''),
        raise_if (length (ep_adapter_resolves p) > 8) (ValueError ''adapter_resolves''),
        raise_if (length (ep_action_intents p) > 3) (ValueError ''action_intents''),
        raise_if (length (ep_guardrail_decisions p) > 32) (ValueError ''guardrail_decisions''),
        raise_if (\<not> (0 \<le> ep_confidence p \<and> ep_confidence p \<le> 1)) (ValueError ''confidence''),
        raise_if (\<not> distinct (map eu_unit_id (ep_units p))) (ValueError ''execution_plan_duplicate_unit_id''),
        raise_if (ep_selected_manifest_refs p \<noteq> selected_manifest_refs (ep_units p))
          (ValueError ''execution_plan_selected_manifest_refs_mismatch''),
        raise_if (ep_adapter_resolves p \<noteq> unique_resolves (concat (map eu_adapter_resolves (ep_units p))))
          (ValueError ''execution_plan_adapter_resolves_mismatch''),
        raise_if (ep_action_intents p \<noteq> concat (map eu_action_intents (ep_units p)))
          (ValueError ''execution_plan_action_intents_mismatch''),
        raise_if ((ep_origin p = Origin_planner) \<noteq> (ep_plan_spec p \<noteq> None))
          (ValueError ''execution_plan_plan_spec_origin_mismatch''),
        raise_if (ep_id p \<noteq> execution_plan_id_v2 sha float_text p) (ValueError ''execution_plan_id_mismatch'')])
       (\<lambda>_. Inr p)"

section \<open>Validation against the policy\<close>

datatype plan_issue_code =
    Response_mode_not_allowed | Capability_not_allowed | Adapter_resolve_not_allowed | Too_many_evidence_calls
  | Action_not_allowed | Action_capability_mismatch | Action_missing_required_resolve
  | Non_compliant_plan_has_actions | Non_compliant_plan_not_refusal | Unknown_compliance_has_actions
  | Ambiguous_plan_has_actions | Ambiguous_plan_not_clarification | Clarification_missing_supported_slot
  | Knowledge_answer_missing_capability | Material_pack_scope_not_allowed | Plan_spec_capability_not_found
  | Plan_spec_runtime_capability_not_allowed

datatype plan_severity = Severity_error | Severity_fatal

record plan_issue =
  pi_code :: plan_issue_code
  pi_severity :: plan_severity
  pi_unit_id :: "pystr option"

definition plan_result_fatal :: "plan_issue list \<Rightarrow> bool" where
  "plan_result_fatal issues = list_ex (\<lambda>i. pi_severity i = Severity_fatal) issues"

definition unit_issues :: "policy_authority_core \<Rightarrow> execution_unit \<Rightarrow> plan_issue list" where
  "unit_issues policy u =
     (let issue = \<lambda>c. \<lparr>pi_code = c, pi_severity = Severity_fatal, pi_unit_id = Some (eu_unit_id u)\<rparr> in
      (if eu_manifest_ref u \<notin> set (pac_eligible policy) then [issue Capability_not_allowed] else [])
      @ map (\<lambda>_. issue Adapter_resolve_not_allowed)
          (filter (\<lambda>r. are_type r \<notin> set (pac_resolves policy)) (eu_adapter_resolves u))
      @ map (\<lambda>_. issue Action_not_allowed)
          (filter (\<lambda>a. ai_action_type a \<notin> set (pac_outbound policy)) (eu_action_intents u)))"

text \<open>The result is its list of issues; \<open>valid\<close> is that there is none. The messages are left out.\<close>

definition validate_execution_plan_v2 :: "execution_plan \<Rightarrow> policy_manifest \<Rightarrow> plan_issue list" where
  "validate_execution_plan_v2 plan policy =
     (if ep_response_mode plan \<notin> set (pac_reply_modes (pm_core policy))
      then [\<lparr>pi_code = Response_mode_not_allowed, pi_severity = Severity_fatal, pi_unit_id = None\<rparr>] else [])
     @ concat (map (unit_issues (pm_core policy)) (ep_units plan))"

end
