(* ===== verification/Plan_Compiler.thy ===== *)
theory Plan_Compiler
  imports Execution_Plan Py_Text
begin

text \<open>
  From a plan source to the executable plan: \<open>runtime/planning/compiler.py\<close>, \<open>compiler_units.py\<close>,
  \<open>compiler_derivations.py\<close>, \<open>clarification.py\<close> and \<open>capability_by_name\<close> of
  \<open>runtime/policy/capabilities/runtime_projection.py\<close>. An \<open>ExecutionPlanCompilationError\<close> is a
  \<open>ValueError\<close> with its code.
\<close>

section \<open>Runtime capabilities\<close>

record runtime_capability =
  rc_manifest :: capability_manifest_id
  rc_name :: capability_name
  rc_artifact_kind :: artifact_kind
  rc_read_capability :: "read_capability option"
  rc_resolve_type :: "adapter_resolve_type option"
  rc_outbound_action_type :: "outbound_action_type option"
  rc_resolvable_fact_type :: "pystr option"
  rc_business_state_field :: "pystr option"
  rc_supports_material_pack_option :: bool
  rc_is_report :: bool

fun capability_by_name :: "capability_name \<Rightarrow> runtime_capability" where
  "capability_by_name Cap_material_pack =
     \<lparr>rc_manifest = Material_pack_send, rc_name = Cap_material_pack, rc_artifact_kind = Kind_material_pack,
      rc_read_capability = Some Resolve_material_pack, rc_resolve_type = Some Ar_material_pack,
      rc_outbound_action_type = Some Out_material_pack,
      rc_resolvable_fact_type = Some ''material_pack_resolvable'', rc_business_state_field = Some ''material_pack'',
      rc_supports_material_pack_option = True, rc_is_report = False\<rparr>"
| "capability_by_name Cap_weekly_report =
     \<lparr>rc_manifest = Weekly_report_send, rc_name = Cap_weekly_report, rc_artifact_kind = Kind_weekly_report,
      rc_read_capability = Some Resolve_weekly_report, rc_resolve_type = Some Ar_weekly_report,
      rc_outbound_action_type = Some Out_weekly_report,
      rc_resolvable_fact_type = Some ''weekly_report_resolvable'', rc_business_state_field = Some ''weekly_report'',
      rc_supports_material_pack_option = False, rc_is_report = True\<rparr>"
| "capability_by_name Cap_monthly_report =
     \<lparr>rc_manifest = Monthly_report_send, rc_name = Cap_monthly_report, rc_artifact_kind = Kind_monthly_report,
      rc_read_capability = Some Resolve_monthly_report, rc_resolve_type = Some Ar_monthly_report,
      rc_outbound_action_type = Some Out_monthly_report,
      rc_resolvable_fact_type = Some ''monthly_report_resolvable'', rc_business_state_field = Some ''monthly_report'',
      rc_supports_material_pack_option = False, rc_is_report = True\<rparr>"
| "capability_by_name Cap_sales_mention =
     \<lparr>rc_manifest = Sales_handoff, rc_name = Cap_sales_mention, rc_artifact_kind = Kind_human_support,
      rc_read_capability = Some Resolve_sales_mention, rc_resolve_type = Some Ar_sales_mention,
      rc_outbound_action_type = None, rc_resolvable_fact_type = Some ''sales_mention_resolvable'',
      rc_business_state_field = Some ''sales_mention'', rc_supports_material_pack_option = False, rc_is_report = False\<rparr>"
| "capability_by_name Cap_document_context =
     \<lparr>rc_manifest = Answer_internal_company_knowledge, rc_name = Cap_document_context, rc_artifact_kind = Kind_knowledge_answer,
      rc_read_capability = Some Query_internal_company_info, rc_resolve_type = None,
      rc_outbound_action_type = None, rc_resolvable_fact_type = Some ''document_context'',
      rc_business_state_field = None, rc_supports_material_pack_option = False, rc_is_report = False\<rparr>"

fun runtime_capability_by_manifest_id :: "capability_manifest_id \<Rightarrow> capability_name option" where
  "runtime_capability_by_manifest_id Material_pack_send = Some Cap_material_pack"
| "runtime_capability_by_manifest_id Weekly_report_send = Some Cap_weekly_report"
| "runtime_capability_by_manifest_id Monthly_report_send = Some Cap_monthly_report"
| "runtime_capability_by_manifest_id Sales_handoff = Some Cap_sales_mention"
| "runtime_capability_by_manifest_id Weekly_report_product_list = Some Cap_weekly_report"
| "runtime_capability_by_manifest_id Monthly_report_product_list = Some Cap_monthly_report"
| "runtime_capability_by_manifest_id Answer_internal_company_knowledge = Some Cap_document_context"
| "runtime_capability_by_manifest_id _ = None"

definition runtime_capability_of :: "capability_manifest_id \<Rightarrow> runtime_capability option" where
  "runtime_capability_of i = map_option capability_by_name (runtime_capability_by_manifest_id i)"

definition registry_find :: "pystr \<Rightarrow> capability_manifest_id option" where
  "registry_find manifest_id = find (\<lambda>i. manifest_id_str i = manifest_id) registry_list"

section \<open>Clarification slots\<close>

text \<open>The loop of \<open>supported_clarification_slots\<close>, with its output so far.\<close>

fun clarification_loop :: "pystr list \<Rightarrow> pystr list \<Rightarrow> pystr list" where
  "clarification_loop output [] = output"
| "clarification_loop output (v # vs) =
     (let slot = py_strip v in
      if slot \<in> {''artifact'', ''material_pack_option''} \<and> slot \<notin> set output
      then clarification_loop (output @ [slot]) vs else clarification_loop output vs)"

definition supported_clarification_slots :: "pystr list \<Rightarrow> pystr list" where
  "supported_clarification_slots vs = clarification_loop [] vs"

section \<open>Derivations\<close>

definition response_mode_for_answerability_policies :: "answerability_policy list \<Rightarrow> response_mode" where
  "response_mode_for_answerability_policies policies =
     (if Ans_refuse \<in> set policies then Mode_refusal
      else if Ans_send \<in> set policies then Mode_action
      else if Ans_clarify \<in> set policies then Mode_clarification
      else if Ans_answer \<in> set policies then Mode_knowledge_answer
      else if Ans_handoff \<in> set policies then Mode_handoff
      else if Ans_smalltalk \<in> set policies then Mode_smalltalk
      else if Ans_no_reply \<in> set policies then Mode_no_reply
      else Mode_unable)"

fun artifact_kind_for_answerability :: "answerability_policy \<Rightarrow> artifact_kind" where
  "artifact_kind_for_answerability Ans_answer = Kind_knowledge_answer"
| "artifact_kind_for_answerability Ans_send = Kind_multi_action"
| "artifact_kind_for_answerability Ans_clarify = Kind_unclear"
| "artifact_kind_for_answerability Ans_abstain = Kind_unclear"
| "artifact_kind_for_answerability Ans_refuse = Kind_refusal"
| "artifact_kind_for_answerability Ans_handoff = Kind_human_support"
| "artifact_kind_for_answerability Ans_smalltalk = Kind_smalltalk"
| "artifact_kind_for_answerability Ans_no_reply = Kind_smalltalk"

definition artifact_kind_for_plan_spec :: "plan_unit list \<Rightarrow> response_mode \<Rightarrow> artifact_kind" where
  "artifact_kind_for_plan_spec units mode =
     (case mode of
        Mode_action \<Rightarrow>
          (let send_units = filter (\<lambda>u. pu_answerability u = Ans_send) units in
           if length send_units > 1 then Kind_multi_action
           else case List.map_filter
               (\<lambda>u. Option.bind (registry_find (pu_selected_capability_id u)) runtime_capability_of) send_units of
             [] \<Rightarrow> Kind_multi_action | c # _ \<Rightarrow> rc_artifact_kind c)
      | Mode_knowledge_answer \<Rightarrow> Kind_knowledge_answer
      | Mode_handoff \<Rightarrow> Kind_human_support
      | Mode_refusal \<Rightarrow> Kind_refusal
      | Mode_smalltalk \<Rightarrow> Kind_smalltalk
      | Mode_no_reply \<Rightarrow> Kind_smalltalk
      | _ \<Rightarrow> Kind_unclear)"

text \<open>\<open>next(...)\<close> without a default raises \<open>StopIteration\<close> when no unit has the mode.\<close>

definition artifact_kind_for_execution_units ::
  "execution_unit list \<Rightarrow> plan_unit list \<Rightarrow> response_mode \<Rightarrow> artifact_kind result" where
  "artifact_kind_for_execution_units units planner_units mode =
     (if planner_units \<noteq> [] then Inr (artifact_kind_for_plan_spec planner_units mode)
      else if mode = Mode_action
      then (case filter (\<lambda>u. eu_answerability u = Ans_send) units of
              [u] \<Rightarrow> Inr (eu_artifact_kind u) | _ \<Rightarrow> Inr Kind_multi_action)
      else (case find (\<lambda>u. response_mode_for_answerability_policies [eu_answerability u] = mode) units of
              None \<Rightarrow> Inl StopIteration
            | Some u \<Rightarrow> Inr (artifact_kind_for_answerability (eu_answerability u))))"

definition all_compliance_reasons :: "compliance_reason list" where
  "all_compliance_reasons =
     [Reason_compliant_product_request, Reason_customer_service_request, Reason_expected_or_target_return,
      Reason_principal_or_risk_guarantee, Reason_peer_or_competitor_comparison, Reason_private_contact_request,
      Reason_contract_or_restricted_document, Reason_restricted_internal_document, Reason_fee_waiver_request,
      Reason_qualified_investor_or_threshold, Reason_unrelated_request, Reason_unknown]"

definition compliance_reason_by_value :: "pystr \<Rightarrow> compliance_reason option" where
  "compliance_reason_by_value flag = find (\<lambda>r. compliance_reason_str r = flag) all_compliance_reasons"

definition compliance_reason_code_for_plan_spec :: "plan_spec \<Rightarrow> compliance_reason" where
  "compliance_reason_code_for_plan_spec spec =
     (if \<not> list_ex (\<lambda>u. pu_answerability u = Ans_refuse) (spec_plan_units spec)
      then Reason_compliant_product_request
      else case List.map_filter compliance_reason_by_value
          (spec_risk_flags spec @ concat (map pu_risk_flags (spec_plan_units spec))) of
        [] \<Rightarrow> Reason_unknown | r # _ \<Rightarrow> r)"

section \<open>One unit\<close>

definition sales_fallback_is_allowed :: "policy_authority_core \<Rightarrow> bool" where
  "sales_fallback_is_allowed policy =
     (Ar_sales_mention \<in> set (pac_resolves policy) \<and> Mention_sales \<in> set (pac_mentions policy))"

definition action_intents_of ::
  "answerability_policy \<Rightarrow> runtime_capability option \<Rightarrow> policy_authority_core \<Rightarrow> pystr option
   \<Rightarrow> action_intent list result" where
  "action_intents_of answerability capability policy option =
     (case (if answerability = Ans_send then capability else None) of
        None \<Rightarrow> Inr []
      | Some c \<Rightarrow> (case rc_outbound_action_type c of
          None \<Rightarrow> Inr []
        | Some a \<Rightarrow>
            if a \<notin> set (pac_outbound policy) then Inl (ValueError ''execution_plan_action_not_allowed'')
            else let intent = \<lparr>ai_action_type = a, ai_capability = rc_name c,
                     ai_material_pack_option = (if rc_supports_material_pack_option c then option else None)\<rparr>
              in res_bind (check_action_intent intent) (\<lambda>_. Inr [intent])))"

definition execution_scope_of ::
  "plan_domain_scope option \<Rightarrow> business_scope_authority \<Rightarrow> pystr option \<Rightarrow> execution_scope result" where
  "execution_scope_of plan_scope authority option =
     (case bsa_scope authority of
        DistributionScopeV1 _ channel _ \<Rightarrow>
          res_bind (case plan_scope of
              None \<Rightarrow> Inr []
            | Some UnscopedPlanDomainScopeV2 \<Rightarrow> Inl (ValueError ''plan_spec_business_scope_mismatch'')
            | Some (DistributionPlanDomainScopeV2 ref _ _ ids) \<Rightarrow>
                if ref \<noteq> bsa_ref authority then Inl (ValueError ''plan_spec_business_scope_mismatch'')
                else Inr ids) (\<lambda>ids.
            let scope = DistributionExecutionDomainScopeV2 (bsa_ref authority) channel option ids None
            in res_bind (check_execution_scope scope) (\<lambda>_. Inr scope))
      | UnscopedScopeV1 \<Rightarrow>
          (case plan_scope of
             Some (DistributionPlanDomainScopeV2 _ _ _ _) \<Rightarrow> Inl (ValueError ''plan_spec_business_scope_mismatch'')
           | _ \<Rightarrow> Inr UnscopedExecutionDomainScopeV2))"

definition capability_resolves :: "runtime_capability option \<Rightarrow> pystr option \<Rightarrow> adapter_resolve list result" where
  "capability_resolves capability option =
     (case Option.bind capability rc_resolve_type of
        None \<Rightarrow> Inr []
      | Some t \<Rightarrow>
          let r = \<lparr>are_type = t,
                are_material_pack_option =
                  (if rc_supports_material_pack_option (the capability) then option else None),
                are_artifact_id = None\<rparr>
          in res_bind (check_adapter_resolve r) (\<lambda>_. Inr [r]))"

definition sales_resolve :: adapter_resolve where
  "sales_resolve = \<lparr>are_type = Ar_sales_mention, are_material_pack_option = None, are_artifact_id = None\<rparr>"

text \<open>The arguments of \<open>_finalize_execution_unit_v2\<close> that come from the unit.\<close>

record deterministic_unit =
  du_unit_id :: pystr
  du_manifest_id :: pystr
  du_answerability :: answerability_policy
  du_material_pack_option :: "pystr option"
  du_evidence_query :: "pystr option"
  du_ambiguity_slots :: "pystr list"
  du_risk_flags :: "pystr list"

definition policy_ref :: "policy_authority_core \<Rightarrow> pystr \<Rightarrow> manifest_ref option" where
  "policy_ref policy manifest_id =
     find (\<lambda>r. manifest_id_str (mr_id r) = manifest_id) (rev (pac_eligible policy))"

definition rationale_flags :: "pystr list \<Rightarrow> pystr list" where
  "rationale_flags flags = filter (\<lambda>f. f = ''weekly_report_rationale_required'') flags"

text \<open>The keyword arguments of the constructor call that ends \<open>_finalize_execution_unit_v2\<close>.\<close>

definition execution_unit_of ::
  "deterministic_unit \<Rightarrow> manifest_ref \<Rightarrow> runtime_capability option \<Rightarrow> execution_scope \<Rightarrow> adapter_resolve list
   \<Rightarrow> action_intent list \<Rightarrow> policy_authority_core \<Rightarrow> execution_unit" where
  "execution_unit_of u ref capability scope resolves intents policy =
     (let names = (case capability of None \<Rightarrow> [] | Some c \<Rightarrow> [rc_name c]) in
       \<lparr>eu_unit_id = du_unit_id u, eu_manifest_ref = ref, eu_answerability = du_answerability u,
        eu_artifact_kind = (case capability of Some c \<Rightarrow> rc_artifact_kind c
           | None \<Rightarrow> artifact_kind_for_answerability (du_answerability u)),
        eu_runtime_capabilities = names,
        eu_answer_capabilities = (if du_answerability u = Ans_answer then names else []),
        eu_adapter_resolves =
          resolves @ (if du_answerability u = Ans_send \<and> sales_fallback_is_allowed policy then [sales_resolve] else []),
        eu_action_intents = intents, eu_scope = scope, eu_evidence_query = du_evidence_query u,
        eu_ambiguity_slots = supported_clarification_slots (du_ambiguity_slots u),
        eu_risk_flags = rationale_flags (du_risk_flags u)\<rparr>)"

definition finalize_execution_unit_v2 ::
  "deterministic_unit \<Rightarrow> plan_domain_scope option \<Rightarrow> business_scope_authority \<Rightarrow> policy_authority_core
   \<Rightarrow> execution_unit result" where
  "finalize_execution_unit_v2 u plan_scope authority policy =
     (case policy_ref policy (du_manifest_id u) of
        None \<Rightarrow> Inl (ValueError ''plan_spec_capability_not_policy_eligible'')
      | Some ref \<Rightarrow> (case registry_find (du_manifest_id u) of
          None \<Rightarrow> Inl (ValueError ''plan_spec_manifest_ref_unknown'')
        | Some manifest \<Rightarrow>
            let option = du_material_pack_option u;
                capability = runtime_capability_of manifest
            in res_bind (execution_scope_of plan_scope authority option) (\<lambda>scope.
               res_bind (capability_resolves capability option) (\<lambda>resolves.
               res_bind (action_intents_of (du_answerability u) capability policy option) (\<lambda>intents.
                 if du_answerability u = Ans_send \<and> pac_scene policy = SceneDirect
                 then Inl (ValueError ''execution_plan_direct_send_forbidden'')
                 else check_execution_unit
                   (execution_unit_of u ref capability scope resolves intents policy))))))"

definition single_unit_evidence_query :: "plan_unit \<Rightarrow> pystr option result" where
  "single_unit_evidence_query u =
     (case List.map_filter ps_evidence_query (pu_steps u) of
        [] \<Rightarrow> Inr None | [q] \<Rightarrow> Inr (Some q)
      | _ \<Rightarrow> Inl (ValueError ''plan_spec_multiple_evidence_queries''))"

fun plan_scope_material_pack_option :: "plan_domain_scope \<Rightarrow> pystr option" where
  "plan_scope_material_pack_option (DistributionPlanDomainScopeV2 _ _ option _) = option"
| "plan_scope_material_pack_option UnscopedPlanDomainScopeV2 = None"

definition finalize_plan_spec_unit_v2 ::
  "business_scope_authority \<Rightarrow> policy_authority_core \<Rightarrow> plan_unit \<Rightarrow> execution_unit result" where
  "finalize_plan_spec_unit_v2 authority policy u =
     res_bind (single_unit_evidence_query u) (\<lambda>query.
       if pu_selected_capability_id u \<in> {''weekly_report.product_list'', ''monthly_report.product_list''}
          \<and> (case query of None \<Rightarrow> False | Some q \<Rightarrow> py_strip q \<noteq> [])
       then Inl (ValueError ''product_list_evidence_query_forbidden'')
       else finalize_execution_unit_v2
         \<lparr>du_unit_id = pu_unit_id u, du_manifest_id = pu_selected_capability_id u,
          du_answerability = pu_answerability u,
          du_material_pack_option = plan_scope_material_pack_option (pu_domain_scope u),
          du_evidence_query = query,
          du_ambiguity_slots = supported_clarification_slots (pu_risk_flags u @ pu_abstention_cases u),
          du_risk_flags = rationale_flags (pu_risk_flags u)\<rparr>
         (Some (pu_domain_scope u)) authority policy)"

definition finalize_deterministic_unit_v2 ::
  "business_scope_authority \<Rightarrow> policy_authority_core \<Rightarrow> deterministic_unit \<Rightarrow> execution_unit result" where
  "finalize_deterministic_unit_v2 authority policy u = finalize_execution_unit_v2 u None authority policy"

section \<open>The plan\<close>

record deterministic_input =
  di_user_need :: pystr
  di_units :: "deterministic_unit list"
  di_compliance_reason_code :: compliance_reason
  di_guardrail_decisions :: "guardrail_decision list"
  di_confidence :: rat

datatype plan_source = FromPlanSpec plan_spec | FromDeterministic deterministic_input

text \<open>What the two branches of \<open>finalize_execution_plan_v2\<close> compute from their source.\<close>

record plan_parts =
  pp_units :: "execution_unit list"
  pp_response_mode :: response_mode
  pp_reason_code :: compliance_reason
  pp_guardrails :: "guardrail_decision list"
  pp_plan_spec :: "plan_spec option"
  pp_confidence :: rat
  pp_user_need :: pystr
  pp_artifact_units :: "plan_unit list"

fun source_parts ::
  "business_scope_authority \<Rightarrow> policy_authority_core \<Rightarrow> rat option \<Rightarrow> plan_source \<Rightarrow> plan_parts result" where
  "source_parts authority policy confidence (FromPlanSpec s) =
     res_bind (map_res (finalize_plan_spec_unit_v2 authority policy) (spec_plan_units s)) (\<lambda>units. Inr
       \<lparr>pp_units = units,
        pp_response_mode = response_mode_for_answerability_policies (map pu_answerability (spec_plan_units s)),
        pp_reason_code = compliance_reason_code_for_plan_spec s, pp_guardrails = [], pp_plan_spec = Some s,
        pp_confidence = (case confidence of None \<Rightarrow> 0 | Some c \<Rightarrow> c),
        pp_user_need = spec_user_intent_summary s, pp_artifact_units = spec_plan_units s\<rparr>)"
| "source_parts authority policy confidence (FromDeterministic d) =
     res_bind (map_res (finalize_deterministic_unit_v2 authority policy) (di_units d)) (\<lambda>units. Inr
       \<lparr>pp_units = units,
        pp_response_mode = response_mode_for_answerability_policies (map du_answerability (di_units d)),
        pp_reason_code = di_compliance_reason_code d, pp_guardrails = di_guardrail_decisions d,
        pp_plan_spec = None, pp_confidence = (case confidence of None \<Rightarrow> di_confidence d | Some c \<Rightarrow> c),
        pp_user_need = di_user_need d, pp_artifact_units = []\<rparr>)"

definition finalize_execution_plan_v2 ::
  "(pybytes \<Rightarrow> pystr) \<Rightarrow> (rat \<Rightarrow> pystr) \<Rightarrow> plan_source \<Rightarrow> policy_manifest \<Rightarrow> business_scope_authority
   \<Rightarrow> plan_origin \<Rightarrow> rat option \<Rightarrow> execution_plan result" where
  "finalize_execution_plan_v2 sha float_text source policy authority origin confidence =
     (if (origin = Origin_planner) \<noteq> (case source of FromPlanSpec _ \<Rightarrow> True | _ \<Rightarrow> False)
      then Inl (ValueError ''execution_plan_v2_origin_source_mismatch'')
      else res_bind (source_parts authority (pm_core policy) confidence source) (\<lambda>p.
        res_bind (artifact_kind_for_execution_units (pp_units p) (pp_artifact_units p) (pp_response_mode p)) (\<lambda>kind.
          let draft = \<lparr>ep_id = ''epl1:'' @ replicate 64 CHR ''0'', ep_origin = origin, ep_user_need = pp_user_need p,
                ep_artifact_kind = kind, ep_response_mode = pp_response_mode p,
                ep_compliance = \<lparr>cd_is_compliant = Some (pp_response_mode p \<noteq> Mode_refusal),
                                 cd_reason_code = pp_reason_code p, cd_reason = []\<rparr>,
                ep_units = pp_units p, ep_selected_manifest_refs = selected_manifest_refs (pp_units p),
                ep_adapter_resolves = unique_resolves (concat (map eu_adapter_resolves (pp_units p))),
                ep_action_intents = concat (map eu_action_intents (pp_units p)),
                ep_guardrail_decisions = pp_guardrails p, ep_confidence = pp_confidence p,
                ep_plan_spec = pp_plan_spec p\<rparr>
          in check_execution_plan sha float_text
               (draft\<lparr>ep_id := execution_plan_id_v2 sha float_text draft\<rparr>))))"

end
