(* ===== verification/Plan_Shortcuts.thy ===== *)
theory Plan_Shortcuts
  imports Plan_Compiler
begin

text \<open>
  The plans that need no planner: \<open>runtime/planning/input_policy.py\<close>, \<open>direct_send.py\<close> and
  \<open>message_normalization.py\<close>.

  \<open>nfkc\<close> stands for \<open>unicodedata.normalize("NFKC", s)\<close>. The send commands and the reply texts are
  Chinese, outside the code points of \<open>pystr\<close>: \<open>fullmatch\<close> stands for the match of a command's
  pattern, and the texts are fields of a rule or arguments. Everything the code does with the outcome
  of a match is modelled.
\<close>

definition normalize_compact_message :: "(pystr \<Rightarrow> pystr) \<Rightarrow> pystr \<Rightarrow> pystr" where
  "normalize_compact_message nfkc message =
     (let punctuation = \<lambda>c. c \<in> set '' ,.!?~;'';
          compact = filter (\<lambda>c. \<not> py_space c) (nfkc message)
      in rev (dropWhile punctuation (rev (dropWhile punctuation compact))))"

section \<open>Input policy\<close>

record input_policy_rule =
  ipr_rule_id :: pystr
  ipr_reason_code :: pystr
  ipr_contains :: "pystr list"
  ipr_user_need :: pystr
  ipr_handoff_text :: pystr
  ipr_handoff_unavailable_text :: pystr
  ipr_human_reason :: pystr

definition default_input_policy_rules :: "pystr \<Rightarrow> pystr \<Rightarrow> input_policy_rule list" where
  "default_input_policy_rules handoff_text unavailable_text =
     [\<lparr>ipr_rule_id = ''t0_handoff'', ipr_reason_code = ''t0_human_support_required'', ipr_contains = [''t0''],
       ipr_user_need = ''T0 request requires human support'', ipr_handoff_text = handoff_text,
       ipr_handoff_unavailable_text = unavailable_text,
       ipr_human_reason = ''T0 request requires human support.''\<rparr>]"

definition compact_policy_text :: "pystr \<Rightarrow> pystr" where
  "compact_policy_text v = filter (\<lambda>c. c \<noteq> CHR ''+'') (py_lower v)"

definition rule_matches :: "input_policy_rule \<Rightarrow> pystr \<Rightarrow> bool" where
  "rule_matches rule normalized =
     list_ex (\<lambda>trigger. py_in (compact_policy_text trigger) (compact_policy_text normalized)) (ipr_contains rule)"

datatype input_policy_result =
    Input_no_match pystr
  | Input_guardrail_handoff execution_plan pystr pystr

definition has_sales_handoff :: "policy_authority_core \<Rightarrow> bool" where
  "has_sales_handoff policy =
     (Sales_handoff \<in> set (map mr_id (pac_eligible policy)) \<and> sales_fallback_is_allowed policy)"

definition handoff_manifest :: "policy_authority_core \<Rightarrow> capability_manifest_id" where
  "handoff_manifest policy =
     (if pac_scene policy = SceneDirect then General_handoff
      else if has_sales_handoff policy then Sales_handoff else General_abstention)"

definition handoff_result ::
  "(pybytes \<Rightarrow> pystr) \<Rightarrow> (rat \<Rightarrow> pystr) \<Rightarrow> pystr \<Rightarrow> input_policy_rule \<Rightarrow> policy_manifest \<Rightarrow> business_scope_authority
   \<Rightarrow> input_policy_result result" where
  "handoff_result sha float_text direct_text rule policy authority =
     (let core = pm_core policy;
          manifest = handoff_manifest core;
          text = (if pac_scene core = SceneDirect then direct_text
                  else if has_sales_handoff core then ipr_handoff_text rule else ipr_handoff_unavailable_text rule)
      in res_bind (make_decision Guard_block Phase_input (ipr_reason_code rule) (ipr_human_reason rule)
            [(''handoff_text'', JStr text),
             (''handoff_unavailable_text'', JStr (ipr_handoff_unavailable_text rule))]) (\<lambda>decision.
         res_bind (finalize_execution_plan_v2 sha float_text
            (FromDeterministic
              \<lparr>di_user_need = ipr_user_need rule,
               di_units = [\<lparr>du_unit_id = ''input-policy-'' @ ipr_rule_id rule, du_manifest_id = manifest_id_str manifest,
                 du_answerability = (if manifest \<noteq> General_abstention then Ans_handoff else Ans_abstain),
                 du_material_pack_option = None, du_evidence_query = None, du_ambiguity_slots = [],
                 du_risk_flags = []\<rparr>],
               di_compliance_reason_code = Reason_customer_service_request,
               di_guardrail_decisions = [decision], di_confidence = 1\<rparr>)
            policy authority Origin_input_policy None) (\<lambda>plan.
           Inr (Input_guardrail_handoff plan (ipr_reason_code rule) (ipr_rule_id rule)))))"

definition match_input_policy ::
  "(pybytes \<Rightarrow> pystr) \<Rightarrow> (rat \<Rightarrow> pystr) \<Rightarrow> (pystr \<Rightarrow> pystr) \<Rightarrow> pystr \<Rightarrow> input_policy_rule list
   \<Rightarrow> kernel_reply_request \<Rightarrow> policy_manifest \<Rightarrow> business_scope_authority \<Rightarrow> input_policy_result result" where
  "match_input_policy sha float_text nfkc direct_text rules request policy authority =
     (let normalized = normalize_compact_message nfkc (kr_message request) in
      if normalized = [] then Inr (Input_no_match ''empty_message'')
      else case find (\<lambda>rule. rule_matches rule normalized) rules of
        None \<Rightarrow> Inr (Input_no_match ''no_match'')
      | Some rule \<Rightarrow> handoff_result sha float_text direct_text rule policy authority)"

section \<open>Direct send commands\<close>

record artifact_command =
  ac_capability :: capability_name
  ac_action_type :: outbound_action_type
  ac_user_need :: pystr

definition artifact_commands :: "artifact_command list" where
  "artifact_commands =
     [\<lparr>ac_capability = Cap_weekly_report, ac_action_type = Out_weekly_report,
       ac_user_need = ''direct send weekly report command''\<rparr>,
      \<lparr>ac_capability = Cap_monthly_report, ac_action_type = Out_monthly_report,
       ac_user_need = ''direct send monthly report command''\<rparr>,
      \<lparr>ac_capability = Cap_material_pack, ac_action_type = Out_material_pack,
       ac_user_need = ''direct send material pack command''\<rparr>]"

text \<open>\<open>artifact_kind\<close>, \<open>capability\<close> and \<open>resolve_type\<close> of a command are the same string.\<close>

abbreviation command_name :: "artifact_command \<Rightarrow> pystr" where
  "command_name c \<equiv> capability_name_str (ac_capability c)"

datatype direct_send_result =
    Send_no_match pystr pystr
  | Send_direct_action execution_plan pystr
  | Send_needs_material_pack_option execution_plan pystr

definition command_metadata :: "artifact_command \<Rightarrow> (pystr \<times> json) list" where
  "command_metadata c =
     [(''action_type'', JStr (outbound_action_str (ac_action_type c))),
      (''artifact_kind'', JStr (command_name c)), (''pattern_id'', JStr (''direct_send.'' @ command_name c))]"

definition one_unit_input ::
  "pystr \<Rightarrow> deterministic_unit \<Rightarrow> guardrail_decision \<Rightarrow> deterministic_input" where
  "one_unit_input need unit decision =
     \<lparr>di_user_need = need, di_units = [unit], di_compliance_reason_code = Reason_compliant_product_request,
      di_guardrail_decisions = [decision], di_confidence = 1\<rparr>"

definition action_plan ::
  "(pybytes \<Rightarrow> pystr) \<Rightarrow> (rat \<Rightarrow> pystr) \<Rightarrow> artifact_command \<Rightarrow> policy_manifest \<Rightarrow> business_scope_authority
   \<Rightarrow> execution_plan result" where
  "action_plan sha float_text c policy authority =
     res_bind (make_decision Guard_allow Phase_input ''direct_send_command_matched'' [] (command_metadata c)) (\<lambda>decision.
       finalize_execution_plan_v2 sha float_text
         (FromDeterministic (one_unit_input (ac_user_need c)
            \<lparr>du_unit_id = ''direct-send-'' @ command_name c, du_manifest_id = command_name c @ ''.send'',
             du_answerability = Ans_send, du_material_pack_option = None, du_evidence_query = None,
             du_ambiguity_slots = [], du_risk_flags = []\<rparr> decision))
         policy authority Origin_direct_send None)"

definition confirmation_plan ::
  "(pybytes \<Rightarrow> pystr) \<Rightarrow> (rat \<Rightarrow> pystr) \<Rightarrow> artifact_command \<Rightarrow> policy_manifest \<Rightarrow> business_scope_authority
   \<Rightarrow> execution_plan result" where
  "confirmation_plan sha float_text c policy authority =
     res_bind (make_decision Guard_require_confirmation Phase_input ''material_pack_option_confirmation_required'' []
         ((''material_pack_option_count'', JInt (int (length (pac_material_options (pm_core policy))))) # command_metadata c))
       (\<lambda>decision. finalize_execution_plan_v2 sha float_text
         (FromDeterministic (one_unit_input ''confirm material pack option before direct send''
            \<lparr>du_unit_id = ''direct-send-material-pack-confirmation'',
             du_manifest_id = ''general.clarification'', du_answerability = Ans_clarify,
             du_material_pack_option = None, du_evidence_query = None,
             du_ambiguity_slots = [''material_pack_option''], du_risk_flags = []\<rparr> decision))
         policy authority Origin_direct_send None)"

definition match_direct_send_command ::
  "(pybytes \<Rightarrow> pystr) \<Rightarrow> (rat \<Rightarrow> pystr) \<Rightarrow> (pystr \<Rightarrow> pystr) \<Rightarrow> (artifact_command \<Rightarrow> pystr \<Rightarrow> bool)
   \<Rightarrow> kernel_reply_request \<Rightarrow> policy_manifest \<Rightarrow> business_scope_authority \<Rightarrow> direct_send_result result" where
  "match_direct_send_command sha float_text nfkc fullmatch request policy authority =
     (let normalized = normalize_compact_message nfkc (kr_message request) in
      if normalized = [] then Inr (Send_no_match ''empty_message'' [])
      else case find (\<lambda>c. fullmatch c normalized) artifact_commands of
        None \<Rightarrow> Inr (Send_no_match ''no_match'' [])
      | Some c \<Rightarrow>
          let pattern_id = ''direct_send.'' @ command_name c in
          if ac_action_type c \<notin> set (pac_outbound (pm_core policy))
          then Inr (Send_no_match ''action_not_allowed_by_policy'' pattern_id)
          else if ac_action_type c = Out_material_pack \<and> pac_material_options (pm_core policy) \<noteq> []
          then res_bind (confirmation_plan sha float_text c policy authority)
                 (\<lambda>plan. Inr (Send_needs_material_pack_option plan pattern_id))
          else res_bind (action_plan sha float_text c policy authority)
                 (\<lambda>plan. Inr (Send_direct_action plan pattern_id)))"

end
