(* ===== verification/Policy_Theorems.thy ===== *)
theory Policy_Theorems
  imports Policy_Compiler Schema_Theorems
begin

text \<open>
  The compiled policy: compilation succeeds for every request that validation lets through, grants
  nothing the request does not, is a fixed ceiling for a direct conversation, and its state admission
  hash stands for the authority core alone.

  \<open>sha_hex\<close> is what the code relies on of SHA-256's \<open>hexdigest\<close>: 64 lower-case hexadecimal digits.
\<close>

definition sha_hex :: "(pybytes \<Rightarrow> pystr) \<Rightarrow> bool" where
  "sha_hex sha = (\<forall>b. length (sha b) = 64 \<and> list_all is_lower_hex (sha b))"

section \<open>Canonical lists\<close>

lemma set_sorted_set [simp]: "set (sorted_set str xs) = set xs"
  by (simp add: sorted_set_def)

lemma distinct_sorted_set [simp]: "distinct (sorted_set str xs)"
  by (simp add: sorted_set_def)

lemma sorted_sorted_set [simp]: "sorted (map str (sorted_set str xs))"
  by (simp add: sorted_set_def)

lemma sorted_set_id: "distinct xs \<Longrightarrow> sorted (map str xs) \<Longrightarrow> sorted_set str xs = xs"
  by (simp add: sorted_set_def sort_key_id_if_sorted distinct_remdups_id)

lemma sorted_set_idem [simp]: "sorted_set str (sorted_set str xs) = sorted_set str xs"
  by (simp add: sorted_set_id)

lemma sorted_set_filter [simp]: "sorted_set str (filter P (sorted_set str xs)) = filter P (sorted_set str xs)"
  by (simp add: sorted_set_id sorted_filter)

lemma sorted_set_empty [simp]: "sorted_set str [] = []"
  by (simp add: sorted_set_def)

lemma sorted_set_Nil_iff [simp]: "sorted_set str xs = [] \<longleftrightarrow> xs = []"
  by (metis set_empty set_sorted_set)

lemma length_sorted_set: "set xs \<subseteq> set all \<Longrightarrow> length (sorted_set str xs) \<le> length all"
  by (metis List.finite_set card_length card_mono distinct_card distinct_sorted_set le_trans set_sorted_set)

lemma filter_eq_distinct: "distinct xs \<Longrightarrow> filter (\<lambda>c. c = a) xs = (if a \<in> set xs then [a] else [])"
  by (induction xs) (auto simp: filter_empty_conv)

section \<open>Digests\<close>

lemma sha256_frame_hex:
  "sha_hex sha \<Longrightarrow> prefixed_hex (prefix @ '':'') 64 (sha256_frame sha tag v prefix)"
  by (simp add: sha_hex_def sha256_frame_def prefixed_hex_def startswith_iff)

lemmas frame_hex = sha256_frame_hex [where prefix = "''grh1''", simplified]
  sha256_frame_hex [where prefix = "''bsh1''", simplified]
  sha256_frame_hex [where prefix = "''par1''", simplified]
  sha256_frame_hex [where prefix = "''pol1''", simplified]

lemma scope_authority_built:
  assumes "sha_hex sha"
  shows "business_scope_authority_v1 sha scope = Inr
     \<lparr>bsa_scope = scope, bsa_hash = business_scope_hash_v1 sha scope,
      bsa_ref = ''bsr:'' @ take 32 (drop 5 (business_scope_hash_v1 sha scope))\<rparr>"
proof -
  let ?d = "sha (''business-scope.v1'' @ [CHR 0x00] @ canonical_json_bytes (scope_json scope))"
  have d: "length ?d = 64" "list_all is_lower_hex ?d" using assms by (auto simp: sha_hex_def)
  have h: "business_scope_hash_v1 sha scope = ''bsh1:'' @ ?d"
    by (simp add: business_scope_hash_v1_def sha256_frame_def)
  have "list_all is_lower_hex (take 32 ?d)" using d(2) by (auto simp: list_all_iff dest: in_set_takeD)
  with d show ?thesis
    by (simp add: business_scope_authority_v1_def h business_scope_ref_from_hash_def py_partition_def
        check_business_scope_authority_def prefixed_hex_def startswith_iff Let_def)
qed

section \<open>Compilation\<close>

lemma read_capability_all: "c \<in> set [Resolve_material_pack, Resolve_weekly_report, Resolve_monthly_report,
    Resolve_sales_mention, Query_internal_company_info, Query_weekly_report_product_list,
    Query_monthly_report_product_list]"
  by (cases c) simp_all

lemma outbound_action_all: "a \<in> set [Out_material_pack, Out_weekly_report, Out_monthly_report]"
  by (cases a) simp_all

lemma mention_type_all: "m \<in> set [Mention_sales]"
  by (cases m) simp_all

lemma response_mode_all: "m \<in> set [Mode_action, Mode_clarification, Mode_handoff, Mode_refusal,
    Mode_unable, Mode_knowledge_answer, Mode_smalltalk, Mode_no_reply]"
  by (cases m) simp_all

lemma adapter_resolve_all: "a \<in> set [Ar_material_pack, Ar_weekly_report, Ar_monthly_report, Ar_sales_mention]"
  by (cases a) simp_all

lemma enum_bounds:
  "length (sorted_set f rs) \<le> 7" "length (sorted_set g os) \<le> 3" "length (sorted_set h ms) \<le> 1"
  "length (sorted_set i ns) \<le> 8" "length (sorted_set j as) \<le> 4"
  for rs :: "read_capability list" and os :: "outbound_action_type list" and ms :: "mention_type list"
    and ns :: "response_mode list" and as :: "adapter_resolve_type list"
  using length_sorted_set [OF subsetI [OF read_capability_all], where xs = rs and str = f]
    length_sorted_set [OF subsetI [OF outbound_action_all], where xs = os and str = g]
    length_sorted_set [OF subsetI [OF mention_type_all], where xs = ms and str = h]
    length_sorted_set [OF subsetI [OF response_mode_all], where xs = ns and str = i]
    length_sorted_set [OF subsetI [OF adapter_resolve_all], where xs = as and str = j]
  by simp_all

lemma eligible_refs_bounds:
  "eligible_manifest_refs r scene k \<noteq> []" "length (eligible_manifest_refs r scene k) \<le> 32"
  "distinct (map mr_id (eligible_manifest_refs r scene k))"
proof -
  have "manifest_eligible r scene k General_clarification"
    by (simp add: manifest_eligible_def artifact_is_missing_def)
  then have "General_clarification \<in> set (filter (manifest_eligible r scene k) registry_list)"
    by (simp add: registry_list_def)
  then show "eligible_manifest_refs r scene k \<noteq> []"
    by (metis eligible_manifest_refs_def list.map_disc_iff empty_iff empty_set)
  have "length (filter (manifest_eligible r scene k) registry_list) \<le> length registry_list"
    by (rule length_filter_le)
  then show "length (eligible_manifest_refs r scene k) \<le> 32"
    by (simp add: eligible_manifest_refs_def registry_list_def)
  have "distinct registry_list" by (simp add: registry_list_def)
  then show "distinct (map mr_id (eligible_manifest_refs r scene k))"
    by (simp add: eligible_manifest_refs_def comp_def)
qed

lemma eligible_requirements:
  assumes "ManifestRefV1 i \<in> set (eligible_manifest_refs r scene k)"
  shows "manifest_read_requirements i = Some c \<Longrightarrow> c \<in> set (read_capabilities (kr_grants r))"
    and "manifest_action_requirements i = Some a \<Longrightarrow> a \<in> set (outbound_actions (kr_grants r))"
    and "i = Answer_internal_company_knowledge \<Longrightarrow> k"
  using assms
  by (auto simp: eligible_manifest_refs_def manifest_eligible_def Let_def split: if_splits)

lemma direct_manifest_eligible:
  assumes "Query_internal_company_info \<in> set (read_capabilities (kr_grants r)) \<longleftrightarrow> k"
  shows "manifest_eligible r SceneDirect k i \<longleftrightarrow>
    i \<in> {General_clarification, General_abstention, General_refusal, General_smalltalk, General_no_reply, General_handoff}
    \<or> (i = Answer_internal_company_knowledge \<and> k)"
  using assms by (cases i) (simp_all add: manifest_eligible_def artifact_is_missing_def)

lemma direct_eligible:
  assumes "Query_internal_company_info \<in> set (read_capabilities (kr_grants r)) \<longleftrightarrow> k"
  shows "eligible_manifest_refs r SceneDirect k =
    (if k then direct_knowledge_manifest_refs else direct_general_manifest_refs)"
  using direct_manifest_eligible [of r True] direct_manifest_eligible [of r False] assms
  by (cases k) (simp_all add: eligible_manifest_refs_def registry_list_def
      direct_general_manifest_refs_def direct_knowledge_manifest_refs_def)

lemma direct_manifest_requirements:
  assumes "manifest_eligible r SceneDirect k i"
  shows "manifest_read_requirements i = Some c \<Longrightarrow> c = Query_internal_company_info \<and> k"
    and "manifest_action_requirements i = None"
  using assms by (cases i; auto simp: manifest_eligible_def split: if_splits)+

lemma direct_modes:
  "policy_reply_modes direct_knowledge_manifest_refs = direct_knowledge_reply_modes"
  "policy_reply_modes direct_general_manifest_refs = direct_general_reply_modes"
  by code_simp+

text \<open>What the compiler computes before the core is checked, and why the check passes.\<close>

definition compiled_core ::
  "(pybytes \<Rightarrow> pystr) \<Rightarrow> kernel_reply_request \<Rightarrow> scene \<Rightarrow> recall_mode \<Rightarrow> policy_authority_core" where
  "compiled_core sha r scene mode =
     (let reads = policy_reads r scene;
          knowledge = (Query_internal_company_info \<in> set reads);
          refs = eligible_manifest_refs r scene knowledge;
          actions = (if scene = SceneDirect then [] else sorted_set outbound_action_str (outbound_actions (kr_grants r)));
          mentions = (if scene = SceneDirect then [] else sorted_set mention_type_str (mention_types (kr_grants r)));
          resolves = allowed_resolves refs scene
      in \<lparr>pac_scene = scene, pac_reply_modes = policy_reply_modes refs, pac_eligible = refs,
          pac_reads = reads, pac_outbound = actions, pac_mentions = mentions, pac_resolves = resolves,
          pac_internal_knowledge = knowledge,
          pac_recall_mode = (if scene = SceneDirect then Recall_off else mode),
          pac_call_limit = min (int (length resolves)) 16,
          pac_actions_allowed = (actions \<noteq> []), pac_mentions_allowed = (mentions \<noteq> []),
          pac_material_options = canonical_material_options r,
          pac_grants_hash = effective_grants_hash_v1 sha r,
          pac_scope_hash = business_scope_hash_v1 sha (kr_business_scope r)\<rparr>)"

definition kernel_scene :: "kernel_reply_request \<Rightarrow> scene" where
  "kernel_scene r = (if kernel_scene_is_group r then SceneGroup else SceneDirect)"

lemma policy_reads_canonical [simp]:
  "sorted_set read_capability_str (policy_reads r scene) = policy_reads r scene"
  by (simp add: policy_reads_def Let_def)

lemma policy_reads_bound: "length (policy_reads r scene) \<le> 7"
  using enum_bounds(1) [of read_capability_str "policy_reads r scene"] by simp

lemma policy_modes_ok:
  "sorted_set response_mode_str (policy_reply_modes refs) = policy_reply_modes refs"
  "1 \<le> length (policy_reply_modes refs)" "length (policy_reply_modes refs) \<le> 8"
proof -
  have "policy_reply_modes refs \<noteq> []" by (simp add: policy_reply_modes_def Let_def)
  then show "1 \<le> length (policy_reply_modes refs)" by (simp add: Suc_le_eq)
  show "length (policy_reply_modes refs) \<le> 8" by (simp add: policy_reply_modes_def Let_def enum_bounds)
qed (simp add: policy_reply_modes_def Let_def)

lemma allowed_resolves_ok:
  "sorted_set adapter_resolve_str (allowed_resolves refs scene) = allowed_resolves refs scene"
  "length (allowed_resolves refs scene) \<le> 4"
  by (simp_all add: allowed_resolves_def enum_bounds)

lemma direct_reads:
  assumes "kr_business_scope r = UnscopedScopeV1"
  shows "policy_reads r SceneDirect =
    (if Query_internal_company_info \<in> set (read_capabilities (kr_grants r)) then [Query_internal_company_info] else [])"
  using assms by (simp add: policy_reads_def filter_eq_distinct)

lemma direct_core_allowed:
  assumes "kr_business_scope r = UnscopedScopeV1"
  shows "validate_direct_policy_authority sha (compiled_core sha r SceneDirect mode) = Inr ()"
proof -
  let ?k = "Query_internal_company_info \<in> set (read_capabilities (kr_grants r))"
  have "eligible_manifest_refs r SceneDirect ?k =
      (if ?k then direct_knowledge_manifest_refs else direct_general_manifest_refs)"
    by (rule direct_eligible) simp
  with assms show ?thesis
    by (simp add: validate_direct_policy_authority_def compiled_core_def Let_def direct_reads allowed_resolves_def
        direct_modes canonical_material_options_def kernel_available_artifacts_def)
qed

lemma compiled_core_checked:
  assumes "sha_hex sha" "scene = SceneDirect \<Longrightarrow> kr_business_scope r = UnscopedScopeV1"
  shows "check_policy_authority_core sha (compiled_core sha r scene mode) = Inr (compiled_core sha r scene mode)"
proof -
  let ?c = "compiled_core sha r scene mode"
  have "core_fields_ok ?c"
    using frame_hex(1,2) [OF assms(1)] policy_modes_ok policy_reads_bound [of r scene] enum_bounds
      eligible_refs_bounds(1,2) [of r scene] allowed_resolves_ok(2)
    by (auto simp: core_fields_ok_def compiled_core_def Let_def effective_grants_hash_v1_def business_scope_hash_v1_def
        Suc_le_eq intro: order_trans)
  then show ?thesis
    using direct_core_allowed [OF assms(2), of sha mode] eligible_refs_bounds(3)
    by (auto simp: check_policy_authority_core_def compiled_core_def Let_def policy_modes_ok allowed_resolves_ok)
qed

lemma compile_core_eq:
  assumes "sha_hex sha" "kernel_scene_is_group r \<or> kr_business_scope r = UnscopedScopeV1"
    and "business_scope_authority_v1 sha (kr_business_scope r) = Inr auth" "parse_recall_mode m = Some mode"
  shows "compile_policy_authority_core_v1 sha r auth m = Inr (compiled_core sha r (kernel_scene r) mode)"
proof -
  from assms(1,3) have auth: "bsa_scope auth = kr_business_scope r"
    "bsa_hash auth = business_scope_hash_v1 sha (kr_business_scope r)"
    by (auto simp: scope_authority_built)
  have "check_policy_authority_core sha (compiled_core sha r (kernel_scene r) mode)
      = Inr (compiled_core sha r (kernel_scene r) mode)"
    using assms(1,2) by (intro compiled_core_checked) (auto simp: kernel_scene_def split: if_splits)
  then show ?thesis
    unfolding compile_policy_authority_core_v1_def compiled_core_def kernel_scene_def
    by (simp add: auth assms(4) Let_def del: parse_recall_mode.simps)
qed

text \<open>C20 For a request whose scene and scope agree, compilation succeeds, and the core it returns grants
  nothing beyond the request: read, send and mention capabilities are granted ones, every eligible
  manifest has its requirements among them, and an adapter lookup is one an eligible manifest needs.\<close>

theorem policy_compiles_within_grants:
  assumes "sha_hex sha" and "kernel_scene_is_group r \<or> kr_business_scope r = UnscopedScopeV1"
    and "business_scope_authority_v1 sha (kr_business_scope r) = Inr auth"
    and "parse_recall_mode m \<noteq> None"
  shows "case compile_policy_authority_core_v1 sha r auth m of Inl _ \<Rightarrow> False | Inr core \<Rightarrow>
      set (pac_reads core) \<subseteq> set (read_capabilities (kr_grants r))
      \<and> set (pac_outbound core) \<subseteq> set (outbound_actions (kr_grants r))
      \<and> set (pac_mentions core) \<subseteq> set (mention_types (kr_grants r))
      \<and> (\<forall>ref\<in>set (pac_eligible core).
           (\<forall>c. manifest_read_requirements (mr_id ref) = Some c \<longrightarrow> c \<in> set (pac_reads core))
           \<and> (\<forall>a. manifest_action_requirements (mr_id ref) = Some a \<longrightarrow> a \<in> set (pac_outbound core)))
      \<and> (\<forall>x\<in>set (pac_resolves core). \<exists>ref\<in>set (pac_eligible core). manifest_resolve_requirements (mr_id ref) = Some x)"
proof -
  from assms(4) obtain mode where mode: "parse_recall_mode m = Some mode" by blast
  let ?scene = "kernel_scene r" and ?core = "compiled_core sha r (kernel_scene r) mode"
  have reads: "set (policy_reads r ?scene) \<subseteq> set (read_capabilities (kr_grants r))"
    by (auto simp: policy_reads_def Let_def)
  have direct: "kr_business_scope r = UnscopedScopeV1" if "?scene = SceneDirect"
    using assms(2) that by (auto simp: kernel_scene_def split: if_splits)
  let ?k = "Query_internal_company_info \<in> set (policy_reads r ?scene)"
  have elig: "manifest_eligible r ?scene ?k (mr_id ref)" if "ref \<in> set (eligible_manifest_refs r ?scene ?k)" for ref
    using that by (auto simp: eligible_manifest_refs_def)
  have read: "c \<in> set (policy_reads r ?scene)"
    if "ref \<in> set (eligible_manifest_refs r ?scene ?k)" "manifest_read_requirements (mr_id ref) = Some c" for ref c
  proof (cases "?scene")
    case SceneGroup
    with that eligible_requirements(1) [of "mr_id ref" r ?scene ?k c] show ?thesis
      by (simp add: policy_reads_def Let_def)
  next
    case SceneDirect
    with direct_manifest_requirements(1) [of r ?k "mr_id ref" c] elig [OF that(1)] that(2) show ?thesis by simp
  qed
  have act: "a \<in> set (pac_outbound ?core)"
    if "ref \<in> set (eligible_manifest_refs r ?scene ?k)" "manifest_action_requirements (mr_id ref) = Some a" for ref a
  proof (cases "?scene")
    case SceneGroup
    with that eligible_requirements(2) [of "mr_id ref" r ?scene ?k a] show ?thesis
      by (simp add: compiled_core_def Let_def)
  next
    case SceneDirect
    with direct_manifest_requirements(2) [of r ?k "mr_id ref"] elig [OF that(1)] that(2) show ?thesis by simp
  qed
  show ?thesis
    unfolding compile_core_eq [OF assms(1-3) mode] sum.case
    using reads read act
    by (auto simp: compiled_core_def Let_def allowed_resolves_def set_map_filter split: if_splits)
qed

definition direct_ceiling :: "bool \<Rightarrow> pystr \<Rightarrow> pystr \<Rightarrow> policy_authority_core" where
  "direct_ceiling knowledge grants_hash scope_hash =
     \<lparr>pac_scene = SceneDirect,
      pac_reply_modes = (if knowledge then direct_knowledge_reply_modes else direct_general_reply_modes),
      pac_eligible = (if knowledge then direct_knowledge_manifest_refs else direct_general_manifest_refs),
      pac_reads = (if knowledge then [Query_internal_company_info] else []),
      pac_outbound = [], pac_mentions = [], pac_resolves = [], pac_internal_knowledge = knowledge,
      pac_recall_mode = Recall_off, pac_call_limit = 0, pac_actions_allowed = False,
      pac_mentions_allowed = False, pac_material_options = [],
      pac_grants_hash = grants_hash, pac_scope_hash = scope_hash\<rparr>"

text \<open>C21 The core compiled for a direct request is one of two fixed ceilings, chosen by the internal
  knowledge grant alone, whatever else the request grants and whatever the recall mode is.\<close>

theorem direct_policy_is_ceiling:
  assumes "sha_hex sha" and "\<not> kernel_scene_is_group r" and "kr_business_scope r = UnscopedScopeV1"
    and "business_scope_authority_v1 sha UnscopedScopeV1 = Inr auth" and "parse_recall_mode m \<noteq> None"
  shows "compile_policy_authority_core_v1 sha r auth m = Inr (direct_ceiling
      (Query_internal_company_info \<in> set (read_capabilities (kr_grants r)))
      (effective_grants_hash_v1 sha r) (business_scope_hash_v1 sha UnscopedScopeV1))"
proof -
  from assms(5) obtain mode where mode: "parse_recall_mode m = Some mode" by blast
  have scene: "kernel_scene r = SceneDirect" using assms(2) by (simp add: kernel_scene_def)
  have eq: "compile_policy_authority_core_v1 sha r auth m = Inr (compiled_core sha r (kernel_scene r) mode)"
    using assms mode by (intro compile_core_eq) simp_all
  let ?k = "Query_internal_company_info \<in> set (read_capabilities (kr_grants r))"
  have "eligible_manifest_refs r SceneDirect ?k =
      (if ?k then direct_knowledge_manifest_refs else direct_general_manifest_refs)"
    by (rule direct_eligible) simp
  then show ?thesis
    unfolding eq scene using assms(3)
    by (simp add: compiled_core_def direct_ceiling_def Let_def direct_reads allowed_resolves_def direct_modes
        canonical_material_options_def kernel_available_artifacts_def)
qed

section \<open>The manifest and the admission hash\<close>

lemma from_core_spec:
  assumes "sha_hex sha" and "check_policy_authority_core sha core = Inr core"
    and "check_policy_ledger_summary ledger = Inr ledger"
  shows "case from_core sha core ledger of
      Inl e \<Rightarrow> pac_scene core = SceneDirect \<and> (pls_executed_count ledger > 0 \<or> pls_artifact_types ledger \<noteq> [])
    | Inr m \<Rightarrow> pm_core m = core \<and> pm_ledger_summary m = ledger
        \<and> pm_state_admission_hash m = state_admission_hash_v1 sha core
        \<and> pm_policy_id m = policy_manifest_id_v2 sha m
        \<and> (pac_scene core = SceneDirect \<longrightarrow> pls_executed_count ledger = 0 \<and> pls_artifact_types ledger = [])"
proof -
  let ?draft = "\<lparr>pm_policy_id = ''pol1:'' @ replicate 64 CHR ''0'', pm_core = core,
      pm_ledger_summary = ledger, pm_state_admission_hash = state_admission_hash_v1 sha core\<rparr>"
  have same: "policy_manifest_id_v2 sha (?draft\<lparr>pm_policy_id := i\<rparr>) = policy_manifest_id_v2 sha ?draft" for i
    by (simp add: policy_manifest_id_v2_def policy_manifest_json_def)
  have ledger: "0 \<le> pls_executed_count ledger" "pls_has_executed ledger \<longleftrightarrow> pls_executed_count ledger > 0"
    using assms(3) by (auto simp: check_policy_ledger_summary_def split: if_splits)
  have hex: "prefixed_hex ''pol1:'' 64 (policy_manifest_id_v2 sha ?draft)"
    "prefixed_hex ''par1:'' 64 (state_admission_hash_v1 sha core)"
    using frame_hex(3,4) [OF assms(1)] by (simp_all add: policy_manifest_id_v2_def state_admission_hash_v1_def)
  show ?thesis
    using hex ledger
    by (auto simp: from_core_def Let_def validate_manifest_boundary_def assms(2,3) same [unfolded policy_manifest.simps]
        validate_direct_policy_ledger_def policy_manifest_id_v2_def policy_manifest_json_def raise_if_def
        split: if_splits)
qed

text \<open>A checked core and ledger summary always make a manifest, except that a direct core refuses a
  summary of executed actions; the manifest carries that core, and its state admission hash does not
  depend on the summary.\<close>

theorem manifest_from_core:
  assumes "sha_hex sha" and "check_policy_authority_core sha core = Inr core"
    and "check_policy_ledger_summary ledger = Inr ledger"
  shows "case from_core sha core ledger of
      Inl e \<Rightarrow> pac_scene core = SceneDirect \<and> (pls_executed_count ledger > 0 \<or> pls_artifact_types ledger \<noteq> [])
    | Inr m \<Rightarrow> pm_core m = core \<and> pm_ledger_summary m = ledger
        \<and> pm_state_admission_hash m = state_admission_hash_v1 sha core
        \<and> pm_policy_id m = policy_manifest_id_v2 sha m
        \<and> (pac_scene core = SceneDirect \<longrightarrow> pls_executed_count ledger = 0 \<and> pls_artifact_types ledger = [])"
  by (rule from_core_spec [OF assms])

lemma policy_str_inj:
  "response_mode_str m = response_mode_str m' \<Longrightarrow> m = m'"
  "adapter_resolve_str a = adapter_resolve_str a' \<Longrightarrow> a = a'"
  "manifest_id_str i = manifest_id_str i' \<Longrightarrow> i = i'"
  "recall_mode_str r = recall_mode_str r' \<Longrightarrow> r = r'"
  subgoal by (cases m; cases m'; simp)
  subgoal by (cases a; cases a'; simp)
  subgoal by (cases i; cases i'; simp)
  subgoal by (cases r; cases r'; simp)
  done

lemmas policy_name_lists =
  json_norm_names [where str = response_mode_str, OF policy_str_inj(1)]
  json_norm_names [where str = adapter_resolve_str, OF policy_str_inj(2)]

lemma json_norm_manifest_ref: "json_norm (manifest_ref_json r) = json_norm (manifest_ref_json r') \<Longrightarrow> r = r'"
  by (cases r; cases r') (auto simp: manifest_ref_json_def dest!: json_norm_members policy_str_inj(3))

lemma json_norm_manifest_refs:
  "json_norm (JList (map manifest_ref_json rs)) = json_norm (JList (map manifest_ref_json rs')) \<longleftrightarrow> rs = rs'"
  by (rule json_norm_map_inj) (rule json_norm_manifest_ref)

lemma core_json_inj:
  assumes "json_norm (core_json c) = json_norm (core_json c')"
  shows "c = c'"
proof -
  have "map (json_norm \<circ> snd) (core_members c) = map (json_norm \<circ> snd) (core_members c')"
    using json_norm_members [OF assms [unfolded core_json_def]] by (simp add: core_members_def)
  then show ?thesis
    by (cases c; cases c')
      (auto simp: core_members_def policy_name_lists json_norm_manifest_refs scene_str_iff
        simp del: json_norm.simps(1) dest!: policy_str_inj(4))
qed

lemma json_ok_core: "json_ok (core_json c)"
  by (auto simp: core_json_def core_members_def manifest_ref_json_def)

lemma core_bytes_inj: "canonical_json_bytes (core_json c) = canonical_json_bytes (core_json c') \<longleftrightarrow> c = c'"
  using json_text_inj [OF json_ok_core json_ok_core, of False]
  by (auto simp: canonical_json_bytes_def dest!: utf8_inj intro: core_json_inj)

text \<open>The state admission hash of a turn identifies its authority core: two cores have the same hash
  exactly when they are equal, as long as SHA-256 does not collide on the two.\<close>

theorem admission_hash_identifies_core:
  assumes "inj_on sha {''state-admission-policy.v1'' @ [CHR 0x00] @ canonical_json_bytes (core_json c),
                       ''state-admission-policy.v1'' @ [CHR 0x00] @ canonical_json_bytes (core_json c')}"
  shows "state_admission_hash_v1 sha c = state_admission_hash_v1 sha c' \<longleftrightarrow> c = c'"
  using inj_on_eq_iff [OF assms] by (simp add: state_admission_hash_v1_def sha256_frame_def core_bytes_inj)

section \<open>Witnesses\<close>

definition flat_sha :: "pybytes \<Rightarrow> pystr" where
  "flat_sha b = replicate 64 CHR ''0''"

lemma flat_sha_hex: "sha_hex flat_sha"
  by (simp add: sha_hex_def flat_sha_def list_all_length is_lower_hex_def is_digit_def)

definition policy_demo_request :: "scene \<Rightarrow> kernel_reply_request" where
  "policy_demo_request scene =
     \<lparr>kr_request_id = ''req:1'', kr_replay_eligible = True, kr_message = ''hello'', kr_context_id = None,
      kr_identity = \<lparr>vi_scene = scene, vi_tenant_ref = ''tenant:t'', vi_subject_ref = ''group:g'', vi_principal_ref = ''principal:p''\<rparr>,
      kr_presentation = DirectPresentationV1 None,
      kr_business_scope = (case scene of SceneDirect \<Rightarrow> UnscopedScopeV1
        | SceneGroup \<Rightarrow> DistributionScopeV1 ''bank'' Channel_bank [\<lparr>av_type = Artifact_weekly_report, av_options = []\<rparr>]),
      kr_grants = \<lparr>read_capabilities = [Query_internal_company_info, Resolve_weekly_report],
        outbound_actions = [Out_weekly_report], mention_types = [Mention_sales]\<rparr>\<rparr>"

theorem policy_compiles_within_grants_witness:
  "case compile_policy_authority_core_v1 flat_sha (policy_demo_request SceneGroup)
      \<lparr>bsa_scope = kr_business_scope (policy_demo_request SceneGroup),
       bsa_hash = business_scope_hash_v1 flat_sha (kr_business_scope (policy_demo_request SceneGroup)),
       bsa_ref = ''bsr:'' @ take 32 (drop 5 (business_scope_hash_v1 flat_sha (kr_business_scope (policy_demo_request SceneGroup))))\<rparr>
      ''off'' of
     Inr core \<Rightarrow> set (pac_outbound core) \<subseteq> {Out_weekly_report} | Inl _ \<Rightarrow> False"
  using policy_compiles_within_grants [OF flat_sha_hex, where r = "policy_demo_request SceneGroup" and m = "''off''",
      OF _ scope_authority_built [OF flat_sha_hex]]
  by (auto simp: policy_demo_request_def kernel_scene_is_group_def split: sum.splits)

theorem direct_policy_is_ceiling_witness:
  "case compile_policy_authority_core_v1 flat_sha (policy_demo_request SceneDirect)
      \<lparr>bsa_scope = UnscopedScopeV1, bsa_hash = business_scope_hash_v1 flat_sha UnscopedScopeV1,
       bsa_ref = ''bsr:'' @ take 32 (drop 5 (business_scope_hash_v1 flat_sha UnscopedScopeV1))\<rparr> ''shortcut'' of
     Inr core \<Rightarrow> pac_outbound core = [] \<and> pac_reads core = [Query_internal_company_info] \<and> pac_recall_mode core = Recall_off
   | Inl _ \<Rightarrow> False"
  using direct_policy_is_ceiling [OF flat_sha_hex, where r = "policy_demo_request SceneDirect" and m = "''shortcut''",
      OF _ _ scope_authority_built [OF flat_sha_hex]]
  by (simp add: policy_demo_request_def kernel_scene_is_group_def direct_ceiling_def)

theorem manifest_from_core_witness:
  "case from_core flat_sha (direct_ceiling True (''grh1:'' @ replicate 64 CHR ''0'') (business_scope_hash_v1 flat_sha UnscopedScopeV1))
      \<lparr>pls_executed_count = 1, pls_artifact_types = [], pls_has_executed = True\<rparr> of
     Inl _ \<Rightarrow> True | Inr _ \<Rightarrow> False"
proof -
  let ?core = "direct_ceiling True (''grh1:'' @ replicate 64 CHR ''0'') (business_scope_hash_v1 flat_sha UnscopedScopeV1)"
  have core: "check_policy_authority_core flat_sha ?core = Inr ?core" by code_simp
  have "check_policy_ledger_summary \<lparr>pls_executed_count = 1, pls_artifact_types = [], pls_has_executed = True\<rparr>
      = Inr \<lparr>pls_executed_count = 1, pls_artifact_types = [], pls_has_executed = True\<rparr>" by code_simp
  from manifest_from_core [OF flat_sha_hex core this] show ?thesis
    by (auto simp: direct_ceiling_def split: sum.splits)
qed

theorem admission_hash_identifies_core_witness:
  "state_admission_hash_v1 id (direct_ceiling True [] []) \<noteq> state_admission_hash_v1 id (direct_ceiling False [] [])"
  using admission_hash_identifies_core [OF inj_on_id, where c = "direct_ceiling True [] []" and c' = "direct_ceiling False [] []"]
  by (simp add: direct_ceiling_def)

end
