(* ===== verification/Plan_Theorems.thy ===== *)
theory Plan_Theorems
  imports Plan_Shortcuts Policy_Theorems
begin

text \<open>
  Planning under a compiled policy: whatever the source of a plan, what the compiler returns stays within
  the policy and the grants of the request; the input policy always finds a plan; a direct send command
  does so exactly when its manifest is eligible.
\<close>

section \<open>Where the policy comes from\<close>

lemma check_core_Inr: "check_policy_authority_core sha c = Inr c' \<Longrightarrow> c' = c"
  by (auto simp: check_policy_authority_core_def res_simps split: if_splits)

lemma compiled_core_inv:
  assumes "compile_policy_authority_core_v1 sha r auth m = Inr core"
  obtains k where "pac_eligible core = eligible_manifest_refs r (pac_scene core) k"
    and "pac_resolves core = allowed_resolves (pac_eligible core) (pac_scene core)"
    and "set (pac_outbound core) \<subseteq> set (outbound_actions (kr_grants r))"
    and "pac_reply_modes core = policy_reply_modes (pac_eligible core)"
    and "pac_scene core = SceneDirect \<longrightarrow> pac_outbound core = []"
    and "kr_business_scope r = bsa_scope auth" and "k \<longleftrightarrow> Query_internal_company_info \<in> set (policy_reads r (pac_scene core))"
proof -
  let ?k = "Query_internal_company_info \<in> set (policy_reads r (pac_scene core))"
  have "pac_eligible core = eligible_manifest_refs r (pac_scene core) ?k
    \<and> pac_resolves core = allowed_resolves (pac_eligible core) (pac_scene core)
    \<and> set (pac_outbound core) \<subseteq> set (outbound_actions (kr_grants r))
    \<and> pac_reply_modes core = policy_reply_modes (pac_eligible core)
    \<and> (pac_scene core = SceneDirect \<longrightarrow> pac_outbound core = [])
    \<and> kr_business_scope r = bsa_scope auth"
    using assms
    by (auto simp: compile_policy_authority_core_v1_def Let_def split: if_splits option.splits
        dest!: check_core_Inr)
  with that show thesis by blast
qed

lemma manifest_boundary_Inr: "validate_manifest_boundary sha m = Inr m' \<Longrightarrow> m' = m"
  by (auto simp: validate_manifest_boundary_def res_simps split: if_splits)

lemma from_core_core: "from_core sha core ledger = Inr policy \<Longrightarrow> pm_core policy = core"
  by (auto simp: from_core_def Let_def dest: manifest_boundary_Inr)

section \<open>Units stay within the policy\<close>

lemma runtime_resolve: "Option.bind (runtime_capability_of i) rc_resolve_type = manifest_resolve_requirements i"
  by (cases i) (simp_all add: runtime_capability_of_def)

lemma direct_eligible_no_resolve:
  assumes "ManifestRefV1 i \<in> set (eligible_manifest_refs r SceneDirect k)"
  shows "manifest_resolve_requirements i = None"
proof -
  from assms have "manifest_eligible r SceneDirect k i" by (auto simp: eligible_manifest_refs_def)
  then have "i \<notin> {Material_pack_send, Weekly_report_send, Monthly_report_send, Sales_handoff,
      Weekly_report_product_list, Monthly_report_product_list}"
    by (auto simp: manifest_eligible_def Let_def split: if_splits)
  then show ?thesis by (cases i) simp_all
qed

lemma eligible_resolve_allowed:
  assumes "ManifestRefV1 i \<in> set (eligible_manifest_refs r scene k)" "manifest_resolve_requirements i = Some t"
  shows "t \<in> set (allowed_resolves (eligible_manifest_refs r scene k) scene)"
proof -
  from assms direct_eligible_no_resolve have "scene \<noteq> SceneDirect" by force
  with assms show ?thesis
    by (auto simp: allowed_resolves_def set_map_filter intro!: bexI [where x = "ManifestRefV1 i"])
qed

lemma policy_ref_Some: "policy_ref core s = Some ref \<Longrightarrow> ref \<in> set (pac_eligible core) \<and> manifest_id_str (mr_id ref) = s"
  by (auto simp: policy_ref_def dest: find_Some_mem)

lemma registry_find_Some: "registry_find s = Some i \<Longrightarrow> manifest_id_str i = s"
  by (auto simp: registry_find_def dest: find_Some_mem)

lemma registry_find_str [simp]: "registry_find (manifest_id_str i) = Some i"
  by (cases i) (simp_all add: registry_find_def registry_list_def)

lemma policy_ref_eligible:
  assumes "ManifestRefV1 i \<in> set (pac_eligible core)"
  shows "policy_ref core (manifest_id_str i) = Some (ManifestRefV1 i)"
proof -
  from assms have "policy_ref core (manifest_id_str i) \<noteq> None"
    by (auto simp: policy_ref_def find_None_iff)
  then obtain ref where "policy_ref core (manifest_id_str i) = Some ref" by blast
  with policy_ref_Some [OF this] policy_str_inj(3) [of "mr_id ref" i] show ?thesis by (cases ref) auto
qed

lemma policy_ref_None: "policy_ref core (manifest_id_str i) = None \<longleftrightarrow> ManifestRefV1 i \<notin> set (pac_eligible core)"
  using policy_ref_eligible [of i core]
  by (auto simp: policy_ref_def find_None_iff) (metis manifest_ref.exhaust manifest_ref.sel policy_str_inj(3))

lemma check_unit_Inr: "check_execution_unit u = Inr u' \<Longrightarrow> u' = u"
  by (auto simp: check_execution_unit_def res_simps)

lemma check_plan_Inr: "check_execution_plan sha ft p = Inr p' \<Longrightarrow> p' = p"
  by (auto simp: check_execution_plan_def res_simps)

lemma capability_resolves_types:
  assumes "capability_resolves c opt = Inr rs" "r \<in> set rs"
  shows "Option.bind c rc_resolve_type = Some (are_type r)"
  using assms by (auto simp: capability_resolves_def Let_def res_simps split: option.splits)

lemma action_intents_types:
  assumes "action_intents_of a c core opt = Inr acts" "x \<in> set acts"
  shows "ai_action_type x \<in> set (pac_outbound core)"
  using assms by (auto simp: action_intents_of_def Let_def res_simps split: option.splits if_splits)

lemma finalized_unit:
  assumes "finalize_execution_unit_v2 u scope auth core = Inr eu"
  obtains i rs acts where "eu_manifest_ref eu = ManifestRefV1 i" "ManifestRefV1 i \<in> set (pac_eligible core)"
    "capability_resolves (runtime_capability_of i) (du_material_pack_option u) = Inr rs"
    "eu_adapter_resolves eu = rs @ (if du_answerability u = Ans_send \<and> sales_fallback_is_allowed core then [sales_resolve] else [])"
    "action_intents_of (du_answerability u) (runtime_capability_of i) core (du_material_pack_option u) = Inr acts"
    "eu_action_intents eu = acts" "eu_answerability eu = du_answerability u"
proof -
  from assms obtain ref i where ref: "policy_ref core (du_manifest_id u) = Some ref"
    and i: "registry_find (du_manifest_id u) = Some i"
    by (auto simp: finalize_execution_unit_v2_def split: option.splits)
  from policy_ref_Some [OF ref] registry_find_Some [OF i] have "mr_id ref = i"
    by (metis policy_str_inj(3))
  then have r: "ref = ManifestRefV1 i" by (cases ref) simp
  with policy_ref_Some [OF ref] have e: "ManifestRefV1 i \<in> set (pac_eligible core)" by simp
  let ?c = "runtime_capability_of i" and ?opt = "du_material_pack_option u"
  from assms have "res_bind (execution_scope_of scope auth ?opt) (\<lambda>s.
      res_bind (capability_resolves ?c ?opt) (\<lambda>rs.
      res_bind (action_intents_of (du_answerability u) ?c core ?opt) (\<lambda>acts.
        if du_answerability u = Ans_send \<and> pac_scene core = SceneDirect
        then Inl (ValueError ''execution_plan_direct_send_forbidden'')
        else check_execution_unit (execution_unit_of u ref ?c s rs acts core)))) = Inr eu"
    by (simp add: finalize_execution_unit_v2_def ref i Let_def)
  then obtain s rs acts where rs: "capability_resolves ?c ?opt = Inr rs"
    and acts: "action_intents_of (du_answerability u) ?c core ?opt = Inr acts"
    and "(if du_answerability u = Ans_send \<and> pac_scene core = SceneDirect
        then Inl (ValueError ''execution_plan_direct_send_forbidden'')
        else check_execution_unit (execution_unit_of u ref ?c s rs acts core)) = Inr eu"
    unfolding res_bind_Inr_iff by blast
  from this(3) have eu: "eu = execution_unit_of u ref ?c s rs acts core"
    by (cases "du_answerability u = Ans_send \<and> pac_scene core = SceneDirect") (auto dest: check_unit_Inr)
  from rs acts eu r e show thesis by (intro that) (auto simp: execution_unit_of_def Let_def)
qed

lemma finalized_unit_within:
  assumes "finalize_execution_unit_v2 u scope auth core = Inr eu"
    and "pac_eligible core = eligible_manifest_refs r (pac_scene core) k"
    and "pac_resolves core = allowed_resolves (pac_eligible core) (pac_scene core)"
  shows "unit_issues core eu = []"
proof -
  from assms(1) obtain i rs acts where u: "eu_manifest_ref eu = ManifestRefV1 i" "ManifestRefV1 i \<in> set (pac_eligible core)"
    "capability_resolves (runtime_capability_of i) (du_material_pack_option u) = Inr rs"
    "eu_adapter_resolves eu = rs @ (if du_answerability u = Ans_send \<and> sales_fallback_is_allowed core then [sales_resolve] else [])"
    "action_intents_of (du_answerability u) (runtime_capability_of i) core (du_material_pack_option u) = Inr acts"
    "eu_action_intents eu = acts"
    by (rule finalized_unit)
  have "are_type x \<in> set (pac_resolves core)" if "x \<in> set rs" for x
    using capability_resolves_types [OF u(3) that] eligible_resolve_allowed [of i r "pac_scene core" k] u(2) assms(2,3)
    by (simp add: runtime_resolve)
  with u action_intents_types [OF u(5)] show ?thesis
    by (auto simp: unit_issues_def Let_def filter_empty_conv sales_fallback_is_allowed_def sales_resolve_def)
qed

lemma source_unit_finalized:
  assumes "source_parts auth core conf source = Inr p" "eu \<in> set (pp_units p)"
  shows "\<exists>u scope. finalize_execution_unit_v2 u scope auth core = Inr eu"
proof (cases source)
  case (FromPlanSpec spec)
  with assms obtain pu where "finalize_plan_spec_unit_v2 auth core pu = Inr eu"
    by (auto simp: res_simps dest!: map_res_mem)
  then show ?thesis by (auto simp: finalize_plan_spec_unit_v2_def res_simps split: if_splits)
next
  case (FromDeterministic d)
  with assms obtain u where "finalize_deterministic_unit_v2 auth core u = Inr eu"
    by (auto simp: res_simps dest!: map_res_mem)
  then show ?thesis unfolding finalize_deterministic_unit_v2_def by blast
qed

lemma finalized_plan:
  assumes "finalize_execution_plan_v2 sha ft source policy auth origin conf = Inr plan"
  obtains p where "source_parts auth (pm_core policy) conf source = Inr p" "ep_units plan = pp_units p"
    "ep_response_mode plan = pp_response_mode p"
    "ep_adapter_resolves plan = unique_resolves (concat (map eu_adapter_resolves (pp_units p)))"
    "ep_action_intents plan = concat (map eu_action_intents (pp_units p))"
  using assms
  by (auto simp: finalize_execution_plan_v2_def Let_def res_simps split: if_splits dest!: check_plan_Inr)

lemma set_first_by: "set (first_by key seen xs) \<subseteq> set xs"
  by (induction key seen xs rule: first_by.induct) auto

lemma length_first_by: "length (first_by key seen xs) \<le> length xs"
  by (induction key seen xs rule: first_by.induct) auto

lemma unit_issues_Nil:
  "unit_issues core u = [] \<longleftrightarrow> eu_manifest_ref u \<in> set (pac_eligible core)
     \<and> (\<forall>x\<in>set (eu_adapter_resolves u). are_type x \<in> set (pac_resolves core))
     \<and> (\<forall>x\<in>set (eu_action_intents u). ai_action_type x \<in> set (pac_outbound core))"
  by (auto simp: unit_issues_def Let_def filter_empty_conv)

lemma plan_within:
  assumes "compile_policy_authority_core_v1 sha r auth m = Inr core"
    and "from_core sha core ledger = Inr policy"
    and "finalize_execution_plan_v2 sha ft source policy auth' origin conf = Inr plan"
  shows "validate_execution_plan_v2 plan policy =
      (if ep_response_mode plan \<in> set (pac_reply_modes core) then []
       else [\<lparr>pi_code = Response_mode_not_allowed, pi_severity = Severity_fatal, pi_unit_id = None\<rparr>])
    \<and> ai_action_type ` set (ep_action_intents plan) \<subseteq> set (outbound_actions (kr_grants r))
    \<and> (pac_scene core = SceneDirect \<longrightarrow> ep_action_intents plan = [] \<and> ep_adapter_resolves plan = [])"
proof -
  from assms(1) obtain k where core: "pac_eligible core = eligible_manifest_refs r (pac_scene core) k"
    "pac_resolves core = allowed_resolves (pac_eligible core) (pac_scene core)"
    "set (pac_outbound core) \<subseteq> set (outbound_actions (kr_grants r))"
    "pac_scene core = SceneDirect \<longrightarrow> pac_outbound core = []"
    by (elim compiled_core_inv) blast
  have policy: "pm_core policy = core" using assms(2) by (rule from_core_core)
  from assms(3) obtain p where p: "source_parts auth' core conf source = Inr p" "ep_units plan = pp_units p"
    "ep_adapter_resolves plan = unique_resolves (concat (map eu_adapter_resolves (pp_units p)))"
    "ep_action_intents plan = concat (map eu_action_intents (pp_units p))"
    unfolding policy [symmetric] by (rule finalized_plan)
  have units: "unit_issues core u = []" if "u \<in> set (pp_units p)" for u
    using source_unit_finalized [OF p(1) that] finalized_unit_within [OF _ core(1,2)] by blast
  then have actions: "ai_action_type ` set (ep_action_intents plan) \<subseteq> set (pac_outbound core)"
    and resolves: "are_type ` set (ep_adapter_resolves plan) \<subseteq> set (pac_resolves core)"
    using set_first_by [of resolve_key "[]" "concat (map eu_adapter_resolves (pp_units p))"]
    by (auto simp: p(3,4) unit_issues_Nil unique_resolves_def)
  have "concat (map (unit_issues core) (ep_units plan)) = []" using units by (simp add: p(2))
  moreover have "pac_scene core = SceneDirect \<Longrightarrow> pac_resolves core = []"
    by (simp add: core(2) allowed_resolves_def)
  ultimately show ?thesis
    using actions resolves core(3,4) by (auto simp: validate_execution_plan_v2_def policy)
qed

text \<open>C22 A plan that compiles under the policy of a request passes the check against that policy but for
  its response mode, whatever its source, and only carries actions the request grants; in a direct
  conversation it has no action and no adapter lookup.\<close>

theorem finalized_plan_within_policy:
  assumes "compile_policy_authority_core_v1 sha r auth m = Inr core"
    and "from_core sha core ledger = Inr policy"
    and "finalize_execution_plan_v2 sha ft source policy auth' origin conf = Inr plan"
  shows "validate_execution_plan_v2 plan policy =
      (if ep_response_mode plan \<in> set (pac_reply_modes core) then []
       else [\<lparr>pi_code = Response_mode_not_allowed, pi_severity = Severity_fatal, pi_unit_id = None\<rparr>])
    \<and> ai_action_type ` set (ep_action_intents plan) \<subseteq> set (outbound_actions (kr_grants r))
    \<and> (pac_scene core = SceneDirect \<longrightarrow> ep_action_intents plan = [] \<and> ep_adapter_resolves plan = [])"
  using plan_within [OF assms] .

section \<open>Plans of one deterministic unit\<close>

lemma clarification_loop_ok:
  assumes "distinct out" "set out \<subseteq> {''artifact'', ''material_pack_option''}"
  shows "distinct (clarification_loop out vs) \<and> set (clarification_loop out vs) \<subseteq> {''artifact'', ''material_pack_option''}"
  using assms by (induction out vs rule: clarification_loop.induct) (simp_all add: Let_def)

lemma clarification_slots_ok:
  "distinct (supported_clarification_slots vs)" "length (supported_clarification_slots vs) \<le> 2"
  "\<forall>s\<in>set (supported_clarification_slots vs). s = ''artifact'' \<or> s = ''material_pack_option''"
proof -
  from clarification_loop_ok [of "[]" vs]
  have d: "distinct (supported_clarification_slots vs)"
    and s: "set (supported_clarification_slots vs) \<subseteq> {''artifact'', ''material_pack_option''}"
    by (simp_all add: supported_clarification_slots_def)
  show "distinct (supported_clarification_slots vs)" by (rule d)
  from card_mono [OF _ s] d show "length (supported_clarification_slots vs) \<le> 2"
    by (simp add: distinct_card)
  from s show "\<forall>s\<in>set (supported_clarification_slots vs). s = ''artifact'' \<or> s = ''material_pack_option''" by blast
qed

lemma sorted_set_single [simp]: "sorted_set str [x] = [x]"
  by (simp add: sorted_set_def)

lemma clarification_slots_bounds:
  "\<not> list_ex (\<lambda>s. s = [] \<or> length s > 120) (supported_clarification_slots vs)"
  "\<not> length (supported_clarification_slots vs) > 8"
proof -
  have "s \<noteq> [] \<and> length s \<le> 120" if "s \<in> set (supported_clarification_slots vs)" for s
    using bspec [OF clarification_slots_ok(3) that] by (elim disjE) simp_all
  then show "\<not> list_ex (\<lambda>s. s = [] \<or> length s > 120) (supported_clarification_slots vs)"
    by (fastforce simp: list_ex_iff)
  show "\<not> length (supported_clarification_slots vs) > 8"
    using clarification_slots_ok(2) [of vs] by linarith
qed

lemma rationale_flags_ok: "list_all (\<lambda>f. f = ''weekly_report_rationale_required'') (rationale_flags fs)"
  by (simp add: rationale_flags_def list_all_iff)

lemma check_execution_unit_ok:
  assumes "length_within 1 120 (eu_unit_id u)" "opt_within 200 (eu_evidence_query u)"
    and "length (eu_adapter_resolves u) \<le> 8" "length (eu_action_intents u) \<le> 3"
    and "length (eu_runtime_capabilities u) \<le> 1"
    and "eu_answer_capabilities u = [] \<or> eu_answer_capabilities u = eu_runtime_capabilities u"
    and "eu_ambiguity_slots u = supported_clarification_slots vs" "eu_risk_flags u = rationale_flags fs"
  shows "check_execution_unit u = Inr u"
proof -
  have c: "sorted_set capability_name_str (eu_runtime_capabilities u) = eu_runtime_capabilities u"
    using assms(5) by (cases "eu_runtime_capabilities u") simp_all
  then have a: "sorted_set capability_name_str (eu_answer_capabilities u) = eu_answer_capabilities u"
    "length (eu_answer_capabilities u) \<le> 1"
    using assms(5,6) by auto
  show ?thesis
    using assms(1-5) a c clarification_slots_ok(1) [of vs] clarification_slots_bounds [of vs] rationale_flags_ok [of fs]
    unfolding check_execution_unit_def assms(7,8)
    by (simp add: res_bind_Inr_iff seq_res_Inr)
qed

lemma execution_unit_of_ok:
  assumes "length_within 1 120 (du_unit_id u)" "opt_within 200 (du_evidence_query u)"
    and "length rs \<le> 7" "length acts \<le> 3"
  shows "check_execution_unit (execution_unit_of u ref c scope rs acts core) = Inr (execution_unit_of u ref c scope rs acts core)"
  using assms by (cases c; intro check_execution_unit_ok [where vs = "du_ambiguity_slots u" and fs = "du_risk_flags u"])
    (simp_all add: execution_unit_of_def Let_def)

lemma scope_authority_ref: "business_scope_authority_v1 sha scope = Inr auth \<Longrightarrow> prefixed_hex ''bsr:'' 32 (bsa_ref auth)"
  by (auto simp: business_scope_authority_v1_def check_business_scope_authority_def Let_def res_simps split: if_splits)

lemma execution_scope_None:
  "prefixed_hex ''bsr:'' 32 (bsa_ref auth) \<Longrightarrow> \<exists>scope. execution_scope_of None auth None = Inr scope"
  by (cases "bsa_scope auth") (auto simp: execution_scope_of_def Let_def res_bind_Inr_iff seq_res_Inr opt_within_def check_product_ids_def)

lemma capability_resolves_None: "\<exists>rs. capability_resolves c None = Inr rs \<and> length rs \<le> 1"
  by (auto simp: capability_resolves_def check_adapter_resolve_def opt_within_def Let_def res_bind_Inr_iff seq_res_Inr
      split: option.splits)

lemma action_intents_None:
  assumes "a = Ans_send \<Longrightarrow> set_option (Option.bind c rc_outbound_action_type) \<subseteq> set (pac_outbound core)"
  shows "\<exists>acts. action_intents_of a c core None = Inr acts
    \<and> map ai_action_type acts = (if a = Ans_send then List.map_filter id [Option.bind c rc_outbound_action_type] else [])"
  using assms
  by (auto simp: action_intents_of_def check_action_intent_def opt_within_def Let_def res_bind_Inr_iff map_filter_simps
      split: option.splits)

lemma deterministic_unit_ok:
  assumes "prefixed_hex ''bsr:'' 32 (bsa_ref auth)" "du_manifest_id u = manifest_id_str i"
    and "ManifestRefV1 i \<in> set (pac_eligible core)" "length_within 1 120 (du_unit_id u)"
    and "du_material_pack_option u = None" "du_evidence_query u = None"
    and send: "du_answerability u = Ans_send \<Longrightarrow> pac_scene core \<noteq> SceneDirect
      \<and> set_option (Option.bind (runtime_capability_of i) rc_outbound_action_type) \<subseteq> set (pac_outbound core)"
  obtains eu where "finalize_deterministic_unit_v2 auth core u = Inr eu" "eu_answerability eu = du_answerability u"
    "length (eu_adapter_resolves eu) \<le> 2" "length (eu_action_intents eu) \<le> 1"
    "map ai_action_type (eu_action_intents eu) = (if du_answerability u = Ans_send
       then List.map_filter id [Option.bind (runtime_capability_of i) rc_outbound_action_type] else [])"
proof -
  let ?c = "runtime_capability_of i"
  obtain scope where scope: "execution_scope_of None auth None = Inr scope"
    using execution_scope_None [OF assms(1)] by blast
  obtain rs where rs: "capability_resolves ?c None = Inr rs" "length rs \<le> 1"
    using capability_resolves_None by blast
  obtain acts where acts: "action_intents_of (du_answerability u) ?c core None = Inr acts"
    "map ai_action_type acts = (if du_answerability u = Ans_send
       then List.map_filter id [Option.bind ?c rc_outbound_action_type] else [])"
    using action_intents_None [of "du_answerability u" ?c core] send by blast
  have n: "length acts \<le> 1"
    using arg_cong [OF acts(2), of length] by (auto simp: map_filter_simps split: if_splits option.splits)
  let ?eu = "execution_unit_of u (ManifestRefV1 i) ?c scope rs acts core"
  have "check_execution_unit ?eu = Inr ?eu"
    using assms rs n by (intro execution_unit_of_ok) (auto simp: opt_within_def)
  then have "finalize_deterministic_unit_v2 auth core u = Inr ?eu"
    using send by (simp add: finalize_deterministic_unit_v2_def finalize_execution_unit_v2_def assms policy_ref_eligible
        scope rs acts(1) Let_def)
  then show thesis using acts(2) rs(2) n
    by (intro that) (auto simp: execution_unit_of_def Let_def)
qed

lemma execution_plan_id_update [simp]:
  "execution_plan_id_v2 sha ft (p\<lparr>ep_id := x\<rparr>) = execution_plan_id_v2 sha ft p"
  by (simp add: execution_plan_id_v2_def plan_json_def)

lemma artifact_kind_single:
  assumes "eu_answerability eu = a"
  shows "\<exists>k. artifact_kind_for_execution_units [eu] [] (response_mode_for_answerability_policies [a]) = Inr k"
  using assms by (auto simp: artifact_kind_for_execution_units_def)

lemma epl_hex: "sha_hex sha \<Longrightarrow> prefixed_hex ''epl1:'' 64 (execution_plan_id_v2 sha ft p)"
  using sha256_frame_hex [where prefix = "''epl1''"] by (simp add: execution_plan_id_v2_def)

lemma check_execution_plan_ok:
  assumes "sha_hex sha" "length_within 1 500 (ep_user_need p)" "length (cd_reason (ep_compliance p)) \<le> 400"
    and "1 \<le> length (ep_units p)" "length (ep_units p) \<le> 4" "length (ep_adapter_resolves p) \<le> 8"
    and "length (ep_action_intents p) \<le> 3" "length (ep_guardrail_decisions p) \<le> 32"
    and "0 \<le> ep_confidence p" "ep_confidence p \<le> 1" "distinct (map eu_unit_id (ep_units p))"
    and "ep_selected_manifest_refs p = selected_manifest_refs (ep_units p)" "length (ep_selected_manifest_refs p) \<ge> 1"
    and "ep_adapter_resolves p = unique_resolves (concat (map eu_adapter_resolves (ep_units p)))"
    and "ep_action_intents p = concat (map eu_action_intents (ep_units p))"
    and "ep_origin p = Origin_planner \<longleftrightarrow> ep_plan_spec p \<noteq> None"
  shows "check_execution_plan sha ft (p\<lparr>ep_id := execution_plan_id_v2 sha ft p\<rparr>)
     = Inr (p\<lparr>ep_id := execution_plan_id_v2 sha ft p\<rparr>)"
proof -
  have "length (selected_manifest_refs (ep_units p)) \<le> 4"
    using length_first_by [of "\<lambda>r. manifest_id_str (mr_id r)" "[]" "map eu_manifest_ref (ep_units p)"] assms(5)
    by (simp add: selected_manifest_refs_def)
  with assms epl_hex [OF assms(1)] show ?thesis
    unfolding check_execution_plan_def by (simp add: res_bind_Inr_iff seq_res_Inr)
qed

lemma finalize_single:
  assumes "sha_hex sha" "finalize_deterministic_unit_v2 auth (pm_core policy) u = Inr eu"
    and "eu_answerability eu = du_answerability u" "length (eu_adapter_resolves eu) \<le> 2" "length (eu_action_intents eu) \<le> 1"
    and "length_within 1 500 need" "origin \<noteq> Origin_planner"
  obtains plan where
    "finalize_execution_plan_v2 sha ft (FromDeterministic
       \<lparr>di_user_need = need, di_units = [u], di_compliance_reason_code = reason, di_guardrail_decisions = [d],
        di_confidence = 1\<rparr>) policy auth origin None = Inr plan"
    "ep_response_mode plan = response_mode_for_answerability_policies [du_answerability u]"
    "ep_action_intents plan = eu_action_intents eu"
proof -
  let ?mode = "response_mode_for_answerability_policies [du_answerability u]"
  obtain k where k: "artifact_kind_for_execution_units [eu] [] ?mode = Inr k"
    using artifact_kind_single [OF assms(3)] by blast
  let ?draft = "\<lparr>ep_id = ''epl1:'' @ replicate 64 CHR ''0'', ep_origin = origin, ep_user_need = need,
     ep_artifact_kind = k, ep_response_mode = ?mode,
     ep_compliance = \<lparr>cd_is_compliant = Some (?mode \<noteq> Mode_refusal), cd_reason_code = reason, cd_reason = []\<rparr>,
     ep_units = [eu], ep_selected_manifest_refs = selected_manifest_refs [eu],
     ep_adapter_resolves = unique_resolves (eu_adapter_resolves eu), ep_action_intents = eu_action_intents eu,
     ep_guardrail_decisions = [d], ep_confidence = 1, ep_plan_spec = None\<rparr>"
  let ?plan = "?draft\<lparr>ep_id := execution_plan_id_v2 sha ft ?draft\<rparr>"
  have "length (unique_resolves (eu_adapter_resolves eu)) \<le> 8"
    using length_first_by [of resolve_key "[]" "eu_adapter_resolves eu"] assms(4) by (simp add: unique_resolves_def)
  then have "check_execution_plan sha ft ?plan = Inr ?plan"
    using assms(5-7) by (intro check_execution_plan_ok [OF assms(1)]) (simp_all add: selected_manifest_refs_def)
  then have "finalize_execution_plan_v2 sha ft (FromDeterministic
       \<lparr>di_user_need = need, di_units = [u], di_compliance_reason_code = reason, di_guardrail_decisions = [d],
        di_confidence = 1\<rparr>) policy auth origin None = Inr ?plan"
    using assms(2,7) k by (simp add: finalize_execution_plan_v2_def Let_def)
  then show thesis by (rule that) simp_all
qed

lemma general_modes:
  "Mode_handoff \<in> set (policy_reply_modes refs)" "Mode_unable \<in> set (policy_reply_modes refs)"
  "Mode_clarification \<in> set (policy_reply_modes refs)"
  by (simp_all add: policy_reply_modes_def Let_def)

lemma handoff_manifest_eligible:
  assumes "pac_eligible core = eligible_manifest_refs r (pac_scene core) k"
  shows "ManifestRefV1 (handoff_manifest core) \<in> set (pac_eligible core)"
proof -
  have "manifest_eligible r (pac_scene core) k General_abstention"
    "pac_scene core = SceneDirect \<Longrightarrow> manifest_eligible r (pac_scene core) k General_handoff"
    by (simp_all add: manifest_eligible_def artifact_is_missing_def)
  then have "ManifestRefV1 General_abstention \<in> set (pac_eligible core)"
    "pac_scene core = SceneDirect \<Longrightarrow> ManifestRefV1 General_handoff \<in> set (pac_eligible core)"
    unfolding assms by (auto simp: eligible_manifest_refs_def registry_list_def)
  then show ?thesis
    by (auto simp: handoff_manifest_def has_sales_handoff_def) (metis manifest_ref.collapse)
qed

lemma handoff_result_ok:
  assumes "sha_hex sha" and "business_scope_authority_v1 sha (kr_business_scope r) = Inr auth"
    and "compile_policy_authority_core_v1 sha r auth m = Inr core"
    and "from_core sha core ledger = Inr policy"
    and "length (ipr_rule_id rule) \<le> 100" "length_within 1 500 (ipr_user_need rule)" "ipr_reason_code rule \<noteq> []"
  obtains plan where "handoff_result sha ft dt rule policy auth
      = Inr (Input_guardrail_handoff plan (ipr_reason_code rule) (ipr_rule_id rule))"
    "validate_execution_plan_v2 plan policy = []" "ep_action_intents plan = []"
proof -
  from assms(3) obtain k where elig: "pac_eligible core = eligible_manifest_refs r (pac_scene core) k"
    and modes: "pac_reply_modes core = policy_reply_modes (pac_eligible core)"
    by (elim compiled_core_inv) blast
  have policy: "pm_core policy = core" using assms(4) by (rule from_core_core)
  let ?i = "handoff_manifest core"
  let ?u = "\<lparr>du_unit_id = ''input-policy-'' @ ipr_rule_id rule, du_manifest_id = manifest_id_str ?i,
     du_answerability = (if ?i \<noteq> General_abstention then Ans_handoff else Ans_abstain), du_material_pack_option = None,
     du_evidence_query = None, du_ambiguity_slots = [], du_risk_flags = []\<rparr>"
  have calm: "du_answerability ?u \<noteq> Ans_send" by simp
  obtain eu where eu: "finalize_deterministic_unit_v2 auth core ?u = Inr eu" "eu_answerability eu = du_answerability ?u"
    "length (eu_adapter_resolves eu) \<le> 2" "length (eu_action_intents eu) \<le> 1" and acts: "map ai_action_type (eu_action_intents eu) =
      (if du_answerability ?u = Ans_send then List.map_filter id [Option.bind (runtime_capability_of ?i) rc_outbound_action_type] else [])"
    by (rule deterministic_unit_ok [OF scope_authority_ref [OF assms(2)], of ?u ?i core])
      (use handoff_manifest_eligible [OF elig] calm assms(5) in \<open>simp_all add: length_within_def\<close>)
  from acts have none: "eu_action_intents eu = []" unfolding if_not_P [OF calm] by simp
  have eu': "finalize_deterministic_unit_v2 auth (pm_core policy) ?u = Inr eu" unfolding policy by (rule eu(1))
  obtain d where d: "make_decision Guard_block Phase_input (ipr_reason_code rule) (ipr_human_reason rule)
      [(''handoff_text'', JStr (if pac_scene core = SceneDirect then dt
          else if has_sales_handoff core then ipr_handoff_text rule else ipr_handoff_unavailable_text rule)),
       (''handoff_unavailable_text'', JStr (ipr_handoff_unavailable_text rule))] = Inr d"
    using assms(7) by (simp add: make_decision_def)
  obtain plan where plan: "finalize_execution_plan_v2 sha ft (FromDeterministic
       \<lparr>di_user_need = ipr_user_need rule, di_units = [?u], di_compliance_reason_code = Reason_customer_service_request,
        di_guardrail_decisions = [d], di_confidence = 1\<rparr>) policy auth Origin_input_policy None = Inr plan"
      "ep_response_mode plan = response_mode_for_answerability_policies [du_answerability ?u]"
      "ep_action_intents plan = eu_action_intents eu"
    using finalize_single [OF assms(1) eu' eu(2-4) assms(6) plan_origin.distinct(2)] by metis
  have "ep_response_mode plan \<in> set (pac_reply_modes core)"
    using plan(2) general_modes by (simp add: response_mode_for_answerability_policies_def modes)
  with plan_within [OF assms(3,4) plan(1)] have "validate_execution_plan_v2 plan policy = []" by simp
  moreover have "handoff_result sha ft dt rule policy auth
      = Inr (Input_guardrail_handoff plan (ipr_reason_code rule) (ipr_rule_id rule))"
    unfolding handoff_result_def Let_def policy d plan(1) res_bind_simps ..
  ultimately show thesis using plan(3) none by (intro that) auto
qed

text \<open>The input policy cannot fail: under the policy of a request every message that triggers the T0 rule
  gets a plan that passes the check against the policy and performs no action.\<close>

theorem input_policy_always_plans:
  assumes "sha_hex sha" and "business_scope_authority_v1 sha (kr_business_scope r) = Inr auth"
    and "compile_policy_authority_core_v1 sha r auth m = Inr core"
    and "from_core sha core ledger = Inr policy"
  shows "case match_input_policy sha ft nfkc direct_text (default_input_policy_rules handoff unavailable) r policy auth of
      Inl _ \<Rightarrow> False
    | Inr (Input_no_match _) \<Rightarrow> \<not> py_in ''t0'' (compact_policy_text (normalize_compact_message nfkc (kr_message r)))
    | Inr (Input_guardrail_handoff plan reason rule) \<Rightarrow>
        validate_execution_plan_v2 plan policy = [] \<and> ep_action_intents plan = []"
proof -
  let ?rule = "hd (default_input_policy_rules handoff unavailable)"
  obtain plan where plan: "handoff_result sha ft direct_text ?rule policy auth
      = Inr (Input_guardrail_handoff plan (ipr_reason_code ?rule) (ipr_rule_id ?rule))"
    "validate_execution_plan_v2 plan policy = []" "ep_action_intents plan = []"
    by (rule handoff_result_ok [OF assms, of ?rule ft direct_text])
      (simp_all add: default_input_policy_rules_def length_within_def)
  have one: "find P (default_input_policy_rules handoff unavailable) = (if P ?rule then Some ?rule else None)" for P
    by (simp add: default_input_policy_rules_def)
  have "compact_policy_text ''t0'' = ''t0''" by code_simp
  then have matches: "rule_matches ?rule s \<longleftrightarrow> py_in ''t0'' (compact_policy_text s)" for s
    by (simp add: rule_matches_def default_input_policy_rules_def)
  have blank: "\<not> py_in ''t0'' (compact_policy_text [])" by code_simp
  show ?thesis
    unfolding match_input_policy_def Let_def one matches
    using blank plan by simp
qed

section \<open>Send commands\<close>

definition send_manifest :: "artifact_command \<Rightarrow> capability_manifest_id" where
  "send_manifest c = rc_manifest (capability_by_name (ac_capability c))"

lemma send_manifest_facts:
  assumes "c \<in> set artifact_commands"
  shows "command_name c @ ''.send'' = manifest_id_str (send_manifest c)"
    and "Option.bind (runtime_capability_of (send_manifest c)) rc_outbound_action_type = Some (ac_action_type c)"
    and "send_manifest c \<in> {Material_pack_send, Weekly_report_send, Monthly_report_send}"
    and "length (command_name c) \<le> 20" "length_within 1 500 (ac_user_need c)"
  using assms by (auto simp: artifact_commands_def send_manifest_def runtime_capability_of_def length_within_def)

lemma send_mode:
  "send_manifest c \<in> {Material_pack_send, Weekly_report_send, Monthly_report_send} \<Longrightarrow>
   ManifestRefV1 (send_manifest c) \<in> set refs \<Longrightarrow> Mode_action \<in> set (policy_reply_modes refs)"
  by (force simp: policy_reply_modes_def Let_def list_ex_iff)

lemma action_plan_ineligible:
  assumes "ManifestRefV1 i \<notin> set (pac_eligible (pm_core policy))" "du_manifest_id u = manifest_id_str i"
    and "origin \<noteq> Origin_planner"
  shows "finalize_execution_plan_v2 sha ft (FromDeterministic (one_unit_input need u d)) policy auth origin None
    = Inl (ValueError ''plan_spec_capability_not_policy_eligible'')"
proof -
  have "policy_ref (pm_core policy) (du_manifest_id u) = None"
    using assms(1,2) by (simp add: policy_ref_None)
  then have "finalize_deterministic_unit_v2 auth (pm_core policy) u
      = Inl (ValueError ''plan_spec_capability_not_policy_eligible'')"
    by (simp add: finalize_deterministic_unit_v2_def finalize_execution_unit_v2_def)
  then show ?thesis using assms(3) by (simp add: finalize_execution_plan_v2_def one_unit_input_def)
qed

lemma action_plan_eligible:
  assumes "sha_hex sha" and "business_scope_authority_v1 sha (kr_business_scope r) = Inr auth"
    and core: "compile_policy_authority_core_v1 sha r auth m = Inr core"
    and "from_core sha core ledger = Inr policy"
    and c: "c \<in> set artifact_commands" and granted: "ac_action_type c \<in> set (pac_outbound core)"
    and "ManifestRefV1 (send_manifest c) \<in> set (pac_eligible core)"
  obtains plan where "action_plan sha ft c policy auth = Inr plan" "validate_execution_plan_v2 plan policy = []"
    "map ai_action_type (ep_action_intents plan) = [ac_action_type c]"
proof -
  from core have modes: "pac_reply_modes core = policy_reply_modes (pac_eligible core)"
    and direct: "pac_scene core = SceneDirect \<longrightarrow> pac_outbound core = []"
    by (elim compiled_core_inv, blast)+
  have policy: "pm_core policy = core" using assms(4) by (rule from_core_core)
  let ?i = "send_manifest c"
  let ?u = "\<lparr>du_unit_id = ''direct-send-'' @ command_name c, du_manifest_id = command_name c @ ''.send'',
     du_answerability = Ans_send, du_material_pack_option = None, du_evidence_query = None, du_ambiguity_slots = [],
     du_risk_flags = []\<rparr>"
  obtain eu where eu: "finalize_deterministic_unit_v2 auth core ?u = Inr eu" "eu_answerability eu = du_answerability ?u"
    "length (eu_adapter_resolves eu) \<le> 2" "length (eu_action_intents eu) \<le> 1" and acts: "map ai_action_type (eu_action_intents eu) =
      (if du_answerability ?u = Ans_send then List.map_filter id [Option.bind (runtime_capability_of ?i) rc_outbound_action_type] else [])"
    by (rule deterministic_unit_ok [OF scope_authority_ref [OF assms(2)], of ?u ?i core])
      (use send_manifest_facts [OF c] assms(7) granted direct in \<open>auto simp: length_within_def\<close>)
  have eu': "finalize_deterministic_unit_v2 auth (pm_core policy) ?u = Inr eu" unfolding policy by (rule eu(1))
  obtain d where d: "make_decision Guard_allow Phase_input ''direct_send_command_matched'' [] (command_metadata c) = Inr d"
    by (simp add: make_decision_def)
  have need: "length_within 1 500 (ac_user_need c)" by (rule send_manifest_facts(5) [OF c])
  obtain plan where plan: "finalize_execution_plan_v2 sha ft (FromDeterministic
       \<lparr>di_user_need = ac_user_need c, di_units = [?u], di_compliance_reason_code = Reason_compliant_product_request,
        di_guardrail_decisions = [d], di_confidence = 1\<rparr>) policy auth Origin_direct_send None = Inr plan"
      "ep_response_mode plan = response_mode_for_answerability_policies [du_answerability ?u]"
      "ep_action_intents plan = eu_action_intents eu"
    using finalize_single [OF assms(1) eu' eu(2-4) need plan_origin.distinct(4)] by metis
  have "ep_response_mode plan \<in> set (pac_reply_modes core)"
    using plan(2) send_mode [OF send_manifest_facts(3) [OF c] assms(7)]
    by (simp add: response_mode_for_answerability_policies_def modes)
  with plan_within [OF core assms(4) plan(1)] have "validate_execution_plan_v2 plan policy = []" by simp
  moreover have "action_plan sha ft c policy auth = Inr plan"
    unfolding action_plan_def d one_unit_input_def res_bind_simps by (rule plan(1))
  ultimately show thesis
    using plan(3) acts send_manifest_facts(2) [OF c] by (intro that) (auto simp: map_filter_simps)
qed

text \<open>C23 A send command whose action is granted gets a plan with exactly that action when its manifest is
  eligible; otherwise (no such artifact, or no grant to look it up) the match itself raises.\<close>

theorem direct_send_needs_eligible_manifest:
  assumes "sha_hex sha" and "business_scope_authority_v1 sha (kr_business_scope r) = Inr auth"
    and "compile_policy_authority_core_v1 sha r auth m = Inr core"
    and "from_core sha core ledger = Inr policy"
    and "normalize_compact_message nfkc (kr_message r) \<noteq> []"
    and "find (\<lambda>c. fullmatch c (normalize_compact_message nfkc (kr_message r))) artifact_commands = Some c"
    and "ac_action_type c \<in> set (pac_outbound core)"
    and "ac_action_type c = Out_material_pack \<longrightarrow> pac_material_options core = []"
  shows "case match_direct_send_command sha ft nfkc fullmatch r policy auth of
      Inl e \<Rightarrow> e = ValueError ''plan_spec_capability_not_policy_eligible''
        \<and> ManifestRefV1 (send_manifest c) \<notin> set (pac_eligible core)
    | Inr result \<Rightarrow> ManifestRefV1 (send_manifest c) \<in> set (pac_eligible core)
        \<and> (\<exists>plan. result = Send_direct_action plan (''direct_send.'' @ command_name c)
             \<and> validate_execution_plan_v2 plan policy = []
             \<and> map ai_action_type (ep_action_intents plan) = [ac_action_type c])"
proof -
  have policy: "pm_core policy = core" using assms(4) by (rule from_core_core)
  have c: "c \<in> set artifact_commands" using find_Some_mem [OF assms(6)] by blast
  have run: "match_direct_send_command sha ft nfkc fullmatch r policy auth =
      res_bind (action_plan sha ft c policy auth) (\<lambda>plan. Inr (Send_direct_action plan (''direct_send.'' @ command_name c)))"
    using assms(5-8) by (auto simp: match_direct_send_command_def Let_def policy)
  show ?thesis
  proof (cases "ManifestRefV1 (send_manifest c) \<in> set (pac_eligible core)")
    case True
    obtain plan where "action_plan sha ft c policy auth = Inr plan" "validate_execution_plan_v2 plan policy = []"
      "map ai_action_type (ep_action_intents plan) = [ac_action_type c]"
      by (rule action_plan_eligible [OF assms(1-4) c assms(7) True])
    with True show ?thesis by (simp add: run)
  next
    case False
    then have "action_plan sha ft c policy auth = Inl (ValueError ''plan_spec_capability_not_policy_eligible'')"
      by (simp add: action_plan_def make_decision_def action_plan_ineligible [of "send_manifest c"] policy
          send_manifest_facts(1) [OF c])
    with False show ?thesis by (simp add: run)
  qed
qed

section \<open>Witnesses\<close>

definition no_ledger :: policy_ledger_summary where
  "no_ledger = \<lparr>pls_executed_count = 0, pls_artifact_types = [], pls_has_executed = False\<rparr>"

definition plan_demo_request :: "pystr \<Rightarrow> available_artifact_v2 list \<Rightarrow> kernel_reply_request" where
  "plan_demo_request message artifacts =
     (policy_demo_request SceneGroup)\<lparr>kr_message := message, kr_business_scope := DistributionScopeV1 ''bank'' Channel_bank artifacts\<rparr>"

definition weekly_artifact :: available_artifact_v2 where
  "weekly_artifact = \<lparr>av_type = Artifact_weekly_report, av_options = []\<rparr>"

lemma plan_demo:
  obtains auth core policy where
    "business_scope_authority_v1 flat_sha (kr_business_scope (plan_demo_request msg as)) = Inr auth"
    "compile_policy_authority_core_v1 flat_sha (plan_demo_request msg as) auth ''off'' = Inr core"
    "from_core flat_sha core no_ledger = Inr policy"
    "pac_eligible core = eligible_manifest_refs (plan_demo_request msg as) SceneGroup True"
    "pac_outbound core = [Out_weekly_report]"
proof -
  let ?r = "plan_demo_request msg as"
  obtain auth where auth: "business_scope_authority_v1 flat_sha (kr_business_scope ?r) = Inr auth"
    by (simp add: scope_authority_built [OF flat_sha_hex])
  let ?core = "compiled_core flat_sha ?r (kernel_scene ?r) Recall_off"
  have scene: "kernel_scene ?r = SceneGroup"
    by (simp add: kernel_scene_def kernel_scene_is_group_def plan_demo_request_def policy_demo_request_def)
  have core: "compile_policy_authority_core_v1 flat_sha ?r auth ''off'' = Inr ?core"
    using compile_core_eq [OF flat_sha_hex _ auth, of "''off''" Recall_off] scene by (simp add: kernel_scene_def split: if_splits)
  have "check_policy_authority_core flat_sha ?core = Inr ?core"
    by (rule compiled_core_checked [OF flat_sha_hex]) (simp add: scene)
  moreover have "check_policy_ledger_summary no_ledger = Inr no_ledger" by code_simp
  ultimately obtain policy where "from_core flat_sha ?core no_ledger = Inr policy"
    using from_core_spec [OF flat_sha_hex, of ?core no_ledger] scene
    by (auto simp: compiled_core_def Let_def split: sum.splits)
  moreover have "Query_internal_company_info \<in> set (policy_reads ?r SceneGroup)"
    by (simp add: policy_reads_def plan_demo_request_def policy_demo_request_def)
  then have "pac_eligible ?core = eligible_manifest_refs ?r SceneGroup True"
    unfolding compiled_core_def Let_def scene by simp
  moreover have "outbound_actions (kr_grants ?r) = [Out_weekly_report]"
    by (simp add: plan_demo_request_def policy_demo_request_def)
  then have "pac_outbound ?core = [Out_weekly_report]"
    unfolding compiled_core_def Let_def scene by simp
  ultimately show thesis using auth core by (intro that)
qed

lemma weekly_eligible:
  "ManifestRefV1 Weekly_report_send \<in> set (eligible_manifest_refs (plan_demo_request msg as) SceneGroup True)
   \<longleftrightarrow> Artifact_weekly_report \<in> set (map av_type as)"
  by (simp add: eligible_manifest_refs_def registry_list_def manifest_eligible_def Let_def plan_demo_request_def
      policy_demo_request_def artifact_is_missing_def kernel_available_artifacts_def image_iff)

definition weekly_command :: artifact_command where
  "weekly_command = hd artifact_commands"

lemma weekly_command_facts:
  "weekly_command \<in> set artifact_commands" "ac_action_type weekly_command = Out_weekly_report"
  "send_manifest weekly_command = Weekly_report_send"
  by (simp_all add: weekly_command_def artifact_commands_def send_manifest_def)

theorem finalized_plan_within_policy_witness:
  "\<exists>core policy (plan :: execution_plan). from_core flat_sha core no_ledger = Inr policy
     \<and> map ai_action_type (ep_action_intents plan) = [Out_weekly_report]
     \<and> ai_action_type ` set (ep_action_intents plan) \<subseteq> set (outbound_actions (kr_grants (plan_demo_request ''hello'' [weekly_artifact])))"
proof -
  let ?r = "plan_demo_request ''hello'' [weekly_artifact]" and ?ft = "\<lambda>_. ''1.0''"
  obtain auth core policy where p: "business_scope_authority_v1 flat_sha (kr_business_scope ?r) = Inr auth"
    "compile_policy_authority_core_v1 flat_sha ?r auth ''off'' = Inr core" "from_core flat_sha core no_ledger = Inr policy"
    "pac_eligible core = eligible_manifest_refs ?r SceneGroup True" "pac_outbound core = [Out_weekly_report]"
    by (rule plan_demo)
  have "ac_action_type weekly_command \<in> set (pac_outbound core)"
    and "ManifestRefV1 (send_manifest weekly_command) \<in> set (pac_eligible core)"
    unfolding p(4,5) weekly_command_facts weekly_eligible by (simp_all add: weekly_artifact_def)
  then obtain plan where plan: "action_plan flat_sha ?ft weekly_command policy auth = Inr plan"
      "map ai_action_type (ep_action_intents plan) = [ac_action_type weekly_command]"
    by (rule action_plan_eligible [OF flat_sha_hex p(1-3) weekly_command_facts(1), where ft = ?ft])
  from plan(1) obtain source where "finalize_execution_plan_v2 flat_sha ?ft source policy auth Origin_direct_send None = Inr plan"
    unfolding action_plan_def res_bind_Inr_iff by blast
  from finalized_plan_within_policy [OF p(2,3) this]
  have granted: "ai_action_type ` set (ep_action_intents plan) \<subseteq> set (outbound_actions (kr_grants ?r))"
    by (elim conjE)
  show ?thesis
    by (intro exI conjI, rule p(3), rule plan(2) [unfolded weekly_command_facts(2)], rule granted)
qed

theorem input_policy_always_plans_witness:
  "\<exists>auth policy plan reason rule.
      match_input_policy flat_sha (\<lambda>_. ''1.0'') id ''d'' (default_input_policy_rules ''h'' ''u'')
        (plan_demo_request ''Is T+0 ok?'' []) policy auth = Inr (Input_guardrail_handoff plan reason rule)
      \<and> validate_execution_plan_v2 plan policy = []"
proof -
  let ?r = "plan_demo_request ''Is T+0 ok?'' []"
  obtain auth core policy where p: "business_scope_authority_v1 flat_sha (kr_business_scope ?r) = Inr auth"
    "compile_policy_authority_core_v1 flat_sha ?r auth ''off'' = Inr core" "from_core flat_sha core no_ledger = Inr policy"
    by (rule plan_demo)
  have "py_in ''t0'' (compact_policy_text (normalize_compact_message id (kr_message ?r)))" by code_simp
  with input_policy_always_plans [OF flat_sha_hex p, where ft = "\<lambda>_. ''1.0''" and nfkc = id and direct_text = "''d''"
      and handoff = "''h''" and unavailable = "''u''"] show ?thesis
    by (fastforce split: sum.splits input_policy_result.splits)
qed

theorem direct_send_needs_eligible_manifest_witness:
  "\<exists>auth policy. match_direct_send_command flat_sha (\<lambda>_. ''1.0'') id (\<lambda>c _. ac_action_type c = Out_weekly_report)
      (plan_demo_request ''send the report'' []) policy auth = Inl (ValueError ''plan_spec_capability_not_policy_eligible'')"
proof -
  let ?r = "plan_demo_request ''send the report'' []"
  obtain auth core policy where p: "business_scope_authority_v1 flat_sha (kr_business_scope ?r) = Inr auth"
    "compile_policy_authority_core_v1 flat_sha ?r auth ''off'' = Inr core" "from_core flat_sha core no_ledger = Inr policy"
    "pac_eligible core = eligible_manifest_refs ?r SceneGroup True" "pac_outbound core = [Out_weekly_report]"
    by (rule plan_demo)
  have "normalize_compact_message id (kr_message ?r) \<noteq> []" by code_simp
  moreover have "find (\<lambda>c. ac_action_type c = Out_weekly_report) artifact_commands = Some weekly_command"
    by (simp add: artifact_commands_def weekly_command_def)
  ultimately have "case match_direct_send_command flat_sha (\<lambda>_. ''1.0'') id (\<lambda>c _. ac_action_type c = Out_weekly_report) ?r policy auth of
      Inl e \<Rightarrow> e = ValueError ''plan_spec_capability_not_policy_eligible''
    | Inr _ \<Rightarrow> ManifestRefV1 (send_manifest weekly_command) \<in> set (pac_eligible core)"
    using direct_send_needs_eligible_manifest [OF flat_sha_hex p(1-3), where nfkc = id and c = weekly_command
        and fullmatch = "\<lambda>c _. ac_action_type c = Out_weekly_report" and ft = "\<lambda>_. ''1.0''"] p(5)
    by (auto simp: weekly_command_facts split: sum.splits)
  then show ?thesis
    by (auto simp: p(4) weekly_eligible weekly_command_facts split: sum.splits)
qed

end
