(* ===== verification/Evidence_Vocabulary.thy ===== *)
theory Evidence_Vocabulary
  imports Plan_Compiler
begin

text \<open>
  The evidence contracts of the capability registry: the vocabulary of
  \<open>runtime/policy/capabilities/evidence_vocabulary.py\<close> (and of \<open>evidence/canonical_models.py\<close>, which
  repeats it), the contract of \<open>definitions.py\<close> with its validator, the contracts of the sealed
  resource \<open>capability_registry.v2.json\<close>, and the mappings of \<open>capabilities/mappings.py\<close>.
\<close>

section \<open>Vocabulary\<close>

datatype evidence_fact_type =
    Fact_material_pack_resolvable | Fact_weekly_report_resolvable | Fact_monthly_report_resolvable
  | Fact_sales_mention_resolvable | Fact_report_period | Fact_report_scope_summary
  | Fact_report_scope_match | Fact_report_scope_products | Fact_report_scope_unavailable
  | Fact_recent_executed_action | Fact_document_context | Fact_document_context_unavailable

fun fact_type_str :: "evidence_fact_type \<Rightarrow> pystr" where
  "fact_type_str Fact_material_pack_resolvable = ''material_pack_resolvable''"
| "fact_type_str Fact_weekly_report_resolvable = ''weekly_report_resolvable''"
| "fact_type_str Fact_monthly_report_resolvable = ''monthly_report_resolvable''"
| "fact_type_str Fact_sales_mention_resolvable = ''sales_mention_resolvable''"
| "fact_type_str Fact_report_period = ''report_period''"
| "fact_type_str Fact_report_scope_summary = ''report_scope_summary''"
| "fact_type_str Fact_report_scope_match = ''report_scope_match''"
| "fact_type_str Fact_report_scope_products = ''report_scope_products''"
| "fact_type_str Fact_report_scope_unavailable = ''report_scope_unavailable''"
| "fact_type_str Fact_recent_executed_action = ''recent_executed_action''"
| "fact_type_str Fact_document_context = ''document_context''"
| "fact_type_str Fact_document_context_unavailable = ''document_context_unavailable''"

datatype evidence_source_type =
    Src_adapter_resolve | Src_adapter_report_scope | Src_action_ledger | Src_document_mcp
  | Src_approved_static_knowledge | Src_conversation_history | Src_user_upload | Src_current_artifact
  | Src_adapter_context | Src_user_message | Src_assistant_message | Src_history_summary
  | Src_retrieved_doc | Src_tool_result

datatype evidence_artifact_type =
    Art_material_pack | Art_weekly_report | Art_monthly_report | Art_document_context
  | Art_adapter_context | Art_history | Art_user_upload | Art_unknown

fun evidence_artifact_str :: "evidence_artifact_type \<Rightarrow> pystr" where
  "evidence_artifact_str Art_material_pack = ''material_pack''"
| "evidence_artifact_str Art_weekly_report = ''weekly_report''"
| "evidence_artifact_str Art_monthly_report = ''monthly_report''"
| "evidence_artifact_str Art_document_context = ''document_context''"
| "evidence_artifact_str Art_adapter_context = ''adapter_context''"
| "evidence_artifact_str Art_history = ''history''"
| "evidence_artifact_str Art_user_upload = ''user_upload''"
| "evidence_artifact_str Art_unknown = ''unknown''"

datatype scope_match_field =
    Match_channel_id | Match_channel_kind | Match_material_pack_option | Match_time_range
  | Match_product_id | Match_product_ids | Match_artifact_type

datatype history_role = History_user | History_assistant

datatype stale_data_action = Stale_allow | Stale_abstain | Stale_refresh

datatype fallback_policy = Fallback_clarify | Fallback_abstain | Fallback_ignore

section \<open>The contract\<close>

record history_constraints =
  hc_max_turns :: "int option"
  hc_max_age_seconds :: "int option"
  hc_allowed_roles :: "history_role list"

record stale_data_policy =
  sdp_max_age_seconds :: "int option"
  sdp_on_stale :: stale_data_action
  sdp_require_observed_at :: bool

definition no_history :: history_constraints where
  "no_history = \<lparr>hc_max_turns = None, hc_max_age_seconds = None, hc_allowed_roles = []\<rparr>"

definition any_age :: stale_data_policy where
  "any_age = \<lparr>sdp_max_age_seconds = None, sdp_on_stale = Stale_allow, sdp_require_observed_at = False\<rparr>"

record capability_contract =
  cc_required_fact_types :: "evidence_fact_type list"
  cc_any_of_fact_types :: "evidence_fact_type list"
  cc_allowed_fact_types :: "evidence_fact_type list"
  cc_forbidden_fact_types :: "evidence_fact_type list"
  cc_allowed_source_types :: "evidence_source_type list"
  cc_forbidden_source_types :: "evidence_source_type list"
  cc_required_artifact_types :: "evidence_artifact_type list"
  cc_allowed_artifact_types :: "evidence_artifact_type list"
  cc_required_scope_match :: "scope_match_field list"
  cc_min_facts :: int
  cc_allow_history :: bool
  cc_history_constraints :: history_constraints
  cc_fallback_policy :: fallback_policy
  cc_citation_required :: bool
  cc_provenance_required :: bool
  cc_citation_requirements :: "pystr list"
  cc_stale_data_policy :: stale_data_policy
  cc_notes :: pystr

definition opt_int_within :: "int \<Rightarrow> int \<Rightarrow> int option \<Rightarrow> bool" where
  "opt_int_within lo hi v = (case v of None \<Rightarrow> True | Some i \<Rightarrow> lo \<le> i \<and> i \<le> hi)"

definition check_history_constraints :: "history_constraints \<Rightarrow> unit result" where
  "check_history_constraints h =
     seq_res [raise_if (\<not> opt_int_within 0 20 (hc_max_turns h)) (ValueError ''max_turns''),
       raise_if (\<not> opt_int_within 0 2592000 (hc_max_age_seconds h)) (ValueError ''max_age_seconds''),
       raise_if (length (hc_allowed_roles h) > 2) (ValueError ''allowed_roles''),
       raise_if (\<not> distinct (hc_allowed_roles h)) (ValueError ''duplicate_history_role'')]"

definition check_capability_contract :: "capability_contract \<Rightarrow> unit result" where
  "check_capability_contract c =
     (let short = (\<lambda>n. n \<le> (16 :: nat)) in seq_res
       [raise_if (\<not> (short (length (cc_required_fact_types c)) \<and> short (length (cc_any_of_fact_types c))
           \<and> short (length (cc_allowed_fact_types c)) \<and> short (length (cc_forbidden_fact_types c))
           \<and> short (length (cc_allowed_source_types c)) \<and> short (length (cc_forbidden_source_types c))
           \<and> short (length (cc_required_artifact_types c)) \<and> short (length (cc_allowed_artifact_types c))
           \<and> short (length (cc_required_scope_match c)) \<and> short (length (cc_citation_requirements c))
           \<and> 0 \<le> cc_min_facts c \<and> cc_min_facts c \<le> 32 \<and> length (cc_notes c) \<le> 240)) (ValueError ''evidence_contract''),
        check_history_constraints (cc_history_constraints c),
        raise_if (\<not> opt_int_within 0 31536000 (sdp_max_age_seconds (cc_stale_data_policy c))) (ValueError ''max_age_seconds''),
        raise_if (\<not> (distinct (cc_required_fact_types c) \<and> distinct (cc_any_of_fact_types c)
           \<and> distinct (cc_allowed_fact_types c) \<and> distinct (cc_forbidden_fact_types c)))
          (ValueError ''duplicate_evidence_fact_type''),
        raise_if (set (cc_required_fact_types c) \<inter> set (cc_any_of_fact_types c) \<noteq> {})
          (ValueError ''required and any-of evidence facts must not overlap''),
        raise_if (\<not> set (cc_required_fact_types c) \<subseteq> set (cc_allowed_fact_types c))
          (ValueError ''required evidence facts must be allowed''),
        raise_if (\<not> set (cc_any_of_fact_types c) \<subseteq> set (cc_allowed_fact_types c))
          (ValueError ''any-of evidence facts must be allowed''),
        raise_if (set (cc_allowed_fact_types c) \<inter> set (cc_forbidden_fact_types c) \<noteq> {})
          (ValueError ''allowed and forbidden evidence facts must not overlap''),
        raise_if (set (cc_allowed_source_types c) \<inter> set (cc_forbidden_source_types c) \<noteq> {})
          (ValueError ''allowed and forbidden evidence sources must not overlap''),
        raise_if (\<not> distinct (cc_allowed_source_types c)) (ValueError ''duplicate_allowed_evidence_source''),
        raise_if (\<not> distinct (cc_forbidden_source_types c)) (ValueError ''duplicate_forbidden_evidence_source''),
        raise_if (\<not> distinct (cc_required_artifact_types c)) (ValueError ''duplicate_required_evidence_artifact''),
        raise_if (\<not> distinct (cc_allowed_artifact_types c)) (ValueError ''duplicate_allowed_evidence_artifact''),
        raise_if (\<not> set (cc_required_artifact_types c) \<subseteq> set (cc_allowed_artifact_types c))
          (ValueError ''required evidence artifacts must be allowed''),
        raise_if (\<not> distinct (cc_required_scope_match c)) (ValueError ''duplicate_required_scope_match''),
        raise_if (\<not> distinct (cc_citation_requirements c)) (ValueError ''duplicate_citation_requirement''),
        raise_if (list_ex (\<lambda>i. i = [] \<or> length i > 240) (cc_citation_requirements c))
          (ValueError ''invalid_citation_requirement''),
        raise_if (\<not> cc_allow_history c \<and> cc_history_constraints c \<noteq> no_history)
          (ValueError ''history_constraints_require_history_admission''),
        raise_if (cc_allow_history c \<and> (hc_allowed_roles (cc_history_constraints c) = []
           \<or> hc_max_turns (cc_history_constraints c) = None \<and> hc_max_age_seconds (cc_history_constraints c) = None))
          (ValueError ''history_admission_requires_bounded_constraints''),
        raise_if (cc_citation_required c \<and> cc_citation_requirements c = [])
          (ValueError ''citation_required_without_requirements''),
        raise_if ((cc_required_fact_types c \<noteq> [] \<or> cc_any_of_fact_types c \<noteq> [] \<or> cc_forbidden_fact_types c \<noteq> [])
           \<and> cc_allowed_fact_types c = []) (ValueError ''evidence_contract_requires_allowed_fact_types'')])"

section \<open>The sealed contracts\<close>

definition free_contract :: "fallback_policy \<Rightarrow> capability_contract" where
  "free_contract fallback =
     \<lparr>cc_required_fact_types = [], cc_any_of_fact_types = [], cc_allowed_fact_types = [],
      cc_forbidden_fact_types = [], cc_allowed_source_types = [], cc_forbidden_source_types = [],
      cc_required_artifact_types = [], cc_allowed_artifact_types = [], cc_required_scope_match = [],
      cc_min_facts = 0, cc_allow_history = False, cc_history_constraints = no_history,
      cc_fallback_policy = fallback, cc_citation_required = False, cc_provenance_required = True,
      cc_citation_requirements = [], cc_stale_data_policy = any_age, cc_notes = []\<rparr>"

definition fact_contract ::
  "evidence_fact_type \<Rightarrow> evidence_source_type list \<Rightarrow> evidence_source_type list \<Rightarrow> evidence_artifact_type
   \<Rightarrow> capability_contract" where
  "fact_contract ft sources forbidden artifact =
     (free_contract Fallback_abstain)
       \<lparr>cc_required_fact_types := [ft], cc_allowed_fact_types := [ft], cc_allowed_source_types := sources,
        cc_forbidden_source_types := forbidden, cc_required_artifact_types := [artifact],
        cc_allowed_artifact_types := [artifact], cc_min_facts := 1\<rparr>"

fun evidence_contract_of :: "capability_manifest_id \<Rightarrow> capability_contract" where
  "evidence_contract_of Material_pack_send = fact_contract Fact_material_pack_resolvable [Src_adapter_resolve]
     [Src_adapter_report_scope, Src_conversation_history, Src_document_mcp] Art_material_pack"
| "evidence_contract_of Weekly_report_send = fact_contract Fact_weekly_report_resolvable [Src_adapter_resolve]
     [Src_adapter_report_scope, Src_conversation_history, Src_document_mcp] Art_weekly_report"
| "evidence_contract_of Monthly_report_send = fact_contract Fact_monthly_report_resolvable [Src_adapter_resolve]
     [Src_adapter_report_scope, Src_conversation_history, Src_document_mcp] Art_monthly_report"
| "evidence_contract_of Sales_handoff =
     fact_contract Fact_sales_mention_resolvable [Src_adapter_resolve] [] Art_adapter_context"
| "evidence_contract_of Weekly_report_product_list = fact_contract Fact_report_scope_products
     [Src_adapter_report_scope] [Src_adapter_resolve, Src_document_mcp] Art_weekly_report"
| "evidence_contract_of Monthly_report_product_list = fact_contract Fact_report_scope_products
     [Src_adapter_report_scope] [Src_adapter_resolve, Src_document_mcp] Art_monthly_report"
| "evidence_contract_of Answer_internal_company_knowledge = fact_contract Fact_document_context
     [Src_approved_static_knowledge, Src_document_mcp] [] Art_document_context"
| "evidence_contract_of General_clarification = free_contract Fallback_clarify"
| "evidence_contract_of General_smalltalk = free_contract Fallback_ignore"
| "evidence_contract_of General_no_reply = free_contract Fallback_ignore"
| "evidence_contract_of General_abstention = free_contract Fallback_abstain"
| "evidence_contract_of General_refusal = free_contract Fallback_abstain"
| "evidence_contract_of General_handoff = free_contract Fallback_abstain"

text \<open>The sealed contracts pass the validator that loads them.\<close>

lemma sealed_contracts_valid: "check_capability_contract (evidence_contract_of i) = Inr ()"
  by (cases i) (simp_all add: check_capability_contract_def check_history_constraints_def fact_contract_def
      free_contract_def no_history_def any_age_def opt_int_within_def seq_res_Inr Let_def)

section \<open>Mappings\<close>

fun capability_by_resolve_type :: "adapter_resolve_type \<Rightarrow> runtime_capability" where
  "capability_by_resolve_type Ar_material_pack = capability_by_name Cap_material_pack"
| "capability_by_resolve_type Ar_weekly_report = capability_by_name Cap_weekly_report"
| "capability_by_resolve_type Ar_monthly_report = capability_by_name Cap_monthly_report"
| "capability_by_resolve_type Ar_sales_mention = capability_by_name Cap_sales_mention"

fun capability_by_action_type :: "outbound_action_type \<Rightarrow> runtime_capability" where
  "capability_by_action_type Out_material_pack = capability_by_name Cap_material_pack"
| "capability_by_action_type Out_weekly_report = capability_by_name Cap_weekly_report"
| "capability_by_action_type Out_monthly_report = capability_by_name Cap_monthly_report"

definition action_type_for_resolve :: "adapter_resolve_type \<Rightarrow> outbound_action_type option" where
  "action_type_for_resolve t = rc_outbound_action_type (capability_by_resolve_type t)"

definition resolve_type_for_action :: "outbound_action_type \<Rightarrow> adapter_resolve_type option" where
  "resolve_type_for_action a = rc_resolve_type (capability_by_action_type a)"

definition ordered_resolve_types :: "adapter_resolve_type list \<Rightarrow> adapter_resolve_type list" where
  "ordered_resolve_types requested =
     filter (\<lambda>t. t \<in> set requested) [Ar_material_pack, Ar_weekly_report, Ar_monthly_report, Ar_sales_mention]"

lemma set_ordered_resolve_types [simp]: "set (ordered_resolve_types ts) = set ts"
proof (rule set_eqI)
  fix t
  show "t \<in> set (ordered_resolve_types ts) \<longleftrightarrow> t \<in> set ts"
    unfolding ordered_resolve_types_def set_filter by (cases t) simp_all
qed

lemma distinct_ordered_resolve_types: "distinct (ordered_resolve_types ts)"
  by (simp add: ordered_resolve_types_def)

lemma resolve_action_inverse:
  "action_type_for_resolve t = Some a \<longleftrightarrow> resolve_type_for_action a = Some t"
  by (cases t; cases a) (simp_all add: action_type_for_resolve_def resolve_type_for_action_def)

end
