(* ===== verification/Evidence_Values.thy ===== *)
theory Evidence_Values
  imports Evidence_Vocabulary
begin

text \<open>
  The values of canonical evidence: \<open>runtime/evidence/canonical_values.py\<close> and
  \<open>canonical_identity.py\<close>, with the validators of the models and the JSON their digests hash. The
  canonical decimal of a number is carried as its text.
\<close>

definition opt_length_within :: "nat \<Rightarrow> nat \<Rightarrow> pystr option \<Rightarrow> bool" where
  "opt_length_within lo hi v = (case v of None \<Rightarrow> True | Some s \<Rightarrow> lo \<le> length s \<and> length s \<le> hi)"

definition opt_nonneg :: "int option \<Rightarrow> bool" where
  "opt_nonneg v = (case v of None \<Rightarrow> True | Some i \<Rightarrow> 0 \<le> i)"

fun opt_int_json :: "int option \<Rightarrow> json" where
  "opt_int_json None = JNull"
| "opt_int_json (Some i) = JInt i"

text \<open>\<open>^[A-Za-z0-9][A-Za-z0-9._:~-]{0,159}$\<close>\<close>

fun adapter_ref_pattern :: "pystr \<Rightarrow> bool" where
  "adapter_ref_pattern [] = False"
| "adapter_ref_pattern (c # cs) =
     (is_alnum c \<and> list_all (\<lambda>d. is_alnum d \<or> d \<in> set ''._:~-'') cs \<and> length cs \<le> 159)"

section \<open>Scalar values\<close>

datatype media_type = Media_plain | Media_markdown | Media_json

fun media_type_str :: "media_type \<Rightarrow> pystr" where
  "media_type_str Media_plain = ''text/plain''"
| "media_type_str Media_markdown = ''text/markdown''"
| "media_type_str Media_json = ''application/json''"

datatype evidence_value =
    EvidenceNullValueV1
  | EvidenceBooleanValueV1 bool
  | EvidenceIntegerValueV1 int
  | EvidenceNumberValueV1 pystr
  | EvidenceStringValueV1 pystr
  | EvidenceContentValueV1 media_type pystr

fun check_evidence_value :: "evidence_value \<Rightarrow> unit result" where
  "check_evidence_value (EvidenceIntegerValueV1 i) =
     raise_if (\<not> (- (2 ^ 63) \<le> i \<and> i \<le> 2 ^ 63 - 1)) (ValueError ''value'')"
| "check_evidence_value (EvidenceStringValueV1 s) = raise_if (length s > 20000) (ValueError ''value'')"
| "check_evidence_value (EvidenceContentValueV1 _ t) = raise_if (length t > 1000000) (ValueError ''text'')"
| "check_evidence_value _ = Inr ()"

fun evidence_value_json :: "evidence_value \<Rightarrow> json" where
  "evidence_value_json EvidenceNullValueV1 = JObj [(''kind'', JStr ''null'')]"
| "evidence_value_json (EvidenceBooleanValueV1 b) = JObj [(''kind'', JStr ''boolean''), (''value'', JBool b)]"
| "evidence_value_json (EvidenceIntegerValueV1 i) = JObj [(''kind'', JStr ''integer''), (''value'', JInt i)]"
| "evidence_value_json (EvidenceNumberValueV1 s) = JObj [(''kind'', JStr ''number''), (''value'', JStr s)]"
| "evidence_value_json (EvidenceStringValueV1 s) = JObj [(''kind'', JStr ''string''), (''value'', JStr s)]"
| "evidence_value_json (EvidenceContentValueV1 m t) = JObj
     [(''kind'', JStr ''content''), (''media_type'', JStr (media_type_str m)), (''charset'', JStr ''utf-8''),
      (''text'', JStr t)]"

section \<open>Report payloads\<close>

record report_product =
  rp_product_name :: pystr
  rp_portfolio_type :: "pystr option"
  rp_report_section :: pystr
  rp_source_pdf_found :: bool
  rp_final_report_generated :: bool

definition check_report_product :: "report_product \<Rightarrow> report_product result" where
  "check_report_product p =
     res_bind (seq_res
       [raise_if (\<not> length_within 1 160 (rp_product_name p)) (ValueError ''product_name''),
        raise_if (\<not> opt_length_within 1 120 (rp_portfolio_type p)) (ValueError ''portfolio_type''),
        raise_if (\<not> length_within 1 160 (rp_report_section p)) (ValueError ''report_section'')])
       (\<lambda>_. Inr p)"

definition report_product_json :: "report_product \<Rightarrow> json" where
  "report_product_json p = JObj
     [(''product_name'', JStr (rp_product_name p)), (''portfolio_type'', opt_json (rp_portfolio_type p)),
      (''report_section'', JStr (rp_report_section p)),
      (''source_pdf_status'', JStr (if rp_source_pdf_found p then ''found'' else ''missing'')),
      (''final_report_status'', JStr (if rp_final_report_generated p then ''generated'' else ''not_generated''))]"

record report_section =
  rs_name :: pystr
  rs_source_pdf_count :: int
  rs_final_report_count :: int
  rs_missing_product_count :: int

definition check_report_section :: "report_section \<Rightarrow> report_section result" where
  "check_report_section s =
     res_bind (seq_res
       [raise_if (\<not> length_within 1 160 (rs_name s)) (ValueError ''name''),
        raise_if (rs_source_pdf_count s < 0) (ValueError ''source_pdf_count''),
        raise_if (rs_final_report_count s < 0) (ValueError ''final_report_count''),
        raise_if (rs_missing_product_count s < 0) (ValueError ''missing_product_count'')])
       (\<lambda>_. Inr s)"

definition report_section_json :: "report_section \<Rightarrow> json" where
  "report_section_json s = JObj
     [(''name'', JStr (rs_name s)), (''source_pdf_count'', JInt (rs_source_pdf_count s)),
      (''final_report_count'', JInt (rs_final_report_count s)),
      (''missing_product_count'', JInt (rs_missing_product_count s))]"

datatype report_material_type = Material_weekly | Material_monthly

fun report_material_str :: "report_material_type \<Rightarrow> pystr" where
  "report_material_str Material_weekly = ''weekly''"
| "report_material_str Material_monthly = ''monthly''"

record report_summary =
  rsu_material_type :: report_material_type
  rsu_period :: "pystr option"
  rsu_report_date :: "pystr option"
  rsu_period_start :: "pystr option"
  rsu_period_end :: "pystr option"
  rsu_period_label :: "pystr option"
  rsu_available :: bool
  rsu_reason_code :: pystr
  rsu_scope_complete :: "bool option"
  rsu_expected_product_count :: "int option"
  rsu_generated_product_count :: "int option"
  rsu_missing_product_count :: "int option"
  rsu_sections :: "report_section list"

definition check_report_summary :: "report_summary \<Rightarrow> report_summary result" where
  "check_report_summary s =
     res_bind (seq_res
       [raise_if (\<not> opt_within 40 (rsu_period s)) (ValueError ''period''),
        raise_if (\<not> opt_within 40 (rsu_report_date s)) (ValueError ''report_date''),
        raise_if (\<not> opt_within 40 (rsu_period_start s)) (ValueError ''period_start''),
        raise_if (\<not> opt_within 40 (rsu_period_end s)) (ValueError ''period_end''),
        raise_if (\<not> opt_within 80 (rsu_period_label s)) (ValueError ''period_label''),
        raise_if (length (rsu_reason_code s) > 120) (ValueError ''reason_code''),
        raise_if (\<not> opt_nonneg (rsu_expected_product_count s)) (ValueError ''expected_product_count''),
        raise_if (\<not> opt_nonneg (rsu_generated_product_count s)) (ValueError ''generated_product_count''),
        raise_if (\<not> opt_nonneg (rsu_missing_product_count s)) (ValueError ''missing_product_count''),
        raise_if (length (rsu_sections s) > 64) (ValueError ''sections'')])
       (\<lambda>_. Inr s)"

definition report_summary_json :: "report_summary \<Rightarrow> json" where
  "report_summary_json s = JObj
     [(''material_type'', JStr (report_material_str (rsu_material_type s))), (''period'', opt_json (rsu_period s)),
      (''report_date'', opt_json (rsu_report_date s)), (''period_start'', opt_json (rsu_period_start s)),
      (''period_end'', opt_json (rsu_period_end s)), (''period_label'', opt_json (rsu_period_label s)),
      (''available'', JBool (rsu_available s)), (''reason_code'', JStr (rsu_reason_code s)),
      (''scope_complete'', opt_bool_json (rsu_scope_complete s)),
      (''expected_product_count'', opt_int_json (rsu_expected_product_count s)),
      (''generated_product_count'', opt_int_json (rsu_generated_product_count s)),
      (''missing_product_count'', opt_int_json (rsu_missing_product_count s)),
      (''sections'', JList (map report_section_json (rsu_sections s)))]"

datatype report_match_status = Match_matched | Match_not_found | Match_ambiguous

fun report_match_status_str :: "report_match_status \<Rightarrow> pystr" where
  "report_match_status_str Match_matched = ''matched''"
| "report_match_status_str Match_not_found = ''not_found''"
| "report_match_status_str Match_ambiguous = ''ambiguous''"

datatype report_match_type = Match_section | Match_product

fun report_match_type_str :: "report_match_type \<Rightarrow> pystr" where
  "report_match_type_str Match_section = ''section''"
| "report_match_type_str Match_product = ''product''"

record report_match =
  rm_status :: report_match_status
  rm_query :: pystr
  rm_match_type :: "report_match_type option"
  rm_section :: "pystr option"
  rm_candidate_count :: int
  rm_products :: "report_product list"
  rm_page :: int
  rm_page_size :: int

definition check_page :: "int \<Rightarrow> int \<Rightarrow> unit result" where
  "check_page page page_size =
     seq_res [raise_if (\<not> (1 \<le> page \<and> page \<le> 65535)) (ValueError ''page''),
       raise_if (\<not> (1 \<le> page_size \<and> page_size \<le> 50)) (ValueError ''page_size'')]"

definition check_report_match :: "report_match \<Rightarrow> report_match result" where
  "check_report_match m =
     res_bind (seq_res
       [raise_if (\<not> length_within 1 200 (rm_query m)) (ValueError ''query''),
        raise_if (\<not> opt_length_within 1 160 (rm_section m)) (ValueError ''section''),
        raise_if (rm_candidate_count m < 0) (ValueError ''candidate_count''),
        raise_if (length (rm_products m) > 50) (ValueError ''products''),
        check_page (rm_page m) (rm_page_size m)])
       (\<lambda>_. Inr m)"

definition report_match_json :: "report_match \<Rightarrow> json" where
  "report_match_json m = JObj
     [(''status'', JStr (report_match_status_str (rm_status m))), (''query'', JStr (rm_query m)),
      (''match_type'', opt_json (map_option report_match_type_str (rm_match_type m))),
      (''section'', opt_json (rm_section m)), (''candidate_count'', JInt (rm_candidate_count m)),
      (''products'', JList (map report_product_json (rm_products m))),
      (''page'', JInt (rm_page m)), (''page_size'', JInt (rm_page_size m))]"

record report_products =
  rps_available :: bool
  rps_reason_code :: pystr
  rps_period :: "pystr option"
  rps_report_date :: "pystr option"
  rps_products :: "report_product list"
  rps_page :: int
  rps_page_size :: int
  rps_total_count :: int
  rps_returned_count :: int
  rps_full_product_list :: bool

definition check_report_products :: "report_products \<Rightarrow> report_products result" where
  "check_report_products r =
     res_bind (seq_res
       [raise_if (length (rps_reason_code r) > 120) (ValueError ''reason_code''),
        raise_if (\<not> opt_within 40 (rps_period r)) (ValueError ''period''),
        raise_if (\<not> opt_within 40 (rps_report_date r)) (ValueError ''report_date''),
        raise_if (length (rps_products r) > 200) (ValueError ''products''),
        check_page (rps_page r) (rps_page_size r),
        raise_if (rps_total_count r < 0) (ValueError ''total_count''),
        raise_if (rps_returned_count r < 0) (ValueError ''returned_count''),
        raise_if (rps_returned_count r \<noteq> int (length (rps_products r)))
          (ValueError ''report_products_returned_count_mismatch''),
        raise_if (rps_full_product_list r \<noteq> (rps_total_count r \<le> rps_returned_count r))
          (ValueError ''report_products_projection_completeness_mismatch'')])
       (\<lambda>_. Inr r)"

definition report_products_json :: "report_products \<Rightarrow> json" where
  "report_products_json r = JObj
     [(''available'', JBool (rps_available r)), (''reason_code'', JStr (rps_reason_code r)),
      (''period'', opt_json (rps_period r)), (''report_date'', opt_json (rps_report_date r)),
      (''products'', JList (map report_product_json (rps_products r))),
      (''page'', JInt (rps_page r)), (''page_size'', JInt (rps_page_size r)),
      (''total_count'', JInt (rps_total_count r)), (''returned_count'', JInt (rps_returned_count r)),
      (''products_are_paginated'', JBool True),
      (''full_product_list_in_projection'', JBool (rps_full_product_list r))]"

section \<open>Executed actions\<close>

datatype report_artifact = Report_material_pack | Report_weekly | Report_monthly

fun report_artifact_str :: "report_artifact \<Rightarrow> pystr" where
  "report_artifact_str Report_material_pack = ''material_pack''"
| "report_artifact_str Report_weekly = ''weekly_report''"
| "report_artifact_str Report_monthly = ''monthly_report''"

fun artifact_of_action :: "outbound_action_type \<Rightarrow> report_artifact" where
  "artifact_of_action Out_material_pack = Report_material_pack"
| "artifact_of_action Out_weekly_report = Report_weekly"
| "artifact_of_action Out_monthly_report = Report_monthly"

record executed_action =
  xa_action_type :: outbound_action_type
  xa_artifact_type :: report_artifact
  xa_artifact_ref :: "pystr option"
  xa_material_option :: "pystr option"
  xa_period :: "pystr option"
  xa_report_date :: "pystr option"
  xa_status_revision :: int
  xa_response_id :: pystr
  xa_action_id :: pystr
  xa_received_at :: int

definition check_executed_action :: "executed_action \<Rightarrow> executed_action result" where
  "check_executed_action a =
     res_bind (seq_res
       [raise_if (\<not> (case xa_artifact_ref a of None \<Rightarrow> True | Some r \<Rightarrow> adapter_ref_pattern r)) (ValueError ''artifact_ref''),
        raise_if (case xa_artifact_ref a of None \<Rightarrow> False | Some r \<Rightarrow> py_in ''..'' r)
          (ValueError ''canonical_executed_action_artifact_ref_invalid''),
        raise_if (\<not> opt_length_within 1 80 (xa_material_option a)) (ValueError ''material_option''),
        raise_if (\<not> opt_length_within 1 40 (xa_period a)) (ValueError ''period''),
        raise_if (\<not> opt_length_within 1 40 (xa_report_date a)) (ValueError ''report_date''),
        raise_if (xa_status_revision a < 1) (ValueError ''status_revision''),
        raise_if (\<not> prefixed_hex ''resp-'' 32 (xa_response_id a)) (ValueError ''response_id''),
        raise_if (\<not> prefixed_hex ''act-'' 32 (xa_action_id a)) (ValueError ''action_id''),
        raise_if (xa_received_at a < 0) (ValueError ''received_at_epoch_seconds''),
        raise_if (xa_artifact_type a \<noteq> artifact_of_action (xa_action_type a))
          (ValueError ''canonical_executed_action_artifact_type_mismatch''),
        raise_if (xa_artifact_type a = Report_material_pack \<and> (xa_period a \<noteq> None \<or> xa_report_date a \<noteq> None))
          (ValueError ''canonical_material_pack_action_report_metadata_forbidden''),
        raise_if (xa_artifact_type a \<noteq> Report_material_pack \<and> xa_material_option a \<noteq> None)
          (ValueError ''canonical_report_action_material_option_forbidden'')])
       (\<lambda>_. Inr a)"

section \<open>Payloads\<close>

datatype report_payload =
    PayloadSummary report_summary
  | PayloadMatch report_match
  | PayloadProducts report_products

fun report_payload_json :: "report_payload \<Rightarrow> json" where
  "report_payload_json (PayloadSummary s) = report_summary_json s"
| "report_payload_json (PayloadMatch m) = report_match_json m"
| "report_payload_json (PayloadProducts r) = report_products_json r"

text \<open>The three report payloads carry a null value and share their shape; their \<open>kind\<close> tells them apart.\<close>

datatype evidence_payload =
    ScalarEvidencePayload evidence_value
  | ReportEvidencePayload report_payload
  | RecentExecutedActionPayload executed_action

fun report_payload_kind :: "report_payload \<Rightarrow> pystr" where
  "report_payload_kind (PayloadSummary _) = ''report_summary''"
| "report_payload_kind (PayloadMatch _) = ''report_match''"
| "report_payload_kind (PayloadProducts _) = ''report_products''"

fun evidence_payload_json :: "evidence_payload \<Rightarrow> json" where
  "evidence_payload_json (ScalarEvidencePayload v) =
     JObj [(''kind'', JStr ''scalar''), (''value'', evidence_value_json v)]"
| "evidence_payload_json (ReportEvidencePayload p) =
     JObj [(''kind'', JStr (report_payload_kind p)), (''value'', evidence_value_json EvidenceNullValueV1),
       (''report_payload'', report_payload_json p)]"
| "evidence_payload_json (RecentExecutedActionPayload a) =
     JObj [(''kind'', JStr ''recent_executed_action''), (''value'', evidence_value_json EvidenceNullValueV1),
       (''action_type'', JStr (outbound_action_str (xa_action_type a))),
       (''artifact_type'', JStr (report_artifact_str (xa_artifact_type a))),
       (''artifact_ref'', opt_json (xa_artifact_ref a)), (''material_option'', opt_json (xa_material_option a)),
       (''period'', opt_json (xa_period a)), (''report_date'', opt_json (xa_report_date a)),
       (''status_revision'', JInt (xa_status_revision a)), (''response_id'', JStr (xa_response_id a)),
       (''action_id'', JStr (xa_action_id a)), (''received_at_epoch_seconds'', JInt (xa_received_at a))]"

section \<open>Scope, provenance and source records\<close>

datatype evidence_scope =
    DistributionEvidenceScopeIdentityV1 (es_ref: pystr) (es_channel: channel_type) (es_product_ids: "pystr list")
      (es_artifact_type: pystr) (es_material_option: "pystr option") (es_period: "pystr option")
      (es_report_date: "pystr option")
  | UnscopedEvidenceScopeIdentityV1 (es_artifact_type: pystr) (es_material_option: "pystr option")
      (es_period: "pystr option") (es_report_date: "pystr option")

definition check_scope_detail ::
  "pystr \<Rightarrow> pystr option \<Rightarrow> pystr option \<Rightarrow> pystr option \<Rightarrow> unit result" where
  "check_scope_detail artifact option period date =
     seq_res [raise_if (\<not> length_within 1 80 artifact) (ValueError ''artifact_type''),
       raise_if (\<not> opt_within 80 option) (ValueError ''material_option''),
       raise_if (\<not> opt_within 40 period) (ValueError ''period''),
       raise_if (\<not> opt_within 40 date) (ValueError ''report_date'')]"

fun check_evidence_scope :: "evidence_scope \<Rightarrow> evidence_scope result" where
  "check_evidence_scope (DistributionEvidenceScopeIdentityV1 ref channel ids artifact option period date) =
     res_bind (seq_res [raise_if (\<not> prefixed_hex ''bsr:'' 32 ref) (ValueError ''business_scope_ref''),
       raise_if (length ids > 1000) (ValueError ''product_ids''),
       check_scope_detail artifact option period date])
     (\<lambda>_. Inr (DistributionEvidenceScopeIdentityV1 ref channel ids artifact option period date))"
| "check_evidence_scope (UnscopedEvidenceScopeIdentityV1 artifact option period date) =
     res_bind (check_scope_detail artifact option period date)
       (\<lambda>_. Inr (UnscopedEvidenceScopeIdentityV1 artifact option period date))"

definition scope_detail_members ::
  "pystr \<Rightarrow> pystr option \<Rightarrow> pystr option \<Rightarrow> pystr option \<Rightarrow> (pystr \<times> json) list" where
  "scope_detail_members artifact option period date =
     [(''artifact_type'', JStr artifact), (''material_option'', opt_json option), (''period'', opt_json period),
      (''report_date'', opt_json date)]"

fun evidence_scope_json :: "evidence_scope \<Rightarrow> json" where
  "evidence_scope_json (DistributionEvidenceScopeIdentityV1 ref channel ids artifact option period date) = JObj
     ([(''kind'', JStr ''distribution''), (''business_scope_ref'', JStr ref),
       (''channel_kind'', JStr (channel_type_str channel)), (''product_ids'', JList (map JStr ids))]
      @ scope_detail_members artifact option period date)"
| "evidence_scope_json (UnscopedEvidenceScopeIdentityV1 artifact option period date) = JObj
     ((''kind'', JStr ''unscoped'') # scope_detail_members artifact option period date)"

definition evidence_scope_ref :: "(pybytes \<Rightarrow> pystr) \<Rightarrow> evidence_scope \<Rightarrow> pystr" where
  "evidence_scope_ref sha s = hash_canonical_model sha ''evidence-scope.v1'' (evidence_scope_json s) ''escope1''"

record evidence_provenance =
  pv_source_class :: pystr
  pv_source_record_ref :: pystr
  pv_producer_contract_version :: pystr
  pv_retrieval_operation :: pystr
  pv_scope_ref :: pystr
  pv_as_of :: "int option"
  pv_public_url_hashes :: "pystr list"

definition check_evidence_provenance :: "evidence_provenance \<Rightarrow> evidence_provenance result" where
  "check_evidence_provenance p =
     (let urls = pv_public_url_hashes p in
      res_bind (seq_res
       [raise_if (\<not> length_within 1 80 (pv_source_class p)) (ValueError ''source_class''),
        raise_if (\<not> prefixed_hex ''esr1:'' 64 (pv_source_record_ref p)) (ValueError ''source_record_ref''),
        raise_if (\<not> length_within 1 120 (pv_producer_contract_version p)) (ValueError ''producer_contract_version''),
        raise_if (\<not> length_within 1 120 (pv_retrieval_operation p)) (ValueError ''retrieval_operation''),
        raise_if (\<not> prefixed_hex ''escope1:'' 64 (pv_scope_ref p)) (ValueError ''scope_ref''),
        raise_if (\<not> opt_nonneg (pv_as_of p)) (ValueError ''as_of_epoch_seconds''),
        raise_if (length urls > 32) (ValueError ''public_url_hashes''),
        raise_if (list_ex (\<lambda>v. \<not> startswith v ''puh1:'' \<or> length v \<noteq> 69) urls) (ValueError ''invalid_public_url_hash''),
        raise_if (\<not> distinct urls) (ValueError ''duplicate_public_url_hash'')])
       (\<lambda>_. Inr (p\<lparr>pv_public_url_hashes := sort urls\<rparr>)))"

definition evidence_provenance_json :: "evidence_provenance \<Rightarrow> json" where
  "evidence_provenance_json p = JObj
     [(''source_class'', JStr (pv_source_class p)), (''source_record_ref'', JStr (pv_source_record_ref p)),
      (''producer_contract_version'', JStr (pv_producer_contract_version p)),
      (''retrieval_operation'', JStr (pv_retrieval_operation p)), (''scope_ref'', JStr (pv_scope_ref p)),
      (''as_of_epoch_seconds'', opt_int_json (pv_as_of p)),
      (''public_url_hashes'', JList (map JStr (pv_public_url_hashes p)))]"

definition evidence_provenance_hash :: "(pybytes \<Rightarrow> pystr) \<Rightarrow> evidence_provenance \<Rightarrow> pystr" where
  "evidence_provenance_hash sha p =
     hash_canonical_model sha ''evidence-provenance.v1'' (evidence_provenance_json p) ''eph1''"

text \<open>The keys of source records. The adapter key has no build digest in any call of the code.\<close>

datatype source_record_key =
    ApprovedStaticRecord pystr pystr
  | DocumentMcpRecord pystr pystr pystr pystr
  | AdapterRecord pystr pystr adapter_resolve_type pystr

fun check_source_record_key :: "source_record_key \<Rightarrow> source_record_key result" where
  "check_source_record_key (ApprovedStaticRecord version canonical_id) =
     res_bind (seq_res [raise_if (\<not> length_within 1 120 version) (ValueError ''catalog_version''),
       raise_if (\<not> length_within 1 160 canonical_id) (ValueError ''canonical_id'')])
     (\<lambda>_. Inr (ApprovedStaticRecord version canonical_id))"
| "check_source_record_key (DocumentMcpRecord client corpus document entry) =
     res_bind (seq_res [raise_if (\<not> length_within 1 120 client) (ValueError ''client_contract_version''),
       raise_if (\<not> length_within 1 120 corpus) (ValueError ''corpus_version''),
       raise_if (\<not> length_within 1 160 document) (ValueError ''document_id''),
       raise_if (\<not> length_within 1 160 entry) (ValueError ''entry_id'')])
     (\<lambda>_. Inr (DocumentMcpRecord client corpus document entry))"
| "check_source_record_key (AdapterRecord service version t ref) =
     res_bind (seq_res [raise_if (\<not> length_within 1 120 service) (ValueError ''adapter_service_id''),
       raise_if (\<not> length_within 1 120 version) (ValueError ''adapter_contract_version''),
       raise_if (\<not> length_within 1 160 ref) (ValueError ''opaque_resolve_ref'')])
     (\<lambda>_. Inr (AdapterRecord service version t ref))"

fun source_record_json :: "source_record_key \<Rightarrow> json" where
  "source_record_json (ApprovedStaticRecord version canonical_id) = JObj
     [(''kind'', JStr ''approved_static''), (''catalog_version'', JStr version), (''canonical_id'', JStr canonical_id)]"
| "source_record_json (DocumentMcpRecord client corpus document entry) = JObj
     [(''kind'', JStr ''document_mcp''), (''client_contract_version'', JStr client), (''corpus_version'', JStr corpus),
      (''document_id'', JStr document), (''entry_id'', JStr entry)]"
| "source_record_json (AdapterRecord service version t ref) = JObj
     [(''kind'', JStr ''adapter''), (''adapter_service_id'', JStr service), (''adapter_contract_version'', JStr version),
      (''adapter_build_sha256'', JNull), (''resolve_type'', JStr (adapter_resolve_str t)),
      (''opaque_resolve_ref'', JStr ref)]"

definition evidence_source_record_ref :: "(pybytes \<Rightarrow> pystr) \<Rightarrow> source_record_key \<Rightarrow> pystr" where
  "evidence_source_record_ref sha k =
     hash_canonical_model sha ''evidence-source-record.v1'' (source_record_json k) ''esr1''"

definition evidence_value_hash :: "(pybytes \<Rightarrow> pystr) \<Rightarrow> evidence_payload \<Rightarrow> pystr" where
  "evidence_value_hash sha p = hash_canonical_model sha ''evidence-value.v1'' (evidence_payload_json p) ''evh1''"

record fact_identity =
  fi_source_class :: pystr
  fi_source_record_ref :: pystr
  fi_fact_type :: evidence_fact_type
  fi_artifact_type :: evidence_artifact_type
  fi_scope_ref :: pystr
  fi_as_of :: "int option"
  fi_value_hash :: pystr
  fi_provenance_hash :: pystr

definition check_fact_identity :: "fact_identity \<Rightarrow> fact_identity result" where
  "check_fact_identity i =
     res_bind (seq_res
       [raise_if (\<not> length_within 1 80 (fi_source_class i)) (ValueError ''source_class''),
        raise_if (\<not> prefixed_hex ''esr1:'' 64 (fi_source_record_ref i)) (ValueError ''source_record_ref''),
        raise_if (\<not> prefixed_hex ''escope1:'' 64 (fi_scope_ref i)) (ValueError ''scope_ref''),
        raise_if (\<not> opt_nonneg (fi_as_of i)) (ValueError ''as_of_epoch_seconds''),
        raise_if (\<not> prefixed_hex ''evh1:'' 64 (fi_value_hash i)) (ValueError ''value_hash''),
        raise_if (\<not> prefixed_hex ''eph1:'' 64 (fi_provenance_hash i)) (ValueError ''provenance_hash'')])
       (\<lambda>_. Inr i)"

definition fact_identity_json :: "fact_identity \<Rightarrow> json" where
  "fact_identity_json i = JObj
     [(''source_class'', JStr (fi_source_class i)), (''source_record_ref'', JStr (fi_source_record_ref i)),
      (''fact_type'', JStr (fact_type_str (fi_fact_type i))),
      (''artifact_type'', JStr (evidence_artifact_str (fi_artifact_type i))), (''scope_ref'', JStr (fi_scope_ref i)),
      (''as_of_epoch_seconds'', opt_int_json (fi_as_of i)), (''value_hash'', JStr (fi_value_hash i)),
      (''provenance_hash'', JStr (fi_provenance_hash i))]"

definition evidence_fact_id :: "(pybytes \<Rightarrow> pystr) \<Rightarrow> fact_identity \<Rightarrow> pystr" where
  "evidence_fact_id sha i = hash_canonical_model sha ''evidence-fact-id.v1'' (fact_identity_json i) ''eid1''"

definition public_evidence_url_hash :: "(pybytes \<Rightarrow> pystr) \<Rightarrow> pystr \<Rightarrow> pystr" where
  "public_evidence_url_hash sha url =
     sha256_frame sha ''public-evidence-url.v1'' (JObj [(''url'', JStr url)]) ''puh1''"

end
