(* ===== verification/Evidence_Facts.thy ===== *)
theory Evidence_Facts
  imports Evidence_Values
begin

text \<open>
  Canonical evidence facts and resolve bindings (\<open>runtime/evidence/canonical_models.py\<close>), the
  admission of a fact for a unit of the plan (\<open>admission.py\<close>) and the evidence requirements
  (\<open>requirements.py\<close>). A fact's identifier digests its source, type, scope, value and provenance.
\<close>

section \<open>Facts\<close>

record canonical_fact =
  cf_evidence_id :: pystr
  cf_fact_type :: evidence_fact_type
  cf_source_type :: evidence_source_type
  cf_artifact_type :: evidence_artifact_type
  cf_resolve_type :: "adapter_resolve_type option"
  cf_value :: evidence_value
  cf_scope :: evidence_scope
  cf_provenance :: evidence_provenance
  cf_observed_at :: "int option"
  cf_public_urls :: "pystr list"
  cf_report_payload :: "report_payload option"
  cf_recent_action :: "executed_action option"

fun payload_fact_type :: "report_payload \<Rightarrow> evidence_fact_type" where
  "payload_fact_type (PayloadSummary _) = Fact_report_scope_summary"
| "payload_fact_type (PayloadMatch _) = Fact_report_scope_match"
| "payload_fact_type (PayloadProducts _) = Fact_report_scope_products"

definition report_fact_types :: "evidence_fact_type list" where
  "report_fact_types = [Fact_report_scope_summary, Fact_report_scope_match, Fact_report_scope_products]"

definition check_canonical_fact :: "canonical_fact \<Rightarrow> canonical_fact result" where
  "check_canonical_fact f =
     (let report = (cf_fact_type f \<in> set report_fact_types);
          action = (cf_fact_type f = Fact_recent_executed_action)
      in res_bind (seq_res
       [raise_if (\<not> prefixed_hex ''eid1:'' 64 (cf_evidence_id f)) (ValueError ''evidence_id''),
        raise_if (\<not> opt_nonneg (cf_observed_at f)) (ValueError ''observed_at_epoch_seconds''),
        raise_if (length (cf_public_urls f) > 32) (ValueError ''public_urls''),
        raise_if (evidence_artifact_str (cf_artifact_type f) \<noteq> es_artifact_type (cf_scope f))
          (ValueError ''canonical_evidence_artifact_scope_mismatch''),
        raise_if (\<not> report \<and> cf_report_payload f \<noteq> None) (ValueError ''canonical_evidence_unexpected_report_payload''),
        raise_if (report \<and> cf_value f \<noteq> EvidenceNullValueV1) (ValueError ''canonical_evidence_report_value_must_be_null''),
        raise_if (report \<and> map_option payload_fact_type (cf_report_payload f) \<noteq> Some (cf_fact_type f))
          (ValueError ''canonical_evidence_report_payload_mismatch''),
        raise_if (action \<and> cf_value f \<noteq> EvidenceNullValueV1) (ValueError ''canonical_evidence_action_value_must_be_null''),
        raise_if (action \<and> cf_recent_action f = None) (ValueError ''canonical_evidence_action_payload_required''),
        raise_if (\<not> action \<and> cf_recent_action f \<noteq> None) (ValueError ''canonical_evidence_unexpected_action_payload'')])
       (\<lambda>_. Inr f))"

record resolve_binding =
  rb_evidence_id :: pystr
  rb_resolve_type :: adapter_resolve_type
  rb_source_record_ref :: pystr
  rb_scope_ref :: pystr
  rb_resolve_ref :: pystr
  rb_period :: "pystr option"
  rb_report_date :: "pystr option"

definition check_resolve_binding :: "resolve_binding \<Rightarrow> resolve_binding result" where
  "check_resolve_binding b =
     res_bind (seq_res
       [raise_if (\<not> prefixed_hex ''eid1:'' 64 (rb_evidence_id b)) (ValueError ''evidence_id''),
        raise_if (\<not> prefixed_hex ''esr1:'' 64 (rb_source_record_ref b)) (ValueError ''source_record_ref''),
        raise_if (\<not> prefixed_hex ''escope1:'' 64 (rb_scope_ref b)) (ValueError ''scope_ref''),
        raise_if (\<not> adapter_ref_pattern (rb_resolve_ref b)) (ValueError ''resolve_ref''),
        raise_if (\<not> opt_length_within 1 40 (rb_period b)) (ValueError ''period''),
        raise_if (\<not> opt_length_within 1 40 (rb_report_date b)) (ValueError ''report_date''),
        raise_if (py_in ''/'' (rb_resolve_ref b) \<or> py_in [CHR 0x5C] (rb_resolve_ref b)
            \<or> py_in ''://'' (rb_resolve_ref b) \<or> py_in ''..'' (rb_resolve_ref b))
          (ValueError ''canonical_resolve_binding_invalid_ref''),
        raise_if (rb_resolve_type b \<in> {Ar_material_pack, Ar_sales_mention}
            \<and> (rb_period b \<noteq> None \<or> rb_report_date b \<noteq> None))
          (ValueError ''canonical_resolve_binding_non_report_metadata'')])
       (\<lambda>_. Inr b)"

definition fact_payload_fields ::
  "evidence_fact_type \<Rightarrow> evidence_payload \<Rightarrow> (evidence_value \<times> report_payload option \<times> executed_action option) result" where
  "fact_payload_fields ft payload =
     (case payload of
        ScalarEvidencePayload v \<Rightarrow> Inr (v, None, None)
      | ReportEvidencePayload p \<Rightarrow>
          if ft \<noteq> payload_fact_type p then Inl (ValueError ''canonical_evidence_report_payload_fact_type_mismatch'')
          else Inr (EvidenceNullValueV1, Some p, None)
      | RecentExecutedActionPayload a \<Rightarrow>
          if ft \<noteq> Fact_recent_executed_action then Inl (ValueError ''canonical_evidence_action_payload_fact_type_mismatch'')
          else Inr (EvidenceNullValueV1, None, Some a))"

definition build_canonical_evidence_fact_v1 ::
  "(pybytes \<Rightarrow> pystr) \<Rightarrow> evidence_fact_type \<Rightarrow> evidence_source_type \<Rightarrow> evidence_artifact_type
   \<Rightarrow> adapter_resolve_type option \<Rightarrow> evidence_payload \<Rightarrow> evidence_scope \<Rightarrow> evidence_provenance
   \<Rightarrow> int option \<Rightarrow> pystr list \<Rightarrow> canonical_fact result" where
  "build_canonical_evidence_fact_v1 sha ft st artifact resolve payload scope pv observed urls =
     (let scope_ref = evidence_scope_ref sha scope;
          canonical_urls = sort_key fst (map (\<lambda>u. (public_evidence_url_hash sha u, u)) urls)
      in if pv_scope_ref pv \<noteq> scope_ref then Inl (ValueError ''canonical_evidence_provenance_scope_mismatch'')
      else if observed \<noteq> pv_as_of pv then Inl (ValueError ''canonical_evidence_observed_at_mismatch'')
      else if \<not> distinct (map fst canonical_urls) then Inl (ValueError ''canonical_evidence_duplicate_public_url'')
      else if pv_public_url_hashes pv \<noteq> map fst canonical_urls
      then Inl (ValueError ''canonical_evidence_provenance_public_urls_mismatch'')
      else res_bind (fact_payload_fields ft payload) (\<lambda>(v, report, action).
        res_bind (check_fact_identity
          \<lparr>fi_source_class = pv_source_class pv, fi_source_record_ref = pv_source_record_ref pv, fi_fact_type = ft,
           fi_artifact_type = artifact, fi_scope_ref = scope_ref, fi_as_of = pv_as_of pv,
           fi_value_hash = evidence_value_hash sha payload,
           fi_provenance_hash = evidence_provenance_hash sha pv\<rparr>) (\<lambda>identity.
          check_canonical_fact
            \<lparr>cf_evidence_id = evidence_fact_id sha identity, cf_fact_type = ft, cf_source_type = st,
             cf_artifact_type = artifact, cf_resolve_type = resolve, cf_value = v, cf_scope = scope,
             cf_provenance = pv, cf_observed_at = observed, cf_public_urls = map snd canonical_urls,
             cf_report_payload = report, cf_recent_action = action\<rparr>)))"

section \<open>Admission\<close>

definition canonical_fact_has_provenance_v1 :: "canonical_fact \<Rightarrow> bool" where
  "canonical_fact_has_provenance_v1 f =
     (let p = cf_provenance f in
      pv_source_class p \<noteq> [] \<and> pv_source_record_ref p \<noteq> [] \<and> pv_producer_contract_version p \<noteq> []
      \<and> pv_retrieval_operation p \<noteq> [] \<and> pv_scope_ref p \<noteq> [])"

definition history_sources :: "evidence_source_type list" where
  "history_sources = [Src_conversation_history, Src_user_message, Src_assistant_message, Src_history_summary]"

fun role_by_source :: "evidence_source_type \<Rightarrow> history_role option" where
  "role_by_source Src_user_message = Some History_user"
| "role_by_source Src_assistant_message = Some History_assistant"
| "role_by_source _ = None"

definition canonical_history_allowed_v1 :: "canonical_fact \<Rightarrow> capability_contract \<Rightarrow> int option \<Rightarrow> bool" where
  "canonical_history_allowed_v1 f contract epoch =
     (let h = cc_history_constraints contract in
      if cf_source_type f \<notin> set history_sources then True
      else if \<not> cc_allow_history contract then False
      else (case role_by_source (cf_source_type f) of
          None \<Rightarrow> False
        | Some role \<Rightarrow>
            role \<in> set (hc_allowed_roles h) \<and> hc_max_turns h = None
            \<and> (case hc_max_age_seconds h of
                 None \<Rightarrow> True
               | Some age \<Rightarrow> (case (epoch, cf_observed_at f) of (Some now, Some seen) \<Rightarrow> now - seen \<le> age | _ \<Rightarrow> False))))"

definition canonical_staleness_allowed_v1 :: "canonical_fact \<Rightarrow> capability_contract \<Rightarrow> int option \<Rightarrow> bool" where
  "canonical_staleness_allowed_v1 f contract epoch =
     (let policy = cc_stale_data_policy contract in
      if sdp_require_observed_at policy \<and> cf_observed_at f = None then False
      else (case sdp_max_age_seconds policy of
          None \<Rightarrow> True
        | Some age \<Rightarrow> (case (epoch, cf_observed_at f) of
              (Some now, Some seen) \<Rightarrow> \<not> now - seen > age \<or> sdp_on_stale policy = Stale_allow
            | _ \<Rightarrow> False)))"

definition required_distribution_scope_matches_v1 ::
  "pystr option \<Rightarrow> pystr list \<Rightarrow> plan_time_range option \<Rightarrow> evidence_scope \<Rightarrow> artifact_kind
   \<Rightarrow> scope_match_field list \<Rightarrow> bool" where
  "required_distribution_scope_matches_v1 option ids time_range fact_scope kind required =
     list_all (\<lambda>field. case field of
        Match_product_id \<Rightarrow> length ids = 1 \<and> ids = es_product_ids fact_scope
      | Match_material_pack_option \<Rightarrow> option = es_material_option fact_scope
      | Match_time_range \<Rightarrow> (case time_range of None \<Rightarrow> False | Some t \<Rightarrow> tr_period t = es_period fact_scope)
      | Match_artifact_type \<Rightarrow> artifact_kind_str kind = es_artifact_type fact_scope
      | _ \<Rightarrow> True) required"

definition canonical_scope_matches_unit_v1 ::
  "canonical_fact \<Rightarrow> execution_unit \<Rightarrow> scope_match_field list \<Rightarrow> bool" where
  "canonical_scope_matches_unit_v1 f u required =
     (case (eu_scope u, cf_scope f) of
        (DistributionExecutionDomainScopeV2 ref kind option ids time_range,
         DistributionEvidenceScopeIdentityV1 fref fkind fids _ _ _ _) \<Rightarrow>
          ref = fref \<and> kind = fkind \<and> ids = fids
          \<and> required_distribution_scope_matches_v1 option ids time_range (cf_scope f) (eu_artifact_kind u) required
      | (UnscopedExecutionDomainScopeV2, UnscopedEvidenceScopeIdentityV1 artifact _ _ _) \<Rightarrow>
          required = [] \<and> evidence_artifact_str (cf_artifact_type f) = artifact
      | _ \<Rightarrow> False)"

definition canonical_fact_admitted_for_unit_v1 ::
  "canonical_fact \<Rightarrow> execution_unit \<Rightarrow> capability_contract \<Rightarrow> int option \<Rightarrow> bool" where
  "canonical_fact_admitted_for_unit_v1 f u contract epoch =
     (cf_fact_type f \<in> set (cc_allowed_fact_types contract)
      \<and> cf_fact_type f \<notin> set (cc_forbidden_fact_types contract)
      \<and> (cc_provenance_required contract \<longrightarrow> canonical_fact_has_provenance_v1 f)
      \<and> (cc_allowed_source_types contract \<noteq> [] \<longrightarrow> cf_source_type f \<in> set (cc_allowed_source_types contract))
      \<and> cf_source_type f \<notin> set (cc_forbidden_source_types contract)
      \<and> (cc_allowed_artifact_types contract \<noteq> [] \<longrightarrow> cf_artifact_type f \<in> set (cc_allowed_artifact_types contract))
      \<and> canonical_scope_matches_unit_v1 f u (cc_required_scope_match contract)
      \<and> canonical_history_allowed_v1 f contract epoch
      \<and> canonical_staleness_allowed_v1 f contract epoch
      \<and> (\<not> cc_citation_required contract \<or> cf_public_urls f \<noteq> []))"

section \<open>Requirements\<close>

definition canonical_evidence_requirements_satisfied_v1 :: "canonical_fact list \<Rightarrow> capability_contract \<Rightarrow> bool" where
  "canonical_evidence_requirements_satisfied_v1 facts contract =
     (let types = set (map cf_fact_type facts) in
      set (cc_required_fact_types contract) \<subseteq> types
      \<and> (cc_any_of_fact_types contract \<noteq> [] \<longrightarrow> set (cc_any_of_fact_types contract) \<inter> types \<noteq> {})
      \<and> set (cc_required_artifact_types contract) \<subseteq> set (map cf_artifact_type facts)
      \<and> cc_min_facts contract \<le> int (length facts))"

end
