(* ===== verification/Adapter_Evidence.thy ===== *)
theory Adapter_Evidence
  imports Evidence_Facts
begin

text \<open>
  Evidence from the adapter: the wire models of \<open>schemas/adapter.py\<close>, the preflight of
  \<open>runtime/integrations/adapter/preflight.py\<close> and the facts and bindings of
  \<open>runtime/evidence/adapter_facts.py\<close>. The HTTP service is a parameter: what it answers to a batch of
  lookups, and the errors of the client.
\<close>

section \<open>Dictionaries by key\<close>

text \<open>\<open>{key(x): x for x in xs}.values()\<close>: the place of the first item of a key, the value of the last.\<close>

fun dict_put :: "('a \<Rightarrow> 'k) \<Rightarrow> 'a \<Rightarrow> 'a list \<Rightarrow> 'a list" where
  "dict_put key x [] = [x]"
| "dict_put key x (y # ys) = (if key y = key x then x # ys else y # dict_put key x ys)"

definition dict_values :: "('a \<Rightarrow> 'k) \<Rightarrow> 'a list \<Rightarrow> 'a list" where
  "dict_values key xs = fold (dict_put key) xs []"

lemma set_dict_put: "set (dict_put key x ys) \<subseteq> insert x (set ys)"
  by (induction key x ys rule: dict_put.induct) auto

lemma keys_dict_put: "key ` set (dict_put key x ys) = insert (key x) (key ` set ys)"
  by (induction key x ys rule: dict_put.induct) auto

lemma distinct_dict_put: "distinct (map key ys) \<Longrightarrow> distinct (map key (dict_put key x ys))"
proof (induction key x ys rule: dict_put.induct)
  case (2 key x y ys)
  then show ?case using keys_dict_put [of key x ys] by auto
qed simp

lemma dict_values_invariant:
  "distinct (map key ys) \<Longrightarrow>
     set (fold (dict_put key) xs ys) \<subseteq> set xs \<union> set ys
   \<and> key ` set (fold (dict_put key) xs ys) = key ` (set xs \<union> set ys)
   \<and> distinct (map key (fold (dict_put key) xs ys))"
proof (induction xs arbitrary: ys)
  case (Cons x xs)
  have "distinct (map key (dict_put key x ys))" using Cons.prems by (rule distinct_dict_put)
  from Cons.IH [OF this] set_dict_put [of key x ys] keys_dict_put [of key x ys]
  show ?case by (simp only: fold.simps comp_apply) (auto simp: image_Un)
qed simp

lemma dict_values_facts:
  "set (dict_values key xs) \<subseteq> set xs"
  "key ` set (dict_values key xs) = key ` set xs"
  "distinct (map key (dict_values key xs))"
  using dict_values_invariant [of key "[]" xs] by (simp_all add: dict_values_def)

lemma dict_put_new: "key x \<notin> key ` set ys \<Longrightarrow> dict_put key x ys = ys @ [x]"
  by (induction key x ys rule: dict_put.induct) auto

lemma dict_values_distinct: "distinct (map key xs) \<Longrightarrow> dict_values key xs = xs"
proof -
  have "distinct (map key (ys @ xs)) \<Longrightarrow> fold (dict_put key) xs ys = ys @ xs" for ys
  proof (induction xs arbitrary: ys)
    case (Cons x xs)
    from Cons.prems have "dict_put key x ys = ys @ [x]" by (intro dict_put_new) auto
    with Cons.IH [of "ys @ [x]"] Cons.prems show ?case by simp
  qed simp
  from this [of "[]"] show "distinct (map key xs) \<Longrightarrow> ?thesis" by (simp add: dict_values_def)
qed

text \<open>\<open>d.get(k)\<close> of such a dictionary.\<close>

definition dict_get :: "('a \<Rightarrow> 'k) \<Rightarrow> 'k \<Rightarrow> 'a list \<Rightarrow> 'a option" where
  "dict_get key k xs = find (\<lambda>x. key x = k) (rev xs)"

lemma dict_get_Some: "dict_get key k xs = Some x \<Longrightarrow> x \<in> set xs \<and> key x = k"
  by (auto simp: dict_get_def dest: find_Some_mem)

section \<open>Wire models\<close>

datatype adapter_resolve_status = St_resolved | St_missing | St_ambiguous | St_forbidden | St_temporarily_unavailable

fun clean_options :: "pystr list \<Rightarrow> pystr list \<Rightarrow> pystr list" where
  "clean_options output [] = output"
| "clean_options output (v # vs) =
     (let option = py_strip v in
      if option = [] \<or> option \<in> set output then clean_options output vs else clean_options (output @ [option]) vs)"

definition check_available_artifact :: "available_artifact_v2 \<Rightarrow> available_artifact_v2 result" where
  "check_available_artifact a =
     (let opts = clean_options [] (av_options a) in
      if av_type a \<noteq> Artifact_material_pack \<and> opts \<noteq> []
      then Inl (ValueError ''available_artifacts options are only valid for material_pack'')
      else Inr (a\<lparr>av_options := opts\<rparr>))"

record adapter_resolve_request =
  arq_resolve_type :: adapter_resolve_type
  arq_dist_name :: pystr
  arq_material_pack_option :: "pystr option"

record wire_report_section =
  wrs_name :: pystr
  wrs_expected_product_count :: int
  wrs_generated_product_count :: int
  wrs_missing_product_count :: int

definition check_wire_report_section :: "wire_report_section \<Rightarrow> unit result" where
  "check_wire_report_section s =
     seq_res [raise_if (wrs_name s = []) (ValueError ''name''),
       raise_if (wrs_expected_product_count s < 0) (ValueError ''expected_product_count''),
       raise_if (wrs_generated_product_count s < 0) (ValueError ''generated_product_count''),
       raise_if (wrs_missing_product_count s < 0) (ValueError ''missing_product_count'')]"

record adapter_resolve_result =
  arr_resolve_type :: adapter_resolve_type
  arr_status :: adapter_resolve_status
  arr_display_name :: pystr
  arr_reason_code :: pystr
  arr_candidates :: "pystr list"
  arr_channel_type :: channel_type
  arr_available_artifacts :: "available_artifact_v2 list"
  arr_resolved_at :: int
  arr_detail :: "pystr option"
  arr_resolve_ref :: "pystr option"
  arr_material_pack_option :: "pystr option"
  arr_period :: "pystr option"
  arr_report_date :: "pystr option"
  arr_period_start :: "pystr option"
  arr_period_end :: "pystr option"
  arr_period_label :: "pystr option"
  arr_source_trade_date :: "pystr option"
  arr_scope_complete :: "bool option"
  arr_expected_product_count :: "int option"
  arr_generated_product_count :: "int option"
  arr_missing_product_count :: "int option"
  arr_report_sections :: "wire_report_section list"

definition check_adapter_resolve_result :: "adapter_resolve_result \<Rightarrow> adapter_resolve_result result" where
  "check_adapter_resolve_result r =
     res_bind (map_res check_available_artifact (arr_available_artifacts r)) (\<lambda>artifacts.
     res_bind (validate_available_artifacts_unique [] artifacts) (\<lambda>_.
     res_bind (seq_res
       ([reject_raw_locator_text (arr_detail r) ''detail'',
         reject_raw_locator_text (arr_resolve_ref r) ''resolve_ref'',
         raise_if (\<not> opt_nonneg (arr_expected_product_count r)) (ValueError ''expected_product_count''),
         raise_if (\<not> opt_nonneg (arr_generated_product_count r)) (ValueError ''generated_product_count''),
         raise_if (\<not> opt_nonneg (arr_missing_product_count r)) (ValueError ''missing_product_count''),
         raise_if (length (arr_report_sections r) > 64) (ValueError ''report_sections'')]
        @ map check_wire_report_section (arr_report_sections r)
        @ [raise_if (arr_status r = St_resolved
             \<and> (case arr_resolve_ref r of None \<Rightarrow> True | Some s \<Rightarrow> py_strip s = []))
             (ValueError ''resolved adapter results must include resolve_ref'')]))
       (\<lambda>_. Inr (r\<lparr>arr_available_artifacts := artifacts\<rparr>))))"

section \<open>Preflight\<close>

record preflight_item =
  pfi_resolve_type :: adapter_resolve_type
  pfi_result :: "adapter_resolve_result option"
  pfi_error :: pystr

type_synonym preflight_snapshot = "preflight_item list"

definition preflight_available :: "preflight_snapshot \<Rightarrow> bool" where
  "preflight_available items = list_all (\<lambda>i. pfi_error i = []) items"

text \<open>
  The adapter as the preflight sees it: the error of the readiness check of a tenant, if any, and what a
  batch of lookups returns; \<open>adp_unspecified_name\<close> is the Chinese name of a channel not specified.
\<close>

record adapter_service =
  adp_ready :: "pystr \<Rightarrow> pystr option"
  adp_resolve_many :: "adapter_resolve_request list \<Rightarrow> pystr + adapter_resolve_result list"
  adp_unspecified_name :: pystr

definition kernel_distribution_name :: "pystr \<Rightarrow> kernel_reply_request \<Rightarrow> pystr" where
  "kernel_distribution_name unspecified r =
     (case kr_business_scope r of DistributionScopeV1 name _ _ \<Rightarrow> name | UnscopedScopeV1 \<Rightarrow> unspecified)"

definition material_pack_option_for_resolve_type ::
  "adapter_resolve_type \<Rightarrow> adapter_resolve list \<Rightarrow> pystr option" where
  "material_pack_option_for_resolve_type t resolves =
     (if t \<noteq> Ar_material_pack then None
      else case dict_get are_type t (filter (\<lambda>r. are_material_pack_option r \<noteq> None) resolves) of
        None \<Rightarrow> None
      | Some r \<Rightarrow> if are_material_pack_option r = Some [] then None else are_material_pack_option r)"

definition build_resolve_requests ::
  "pystr \<Rightarrow> kernel_reply_request \<Rightarrow> adapter_resolve_type list \<Rightarrow> adapter_resolve list
   \<Rightarrow> adapter_resolve_request list result" where
  "build_resolve_requests unspecified request types resolves =
     map_res (\<lambda>t. if kernel_distribution_name unspecified request = [] then Inl (ValueError ''dist_name'')
        else Inr \<lparr>arq_resolve_type = t, arq_dist_name = kernel_distribution_name unspecified request,
                  arq_material_pack_option = material_pack_option_for_resolve_type t resolves\<rparr>)
       (ordered_resolve_types types)"

definition preflight_items ::
  "adapter_resolve_request list \<Rightarrow> adapter_resolve_result list \<Rightarrow> preflight_snapshot" where
  "preflight_items requests results =
     map (\<lambda>q. let found = dict_get arr_resolve_type (arq_resolve_type q) results in
        \<lparr>pfi_resolve_type = arq_resolve_type q, pfi_result = found,
         pfi_error = (if found = None then ''adapter batch result missing'' else [])\<rparr>) requests"

definition preflight_collect ::
  "adapter_service \<Rightarrow> kernel_reply_request \<Rightarrow> adapter_resolve_type list \<Rightarrow> adapter_resolve list
   \<Rightarrow> preflight_snapshot result" where
  "preflight_collect adapter request types resolves =
     res_bind (build_resolve_requests (adp_unspecified_name adapter) request types resolves) (\<lambda>requests.
       let failed = (\<lambda>e. map (\<lambda>q. \<lparr>pfi_resolve_type = arq_resolve_type q, pfi_result = None, pfi_error = e\<rparr>) requests)
       in if requests = [] then Inr []
          else case adp_ready adapter (vi_tenant_ref (kr_identity request)) of
            Some e \<Rightarrow> Inr (failed e)
          | None \<Rightarrow> (case adp_resolve_many adapter requests of
              Inl e \<Rightarrow> Inr (failed e)
            | Inr results \<Rightarrow> Inr (preflight_items requests results)))"

section \<open>Facts and bindings\<close>

fun canonical_artifact_type_for_resolve :: "adapter_resolve_type \<Rightarrow> evidence_artifact_type" where
  "canonical_artifact_type_for_resolve Ar_material_pack = Art_material_pack"
| "canonical_artifact_type_for_resolve Ar_weekly_report = Art_weekly_report"
| "canonical_artifact_type_for_resolve Ar_monthly_report = Art_monthly_report"
| "canonical_artifact_type_for_resolve Ar_sales_mention = Art_adapter_context"

fun canonical_resolvable_fact_type :: "adapter_resolve_type \<Rightarrow> evidence_fact_type" where
  "canonical_resolvable_fact_type Ar_material_pack = Fact_material_pack_resolvable"
| "canonical_resolvable_fact_type Ar_weekly_report = Fact_weekly_report_resolvable"
| "canonical_resolvable_fact_type Ar_monthly_report = Fact_monthly_report_resolvable"
| "canonical_resolvable_fact_type Ar_sales_mention = Fact_sales_mention_resolvable"

definition canonical_scope_for_unit_v1 :: "execution_unit \<Rightarrow> evidence_artifact_type \<Rightarrow> evidence_scope" where
  "canonical_scope_for_unit_v1 u artifact =
     (case eu_scope u of
        DistributionExecutionDomainScopeV2 ref kind option ids time_range \<Rightarrow>
          DistributionEvidenceScopeIdentityV1 ref kind ids (evidence_artifact_str artifact) option
            (Option.bind time_range tr_period) None
      | UnscopedExecutionDomainScopeV2 \<Rightarrow>
          UnscopedEvidenceScopeIdentityV1 (evidence_artifact_str artifact) None None None)"

definition adapter_service_id :: pystr where
  "adapter_service_id = ''assistant-adapter''"

definition resolved_results ::
  "preflight_snapshot \<Rightarrow> adapter_resolve_type \<Rightarrow> (adapter_resolve_result \<times> pystr) option" where
  "resolved_results items t =
     Option.bind (dict_get pfi_resolve_type t
        (filter (\<lambda>i. case pfi_result i of None \<Rightarrow> False
           | Some r \<Rightarrow> arr_status r = St_resolved \<and> arr_resolve_ref r \<noteq> None) items))
       (\<lambda>i. Option.bind (pfi_result i) (\<lambda>r. map_option (Pair r) (arr_resolve_ref r)))"

text \<open>One resolved lookup of a unit: its fact and its binding.\<close>

definition resolve_evidence ::
  "(pybytes \<Rightarrow> pystr) \<Rightarrow> execution_unit \<times> adapter_resolve_type \<times> adapter_resolve_result \<times> pystr
   \<Rightarrow> (canonical_fact \<times> resolve_binding) result" where
  "resolve_evidence sha item = (case item of (u, t, res, ref) \<Rightarrow>
     (let artifact = canonical_artifact_type_for_resolve t in
      res_bind (check_evidence_scope (canonical_scope_for_unit_v1 u artifact)) (\<lambda>scope.
      res_bind (check_source_record_key (AdapterRecord adapter_service_id ''adapter-resolve'' t ref)) (\<lambda>record_key.
      res_bind (check_evidence_provenance
        \<lparr>pv_source_class = ''adapter'', pv_source_record_ref = evidence_source_record_ref sha record_key,
         pv_producer_contract_version = ''adapter-resolve'', pv_retrieval_operation = ''adapter_resolve'',
         pv_scope_ref = evidence_scope_ref sha scope, pv_as_of = Some (arr_resolved_at res),
         pv_public_url_hashes = []\<rparr>) (\<lambda>pv.
      res_bind (build_canonical_evidence_fact_v1 sha (canonical_resolvable_fact_type t) Src_adapter_resolve artifact
          (Some t) (ScalarEvidencePayload (EvidenceBooleanValueV1 True)) scope pv (Some (arr_resolved_at res)) []) (\<lambda>f.
      res_bind (check_resolve_binding
        \<lparr>rb_evidence_id = cf_evidence_id f, rb_resolve_type = t, rb_source_record_ref = pv_source_record_ref pv,
         rb_scope_ref = pv_scope_ref pv, rb_resolve_ref = ref, rb_period = arr_period res,
         rb_report_date = arr_report_date res\<rparr>) (\<lambda>b. Inr (f, b))))))))"

definition resolve_items ::
  "execution_unit list \<Rightarrow> preflight_snapshot
   \<Rightarrow> (execution_unit \<times> adapter_resolve_type \<times> adapter_resolve_result \<times> pystr) list" where
  "resolve_items units preflight =
     concat (map (\<lambda>u. List.map_filter (\<lambda>r. map_option (\<lambda>p. (u, are_type r, p))
        (resolved_results preflight (are_type r))) (eu_adapter_resolves u)) units)"

definition canonical_adapter_facts_v1 ::
  "(pybytes \<Rightarrow> pystr) \<Rightarrow> execution_plan \<Rightarrow> preflight_snapshot
   \<Rightarrow> (canonical_fact list \<times> resolve_binding list) result" where
  "canonical_adapter_facts_v1 sha plan preflight =
     res_bind (map_res (resolve_evidence sha) (resolve_items (ep_units plan) preflight)) (\<lambda>found.
       Inr (dict_values cf_evidence_id (map fst found), dict_values rb_evidence_id (map snd found)))"

end
