(* ===== verification/Recall.thy ===== *)
theory Recall
  imports Adapter_Evidence Plan_Shortcuts
begin

text \<open>
  Recall before planning: \<open>runtime/recall/outcome_models.py\<close>, \<open>question_models.py\<close>, \<open>turn_state.py\<close>,
  \<open>service.py\<close>, \<open>document_qa_recall.py\<close> and \<open>flow.py\<close>.

  The text search (normalisation, BM25 and its scores, over Chinese phrases) is a parameter: what it
  answers to a message. \<open>float_text\<close> is the \<open>repr\<close> of a float, \<open>wire_float\<close> its text in
  \<open>model_dump_json\<close>. The texts of a match that the flow does not read are left out.
\<close>

section \<open>Models\<close>

datatype recall_source_class = Rs_approved_static | Rs_document_mcp

fun recall_source_str :: "recall_source_class \<Rightarrow> pystr" where
  "recall_source_str Rs_approved_static = ''approved_static''"
| "recall_source_str Rs_document_mcp = ''document_mcp''"

datatype recall_candidate_reason = Rc_approved_recall_hit | Rc_approved_recall_hint | Rc_document_qa_candidate

fun recall_candidate_reason_str :: "recall_candidate_reason \<Rightarrow> pystr" where
  "recall_candidate_reason_str Rc_approved_recall_hit = ''approved_recall_hit''"
| "recall_candidate_reason_str Rc_approved_recall_hint = ''approved_recall_hint''"
| "recall_candidate_reason_str Rc_document_qa_candidate = ''document_qa_candidate''"

datatype recall_branch_status = Rb_not_called | Rb_ok | Rb_partial | Rb_unavailable | Rb_invalid

fun recall_branch_status_str :: "recall_branch_status \<Rightarrow> pystr" where
  "recall_branch_status_str Rb_not_called = ''not_called''"
| "recall_branch_status_str Rb_ok = ''ok''"
| "recall_branch_status_str Rb_partial = ''partial''"
| "recall_branch_status_str Rb_unavailable = ''unavailable''"
| "recall_branch_status_str Rb_invalid = ''invalid''"

datatype recall_branch_reason =
    Rr_disabled | Rr_not_needed | Rr_no_match | Rr_candidate_rejected | Rr_source_unavailable
  | Rr_source_invalid | Rr_ok

fun recall_branch_reason_str :: "recall_branch_reason \<Rightarrow> pystr" where
  "recall_branch_reason_str Rr_disabled = ''disabled''"
| "recall_branch_reason_str Rr_not_needed = ''not_needed''"
| "recall_branch_reason_str Rr_no_match = ''no_match''"
| "recall_branch_reason_str Rr_candidate_rejected = ''candidate_rejected''"
| "recall_branch_reason_str Rr_source_unavailable = ''source_unavailable''"
| "recall_branch_reason_str Rr_source_invalid = ''source_invalid''"
| "recall_branch_reason_str Rr_ok = ''ok''"

datatype recall_decision =
    Rd_disabled | Rd_no_match | Rd_advisory_candidates | Rd_shortcut_match | Rd_unavailable

fun recall_decision_str :: "recall_decision \<Rightarrow> pystr" where
  "recall_decision_str Rd_disabled = ''disabled''"
| "recall_decision_str Rd_no_match = ''no_match''"
| "recall_decision_str Rd_advisory_candidates = ''advisory_candidates''"
| "recall_decision_str Rd_shortcut_match = ''shortcut_match''"
| "recall_decision_str Rd_unavailable = ''unavailable''"

text \<open>\<open>^[a-zA-Z0-9][a-zA-Z0-9._:-]{0,n}$\<close>\<close>

definition recall_id_ok :: "nat \<Rightarrow> pystr \<Rightarrow> bool" where
  "recall_id_ok n s = (case s of [] \<Rightarrow> False
     | c # cs \<Rightarrow> is_alnum c \<and> length cs \<le> n \<and> list_all (\<lambda>d. is_alnum d \<or> d \<in> set ''._:-'') cs)"

definition candidate_id_ok :: "pystr \<Rightarrow> bool" where
  "candidate_id_ok = recall_id_ok 63"

definition canonical_id_ok :: "pystr \<Rightarrow> bool" where
  "canonical_id_ok = recall_id_ok 127"

record recall_candidate =
  rcv_candidate_id :: pystr
  rcv_canonical_id :: pystr
  rcv_source_class :: recall_source_class
  rcv_question :: pystr
  rcv_confidence :: rat
  rcv_reason_code :: recall_candidate_reason

definition recall_candidate_json :: "(rat \<Rightarrow> pystr) \<Rightarrow> recall_candidate \<Rightarrow> json" where
  "recall_candidate_json float_text c = JObj
     [(''contract_version'', JStr ''recall-candidate.v1''), (''candidate_id'', JStr (rcv_candidate_id c)),
      (''canonical_id'', JStr (rcv_canonical_id c)),
      (''source_class'', JStr (recall_source_str (rcv_source_class c))), (''question'', JStr (rcv_question c)),
      (''confidence'', JFloat (float_text (rcv_confidence c))),
      (''reason_code'', JStr (recall_candidate_reason_str (rcv_reason_code c)))]"

definition check_recall_candidate :: "(rat \<Rightarrow> pystr) \<Rightarrow> recall_candidate \<Rightarrow> recall_candidate result" where
  "check_recall_candidate float_text c =
     res_bind (seq_res
       [raise_if (\<not> candidate_id_ok (rcv_candidate_id c)) (ValueError ''candidate_id''),
        raise_if (\<not> canonical_id_ok (rcv_canonical_id c)) (ValueError ''canonical_id''),
        raise_if (\<not> length_within 1 400 (rcv_question c)) (ValueError ''question''),
        raise_if (\<not> (0 \<le> rcv_confidence c \<and> rcv_confidence c \<le> 1)) (ValueError ''confidence''),
        raise_if (length (canonical_json_bytes (recall_candidate_json float_text c)) > 4096)
          (ValueError ''recall_candidate_serialized_bytes_exceeded'')])
       (\<lambda>_. Inr c)"

record recall_branch_outcome =
  rbo_source_class :: recall_source_class
  rbo_status :: recall_branch_status
  rbo_accepted_count :: int
  rbo_rejected_count :: int
  rbo_reason_code :: recall_branch_reason

definition recall_branch_outcome_json :: "recall_branch_outcome \<Rightarrow> json" where
  "recall_branch_outcome_json b = JObj
     [(''source_class'', JStr (recall_source_str (rbo_source_class b))),
      (''status'', JStr (recall_branch_status_str (rbo_status b))),
      (''accepted_count'', JInt (rbo_accepted_count b)), (''rejected_count'', JInt (rbo_rejected_count b)),
      (''reason_code'', JStr (recall_branch_reason_str (rbo_reason_code b)))]"

definition check_branch_outcome :: "recall_branch_outcome \<Rightarrow> recall_branch_outcome result" where
  "check_branch_outcome b =
     res_bind (seq_res
       [raise_if (\<not> (0 \<le> rbo_accepted_count b \<and> rbo_accepted_count b \<le> 5)) (ValueError ''accepted_count''),
        raise_if (\<not> (0 \<le> rbo_rejected_count b \<and> rbo_rejected_count b \<le> 5)) (ValueError ''rejected_count'')])
       (\<lambda>_. Inr b)"

definition hit_threshold :: rat where
  "hit_threshold = 3242591731706757 / 4503599627370496"

record recall_shortcut_summary =
  rss_candidate_id :: pystr
  rss_canonical_id :: pystr
  rss_source_id :: pystr
  rss_selected_manifest_ref :: manifest_ref
  rss_confidence :: rat
  rss_reply_text_hash :: pystr
  rss_evidence_text_hash :: pystr

definition shortcut_summary_json :: "(rat \<Rightarrow> pystr) \<Rightarrow> recall_shortcut_summary \<Rightarrow> json" where
  "shortcut_summary_json float_text s = JObj
     [(''candidate_id'', JStr (rss_candidate_id s)), (''canonical_id'', JStr (rss_canonical_id s)),
      (''source_id'', JStr (rss_source_id s)),
      (''selected_manifest_ref'', manifest_ref_json (rss_selected_manifest_ref s)),
      (''confidence'', JFloat (float_text (rss_confidence s))),
      (''reply_text_hash'', JStr (rss_reply_text_hash s)), (''evidence_text_hash'', JStr (rss_evidence_text_hash s))]"

definition check_shortcut_summary :: "recall_shortcut_summary \<Rightarrow> recall_shortcut_summary result" where
  "check_shortcut_summary s =
     res_bind (seq_res
       [raise_if (\<not> candidate_id_ok (rss_candidate_id s)) (ValueError ''candidate_id''),
        raise_if (\<not> canonical_id_ok (rss_canonical_id s)) (ValueError ''canonical_id''),
        raise_if (\<not> length_within 1 160 (rss_source_id s)) (ValueError ''source_id''),
        raise_if (\<not> (hit_threshold \<le> rss_confidence s \<and> rss_confidence s \<le> 1)) (ValueError ''confidence''),
        raise_if (\<not> prefixed_hex ''rtx1:'' 64 (rss_reply_text_hash s)) (ValueError ''reply_text_hash''),
        raise_if (\<not> prefixed_hex ''evx1:'' 64 (rss_evidence_text_hash s)) (ValueError ''evidence_text_hash'')])
       (\<lambda>_. Inr s)"

record recall_outcome =
  ro_mode :: recall_mode
  ro_decision :: recall_decision
  ro_candidates :: "recall_candidate list"
  ro_branch_outcomes :: "recall_branch_outcome \<times> recall_branch_outcome"
  ro_shortcut_summary :: "recall_shortcut_summary option"
  ro_trace_hash :: pystr

text \<open>The candidates as \<open>model_dump_json\<close> prints them; only the length of the text matters.\<close>

definition candidate_payload_size :: "(rat \<Rightarrow> pystr) \<Rightarrow> recall_candidate list \<Rightarrow> nat" where
  "candidate_payload_size wire_float cs =
     length (canonical_json_bytes (JList (map (recall_candidate_json wire_float) cs)))"

definition check_recall_outcome :: "(rat \<Rightarrow> pystr) \<Rightarrow> recall_outcome \<Rightarrow> recall_outcome result" where
  "check_recall_outcome wire_float o' =
     res_bind (seq_res
       [raise_if (length (ro_candidates o') > 5) (ValueError ''candidates''),
        raise_if (\<not> prefixed_hex ''rch1:'' 64 (ro_trace_hash o')) (ValueError ''trace_hash''),
        raise_if ((rbo_source_class (fst (ro_branch_outcomes o')), rbo_source_class (snd (ro_branch_outcomes o')))
            \<noteq> (Rs_approved_static, Rs_document_mcp)) (ValueError ''recall_branch_order_mismatch''),
        raise_if (candidate_payload_size wire_float (ro_candidates o') > 5120)
          (ValueError ''recall_candidate_list_serialized_bytes_exceeded'')])
       (\<lambda>_. Inr o')"

section \<open>The state of a turn\<close>

record recall_shortcut_payload =
  rsp_candidate_id :: pystr
  rsp_canonical_id :: pystr
  rsp_selected_manifest_ref :: manifest_ref
  rsp_selected_media_asset_ids :: "pystr list"
  rsp_confidence :: rat
  rsp_question :: pystr
  rsp_reply_text :: pystr
  rsp_evidence_text :: pystr
  rsp_source_id :: pystr
  rsp_reply_text_hash :: pystr
  rsp_evidence_text_hash :: pystr

definition recall_reply_text_hash :: "(pybytes \<Rightarrow> pystr) \<Rightarrow> pystr \<Rightarrow> pystr" where
  "recall_reply_text_hash sha t = ''rtx1:'' @ sha (''recall-reply-text.v1'' @ [CHR 0x00] @ utf8 t)"

definition recall_evidence_text_hash :: "(pybytes \<Rightarrow> pystr) \<Rightarrow> pystr \<Rightarrow> pystr" where
  "recall_evidence_text_hash sha t = ''evx1:'' @ sha (''recall-evidence-text.v1'' @ [CHR 0x00] @ utf8 t)"

definition check_shortcut_payload ::
  "(pybytes \<Rightarrow> pystr) \<Rightarrow> recall_shortcut_payload \<Rightarrow> recall_shortcut_payload result" where
  "check_shortcut_payload sha p =
     res_bind (seq_res
       [raise_if (\<not> candidate_id_ok (rsp_candidate_id p)) (ValueError ''candidate_id''),
        raise_if (\<not> canonical_id_ok (rsp_canonical_id p)) (ValueError ''canonical_id''),
        raise_if (length (rsp_selected_media_asset_ids p) > 2) (ValueError ''selected_media_asset_ids''),
        raise_if (\<not> (hit_threshold \<le> rsp_confidence p \<and> rsp_confidence p \<le> 1)) (ValueError ''confidence''),
        raise_if (\<not> length_within 1 400 (rsp_question p)) (ValueError ''question''),
        raise_if (\<not> length_within 1 4000 (rsp_reply_text p)) (ValueError ''reply_text''),
        raise_if (\<not> length_within 1 5000 (rsp_evidence_text p)) (ValueError ''evidence_text''),
        raise_if (\<not> length_within 1 160 (rsp_source_id p)) (ValueError ''source_id''),
        raise_if (\<not> prefixed_hex ''rtx1:'' 64 (rsp_reply_text_hash p)) (ValueError ''reply_text_hash''),
        raise_if (\<not> prefixed_hex ''evx1:'' 64 (rsp_evidence_text_hash p)) (ValueError ''evidence_text_hash''),
        raise_if (rsp_reply_text_hash p \<noteq> recall_reply_text_hash sha (rsp_reply_text p))
          (ValueError ''recall_reply_text_hash_mismatch''),
        raise_if (rsp_evidence_text_hash p \<noteq> recall_evidence_text_hash sha (rsp_evidence_text p))
          (ValueError ''recall_evidence_text_hash_mismatch'')])
       (\<lambda>_. Inr p)"

record recall_turn_state =
  rts_outcome :: recall_outcome
  rts_shortcut_payload :: "recall_shortcut_payload option"

definition summary_of_payload :: "recall_shortcut_payload \<Rightarrow> recall_shortcut_summary" where
  "summary_of_payload p =
     \<lparr>rss_candidate_id = rsp_candidate_id p, rss_canonical_id = rsp_canonical_id p,
      rss_source_id = rsp_source_id p, rss_selected_manifest_ref = rsp_selected_manifest_ref p,
      rss_confidence = rsp_confidence p, rss_reply_text_hash = rsp_reply_text_hash p,
      rss_evidence_text_hash = rsp_evidence_text_hash p\<rparr>"

definition check_turn_state :: "recall_turn_state \<Rightarrow> recall_turn_state result" where
  "check_turn_state s =
     (if ro_decision (rts_outcome s) = Rd_shortcut_match
      then (case (ro_shortcut_summary (rts_outcome s), rts_shortcut_payload s) of
              (Some summary, Some payload) \<Rightarrow>
                if summary \<noteq> summary_of_payload payload then Inl (ValueError ''recall_shortcut_payload_mismatch'')
                else Inr s
            | _ \<Rightarrow> Inl (ValueError ''recall_shortcut_payload_mismatch''))
      else if rts_shortcut_payload s \<noteq> None then Inl (ValueError ''recall_unexpected_shortcut_payload'')
      else Inr s)"

record preplanner_transition =
  ppt_turn_state :: recall_turn_state
  ppt_shortcut_plan :: "execution_plan option"

definition recall_outcome_json :: "(rat \<Rightarrow> pystr) \<Rightarrow> recall_outcome \<Rightarrow> json" where
  "recall_outcome_json float_text o' = JObj
     [(''contract_version'', JStr ''recall-outcome.v1''), (''mode'', JStr (recall_mode_str (ro_mode o'))),
      (''decision'', JStr (recall_decision_str (ro_decision o'))),
      (''candidates'', JList (map (recall_candidate_json float_text) (ro_candidates o'))),
      (''branch_outcomes'', JList [recall_branch_outcome_json (fst (ro_branch_outcomes o')),
         recall_branch_outcome_json (snd (ro_branch_outcomes o'))]),
      (''shortcut_summary'', (case ro_shortcut_summary o' of None \<Rightarrow> JNull | Some s \<Rightarrow> shortcut_summary_json float_text s))]"

definition recall_outcome_hash :: "(pybytes \<Rightarrow> pystr) \<Rightarrow> (rat \<Rightarrow> pystr) \<Rightarrow> recall_outcome \<Rightarrow> pystr" where
  "recall_outcome_hash sha float_text o' =
     sha256_frame sha ''recall-outcome.v1'' (recall_outcome_json float_text o') ''rch1''"

definition zero_trace_hash :: pystr where
  "zero_trace_hash = ''rch1:'' @ replicate 64 CHR ''0''"

text \<open>What the functions read of the process: the digest and the two texts of a float.\<close>

record recall_codec =
  rcd_sha :: "pybytes \<Rightarrow> pystr"
  rcd_float_text :: "rat \<Rightarrow> pystr"
  rcd_wire_float :: "rat \<Rightarrow> pystr"

definition make_recall_outcome ::
  "recall_codec \<Rightarrow> recall_mode \<Rightarrow> recall_decision \<Rightarrow> recall_candidate list
   \<Rightarrow> recall_branch_outcome \<times> recall_branch_outcome \<Rightarrow> recall_shortcut_summary option \<Rightarrow> recall_outcome result" where
  "make_recall_outcome cd mode decision candidates branches summary =
     res_bind (check_recall_outcome (rcd_wire_float cd)
         \<lparr>ro_mode = mode, ro_decision = decision, ro_candidates = candidates, ro_branch_outcomes = branches,
          ro_shortcut_summary = summary, ro_trace_hash = zero_trace_hash\<rparr>)
       (\<lambda>draft. Inr (draft\<lparr>ro_trace_hash := recall_outcome_hash (rcd_sha cd) (rcd_float_text cd) draft\<rparr>))"

definition disabled_branch :: "recall_source_class \<Rightarrow> recall_branch_outcome" where
  "disabled_branch c =
     \<lparr>rbo_source_class = c, rbo_status = Rb_not_called, rbo_accepted_count = 0, rbo_rejected_count = 0,
      rbo_reason_code = Rr_disabled\<rparr>"

definition disabled_recall_transition :: "recall_codec \<Rightarrow> preplanner_transition result" where
  "disabled_recall_transition cd =
     res_bind (make_recall_outcome cd Recall_off Rd_disabled []
         (disabled_branch Rs_approved_static, disabled_branch Rs_document_mcp) None) (\<lambda>outcome.
       res_bind (check_turn_state \<lparr>rts_outcome = outcome, rts_shortcut_payload = None\<rparr>) (\<lambda>state.
         Inr \<lparr>ppt_turn_state = state, ppt_shortcut_plan = None\<rparr>))"

end
