(* ===== verification/Recall_Flow.thy ===== *)
theory Recall_Flow
  imports Recall
begin

text \<open>
  The collectors of recall and their merge: \<open>runtime/recall/question_models.py\<close>, \<open>service.py\<close>,
  \<open>document_qa_recall.py\<close> and \<open>flow.py\<close>.
\<close>

section \<open>Matches\<close>

datatype question_recall_decision = Qd_recall_hit | Qd_recall_hint | Qd_fail_open

datatype question_recall_status = Qs_disabled | Qs_unavailable | Qs_no_match | Qs_candidates | Qs_matched

datatype question_recall_source = Qsrc_document_mcp | Qsrc_approved_static_knowledge

record question_candidate =
  qc_entry_id :: pystr
  qc_canonical_id :: pystr
  qc_doc_id :: pystr
  qc_question :: pystr
  qc_source_type :: question_recall_source
  qc_score :: rat
  qc_confidence :: rat
  qc_coverage :: rat
  qc_matched_entities :: "pystr list"
  qc_answer_available :: bool

definition check_question_candidate :: "question_candidate \<Rightarrow> question_candidate result" where
  "check_question_candidate c =
     (let unit_interval = (\<lambda>x :: rat. 0 \<le> x \<and> x \<le> 1) in
      res_bind (seq_res
       [raise_if (\<not> length_within 1 120 (qc_entry_id c)) (ValueError ''entry_id''),
        raise_if (\<not> length_within 1 160 (qc_canonical_id c)) (ValueError ''canonical_id''),
        raise_if (\<not> length_within 1 160 (qc_doc_id c)) (ValueError ''doc_id''),
        raise_if (\<not> length_within 1 400 (qc_question c)) (ValueError ''question''),
        raise_if (\<not> unit_interval (qc_score c)) (ValueError ''score''),
        raise_if (\<not> unit_interval (qc_confidence c)) (ValueError ''confidence''),
        raise_if (\<not> unit_interval (qc_coverage c)) (ValueError ''coverage'')])
       (\<lambda>_. Inr c))"

record question_match =
  qm_status :: question_recall_status
  qm_decision :: question_recall_decision
  qm_confidence :: rat
  qm_candidates :: "question_candidate list"
  qm_reason_code :: pystr

definition make_question_recall_match ::
  "question_recall_status \<Rightarrow> question_recall_decision \<Rightarrow> pystr \<Rightarrow> question_candidate list \<Rightarrow> question_match result" where
  "make_question_recall_match status decision reason candidates =
     res_bind (seq_res
       [raise_if (length candidates > 8) (ValueError ''candidates''),
        raise_if (length reason > 120) (ValueError ''reason_code'')])
       (\<lambda>_. Inr \<lparr>qm_status = status, qm_decision = decision,
          qm_confidence = (case candidates of [] \<Rightarrow> 0 | c # _ \<Rightarrow> qc_confidence c),
          qm_candidates = candidates, qm_reason_code = reason\<rparr>)"

definition disabled_match :: "pystr \<Rightarrow> question_match result" where
  "disabled_match reason = make_question_recall_match Qs_disabled Qd_fail_open reason []"

definition fail_open_match :: "pystr \<Rightarrow> question_match result" where
  "fail_open_match reason = make_question_recall_match Qs_no_match Qd_fail_open reason []"

definition unavailable_match :: "pystr \<Rightarrow> question_match result" where
  "unavailable_match reason = make_question_recall_match Qs_unavailable Qd_fail_open reason []"

record qa_candidate =
  qa_doc_id :: pystr
  qa_question :: pystr
  qa_score :: rat

record qa_match =
  qam_status :: question_recall_status
  qam_candidates :: "qa_candidate list"
  qam_reason_code :: pystr

definition check_qa_match :: "qa_match \<Rightarrow> qa_match result" where
  "check_qa_match m =
     res_bind (seq_res
       [raise_if (\<not> list_all (\<lambda>c. length_within 1 160 (qa_doc_id c) \<and> length_within 1 400 (qa_question c)
            \<and> 0 \<le> qa_score c \<and> qa_score c \<le> 1) (qam_candidates m)) (ValueError ''candidate''),
        raise_if (length (qam_candidates m) > 8) (ValueError ''candidates''),
        raise_if (length (qam_reason_code m) > 120) (ValueError ''reason_code'')])
       (\<lambda>_. Inr m)"

section \<open>The branches\<close>

record branch_collection =
  bc_source_class :: recall_source_class
  bc_candidates :: "recall_candidate list"
  bc_rejected_count :: int
  bc_unavailable :: bool

definition unavailable_branch :: "recall_source_class \<Rightarrow> branch_collection" where
  "unavailable_branch c =
     \<lparr>bc_source_class = c, bc_candidates = [], bc_rejected_count = 0, bc_unavailable = True\<rparr>"

definition branch_outcome :: "branch_collection \<Rightarrow> recall_branch_outcome result" where
  "branch_outcome b =
     (let accepted = int (length (bc_candidates b)); rejected = bc_rejected_count b;
          outcome = (\<lambda>status a r reason. check_branch_outcome
            \<lparr>rbo_source_class = bc_source_class b, rbo_status = status, rbo_accepted_count = a,
             rbo_rejected_count = r, rbo_reason_code = reason\<rparr>)
      in if bc_unavailable b then outcome Rb_unavailable 0 0 Rr_source_unavailable
         else if accepted \<noteq> 0 \<and> rejected \<noteq> 0 then outcome Rb_partial accepted rejected Rr_candidate_rejected
         else if rejected \<noteq> 0 then outcome Rb_invalid accepted rejected Rr_source_invalid
         else if accepted \<noteq> 0 then outcome Rb_ok accepted rejected Rr_ok
         else outcome Rb_ok accepted rejected Rr_no_match)"

definition static_view :: "question_match \<Rightarrow> question_candidate \<Rightarrow> recall_candidate" where
  "static_view m c =
     \<lparr>rcv_candidate_id = qc_entry_id c, rcv_canonical_id = qc_canonical_id c,
      rcv_source_class = Rs_approved_static, rcv_question = qc_question c, rcv_confidence = qc_confidence c,
      rcv_reason_code = (if qc_answer_available c \<and> qm_decision m = Qd_recall_hit then Rc_approved_recall_hit
        else Rc_approved_recall_hint)\<rparr>"

definition document_view :: "(pybytes \<Rightarrow> pystr) \<Rightarrow> qa_candidate \<Rightarrow> recall_candidate" where
  "document_view sha c =
     (let digest = sha (''document-qa-candidate.v1'' @ [CHR 0x00] @ utf8 (qa_question c)) in
      \<lparr>rcv_candidate_id = ''document:'' @ take 16 digest, rcv_canonical_id = ''document_qa:'' @ digest,
       rcv_source_class = Rs_document_mcp, rcv_question = qa_question c, rcv_confidence = qa_score c,
       rcv_reason_code = Rc_document_qa_candidate\<rparr>)"

text \<open>The loop of both branch functions: a candidate that fails to validate is counted and left out.\<close>

fun collect_views ::
  "('a \<Rightarrow> recall_candidate result) \<Rightarrow> 'a list \<Rightarrow> recall_candidate list \<times> int" where
  "collect_views view [] = ([], 0)"
| "collect_views view (x # xs) =
     (case collect_views view xs of (cs, n) \<Rightarrow>
        (case view x of Inl _ \<Rightarrow> (cs, n + 1) | Inr c \<Rightarrow> (c # cs, n)))"

definition approved_static_branch :: "(rat \<Rightarrow> pystr) \<Rightarrow> question_match \<Rightarrow> branch_collection" where
  "approved_static_branch float_text m =
     (if qm_status m = Qs_unavailable then unavailable_branch Rs_approved_static
      else case collect_views
          (\<lambda>c. if qc_source_type c = Qsrc_document_mcp then Inl (ValueError ''source_type'')
               else check_recall_candidate float_text (static_view m c)) (qm_candidates m) of
        (cs, n) \<Rightarrow> \<lparr>bc_source_class = Rs_approved_static, bc_candidates = cs, bc_rejected_count = n,
                     bc_unavailable = False\<rparr>)"

definition document_recall_branch :: "recall_codec \<Rightarrow> qa_match \<Rightarrow> branch_collection" where
  "document_recall_branch cd m =
     (if qam_status m = Qs_unavailable then unavailable_branch Rs_document_mcp
      else case collect_views (\<lambda>c. check_recall_candidate (rcd_float_text cd) (document_view (rcd_sha cd) c))
          (qam_candidates m) of
        (cs, n) \<Rightarrow> \<lparr>bc_source_class = Rs_document_mcp, bc_candidates = cs, bc_rejected_count = n,
                     bc_unavailable = False\<rparr>)"

section \<open>Merge\<close>

definition candidate_key :: "recall_candidate \<Rightarrow> recall_source_class \<times> pystr" where
  "candidate_key c = (rcv_source_class c, rcv_canonical_id c)"

text \<open>The loop of \<open>merge_recall_candidates\<close>; \<open>merged\<close> is the dictionary's values in insertion order.\<close>

definition merge_step :: "recall_candidate list \<Rightarrow> recall_candidate \<Rightarrow> recall_candidate list" where
  "merge_step merged c =
     (case find (\<lambda>d. candidate_key d = candidate_key c) merged of
        None \<Rightarrow> dict_put candidate_key c merged
      | Some current \<Rightarrow>
          if rcv_confidence c > rcv_confidence current then dict_put candidate_key c merged else merged)"

definition source_order :: "recall_source_class \<Rightarrow> nat" where
  "source_order c = (case c of Rs_approved_static \<Rightarrow> 0 | Rs_document_mcp \<Rightarrow> 1)"

definition merge_rank :: "recall_candidate \<Rightarrow> rat \<times> nat \<times> pystr \<times> pystr" where
  "merge_rank c = (- rcv_confidence c, source_order (rcv_source_class c), rcv_canonical_id c, rcv_candidate_id c)"

definition merge_recall_candidates ::
  "recall_candidate list \<Rightarrow> recall_candidate list \<Rightarrow> recall_candidate list" where
  "merge_recall_candidates static document =
     take 5 (sort_key merge_rank (foldl merge_step [] (static @ document)))"

section \<open>The production collectors\<close>

text \<open>\<open>QuestionRecallService\<close>: \<open>blocked\<close> and \<open>search\<close> stand for the risk phrases and the text search.\<close>

record question_recall_service =
  qrs_blocked :: "pystr \<Rightarrow> bool"
  qrs_entries_empty :: bool
  qrs_search :: "pystr \<Rightarrow> question_match result"

record static_collection =
  sc_match :: question_match
  sc_shortcut_payload :: "recall_shortcut_payload option"

definition collect_enabled ::
  "question_recall_service \<Rightarrow> kernel_reply_request \<Rightarrow> policy_authority_core \<Rightarrow> question_match result" where
  "collect_enabled s request policy =
     (if \<not> pac_internal_knowledge policy \<or> Query_internal_company_info \<notin> set (pac_reads policy)
      then disabled_match ''document_read_policy_forbidden''
      else if qrs_blocked s (kr_message request) then fail_open_match ''compliance_risky_message''
      else if qrs_entries_empty s then unavailable_match ''question_recall_corpus_empty''
      else qrs_search s (kr_message request))"

definition question_collect ::
  "question_recall_service \<Rightarrow> kernel_reply_request \<Rightarrow> policy_authority_core \<Rightarrow> static_collection result" where
  "question_collect s request policy =
     res_bind (if pac_recall_mode policy = Recall_off then disabled_match ''recall_mode_off''
         else collect_enabled s request policy)
       (\<lambda>m. Inr \<lparr>sc_match = m, sc_shortcut_payload = None\<rparr>)"

text \<open>\<open>DocumentQaSearchService\<close>: \<open>fetch\<close> answers whether the parsed corpus is empty, or raises.\<close>

record document_qa_service =
  dqs_enabled :: bool
  dqs_base_url :: pystr
  dqs_channel_types :: "channel_type list"
  dqs_fetch :: "pystr \<Rightarrow> bool result"
  dqs_search :: "pystr \<Rightarrow> qa_match result"

definition qa_answer :: "question_recall_status \<Rightarrow> pystr \<Rightarrow> qa_match result" where
  "qa_answer status reason = check_qa_match \<lparr>qam_status = status, qam_candidates = [], qam_reason_code = reason\<rparr>"

definition document_collect ::
  "document_qa_service \<Rightarrow> kernel_reply_request \<Rightarrow> policy_authority_core \<Rightarrow> qa_match result" where
  "document_collect s request policy =
     (if \<not> dqs_enabled s \<or> dqs_base_url s = [] then qa_answer Qs_disabled ''document_mcp_disabled''
      else if kernel_channel_type request \<notin> set (dqs_channel_types s)
      then qa_answer Qs_disabled ''document_mcp_channel_forbidden''
      else if Query_internal_company_info \<notin> set (pac_reads policy)
      then qa_answer Qs_disabled ''document_mcp_policy_forbidden''
      else case dqs_fetch s (kr_message request) of
        Inl (DocumentMcpError _) \<Rightarrow> qa_answer Qs_unavailable ''document_mcp_error''
      | Inl (ValueError _) \<Rightarrow> qa_answer Qs_unavailable ''qa_entry_parse_error''
      | Inl QaCorpusShapeError \<Rightarrow> qa_answer Qs_unavailable ''qa_entry_corpus_invalid''
      | Inl e \<Rightarrow> Inl e
      | Inr no_entries \<Rightarrow>
          if no_entries then qa_answer Qs_no_match ''qa_entry_corpus_empty'' else dqs_search s (kr_message request))"

section \<open>The flow\<close>

text \<open>A collector is a function of the request and the policy that answers or raises.\<close>

record recall_runtime =
  rr_codec :: recall_codec
  rr_static :: "kernel_reply_request \<Rightarrow> policy_authority_core \<Rightarrow> static_collection result"
  rr_document :: "kernel_reply_request \<Rightarrow> policy_authority_core \<Rightarrow> qa_match result"

definition source_down :: "py_error \<Rightarrow> bool" where
  "source_down e = (case e of ConnectionError \<Rightarrow> True | DocumentMcpError _ \<Rightarrow> True | QaCorpusShapeError \<Rightarrow> True
     | TimeoutError \<Rightarrow> True | _ \<Rightarrow> False)"

definition collect_static ::
  "recall_runtime \<Rightarrow> kernel_reply_request \<Rightarrow> policy_authority_core
   \<Rightarrow> (branch_collection \<times> recall_shortcut_payload option) result" where
  "collect_static rt request policy =
     (case rr_static rt request policy of
        Inl e \<Rightarrow> if source_down e then Inr (unavailable_branch Rs_approved_static, None) else Inl e
      | Inr c \<Rightarrow> Inr (approved_static_branch (rcd_float_text (rr_codec rt)) (sc_match c), sc_shortcut_payload c))"

definition collect_document ::
  "recall_runtime \<Rightarrow> kernel_reply_request \<Rightarrow> policy_authority_core \<Rightarrow> branch_collection result" where
  "collect_document rt request policy =
     (case rr_document rt request policy of
        Inl e \<Rightarrow> if source_down e then Inr (unavailable_branch Rs_document_mcp) else Inl e
      | Inr m \<Rightarrow> Inr (document_recall_branch (rr_codec rt) m))"

definition shortcut_candidates :: "branch_collection \<Rightarrow> recall_shortcut_payload \<Rightarrow> recall_candidate list" where
  "shortcut_candidates b p =
     filter (\<lambda>c. rcv_candidate_id c = rsp_candidate_id p \<and> rcv_canonical_id c = rsp_canonical_id p
        \<and> rcv_confidence c = rsp_confidence p \<and> rcv_reason_code c = Rc_approved_recall_hit) (bc_candidates b)"

definition shortcut_source :: "recall_shortcut_payload \<Rightarrow> deterministic_input" where
  "shortcut_source p =
     \<lparr>di_user_need = ''answer approved static recall'',
      di_units = [\<lparr>du_unit_id = ''approved-static-recall'',
        du_manifest_id = manifest_id_str (mr_id (rsp_selected_manifest_ref p)), du_answerability = Ans_answer,
        du_material_pack_option = None, du_evidence_query = Some (rsp_question p), du_ambiguity_slots = [],
        du_risk_flags = []\<rparr>],
      di_compliance_reason_code = Reason_compliant_product_request, di_guardrail_decisions = [],
      di_confidence = rsp_confidence p\<rparr>"

definition shortcut_branches :: "recall_branch_outcome \<times> recall_branch_outcome" where
  "shortcut_branches =
     (\<lparr>rbo_source_class = Rs_approved_static, rbo_status = Rb_ok, rbo_accepted_count = 1, rbo_rejected_count = 0,
       rbo_reason_code = Rr_ok\<rparr>,
      \<lparr>rbo_source_class = Rs_document_mcp, rbo_status = Rb_not_called, rbo_accepted_count = 0,
       rbo_rejected_count = 0, rbo_reason_code = Rr_not_needed\<rparr>)"

definition shortcut_transition ::
  "recall_codec \<Rightarrow> branch_collection \<Rightarrow> recall_shortcut_payload \<Rightarrow> policy_manifest \<Rightarrow> business_scope_authority
   \<Rightarrow> preplanner_transition option result" where
  "shortcut_transition cd b p policy authority =
     (let matching = shortcut_candidates b p; core = pm_core policy;
          contract = evidence_contract_of (mr_id (rsp_selected_manifest_ref p))
      in if rsp_confidence p < hit_threshold \<or> length matching \<noteq> 1 \<or> bc_rejected_count b \<noteq> 0
            \<or> \<not> pac_internal_knowledge core \<or> rsp_selected_manifest_ref p \<notin> set (pac_eligible core) then Inr None
         else if registry_find (manifest_id_str (mr_id (rsp_selected_manifest_ref p))) = None
            \<or> Fact_document_context \<notin> set (cc_allowed_fact_types contract)
            \<or> Src_approved_static_knowledge \<notin> set (cc_allowed_source_types contract) then Inr None
         else case finalize_execution_plan_v2 (rcd_sha cd) (rcd_float_text cd) (FromDeterministic (shortcut_source p))
                policy authority Origin_approved_static_shortcut None of
           Inl e \<Rightarrow> if is_value_error e then Inr None else Inl e
         | Inr plan \<Rightarrow>
             if validate_execution_plan_v2 plan policy \<noteq> [] then Inr None
             else res_bind (check_shortcut_summary (summary_of_payload p)) (\<lambda>summary.
               res_bind (make_recall_outcome cd Recall_shortcut Rd_shortcut_match matching shortcut_branches (Some summary))
                 (\<lambda>outcome. res_bind (check_turn_state \<lparr>rts_outcome = outcome, rts_shortcut_payload = Some p\<rparr>)
                   (\<lambda>state. Inr (Some \<lparr>ppt_turn_state = state, ppt_shortcut_plan = Some plan\<rparr>)))))"

definition collected_decision ::
  "recall_candidate list \<Rightarrow> recall_branch_outcome \<times> recall_branch_outcome \<Rightarrow> recall_decision" where
  "collected_decision candidates branches =
     (if candidates \<noteq> [] then Rd_advisory_candidates
      else if rbo_status (fst branches) \<in> {Rb_invalid, Rb_unavailable}
           \<or> rbo_status (snd branches) \<in> {Rb_invalid, Rb_unavailable} then Rd_unavailable
      else Rd_no_match)"

text \<open>The part of \<open>collect_preplanner_recall\<close> after the shortcut.\<close>

definition advisory_transition ::
  "recall_runtime \<Rightarrow> branch_collection \<Rightarrow> kernel_reply_request \<Rightarrow> policy_authority_core \<Rightarrow> preplanner_transition result" where
  "advisory_transition rt static request policy =
     res_bind (collect_document rt request policy) (\<lambda>document.
     res_bind (branch_outcome static) (\<lambda>so. res_bind (branch_outcome document) (\<lambda>do'.
       let candidates = merge_recall_candidates (bc_candidates static) (bc_candidates document) in
       res_bind (make_recall_outcome (rr_codec rt) (pac_recall_mode policy)
           (collected_decision candidates (so, do')) candidates (so, do') None) (\<lambda>outcome.
       res_bind (check_turn_state \<lparr>rts_outcome = outcome, rts_shortcut_payload = None\<rparr>) (\<lambda>state.
         Inr \<lparr>ppt_turn_state = state, ppt_shortcut_plan = None\<rparr>)))))"

definition collect_preplanner_recall ::
  "recall_runtime \<Rightarrow> kernel_reply_request \<Rightarrow> policy_manifest \<Rightarrow> business_scope_authority
   \<Rightarrow> preplanner_transition result" where
  "collect_preplanner_recall rt request policy authority =
     (if pac_recall_mode (pm_core policy) = Recall_off then disabled_recall_transition (rr_codec rt)
      else res_bind (collect_static rt request (pm_core policy)) (\<lambda>(static, payload).
        res_bind (case payload of
            Some p \<Rightarrow> if pac_recall_mode (pm_core policy) = Recall_shortcut
              then shortcut_transition (rr_codec rt) static p policy authority else Inr None
          | None \<Rightarrow> Inr None) (\<lambda>shortcut.
        case shortcut of
          Some t \<Rightarrow> Inr t
        | None \<Rightarrow> advisory_transition rt static request (pm_core policy))))"

end
