(* ===== verification/Iso_Date.thy ===== *)
theory Iso_Date
  imports Feedback_Schema
begin

text \<open>
  \<open>datetime.date.fromisoformat\<close> followed by \<open>isoformat\<close>: \<open>strict_iso_date_v1\<close> of
  \<open>runtime/decisions/business_fact_models.py\<close> parses a date that the reply prints again. A \<open>date\<close> is
  carried by its \<open>isoformat\<close> text \<open>YYYY-MM-DD\<close>.

  From Python 3.11 on the parser takes the calendar forms \<open>YYYY-MM-DD\<close> and \<open>YYYYMMDD\<close> and the week
  forms \<open>YYYY-Www[-D]\<close> and \<open>YYYYWww[D]\<close>; a compact week date followed by two more characters is
  read as if they were not there. The length is that of the UTF-8 encoding.
\<close>

section \<open>The calendar\<close>

definition days_before_year :: "nat \<Rightarrow> nat" where
  "days_before_year y = (let p = y - 1 in p * 365 + p div 4 - p div 100 + p div 400)"

text \<open>Monday of week 1 of a year, as the number of its day (1 January of year 1 is day 1, a Monday).\<close>

definition iso_week1_monday :: "nat \<Rightarrow> int" where
  "iso_week1_monday y =
     (let first = int (days_before_year y) + 1;
          first_weekday = (first + 6) mod 7;
          monday = first - first_weekday
      in if first_weekday > 3 then monday + 7 else monday)"

fun month_day :: "nat \<Rightarrow> nat \<Rightarrow> nat list \<Rightarrow> (nat \<times> nat) option" where
  "month_day y n [] = None"
| "month_day y n (m # ms) = (if n < days_in_month y m then Some (m, n + 1) else month_day y (n - days_in_month y m) ms)"

text \<open>The date of a day number, near the year where it is looked for.\<close>

definition date_of_ordinal :: "nat \<Rightarrow> int \<Rightarrow> (nat \<times> nat \<times> nat) option" where
  "date_of_ordinal y n =
     (let year = (if n \<le> int (days_before_year y) then y - 1
                  else if int (days_before_year (y + 1)) < n then y + 1 else y)
      in if n < 1 \<or> year > 9999 then None
         else map_option (\<lambda>(m, d). (year, m, d)) (month_day year (nat n - 1 - days_before_year year) [1..<13]))"

definition long_iso_year :: "nat \<Rightarrow> bool" where
  "long_iso_year y =
     (let first_weekday = (int (days_before_year y) + 7) mod 7
      in first_weekday = 3 \<or> first_weekday = 2 \<and> leap_year y)"

definition week_date :: "nat \<Rightarrow> nat \<Rightarrow> nat \<Rightarrow> (nat \<times> nat \<times> nat) option" where
  "week_date y w d =
     (if y < 1 \<or> w < 1 \<or> d < 1 \<or> 7 < d \<or> 53 < w \<or> w = 53 \<and> \<not> long_iso_year y then None
      else date_of_ordinal y (iso_week1_monday y + int (w - 1) * 7 + int (d - 1)))"

definition calendar_date :: "nat \<Rightarrow> nat \<Rightarrow> nat \<Rightarrow> (nat \<times> nat \<times> nat) option" where
  "calendar_date y m d =
     (if 1 \<le> y \<and> 1 \<le> m \<and> m \<le> 12 \<and> 1 \<le> d \<and> d \<le> days_in_month y m then Some (y, m, d) else None)"

section \<open>Parsing and printing\<close>

fun digits_val :: "pystr \<Rightarrow> nat option" where
  "digits_val [] = Some 0"
| "digits_val (c # cs) = (if is_digit c then map_option (\<lambda>v. digit_val c * 10 ^ length cs + v) (digits_val cs) else None)"

definition with_numbers ::
  "(nat \<Rightarrow> nat \<Rightarrow> nat \<Rightarrow> (nat \<times> nat \<times> nat) option) \<Rightarrow> pystr \<Rightarrow> pystr \<Rightarrow> pystr \<Rightarrow> (nat \<times> nat \<times> nat) option" where
  "with_numbers f a b c =
     (case (digits_val a, digits_val b, digits_val c) of
        (Some x, Some y, Some z) \<Rightarrow> f x y z | _ \<Rightarrow> None)"

text \<open>After the year: \<open>-W\<close>, \<open>W\<close>, \<open>-\<close> or the month.\<close>

definition fromisoformat :: "pystr \<Rightarrow> (nat \<times> nat \<times> nat) option" where
  "fromisoformat s =
     (let text = utf8 s; year = take 4 text; rest = drop 4 text in
      if length text \<notin> {7, 8, 10} then None
      else if startswith rest ''-W'' then
        (let w = drop 2 rest in
         if length w = 2 then with_numbers week_date year w ''1''
         else if length w = 4 \<and> w ! 2 = CHR ''-'' then with_numbers week_date year (take 2 w) (drop 3 w) else None)
      else if startswith rest ''W'' then
        (let w = drop 1 rest in
         if length w = 2 then with_numbers week_date year w ''1''
         else with_numbers week_date year (take 2 w) (take 1 (drop 2 w)))
      else if startswith rest ''-'' then
        (let md = drop 1 rest in
         if length md = 5 \<and> md ! 2 = CHR ''-'' then with_numbers calendar_date year (take 2 md) (drop 3 md) else None)
      else if length rest = 4 then with_numbers calendar_date year (take 2 rest) (drop 2 rest) else None)"

definition two_digits :: "nat \<Rightarrow> pystr" where
  "two_digits n = [digit_char (n div 10), digit_char (n mod 10)]"

definition isoformat :: "nat \<times> nat \<times> nat \<Rightarrow> pystr" where
  "isoformat t = (case t of (y, m, d) \<Rightarrow>
     two_digits (y div 100) @ two_digits (y mod 100) @ ''-'' @ two_digits m @ ''-'' @ two_digits d)"

definition iso_date :: "pystr \<Rightarrow> pystr option" where
  "iso_date s = map_option isoformat (fromisoformat s)"

definition strict_iso_date_v1 :: "pystr option \<Rightarrow> pystr option result" where
  "strict_iso_date_v1 v =
     (case v of None \<Rightarrow> Inr None
      | Some s \<Rightarrow> (case iso_date s of None \<Rightarrow> Inl (ValueError ''invalid_strict_iso_date'') | Some d \<Rightarrow> Inr (Some d)))"

section \<open>What comes out is a strict date\<close>

lemma month_day_valid:
  "month_day y n ms = Some (m, d) \<Longrightarrow> m \<in> set ms \<and> 1 \<le> d \<and> d \<le> days_in_month y m"
  by (induction y n ms rule: month_day.induct) (auto split: if_splits)

lemma date_of_ordinal_valid:
  assumes "date_of_ordinal y n = Some (y', m, d)"
  shows "calendar_date y' m d = Some (y', m, d) \<and> y' \<le> 9999"
proof -
  have year: "1 \<le> (if n \<le> int (days_before_year y) then y - 1
      else if int (days_before_year (y + 1)) < n then y + 1 else y)" if "1 \<le> n" "1 \<le> y"
  proof (cases "y = 1")
    case True
    with that show ?thesis by (simp add: days_before_year_def)
  next
    case False
    with that have "1 \<le> y - 1" "1 \<le> y" by simp_all
    then show ?thesis by simp
  qed
  show ?thesis
  proof (cases "y = 0")
    case True
    with assms show ?thesis
      by (auto simp: date_of_ordinal_def Let_def calendar_date_def days_before_year_def split: if_splits
          dest!: month_day_valid)
  next
    case False
    with assms year show ?thesis
      by (auto simp: date_of_ordinal_def Let_def calendar_date_def split: if_splits dest!: month_day_valid)
  qed
qed

lemma digits_val_less: "digits_val s = Some n \<Longrightarrow> n < 10 ^ length s"
proof (induction s arbitrary: n)
  case (Cons c cs)
  then obtain v where v: "digits_val cs = Some v" "n = digit_val c * 10 ^ length cs + v" "is_digit c"
    by (auto split: if_splits)
  from v(3) have "digit_val c \<le> 9"
    by (auto simp: is_digit_def digit_val_def less_eq_char_def)
  then have "digit_val c * 10 ^ length cs \<le> 9 * 10 ^ length cs" by (rule mult_le_mono1)
  with Cons.IH [OF v(1)] v(2) have "n < 10 * 10 ^ length cs" by linarith
  then show ?case by simp
qed simp

lemma with_numbers_Some:
  "with_numbers f a b c = Some t \<longleftrightarrow>
     (\<exists>x y z. digits_val a = Some x \<and> digits_val b = Some y \<and> digits_val c = Some z \<and> f x y z = Some t)"
  by (auto simp: with_numbers_def split: option.splits)

lemma fromisoformat_valid:
  assumes "fromisoformat s = Some (y, m, d)"
  shows "calendar_date y m d = Some (y, m, d) \<and> y \<le> 9999"
proof -
  have year: "x \<le> 9999" if "digits_val (take 4 t) = Some x" for x t
    using digits_val_less [OF that] power_increasing [of "length (take 4 t)" 4 "10 :: nat"] by simp
  have "\<exists>a b c t. with_numbers week_date (take 4 t) b c = Some (y, m, d)
      \<or> with_numbers calendar_date (take 4 t) b c = Some (y, m, d)"
    using assms by (auto simp: fromisoformat_def Let_def split: if_splits)
  then show ?thesis
    using year by (auto simp: with_numbers_Some week_date_def calendar_date_def split: if_splits
        dest!: date_of_ordinal_valid)
qed

lemma two_digits_val:
  assumes "n < 100"
  obtains a b where "two_digits n = [a, b]" "is_digit a" "is_digit b" "digit_val a * 10 + digit_val b = n"
proof -
  have d: "is_digit (digit_char k) \<and> digit_val (digit_char k) = k" if "k < 10" for k
    using that digit_char_range [OF that] by (auto simp: is_digit_def digit_val_def less_eq_char_def)
  from assms have "n div 10 < 10" "n mod 10 < 10" by simp_all
  with d show thesis by (intro that [of "digit_char (n div 10)" "digit_char (n mod 10)"]) (simp_all add: two_digits_def)
qed

lemma isoformat_ok:
  assumes "calendar_date y m d = Some (y, m, d)" "y \<le> 9999"
  shows "date_ok (isoformat (y, m, d))"
proof -
  from assms have m: "m < 100" "1 \<le> m" "m \<le> 12" and d: "1 \<le> d" "d \<le> days_in_month y m" "1 \<le> y"
    by (auto simp: calendar_date_def split: if_splits)
  have d2: "d < 100" using d by (auto simp: days_in_month_def split: if_splits)
  have y: "y div 100 < 100" "y mod 100 < 100" using assms(2) by simp_all
  obtain a b where ab: "two_digits (y div 100) = [a, b]" "is_digit a" "is_digit b" "digit_val a * 10 + digit_val b = y div 100"
    by (rule two_digits_val [OF y(1)])
  obtain c e where ce: "two_digits (y mod 100) = [c, e]" "is_digit c" "is_digit e" "digit_val c * 10 + digit_val e = y mod 100"
    by (rule two_digits_val [OF y(2)])
  obtain f g where fg: "two_digits m = [f, g]" "is_digit f" "is_digit g" "digit_val f * 10 + digit_val g = m"
    by (rule two_digits_val [OF m(1)])
  obtain h i where hi: "two_digits d = [h, i]" "is_digit h" "is_digit i" "digit_val h * 10 + digit_val i = d"
    by (rule two_digits_val [OF d2])
  have "digit_val a * 1000 + digit_val b * 100 + digit_val c * 10 + digit_val e = y"
    using ab(4) ce(4) div_mult_mod_eq [of y 100] by linarith
  with ab ce fg hi m d show ?thesis by (simp add: isoformat_def Let_def)
qed

lemma iso_date_ok: "iso_date s = Some t \<Longrightarrow> date_ok t"
  using isoformat_ok fromisoformat_valid by (fastforce simp: iso_date_def)

lemma utf8_ascii: "list_all (\<lambda>c. c < CHR 0x80) s \<Longrightarrow> utf8 s = s"
  by (induction s) (auto simp: utf8_char_def Let_def less_char_def)

lemma digit_facts:
  assumes "is_digit c"
  shows "c < CHR 0x80" "digit_val c < 10" "digit_char (digit_val c) = c"
  using assms by (auto simp: is_digit_def less_eq_char_def less_char_def digit_val_def digit_char_def)

lemma two_digits_eq:
  assumes "is_digit a" "is_digit b"
  shows "two_digits (digit_val a * 10 + digit_val b) = [a, b]"
  using digit_facts [OF assms(1)] digit_facts [OF assms(2)] by (simp add: two_digits_def)

lemma digit_not_letter: "is_digit c \<Longrightarrow> c \<noteq> CHR ''W'' \<and> c \<noteq> CHR ''-''"
  by (auto simp: is_digit_def less_eq_char_def)

lemma date_ok_fixed:
  assumes "date_ok s"
  shows "iso_date s = Some s"
proof -
  from assms obtain a b c e s1 f g s2 h i where s: "s = [a, b, c, e, s1, f, g, s2, h, i]"
    by (cases s rule: date_ok.cases) auto
  from assms have d: "is_digit a" "is_digit b" "is_digit c" "is_digit e" "is_digit f" "is_digit g"
      "is_digit h" "is_digit i" and sep: "s1 = CHR ''-''" "s2 = CHR ''-''"
    by (simp_all add: s Let_def)
  let ?y = "digit_val a * 1000 + digit_val b * 100 + digit_val c * 10 + digit_val e"
  let ?m = "digit_val f * 10 + digit_val g" and ?d = "digit_val h * 10 + digit_val i"
  note v = d [THEN digit_facts(2)]
  have ascii: "utf8 s = s" using d [THEN digit_facts(1)] by (intro utf8_ascii) (simp add: s sep less_char_def)
  have y: "?y div 100 = digit_val a * 10 + digit_val b" using v by linarith
  then have y': "?y mod 100 = digit_val c * 10 + digit_val e" using div_mult_mod_eq [of ?y 100] by linarith
  have nums: "digits_val [a, b, c, e] = Some ?y" "digits_val [f, g] = Some ?m" "digits_val [h, i] = Some ?d"
    using d by simp_all
  have cal: "calendar_date ?y ?m ?d = Some (?y, ?m, ?d)"
    using assms by (auto simp: s Let_def calendar_date_def)
  have "fromisoformat s = with_numbers calendar_date [a, b, c, e] [f, g] [h, i]"
    using digit_not_letter [OF d(5)] unfolding fromisoformat_def ascii
    by (simp add: s sep startswith_def Let_def numeral_2_eq_2 numeral_3_eq_3)
  also have "\<dots> = Some (?y, ?m, ?d)" by (simp only: with_numbers_def nums cal prod.case option.case)
  finally show ?thesis
    by (simp only: iso_date_def isoformat_def option.map prod.case y y' two_digits_eq [OF d(1,2)] two_digits_eq [OF d(3,4)]
        two_digits_eq [OF d(5,6)] two_digits_eq [OF d(7,8)]) (simp add: s sep)
qed

end
