(* ===== verification/Business_Facts.thy ===== *)
theory Business_Facts
  imports Evidence_Facts Iso_Date
begin

text \<open>
  What a unit of the plan may rely on, derived from its admitted evidence:
  \<open>runtime/decisions/business_fact_models.py\<close>, \<open>business_fact_resolve.py\<close>,
  \<open>business_fact_policy.py\<close> and \<open>business_facts.py\<close>. A \<open>BusinessFactsContractError\<close> is a
  \<open>ValueError\<close> with its code; a \<open>date\<close> is its \<open>isoformat\<close> text.
\<close>

section \<open>Models\<close>

datatype availability_status = Available | Ambiguous | Unavailable | Unknown

datatype user_permission = Permission_allowed | Permission_denied | Permission_unknown

definition opaque_adapter_ref_v1 :: "pystr option \<Rightarrow> unit result" where
  "opaque_adapter_ref_v1 v =
     (case v of None \<Rightarrow> Inr ()
      | Some s \<Rightarrow> raise_if (s \<noteq> py_strip s \<or> list_ex (\<lambda>c. c < CHR 0x20) s \<or> py_in ''%'' s \<or> py_in ''/'' s
            \<or> py_in [CHR 0x5C] s \<or> py_in ''://'' s \<or> startswith s ''.'' \<or> startswith s ''~'' \<or> py_in ''..'' s)
          (ValueError ''invalid_opaque_adapter_ref''))"

definition opt_ref_pattern :: "pystr option \<Rightarrow> bool" where
  "opt_ref_pattern v = (case v of None \<Rightarrow> True | Some r \<Rightarrow> adapter_ref_pattern r)"

record resolvable_state =
  rst_availability :: availability_status
  rst_candidate_labels :: "pystr list"
  rst_reason_code :: pystr
  rst_resolve_ref :: "pystr option"
  rst_material_pack_option :: "pystr option"
  rst_source_record_ref :: "pystr option"

definition unknown_state :: resolvable_state where
  "unknown_state = \<lparr>rst_availability = Unknown, rst_candidate_labels = [], rst_reason_code = [],
     rst_resolve_ref = None, rst_material_pack_option = None, rst_source_record_ref = None\<rparr>"

definition check_resolvable_fields :: "'a resolvable_state_scheme \<Rightarrow> unit result" where
  "check_resolvable_fields s =
     seq_res
       [raise_if (length (rst_candidate_labels s) > 8) (ValueError ''candidate_labels''),
        raise_if (length (rst_reason_code s) > 120) (ValueError ''reason_code''),
        raise_if (\<not> opt_ref_pattern (rst_resolve_ref s)) (ValueError ''resolve_ref''),
        opaque_adapter_ref_v1 (rst_resolve_ref s),
        raise_if (\<not> opt_length_within 1 80 (rst_material_pack_option s)) (ValueError ''material_pack_option''),
        raise_if (case rst_source_record_ref s of None \<Rightarrow> False | Some r \<Rightarrow> \<not> prefixed_hex ''esr1:'' 64 r)
          (ValueError ''source_record_ref''),
        raise_if (\<not> distinct (rst_candidate_labels s)) (ValueError ''canonical_resolvable_duplicate_candidate_label''),
        raise_if (list_ex (\<lambda>l. l = [] \<or> length l > 120) (rst_candidate_labels s))
          (ValueError ''canonical_resolvable_invalid_candidate_label'')]"

definition check_resolvable_state :: "resolvable_state \<Rightarrow> resolvable_state result" where
  "check_resolvable_state s = res_bind (check_resolvable_fields s) (\<lambda>_. Inr s)"

record report_state = resolvable_state +
  rpt_period :: "pystr option"
  rpt_report_date :: "pystr option"
  rpt_period_start :: "pystr option"
  rpt_period_end :: "pystr option"
  rpt_period_label :: "pystr option"
  rpt_scope_complete :: "bool option"
  rpt_expected_product_count :: "int option"
  rpt_generated_product_count :: "int option"
  rpt_missing_product_count :: "int option"
  rpt_sections :: "report_section list"

text \<open>A report state with the fields of a resolvable state and the defaults of the others.\<close>

definition report_state_of :: "resolvable_state \<Rightarrow> report_state" where
  "report_state_of s = \<lparr>rst_availability = rst_availability s, rst_candidate_labels = rst_candidate_labels s,
     rst_reason_code = rst_reason_code s, rst_resolve_ref = rst_resolve_ref s,
     rst_material_pack_option = rst_material_pack_option s, rst_source_record_ref = rst_source_record_ref s,
     rpt_period = None, rpt_report_date = None, rpt_period_start = None, rpt_period_end = None,
     rpt_period_label = None, rpt_scope_complete = None, rpt_expected_product_count = None,
     rpt_generated_product_count = None, rpt_missing_product_count = None, rpt_sections = []\<rparr>"

definition check_report_state :: "report_state \<Rightarrow> report_state result" where
  "check_report_state s =
     res_bind (seq_res
       [check_resolvable_fields s,
        raise_if (\<not> opt_within 40 (rpt_period s)) (ValueError ''period''),
        raise_if (\<not> opt_within 80 (rpt_period_label s)) (ValueError ''period_label''),
        raise_if (\<not> opt_nonneg (rpt_expected_product_count s)) (ValueError ''expected_product_count''),
        raise_if (\<not> opt_nonneg (rpt_generated_product_count s)) (ValueError ''generated_product_count''),
        raise_if (\<not> opt_nonneg (rpt_missing_product_count s)) (ValueError ''missing_product_count''),
        raise_if (length (rpt_sections s) > 64) (ValueError ''report_sections'')])
       (\<lambda>_. Inr s)"

record executed_action_state =
  xas_action_type :: outbound_action_type
  xas_artifact_type :: report_artifact
  xas_artifact_ref :: "pystr option"
  xas_material_pack_option :: "pystr option"
  xas_period :: "pystr option"
  xas_report_date :: "pystr option"
  xas_status_revision :: int
  xas_received_at :: int
  xas_response_id :: pystr
  xas_action_id :: pystr
  xas_source_record_ref :: pystr

definition check_executed_action_state :: "executed_action_state \<Rightarrow> executed_action_state result" where
  "check_executed_action_state a =
     res_bind (seq_res
       [raise_if (\<not> opt_ref_pattern (xas_artifact_ref a)) (ValueError ''artifact_ref''),
        opaque_adapter_ref_v1 (xas_artifact_ref a),
        raise_if (\<not> opt_length_within 1 80 (xas_material_pack_option a)) (ValueError ''material_pack_option''),
        raise_if (\<not> opt_length_within 1 40 (xas_period a)) (ValueError ''period''),
        raise_if (xas_status_revision a < 1) (ValueError ''status_revision''),
        raise_if (xas_received_at a < 0) (ValueError ''received_at_epoch_seconds''),
        raise_if (\<not> prefixed_hex ''resp-'' 32 (xas_response_id a)) (ValueError ''response_id''),
        raise_if (\<not> prefixed_hex ''act-'' 32 (xas_action_id a)) (ValueError ''action_id''),
        raise_if (\<not> prefixed_hex ''esr1:'' 64 (xas_source_record_ref a)) (ValueError ''source_record_ref''),
        raise_if (xas_artifact_type a \<noteq> artifact_of_action (xas_action_type a))
          (ValueError ''canonical_executed_action_artifact_type_mismatch''),
        raise_if (xas_artifact_type a = Report_material_pack \<and> (xas_period a \<noteq> None \<or> xas_report_date a \<noteq> None))
          (ValueError ''canonical_material_action_report_metadata_forbidden''),
        raise_if (xas_artifact_type a \<noteq> Report_material_pack \<and> xas_material_pack_option a \<noteq> None)
          (ValueError ''canonical_report_action_material_option_forbidden'')])
       (\<lambda>_. Inr a)"

record unit_business_facts =
  ubf_material_pack :: resolvable_state
  ubf_weekly_report :: report_state
  ubf_monthly_report :: report_state
  ubf_sales_mention :: resolvable_state
  ubf_recent_executed_actions :: "executed_action_state list"
  ubf_requested_option_status :: availability_status
  ubf_user_permission :: user_permission
  ubf_evidence_fact_count :: int

definition check_unit_business_facts :: "unit_business_facts \<Rightarrow> unit_business_facts result" where
  "check_unit_business_facts b =
     res_bind (seq_res
       [raise_if (length (ubf_recent_executed_actions b) > 20) (ValueError ''recent_executed_actions''),
        raise_if (\<not> (0 \<le> ubf_evidence_fact_count b \<and> ubf_evidence_fact_count b \<le> 32)) (ValueError ''evidence_fact_count'')])
       (\<lambda>_. Inr b)"

section \<open>Resolvable artifacts\<close>

fun resolve_fact_types :: "adapter_resolve_type \<Rightarrow> evidence_fact_type" where
  "resolve_fact_types Ar_material_pack = Fact_material_pack_resolvable"
| "resolve_fact_types Ar_weekly_report = Fact_weekly_report_resolvable"
| "resolve_fact_types Ar_monthly_report = Fact_monthly_report_resolvable"
| "resolve_fact_types Ar_sales_mention = Fact_sales_mention_resolvable"

text \<open>The loop of \<open>validated_resolve_bindings_v1\<close>; its dictionary is the list of its bindings.\<close>

fun validated_bindings_loop ::
  "canonical_fact list \<Rightarrow> resolve_binding list \<Rightarrow> resolve_binding list \<Rightarrow> resolve_binding list result" where
  "validated_bindings_loop facts output [] = Inr output"
| "validated_bindings_loop facts output (b # bs) =
     (case find (\<lambda>f. cf_evidence_id f = rb_evidence_id b) (rev facts) of
        None \<Rightarrow> Inl (ValueError ''canonical_resolve_binding_evidence_not_admitted'')
      | Some f \<Rightarrow>
          if rb_evidence_id b \<in> set (map rb_evidence_id output)
          then Inl (ValueError ''canonical_resolve_binding_duplicate_evidence'')
          else if Some (rb_resolve_type b) \<noteq> cf_resolve_type f
             \<or> rb_source_record_ref b \<noteq> pv_source_record_ref (cf_provenance f)
             \<or> rb_scope_ref b \<noteq> pv_scope_ref (cf_provenance f)
          then Inl (ValueError ''canonical_resolve_binding_provenance_mismatch'')
          else validated_bindings_loop facts (output @ [b]) bs)"

definition validated_resolve_bindings_v1 ::
  "canonical_fact list \<Rightarrow> resolve_binding list \<Rightarrow> resolve_binding list result" where
  "validated_resolve_bindings_v1 facts bindings = validated_bindings_loop facts [] bindings"

definition resolve_declared_or_admitted_v1 ::
  "execution_unit \<Rightarrow> capability_contract \<Rightarrow> adapter_resolve_type \<Rightarrow> bool" where
  "resolve_declared_or_admitted_v1 u contract t =
     (list_ex (\<lambda>r. are_type r = t) (eu_adapter_resolves u)
      \<or> resolve_fact_types t \<in> set (cc_required_fact_types contract)
      \<or> resolve_fact_types t \<in> set (cc_any_of_fact_types contract))"

definition first_resolvable_fact_v1 :: "canonical_fact list \<Rightarrow> adapter_resolve_type \<Rightarrow> canonical_fact option" where
  "first_resolvable_fact_v1 facts t =
     find (\<lambda>f. cf_fact_type f = resolve_fact_types t \<and> cf_resolve_type f = Some t) facts"

definition binding_get :: "resolve_binding list \<Rightarrow> pystr \<Rightarrow> resolve_binding option" where
  "binding_get bindings evidence_id = find (\<lambda>b. rb_evidence_id b = evidence_id) bindings"

definition availability_from_canonical_fact_v1 :: "canonical_fact \<Rightarrow> availability_status" where
  "availability_from_canonical_fact_v1 f =
     (case cf_value f of EvidenceBooleanValueV1 b \<Rightarrow> if b then Available else Unavailable | _ \<Rightarrow> Unknown)"

definition binding_of_type :: "resolve_binding list \<Rightarrow> canonical_fact \<Rightarrow> adapter_resolve_type \<Rightarrow> resolve_binding option" where
  "binding_of_type bindings f t =
     (case binding_get bindings (cf_evidence_id f) of
        None \<Rightarrow> None | Some b \<Rightarrow> if rb_resolve_type b = t then Some b else None)"

definition unit_resolvable_state_v1 ::
  "execution_unit \<Rightarrow> capability_contract \<Rightarrow> canonical_fact list \<Rightarrow> resolve_binding list
   \<Rightarrow> adapter_resolve_type \<Rightarrow> resolvable_state result" where
  "unit_resolvable_state_v1 u contract facts bindings t =
     (if \<not> resolve_declared_or_admitted_v1 u contract t then Inr unknown_state
      else case first_resolvable_fact_v1 facts t of
        None \<Rightarrow> Inr unknown_state
      | Some f \<Rightarrow> check_resolvable_state
          \<lparr>rst_availability = availability_from_canonical_fact_v1 f, rst_candidate_labels = [], rst_reason_code = [],
           rst_resolve_ref = map_option rb_resolve_ref (binding_of_type bindings f t),
           rst_material_pack_option = (if t = Ar_material_pack then es_material_option (cf_scope f) else None),
           rst_source_record_ref = Some (pv_source_record_ref (cf_provenance f))\<rparr>)"

definition report_material :: "adapter_resolve_type \<Rightarrow> report_material_type" where
  "report_material t = (if t = Ar_weekly_report then Material_weekly else Material_monthly)"

fun summary_payload :: "canonical_fact \<Rightarrow> report_summary option" where
  "summary_payload f = (case cf_report_payload f of Some (PayloadSummary s) \<Rightarrow> Some s | _ \<Rightarrow> None)"

definition first_report_summary_v1 :: "canonical_fact list \<Rightarrow> adapter_resolve_type \<Rightarrow> report_summary option" where
  "first_report_summary_v1 facts t =
     Option.bind (find (\<lambda>f. cf_fact_type f = Fact_report_scope_summary \<and> cf_resolve_type f = Some t
          \<and> map_option rsu_material_type (summary_payload f) = Some (report_material t)) facts) summary_payload"

definition unit_report_state_v1 ::
  "execution_unit \<Rightarrow> capability_contract \<Rightarrow> canonical_fact list \<Rightarrow> resolve_binding list
   \<Rightarrow> adapter_resolve_type \<Rightarrow> report_state result" where
  "unit_report_state_v1 u contract facts bindings t =
     res_bind (unit_resolvable_state_v1 u contract facts bindings t) (\<lambda>base.
       if \<not> resolve_declared_or_admitted_v1 u contract t then Inr (report_state_of unknown_state)
       else case first_report_summary_v1 facts t of
         None \<Rightarrow>
           (let b = Option.bind (first_resolvable_fact_v1 facts t) (\<lambda>f. binding_of_type bindings f t) in
            res_bind (strict_iso_date_v1 (Option.bind b rb_report_date)) (\<lambda>report_date.
              check_report_state ((report_state_of base)
                \<lparr>rpt_period := Option.bind b rb_period, rpt_report_date := report_date\<rparr>)))
       | Some s \<Rightarrow>
           res_bind (strict_iso_date_v1 (rsu_report_date s)) (\<lambda>report_date.
           res_bind (strict_iso_date_v1 (rsu_period_start s)) (\<lambda>period_start.
           res_bind (strict_iso_date_v1 (rsu_period_end s)) (\<lambda>period_end.
             check_report_state ((report_state_of base)
               \<lparr>rst_availability := (if rsu_available s then Available else rst_availability base),
                rst_reason_code := rsu_reason_code s, rst_material_pack_option := None,
                rpt_period := rsu_period s, rpt_report_date := report_date, rpt_period_start := period_start,
                rpt_period_end := period_end, rpt_period_label := rsu_period_label s,
                rpt_scope_complete := rsu_scope_complete s,
                rpt_expected_product_count := rsu_expected_product_count s,
                rpt_generated_product_count := rsu_generated_product_count s,
                rpt_missing_product_count := rsu_missing_product_count s, rpt_sections := rsu_sections s\<rparr>)))))"

section \<open>History and permission\<close>

definition fact_scope_matches_unit_v1 :: "canonical_fact \<Rightarrow> execution_unit \<Rightarrow> bool" where
  "fact_scope_matches_unit_v1 f u =
     (case (eu_scope u, cf_scope f) of
        (DistributionExecutionDomainScopeV2 ref kind _ ids _, DistributionEvidenceScopeIdentityV1 fref fkind fids _ _ _ _) \<Rightarrow>
          ref = fref \<and> kind = fkind \<and> ids = fids
      | (UnscopedExecutionDomainScopeV2, UnscopedEvidenceScopeIdentityV1 _ _ _ _) \<Rightarrow> True
      | _ \<Rightarrow> False)"

text \<open>\<open>sorted(xs, key=f, reverse=True)\<close>: descending, equal keys in their order.\<close>

definition sorted_desc :: "('a \<Rightarrow> 'k :: linorder) \<Rightarrow> 'a list \<Rightarrow> 'a list" where
  "sorted_desc key xs = rev (sort_key key (rev xs))"

definition action_state_of :: "canonical_fact \<times> executed_action \<Rightarrow> executed_action_state result" where
  "action_state_of p = (case p of (f, a) \<Rightarrow>
     res_bind (strict_iso_date_v1 (xa_report_date a)) (\<lambda>report_date.
       check_executed_action_state
         \<lparr>xas_action_type = xa_action_type a, xas_artifact_type = xa_artifact_type a,
          xas_artifact_ref = xa_artifact_ref a, xas_material_pack_option = xa_material_option a,
          xas_period = xa_period a, xas_report_date = report_date, xas_status_revision = xa_status_revision a,
          xas_received_at = xa_received_at a, xas_response_id = xa_response_id a, xas_action_id = xa_action_id a,
          xas_source_record_ref = pv_source_record_ref (cf_provenance f)\<rparr>))"

definition unit_recent_actions_v1 ::
  "execution_unit \<Rightarrow> capability_contract \<Rightarrow> canonical_fact list \<Rightarrow> executed_action_state list result" where
  "unit_recent_actions_v1 u contract facts =
     (if \<not> (Fact_recent_executed_action \<in> set (cc_allowed_fact_types contract)
             \<and> Fact_recent_executed_action \<notin> set (cc_forbidden_fact_types contract)) then Inr []
      else map_res action_state_of (take 20 (sorted_desc (\<lambda>(f, a). (xa_received_at a, cf_evidence_id f))
        (List.map_filter (\<lambda>f. if cf_fact_type f = Fact_recent_executed_action \<and> fact_scope_matches_unit_v1 f u
             then map_option (Pair f) (cf_recent_action f) else None) facts))))"

fun manifest_read_requirement :: "capability_manifest_id \<Rightarrow> read_capability option" where
  "manifest_read_requirement Material_pack_send = Some Resolve_material_pack"
| "manifest_read_requirement Weekly_report_send = Some Resolve_weekly_report"
| "manifest_read_requirement Monthly_report_send = Some Resolve_monthly_report"
| "manifest_read_requirement Sales_handoff = Some Resolve_sales_mention"
| "manifest_read_requirement Weekly_report_product_list = Some Query_weekly_report_product_list"
| "manifest_read_requirement Monthly_report_product_list = Some Query_monthly_report_product_list"
| "manifest_read_requirement Answer_internal_company_knowledge = Some Query_internal_company_info"
| "manifest_read_requirement _ = None"

fun manifest_action_requirement :: "capability_manifest_id \<Rightarrow> outbound_action_type option" where
  "manifest_action_requirement Material_pack_send = Some Out_material_pack"
| "manifest_action_requirement Weekly_report_send = Some Out_weekly_report"
| "manifest_action_requirement Monthly_report_send = Some Out_monthly_report"
| "manifest_action_requirement _ = None"

fun opt_in :: "'a option \<Rightarrow> 'a list \<Rightarrow> bool" where
  "opt_in None xs = True"
| "opt_in (Some x) xs = (x \<in> set xs)"

definition unit_permission_v1 :: "execution_unit \<Rightarrow> policy_authority_core \<Rightarrow> user_permission" where
  "unit_permission_v1 u policy =
     (let i = mr_id (eu_manifest_ref u) in
      if eu_runtime_capabilities u = [] \<and> eu_answer_capabilities u = [] \<and> eu_adapter_resolves u = []
         \<and> eu_action_intents u = [] then Permission_unknown
      else if eu_manifest_ref u \<in> set (pac_eligible policy)
         \<and> opt_in (manifest_read_requirement i) (pac_reads policy)
         \<and> opt_in (manifest_action_requirement i) (pac_outbound policy)
         \<and> (i = Sales_handoff \<longrightarrow> pac_mentions_allowed policy \<and> Mention_sales \<in> set (pac_mentions policy))
         \<and> list_all (\<lambda>r. are_type r \<in> set (pac_resolves policy)) (eu_adapter_resolves u)
         \<and> list_all (\<lambda>a. ai_action_type a \<in> set (pac_outbound policy)) (eu_action_intents u)
      then Permission_allowed else Permission_denied)"

section \<open>The facts of a unit\<close>

text \<open>
  The two tests that the unit's manifest is the one at hand hold by construction here: the contract is
  looked up with the unit's own reference, and every reference has the one version.
\<close>

definition derive_unit_business_facts_v1 ::
  "execution_unit \<Rightarrow> capability_contract \<Rightarrow> policy_authority_core \<Rightarrow> canonical_fact list
   \<Rightarrow> resolve_binding list \<Rightarrow> unit_business_facts result" where
  "derive_unit_business_facts_v1 u contract policy facts resolve_bindings =
     (if length facts > 32 then Inl (ValueError ''unit_business_facts_evidence_limit_exceeded'')
      else res_bind (validated_resolve_bindings_v1 facts resolve_bindings) (\<lambda>bindings.
        res_bind (unit_resolvable_state_v1 u contract facts bindings Ar_material_pack) (\<lambda>material_pack.
        res_bind (unit_report_state_v1 u contract facts bindings Ar_weekly_report) (\<lambda>weekly_report.
        res_bind (unit_report_state_v1 u contract facts bindings Ar_monthly_report) (\<lambda>monthly_report.
        res_bind (unit_resolvable_state_v1 u contract facts bindings Ar_sales_mention) (\<lambda>sales_mention.
        res_bind (unit_recent_actions_v1 u contract facts) (\<lambda>recent.
          check_unit_business_facts
            \<lparr>ubf_material_pack = material_pack, ubf_weekly_report = weekly_report,
             ubf_monthly_report = monthly_report, ubf_sales_mention = sales_mention,
             ubf_recent_executed_actions = recent,
             ubf_requested_option_status =
               (if resolve_declared_or_admitted_v1 u contract Ar_material_pack
                   \<and> rst_source_record_ref material_pack \<noteq> None
                then rst_availability material_pack else Unknown),
             ubf_user_permission = unit_permission_v1 u policy,
             ubf_evidence_fact_count = int (length facts)\<rparr>)))))))"

end
