(* ===== verification/Grounding.thy ===== *)
theory Grounding
  imports Business_Facts Adapter_Evidence
begin

text \<open>
  Grounding a plan: \<open>runtime/evidence/grounding.py\<close> and the binding check of \<open>requirements.py\<close>. Every
  unit gets the facts its manifest's contract admits, if they satisfy the contract's requirements, and
  the business facts derived from them.
\<close>

record unit_grounding =
  ug_unit_id :: pystr
  ug_manifest_ref :: manifest_ref
  ug_answerability :: answerability_policy
  ug_scope :: execution_scope
  ug_evidence_query :: "pystr option"
  ug_action_intents :: "action_intent list"
  ug_allowed_evidence_ids :: "pystr list"
  ug_allowed_evidence :: "canonical_fact list"
  ug_business_facts :: unit_business_facts
  ug_guardrail_decisions :: "guardrail_decision list"

definition check_unit_grounding :: "unit_grounding \<Rightarrow> unit_grounding result" where
  "check_unit_grounding g =
     (let ids = map cf_evidence_id (ug_allowed_evidence g) in
      res_bind (seq_res
       [raise_if (\<not> length_within 1 120 (ug_unit_id g)) (ValueError ''unit_id''),
        raise_if (\<not> opt_within 200 (ug_evidence_query g)) (ValueError ''evidence_query''),
        raise_if (length (ug_action_intents g) > 3) (ValueError ''action_intents''),
        raise_if (length (ug_allowed_evidence_ids g) > 32) (ValueError ''allowed_evidence_ids''),
        raise_if (length (ug_allowed_evidence g) > 32) (ValueError ''allowed_evidence''),
        raise_if (length (ug_guardrail_decisions g) > 32) (ValueError ''guardrail_decisions''),
        raise_if (ug_allowed_evidence_ids g \<noteq> ids) (ValueError ''execution_grounding_evidence_id_binding_mismatch''),
        raise_if (\<not> distinct ids) (ValueError ''execution_grounding_duplicate_evidence_id''),
        raise_if (ubf_evidence_fact_count (ug_business_facts g) \<noteq> int (length (ug_allowed_evidence g)))
          (ValueError ''execution_grounding_business_fact_count_mismatch'')])
       (\<lambda>_. Inr g))"

definition admitted_facts :: "execution_unit \<Rightarrow> canonical_fact list \<Rightarrow> int option \<Rightarrow> canonical_fact list" where
  "admitted_facts u facts epoch =
     (let contract = evidence_contract_of (mr_id (eu_manifest_ref u));
          candidates = filter (\<lambda>f. canonical_fact_admitted_for_unit_v1 f u contract epoch) facts
      in if canonical_evidence_requirements_satisfied_v1 candidates contract then candidates else [])"

definition ground_execution_unit_v2 ::
  "execution_plan \<Rightarrow> policy_authority_core \<Rightarrow> canonical_fact list \<Rightarrow> resolve_binding list \<Rightarrow> int option
   \<Rightarrow> execution_unit \<Rightarrow> unit_grounding result" where
  "ground_execution_unit_v2 plan policy facts bindings epoch u =
     (if eu_manifest_ref u \<notin> set (pac_eligible policy)
      then Inl (ValueError ''execution_grounding_manifest_not_policy_eligible'')
      else let contract = evidence_contract_of (mr_id (eu_manifest_ref u));
               admitted = admitted_facts u facts epoch;
               ids = map cf_evidence_id admitted
        in res_bind (derive_unit_business_facts_v1 u contract policy admitted
              (filter (\<lambda>b. rb_evidence_id b \<in> set ids) bindings)) (\<lambda>business.
            check_unit_grounding
              \<lparr>ug_unit_id = eu_unit_id u, ug_manifest_ref = eu_manifest_ref u, ug_answerability = eu_answerability u,
               ug_scope = eu_scope u, ug_evidence_query = eu_evidence_query u, ug_action_intents = eu_action_intents u,
               ug_allowed_evidence_ids = ids, ug_allowed_evidence = admitted, ug_business_facts = business,
               ug_guardrail_decisions = ep_guardrail_decisions plan\<rparr>))"

definition grounding_binds :: "execution_unit \<Rightarrow> unit_grounding \<Rightarrow> bool" where
  "grounding_binds u g =
     (ug_unit_id g = eu_unit_id u \<and> ug_manifest_ref g = eu_manifest_ref u \<and> ug_answerability g = eu_answerability u
      \<and> ug_scope g = eu_scope u \<and> ug_evidence_query g = eu_evidence_query u
      \<and> ug_action_intents g = eu_action_intents u)"

definition validate_grounding_plan_binding_v1 :: "execution_plan \<Rightarrow> unit_grounding list \<Rightarrow> unit result" where
  "validate_grounding_plan_binding_v1 plan groundings =
     (if length (ep_units plan) \<noteq> length groundings
      then Inl (ValueError ''execution_grounding_unit_count_mismatch'')
      else raise_if (\<not> list_all (\<lambda>(u, g). grounding_binds u g) (zip (ep_units plan) groundings))
        (ValueError ''execution_grounding_plan_binding_mismatch''))"

definition ground_execution_plan_v2 ::
  "execution_plan \<Rightarrow> policy_authority_core \<Rightarrow> canonical_fact list \<Rightarrow> resolve_binding list \<Rightarrow> int option
   \<Rightarrow> unit_grounding list result" where
  "ground_execution_plan_v2 plan policy facts bindings epoch =
     (if \<not> distinct (map cf_evidence_id facts)
      then Inl (ValueError ''execution_grounding_duplicate_canonical_evidence_id'')
      else res_bind (map_res (ground_execution_unit_v2 plan policy facts bindings epoch) (ep_units plan)) (\<lambda>groundings.
        res_bind (validate_grounding_plan_binding_v1 plan groundings) (\<lambda>_. Inr groundings)))"

section \<open>Where a reference comes from\<close>

lemma validated_bindings_loop_subset:
  "validated_bindings_loop facts out bs = Inr out' \<Longrightarrow> set out' \<subseteq> set out \<union> set bs"
  by (induction facts out bs rule: validated_bindings_loop.induct) (fastforce split: option.splits if_splits)+

lemma binding_of_type_Some:
  assumes "binding_of_type bindings f t = Some b"
  shows "b \<in> set bindings \<and> rb_resolve_type b = t \<and> rb_evidence_id b = cf_evidence_id f"
  using assms by (auto simp: binding_of_type_def binding_get_def split: option.splits if_splits dest: find_Some_mem)

lemma check_resolvable_state_Inr: "check_resolvable_state s = Inr s' \<Longrightarrow> s' = s"
  by (auto simp: check_resolvable_state_def res_simps)

lemma check_report_state_Inr: "check_report_state s = Inr s' \<Longrightarrow> s' = s"
  by (auto simp: check_report_state_def res_simps)

lemma resolvable_state_ref:
  assumes "unit_resolvable_state_v1 u c facts bindings t = Inr s" "rst_resolve_ref s = Some ref"
  shows "\<exists>b f. b \<in> set bindings \<and> f \<in> set facts \<and> rb_resolve_type b = t \<and> rb_resolve_ref b = ref
    \<and> rb_evidence_id b = cf_evidence_id f \<and> cf_fact_type f = resolve_fact_types t"
proof -
  from assms obtain f where f: "first_resolvable_fact_v1 facts t = Some f"
    and "map_option rb_resolve_ref (binding_of_type bindings f t) = Some ref"
    by (auto simp: unit_resolvable_state_v1_def unknown_state_def split: if_splits option.splits
        dest!: check_resolvable_state_Inr)
  then obtain b where "binding_of_type bindings f t = Some b" "rb_resolve_ref b = ref" by auto
  with binding_of_type_Some [OF this(1)] f show ?thesis
    by (auto simp: first_resolvable_fact_v1_def dest!: find_Some_mem)
qed

lemma report_state_base:
  assumes "unit_report_state_v1 u c facts bindings t = Inr s" "rst_resolve_ref s = Some ref"
  shows "\<exists>base. unit_resolvable_state_v1 u c facts bindings t = Inr base \<and> rst_resolve_ref base = Some ref"
  using assms
  by (auto simp: unit_report_state_v1_def res_bind_Inr_iff report_state_of_def unknown_state_def
      split: if_splits option.splits dest!: check_report_state_Inr)

lemma strict_iso_date_ok: "strict_iso_date_v1 v = Inr (Some d) \<Longrightarrow> date_ok d"
  by (auto simp: strict_iso_date_v1_def split: option.splits dest: iso_date_ok)

lemma report_state_date:
  assumes "unit_report_state_v1 u c facts bindings t = Inr s" "rpt_report_date s = Some d"
  shows "date_ok d"
  using assms
  by (auto simp: unit_report_state_v1_def res_bind_Inr_iff report_state_of_def unknown_state_def Let_def
      split: if_splits option.splits dest!: check_report_state_Inr intro: strict_iso_date_ok)

text \<open>What a derivation that succeeds took from its arguments.\<close>

lemma derived_facts:
  assumes "derive_unit_business_facts_v1 u c policy facts rbs = Inr b"
  obtains bindings where "set bindings \<subseteq> set rbs"
    "unit_resolvable_state_v1 u c facts bindings Ar_material_pack = Inr (ubf_material_pack b)"
    "unit_report_state_v1 u c facts bindings Ar_weekly_report = Inr (ubf_weekly_report b)"
    "unit_report_state_v1 u c facts bindings Ar_monthly_report = Inr (ubf_monthly_report b)"
    "unit_resolvable_state_v1 u c facts bindings Ar_sales_mention = Inr (ubf_sales_mention b)"
    "ubf_user_permission b = unit_permission_v1 u policy" "ubf_evidence_fact_count b = int (length facts)"
proof -
  have check: "b' = b" if "check_unit_business_facts b' = Inr b" for b'
    using that by (auto simp: check_unit_business_facts_def res_simps)
  from assms obtain bindings m w mo s r where
    "validated_resolve_bindings_v1 facts rbs = Inr bindings"
    "unit_resolvable_state_v1 u c facts bindings Ar_material_pack = Inr m"
    "unit_report_state_v1 u c facts bindings Ar_weekly_report = Inr w"
    "unit_report_state_v1 u c facts bindings Ar_monthly_report = Inr mo"
    "unit_resolvable_state_v1 u c facts bindings Ar_sales_mention = Inr s"
    "ubf_material_pack b = m" "ubf_weekly_report b = w" "ubf_monthly_report b = mo" "ubf_sales_mention b = s"
    "ubf_user_permission b = unit_permission_v1 u policy" "ubf_evidence_fact_count b = int (length facts)"
    unfolding derive_unit_business_facts_v1_def
    by (auto simp: res_bind_Inr_iff split: if_splits dest!: check)
  with validated_bindings_loop_subset [of facts "[]" rbs bindings] show thesis
    by (intro that [of bindings]) (simp_all add: validated_resolve_bindings_v1_def)
qed

lemma grounded_unit:
  assumes "ground_execution_unit_v2 plan policy facts rbs epoch u = Inr g"
  shows "derive_unit_business_facts_v1 u (evidence_contract_of (mr_id (eu_manifest_ref u))) policy
      (admitted_facts u facts epoch)
      (filter (\<lambda>b. rb_evidence_id b \<in> cf_evidence_id ` set (admitted_facts u facts epoch)) rbs) = Inr (ug_business_facts g)
    \<and> ug_allowed_evidence g = admitted_facts u facts epoch \<and> grounding_binds u g
    \<and> eu_manifest_ref u \<in> set (pac_eligible policy)"
proof -
  have check: "g' = g" if "check_unit_grounding g' = Inr g" for g'
    using that by (auto simp: check_unit_grounding_def Let_def res_simps)
  from assms show ?thesis
    by (auto simp: ground_execution_unit_v2_def Let_def res_bind_Inr_iff grounding_binds_def
        split: if_splits dest!: check)
qed

lemma grounded_plan:
  assumes "ground_execution_plan_v2 plan policy facts rbs epoch = Inr gs"
  shows "list_all2 (\<lambda>u g. ground_execution_unit_v2 plan policy facts rbs epoch u = Inr g) (ep_units plan) gs
    \<and> distinct (map cf_evidence_id facts)"
  using assms by (auto simp: ground_execution_plan_v2_def res_bind_Inr_iff map_res_Inr_list_all2 split: if_splits)

end
