(* ===== verification/Alignment_Refetch.thy ===== *)
theory Alignment_Refetch
  imports Evidence_Vocabulary Plan_Shortcuts
begin

text \<open>
  The verdict of the alignment verifier (\<open>runtime/validation/reply_alignment_verifier.py\<close>) and the
  refetch request it leads to (\<open>runtime/validation/alignment_refetch.py\<close>).
\<close>

datatype alignment_failure_code =
    Align_none | Align_wrong_intent | Align_wrong_artifact | Align_wrong_action | Align_wrong_material_pack_option
  | Align_wrong_report_scope | Align_missing_answer | Align_missing_evidence | Align_unsupported_claim
  | Align_policy_or_compliance_mismatch | Align_unsafe_action | Align_composer_drift | Align_ambiguous_request

datatype alignment_remediation =
    Remedy_none | Remedy_replan | Remedy_refetch_document_context | Remedy_refetch_report_scope
  | Remedy_recompose | Remedy_return_clarification | Remedy_return_unable

record alignment_verdict =
  av_aligned :: bool
  av_safe_to_return :: bool
  av_failure_code :: alignment_failure_code
  av_rationale :: pystr
  av_remediation :: alignment_remediation
  av_refined_evidence_query :: "pystr option"
  av_planner_feedback :: "pystr option"
  av_composer_feedback :: "pystr option"
  av_confidence :: rat

definition report_scope_refetch_queries :: "pystr list" where
  "report_scope_refetch_queries = [''report_scope_products'', ''report_scope_summary'']"

definition check_alignment_verdict :: "alignment_verdict \<Rightarrow> alignment_verdict result" where
  "check_alignment_verdict v =
     (let query = (case av_refined_evidence_query v of None \<Rightarrow> [] | Some q \<Rightarrow> q) in
      res_bind (seq_res
       [raise_if (length (av_rationale v) > 400) (ValueError ''rationale''),
        raise_if (\<not> opt_within 200 (av_refined_evidence_query v)) (ValueError ''refined_evidence_query''),
        raise_if (\<not> opt_within 300 (av_planner_feedback v)) (ValueError ''planner_feedback''),
        raise_if (\<not> opt_within 300 (av_composer_feedback v)) (ValueError ''composer_feedback''),
        raise_if (\<not> (0 \<le> av_confidence v \<and> av_confidence v \<le> 1)) (ValueError ''confidence''),
        raise_if (av_aligned v \<and> \<not> av_safe_to_return v) (ValueError ''aligned_verdict_requires_safe_to_return''),
        raise_if (av_aligned v \<and> (av_failure_code v \<noteq> Align_none \<or> av_remediation v \<noteq> Remedy_none))
          (ValueError ''aligned_verdict_requires_none_failure_and_remediation''),
        raise_if (av_remediation v \<in> {Remedy_refetch_document_context, Remedy_refetch_report_scope}
            \<and> py_strip query = []) (ValueError ''alignment_refetch_requires_refined_evidence_query''),
        raise_if (av_remediation v = Remedy_refetch_report_scope \<and> query \<notin> set report_scope_refetch_queries)
          (ValueError ''alignment_report_refetch_query_not_allowed'')])
       (\<lambda>_. Inr v))"

record refetch_request =
  rf_unit_id :: pystr
  rf_manifest_ref :: manifest_ref
  rf_refined_evidence_query :: pystr
  rf_attempt :: int

definition check_refetch_request :: "refetch_request \<Rightarrow> refetch_request result" where
  "check_refetch_request r =
     res_bind (seq_res
       [raise_if (\<not> length_within 1 120 (rf_unit_id r)) (ValueError ''unit_id''),
        raise_if (\<not> length_within 1 200 (rf_refined_evidence_query r)) (ValueError ''refined_evidence_query''),
        raise_if (\<not> (1 \<le> rf_attempt r \<and> rf_attempt r \<le> 2)) (ValueError ''attempt'')])
       (\<lambda>_. Inr r)"

definition unit_supports_refetch :: "manifest_ref \<Rightarrow> alignment_remediation \<Rightarrow> bool" where
  "unit_supports_refetch ref remediation =
     (let allowed = set (cc_allowed_fact_types (evidence_contract_of (mr_id ref))) in
      case remediation of
        Remedy_refetch_document_context \<Rightarrow> Fact_document_context \<in> allowed
      | Remedy_refetch_report_scope \<Rightarrow>
          allowed \<inter> {Fact_report_scope_summary, Fact_report_scope_match, Fact_report_scope_products} \<noteq> {}
      | _ \<Rightarrow> False)"

definition build_alignment_refetch_request_v1 ::
  "execution_plan \<Rightarrow> alignment_verdict \<Rightarrow> int \<Rightarrow> refetch_request result" where
  "build_alignment_refetch_request_v1 plan verdict attempt =
     (case av_refined_evidence_query verdict of
        None \<Rightarrow> Inl (ValueError ''alignment_refetch_query_required'')
      | Some query \<Rightarrow>
          (case filter (\<lambda>u. unit_supports_refetch (eu_manifest_ref u) (av_remediation verdict)) (ep_units plan) of
             [u] \<Rightarrow> check_refetch_request
               \<lparr>rf_unit_id = eu_unit_id u, rf_manifest_ref = eu_manifest_ref u,
                rf_refined_evidence_query = query, rf_attempt = attempt\<rparr>
           | _ \<Rightarrow> Inl (ValueError ''alignment_refetch_unit_not_unique'')))"

definition validate_alignment_refetch_request_v1 :: "execution_plan \<Rightarrow> refetch_request \<Rightarrow> unit result" where
  "validate_alignment_refetch_request_v1 plan request =
     raise_if (length (filter (\<lambda>u. eu_unit_id u = rf_unit_id request \<and> eu_manifest_ref u = rf_manifest_ref request)
         (ep_units plan)) \<noteq> 1) (ValueError ''alignment_refetch_plan_binding_mismatch'')"

text \<open>The request built for a plan names one of its units, so it passes the check before the fetch.\<close>

lemma built_refetch_request_binds:
  assumes "build_alignment_refetch_request_v1 plan verdict attempt = Inr r"
    and "distinct (map eu_unit_id (ep_units plan))"
  shows "validate_alignment_refetch_request_v1 plan r = Inr ()"
proof -
  from assms(1) have "\<exists>u\<in>set (ep_units plan). rf_unit_id r = eu_unit_id u \<and> rf_manifest_ref r = eu_manifest_ref u"
    by (auto simp: build_alignment_refetch_request_v1_def check_refetch_request_def res_simps filter_eq_Cons_iff
        split: option.splits list.splits)
  then obtain u where u: "u \<in> set (ep_units plan)" "rf_unit_id r = eu_unit_id u" "rf_manifest_ref r = eu_manifest_ref u"
    by blast
  have "filter (\<lambda>v. eu_unit_id v = rf_unit_id r \<and> eu_manifest_ref v = rf_manifest_ref r) (ep_units plan) = [u]"
    if "distinct (map eu_unit_id us)" "u \<in> set us" "us = ep_units plan" for us
  proof -
    from that(2) obtain a b where us: "us = a @ u # b" by (meson split_list)
    have none: "filter (\<lambda>v. eu_unit_id v = eu_unit_id u \<and> eu_manifest_ref v = eu_manifest_ref u) c = []"
      if "eu_unit_id u \<notin> eu_unit_id ` set c" for c
      using that by (induction c) auto
    from that(1) have "eu_unit_id u \<notin> eu_unit_id ` set a" "eu_unit_id u \<notin> eu_unit_id ` set b"
      by (auto simp: us)
    from none [OF this(1)] none [OF this(2)] show ?thesis by (simp add: that(3) [symmetric] us u)
  qed
  from this [OF assms(2) u(1) refl] show ?thesis by (simp add: validate_alignment_refetch_request_v1_def)
qed

end
