(* ===== verification/Report_Scope.thy ===== *)
theory Report_Scope
  imports Adapter_Evidence Alignment_Refetch
begin

text \<open>
  Report-scope evidence: \<open>runtime/integrations/adapter/report_scope_targets.py\<close>,
  \<open>report_scope_facts.py\<close> and \<open>report_scope.py\<close>, with the wire models of \<open>schemas/adapter.py\<close> they
  exchange. The adapter is a parameter: the error of its readiness check, and what its n-th report-scope
  call answers to a request. \<open>Inl\<close> is an \<open>AdapterClientError\<close>, which the service turns into a fact.
\<close>

section \<open>Wire models\<close>

datatype report_command = Cmd_summary | Cmd_match | Cmd_list_products

fun report_command_str :: "report_command \<Rightarrow> pystr" where
  "report_command_str Cmd_summary = ''summary''"
| "report_command_str Cmd_match = ''match''"
| "report_command_str Cmd_list_products = ''list_products''"

record report_scope_request =
  rsq_material_type :: report_material_type
  rsq_dist_name :: pystr
  rsq_command :: report_command
  rsq_period :: "pystr option"
  rsq_query :: "pystr option"
  rsq_page :: "int option"
  rsq_page_size :: "int option"

record wire_report_product =
  wrp_product_name :: pystr
  wrp_portfolio_type :: "pystr option"
  wrp_report_section :: pystr
  wrp_source_pdf_found :: bool
  wrp_final_report_generated :: bool
  wrp_file_name :: "pystr option"

record wire_report_match =
  wrm_status :: report_match_status
  wrm_query :: pystr
  wrm_match_type :: "report_match_type option"
  wrm_matched_section :: "pystr option"
  wrm_candidate_count :: int
  wrm_products :: "wire_report_product list"
  wrm_product_page :: int
  wrm_product_page_size :: int

record report_scope_result =
  rsr_material_type :: report_material_type
  rsr_dist_name :: pystr
  rsr_period :: pystr
  rsr_status :: adapter_resolve_status
  rsr_reason_code :: pystr
  rsr_report_date :: "pystr option"
  rsr_period_start :: "pystr option"
  rsr_period_end :: "pystr option"
  rsr_period_label :: "pystr option"
  rsr_detail :: "pystr option"
  rsr_schema_version :: "pystr option"
  rsr_source_trade_date :: "pystr option"
  rsr_scope_complete :: "bool option"
  rsr_expected_product_count :: "int option"
  rsr_generated_product_count :: "int option"
  rsr_missing_product_count :: "int option"
  rsr_report_sections :: "wire_report_section list"
  rsr_match :: "wire_report_match option"
  rsr_products :: "wire_report_product list"
  rsr_product_page :: "int option"
  rsr_product_page_size :: "int option"
  rsr_product_total_count :: "int option"

record report_scope_service =
  rss_ready :: "pystr \<Rightarrow> pystr option"
  rss_report_scope :: "nat \<Rightarrow> report_scope_request \<Rightarrow> pystr + report_scope_result"

section \<open>Targets\<close>

definition report_page_size :: int where
  "report_page_size = 50"

definition max_products_in_projection :: int where
  "max_products_in_projection = 200"

record report_target =
  rt_unit :: execution_unit
  rt_resolve_type :: adapter_resolve_type
  rt_material_type :: report_material_type
  rt_command :: report_command
  rt_query :: "pystr option"
  rt_period :: "pystr option"
  rt_preflight_result :: "adapter_resolve_result option"

definition target_query :: "execution_unit \<Rightarrow> refetch_request option \<Rightarrow> pystr option" where
  "target_query u refetch =
     (case refetch of
        Some r \<Rightarrow> if rf_unit_id r = eu_unit_id u \<and> rf_manifest_ref r = eu_manifest_ref u
          then Some (py_strip (rf_refined_evidence_query r)) else map_option py_strip (eu_evidence_query u)
      | None \<Rightarrow> map_option py_strip (eu_evidence_query u))"

definition target_command :: "pystr option \<Rightarrow> evidence_fact_type list \<Rightarrow> report_command option" where
  "target_command query allowed =
     (if query = Some ''report_scope_products'' \<and> Fact_report_scope_products \<in> set allowed then Some Cmd_list_products
      else if query = Some ''report_scope_summary'' \<and> Fact_report_scope_summary \<in> set allowed then Some Cmd_summary
      else if query \<notin> {None, Some []} \<and> Fact_report_scope_match \<in> set allowed then Some Cmd_match
      else if Fact_report_scope_products \<in> set allowed then Some Cmd_list_products
      else if Fact_report_scope_summary \<in> set allowed then Some Cmd_summary
      else None)"

fun report_artifact_type :: "artifact_kind \<Rightarrow> adapter_resolve_type option" where
  "report_artifact_type Kind_weekly_report = Some Ar_weekly_report"
| "report_artifact_type Kind_monthly_report = Some Ar_monthly_report"
| "report_artifact_type _ = None"

fun report_material_of :: "adapter_resolve_type \<Rightarrow> report_material_type" where
  "report_material_of Ar_weekly_report = Material_weekly"
| "report_material_of _ = Material_monthly"

definition preflight_by_type :: "preflight_snapshot \<Rightarrow> adapter_resolve_type \<Rightarrow> adapter_resolve_result option" where
  "preflight_by_type items t =
     Option.bind (dict_get pfi_resolve_type t (filter (\<lambda>i. pfi_result i \<noteq> None) items)) pfi_result"

definition report_target_of ::
  "policy_authority_core \<Rightarrow> preflight_snapshot \<Rightarrow> refetch_request option \<Rightarrow> execution_unit \<Rightarrow> report_target option" where
  "report_target_of policy preflight refetch u =
     (let contract = evidence_contract_of (mr_id (eu_manifest_ref u)) in
      if eu_answerability u \<noteq> Ans_answer \<or> eu_manifest_ref u \<notin> set (pac_eligible policy) then None
      else if Src_adapter_report_scope \<notin> set (cc_allowed_source_types contract) then None
      else case report_artifact_type (eu_artifact_kind u) of
        None \<Rightarrow> None
      | Some t \<Rightarrow>
          if t \<notin> set (pac_resolves policy) then None
          else let query = target_query u refetch; found = preflight_by_type preflight t in
            (case target_command query (cc_allowed_fact_types contract) of
               None \<Rightarrow> None
             | Some command \<Rightarrow> Some
                 \<lparr>rt_unit = u, rt_resolve_type = t, rt_material_type = report_material_of t, rt_command = command,
                  rt_query = (if command = Cmd_match then query else None),
                  rt_period = Option.bind found arr_period, rt_preflight_result = found\<rparr>))"

definition report_targets ::
  "execution_plan \<Rightarrow> policy_authority_core \<Rightarrow> preflight_snapshot \<Rightarrow> refetch_request option \<Rightarrow> report_target list" where
  "report_targets plan policy preflight refetch =
     List.map_filter (report_target_of policy preflight refetch) (ep_units plan)"

definition report_request ::
  "pystr \<Rightarrow> kernel_reply_request \<Rightarrow> report_target \<Rightarrow> report_command \<Rightarrow> int option \<Rightarrow> report_scope_request result" where
  "report_request unspecified request target command page =
     (let name = kernel_distribution_name unspecified request in
      if name = [] then Inl (ValueError ''dist_name'')
      else Inr \<lparr>rsq_material_type = rt_material_type target, rsq_dist_name = name, rsq_command = command,
        rsq_period = rt_period target, rsq_query = (if command = Cmd_match then rt_query target else None),
        rsq_page = (if command = Cmd_list_products then page else None),
        rsq_page_size = (if command = Cmd_list_products then Some report_page_size else None)\<rparr>)"

definition report_scope_binding_error :: "report_scope_request \<Rightarrow> report_scope_result \<Rightarrow> pystr option" where
  "report_scope_binding_error request res =
     (if rsr_material_type res \<noteq> rsq_material_type request then Some ''adapter_report_scope_material_type_mismatch''
      else if rsr_dist_name res \<noteq> rsq_dist_name request then Some ''adapter_report_scope_distribution_mismatch''
      else if rsq_period request \<noteq> None \<and> Some (rsr_period res) \<noteq> rsq_period request
      then Some ''adapter_report_scope_period_mismatch''
      else None)"

section \<open>Facts\<close>

definition target_artifact :: "report_target \<Rightarrow> evidence_artifact_type" where
  "target_artifact target = canonical_artifact_type_for_resolve (rt_resolve_type target)"

definition report_fact_scope :: "report_target \<Rightarrow> report_scope_result option \<Rightarrow> evidence_scope result" where
  "report_fact_scope target res =
     (let period = (case res of None \<Rightarrow> rt_period target | Some r \<Rightarrow> Some (rsr_period r));
          date = Option.bind res rsr_report_date;
          artifact = evidence_artifact_str (target_artifact target)
      in check_evidence_scope (case eu_scope (rt_unit target) of
           DistributionExecutionDomainScopeV2 ref kind _ ids _ \<Rightarrow>
             DistributionEvidenceScopeIdentityV1 ref kind ids artifact None period date
         | UnscopedExecutionDomainScopeV2 \<Rightarrow> UnscopedEvidenceScopeIdentityV1 artifact None period date))"

definition report_observed_at :: "report_target \<Rightarrow> int option" where
  "report_observed_at target = map_option arr_resolved_at (rt_preflight_result target)"

definition report_provenance ::
  "(pybytes \<Rightarrow> pystr) \<Rightarrow> report_target \<Rightarrow> report_command \<Rightarrow> evidence_scope \<Rightarrow> evidence_provenance result" where
  "report_provenance sha target operation scope =
     (let ref = (case Option.bind (rt_preflight_result target) arr_resolve_ref of
           Some r \<Rightarrow> r
         | None \<Rightarrow> ''report-scope:'' @ adapter_resolve_str (rt_resolve_type target) @ '':unresolved'')
      in res_bind (check_source_record_key
           (AdapterRecord adapter_service_id ''adapter-report-scope'' (rt_resolve_type target) ref)) (\<lambda>record_key.
         check_evidence_provenance
           \<lparr>pv_source_class = ''adapter'', pv_source_record_ref = evidence_source_record_ref sha record_key,
            pv_producer_contract_version = ''adapter-report-scope'',
            pv_retrieval_operation = ''adapter_report_scope.'' @ report_command_str operation,
            pv_scope_ref = evidence_scope_ref sha scope, pv_as_of = report_observed_at target,
            pv_public_url_hashes = []\<rparr>))"

text \<open>The construction the four kinds of fact share.\<close>

definition report_fact ::
  "(pybytes \<Rightarrow> pystr) \<Rightarrow> report_target \<Rightarrow> report_scope_result option \<Rightarrow> report_command \<Rightarrow> evidence_fact_type
   \<Rightarrow> evidence_payload \<Rightarrow> canonical_fact result" where
  "report_fact sha target res operation ft payload =
     res_bind (report_fact_scope target res) (\<lambda>scope.
     res_bind (report_provenance sha target operation scope) (\<lambda>pv.
       build_canonical_evidence_fact_v1 sha ft Src_adapter_report_scope (target_artifact target)
         (Some (rt_resolve_type target)) payload scope pv (report_observed_at target) []))"

definition canonical_section :: "wire_report_section \<Rightarrow> report_section result" where
  "canonical_section s = check_report_section
     \<lparr>rs_name = wrs_name s, rs_source_pdf_count = wrs_expected_product_count s,
      rs_final_report_count = wrs_generated_product_count s,
      rs_missing_product_count = wrs_missing_product_count s\<rparr>"

definition canonical_product :: "wire_report_product \<Rightarrow> report_product result" where
  "canonical_product p = check_report_product
     \<lparr>rp_product_name = wrp_product_name p, rp_portfolio_type = wrp_portfolio_type p,
      rp_report_section = wrp_report_section p, rp_source_pdf_found = wrp_source_pdf_found p,
      rp_final_report_generated = wrp_final_report_generated p\<rparr>"

definition summary_fact :: "(pybytes \<Rightarrow> pystr) \<Rightarrow> report_target \<Rightarrow> report_scope_result \<Rightarrow> canonical_fact result" where
  "summary_fact sha target res =
     res_bind (map_res canonical_section (rsr_report_sections res)) (\<lambda>sections.
     res_bind (check_report_summary
       \<lparr>rsu_material_type = rsr_material_type res, rsu_period = Some (rsr_period res),
        rsu_report_date = rsr_report_date res, rsu_period_start = rsr_period_start res,
        rsu_period_end = rsr_period_end res, rsu_period_label = rsr_period_label res,
        rsu_available = (rsr_status res = St_resolved), rsu_reason_code = rsr_reason_code res,
        rsu_scope_complete = rsr_scope_complete res, rsu_expected_product_count = rsr_expected_product_count res,
        rsu_generated_product_count = rsr_generated_product_count res,
        rsu_missing_product_count = rsr_missing_product_count res, rsu_sections = sections\<rparr>) (\<lambda>payload.
       report_fact sha target (Some res) Cmd_summary Fact_report_scope_summary
         (ReportEvidencePayload (PayloadSummary payload))))"

definition match_fact :: "(pybytes \<Rightarrow> pystr) \<Rightarrow> report_target \<Rightarrow> report_scope_result \<Rightarrow> canonical_fact result" where
  "match_fact sha target res =
     (let m = rsr_match res;
          query = (case m of Some w \<Rightarrow> Some (wrm_query w) | None \<Rightarrow> rt_query target)
      in res_bind (map_res canonical_product (case m of None \<Rightarrow> [] | Some w \<Rightarrow> wrm_products w)) (\<lambda>products.
         res_bind (check_report_match
           \<lparr>rm_status = (case m of None \<Rightarrow> Match_not_found | Some w \<Rightarrow> wrm_status w),
            rm_query = (case query of None \<Rightarrow> ''unknown'' | Some q \<Rightarrow> if q = [] then ''unknown'' else q),
            rm_match_type = Option.bind m wrm_match_type, rm_section = Option.bind m wrm_matched_section,
            rm_candidate_count = (case m of None \<Rightarrow> 0 | Some w \<Rightarrow> wrm_candidate_count w), rm_products = products,
            rm_page = (case m of None \<Rightarrow> 1 | Some w \<Rightarrow> wrm_product_page w),
            rm_page_size = (case m of None \<Rightarrow> 10 | Some w \<Rightarrow> wrm_product_page_size w)\<rparr>) (\<lambda>payload.
           report_fact sha target (Some res) Cmd_match Fact_report_scope_match
             (ReportEvidencePayload (PayloadMatch payload)))))"

definition products_fact ::
  "(pybytes \<Rightarrow> pystr) \<Rightarrow> report_target \<Rightarrow> report_scope_result \<Rightarrow> wire_report_product list \<Rightarrow> int
   \<Rightarrow> canonical_fact result" where
  "products_fact sha target res products total_count =
     res_bind (map_res canonical_product products) (\<lambda>canonical.
     res_bind (check_report_products
       \<lparr>rps_available = True, rps_reason_code = rsr_reason_code res, rps_period = Some (rsr_period res),
        rps_report_date = rsr_report_date res, rps_products = canonical, rps_page = 1,
        rps_page_size = report_page_size, rps_total_count = total_count,
        rps_returned_count = int (length products),
        rps_full_product_list = (total_count \<le> int (length products))\<rparr>) (\<lambda>payload.
       report_fact sha target (Some res) Cmd_list_products Fact_report_scope_products
         (ReportEvidencePayload (PayloadProducts payload))))"

definition unavailable_fact :: "(pybytes \<Rightarrow> pystr) \<Rightarrow> report_target \<Rightarrow> pystr \<Rightarrow> canonical_fact result" where
  "unavailable_fact sha target reason_code =
     res_bind (check_evidence_value (EvidenceStringValueV1 reason_code)) (\<lambda>_.
       report_fact sha target None (rt_command target) Fact_report_scope_unavailable
         (ScalarEvidencePayload (EvidenceStringValueV1 reason_code)))"

section \<open>The service\<close>

text \<open>
  Calls are numbered: every step takes the number of the next call and returns it, with the error that
  ends the collection or its value.
\<close>

datatype page_result = PageFailed | PageMismatch pystr | PagesDone "wire_report_product list"

fun collect_pages ::
  "report_scope_service \<Rightarrow> (int \<Rightarrow> report_scope_request) \<Rightarrow> nat \<Rightarrow> int list \<Rightarrow> wire_report_product list
   \<Rightarrow> nat \<times> page_result" where
  "collect_pages adapter request_of n [] products = (n, PagesDone products)"
| "collect_pages adapter request_of n (page # pages) products =
     (case rss_report_scope adapter n (request_of page) of
        Inl _ \<Rightarrow> (Suc n, PageFailed)
      | Inr res \<Rightarrow> (case report_scope_binding_error (request_of page) res of
          Some e \<Rightarrow> (Suc n, PageMismatch e)
        | None \<Rightarrow> collect_pages adapter request_of (Suc n) pages (products @ rsr_products res)))"

text \<open>\<open>range(2, ceil(target_count / PAGE_SIZE) + 1)\<close>\<close>

definition further_pages :: "int \<Rightarrow> int list" where
  "further_pages total_count =
     [2..(min total_count max_products_in_projection + report_page_size - 1) div report_page_size]"

definition collect_products_fact ::
  "(pybytes \<Rightarrow> pystr) \<Rightarrow> report_scope_service \<Rightarrow> report_target \<Rightarrow> (report_command \<Rightarrow> int option \<Rightarrow> report_scope_request)
   \<Rightarrow> nat \<Rightarrow> nat \<times> canonical_fact result" where
  "collect_products_fact sha adapter target request_of n =
     (let first_request = request_of Cmd_list_products (Some 1) in
      case rss_report_scope adapter n first_request of
        Inl _ \<Rightarrow> (Suc n, unavailable_fact sha target ''adapter_report_scope_products_error'')
      | Inr res \<Rightarrow> (case report_scope_binding_error first_request res of
          Some e \<Rightarrow> (Suc n, unavailable_fact sha target e)
        | None \<Rightarrow>
            (case (rsr_status res, rsr_product_total_count res) of
               (St_resolved, Some total_count) \<Rightarrow>
                 (case collect_pages adapter (\<lambda>page. request_of Cmd_list_products (Some page)) (Suc n)
                     (further_pages total_count) (rsr_products res) of
                    (n', PageFailed) \<Rightarrow> (n', unavailable_fact sha target ''adapter_report_scope_products_error'')
                  | (n', PageMismatch e) \<Rightarrow> (n', unavailable_fact sha target e)
                  | (n', PagesDone products) \<Rightarrow> (n', products_fact sha target res products total_count))
             | _ \<Rightarrow> (Suc n, unavailable_fact sha target ''adapter_report_scope_products_invalid''))))"

definition collect_match_fact ::
  "(pybytes \<Rightarrow> pystr) \<Rightarrow> report_scope_service \<Rightarrow> report_target \<Rightarrow> (report_command \<Rightarrow> int option \<Rightarrow> report_scope_request)
   \<Rightarrow> nat \<Rightarrow> nat \<times> canonical_fact result" where
  "collect_match_fact sha adapter target request_of n =
     (let match_request = request_of Cmd_match None in
      (Suc n, case rss_report_scope adapter n match_request of
         Inl _ \<Rightarrow> unavailable_fact sha target ''adapter_report_scope_match_error''
       | Inr res \<Rightarrow> (case report_scope_binding_error match_request res of
           Some e \<Rightarrow> unavailable_fact sha target e
         | None \<Rightarrow> match_fact sha target res)))"

text \<open>The facts of one target, in the order they are appended.\<close>

definition collect_target ::
  "(pybytes \<Rightarrow> pystr) \<Rightarrow> report_scope_service \<Rightarrow> report_target \<Rightarrow> (report_command \<Rightarrow> int option \<Rightarrow> report_scope_request)
   \<Rightarrow> nat \<Rightarrow> nat \<times> canonical_fact list result" where
  "collect_target sha adapter target request_of n =
     (let summary_request = request_of Cmd_summary None;
          one = (\<lambda>r. res_bind r (\<lambda>f. Inr [f]))
      in case rss_report_scope adapter n summary_request of
        Inl _ \<Rightarrow> (Suc n, one (unavailable_fact sha target ''adapter_report_scope_error''))
      | Inr res \<Rightarrow> (case report_scope_binding_error summary_request res of
          Some e \<Rightarrow> (Suc n, one (unavailable_fact sha target e))
        | None \<Rightarrow> (case summary_fact sha target res of
            Inl e \<Rightarrow> (Suc n, Inl e)
          | Inr s \<Rightarrow>
              (let after = (\<lambda>p. case p of (n', r) \<Rightarrow> (n', res_bind r (\<lambda>f. Inr [s, f]))) in
               case rt_command target of
                 Cmd_summary \<Rightarrow> (Suc n, Inr [s])
               | Cmd_match \<Rightarrow> after (collect_match_fact sha adapter target request_of (Suc n))
               | Cmd_list_products \<Rightarrow> after (collect_products_fact sha adapter target request_of (Suc n))))))"

fun collect_targets ::
  "(pybytes \<Rightarrow> pystr) \<Rightarrow> report_scope_service \<Rightarrow> (report_target \<Rightarrow> report_command \<Rightarrow> int option \<Rightarrow> report_scope_request)
   \<Rightarrow> nat \<Rightarrow> report_target list \<Rightarrow> canonical_fact list result" where
  "collect_targets sha adapter request_of n [] = Inr []"
| "collect_targets sha adapter request_of n (t # ts) =
     (case collect_target sha adapter t (request_of t) n of
        (n', r) \<Rightarrow> res_bind r (\<lambda>fs. res_bind (collect_targets sha adapter request_of n' ts) (\<lambda>gs. Inr (fs @ gs))))"

text \<open>
  The requests of a target differ only in command and page, and their construction fails only on an
  empty channel name: the check is made once, before the first call.
\<close>

definition report_scope_collect ::
  "(pybytes \<Rightarrow> pystr) \<Rightarrow> report_scope_service \<Rightarrow> pystr \<Rightarrow> kernel_reply_request \<Rightarrow> execution_plan
   \<Rightarrow> policy_authority_core \<Rightarrow> preflight_snapshot \<Rightarrow> refetch_request option \<Rightarrow> canonical_fact list result" where
  "report_scope_collect sha adapter unspecified request plan policy preflight refetch =
     (let targets = report_targets plan policy preflight refetch in
      if cd_is_compliant (ep_compliance plan) \<noteq> Some True \<or> targets = [] then Inr []
      else case rss_ready adapter (vi_tenant_ref (kr_identity request)) of
        Some _ \<Rightarrow> res_bind (map_res (\<lambda>t. unavailable_fact sha t ''adapter_report_scope_error'') targets)
          (\<lambda>facts. Inr (dict_values cf_evidence_id facts))
      | None \<Rightarrow>
          (case report_request unspecified request (hd targets) Cmd_summary None of
             Inl e \<Rightarrow> Inl e
           | Inr _ \<Rightarrow>
               res_bind (collect_targets sha adapter
                   (\<lambda>t command page. case report_request unspecified request t command page of Inr q \<Rightarrow> q) 0 targets)
                 (\<lambda>facts. Inr (dict_values cf_evidence_id facts))))"

end
