(* ===== verification/Company_Knowledge.thy ===== *)
theory Company_Knowledge
  imports Adapter_Evidence Alignment_Refetch
begin

text \<open>
  Internal company knowledge after planning: \<open>runtime/evidence/internal_company_knowledge.py\<close>,
  \<open>internal_company_knowledge_models.py\<close>, \<open>internal_company_knowledge_admission.py\<close>,
  \<open>internal_knowledge_selection.py\<close> and the entries of \<open>runtime/recall/approved_static_catalog.py\<close>.

  The catalogue is Chinese text and a parameter, as are the documents the document service returns to
  the n-th query, the entries the selector picks for it, and \<open>sanitize\<close>, the text filter of
  \<open>document_mcp/sanitizer.py\<close> (regular expressions over Unicode). The cache key handed to the document
  service is left out.
\<close>

section \<open>The catalogue\<close>

record image_asset =
  ias_asset_id :: pystr
  ias_marker_filename :: pystr

definition asset_marker :: "image_asset \<Rightarrow> pystr" where
  "asset_marker a = ''%%'' @ ias_marker_filename a @ ''%%''"

record knowledge_entry =
  ken_entry_id :: pystr
  ken_title :: pystr
  ken_approved_answer :: pystr
  ken_image_asset_ids :: "pystr list"

text \<open>The entries, the assets and the two labels of \<open>to_document_context\<close>.\<close>

record knowledge_catalog =
  kct_entries :: "knowledge_entry list"
  kct_assets :: "image_asset list"
  kct_question_label :: pystr
  kct_answer_label :: pystr

definition entry_by_id :: "knowledge_catalog \<Rightarrow> pystr \<Rightarrow> knowledge_entry option" where
  "entry_by_id catalog i = dict_get ken_entry_id i (kct_entries catalog)"

definition asset_by_id :: "knowledge_catalog \<Rightarrow> pystr \<Rightarrow> image_asset option" where
  "asset_by_id catalog i = dict_get ias_asset_id i (kct_assets catalog)"

definition approved_image_asset_by_marker :: "knowledge_catalog \<Rightarrow> pystr \<Rightarrow> image_asset option" where
  "approved_image_asset_by_marker catalog filename = dict_get ias_marker_filename filename (kct_assets catalog)"

text \<open>\<open>s.replace(needle, "")\<close> for a needle that is not empty.\<close>

function remove_all :: "pystr \<Rightarrow> pystr \<Rightarrow> pystr" where
  "remove_all needle [] = []"
| "remove_all needle (c # cs) =
     (if needle \<noteq> [] \<and> startswith (c # cs) needle then remove_all needle (drop (length needle) (c # cs))
      else c # remove_all needle cs)"
  by pat_completeness auto
termination
  by (relation "measure (length \<circ> snd)") auto

fun strip_unselected :: "knowledge_catalog \<Rightarrow> pystr list \<Rightarrow> pystr list \<Rightarrow> pystr \<Rightarrow> pystr" where
  "strip_unselected catalog selected [] answer = answer"
| "strip_unselected catalog selected (i # ids) answer =
     (case asset_by_id catalog i of
        Some a \<Rightarrow> if i \<in> set selected then strip_unselected catalog selected ids answer
                  else strip_unselected catalog selected ids (py_strip (remove_all (asset_marker a) answer))
      | None \<Rightarrow> strip_unselected catalog selected ids answer)"

definition to_document_context :: "knowledge_catalog \<Rightarrow> knowledge_entry \<Rightarrow> pystr list \<Rightarrow> pystr" where
  "to_document_context catalog e selected =
     (let answer = py_strip (strip_unselected catalog selected (ken_image_asset_ids e) (ken_approved_answer e)) in
      if answer = [] then []
      else kct_question_label catalog @ ken_title e @ [CHR 0x0A] @ kct_answer_label catalog @ answer)"

section \<open>Selection\<close>

record knowledge_selection =
  ksl_selected_entry_ids :: "pystr list"
  ksl_selected_image_asset_ids :: "pystr list"
  ksl_confident :: bool

definition valid_unique :: "(pystr \<Rightarrow> bool) \<Rightarrow> pystr list \<Rightarrow> pystr list" where
  "valid_unique valid ids = first_by id [] (filter valid ids)"

definition validate_selection_for_gateway ::
  "knowledge_catalog \<Rightarrow> nat \<Rightarrow> nat \<Rightarrow> knowledge_selection \<Rightarrow> knowledge_selection" where
  "validate_selection_for_gateway catalog max_entries max_images selection =
     (let none = \<lparr>ksl_selected_entry_ids = [], ksl_selected_image_asset_ids = [], ksl_confident = False\<rparr>;
          entries = take max_entries (valid_unique (\<lambda>i. entry_by_id catalog i \<noteq> None) (ksl_selected_entry_ids selection));
          assets = concat (map (\<lambda>i. case entry_by_id catalog i of None \<Rightarrow> [] | Some e \<Rightarrow> ken_image_asset_ids e) entries)
      in if \<not> ksl_confident selection \<or> entries = [] then none
         else selection
           \<lparr>ksl_selected_entry_ids := entries,
            ksl_selected_image_asset_ids := take max_images
              (valid_unique (\<lambda>i. i \<in> set assets \<and> asset_by_id catalog i \<noteq> None)
                (ksl_selected_image_asset_ids selection))\<rparr>)"

record static_context =
  sctx_entry_id :: pystr
  sctx_text :: pystr
  sctx_selected_asset_ids :: "pystr list"

definition check_static_context :: "static_context \<Rightarrow> static_context result" where
  "check_static_context c =
     res_bind (seq_res
       [raise_if (\<not> length_within 1 160 (sctx_entry_id c)) (ValueError ''entry_id''),
        raise_if (\<not> length_within 1 1000000 (sctx_text c)) (ValueError ''text''),
        raise_if (length (sctx_selected_asset_ids c) > 8) (ValueError ''selected_asset_ids'')])
       (\<lambda>_. Inr c)"

text \<open>The static provider, after its selector has answered.\<close>

definition static_contexts ::
  "knowledge_catalog \<Rightarrow> scene \<Rightarrow> knowledge_selection \<Rightarrow> static_context list result" where
  "static_contexts catalog scene selection =
     (let max_images = (if scene = SceneDirect then 0 else 2);
          selected = validate_selection_for_gateway catalog 1 max_images selection
      in map_res check_static_context (List.map_filter (\<lambda>i.
           case entry_by_id catalog i of
             None \<Rightarrow> None
           | Some e \<Rightarrow>
               (let ids = filter (\<lambda>a. a \<in> set (ken_image_asset_ids e)) (ksl_selected_image_asset_ids selected);
                    content = to_document_context catalog e ids
                in if content = [] then None
                   else Some \<lparr>sctx_entry_id = ken_entry_id e, sctx_text = content, sctx_selected_asset_ids = ids\<rparr>))
         (ksl_selected_entry_ids selected)))"

section \<open>Image markers of a text\<close>

text \<open>\<open>%%([^%\r\n]{1,160})%%\<close>, matched at the start of the text: the marker and what follows it.\<close>

definition marker_body :: "pystr \<Rightarrow> pystr" where
  "marker_body s = takeWhile (\<lambda>c. c \<noteq> CHR ''%'' \<and> c \<noteq> CHR 0x0D \<and> c \<noteq> CHR 0x0A) (drop 2 s)"

definition marker_at :: "pystr \<Rightarrow> (pystr \<times> pystr) option" where
  "marker_at s =
     (let n = length (marker_body s) in
      if startswith s ''%%'' \<and> 1 \<le> n \<and> n \<le> 160 \<and> startswith (drop (n + 2) s) ''%%''
      then Some (take (n + 4) s, drop (n + 4) s) else None)"

text \<open>The scan of \<open>_selected_markers\<close>: \<open>after_percent\<close> says that the character before is a percent sign.\<close>

function scan_markers :: "pystr list \<Rightarrow> bool \<Rightarrow> pystr list \<Rightarrow> pystr \<Rightarrow> pystr list option" where
  "scan_markers selected after_percent observed [] = Some observed"
| "scan_markers selected after_percent observed (c # cs) =
     (if startswith (c # cs) ''%%'' then
        (case marker_at (c # cs) of
           None \<Rightarrow> None
         | Some (m, r) \<Rightarrow>
             if after_percent \<or> startswith r ''%'' \<or> m \<notin> set selected then None
             else scan_markers selected True (m # observed) r)
      else scan_markers selected (c = CHR ''%'') observed cs)"
  by pat_completeness auto
termination
  by (relation "measure (\<lambda>(_, _, _, s). length s)") (auto simp: marker_at_def Let_def split: if_splits)

definition selected_markers :: "knowledge_catalog \<Rightarrow> pystr \<Rightarrow> pystr list \<Rightarrow> bool" where
  "selected_markers catalog s asset_ids =
     (let selected = List.map_filter (\<lambda>i. map_option asset_marker (asset_by_id catalog i)) asset_ids in
      case scan_markers selected False [] s of None \<Rightarrow> False | Some observed \<Rightarrow> set observed = set selected)"

section \<open>Facts\<close>

record media_binding =
  mb_evidence_id :: pystr
  mb_asset_id :: pystr
  mb_marker :: pystr

definition check_media_binding :: "media_binding \<Rightarrow> media_binding result" where
  "check_media_binding b =
     res_bind (seq_res
       [raise_if (\<not> prefixed_hex ''eid1:'' 64 (mb_evidence_id b)) (ValueError ''evidence_id''),
        raise_if (\<not> length_within 1 160 (mb_asset_id b)) (ValueError ''asset_id''),
        raise_if (map_option snd (marker_at (mb_marker b)) \<noteq> Some []) (ValueError ''marker'')])
       (\<lambda>_. Inr b)"

record document_context =
  dctx_document_id :: pystr
  dctx_text :: pystr
  dctx_client_contract_version :: pystr
  dctx_corpus_version :: pystr

definition gateway_version :: pystr where
  "gateway_version = ''internal-company-knowledge-gateway.v1''"

text \<open>The common end of \<open>document_fact\<close> and \<open>static_fact\<close>.\<close>

definition knowledge_fact ::
  "(pybytes \<Rightarrow> pystr) \<Rightarrow> execution_unit \<Rightarrow> source_record_key \<Rightarrow> pystr \<Rightarrow> pystr \<Rightarrow> evidence_source_type
   \<Rightarrow> pystr \<Rightarrow> canonical_fact result" where
  "knowledge_fact sha u record_key source_class operation source content =
     res_bind (check_evidence_scope (canonical_scope_for_unit_v1 u Art_document_context)) (\<lambda>scope.
     res_bind (check_source_record_key record_key) (\<lambda>key.
     res_bind (check_evidence_provenance
       \<lparr>pv_source_class = source_class, pv_source_record_ref = evidence_source_record_ref sha key,
        pv_producer_contract_version = gateway_version, pv_retrieval_operation = operation,
        pv_scope_ref = evidence_scope_ref sha scope, pv_as_of = None, pv_public_url_hashes = []\<rparr>) (\<lambda>pv.
     res_bind (check_evidence_value (EvidenceContentValueV1 Media_markdown content)) (\<lambda>_.
       build_canonical_evidence_fact_v1 sha Fact_document_context source Art_document_context None
         (ScalarEvidencePayload (EvidenceContentValueV1 Media_markdown content)) scope pv None []))))"

definition document_fact ::
  "(pybytes \<Rightarrow> pystr) \<Rightarrow> (pystr \<Rightarrow> pystr) \<Rightarrow> execution_unit \<Rightarrow> document_context \<Rightarrow> canonical_fact option result" where
  "document_fact sha sanitize u c =
     (let content = sanitize (dctx_text c) in
      if content = [] then Inr None
      else res_bind (knowledge_fact sha u
          (DocumentMcpRecord (dctx_client_contract_version c) (dctx_corpus_version c) (dctx_document_id c) (dctx_document_id c))
          ''document_mcp'' ''document_query'' Src_document_mcp content) (\<lambda>f. Inr (Some f)))"

definition static_assets_are_selected :: "knowledge_catalog \<Rightarrow> static_context \<Rightarrow> pystr list \<Rightarrow> bool" where
  "static_assets_are_selected catalog c entry_asset_ids =
     (let ids = sctx_selected_asset_ids c in
      distinct ids \<and> set ids \<subseteq> set entry_asset_ids \<and> list_all (\<lambda>i. asset_by_id catalog i \<noteq> None) ids)"

text \<open>
  The manifest test of \<open>static_fact\<close>: context and entry carry the one approved reference, so what
  remains is that the unit has it too; its contract admits approved static documents.
\<close>

definition static_manifest_is_admitted :: "execution_unit \<Rightarrow> bool" where
  "static_manifest_is_admitted u =
     (let contract = evidence_contract_of Answer_internal_company_knowledge in
      eu_manifest_ref u = ManifestRefV1 Answer_internal_company_knowledge
      \<and> Fact_document_context \<in> set (cc_allowed_fact_types contract)
      \<and> Art_document_context \<in> set (cc_allowed_artifact_types contract)
      \<and> Src_approved_static_knowledge \<in> set (cc_allowed_source_types contract))"

definition static_fact ::
  "(pybytes \<Rightarrow> pystr) \<Rightarrow> (pystr \<Rightarrow> pystr) \<Rightarrow> knowledge_catalog \<Rightarrow> execution_unit \<Rightarrow> bool \<Rightarrow> static_context
   \<Rightarrow> (canonical_fact \<times> media_binding list) option result" where
  "static_fact sha sanitize catalog u media_allowed c =
     (let ids = sctx_selected_asset_ids c; content = sanitize (sctx_text c) in
      if \<not> media_allowed \<and> (ids \<noteq> [] \<or> py_in ''%%'' (sctx_text c)) then Inr None
      else case entry_by_id catalog (sctx_entry_id c) of
        None \<Rightarrow> Inr None
      | Some e \<Rightarrow>
          if \<not> static_manifest_is_admitted u \<or> \<not> static_assets_are_selected catalog c (ken_image_asset_ids e)
             \<or> \<not> selected_markers catalog (sctx_text c) ids
             \<or> content = [] \<or> \<not> selected_markers catalog content ids then Inr None
          else res_bind (knowledge_fact sha u (ApprovedStaticRecord ''approved-static-catalog.v1'' (sctx_entry_id c))
                 ''approved_static'' ''approved_static_query'' Src_approved_static_knowledge content) (\<lambda>f.
               res_bind (map_res check_media_binding (List.map_filter (\<lambda>i. map_option (\<lambda>a.
                   \<lparr>mb_evidence_id = cf_evidence_id f, mb_asset_id = i, mb_marker = asset_marker a\<rparr>)
                   (asset_by_id catalog i)) ids)) (\<lambda>bindings. Inr (Some (f, bindings)))))"

section \<open>The gateway\<close>

definition knowledge_targets :: "execution_plan \<Rightarrow> policy_authority_core \<Rightarrow> execution_unit list" where
  "knowledge_targets plan policy =
     filter (\<lambda>u. let contract = evidence_contract_of (mr_id (eu_manifest_ref u)) in
        eu_manifest_ref u \<in> set (pac_eligible policy)
        \<and> Fact_document_context \<in> set (cc_allowed_fact_types contract)
        \<and> Art_document_context \<in> set (cc_allowed_artifact_types contract)
        \<and> {Src_document_mcp, Src_approved_static_knowledge} \<subseteq> set (cc_allowed_source_types contract))
      (ep_units plan)"

definition evidence_query_for_unit :: "execution_unit \<Rightarrow> refetch_request option \<Rightarrow> pystr option" where
  "evidence_query_for_unit u refetch =
     (let query = (case refetch of
          Some r \<Rightarrow> if rf_unit_id r = eu_unit_id u \<and> rf_manifest_ref r = eu_manifest_ref u
            then Some (rf_refined_evidence_query r) else eu_evidence_query u
        | None \<Rightarrow> eu_evidence_query u)
      in case query of None \<Rightarrow> None | Some q \<Rightarrow> if py_strip q = [] then None else Some q)"

text \<open>
  What is outside: the documents and the selection the n-th query returns (no document when the document
  service fails, as the adapter of the gateway does).
\<close>

record knowledge_sources =
  kns_documents :: "nat \<Rightarrow> pystr \<Rightarrow> document_context list"
  kns_selection :: "nat \<Rightarrow> pystr \<Rightarrow> knowledge_selection"
  kns_catalog :: knowledge_catalog
  kns_sanitize :: "pystr \<Rightarrow> pystr"

definition collect_knowledge_unit ::
  "(pybytes \<Rightarrow> pystr) \<Rightarrow> knowledge_sources \<Rightarrow> scene \<Rightarrow> nat \<Rightarrow> execution_unit \<Rightarrow> pystr
   \<Rightarrow> (canonical_fact list \<times> media_binding list) result" where
  "collect_knowledge_unit sha sources scene n u query =
     (let sanitize = kns_sanitize sources; catalog = kns_catalog sources in
      res_bind (map_res (document_fact sha sanitize u) (kns_documents sources n query)) (\<lambda>documents.
      res_bind (static_contexts catalog scene (kns_selection sources n query)) (\<lambda>contexts.
      res_bind (map_res (static_fact sha sanitize catalog u (scene = SceneGroup)) contexts) (\<lambda>statics.
        Inr (List.map_filter id documents @ map fst (List.map_filter id statics),
             concat (map snd (List.map_filter id statics)))))))"

fun collect_knowledge ::
  "(pybytes \<Rightarrow> pystr) \<Rightarrow> knowledge_sources \<Rightarrow> scene \<Rightarrow> refetch_request option \<Rightarrow> nat \<Rightarrow> execution_unit list
   \<Rightarrow> (canonical_fact list \<times> media_binding list) result" where
  "collect_knowledge sha sources scene refetch n [] = Inr ([], [])"
| "collect_knowledge sha sources scene refetch n (u # us) =
     (case evidence_query_for_unit u refetch of
        None \<Rightarrow> collect_knowledge sha sources scene refetch n us
      | Some query \<Rightarrow>
          res_bind (collect_knowledge_unit sha sources scene n u query) (\<lambda>(fs, bs).
          res_bind (collect_knowledge sha sources scene refetch (Suc n) us) (\<lambda>(gs, cs).
            Inr (fs @ gs, bs @ cs))))"

definition deduplicate_knowledge_result ::
  "canonical_fact list \<Rightarrow> media_binding list \<Rightarrow> canonical_fact list \<times> media_binding list" where
  "deduplicate_knowledge_result facts bindings =
     (let unique = dict_values cf_evidence_id facts in
      (unique, dict_values (\<lambda>b. (mb_evidence_id b, mb_asset_id b))
         (filter (\<lambda>b. mb_evidence_id b \<in> cf_evidence_id ` set unique) bindings)))"

definition knowledge_collect ::
  "(pybytes \<Rightarrow> pystr) \<Rightarrow> knowledge_sources \<Rightarrow> kernel_reply_request \<Rightarrow> execution_plan \<Rightarrow> policy_authority_core
   \<Rightarrow> refetch_request option \<Rightarrow> (canonical_fact list \<times> media_binding list) result" where
  "knowledge_collect sha sources request plan policy refetch =
     (if \<not> pac_internal_knowledge policy \<or> knowledge_targets plan policy = [] then Inr ([], [])
      else res_bind (collect_knowledge sha sources (vi_scene (kr_identity request)) refetch 0
          (knowledge_targets plan policy)) (\<lambda>(facts, bindings).
        Inr (deduplicate_knowledge_result facts bindings)))"

end
