(* ===== verification/Evidence_Executor.thy ===== *)
theory Evidence_Executor
  imports Grounding Report_Scope Company_Knowledge
begin

text \<open>
  The evidence executor of \<open>runtime/evidence/executor.py\<close>: preflight, the facts of the three sources in
  their order, and the grounding. The domain context of the prompts is left out of the result.
\<close>

record evidence_result =
  er_preflight :: preflight_snapshot
  er_facts :: "canonical_fact list"
  er_bindings :: "resolve_binding list"
  er_groundings :: "unit_grounding list"
  er_media_bindings :: "media_binding list"

text \<open>
  What the executor is built from: the preflight's adapter, the report-scope service if one is
  configured, the one that its preflight service can give otherwise, and the knowledge gateway.
\<close>

record evidence_executor =
  ex_adapter :: adapter_service
  ex_report_scope :: "report_scope_service option"
  ex_preflight_report_scope :: "report_scope_service option"
  ex_knowledge :: "knowledge_sources option"

definition resolve_types_for_plan_v2 :: "execution_plan \<Rightarrow> policy_authority_core \<Rightarrow> adapter_resolve_type list" where
  "resolve_types_for_plan_v2 plan policy =
     ordered_resolve_types (filter (\<lambda>t. t \<in> set (pac_resolves policy)) (map are_type (ep_adapter_resolves plan)))"

definition plan_uses_adapter_report_scope_v1 :: "execution_plan \<Rightarrow> bool" where
  "plan_uses_adapter_report_scope_v1 plan =
     list_ex (\<lambda>u. Src_adapter_report_scope
        \<in> set (cc_allowed_source_types (evidence_contract_of (mr_id (eu_manifest_ref u))))) (ep_units plan)"

definition executor_report_facts ::
  "(pybytes \<Rightarrow> pystr) \<Rightarrow> evidence_executor \<Rightarrow> kernel_reply_request \<Rightarrow> execution_plan \<Rightarrow> policy_authority_core
   \<Rightarrow> preflight_snapshot \<Rightarrow> refetch_request option \<Rightarrow> canonical_fact list result" where
  "executor_report_facts sha ex request plan policy preflight refetch =
     (let collect = (\<lambda>s. report_scope_collect sha s (adp_unspecified_name (ex_adapter ex)) request plan policy preflight refetch)
      in case ex_report_scope ex of
        Some s \<Rightarrow> collect s
      | None \<Rightarrow>
          if plan_uses_adapter_report_scope_v1 plan
          then (case ex_preflight_report_scope ex of
                  None \<Rightarrow> Inl (CanonicalEvidenceExecutionError ''report_scope_service_required'')
                | Some s \<Rightarrow> collect s)
          else Inr [])"

definition execute_v2 ::
  "(pybytes \<Rightarrow> pystr) \<Rightarrow> evidence_executor \<Rightarrow> kernel_reply_request \<Rightarrow> execution_plan \<Rightarrow> policy_manifest
   \<Rightarrow> business_scope_authority \<Rightarrow> refetch_request option \<Rightarrow> evidence_result result" where
  "execute_v2 sha ex request plan policy authority refetch =
     (let core = pm_core policy in
      if kr_business_scope request \<noteq> bsa_scope authority
      then Inl (CanonicalEvidenceExecutionError ''business_scope_authority_mismatch'')
      else if pac_scope_hash core \<noteq> bsa_hash authority
      then Inl (CanonicalEvidenceExecutionError ''policy_business_scope_hash_mismatch'')
      else res_bind (case refetch of None \<Rightarrow> Inr () | Some r \<Rightarrow> validate_alignment_refetch_request_v1 plan r) (\<lambda>_.
        res_bind (preflight_collect (ex_adapter ex) request (resolve_types_for_plan_v2 plan core)
          (ep_adapter_resolves plan)) (\<lambda>preflight.
        res_bind (canonical_adapter_facts_v1 sha plan preflight) (\<lambda>(adapter_facts, bindings).
        res_bind (executor_report_facts sha ex request plan core preflight refetch) (\<lambda>report_facts.
        res_bind (case ex_knowledge ex of None \<Rightarrow> Inr ([], [])
            | Some k \<Rightarrow> knowledge_collect sha k request plan core refetch) (\<lambda>(knowledge_facts, media).
        let facts = adapter_facts @ report_facts @ knowledge_facts in
        res_bind (ground_execution_plan_v2 plan core facts bindings None) (\<lambda>groundings.
          Inr \<lparr>er_preflight = preflight, er_facts = facts, er_bindings = bindings, er_groundings = groundings,
               er_media_bindings = media\<rparr>)))))))"

end
