(* ===== verification/Attempt.thy ===== *)
theory Attempt
  imports Evidence_Executor Audit_Validation
begin

text \<open>
  From a plan to a candidate reply: \<open>runtime/v2_attempt.py\<close>, the composer boundary of
  \<open>runtime/rendering/v2_composer.py\<close> and \<open>composer_output.py\<close>, \<open>rendering/response_ids.py\<close> and
  \<open>image_marker_filenames\<close> of \<open>validation/guardrail_common.py\<close>.

  The composer is a parameter: what it returns or raises for an invocation. \<open>projection\<close> is the error,
  if any, with which the prompt views (\<open>runtime/context\<close>) refuse an invocation. The reply texts are
  Chinese and a record of parameters; \<open>uuid\<close> is the hexadecimal text of \<open>uuid4\<close>.
\<close>

section \<open>Image markers\<close>

text \<open>\<open>\w\<close> for code points below 256, the dot and the hyphen.\<close>

definition marker_char :: "char \<Rightarrow> bool" where
  "marker_char c =
     (is_alnum c \<or> c \<in> set ''_.-''
      \<or> c \<in> {CHR 0xAA, CHR 0xB2, CHR 0xB3, CHR 0xB5, CHR 0xB9, CHR 0xBA, CHR 0xBC, CHR 0xBD, CHR 0xBE}
      \<or> CHR 0xC0 \<le> c \<and> c \<noteq> CHR 0xD7 \<and> c \<noteq> CHR 0xF7)"

text \<open>\<open>%%([\w\d_.-]+\.png)%%\<close>, matched at the start: the file name and what follows the marker.\<close>

definition image_marker_at :: "pystr \<Rightarrow> (pystr \<times> pystr) option" where
  "image_marker_at s =
     (let body = takeWhile marker_char (drop 2 s); n = length body in
      if startswith s ''%%'' \<and> 5 \<le> n \<and> drop (n - 4) body = ''.png'' \<and> startswith (drop (n + 2) s) ''%%''
      then Some (body, drop (n + 4) s) else None)"

function image_markers_from :: "pystr list \<Rightarrow> pystr \<Rightarrow> pystr list" where
  "image_markers_from output [] = output"
| "image_markers_from output (c # cs) =
     (case image_marker_at (c # cs) of
        None \<Rightarrow> image_markers_from output cs
      | Some (name, r) \<Rightarrow>
          image_markers_from (if name \<in> set output then output else output @ [name]) r)"
  by pat_completeness auto
termination
  by (relation "measure (\<lambda>(_, s). length s)") (auto simp: image_marker_at_def Let_def split: if_splits)

definition image_marker_filenames :: "pystr \<Rightarrow> pystr list" where
  "image_marker_filenames s = image_markers_from [] s"

section \<open>The composer boundary\<close>

datatype composer_mode = Compose_answer | Compose_abstain | Compose_clarify

record composer_output =
  co_out_response_id :: pystr
  co_out_mode :: composer_mode
  co_out_claims :: "pystr list"
  co_out_evidence_ids :: "pystr list"
  co_out_missing_inputs :: "pystr list"
  co_out_reply :: primary_reply
  co_out_actions :: "outbound_action list"

definition check_composer_output :: "composer_output \<Rightarrow> composer_output result" where
  "check_composer_output o' =
     (let kind = reply_kind_of (co_out_reply o'); mode = co_out_mode o';
          cites = (co_out_claims o' \<noteq> [] \<or> co_out_evidence_ids o' \<noteq> [])
      in res_bind (seq_res
       [raise_if (length (co_out_claims o') > 20) (ValueError ''claims''),
        raise_if (length (co_out_evidence_ids o') > 20) (ValueError ''evidence_ids''),
        raise_if (length (co_out_missing_inputs o') > 20) (ValueError ''missing_inputs''),
        res_bind (validate_no_reply_shape (co_out_reply o')) (\<lambda>_. Inr ()),
        raise_if (mode = Compose_answer \<and> kind \<noteq> Reply_answer)
          (ValueError ''response_mode=answer requires reply.kind=answer''),
        raise_if (mode = Compose_abstain \<and> kind \<noteq> Reply_unable_to_answer)
          (ValueError ''response_mode=abstain requires reply.kind=unable_to_answer''),
        raise_if (mode = Compose_abstain \<and> cites)
          (ValueError ''response_mode=abstain must not include claims or evidence_ids''),
        raise_if (mode = Compose_clarify \<and> kind \<noteq> Reply_clarification)
          (ValueError ''response_mode=clarify requires reply.kind=clarification''),
        raise_if (mode = Compose_clarify \<and> cites)
          (ValueError ''response_mode=clarify must not include claims or evidence_ids''),
        raise_if (co_out_actions o' \<noteq> []) (ValueError ''composer output must not include actions'')])
       (\<lambda>_. Inr o'))"

definition to_reply_response :: "composer_output \<Rightarrow> reply_response result" where
  "to_reply_response o' =
     validate_reply_response \<lparr>resp_id = co_out_response_id o', resp_reply = co_out_reply o', resp_actions = []\<rparr>"

type_synonym history_turns = "(history_role \<times> pystr) list"

record composer_invocation =
  ci_request :: kernel_reply_request
  ci_policy :: policy_manifest
  ci_authority :: business_scope_authority
  ci_plan :: execution_plan
  ci_preflight :: preflight_snapshot
  ci_groundings :: "unit_grounding list"
  ci_media_bindings :: "media_binding list"
  ci_history :: history_turns
  ci_retry_overlay :: "(int \<times> pystr) option"

datatype composer_outcome =
    ComposerReturns composer_output
  | ComposerUnavailable
  | ComposerRejected
  | ComposerRaises py_error

definition validate_invocation_authority :: "composer_invocation \<Rightarrow> unit result" where
  "validate_invocation_authority i =
     (if vi_scene (kr_identity (ci_request i)) \<noteq> pac_scene (pm_core (ci_policy i))
      then Inl (ContextViewInvariantError ''composer_request_policy_scene_mismatch'')
      else if kr_business_scope (ci_request i) \<noteq> bsa_scope (ci_authority i)
      then Inl (ContextViewInvariantError ''composer_business_scope_authority_mismatch'')
      else if pac_scope_hash (pm_core (ci_policy i)) \<noteq> bsa_hash (ci_authority i)
      then Inl (ContextViewInvariantError ''composer_policy_scope_hash_mismatch'')
      else Inr ())"

definition allowed_reply_kinds :: "reply_kind list" where
  "allowed_reply_kinds = [Reply_answer, Reply_clarification, Reply_unable_to_answer]"

definition max_reply_chars :: nat where
  "max_reply_chars = 4000"

definition grounding_evidence_sets :: "composer_invocation \<Rightarrow> pystr list list" where
  "grounding_evidence_sets i =
     (if ep_response_mode (ci_plan i) = Mode_knowledge_answer then map ug_allowed_evidence_ids (ci_groundings i) else [[]])"

text \<open>\<open>s.removeprefix("%%").removesuffix("%%")\<close>\<close>

definition strip_percents :: "pystr \<Rightarrow> pystr" where
  "strip_percents s =
     (let t = (if startswith s ''%%'' then drop 2 s else s)
      in if 2 \<le> length t \<and> drop (length t - 2) t = ''%%'' then take (length t - 2) t else t)"

text \<open>The evidence a marker stands for: the pairs of file name and evidence identifier.\<close>

definition media_binding_evidence_ids :: "knowledge_catalog \<Rightarrow> composer_invocation \<Rightarrow> (pystr \<times> pystr) list" where
  "media_binding_evidence_ids catalog i =
     (if vi_scene (kr_identity (ci_request i)) = SceneDirect \<or> \<not> pac_internal_knowledge (pm_core (ci_policy i))
         \<or> ep_response_mode (ci_plan i) \<noteq> Mode_knowledge_answer
         \<or> Answer_internal_company_knowledge \<notin> set (map mr_id (ep_selected_manifest_refs (ci_plan i))) then []
      else List.map_filter (\<lambda>b.
        let filename = strip_percents (mb_marker b) in
        case approved_image_asset_by_marker catalog filename of
          Some a \<Rightarrow> if mb_evidence_id b \<in> set (concat (grounding_evidence_sets i)) \<and> ias_asset_id a = mb_asset_id b
            then Some (filename, mb_evidence_id b) else None
        | None \<Rightarrow> None) (ci_media_bindings i))"

definition composer_output_admitted :: "knowledge_catalog \<Rightarrow> composer_invocation \<Rightarrow> composer_output \<Rightarrow> bool" where
  "composer_output_admitted catalog i o' =
     (let reply = co_out_reply o'; cited = set (co_out_evidence_ids o'); sets = grounding_evidence_sets i;
          markers = set (image_marker_filenames (reply_text reply)); media = media_binding_evidence_ids catalog i;
          referenced = cited \<union> snd ` set (filter (\<lambda>p. fst p \<in> markers) media)
      in co_out_response_id o' = [] \<and> co_out_actions o' = [] \<and> reply_mentions reply = []
         \<and> reply_kind_of reply \<in> set allowed_reply_kinds \<and> length (reply_text reply) \<le> max_reply_chars
         \<and> cited \<subseteq> set (concat sets) \<and> markers \<subseteq> set (map fst media)
         \<and> (referenced \<noteq> {} \<longrightarrow> list_ex (\<lambda>allowed. referenced \<subseteq> set allowed) sets))"

record composer_boundary =
  cb_compose :: "(composer_invocation \<Rightarrow> composer_outcome) option"
  cb_projection :: "composer_invocation \<Rightarrow> py_error option"
  cb_catalog :: knowledge_catalog

definition compose_v2_reply :: "composer_boundary \<Rightarrow> composer_invocation \<Rightarrow> composer_outcome" where
  "compose_v2_reply boundary i =
     (case cb_compose boundary of
        None \<Rightarrow> ComposerUnavailable
      | Some compose \<Rightarrow> (case validate_invocation_authority i of
          Inl e \<Rightarrow> ComposerRaises e
        | Inr _ \<Rightarrow> (case cb_projection boundary i of
            Some e \<Rightarrow> ComposerRaises e
          | None \<Rightarrow> (case compose i of
              ComposerReturns o' \<Rightarrow>
                if composer_output_admitted (cb_catalog boundary) i o' then ComposerReturns o' else ComposerRejected
            | r \<Rightarrow> r))))"

section \<open>Rendering\<close>

record reply_texts =
  rtx_unable :: pystr
  rtx_clarify_material :: pystr
  rtx_clarify_general :: pystr
  rtx_direct_handoff :: pystr
  rtx_sales_handoff :: pystr
  rtx_refusal :: "compliance_reason \<Rightarrow> pystr"

definition refusal_text_for_reason :: "reply_texts \<Rightarrow> compliance_reason \<Rightarrow> pystr" where
  "refusal_text_for_reason texts reason =
     (if rtx_refusal texts reason = [] then rtx_refusal texts Reason_unknown else rtx_refusal texts reason)"

type_synonym rendered = "reply_response \<times> pystr"

definition reply_of :: "reply_kind \<Rightarrow> pystr \<Rightarrow> reply_response result" where
  "reply_of kind content =
     validate_reply_response \<lparr>resp_id = [],
       resp_reply = \<lparr>reply_kind_of = kind, reply_text = content, reply_mentions = []\<rparr>, resp_actions = []\<rparr>"

definition rendered_reply :: "reply_kind \<Rightarrow> pystr \<Rightarrow> pystr \<Rightarrow> rendered result" where
  "rendered_reply kind content reason = res_bind (reply_of kind content) (\<lambda>r. Inr (r, reason))"

definition clarification_text :: "reply_texts \<Rightarrow> execution_plan \<Rightarrow> pystr" where
  "clarification_text texts plan =
     (if ''material_pack_option'' \<in> set (concat (map eu_ambiguity_slots (ep_units plan)))
      then rtx_clarify_material texts else rtx_clarify_general texts)"

definition handoff_reply :: "reply_texts \<Rightarrow> kernel_reply_request \<Rightarrow> unit_grounding list \<Rightarrow> rendered result" where
  "handoff_reply texts request groundings =
     (if vi_scene (kr_identity request) = SceneDirect
      then rendered_reply Reply_human_handoff (rtx_direct_handoff texts) ''direct_human_handoff''
      else if list_ex (\<lambda>g. rst_availability (ubf_sales_mention (ug_business_facts g)) = Available) groundings
      then res_bind (validate_reply_response \<lparr>resp_id = [],
             resp_reply = \<lparr>reply_kind_of = Reply_human_handoff, reply_text = rtx_sales_handoff texts,
               reply_mentions = [\<lparr>mention_type_of = Mention_sales, mention_reason = Some ''handoff_requested''\<rparr>]\<rparr>,
             resp_actions = []\<rparr>) (\<lambda>r. Inr (r, ''handoff_requested''))
      else rendered_reply Reply_unable_to_answer (rtx_unable texts) ''sales_mention_unavailable'')"

fun action_from_grounding ::
  "outbound_action_type \<Rightarrow> pystr option \<Rightarrow> unit_business_facts \<Rightarrow> outbound_action option" where
  "action_from_grounding Out_material_pack option facts =
     (let s = ubf_material_pack facts in
      case (if rst_availability s = Available then rst_resolve_ref s else None) of
        None \<Rightarrow> None
      | Some ref \<Rightarrow> Some (SendMaterialPackAction [] ref
          (if option \<in> {None, Some []} then rst_material_pack_option s else option)))"
| "action_from_grounding Out_weekly_report option facts =
     (let s = ubf_weekly_report facts in
      case (if rst_availability s = Available then rst_resolve_ref s else None, rpt_period s, rpt_report_date s) of
        (Some ref, Some period, Some date) \<Rightarrow> Some (SendWeeklyReportAction [] ref period date) | _ \<Rightarrow> None)"
| "action_from_grounding Out_monthly_report option facts =
     (let s = ubf_monthly_report facts in
      case (if rst_availability s = Available then rst_resolve_ref s else None, rpt_period s, rpt_report_date s) of
        (Some ref, Some period, Some date) \<Rightarrow> Some (SendMonthlyReportAction [] ref period date) | _ \<Rightarrow> None)"

text \<open>The actions of the loop; building one runs its validators.\<close>

definition unit_actions :: "execution_unit \<times> unit_grounding \<Rightarrow> outbound_action list" where
  "unit_actions p = (case p of (u, g) \<Rightarrow>
     if ubf_user_permission (ug_business_facts g) \<noteq> Permission_allowed then []
     else List.map_filter (\<lambda>i. action_from_grounding (ai_action_type i) (ai_material_pack_option i) (ug_business_facts g))
       (eu_action_intents u))"

definition action_reply :: "reply_texts \<Rightarrow> execution_plan \<Rightarrow> unit_grounding list \<Rightarrow> rendered result" where
  "action_reply texts plan groundings =
     (if length (ep_units plan) \<noteq> length groundings then Inl (ValueError ''zip() argument lengths'')
      else let actions = concat (map unit_actions (zip (ep_units plan) groundings)) in
        if actions = [] then rendered_reply Reply_unable_to_answer (rtx_unable texts) ''action_evidence_missing''
        else res_bind (validate_reply_response \<lparr>resp_id = [],
               resp_reply = \<lparr>reply_kind_of = Reply_answer, reply_text = [], reply_mentions = []\<rparr>,
               resp_actions = actions\<rparr>) (\<lambda>r. Inr (r, ''action_ready'')))"

definition product_list_evidence_is_missing :: "execution_plan \<Rightarrow> unit_grounding list \<Rightarrow> bool" where
  "product_list_evidence_is_missing plan groundings =
     list_ex (\<lambda>u. case dict_get ug_unit_id (eu_unit_id u) groundings of
         None \<Rightarrow> True | Some g \<Rightarrow> ug_allowed_evidence g = [])
       (filter (\<lambda>u. mr_id (eu_manifest_ref u) \<in> {Weekly_report_product_list, Monthly_report_product_list})
         (ep_units plan))"

definition render_composed ::
  "composer_boundary \<Rightarrow> reply_texts \<Rightarrow> composer_invocation \<Rightarrow> rendered result" where
  "render_composed boundary texts i =
     (let plan = ci_plan i; unable = rendered_reply Reply_unable_to_answer (rtx_unable texts) in
      if product_list_evidence_is_missing plan (ci_groundings i) then unable ''product_list_evidence_missing''
      else case compose_v2_reply boundary i of
        ComposerUnavailable \<Rightarrow> unable ''composer_not_available''
      | ComposerRejected \<Rightarrow> unable ''composer_output_rejected''
      | ComposerRaises e \<Rightarrow> Inl e
      | ComposerReturns o' \<Rightarrow>
          res_bind (to_reply_response o') (\<lambda>r.
            Inr (r, if ep_response_mode plan = Mode_knowledge_answer then ''knowledge_answer_composer''
                    else ''smalltalk_composer'')))"

definition reason_code :: "pystr \<Rightarrow> pystr result" where
  "reason_code value =
     (if value \<in> set registered_reason_codes then Inr value
      else Inl (AgentRuntimeError ''unregistered_v2_attempt_reason_code''))"

text \<open>The text of the first input decision that blocks and carries one.\<close>

definition handoff_unavailable_text :: "guardrail_decision \<Rightarrow> (pystr \<times> pystr) option" where
  "handoff_unavailable_text d =
     (if gd_phase d \<noteq> Phase_input \<or> gd_outcome d \<noteq> Guard_block then None
      else case map_of (rev (gd_metadata d)) ''handoff_unavailable_text'' of
        Some (JStr content) \<Rightarrow> if py_strip content = [] then None else Some (content, gd_reason_code d)
      | _ \<Rightarrow> None)"

definition unable_reply :: "reply_texts \<Rightarrow> kernel_reply_request \<Rightarrow> execution_plan \<Rightarrow> rendered result" where
  "unable_reply texts request plan =
     (case (if vi_scene (kr_identity request) = SceneGroup \<and> ep_origin plan = Origin_input_policy
            then List.map_filter handoff_unavailable_text (ep_guardrail_decisions plan) else []) of
        [] \<Rightarrow> rendered_reply Reply_unable_to_answer (rtx_unable texts) ''insufficient_evidence''
      | (content, code) # _ \<Rightarrow>
          res_bind (rendered_reply Reply_unable_to_answer content []) (\<lambda>(r, _).
          res_bind (reason_code code) (\<lambda>reason. Inr (r, reason))))"

definition render_v2_response ::
  "composer_boundary \<Rightarrow> reply_texts \<Rightarrow> composer_invocation \<Rightarrow> rendered result" where
  "render_v2_response boundary texts i =
     (let plan = ci_plan i in
      case ep_response_mode plan of
        Mode_refusal \<Rightarrow> rendered_reply Reply_unable_to_answer
          (refusal_text_for_reason texts (cd_reason_code (ep_compliance plan)))
          (compliance_reason_str (cd_reason_code (ep_compliance plan)))
      | Mode_clarification \<Rightarrow> rendered_reply Reply_clarification (clarification_text texts plan) ''ambiguous_request''
      | Mode_handoff \<Rightarrow> handoff_reply texts (ci_request i) (ci_groundings i)
      | Mode_no_reply \<Rightarrow> rendered_reply Reply_no_reply [] ''no_reply''
      | Mode_action \<Rightarrow> action_reply texts plan (ci_groundings i)
      | Mode_knowledge_answer \<Rightarrow> render_composed boundary texts i
      | Mode_smalltalk \<Rightarrow> render_composed boundary texts i
      | Mode_unable \<Rightarrow> unable_reply texts (ci_request i) plan)"

section \<open>Identifiers\<close>

definition sanitize_plain_text :: "pystr \<Rightarrow> pystr" where
  "sanitize_plain_text s = remove_all ''```'' (remove_all ''**'' s)"

definition ensure_action_id :: "nat \<Rightarrow> outbound_action \<Rightarrow> outbound_action" where
  "ensure_action_id index a =
     with_action_id a (if py_strip (oa_action_id a) = [] then ''act-'' @ nat_str index else py_strip (oa_action_id a))"

definition ensure_response_ids :: "pystr \<Rightarrow> reply_response \<Rightarrow> reply_response" where
  "ensure_response_ids uuid r =
     r\<lparr>resp_id := (if py_strip (resp_id r) = [] then ''resp-'' @ uuid else py_strip (resp_id r)),
       resp_reply := (resp_reply r)\<lparr>reply_text := sanitize_plain_text (reply_text (resp_reply r))\<rparr>,
       resp_actions := map (\<lambda>(index, a). ensure_action_id index a) (enumerate 1 (resp_actions r))\<rparr>"

section \<open>The attempt\<close>

definition validate_v2_reply ::
  "kernel_reply_request \<Rightarrow> policy_authority_core \<Rightarrow> execution_plan \<Rightarrow> reply_response \<Rightarrow> pystr list" where
  "validate_v2_reply request policy plan r =
     (let direct = (vi_scene (kr_identity request) = SceneDirect);
          acts = (resp_actions r \<noteq> []); mentions = (reply_mentions (resp_reply r) \<noteq> [])
      in (if direct \<and> (acts \<or> mentions) then [''direct_reply_has_actions_or_mentions''] else [])
       @ (if direct \<and> image_marker_filenames (reply_text (resp_reply r)) \<noteq> [] then [''direct_reply_has_image_marker''] else [])
       @ (if ep_response_mode plan = Mode_action \<and> \<not> acts then [''action_plan_without_validated_action''] else [])
       @ (if acts \<and> \<not> pac_actions_allowed policy then [''reply_actions_outside_policy''] else [])
       @ (if mentions \<and> \<not> pac_mentions_allowed policy then [''reply_mentions_outside_policy''] else []))"

record 'r attempt_result =
  at_plan :: execution_plan
  at_evidence :: evidence_result
  at_response :: reply_response
  at_issues :: "pystr list"
  at_reason_code :: pystr
  at_recall_state :: "'r option"

record attempt_runtime =
  ar_sha :: "pybytes \<Rightarrow> pystr"
  ar_float_text :: "rat \<Rightarrow> pystr"
  ar_executor :: evidence_executor
  ar_composer :: composer_boundary
  ar_texts :: reply_texts

text \<open>
  \<open>_material_pack_action_resolution_plan\<close>: the plan that replaces a single material-pack send whose
  lookup did not resolve.
\<close>

definition first_result :: "preflight_snapshot \<Rightarrow> adapter_resolve_type \<Rightarrow> adapter_resolve_result option" where
  "first_result items t = Option.bind (find (\<lambda>i. pfi_resolve_type i = t) items) pfi_result"

definition resolution_unit :: "adapter_resolve_status \<Rightarrow> bool \<Rightarrow> deterministic_unit" where
  "resolution_unit status sales_available =
     (let clarify = (status = St_ambiguous) in
      \<lparr>du_unit_id = ''material-pack-resolution'',
       du_manifest_id = (if clarify then ''general.clarification'' else if sales_available then ''sales.handoff''
         else ''general.abstention''),
       du_answerability = (if clarify then Ans_clarify else if sales_available then Ans_handoff else Ans_abstain),
       du_material_pack_option = None, du_evidence_query = None,
       du_ambiguity_slots = (if clarify then [''material_pack_option''] else []), du_risk_flags = []\<rparr>)"

definition material_pack_action_resolution_plan ::
  "attempt_runtime \<Rightarrow> execution_plan \<Rightarrow> preflight_snapshot \<Rightarrow> policy_manifest \<Rightarrow> business_scope_authority
   \<Rightarrow> execution_plan option result" where
  "material_pack_action_resolution_plan rt plan preflight policy authority =
     (if map ai_action_type (ep_action_intents plan) \<noteq> [Out_material_pack] then Inr None
      else case first_result preflight Ar_material_pack of
        None \<Rightarrow> Inr None
      | Some m \<Rightarrow>
          if arr_status m = St_resolved then Inr None
          else let sales_available = (map_option arr_status (first_result preflight Ar_sales_mention) = Some St_resolved)
            in res_bind (finalize_execution_plan_v2 (ar_sha rt) (ar_float_text rt)
                 (FromDeterministic
                   \<lparr>di_user_need = ep_user_need plan, di_units = [resolution_unit (arr_status m) sales_available],
                    di_compliance_reason_code = cd_reason_code (ep_compliance plan),
                    di_guardrail_decisions = [], di_confidence = 1\<rparr>)
                 policy authority Origin_deterministic None) (\<lambda>p. Inr (Some p)))"

definition regrounded ::
  "policy_authority_core \<Rightarrow> execution_plan \<Rightarrow> evidence_result \<Rightarrow> evidence_result result" where
  "regrounded policy plan evidence =
     res_bind (ground_execution_plan_v2 plan policy (er_facts evidence) (er_bindings evidence) None) (\<lambda>gs.
       Inr (evidence\<lparr>er_groundings := gs\<rparr>))"

definition render_source ::
  "kernel_reply_request \<Rightarrow> policy_manifest \<Rightarrow> business_scope_authority \<Rightarrow> execution_plan \<Rightarrow> evidence_result
   \<Rightarrow> history_turns \<Rightarrow> (int \<times> pystr) option \<Rightarrow> composer_invocation" where
  "render_source request policy authority plan evidence history overlay =
     \<lparr>ci_request = request, ci_policy = policy, ci_authority = authority, ci_plan = plan,
      ci_preflight = er_preflight evidence, ci_groundings = er_groundings evidence,
      ci_media_bindings = er_media_bindings evidence, ci_history = history, ci_retry_overlay = overlay\<rparr>"

definition build_candidate_from_plan_v2 ::
  "attempt_runtime \<Rightarrow> pystr \<Rightarrow> kernel_reply_request \<Rightarrow> policy_manifest \<Rightarrow> business_scope_authority
   \<Rightarrow> execution_plan \<Rightarrow> 'r option \<Rightarrow> refetch_request option \<Rightarrow> 'r attempt_result result" where
  "build_candidate_from_plan_v2 rt uuid request policy authority plan recall refetch =
     (if validate_execution_plan_v2 plan policy \<noteq> [] then Inl (AgentRuntimeError ''execution_plan_v2_invalid'')
      else res_bind (execute_v2 (ar_sha rt) (ar_executor rt) request plan policy authority refetch) (\<lambda>evidence.
        res_bind (material_pack_action_resolution_plan rt plan (er_preflight evidence) policy authority) (\<lambda>replaced.
        res_bind (case replaced of None \<Rightarrow> Inr (plan, evidence)
            | Some p \<Rightarrow> res_bind (regrounded (pm_core policy) p evidence) (\<lambda>e. Inr (p, e))) (\<lambda>(plan, evidence).
        res_bind (render_v2_response (ar_composer rt) (ar_texts rt)
            (render_source request policy authority plan evidence [] None)) (\<lambda>(response, reason).
          let response = ensure_response_ids uuid response in
          Inr \<lparr>at_plan = plan, at_evidence = evidence, at_response = response,
               at_issues = validate_v2_reply request (pm_core policy) plan response,
               at_reason_code = reason, at_recall_state = recall\<rparr>)))))"

definition recompose_candidate_v2 ::
  "attempt_runtime \<Rightarrow> pystr \<Rightarrow> 'r attempt_result \<Rightarrow> kernel_reply_request \<Rightarrow> policy_manifest
   \<Rightarrow> business_scope_authority \<Rightarrow> history_turns \<Rightarrow> int \<times> pystr \<Rightarrow> 'r attempt_result result" where
  "recompose_candidate_v2 rt uuid candidate request policy authority history overlay =
     (if ep_response_mode (at_plan candidate) \<notin> {Mode_knowledge_answer, Mode_smalltalk}
      then Inl (AgentRuntimeError ''alignment_recompose_mode_not_supported'')
      else res_bind (render_v2_response (ar_composer rt) (ar_texts rt)
          (render_source request policy authority (at_plan candidate) (at_evidence candidate) history (Some overlay)))
        (\<lambda>(response, reason).
          let response = ensure_response_ids uuid response in
          Inr (candidate\<lparr>at_response := response,
            at_issues := validate_v2_reply request (pm_core policy) (at_plan candidate) response,
            at_reason_code := reason\<rparr>)))"

end
