(* ===== verification/Planner_Flow.thy ===== *)
theory Planner_Flow
  imports Recall_Flow Attempt Alignment_Refetch
begin

text \<open>
  From a request to its first candidate: \<open>runtime/planning/planner_retry.py\<close>, \<open>planner_results.py\<close>,
  \<open>planner_llm.py\<close>, \<open>runtime/integrations/crewai/retry.py\<close>, \<open>runtime/planning_flow.py\<close> and
  \<open>runtime/pipeline.py\<close>.

  The language model is a parameter: what a call of a round answers or raises. Building the prompt from
  its views and parsing JSON into a \<open>PlanSpec\<close> are parameters too; the texts and codes the code makes
  from their answers are modelled.
\<close>

section \<open>Retries\<close>

definition max_attempts :: "int \<Rightarrow> nat" where
  "max_attempts retry_attempts = nat (max 1 (retry_attempts + 1))"

text \<open>
  \<open>run_with_retry\<close> with \<open>left\<close> attempts of the range left; \<open>call i\<close> is what the attempt \<open>i\<close> does. The
  result comes with the reasons of the retries, in order. A reason is a string that is not empty.
\<close>

fun retry_loop ::
  "(nat \<Rightarrow> 'a result) \<Rightarrow> ('a \<Rightarrow> pystr option) \<Rightarrow> (py_error \<Rightarrow> pystr option) \<Rightarrow> nat \<Rightarrow> nat \<Rightarrow> pystr list \<times> 'a result" where
  "retry_loop call retry_result retry_exception attempt 0 = ([], Inl (RuntimeError ''retry loop exhausted''))"
| "retry_loop call retry_result retry_exception attempt (Suc left) =
     (let again = (\<lambda>reason. case retry_loop call retry_result retry_exception (Suc attempt) left of
            (reasons, r) \<Rightarrow> (reason # reasons, r));
          reason_of = (\<lambda>r. if r = Some [] then None else r)
      in case call attempt of
        Inl TimeoutError \<Rightarrow> ([], Inl TimeoutError)
      | Inl e \<Rightarrow> (case reason_of (retry_exception e) of
            Some reason \<Rightarrow> if left = 0 then ([], Inl e) else again reason
          | None \<Rightarrow> ([], Inl e))
      | Inr x \<Rightarrow> (case reason_of (retry_result x) of
            Some reason \<Rightarrow> if left = 0 then ([], Inr x) else again reason
          | None \<Rightarrow> ([], Inr x)))"

definition run_with_retry ::
  "(nat \<Rightarrow> 'a result) \<Rightarrow> int \<Rightarrow> ('a \<Rightarrow> pystr option) \<Rightarrow> (py_error \<Rightarrow> pystr option) \<Rightarrow> pystr list \<times> 'a result" where
  "run_with_retry call retry_attempts retry_result retry_exception =
     retry_loop call retry_result retry_exception 0 (max_attempts retry_attempts)"

text \<open>\<open>provider_failure_code_from_exception\<close> on the exceptions of the model, none of which has a status.\<close>

definition provider_failure_code :: "py_error \<Rightarrow> pystr" where
  "provider_failure_code e =
     (case e of ProviderInvocationError code \<Rightarrow> code | TimeoutError \<Rightarrow> ''provider_timeout''
      | _ \<Rightarrow> ''provider_transport_unavailable'')"

section \<open>Retry overlays\<close>

text \<open>\<open>" ".join(value.split())\<close>\<close>

fun py_words :: "pystr \<Rightarrow> pystr list" where
  "py_words [] = []"
| "py_words (c # cs) =
     (if py_space c then py_words cs
      else (case cs of
        [] \<Rightarrow> [[c]]
      | d # _ \<Rightarrow> if py_space d then [c] # py_words cs
                else (case py_words cs of [] \<Rightarrow> [[c]] | w # ws \<Rightarrow> (c # w) # ws)))"

definition joined_words :: "pystr \<Rightarrow> pystr" where
  "joined_words s = join_with '' '' (py_words s)"

definition retry_text :: "pystr \<Rightarrow> pystr \<Rightarrow> pystr" where
  "retry_text value fallback =
     (let normalized = joined_words value in take 300 (if normalized = [] then fallback else normalized))"

datatype retry_phase = Phase_schema_repair | Phase_alignment_replan

record planner_retry_overlay =
  pro_attempt :: int
  pro_phase :: retry_phase
  pro_phase_attempt :: int
  pro_issues :: "(pystr \<times> pystr) list"
  pro_feedback :: "pystr option"

definition has_control :: "pystr \<Rightarrow> bool" where
  "has_control = list_ex (\<lambda>c. c < CHR 0x20)"

text \<open>The issues, pairs of a code and a message, are validated first, each as its model is built.\<close>

definition check_planner_overlay :: "planner_retry_overlay \<Rightarrow> planner_retry_overlay result" where
  "check_planner_overlay o' =
     res_bind (seq_res
       (concat (map (\<lambda>(code, message).
          [raise_if (\<not> length_within 1 300 message) (ValueError ''message''),
           raise_if (has_control message) (ValueError ''plan_validation_message_control_character'')]) (pro_issues o'))
        @ [raise_if (\<not> (1 \<le> pro_attempt o' \<and> pro_attempt o' \<le> 3)) (ValueError ''attempt''),
           raise_if (\<not> (1 \<le> pro_phase_attempt o' \<and> pro_phase_attempt o' \<le> 2)) (ValueError ''phase_attempt''),
           raise_if (length (pro_issues o') > 8) (ValueError ''issues''),
           raise_if (\<not> opt_within 300 (pro_feedback o')) (ValueError ''feedback''),
           raise_if (case pro_feedback o' of None \<Rightarrow> False | Some f \<Rightarrow> has_control f)
             (ValueError ''planner_retry_feedback_control_character''),
           raise_if ((pro_attempt o', pro_phase o', pro_phase_attempt o')
               \<notin> {(1, Phase_schema_repair, 1), (2, Phase_alignment_replan, 1), (3, Phase_alignment_replan, 2)})
             (ValueError ''planner_retry_attempt_mapping_invalid'')]))
       (\<lambda>_. Inr o')"

definition planner_schema_repair_overlay :: "pystr \<Rightarrow> planner_retry_overlay result" where
  "planner_schema_repair_overlay summary =
     (let message = retry_text summary ''plan_spec_schema_invalid'' in
      check_planner_overlay
        \<lparr>pro_attempt = 1, pro_phase = Phase_schema_repair, pro_phase_attempt = 1,
         pro_issues = [(''plan_spec_schema_invalid'', message)], pro_feedback = Some message\<rparr>)"

definition planner_schema_repair_allowed :: "planner_retry_overlay option \<Rightarrow> bool" where
  "planner_schema_repair_allowed overlay = (overlay = None)"

definition planner_alignment_replan_overlay ::
  "alignment_verdict option \<Rightarrow> int \<Rightarrow> planner_retry_overlay option result" where
  "planner_alignment_replan_overlay verdict phase_attempt =
     (if verdict = None \<and> phase_attempt = 0 then Inr None
      else case verdict of
        None \<Rightarrow> Inl (ContextViewInvariantError ''planner_alignment_replan_mapping_invalid'')
      | Some v \<Rightarrow>
          if av_remediation v \<noteq> Remedy_replan \<or> phase_attempt \<notin> {1, 2}
          then Inl (ContextViewInvariantError ''planner_alignment_replan_mapping_invalid'')
          else let message = retry_text
                 (case av_planner_feedback v of Some f \<Rightarrow> if f = [] then av_rationale v else f | None \<Rightarrow> av_rationale v)
                 ''alignment_requested_replan''
            in res_bind (check_planner_overlay
                 \<lparr>pro_attempt = phase_attempt + 1, pro_phase = Phase_alignment_replan, pro_phase_attempt = phase_attempt,
                  pro_issues = [(''plan_spec_manifest_contract_mismatch'', message)], pro_feedback = Some message\<rparr>)
               (\<lambda>o'. Inr (Some o')))"

section \<open>Planner results\<close>

record 'p planner_frame =
  pf_raw :: pystr
  pf_pydantic :: "'p option"

definition planner_result_retry_reason :: "'p planner_frame \<Rightarrow> pystr option" where
  "planner_result_retry_reason f =
     (if pf_pydantic f = None \<and> py_strip (pf_raw f) = [] then Some ''empty_output'' else None)"

text \<open>
  What \<open>PlanSpec.model_validate\<close> or \<open>model_validate_json\<close> does: a specification, the errors of a
  \<open>ValidationError\<close> (each a location and a message), or the text of another \<open>ValueError\<close>.
\<close>

datatype spec_parse =
    Spec_parsed plan_spec
  | Spec_invalid "(pystr list \<times> pystr) list"
  | Spec_value_error pystr

record 'p spec_reader =
  sr_validate :: "'p \<Rightarrow> spec_parse"
  sr_validate_json :: "pystr \<Rightarrow> spec_parse"
  sr_error_text :: "py_error \<Rightarrow> pystr"

definition read_frame :: "'p spec_reader \<Rightarrow> 'p planner_frame \<Rightarrow> spec_parse" where
  "read_frame rd f =
     (case pf_pydantic f of Some p \<Rightarrow> sr_validate rd p | None \<Rightarrow> sr_validate_json rd (pf_raw f))"

definition coerce_plan_spec :: "'p spec_reader \<Rightarrow> 'p planner_frame \<Rightarrow> plan_spec option" where
  "coerce_plan_spec rd f = (case read_frame rd f of Spec_parsed s \<Rightarrow> Some s | _ \<Rightarrow> None)"

definition or_else :: "pystr \<Rightarrow> pystr \<Rightarrow> pystr" where
  "or_else s fallback = (if s = [] then fallback else s)"

definition validation_error_summary :: "(pystr list \<times> pystr) list \<Rightarrow> pystr" where
  "validation_error_summary errors =
     (let shown = map (\<lambda>(loc, msg). or_else (join_with ''.'' loc) ''<root>'' @ '': '' @ msg) (take 5 errors);
          more = (if length errors > 5 then [''... '' @ int_str (int (length errors) - 5) @ '' more''] else [])
      in or_else (join_with ''; '' (shown @ more)) ''PlanSpec validation failed'')"

definition plan_spec_error_summary :: "'p spec_reader \<Rightarrow> 'p planner_frame \<Rightarrow> pystr" where
  "plan_spec_error_summary rd f =
     (if pf_pydantic f = None \<and> py_strip (pf_raw f) = [] then ''empty planner output''
      else case read_frame rd f of
        Spec_parsed _ \<Rightarrow> []
      | Spec_invalid errors \<Rightarrow> validation_error_summary errors
      | Spec_value_error text' \<Rightarrow> or_else text' ''PlanSpec validation failed'')"

text \<open>\<open>coerce_planner_plan_with_error\<close>: a plan, or the summary of what is wrong.\<close>

definition coerce_planner_plan_with_error ::
  "(pybytes \<Rightarrow> pystr) \<Rightarrow> (rat \<Rightarrow> pystr) \<Rightarrow> 'p spec_reader \<Rightarrow> 'p planner_frame \<Rightarrow> policy_manifest
   \<Rightarrow> business_scope_authority \<Rightarrow> (execution_plan option \<times> pystr) result" where
  "coerce_planner_plan_with_error sha float_text rd f policy authority =
     (case coerce_plan_spec rd f of
        None \<Rightarrow> Inr (None, plan_spec_error_summary rd f)
      | Some spec \<Rightarrow>
          (case finalize_execution_plan_v2 sha float_text (FromPlanSpec spec) policy authority Origin_planner None of
             Inr plan \<Rightarrow> Inr (Some plan, [])
           | Inl e \<Rightarrow> if is_value_error e then Inr (None, ''PlanSpec compile error: '' @ sr_error_text rd e)
                      else Inl e))"

section \<open>The planner\<close>

text \<open>
  \<open>pl_prompt\<close> builds the views and the prompt of an overlay or raises; \<open>pl_build_agent\<close> makes the agent
  of a group turn; \<open>pl_kickoff overlay i\<close> is the call \<open>i\<close> of the round with that overlay; \<open>pl_builder\<close>
  is \<open>candidate_from_plan_builder_v2\<close>.
\<close>

record ('p, 'c) planner_runtime =
  pl_sha :: "pybytes \<Rightarrow> pystr"
  pl_float_text :: "rat \<Rightarrow> pystr"
  pl_prompt :: "planner_retry_overlay option \<Rightarrow> unit result"
  pl_build_agent :: "unit result"
  pl_kickoff :: "planner_retry_overlay option \<Rightarrow> nat \<Rightarrow> 'p planner_frame result"
  pl_retry_attempts :: int
  pl_reader :: "'p spec_reader"
  pl_builder :: "execution_plan \<Rightarrow> recall_turn_state option \<Rightarrow> 'c result"

definition build_planner_input ::
  "('p, 'c) planner_runtime \<Rightarrow> kernel_reply_request \<Rightarrow> policy_authority_core \<Rightarrow> business_scope_authority
   \<Rightarrow> planner_retry_overlay option \<Rightarrow> unit result" where
  "build_planner_input rt request policy authority overlay =
     (if vi_scene (kr_identity request) \<noteq> pac_scene policy
      then Inl (ContextViewInvariantError ''planner_request_policy_scene_mismatch'')
      else if kr_business_scope request \<noteq> bsa_scope authority
      then Inl (ContextViewInvariantError ''planner_business_scope_authority_mismatch'')
      else if pac_scope_hash policy \<noteq> bsa_hash authority
      then Inl (ContextViewInvariantError ''planner_policy_scope_hash_mismatch'')
      else pl_prompt rt overlay)"

text \<open>The two handlers of \<open>run_round\<close>.\<close>

definition round_error :: "py_error \<Rightarrow> py_error" where
  "round_error e =
     (case e of
        ProviderInvocationError code \<Rightarrow>
          AgentRuntimeError (if code = ''provider_timeout'' then ''CrewAI planner timed out''
            else ''planner_provider_failure'')
      | _ \<Rightarrow> if is_runtime_error e then AgentRuntimeError ''planner_internal_failure'' else e)"

definition run_round ::
  "('p, 'c) planner_runtime \<Rightarrow> scene \<Rightarrow> planner_retry_overlay option \<Rightarrow> 'p planner_frame result" where
  "run_round rt scene overlay =
     (case (if scene = SceneDirect then Inr () else pl_build_agent rt) of
        Inl e \<Rightarrow> Inl (round_error e)
      | Inr _ \<Rightarrow>
          (case snd (run_with_retry (pl_kickoff rt overlay) (pl_retry_attempts rt) planner_result_retry_reason
               (\<lambda>e. Some (provider_failure_code e))) of
             Inl e \<Rightarrow> Inl (round_error e)
           | Inr f \<Rightarrow> Inr f))"

definition planned ::
  "('p, 'c) planner_runtime \<Rightarrow> kernel_reply_request \<Rightarrow> policy_manifest \<Rightarrow> business_scope_authority
   \<Rightarrow> planner_retry_overlay option \<Rightarrow> (execution_plan option \<times> pystr) result" where
  "planned rt request policy authority overlay =
     res_bind (build_planner_input rt request (pm_core policy) authority overlay) (\<lambda>_.
     res_bind (run_round rt (vi_scene (kr_identity request)) overlay) (\<lambda>f.
       coerce_planner_plan_with_error (pl_sha rt) (pl_float_text rt) (pl_reader rt) f policy authority))"

definition build_candidate_via_planner ::
  "('p, 'c) planner_runtime \<Rightarrow> kernel_reply_request \<Rightarrow> policy_manifest \<Rightarrow> business_scope_authority
   \<Rightarrow> alignment_verdict option \<Rightarrow> int \<Rightarrow> recall_turn_state \<Rightarrow> 'c result" where
  "build_candidate_via_planner rt request policy authority verdict attempt recall =
     res_bind (planner_alignment_replan_overlay verdict attempt) (\<lambda>overlay.
     res_bind (planned rt request policy authority overlay) (\<lambda>first.
     res_bind (case first of
         (None, summary) \<Rightarrow>
           if planner_schema_repair_allowed overlay
           then res_bind (planner_schema_repair_overlay summary) (\<lambda>repair.
             planned rt request policy authority (Some repair))
           else Inr first
       | _ \<Rightarrow> Inr first) (\<lambda>(plan, summary).
     case plan of
       None \<Rightarrow> Inl (AgentRuntimeError (''CrewAI planner returned an invalid PlanSpec contract: '' @ summary))
     | Some p \<Rightarrow> pl_builder rt p (Some recall))))"

section \<open>The pipeline\<close>

record ('p, 'c) candidate_runtime =
  cr_planner :: "('p, 'c) planner_runtime"
  cr_recall :: recall_runtime
  cr_nfkc :: "pystr \<Rightarrow> pystr"
  cr_direct_text :: pystr
  cr_rules :: "input_policy_rule list"
  cr_fullmatch :: "artifact_command \<Rightarrow> pystr \<Rightarrow> bool"

definition build_candidate_response ::
  "('p, 'c) candidate_runtime \<Rightarrow> kernel_reply_request \<Rightarrow> policy_manifest \<Rightarrow> business_scope_authority
   \<Rightarrow> alignment_verdict option \<Rightarrow> int \<Rightarrow> recall_turn_state option \<Rightarrow> 'c result" where
  "build_candidate_response rt request policy authority verdict attempt recall_state =
     (let pl = cr_planner rt in
      res_bind (match_input_policy (pl_sha pl) (pl_float_text pl) (cr_nfkc rt) (cr_direct_text rt) (cr_rules rt)
          request policy authority) (\<lambda>input.
      case input of
        Input_guardrail_handoff plan _ _ \<Rightarrow> pl_builder pl plan None
      | Input_no_match _ \<Rightarrow>
          res_bind (match_direct_send_command (pl_sha pl) (pl_float_text pl) (cr_nfkc rt) (cr_fullmatch rt)
              request policy authority) (\<lambda>send.
          case send of
            Send_direct_action plan _ \<Rightarrow> pl_builder pl plan None
          | Send_needs_material_pack_option plan _ \<Rightarrow> pl_builder pl plan None
          | Send_no_match _ _ \<Rightarrow>
              res_bind (case recall_state of
                  None \<Rightarrow> res_bind (collect_preplanner_recall (cr_recall rt) request policy authority)
                    (\<lambda>t. Inr (ppt_turn_state t, ppt_shortcut_plan t))
                | Some s \<Rightarrow> Inr (s, None)) (\<lambda>(state, shortcut).
              case shortcut of
                Some plan \<Rightarrow> pl_builder pl plan (Some state)
              | None \<Rightarrow> build_candidate_via_planner pl request policy authority verdict attempt state))))"

end
