(* ===== verification/Alignment_Loop.thy ===== *)
theory Alignment_Loop
  imports Planner_Flow
begin

text \<open>
  The bounded loop that checks a candidate and remedies it: \<open>runtime/validation/alignment_loop.py\<close>,
  \<open>alignment_postconditions.py\<close>, \<open>alignment.py\<close> (its guards) and the remedies of the service,
  \<open>alignment_runtime.py\<close>.

  The code compares plans, evidence and recall states by identity (\<open>is\<close>). A candidate is therefore
  modelled as its value with the addresses of these three objects; an object that is made anew gets an
  address no object of the candidate before it has.
\<close>

section \<open>Candidates as objects\<close>

record candidate_object =
  cob_attempt :: "recall_turn_state attempt_result"
  cob_plan_ref :: nat
  cob_evidence_ref :: nat
  cob_recall_ref :: nat

definition cob_plan :: "candidate_object \<Rightarrow> execution_plan" where
  "cob_plan c = at_plan (cob_attempt c)"

section \<open>Limits\<close>

record alignment_limits =
  alim_replans :: int
  alim_refetches :: int
  alim_recomposes :: int
  alim_total :: int

definition check_alignment_limits :: "alignment_limits \<Rightarrow> alignment_limits result" where
  "check_alignment_limits l =
     (let actions = [alim_replans l, alim_refetches l, alim_recomposes l] in
      res_bind (seq_res
       [raise_if (list_ex (\<lambda>v. v < 0 \<or> v > 2) (actions @ [alim_total l]))
          (ValueError ''alignment_remediation_limit_out_of_range''),
        raise_if (list_ex (\<lambda>v. v > alim_total l) actions) (ValueError ''alignment_action_limit_exceeds_total'')])
       (\<lambda>_. Inr l))"

definition alignment_attempt :: "int \<Rightarrow> int result" where
  "alignment_attempt v =
     (if v < 0 \<or> v > 2 then Inl (AgentRuntimeError ''alignment_attempt_out_of_range'') else Inr v)"

definition action_attempt :: "int \<Rightarrow> int result" where
  "action_attempt v =
     (if v < 1 \<or> v > 2 then Inl (AgentRuntimeError ''alignment_action_attempt_out_of_range'') else Inr v)"

section \<open>Postconditions\<close>

datatype alignment_fallback = Return_clarification | Return_unable

definition require_same_recall_state :: "candidate_object \<Rightarrow> nat \<Rightarrow> recall_turn_state \<Rightarrow> unit result" where
  "require_same_recall_state c ref expected =
     (case at_recall_state (cob_attempt c) of
        None \<Rightarrow> Inl (AgentRuntimeError ''alignment_replaced_recall_turn_state'')
      | Some actual \<Rightarrow> raise_if (cob_recall_ref c \<noteq> ref
            \<or> ro_trace_hash (rts_outcome actual) \<noteq> ro_trace_hash (rts_outcome expected))
          (AgentRuntimeError ''alignment_replaced_recall_turn_state''))"

definition require_replan_authority ::
  "(execution_plan \<Rightarrow> pystr) \<Rightarrow> candidate_object \<Rightarrow> candidate_object \<Rightarrow> unit result" where
  "require_replan_authority plan_id before after =
     raise_if (cob_plan_ref after = cob_plan_ref before \<or> ep_origin (cob_plan after) \<noteq> Origin_planner
        \<or> ep_plan_spec (cob_plan after) = None \<or> ep_id (cob_plan after) \<noteq> plan_id (cob_plan after))
       (AgentRuntimeError ''alignment_replan_invalid_plan_authority'')"

text \<open>The canonical bytes of the two plans are compared when they are one object; here the plans are.\<close>

definition require_refetch_authority ::
  "candidate_object \<Rightarrow> refetch_request \<times> candidate_object \<Rightarrow> alignment_verdict \<Rightarrow> unit result" where
  "require_refetch_authority before outcome verdict =
     (case outcome of (request, after) \<Rightarrow>
        raise_if (Some (rf_refined_evidence_query request) \<noteq> av_refined_evidence_query verdict
          \<or> rf_unit_id request \<notin> set (map eu_unit_id (ep_units (cob_plan before)))
          \<or> cob_plan_ref before \<noteq> cob_plan_ref after \<or> cob_plan before \<noteq> cob_plan after
          \<or> cob_evidence_ref before = cob_evidence_ref after)
         (AgentRuntimeError ''alignment_refetch_changed_plan_authority''))"

definition require_recompose_response_only :: "candidate_object \<Rightarrow> candidate_object \<Rightarrow> unit result" where
  "require_recompose_response_only before after =
     raise_if (cob_plan_ref before \<noteq> cob_plan_ref after \<or> cob_evidence_ref before \<noteq> cob_evidence_ref after)
       (AgentRuntimeError ''alignment_recompose_changed_plan_or_evidence'')"

definition fallback_mode :: "alignment_fallback \<Rightarrow> response_mode" where
  "fallback_mode f = (if f = Return_clarification then Mode_clarification else Mode_unable)"

definition fallback_manifest :: "alignment_fallback \<Rightarrow> capability_manifest_id" where
  "fallback_manifest f = (if f = Return_clarification then General_clarification else General_abstention)"

definition require_replacement_authority ::
  "(execution_plan \<Rightarrow> pystr) \<Rightarrow> candidate_object \<Rightarrow> candidate_object \<Rightarrow> alignment_fallback \<Rightarrow> unit result" where
  "require_replacement_authority plan_id before after fallback =
     (let plan = cob_plan after in
      raise_if (ep_origin plan \<noteq> Origin_remediation \<or> ep_plan_spec plan \<noteq> None
          \<or> ep_response_mode plan \<noteq> fallback_mode fallback
          \<or> map mr_id (ep_selected_manifest_refs plan) \<noteq> [fallback_manifest fallback]
          \<or> ep_id plan = ep_id (cob_plan before) \<or> ep_id plan \<noteq> plan_id plan)
        (AgentRuntimeError ''alignment_replacement_invalid_plan_authority''))"

section \<open>The loop\<close>

text \<open>The five operations of \<open>V2AlignmentRemediator\<close>.\<close>

record alignment_remediator =
  rem_plan_id :: "execution_plan \<Rightarrow> pystr"
  rem_verdict_for :: "candidate_object \<Rightarrow> int \<Rightarrow> alignment_verdict result"
  rem_replan :: "candidate_object \<Rightarrow> alignment_verdict \<Rightarrow> int \<Rightarrow> candidate_object result"
  rem_refetch :: "candidate_object \<Rightarrow> alignment_verdict \<Rightarrow> int \<Rightarrow> (refetch_request \<times> candidate_object) result"
  rem_recompose :: "candidate_object \<Rightarrow> alignment_verdict \<Rightarrow> int \<Rightarrow> candidate_object result"
  rem_replace :: "candidate_object \<Rightarrow> alignment_verdict option \<Rightarrow> alignment_fallback \<Rightarrow> candidate_object result"

record alignment_state =
  als_candidate :: candidate_object
  als_replans :: int
  als_refetches :: int
  als_recomposes :: int
  als_total :: int

datatype alignment_step = Align_finish "candidate_object result" | Align_continue alignment_state

definition replaced ::
  "alignment_remediator \<Rightarrow> nat \<Rightarrow> recall_turn_state \<Rightarrow> candidate_object \<Rightarrow> alignment_verdict option
   \<Rightarrow> alignment_fallback \<Rightarrow> candidate_object result" where
  "replaced rem ref recall c verdict fallback =
     res_bind (rem_replace rem c verdict fallback) (\<lambda>replacement.
     res_bind (require_replacement_authority (rem_plan_id rem) c replacement fallback) (\<lambda>_.
     res_bind (require_same_recall_state replacement ref recall) (\<lambda>_. Inr replacement)))"

text \<open>The exceptions the two \<open>try\<close> blocks catch.\<close>

definition verifier_down :: "py_error \<Rightarrow> bool" where
  "verifier_down e = (case e of AgentRuntimeError _ \<Rightarrow> True | TimeoutError \<Rightarrow> True | _ \<Rightarrow> False)"

text \<open>The end of the loop body: the new candidate keeps the recall state, and an invalid reply returns.\<close>

definition remedied ::
  "nat \<Rightarrow> recall_turn_state \<Rightarrow> alignment_state \<Rightarrow> candidate_object result \<Rightarrow> alignment_step" where
  "remedied ref recall s r =
     (case res_bind r (\<lambda>c. res_bind (require_same_recall_state c ref recall) (\<lambda>_. Inr c)) of
        Inl e \<Rightarrow> Align_finish (Inl e)
      | Inr c \<Rightarrow> if at_issues (cob_attempt c) \<noteq> [] then Align_finish (Inr c)
                 else Align_continue (s\<lparr>als_candidate := c, als_total := als_total s + 1\<rparr>))"

definition replan_step ::
  "alignment_remediator \<Rightarrow> nat \<Rightarrow> recall_turn_state \<Rightarrow> alignment_state \<Rightarrow> alignment_verdict \<Rightarrow> alignment_step" where
  "replan_step rem ref recall s verdict =
     (let c = als_candidate s; n = als_replans s + 1 in
      case res_bind (action_attempt n) (rem_replan rem c verdict) of
        Inl e \<Rightarrow> Align_finish (if verifier_down e then replaced rem ref recall c (Some verdict) Return_unable else Inl e)
      | Inr after \<Rightarrow> remedied ref recall (s\<lparr>als_replans := n\<rparr>)
          (res_bind (require_replan_authority (rem_plan_id rem) c after) (\<lambda>_. Inr after)))"

definition refetch_step ::
  "alignment_remediator \<Rightarrow> nat \<Rightarrow> recall_turn_state \<Rightarrow> alignment_state \<Rightarrow> alignment_verdict \<Rightarrow> alignment_step" where
  "refetch_step rem ref recall s verdict =
     (let c = als_candidate s; n = als_refetches s + 1 in
      remedied ref recall (s\<lparr>als_refetches := n\<rparr>)
        (res_bind (action_attempt n) (\<lambda>a. res_bind (rem_refetch rem c verdict a) (\<lambda>outcome.
         res_bind (require_refetch_authority c outcome verdict) (\<lambda>_. Inr (snd outcome))))))"

definition recompose_step ::
  "alignment_remediator \<Rightarrow> nat \<Rightarrow> recall_turn_state \<Rightarrow> alignment_state \<Rightarrow> alignment_verdict \<Rightarrow> alignment_step" where
  "recompose_step rem ref recall s verdict =
     (let c = als_candidate s; n = als_recomposes s + 1 in
      remedied ref recall (s\<lparr>als_recomposes := n\<rparr>)
        (res_bind (action_attempt n) (\<lambda>a. res_bind (rem_recompose rem c verdict a) (\<lambda>after.
         res_bind (require_recompose_response_only c after) (\<lambda>_. Inr after)))))"

definition alignment_body ::
  "alignment_remediator \<Rightarrow> alignment_limits \<Rightarrow> nat \<Rightarrow> recall_turn_state \<Rightarrow> alignment_state \<Rightarrow> alignment_step" where
  "alignment_body rem limits ref recall s =
     (let c = als_candidate s;
          give_up = (\<lambda>verdict fallback. Align_finish (replaced rem ref recall c verdict fallback))
      in case alignment_attempt (als_total s) of
        Inl e \<Rightarrow> Align_finish (Inl e)
      | Inr attempt \<Rightarrow>
      (case rem_verdict_for rem c attempt of
        Inl e \<Rightarrow>
          if \<not> verifier_down e then Align_finish (Inl e)
          else if ep_response_mode (cob_plan c) = Mode_refusal then Align_finish (Inr c)
          else give_up None Return_unable
      | Inr verdict \<Rightarrow>
          if av_aligned verdict \<and> av_safe_to_return verdict then Align_finish (Inr c)
          else if als_total s \<ge> alim_total limits then give_up (Some verdict) Return_unable
          else (case av_remediation verdict of
            Remedy_replan \<Rightarrow>
              if als_replans s < alim_replans limits then replan_step rem ref recall s verdict
              else give_up (Some verdict) Return_unable
          | Remedy_refetch_document_context \<Rightarrow>
              if als_refetches s < alim_refetches limits then refetch_step rem ref recall s verdict
              else give_up (Some verdict) Return_unable
          | Remedy_refetch_report_scope \<Rightarrow>
              if als_refetches s < alim_refetches limits then refetch_step rem ref recall s verdict
              else give_up (Some verdict) Return_unable
          | Remedy_recompose \<Rightarrow>
              if als_recomposes s < alim_recomposes limits then recompose_step rem ref recall s verdict
              else give_up (Some verdict) Return_unable
          | Remedy_return_clarification \<Rightarrow> give_up (Some verdict) Return_clarification
          | _ \<Rightarrow> give_up (Some verdict) Return_unable)))"

lemma remedied_continue:
  "remedied ref recall s r = Align_continue s' \<Longrightarrow> als_total s' = als_total s + 1"
  by (auto simp: remedied_def split: sum.splits if_splits)

lemma step_continue:
  "replan_step rem ref recall s v = Align_continue s' \<Longrightarrow> als_total s' = als_total s + 1"
  "refetch_step rem ref recall s v = Align_continue s' \<Longrightarrow> als_total s' = als_total s + 1"
  "recompose_step rem ref recall s v = Align_continue s' \<Longrightarrow> als_total s' = als_total s + 1"
  by (auto simp: replan_step_def refetch_step_def recompose_step_def Let_def dest!: remedied_continue split: sum.splits)

lemma body_continue:
  "alignment_body rem limits ref recall s = Align_continue s' \<Longrightarrow>
     als_total s' = als_total s + 1 \<and> als_total s < alim_total limits"
  by (auto simp: alignment_body_def Let_def step_continue split: sum.splits if_splits alignment_remediation.splits)

text \<open>The loop; it also counts the bodies that went on.\<close>

function alignment_loop ::
  "alignment_remediator \<Rightarrow> alignment_limits \<Rightarrow> nat \<Rightarrow> recall_turn_state \<Rightarrow> alignment_state
   \<Rightarrow> nat \<times> candidate_object result" where
  "alignment_loop rem limits ref recall s =
     (case alignment_body rem limits ref recall s of
        Align_finish r \<Rightarrow> (0, r)
      | Align_continue s' \<Rightarrow> (case alignment_loop rem limits ref recall s' of (n, r) \<Rightarrow> (Suc n, r)))"
  by pat_completeness auto
termination
  by (relation "measure (\<lambda>(rem, limits, ref, recall, s). nat (alim_total limits - als_total s))")
    (auto dest!: body_continue)

declare alignment_loop.simps [simp del]

definition ensure_aligned_v2_response ::
  "alignment_remediator \<Rightarrow> alignment_limits \<Rightarrow> candidate_object \<Rightarrow> candidate_object result" where
  "ensure_aligned_v2_response rem limits c =
     (case at_recall_state (cob_attempt c) of
        None \<Rightarrow> Inr c
      | Some recall \<Rightarrow> snd (alignment_loop rem limits (cob_recall_ref c) recall
          \<lparr>als_candidate = c, als_replans = 0, als_refetches = 0, als_recomposes = 0, als_total = 0\<rparr>))"

section \<open>The service's remedies\<close>

text \<open>
  The remediator of the service: \<open>runtime/validation/alignment_runtime.py\<close>, with the guards of
  \<open>alignment.py\<close> and \<open>alignment_transport.py\<close> and the overlay of \<open>runtime/context/retry_view_models.py\<close>.
  The verifier's language model, with the prompt built for it, is a parameter.
\<close>

fun alignment_failure_str :: "alignment_failure_code \<Rightarrow> pystr" where
  "alignment_failure_str Align_none = ''none''"
| "alignment_failure_str Align_wrong_intent = ''wrong_intent''"
| "alignment_failure_str Align_wrong_artifact = ''wrong_artifact''"
| "alignment_failure_str Align_wrong_action = ''wrong_action''"
| "alignment_failure_str Align_wrong_material_pack_option = ''wrong_material_pack_option''"
| "alignment_failure_str Align_wrong_report_scope = ''wrong_report_scope''"
| "alignment_failure_str Align_missing_answer = ''missing_answer''"
| "alignment_failure_str Align_missing_evidence = ''missing_evidence''"
| "alignment_failure_str Align_unsupported_claim = ''unsupported_claim''"
| "alignment_failure_str Align_policy_or_compliance_mismatch = ''policy_or_compliance_mismatch''"
| "alignment_failure_str Align_unsafe_action = ''unsafe_action''"
| "alignment_failure_str Align_composer_drift = ''composer_drift''"
| "alignment_failure_str Align_ambiguous_request = ''ambiguous_request''"

definition composer_retry_overlay :: "int \<Rightarrow> pystr \<Rightarrow> (int \<times> pystr) result" where
  "composer_retry_overlay attempt feedback =
     res_bind (seq_res
       [raise_if (\<not> (1 \<le> attempt \<and> attempt \<le> 2)) (ValueError ''attempt''),
        raise_if (\<not> length_within 1 300 feedback) (ValueError ''feedback''),
        raise_if (has_control feedback) (ValueError ''composer_retry_feedback_control_character'')])
       (\<lambda>_. Inr (attempt, feedback))"

record 'p alignment_context =
  alc_request :: kernel_reply_request
  alc_policy :: policy_manifest
  alc_authority :: business_scope_authority
  alc_attempt :: attempt_runtime
  alc_planner :: "('p, recall_turn_state attempt_result) planner_runtime"
  alc_verifier :: "candidate_object \<Rightarrow> int \<Rightarrow> alignment_verdict result"
  alc_history :: history_turns
  alc_uuid :: pystr

text \<open>\<open>build_candidate_from_plan_v2\<close> of the service's runtime, which the planner calls too.\<close>

definition build_candidate ::
  "'p alignment_context \<Rightarrow> execution_plan \<Rightarrow> recall_turn_state option \<Rightarrow> refetch_request option
   \<Rightarrow> recall_turn_state attempt_result result" where
  "build_candidate ctx plan recall refetch =
     build_candidate_from_plan_v2 (alc_attempt ctx) (alc_uuid ctx) (alc_request ctx) (alc_policy ctx)
       (alc_authority ctx) plan recall refetch"

definition planner_of :: "'p alignment_context \<Rightarrow> ('p, recall_turn_state attempt_result) planner_runtime" where
  "planner_of ctx = (alc_planner ctx)\<lparr>pl_builder := (\<lambda>plan recall. build_candidate ctx plan recall None)\<rparr>"

definition fresh_ref :: "candidate_object \<Rightarrow> nat" where
  "fresh_ref c = Suc (max (cob_plan_ref c) (max (cob_evidence_ref c) (cob_recall_ref c)))"

text \<open>The candidate built from a new plan, or again from the plan of the candidate before.\<close>

definition new_candidate :: "candidate_object \<Rightarrow> recall_turn_state attempt_result \<Rightarrow> candidate_object" where
  "new_candidate c a =
     \<lparr>cob_attempt = a, cob_plan_ref = fresh_ref c, cob_evidence_ref = Suc (fresh_ref c), cob_recall_ref = cob_recall_ref c\<rparr>"

definition rebuilt_candidate :: "candidate_object \<Rightarrow> recall_turn_state attempt_result \<Rightarrow> candidate_object" where
  "rebuilt_candidate c a =
     (new_candidate c a)\<lparr>cob_plan_ref := (if at_plan a = cob_plan c then cob_plan_ref c else fresh_ref c)\<rparr>"

definition runtime_verdict_for :: "'p alignment_context \<Rightarrow> candidate_object \<Rightarrow> int \<Rightarrow> alignment_verdict result" where
  "runtime_verdict_for ctx c attempt =
     (let request = alc_request ctx; core = pm_core (alc_policy ctx); authority = alc_authority ctx in
      if vi_scene (kr_identity request) \<noteq> pac_scene core
      then Inl (ContextViewInvariantError ''verifier_request_policy_scene_mismatch'')
      else if kr_business_scope request \<noteq> bsa_scope authority
      then Inl (ContextViewInvariantError ''verifier_business_scope_authority_mismatch'')
      else if pac_scope_hash core \<noteq> bsa_hash authority
      then Inl (ContextViewInvariantError ''verifier_policy_scope_hash_mismatch'')
      else res_bind (alc_verifier ctx c attempt) check_alignment_verdict)"

definition runtime_replan ::
  "'p alignment_context \<Rightarrow> candidate_object \<Rightarrow> alignment_verdict \<Rightarrow> int \<Rightarrow> candidate_object result" where
  "runtime_replan ctx c verdict attempt =
     (case at_recall_state (cob_attempt c) of
        None \<Rightarrow> Inl (AgentRuntimeError ''alignment_replan_missing_recall_state'')
      | Some recall \<Rightarrow>
          res_bind (build_candidate_via_planner (planner_of ctx) (alc_request ctx) (alc_policy ctx) (alc_authority ctx)
              (Some verdict) attempt recall) (\<lambda>a. Inr (new_candidate c a)))"

definition runtime_refetch ::
  "'p alignment_context \<Rightarrow> candidate_object \<Rightarrow> alignment_verdict \<Rightarrow> int \<Rightarrow> (refetch_request \<times> candidate_object) result" where
  "runtime_refetch ctx c verdict attempt =
     res_bind (build_alignment_refetch_request_v1 (cob_plan c) verdict attempt) (\<lambda>request.
     res_bind (build_candidate ctx (cob_plan c) (at_recall_state (cob_attempt c)) (Some request)) (\<lambda>a.
       Inr (request, rebuilt_candidate c a)))"

definition composer_feedback_text :: "alignment_verdict \<Rightarrow> pystr" where
  "composer_feedback_text v =
     joined_words (or_else (or_else (case av_composer_feedback v of None \<Rightarrow> [] | Some f \<Rightarrow> f) (av_rationale v))
       (alignment_failure_str (av_failure_code v)))"

definition runtime_recompose ::
  "'p alignment_context \<Rightarrow> candidate_object \<Rightarrow> alignment_verdict \<Rightarrow> int \<Rightarrow> candidate_object result" where
  "runtime_recompose ctx c verdict attempt =
     res_bind (composer_retry_overlay attempt (take 300 (composer_feedback_text verdict))) (\<lambda>overlay.
     res_bind (recompose_candidate_v2 (alc_attempt ctx) (alc_uuid ctx) (cob_attempt c) (alc_request ctx)
         (alc_policy ctx) (alc_authority ctx) (alc_history ctx) overlay) (\<lambda>a.
       Inr (c\<lparr>cob_attempt := a\<rparr>)))"

definition replacement_source :: "execution_plan \<Rightarrow> alignment_fallback \<Rightarrow> deterministic_input" where
  "replacement_source plan fallback =
     \<lparr>di_user_need = ep_user_need plan,
      di_units = [\<lparr>du_unit_id = ''alignment-remediation'', du_manifest_id = manifest_id_str (fallback_manifest fallback),
        du_answerability = (if fallback = Return_clarification then Ans_clarify else Ans_abstain),
        du_material_pack_option = None, du_evidence_query = None, du_ambiguity_slots = [], du_risk_flags = []\<rparr>],
      di_compliance_reason_code = cd_reason_code (ep_compliance plan), di_guardrail_decisions = [], di_confidence = 1\<rparr>"

definition runtime_replace ::
  "'p alignment_context \<Rightarrow> candidate_object \<Rightarrow> alignment_verdict option \<Rightarrow> alignment_fallback \<Rightarrow> candidate_object result" where
  "runtime_replace ctx c verdict fallback =
     res_bind (finalize_execution_plan_v2 (ar_sha (alc_attempt ctx)) (ar_float_text (alc_attempt ctx))
         (FromDeterministic (replacement_source (cob_plan c) fallback)) (alc_policy ctx) (alc_authority ctx)
         Origin_remediation None) (\<lambda>plan.
     res_bind (build_candidate ctx plan (at_recall_state (cob_attempt c)) None) (\<lambda>a.
       Inr (new_candidate c a)))"

definition runtime_remediator :: "'p alignment_context \<Rightarrow> alignment_remediator" where
  "runtime_remediator ctx =
     \<lparr>rem_plan_id = execution_plan_id_v2 (ar_sha (alc_attempt ctx)) (ar_float_text (alc_attempt ctx)),
      rem_verdict_for = runtime_verdict_for ctx, rem_replan = runtime_replan ctx, rem_refetch = runtime_refetch ctx,
      rem_recompose = runtime_recompose ctx, rem_replace = runtime_replace ctx\<rparr>"

end
