(* ===== verification/Alignment_Theorems.thy ===== *)
theory Alignment_Theorems
  imports Alignment_Loop Transition_System
begin

text \<open>
  What the alignment loop promises whatever the verifier and the remedies do: it is bounded, it keeps
  the recall state, and each candidate it returns has a reason. The loop is an instance of
  \<open>ranked_system\<close>, with the bodies that go on as its steps.
\<close>

section \<open>Steps\<close>

definition alignment_next ::
  "alignment_remediator \<Rightarrow> alignment_limits \<Rightarrow> nat \<Rightarrow> recall_turn_state \<Rightarrow> alignment_state \<Rightarrow> alignment_state \<Rightarrow> bool" where
  "alignment_next rem limits ref recall s s' = (alignment_body rem limits ref recall s = Align_continue s')"

definition same_recall :: "nat \<Rightarrow> recall_turn_state \<Rightarrow> candidate_object \<Rightarrow> bool" where
  "same_recall ref recall c =
     (cob_recall_ref c = ref \<and> (case at_recall_state (cob_attempt c) of None \<Rightarrow> False
        | Some r \<Rightarrow> ro_trace_hash (rts_outcome r) = ro_trace_hash (rts_outcome recall)))"

lemma require_same_recall: "require_same_recall_state c ref recall = Inr u \<longleftrightarrow> same_recall ref recall c"
  by (auto simp: require_same_recall_state_def same_recall_def split: option.splits)

definition initial_state :: "candidate_object \<Rightarrow> alignment_state" where
  "initial_state c =
     \<lparr>als_candidate = c, als_replans = 0, als_refetches = 0, als_recomposes = 0, als_total = 0\<rparr>"

definition alignment_start ::
  "alignment_limits \<Rightarrow> nat \<Rightarrow> recall_turn_state \<Rightarrow> alignment_state \<Rightarrow> bool" where
  "alignment_start limits ref recall s =
     (\<exists>c. s = initial_state c \<and> same_recall ref recall c \<and> is_ok (check_alignment_limits limits))"

definition within_limits :: "alignment_limits \<Rightarrow> alignment_state \<Rightarrow> bool" where
  "within_limits l s =
     (0 \<le> als_replans s \<and> als_replans s \<le> alim_replans l \<and> 0 \<le> als_refetches s \<and> als_refetches s \<le> alim_refetches l
      \<and> 0 \<le> als_recomposes s \<and> als_recomposes s \<le> alim_recomposes l \<and> als_total s \<le> alim_total l
      \<and> als_total s = als_replans s + als_refetches s + als_recomposes s)"

definition alignment_inv ::
  "alignment_limits \<Rightarrow> nat \<Rightarrow> recall_turn_state \<Rightarrow> alignment_state \<Rightarrow> bool" where
  "alignment_inv limits ref recall s =
     (within_limits limits s \<and> same_recall ref recall (als_candidate s)
      \<and> (als_total s > 0 \<longrightarrow> at_issues (cob_attempt (als_candidate s)) = []))"

lemma remedied_Continue:
  assumes "remedied ref recall s r = Align_continue s'"
  obtains c where "r = Inr c" "same_recall ref recall c" "at_issues (cob_attempt c) = []"
    "s' = s\<lparr>als_candidate := c, als_total := als_total s + 1\<rparr>"
  using assms by (auto simp: remedied_def res_bind_Inr_iff require_same_recall split: sum.splits if_splits)

lemma remedied_Finish:
  assumes "remedied ref recall s r = Align_finish (Inr c)"
  shows "same_recall ref recall c \<and> at_issues (cob_attempt c) \<noteq> []"
  using assms by (auto simp: remedied_def res_bind_Inr_iff require_same_recall split: sum.splits if_splits)

text \<open>A body that goes on used one of the three actions, below its limit.\<close>

lemma alignment_next_cases:
  assumes "alignment_next rem limits ref recall s s'"
  obtains (replan) c where "als_replans s < alim_replans limits"
      "s' = s\<lparr>als_replans := als_replans s + 1, als_candidate := c, als_total := als_total s + 1\<rparr>"
      "same_recall ref recall c" "at_issues (cob_attempt c) = []"
  | (refetch) c where "als_refetches s < alim_refetches limits"
      "s' = s\<lparr>als_refetches := als_refetches s + 1, als_candidate := c, als_total := als_total s + 1\<rparr>"
      "same_recall ref recall c" "at_issues (cob_attempt c) = []"
  | (recompose) c where "als_recomposes s < alim_recomposes limits"
      "s' = s\<lparr>als_recomposes := als_recomposes s + 1, als_candidate := c, als_total := als_total s + 1\<rparr>"
      "same_recall ref recall c" "at_issues (cob_attempt c) = []"
proof -
  from assms obtain v where
    "(\<exists>s0. replan_step rem ref recall s v = Align_continue s' \<and> als_replans s < alim_replans limits)
     \<or> (refetch_step rem ref recall s v = Align_continue s' \<and> als_refetches s < alim_refetches limits)
     \<or> (recompose_step rem ref recall s v = Align_continue s' \<and> als_recomposes s < alim_recomposes limits)"
    by (auto simp: alignment_next_def alignment_body_def Let_def
        split: sum.splits if_splits alignment_remediation.splits)
  then show thesis
  proof (elim disjE exE conjE)
    assume "replan_step rem ref recall s v = Align_continue s'" and l: "als_replans s < alim_replans limits"
    then obtain r where "remedied ref recall (s\<lparr>als_replans := als_replans s + 1\<rparr>) r = Align_continue s'"
      by (auto simp: replan_step_def Let_def split: sum.splits)
    then show thesis by (rule remedied_Continue) (use l replan in auto)
  next
    assume "refetch_step rem ref recall s v = Align_continue s'" and l: "als_refetches s < alim_refetches limits"
    then obtain r where "remedied ref recall (s\<lparr>als_refetches := als_refetches s + 1\<rparr>) r = Align_continue s'"
      by (auto simp: refetch_step_def Let_def)
    then show thesis by (rule remedied_Continue) (use l refetch in auto)
  next
    assume "recompose_step rem ref recall s v = Align_continue s'" and l: "als_recomposes s < alim_recomposes limits"
    then obtain r where "remedied ref recall (s\<lparr>als_recomposes := als_recomposes s + 1\<rparr>) r = Align_continue s'"
      by (auto simp: recompose_step_def Let_def)
    then show thesis by (rule remedied_Continue) (use l recompose in auto)
  qed
qed

lemma alignment_next_total:
  "alignment_next rem limits ref recall s s' \<Longrightarrow> als_total s' = als_total s + 1 \<and> als_total s < alim_total limits"
  unfolding alignment_next_def by (rule body_continue)

interpretation al: ranked_system "alignment_start limits ref recall" "alignment_next rem limits ref recall"
    "alignment_inv limits ref recall" als_total
  for rem limits ref recall
proof (unfold_locales, goal_cases)
  case (1 s)
  then show ?case
    by (auto simp: alignment_start_def initial_state_def alignment_inv_def within_limits_def is_ok_iff
        check_alignment_limits_def res_bind_Inr_iff seq_res_Inr Let_def)
next
  case (2 s s')
  from 2(2) alignment_next_total [OF 2(2)] 2(1) show ?case
    by (cases rule: alignment_next_cases) (auto simp: alignment_inv_def within_limits_def)
next
  case (3 s s')
  from alignment_next_total [OF 3(2)] show ?case by simp
qed

section \<open>The end of the loop\<close>

text \<open>The last state of a run: the loop returns what its body finishes with there.\<close>

lemma alignment_loop_ends:
  obtains s' where "rtranclp (alignment_next rem limits ref recall) s s'"
    "alignment_body rem limits ref recall s' = Align_finish (snd (alignment_loop rem limits ref recall s))"
    "als_total s' = als_total s + int (fst (alignment_loop rem limits ref recall s))"
proof -
  have "\<exists>s'. rtranclp (alignment_next rem limits ref recall) s s'
      \<and> alignment_body rem limits ref recall s' = Align_finish (snd (alignment_loop rem limits ref recall s))
      \<and> als_total s' = als_total s + int (fst (alignment_loop rem limits ref recall s))"
  proof (induction rem limits ref recall s rule: alignment_loop.induct)
    case (1 rem limits ref recall s)
    show ?case
    proof (cases "alignment_body rem limits ref recall s")
      case (Align_finish r)
      then show ?thesis by (subst (1 2) alignment_loop.simps) auto
    next
      case (Align_continue t)
      from 1 [OF this] obtain s' where s': "rtranclp (alignment_next rem limits ref recall) t s'"
        "alignment_body rem limits ref recall s' = Align_finish (snd (alignment_loop rem limits ref recall t))"
        "als_total s' = als_total t + int (fst (alignment_loop rem limits ref recall t))" by blast
      have "alignment_next rem limits ref recall s t" using Align_continue by (simp add: alignment_next_def)
      moreover have "alignment_loop rem limits ref recall s
          = (Suc (fst (alignment_loop rem limits ref recall t)), snd (alignment_loop rem limits ref recall t))"
        by (subst alignment_loop.simps) (simp add: Align_continue split: prod.splits)
      moreover have "als_total t = als_total s + 1" using body_continue [OF Align_continue] by simp
      ultimately show ?thesis using s' by (auto intro: converse_rtranclp_into_rtranclp)
    qed
  qed
  with that show thesis by blast
qed

lemma replaced_Inr:
  assumes "replaced rem ref recall c v f = Inr c'"
  shows "same_recall ref recall c' \<and> ep_origin (cob_plan c') = Origin_remediation
    \<and> ep_response_mode (cob_plan c') = fallback_mode f
    \<and> map mr_id (ep_selected_manifest_refs (cob_plan c')) = [fallback_manifest f]"
  using assms by (auto simp: replaced_def res_bind_Inr_iff require_same_recall require_replacement_authority_def Let_def
      split: if_splits)

text \<open>Why a candidate is returned.\<close>

definition returned_for_reason :: "alignment_remediator \<Rightarrow> candidate_object \<Rightarrow> bool" where
  "returned_for_reason rem c =
     ((\<exists>a\<in>{0..2}. case rem_verdict_for rem c a of
          Inr v \<Rightarrow> av_aligned v \<and> av_safe_to_return v
        | Inl e \<Rightarrow> verifier_down e \<and> ep_response_mode (cob_plan c) = Mode_refusal)
      \<or> at_issues (cob_attempt c) \<noteq> []
      \<or> (\<exists>f. ep_origin (cob_plan c) = Origin_remediation \<and> ep_response_mode (cob_plan c) = fallback_mode f
           \<and> map mr_id (ep_selected_manifest_refs (cob_plan c)) = [fallback_manifest f]))"

lemma returned_by_verdict:
  "a \<in> {0..2} \<Longrightarrow> rem_verdict_for rem c a = Inr v \<Longrightarrow> av_aligned v \<and> av_safe_to_return v \<Longrightarrow> returned_for_reason rem c"
  "a \<in> {0..2} \<Longrightarrow> rem_verdict_for rem c a = Inl e \<Longrightarrow> verifier_down e \<Longrightarrow>
     ep_response_mode (cob_plan c) = Mode_refusal \<Longrightarrow> returned_for_reason rem c"
  unfolding returned_for_reason_def by (rule disjI1, rule bexI [of _ a]; simp)+

lemma body_finish:
  assumes "alignment_body rem limits ref recall s = Align_finish (Inr c)" "same_recall ref recall (als_candidate s)"
  shows "same_recall ref recall c \<and> returned_for_reason rem c"
proof -
  have kept: ?thesis if "replaced rem ref recall (als_candidate s) v f = Inr c" for v f
    using replaced_Inr [OF that] by (auto simp: returned_for_reason_def)
  have ended: ?thesis if "remedied ref recall s0 r = Align_finish (Inr c)" for s0 r
    using remedied_Finish [OF that] by (auto simp: returned_for_reason_def)
  have steps: ?thesis if "replan_step rem ref recall s v = Align_finish (Inr c)
      \<or> refetch_step rem ref recall s v = Align_finish (Inr c) \<or> recompose_step rem ref recall s v = Align_finish (Inr c)" for v
    using that kept ended
    by (auto simp: replan_step_def refetch_step_def recompose_step_def Let_def split: sum.splits if_splits)
  from assms(1) obtain a where a: "alignment_attempt (als_total s) = Inr a"
    by (auto simp: alignment_body_def Let_def split: sum.splits)
  then have in_range: "a \<in> {0..2}" by (auto simp: alignment_attempt_def split: if_splits)
  show ?thesis
  proof (cases "rem_verdict_for rem (als_candidate s) a")
    case (Inl e)
    with assms a returned_by_verdict(2) [OF in_range Inl] show ?thesis
      by (auto simp: alignment_body_def Let_def split: if_splits dest: kept)
  next
    case (Inr v)
    show ?thesis
    proof (cases "av_aligned v \<and> av_safe_to_return v")
      case True
      with assms a Inr returned_by_verdict(1) [OF in_range Inr] show ?thesis
        by (auto simp: alignment_body_def Let_def)
    next
      case False
      with assms(1) a Inr kept steps show ?thesis
        by (auto simp: alignment_body_def Let_def split: if_splits alignment_remediation.splits)
    qed
  qed
qed

text \<open>C25 The loop ends after at most \<open>max_total\<close> remedies whatever the verifier says, and in every state
  it passes each kind of remedy is within its own limit, the total is their sum, the recall state is
  the one the turn began with and the candidate of a remedy has passed the reply validation.\<close>

theorem alignment_loop_bounded:
  assumes "check_alignment_limits limits = Inr limits" and "same_recall ref recall c"
  shows "int (fst (alignment_loop rem limits ref recall (initial_state c))) \<le> alim_total limits
    \<and> (\<forall>s. rtranclp (alignment_next rem limits ref recall) (initial_state c) s \<longrightarrow> alignment_inv limits ref recall s)"
proof -
  have start: "alignment_start limits ref recall (initial_state c)"
    using assms by (auto simp: alignment_start_def)
  obtain s' where s': "rtranclp (alignment_next rem limits ref recall) (initial_state c) s'"
    "als_total s' = als_total (initial_state c) + int (fst (alignment_loop rem limits ref recall (initial_state c)))"
    by (rule alignment_loop_ends)
  from al.reachable_inv [OF start s'(1)] s'(2) have "int (fst (alignment_loop rem limits ref recall (initial_state c)))
      \<le> alim_total limits"
    by (simp add: alignment_inv_def within_limits_def initial_state_def)
  with al.reachable_inv [OF start] show ?thesis by blast
qed

text \<open>C26 A candidate that alignment returns keeps the recall state of the turn and is returned for one of
  four reasons: the verifier approved this very candidate, the verifier was down and it is a refusal,
  its reply is invalid (and the turn will fail), or it is an authorised clarification or abstention.\<close>

theorem aligned_candidate_accounted:
  assumes "at_recall_state (cob_attempt c) = Some recall"
    and "check_alignment_limits limits = Inr limits"
    and "ensure_aligned_v2_response rem limits c = Inr c'"
  shows "same_recall (cob_recall_ref c) recall c' \<and> returned_for_reason rem c'"
proof -
  have same: "same_recall (cob_recall_ref c) recall c" using assms(1) by (simp add: same_recall_def)
  then have start: "alignment_start limits (cob_recall_ref c) recall (initial_state c)"
    using assms(2) by (auto simp: alignment_start_def)
  obtain s' where s': "rtranclp (alignment_next rem limits (cob_recall_ref c) recall) (initial_state c) s'"
    "alignment_body rem limits (cob_recall_ref c) recall s'
      = Align_finish (snd (alignment_loop rem limits (cob_recall_ref c) recall (initial_state c)))"
    by (rule alignment_loop_ends)
  have "snd (alignment_loop rem limits (cob_recall_ref c) recall (initial_state c)) = Inr c'"
    using assms(1,3) by (simp add: ensure_aligned_v2_response_def initial_state_def)
  with s'(2) have "alignment_body rem limits (cob_recall_ref c) recall s' = Align_finish (Inr c')" by simp
  from body_finish [OF this] al.reachable_inv [OF start s'(1)] show ?thesis
    by (simp add: alignment_inv_def)
qed

section \<open>Verdicts the loop cannot act on\<close>

lemma py_words_Cons:
  assumes "\<not> py_space c"
  shows "py_words (c # cs) = [c] # py_words cs \<and> (cs = [] \<or> py_space (hd cs) \<or> py_words cs = [])
    \<or> (\<exists>w ws. py_words cs = w # ws \<and> py_words (c # cs) = (c # w) # ws)"
proof (cases cs)
  case (Cons d ds)
  with assms show ?thesis by (cases "py_words (d # ds)") 
      (simp_all add: Cons py_words.simps(2) [of c "d # ds", unfolded list.case] del: py_words.simps(2))
qed (use assms in simp)

declare py_words.simps(2) [simp del]

lemma py_words_space: "py_space c \<Longrightarrow> py_words (c # cs) = py_words cs"
  by (simp add: py_words.simps(2))

lemma py_words_keeps: "c \<in> set s \<Longrightarrow> \<not> py_space c \<Longrightarrow> \<exists>w\<in>set (py_words s). c \<in> set w"
proof (induction s)
  case (Cons b cs)
  then show ?case
    by (cases "py_space b") (use py_words_Cons [of b cs] in \<open>auto simp: py_words_space\<close>)
qed simp

lemma join_with_elem: "w \<in> set ws \<Longrightarrow> c \<in> set w \<Longrightarrow> c \<in> set (join_with sep ws)"
proof (induction ws)
  case (Cons v vs)
  then show ?case by (cases vs) auto
qed simp

lemma join_blank_length: "length (join_with '' '' (w # ws)) = length w + sum_list (map (\<lambda>v. Suc (length v)) ws)"
  by (induction ws arbitrary: w) auto

lemma joined_words_length: "length (joined_words s) \<le> length s"
  unfolding joined_words_def
proof (induction s rule: length_induct)
  case (1 s)
  then have IH: "length (join_with '' '' (py_words t)) \<le> length t" if "length t < length s" for t using that by blast
  show ?case
  proof (cases s)
    case (Cons c cs)
    have cs: "length (join_with '' '' (py_words cs)) \<le> length cs" using IH Cons by simp
    show ?thesis
    proof (cases "py_space c")
      case False
      consider (join) w ws where "py_words cs = w # ws" "py_words s = (c # w) # ws"
        | (none) "py_words cs = []" "py_words s = [[c]]"
        | (split) d ds where "cs = d # ds" "py_space d" "py_words s = [c] # py_words cs"
        using py_words_Cons [OF False, of cs] Cons by (cases cs) auto
      then show ?thesis
      proof cases
        case split
        then have "length (join_with '' '' (py_words ds)) \<le> length ds" using IH Cons by simp
        with split show ?thesis by (cases "py_words ds") (auto simp: Cons py_words_space join_blank_length)
      qed (use cs Cons in \<open>auto simp: join_blank_length\<close>)
    qed (use cs Cons in \<open>simp add: py_words_space\<close>)
  qed simp
qed

lemma control_char_retry_text:
  assumes "c \<in> set s" "c < CHR 0x20" "\<not> py_space c" "length s \<le> 300"
  shows "has_control (retry_text s fallback)" "length_within 1 300 (retry_text s fallback)"
proof -
  have c: "c \<in> set (joined_words s)"
    using py_words_keeps [OF assms(1,3)] join_with_elem unfolding joined_words_def by blast
  have l: "length (joined_words s) \<le> 300" using joined_words_length [of s] assms(4) by linarith
  from c l have t: "retry_text s fallback = joined_words s" by (auto simp: retry_text_def Let_def)
  from c assms(2) show "has_control (retry_text s fallback)" by (auto simp: t has_control_def list_ex_iff)
  from c l show "length_within 1 300 (retry_text s fallback)"
    unfolding t length_within_def by (cases "joined_words s") auto
qed

lemma control_char_overlay:
  assumes "av_remediation v = Remedy_replan" "av_planner_feedback v = Some f" "length f \<le> 300"
    "c \<in> set f" "c < CHR 0x20" "\<not> py_space c" "n \<in> {1, 2}"
  shows "planner_alignment_replan_overlay (Some v) n = Inl (ValueError ''plan_validation_message_control_character'')"
proof -
  have "f \<noteq> []" using assms(4) by auto
  with assms control_char_retry_text [OF assms(4-6,3), of "''alignment_requested_replan''"] show ?thesis
    by (auto simp: planner_alignment_replan_overlay_def Let_def check_planner_overlay_def raise_if_def seq_res.simps)
qed

lemma first_body:
  assumes "at_recall_state (cob_attempt c) = Some recall"
    and "alignment_body rem limits (cob_recall_ref c) recall (initial_state c) = Align_finish r"
  shows "ensure_aligned_v2_response rem limits c = r"
  using assms by (simp add: ensure_aligned_v2_response_def initial_state_def alignment_loop.simps)

lemma remedied_Inl: "remedied ref recall s (Inl e) = Align_finish (Inl e)"
  by (simp add: remedied_def)

text \<open>C28 An exception of a remedy, unlike one of the verifier, can end the turn. A recompose verdict on a
  reply that no composer wrote, a document refetch verdict on a plan no single unit of which reads
  documents, and a replan verdict with a control character in its feedback are all accepted by the
  verdict's validator; each makes the loop raise instead of returning the abstention it falls back on.\<close>

theorem verdict_can_fail_turn:
  assumes "at_recall_state (cob_attempt c) = Some recall"
    and "runtime_verdict_for ctx c 0 = Inr v" and "\<not> av_aligned v"
    and "1 \<le> alim_total l" "1 \<le> alim_replans l" "1 \<le> alim_refetches l" "1 \<le> alim_recomposes l"
  shows "(av_remediation v = Remedy_recompose
        \<and> ep_response_mode (cob_plan c) \<notin> {Mode_knowledge_answer, Mode_smalltalk}
        \<and> length (composer_feedback_text v) \<in> {1..300} \<and> \<not> has_control (composer_feedback_text v)
        \<longrightarrow> ensure_aligned_v2_response (runtime_remediator ctx) l c
            = Inl (AgentRuntimeError ''alignment_recompose_mode_not_supported''))
    \<and> (av_remediation v = Remedy_refetch_document_context
        \<and> length (filter (\<lambda>u. unit_supports_refetch (eu_manifest_ref u) Remedy_refetch_document_context)
            (ep_units (cob_plan c))) \<noteq> 1
        \<longrightarrow> ensure_aligned_v2_response (runtime_remediator ctx) l c
            = Inl (ValueError ''alignment_refetch_unit_not_unique''))
    \<and> (av_remediation v = Remedy_replan
        \<and> (\<exists>f b. av_planner_feedback v = Some f \<and> b \<in> set f \<and> b < CHR 0x20 \<and> \<not> py_space b)
        \<longrightarrow> ensure_aligned_v2_response (runtime_remediator ctx) l c
            = Inl (ValueError ''plan_validation_message_control_character''))"
    (is "?recompose \<and> ?refetch \<and> ?replan")
proof -
  let ?rem = "runtime_remediator ctx" and ?s = "initial_state c"
  have checked: "check_alignment_verdict v = Inr v"
    using assms(2) by (auto simp: runtime_verdict_for_def Let_def res_bind_Inr_iff check_alignment_verdict_def split: if_splits)
  have body: "alignment_body ?rem l (cob_recall_ref c) recall ?s =
      (case av_remediation v of Remedy_recompose \<Rightarrow> recompose_step ?rem (cob_recall_ref c) recall ?s v
       | Remedy_refetch_document_context \<Rightarrow> refetch_step ?rem (cob_recall_ref c) recall ?s v
       | Remedy_replan \<Rightarrow> replan_step ?rem (cob_recall_ref c) recall ?s v
       | _ \<Rightarrow> alignment_body ?rem l (cob_recall_ref c) recall ?s)"
    using assms(2-7)
    by (auto simp: alignment_body_def alignment_attempt_def initial_state_def runtime_remediator_def Let_def
        split: alignment_remediation.splits)
  note simps = initial_state_def action_attempt_def runtime_remediator_def remedied_Inl Let_def
  have ?recompose
  proof (intro impI, elim conjE)
    assume r: "av_remediation v = Remedy_recompose"
      "ep_response_mode (cob_plan c) \<notin> {Mode_knowledge_answer, Mode_smalltalk}"
      "length (composer_feedback_text v) \<in> {1..300}" "\<not> has_control (composer_feedback_text v)"
    then have "runtime_recompose ctx c v 1 = Inl (AgentRuntimeError ''alignment_recompose_mode_not_supported'')"
      by (simp add: runtime_recompose_def composer_retry_overlay_def length_within_def raise_if_def seq_res.simps
          recompose_candidate_v2_def cob_plan_def)
    with r(1) body show "ensure_aligned_v2_response ?rem l c = Inl (AgentRuntimeError ''alignment_recompose_mode_not_supported'')"
      by (intro first_body [OF assms(1)]) (simp add: recompose_step_def simps)
  qed
  moreover have ?refetch
  proof (intro impI, elim conjE)
    assume r: "av_remediation v = Remedy_refetch_document_context"
      "length (filter (\<lambda>u. unit_supports_refetch (eu_manifest_ref u) Remedy_refetch_document_context)
            (ep_units (cob_plan c))) \<noteq> 1"
    from checked r(1) have "av_refined_evidence_query v \<noteq> None"
      by (auto simp: check_alignment_verdict_def res_bind_Inr_iff seq_res_Inr Let_def py_strip_def py_lstrip_def split: option.splits)
    with r have "runtime_refetch ctx c v 1 = Inl (ValueError ''alignment_refetch_unit_not_unique'')"
      by (auto simp: runtime_refetch_def build_alignment_refetch_request_v1_def split: list.splits)
    with r(1) body show "ensure_aligned_v2_response ?rem l c = Inl (ValueError ''alignment_refetch_unit_not_unique'')"
      by (intro first_body [OF assms(1)]) (simp add: refetch_step_def simps)
  qed
  moreover have ?replan
  proof (intro impI, elim conjE exE)
    fix f b
    assume r: "av_remediation v = Remedy_replan" "av_planner_feedback v = Some f" "b \<in> set f" "b < CHR 0x20" "\<not> py_space b"
    from checked r(2) have "length f \<le> 300"
      by (auto simp: check_alignment_verdict_def res_bind_Inr_iff seq_res_Inr Let_def opt_within_def)
    from control_char_overlay [OF r(1,2) this r(3-5), of 1]
    have "runtime_replan ctx c v 1 = Inl (ValueError ''plan_validation_message_control_character'')"
      by (simp add: runtime_replan_def assms(1) build_candidate_via_planner_def)
    with r(1) body show "ensure_aligned_v2_response ?rem l c = Inl (ValueError ''plan_validation_message_control_character'')"
      by (intro first_body [OF assms(1)]) (simp add: replan_step_def verifier_down_def simps)
  qed
  ultimately show ?thesis by blast
qed

end
