(* ===== verification/Attempt_Theorems.thy ===== *)
theory Attempt_Theorems
  imports Attempt Plan_Theorems
begin

text \<open>
  What a candidate reply rests on: every action and mention of it goes back to a lookup the adapter
  resolved and to a grant of the request, every reason it gives is a registered one, and an action whose
  lookup resolves is sent.
\<close>

section \<open>From a lookup to a binding\<close>

text \<open>The preflight has a resolved result of the type with the reference.\<close>

definition lookup_resolved :: "preflight_snapshot \<Rightarrow> adapter_resolve_type \<Rightarrow> pystr \<Rightarrow> bool" where
  "lookup_resolved items t ref =
     list_ex (\<lambda>i. pfi_resolve_type i = t
       \<and> (case pfi_result i of None \<Rightarrow> False
          | Some r \<Rightarrow> arr_status r = St_resolved \<and> arr_resolve_ref r = Some ref)) items"

fun outbound_of :: "outbound_action \<Rightarrow> outbound_action_type" where
  "outbound_of (SendMaterialPackAction _ _ _) = Out_material_pack"
| "outbound_of (SendWeeklyReportAction _ _ _ _) = Out_weekly_report"
| "outbound_of (SendMonthlyReportAction _ _ _ _) = Out_monthly_report"

lemma resolved_results_lookup:
  assumes "resolved_results items t = Some (res, ref)"
  shows "lookup_resolved items t ref"
proof -
  from assms obtain i where "dict_get pfi_resolve_type t
      (filter (\<lambda>i. case pfi_result i of None \<Rightarrow> False
         | Some r \<Rightarrow> arr_status r = St_resolved \<and> arr_resolve_ref r \<noteq> None) items) = Some i"
    and i: "pfi_result i = Some res" "arr_resolve_ref res = Some ref"
    by (auto simp: resolved_results_def Option.bind_eq_Some_conv)
  from dict_get_Some [OF this(1)] i show ?thesis
    by (auto simp: lookup_resolved_def list_ex_iff intro!: bexI [of _ i])
qed

lemma resolve_evidence_binding:
  assumes "resolve_evidence sha (u, t, res, ref) = Inr (f, b)"
  shows "rb_resolve_type b = t \<and> rb_resolve_ref b = ref \<and> rb_evidence_id b = cf_evidence_id f"
proof -
  have check: "b' = b" if "check_resolve_binding b' = Inr b" for b'
    using that by (auto simp: check_resolve_binding_def res_simps)
  from assms show ?thesis
    by (auto simp: resolve_evidence_def Let_def res_bind_Inr_iff dest!: check)
qed

lemma adapter_bindings_resolved:
  assumes "canonical_adapter_facts_v1 sha plan items = Inr (fs, bs)" "b \<in> set bs"
  shows "lookup_resolved items (rb_resolve_type b) (rb_resolve_ref b)"
proof -
  from assms(1) obtain found where found: "map_res (resolve_evidence sha) (resolve_items (ep_units plan) items) = Inr found"
    and bs: "bs = dict_values rb_evidence_id (map snd found)"
    by (auto simp: canonical_adapter_facts_v1_def res_bind_Inr_iff)
  from assms(2) dict_values_facts(1) [of rb_evidence_id "map snd found"] obtain f where "(f, b) \<in> set found"
    by (auto simp: bs)
  with found obtain item where item: "item \<in> set (resolve_items (ep_units plan) items)"
    "resolve_evidence sha item = Inr (f, b)" by (auto dest: map_res_mem)
  obtain u t res ref where tuple: "item = (u, t, res, ref)" by (cases item) auto
  with item(1) have "resolved_results items t = Some (res, ref)"
    by (auto simp: resolve_items_def set_map_filter)
  with resolve_evidence_binding item(2) tuple show ?thesis
    by (fastforce dest: resolved_results_lookup)
qed

lemma executed:
  assumes "execute_v2 sha ex r plan policy auth refetch = Inr ev"
  shows "(\<forall>b\<in>set (er_bindings ev). lookup_resolved (er_preflight ev) (rb_resolve_type b) (rb_resolve_ref b))
    \<and> ground_execution_plan_v2 plan (pm_core policy) (er_facts ev) (er_bindings ev) None = Inr (er_groundings ev)"
  using assms
  by (auto simp: execute_v2_def Let_def res_bind_Inr_iff dest: adapter_bindings_resolved split: if_splits)

section \<open>From a binding to an action\<close>

lemma resolvable_state_binding:
  assumes "unit_resolvable_state_v1 u c facts bindings t = Inr s" "rst_resolve_ref s = Some ref"
  shows "\<exists>b\<in>set bindings. rb_resolve_type b = t \<and> rb_resolve_ref b = ref"
  using resolvable_state_ref [OF assms] by blast

lemma report_state_binding:
  assumes "unit_report_state_v1 u c facts bindings t = Inr s" "rst_resolve_ref s = Some ref"
  shows "\<exists>b\<in>set bindings. rb_resolve_type b = t \<and> rb_resolve_ref b = ref"
  using report_state_base [OF assms] resolvable_state_binding by blast

lemma grounded_business:
  assumes "ground_execution_unit_v2 plan core facts rbs epoch u = Inr g"
  obtains bindings fs c where "set bindings \<subseteq> set rbs"
    "\<And>f. f \<in> set fs \<Longrightarrow> f \<in> set facts \<and> canonical_fact_admitted_for_unit_v1 f u c epoch"
    "unit_resolvable_state_v1 u c fs bindings Ar_material_pack = Inr (ubf_material_pack (ug_business_facts g))"
    "unit_report_state_v1 u c fs bindings Ar_weekly_report = Inr (ubf_weekly_report (ug_business_facts g))"
    "unit_report_state_v1 u c fs bindings Ar_monthly_report = Inr (ubf_monthly_report (ug_business_facts g))"
    "unit_resolvable_state_v1 u c fs bindings Ar_sales_mention = Inr (ubf_sales_mention (ug_business_facts g))"
    "ubf_user_permission (ug_business_facts g) = unit_permission_v1 u core"
proof -
  let ?fs = "admitted_facts u facts epoch"
  have "derive_unit_business_facts_v1 u (evidence_contract_of (mr_id (eu_manifest_ref u))) core ?fs
      (filter (\<lambda>b. rb_evidence_id b \<in> cf_evidence_id ` set ?fs) rbs) = Inr (ug_business_facts g)"
    using grounded_unit [OF assms] by blast
  moreover have "f \<in> set facts \<and> canonical_fact_admitted_for_unit_v1 f u (evidence_contract_of (mr_id (eu_manifest_ref u))) epoch"
    if "f \<in> set ?fs" for f
    using that by (auto simp: admitted_facts_def Let_def split: if_splits)
  moreover have "set (filter (\<lambda>b. rb_evidence_id b \<in> cf_evidence_id ` set ?fs) rbs) \<subseteq> set rbs" by auto
  ultimately show thesis using that by (elim derived_facts) (meson subset_trans)
qed

definition action_bound :: "resolve_binding list \<Rightarrow> outbound_action \<Rightarrow> bool" where
  "action_bound bs a =
     ((\<exists>b\<in>set bs. Some (rb_resolve_type b) = resolve_type_for_action (outbound_of a) \<and> rb_resolve_ref b = oa_resolve_ref a)
      \<and> (\<forall>d. oa_report_date a = Some d \<longrightarrow> date_ok d))"

lemma resolve_type_for_action_simps:
  "resolve_type_for_action Out_material_pack = Some Ar_material_pack"
  "resolve_type_for_action Out_weekly_report = Some Ar_weekly_report"
  "resolve_type_for_action Out_monthly_report = Some Ar_monthly_report"
  by code_simp+

lemma grounded_action:
  assumes "ground_execution_unit_v2 plan core facts rbs epoch u = Inr g"
    and "action_from_grounding i opt (ug_business_facts g) = Some a"
  shows "outbound_of a = i \<and> action_bound rbs a"
proof -
  obtain bindings fs c where sub: "set bindings \<subseteq> set rbs"
    and m: "unit_resolvable_state_v1 u c fs bindings Ar_material_pack = Inr (ubf_material_pack (ug_business_facts g))"
    and w: "unit_report_state_v1 u c fs bindings Ar_weekly_report = Inr (ubf_weekly_report (ug_business_facts g))"
    and mo: "unit_report_state_v1 u c fs bindings Ar_monthly_report = Inr (ubf_monthly_report (ug_business_facts g))"
    using grounded_business [OF assms(1)] by metis
  show ?thesis
  proof (cases i)
    case Out_material_pack
    with assms(2) resolvable_state_binding [OF m] sub show ?thesis
      by (auto simp: action_bound_def resolve_type_for_action_simps Let_def split: if_splits option.splits)
  next
    case Out_weekly_report
    with assms(2) report_state_binding [OF w] report_state_date [OF w] sub show ?thesis
      by (auto simp: action_bound_def resolve_type_for_action_simps Let_def split: if_splits option.splits)
  next
    case Out_monthly_report
    with assms(2) report_state_binding [OF mo] report_state_date [OF mo] sub show ?thesis
      by (auto simp: action_bound_def resolve_type_for_action_simps Let_def split: if_splits option.splits)
  qed
qed

lemma permission_outbound:
  "unit_permission_v1 u core = Permission_allowed \<Longrightarrow> i \<in> set (eu_action_intents u)
   \<Longrightarrow> ai_action_type i \<in> set (pac_outbound core)"
  by (auto simp: unit_permission_v1_def Let_def list_all_iff split: if_splits)

lemma unit_actions_bound:
  assumes "ground_execution_unit_v2 plan core facts rbs epoch u = Inr g" "a \<in> set (unit_actions (u, g))"
  shows "outbound_of a \<in> set (pac_outbound core) \<and> action_bound rbs a"
proof -
  from assms(2) obtain i where i: "i \<in> set (eu_action_intents u)" "ubf_user_permission (ug_business_facts g) = Permission_allowed"
    "action_from_grounding (ai_action_type i) (ai_material_pack_option i) (ug_business_facts g) = Some a"
    by (auto simp: unit_actions_def set_map_filter split: if_splits)
  have "ubf_user_permission (ug_business_facts g) = unit_permission_v1 u core"
    using grounded_business [OF assms(1)] by metis
  with i grounded_action [OF assms(1) i(3)] permission_outbound show ?thesis by metis
qed

lemma plan_actions_bound:
  assumes "ground_execution_plan_v2 plan core facts rbs epoch = Inr gs"
    and "a \<in> set (concat (map unit_actions (zip (ep_units plan) gs)))"
  shows "outbound_of a \<in> set (pac_outbound core) \<and> action_bound rbs a"
proof -
  from assms(2) obtain u g where p: "(u, g) \<in> set (zip (ep_units plan) gs)" "a \<in> set (unit_actions (u, g))"
    by auto
  with grounded_plan [OF assms(1)] have "ground_execution_unit_v2 plan core facts rbs epoch u = Inr g"
    by (auto simp: list_all2_iff)
  from unit_actions_bound [OF this p(2)] show ?thesis .
qed

lemma resolvable_state_available:
  assumes "unit_resolvable_state_v1 u c fs bindings t = Inr s" "rst_availability s = Available"
  shows "\<exists>f. first_resolvable_fact_v1 fs t = Some f \<and> availability_from_canonical_fact_v1 f = Available"
  using assms
  by (auto simp: unit_resolvable_state_v1_def unknown_state_def split: if_splits option.splits
      dest!: check_resolvable_state_Inr)

lemma sales_available_bound:
  assumes "ground_execution_plan_v2 plan core facts rbs epoch = Inr gs" "g \<in> set gs"
    and "rst_availability (ubf_sales_mention (ug_business_facts g)) = Available"
  shows "\<exists>f\<in>set facts. \<exists>u\<in>set (ep_units plan). \<exists>c. cf_fact_type f = Fact_sales_mention_resolvable
    \<and> canonical_fact_admitted_for_unit_v1 f u c epoch"
proof -
  from grounded_plan [OF assms(1)] assms(2) obtain u where "u \<in> set (ep_units plan)"
    and u: "ground_execution_unit_v2 plan core facts rbs epoch u = Inr g"
    unfolding list_all2_conv_all_nth in_set_conv_nth by metis
  obtain bindings fs c where sub: "\<And>f. f \<in> set fs \<Longrightarrow> f \<in> set facts \<and> canonical_fact_admitted_for_unit_v1 f u c epoch"
    and s: "unit_resolvable_state_v1 u c fs bindings Ar_sales_mention = Inr (ubf_sales_mention (ug_business_facts g))"
    using grounded_business [OF u] by metis
  from resolvable_state_available [OF s assms(3)] obtain f where "first_resolvable_fact_v1 fs Ar_sales_mention = Some f"
    by blast
  then have "f \<in> set fs" "cf_fact_type f = Fact_sales_mention_resolvable"
    by (auto simp: first_resolvable_fact_v1_def dest!: find_Some_mem)
  with sub \<open>u \<in> set (ep_units plan)\<close> show ?thesis by blast
qed

section \<open>Where a fact comes from\<close>

lemma built_fact_type:
  assumes "build_canonical_evidence_fact_v1 sha ft st art t payload scope pv obs urls = Inr f"
  shows "cf_fact_type f = ft \<and> cf_source_type f = st \<and> cf_resolve_type f = t \<and> cf_scope f = scope"
proof -
  have check: "f' = f" if "check_canonical_fact f' = Inr f" for f'
    using that by (auto simp: check_canonical_fact_def Let_def res_simps)
  from assms show ?thesis
    by (auto simp: build_canonical_evidence_fact_v1_def Let_def res_bind_Inr_iff split: if_splits dest!: check)
qed

definition scope_fact :: "canonical_fact \<Rightarrow> bool" where
  "scope_fact f = (cf_source_type f = Src_adapter_report_scope
     \<and> cf_fact_type f \<in> {Fact_report_scope_summary, Fact_report_scope_match, Fact_report_scope_products,
          Fact_report_scope_unavailable})"

lemma check_evidence_scope_Inr: "check_evidence_scope x = Inr y \<Longrightarrow> y = x"
  by (cases x) (auto simp: res_bind_Inr_iff)

lemma report_fact_source:
  "report_fact sha target res command ft payload = Inr f \<Longrightarrow> cf_source_type f = Src_adapter_report_scope \<and> cf_fact_type f = ft"
  by (auto simp: report_fact_def Let_def res_bind_Inr_iff dest: built_fact_type)

lemma target_fact_source:
  "summary_fact sha target res = Inr f \<Longrightarrow> scope_fact f"
  "match_fact sha target res = Inr f \<Longrightarrow> scope_fact f"
  "products_fact sha target res ps n = Inr f \<Longrightarrow> scope_fact f"
  "unavailable_fact sha target reason = Inr f \<Longrightarrow> scope_fact f"
  by (auto simp: summary_fact_def match_fact_def products_fact_def unavailable_fact_def Let_def res_bind_Inr_iff
      scope_fact_def dest: report_fact_source split: if_splits)

lemma collect_target_source:
  assumes "collect_target sha adapter t req n = (n', Inr fs)" "f \<in> set fs"
  shows "scope_fact f"
  using assms
  by (auto simp: collect_target_def collect_match_fact_def collect_products_fact_def Let_def res_bind_Inr_iff
      dest: target_fact_source split: sum.splits option.splits report_command.splits prod.splits
        page_result.splits adapter_resolve_status.splits)

lemma collect_targets_source:
  "collect_targets sha adapter req n ts = Inr fs \<Longrightarrow> f \<in> set fs \<Longrightarrow> scope_fact f"
proof (induction ts arbitrary: n fs)
  case (Cons t ts)
  obtain n' r where t: "collect_target sha adapter t (req t) n = (n', r)" by (cases "collect_target sha adapter t (req t) n")
  with Cons.prems obtain fs1 fs2 where "r = Inr fs1" "collect_targets sha adapter req n' ts = Inr fs2" "fs = fs1 @ fs2"
    by (auto simp: res_bind_Inr_iff)
  with t Cons.IH Cons.prems(2) collect_target_source show ?case by fastforce
qed simp

lemma report_scope_source:
  assumes "report_scope_collect sha adapter unspecified r plan core items refetch = Inr fs" "f \<in> set fs"
  shows "scope_fact f"
proof -
  have sub: "set (dict_values cf_evidence_id xs) \<subseteq> set xs" for xs :: "canonical_fact list"
    by (rule dict_values_facts)
  from assms show ?thesis
    unfolding report_scope_collect_def Let_def
    by (auto simp: res_bind_Inr_iff split: if_splits option.splits sum.splits
        dest: subsetD [OF sub] collect_targets_source target_fact_source(4) dest!: map_res_mem)
qed

lemma knowledge_fact_source:
  "knowledge_fact sha u key cls operation source content = Inr f \<Longrightarrow> cf_fact_type f = Fact_document_context \<and> cf_source_type f = source"
  by (auto simp: knowledge_fact_def Let_def res_bind_Inr_iff dest: built_fact_type split: if_splits)

lemma document_static_source:
  "document_fact sha sanitize u c = Inr (Some f) \<Longrightarrow> cf_fact_type f = Fact_document_context"
  "static_fact sha sanitize catalog u m sc = Inr (Some (f, bs)) \<Longrightarrow> cf_fact_type f = Fact_document_context"
  by (auto simp: document_fact_def static_fact_def Let_def res_bind_Inr_iff dest: knowledge_fact_source
      split: if_splits option.splits)

lemma collect_knowledge_source:
  "collect_knowledge sha k scene refetch n us = Inr (fs, bs) \<Longrightarrow> f \<in> set fs \<Longrightarrow> cf_fact_type f = Fact_document_context"
proof (induction us arbitrary: n fs bs)
  case (Cons u us)
  have unit: "cf_fact_type f = Fact_document_context"
    if "collect_knowledge_unit sha k scene n u q = Inr (gs, cs)" "f \<in> set gs" for q gs cs
  proof -
    from that(1) obtain ds contexts ss where
      ds: "map_res (document_fact sha (kns_sanitize k) u) (kns_documents k n q) = Inr ds"
      and ss: "map_res (static_fact sha (kns_sanitize k) (kns_catalog k) u (scene = SceneGroup)) contexts = Inr ss"
      and gs: "gs = List.map_filter id ds @ map fst (List.map_filter id ss)"
      by (auto simp: collect_knowledge_unit_def Let_def res_bind_Inr_iff)
    from that(2) gs consider "Some f \<in> set ds" | ms where "Some (f, ms) \<in> set ss"
      by (auto simp: set_map_filter)
    then show ?thesis
      by cases (auto dest: map_res_mem [OF ds] map_res_mem [OF ss] document_static_source)
  qed
  from Cons show ?case
    by (auto simp: res_bind_Inr_iff dest: unit split: option.splits)
qed simp

lemma knowledge_source:
  assumes "knowledge_collect sha k r plan core refetch = Inr (fs, bs)" "f \<in> set fs"
  shows "cf_fact_type f = Fact_document_context"
proof -
  have sub: "set (dict_values cf_evidence_id xs) \<subseteq> set xs" for xs :: "canonical_fact list"
    by (rule dict_values_facts)
  from assms show ?thesis
    by (auto simp: knowledge_collect_def deduplicate_knowledge_result_def Let_def res_bind_Inr_iff
        dest: subsetD [OF sub] collect_knowledge_source split: if_splits)
qed

lemma adapter_fact_resolved:
  assumes "canonical_adapter_facts_v1 sha plan items = Inr (fs, bs)" "f \<in> set fs"
  shows "\<exists>t ref. cf_fact_type f = canonical_resolvable_fact_type t \<and> lookup_resolved items t ref
    \<and> (\<exists>u\<in>set (ep_units plan). cf_scope f = canonical_scope_for_unit_v1 u (canonical_artifact_type_for_resolve t))"
proof -
  from assms(1) obtain found where found: "map_res (resolve_evidence sha) (resolve_items (ep_units plan) items) = Inr found"
    and fs: "fs = dict_values cf_evidence_id (map fst found)"
    by (auto simp: canonical_adapter_facts_v1_def res_bind_Inr_iff)
  from assms(2) dict_values_facts(1) [of cf_evidence_id "map fst found"] obtain b where "(f, b) \<in> set found"
    by (auto simp: fs)
  with found obtain item where item: "item \<in> set (resolve_items (ep_units plan) items)"
    "resolve_evidence sha item = Inr (f, b)" by (auto dest: map_res_mem)
  obtain u t res ref where tuple: "item = (u, t, res, ref)" by (cases item) auto
  with item(1) have "lookup_resolved items t ref" "u \<in> set (ep_units plan)"
    by (auto simp: resolve_items_def set_map_filter dest: resolved_results_lookup)
  moreover from item(2) tuple have "cf_fact_type f = canonical_resolvable_fact_type t"
    "cf_scope f = canonical_scope_for_unit_v1 u (canonical_artifact_type_for_resolve t)"
    by (auto simp: resolve_evidence_def Let_def res_bind_Inr_iff dest: built_fact_type dest!: check_evidence_scope_Inr)
  ultimately show ?thesis by blast
qed

lemma sales_fact_resolved:
  assumes "execute_v2 sha ex r plan policy auth refetch = Inr ev"
    and "f \<in> set (er_facts ev)" "cf_fact_type f = Fact_sales_mention_resolvable"
  shows "(\<exists>ref. lookup_resolved (er_preflight ev) Ar_sales_mention ref)
    \<and> (\<exists>u\<in>set (ep_units plan). cf_scope f = canonical_scope_for_unit_v1 u Art_adapter_context)"
proof -
  have adapter: "(\<exists>ref. lookup_resolved items Ar_sales_mention ref)
      \<and> (\<exists>u\<in>set (ep_units plan). cf_scope f = canonical_scope_for_unit_v1 u Art_adapter_context)"
    if "canonical_adapter_facts_v1 sha plan items = Inr (fs, bs)" "f \<in> set fs" for items fs bs
  proof -
    from adapter_fact_resolved [OF that] obtain t ref u where "cf_fact_type f = canonical_resolvable_fact_type t"
      "lookup_resolved items t ref" "u \<in> set (ep_units plan)"
      "cf_scope f = canonical_scope_for_unit_v1 u (canonical_artifact_type_for_resolve t)" by blast
    with assms(3) show ?thesis by (cases t) auto
  qed
  have report: "f \<notin> set fs"
    if "executor_report_facts sha ex r plan core items refetch = Inr fs" for core items fs
    using that assms(3) report_scope_source
    by (fastforce simp: executor_report_facts_def Let_def scope_fact_def split: option.splits if_splits)
  have knowledge: "f \<notin> set fs"
    if "(case ex_knowledge ex of None \<Rightarrow> Inr ([], []) | Some k \<Rightarrow> knowledge_collect sha k r plan core refetch) = Inr (fs, ms)"
    for core fs ms
    using that assms(3) knowledge_source by (fastforce split: option.splits)
  from assms(1,2) show ?thesis
    by (auto simp: execute_v2_def Let_def res_bind_Inr_iff split: if_splits dest: adapter report knowledge)
qed

section \<open>What is rendered\<close>

lemma validate_reply_response_Inr: "validate_reply_response r = Inr r' \<Longrightarrow> r' = r"
proof -
  have "map_res validate_outbound_action as = Inr bs \<Longrightarrow> bs = as" for as bs
    using map_res_map [of validate_outbound_action as bs id id] by (auto dest: validate_outbound_action_Inr)
  then show "validate_reply_response r = Inr r' \<Longrightarrow> ?thesis"
    by (auto simp: validate_reply_response_def validate_no_reply_shape_def res_bind_Inr_iff split: if_splits)
qed

lemma rendered_reply_Inr:
  "rendered_reply kind content reason = Inr (r, reason') \<Longrightarrow>
     resp_actions r = [] \<and> reply_mentions (resp_reply r) = [] \<and> reason' = reason \<and> resp_id r = []
     \<and> reply_text (resp_reply r) = content \<and> reply_kind_of (resp_reply r) = kind"
  by (auto simp: rendered_reply_def reply_of_def res_bind_Inr_iff dest!: validate_reply_response_Inr)

lemma compose_returns:
  assumes "compose_v2_reply boundary i = ComposerReturns o'"
  shows "composer_output_admitted (cb_catalog boundary) i o'"
  using assms
  by (auto simp: compose_v2_reply_def split: option.splits sum.splits composer_outcome.splits if_splits)

text \<open>No actions and no mentions.\<close>

definition plain_reply :: "reply_response \<Rightarrow> bool" where
  "plain_reply r = (resp_actions r = [] \<and> reply_mentions (resp_reply r) = [])"

lemma rendered_plain: "rendered_reply kind content reason = Inr (r, reason') \<Longrightarrow> plain_reply r \<and> reason' = reason"
  by (auto simp: plain_reply_def dest: rendered_reply_Inr)

lemma render_composed_plain:
  assumes "render_composed boundary texts i = Inr (r, reason)"
  shows "plain_reply r \<and> reason \<in> {''product_list_evidence_missing'', ''composer_not_available'',
    ''composer_output_rejected'', ''knowledge_answer_composer'', ''smalltalk_composer''}"
proof -
  have composed: "plain_reply r'" if "compose_v2_reply boundary i = ComposerReturns o'" "to_reply_response o' = Inr r'" for o' r'
    using compose_returns [OF that(1)] that(2)
    by (auto simp: to_reply_response_def plain_reply_def composer_output_admitted_def Let_def
        dest!: validate_reply_response_Inr)
  from assms show ?thesis
    by (auto simp: render_composed_def Let_def res_bind_Inr_iff dest: rendered_plain composed
        split: if_splits composer_outcome.splits)
qed

lemma handoff_reply_Inr:
  assumes "handoff_reply texts request groundings = Inr (r, reason)"
  shows "plain_reply r \<and> reason \<in> {''direct_human_handoff'', ''sales_mention_unavailable''}
    \<or> vi_scene (kr_identity request) = SceneGroup \<and> resp_actions r = [] \<and> reason = ''handoff_requested''
      \<and> map mention_type_of (reply_mentions (resp_reply r)) = [Mention_sales]
      \<and> (\<exists>g\<in>set groundings. rst_availability (ubf_sales_mention (ug_business_facts g)) = Available)"
proof (cases "vi_scene (kr_identity request) = SceneDirect
    \<or> \<not> list_ex (\<lambda>g. rst_availability (ubf_sales_mention (ug_business_facts g)) = Available) groundings")
  case True
  with assms show ?thesis
    unfolding handoff_reply_def by (auto dest: rendered_plain split: if_splits)
next
  case False
  then have "vi_scene (kr_identity request) = SceneGroup" by (cases "vi_scene (kr_identity request)") auto
  moreover from False assms have "validate_reply_response \<lparr>resp_id = [],
      resp_reply = \<lparr>reply_kind_of = Reply_human_handoff, reply_text = rtx_sales_handoff texts,
        reply_mentions = [\<lparr>mention_type_of = Mention_sales, mention_reason = Some ''handoff_requested''\<rparr>]\<rparr>,
      resp_actions = []\<rparr> = Inr r" "reason = ''handoff_requested''"
    unfolding handoff_reply_def by (auto simp: res_bind_Inr_iff)
  from validate_reply_response_Inr [OF this(1)] this(2) have "resp_actions r = []" "reason = ''handoff_requested''"
    "map mention_type_of (reply_mentions (resp_reply r)) = [Mention_sales]" by simp_all
  ultimately show ?thesis using False by (simp add: list_ex_iff)
qed

lemma action_reply_Inr:
  assumes "action_reply texts plan groundings = Inr (r, reason)"
  shows "resp_actions r = concat (map unit_actions (zip (ep_units plan) groundings))
    \<and> reply_mentions (resp_reply r) = []
    \<and> reason = (if resp_actions r = [] then ''action_evidence_missing'' else ''action_ready'')"
  using assms
  by (auto simp: action_reply_def Let_def res_bind_Inr_iff plain_reply_def split: if_splits
      dest!: validate_reply_response_Inr rendered_plain)

lemma reason_code_Inr: "reason_code v = Inr c \<Longrightarrow> c \<in> set registered_reason_codes"
  by (auto simp: reason_code_def split: if_splits)

lemma unable_reply_Inr:
  assumes "unable_reply texts request plan = Inr (r, reason)"
  shows "plain_reply r \<and> reason \<in> set registered_reason_codes"
proof -
  have "''insufficient_evidence'' \<in> set registered_reason_codes" by code_simp
  with assms show ?thesis
    by (auto simp: unable_reply_def res_bind_Inr_iff dest!: rendered_plain reason_code_Inr split: list.splits)
qed

lemma rendered_reasons:
  "set [''product_list_evidence_missing'', ''composer_not_available'', ''composer_output_rejected'',
     ''knowledge_answer_composer'', ''smalltalk_composer'', ''direct_human_handoff'', ''sales_mention_unavailable'',
     ''handoff_requested'', ''action_evidence_missing'', ''action_ready'', ''ambiguous_request'', ''no_reply'']
   \<subseteq> set registered_reason_codes"
  by code_simp

lemma compliance_reason_registered: "compliance_reason_str c \<in> set registered_reason_codes"
  by (cases c) (simp_all add: registered_reason_codes_def)

lemma render_v2_response_Inr:
  assumes "render_v2_response boundary texts i = Inr (r, reason)"
  shows "set (resp_actions r) \<subseteq> set (concat (map unit_actions (zip (ep_units (ci_plan i)) (ci_groundings i))))
    \<and> (reply_mentions (resp_reply r) \<noteq> [] \<longrightarrow> vi_scene (kr_identity (ci_request i)) = SceneGroup
        \<and> map mention_type_of (reply_mentions (resp_reply r)) = [Mention_sales]
        \<and> (\<exists>g\<in>set (ci_groundings i). rst_availability (ubf_sales_mention (ug_business_facts g)) = Available))
    \<and> reason \<in> set registered_reason_codes"
proof -
  note registered = rendered_reasons [unfolded list.set insert_subset]
  have plain: ?thesis if "plain_reply r" "reason \<in> set registered_reason_codes"
    using that by (simp add: plain_reply_def)
  have fixed: ?thesis if "rendered_reply k content c = Inr (r, reason)" "c \<in> set registered_reason_codes" for k content c
    using plain rendered_plain [OF that(1)] that(2) by simp
  show ?thesis
  proof (cases "ep_response_mode (ci_plan i)")
    case Mode_action
    with assms have "action_reply texts (ci_plan i) (ci_groundings i) = Inr (r, reason)"
      by (simp add: render_v2_response_def)
    from action_reply_Inr [OF this] registered show ?thesis by (auto split: if_splits)
  next
    case Mode_handoff
    with assms have "handoff_reply texts (ci_request i) (ci_groundings i) = Inr (r, reason)"
      by (simp add: render_v2_response_def)
    from handoff_reply_Inr [OF this] registered show ?thesis by (auto simp: plain_reply_def)
  next
    case Mode_unable
    with assms have "unable_reply texts (ci_request i) (ci_plan i) = Inr (r, reason)"
      by (simp add: render_v2_response_def)
    from unable_reply_Inr [OF this] plain show ?thesis by blast
  next
    case Mode_knowledge_answer
    with assms have "render_composed boundary texts i = Inr (r, reason)" by (simp add: render_v2_response_def)
    from render_composed_plain [OF this] registered plain show ?thesis by auto
  next
    case Mode_smalltalk
    with assms have "render_composed boundary texts i = Inr (r, reason)" by (simp add: render_v2_response_def)
    from render_composed_plain [OF this] registered plain show ?thesis by auto
  next
    case Mode_refusal
    with assms obtain k content where "rendered_reply k content (compliance_reason_str (cd_reason_code (ep_compliance (ci_plan i)))) = Inr (r, reason)"
      by (auto simp: render_v2_response_def Let_def)
    then show ?thesis by (rule fixed) (use registered compliance_reason_registered in simp)
  next
    case Mode_clarification
    with assms obtain k content where "rendered_reply k content ''ambiguous_request'' = Inr (r, reason)"
      by (auto simp: render_v2_response_def Let_def)
    then show ?thesis by (rule fixed) (use registered compliance_reason_registered in simp)
  next
    case Mode_no_reply
    with assms obtain k content where "rendered_reply k content ''no_reply'' = Inr (r, reason)"
      by (auto simp: render_v2_response_def Let_def)
    then show ?thesis by (rule fixed) (use registered compliance_reason_registered in simp)
  qed
qed

lemma ensure_response_ids_actions:
  assumes "a \<in> set (resp_actions (ensure_response_ids uuid r))"
  shows "\<exists>a0\<in>set (resp_actions r). \<exists>i. a = with_action_id a0 i"
proof -
  from assms obtain k a0 where k: "(k, a0) \<in> set (enumerate 1 (resp_actions r))" "a = ensure_action_id k a0"
    by (auto simp: ensure_response_ids_def)
  from k(1) have "a0 \<in> set (resp_actions r)" by (auto simp: enumerate_eq_zip dest: set_zip_rightD)
  with k(2) show ?thesis unfolding ensure_action_id_def by blast
qed

lemma with_action_id_bound [simp]:
  "outbound_of (with_action_id a i) = outbound_of a" "action_bound bs (with_action_id a i) = action_bound bs a"
proof -
  show o: "outbound_of (with_action_id a i) = outbound_of a" by (cases a) simp_all
  have "oa_report_date (with_action_id a i) = oa_report_date a" by (cases a) simp_all
  with o show "action_bound bs (with_action_id a i) = action_bound bs a" by (simp add: action_bound_def)
qed

section \<open>A reply stays within its authority\<close>

text \<open>What an attempt that succeeds did: it executed a plan, kept or replaced it, and rendered it.\<close>

lemma built_candidate:
  assumes "build_candidate_from_plan_v2 rt uuid r policy auth plan recall refetch = Inr at'"
  obtains ev rendered where
    "execute_v2 (ar_sha rt) (ar_executor rt) r plan policy auth refetch = Inr ev"
    "er_preflight (at_evidence at') = er_preflight ev" "er_facts (at_evidence at') = er_facts ev"
    "er_bindings (at_evidence at') = er_bindings ev"
    "ground_execution_plan_v2 (at_plan at') (pm_core policy) (er_facts ev) (er_bindings ev) None
       = Inr (er_groundings (at_evidence at'))"
    "render_v2_response (ar_composer rt) (ar_texts rt)
       (render_source r policy auth (at_plan at') (at_evidence at') [] None) = Inr (rendered, at_reason_code at')"
    "at_response at' = ensure_response_ids uuid rendered"
    "at_issues at' = validate_v2_reply r (pm_core policy) (at_plan at') (at_response at')"
proof -
  from assms obtain ev replaced where ev: "execute_v2 (ar_sha rt) (ar_executor rt) r plan policy auth refetch = Inr ev"
    and replaced: "material_pack_action_resolution_plan rt plan (er_preflight ev) policy auth = Inr replaced"
    and rest: "res_bind (case replaced of None \<Rightarrow> Inr (plan, ev)
            | Some p \<Rightarrow> res_bind (regrounded (pm_core policy) p ev) (\<lambda>e. Inr (p, e))) (\<lambda>(plan, evidence).
        res_bind (render_v2_response (ar_composer rt) (ar_texts rt)
            (render_source r policy auth plan evidence [] None)) (\<lambda>(response, reason).
          let response = ensure_response_ids uuid response in
          Inr \<lparr>at_plan = plan, at_evidence = evidence, at_response = response,
               at_issues = validate_v2_reply r (pm_core policy) plan response,
               at_reason_code = reason, at_recall_state = recall\<rparr>)) = Inr at'"
    unfolding build_candidate_from_plan_v2_def by (auto simp: res_bind_Inr_iff split: if_splits)
  from rest obtain p e resp where pe: "(case replaced of None \<Rightarrow> Inr (plan, ev)
            | Some p \<Rightarrow> res_bind (regrounded (pm_core policy) p ev) (\<lambda>e. Inr (p, e))) = Inr (p, e)"
    and render: "render_v2_response (ar_composer rt) (ar_texts rt) (render_source r policy auth p e [] None)
        = Inr (resp, at_reason_code at')"
    and at': "at_plan at' = p" "at_evidence at' = e" "at_response at' = ensure_response_ids uuid resp"
      "at_issues at' = validate_v2_reply r (pm_core policy) p (at_response at')"
    by (auto simp: res_bind_Inr_iff Let_def)
  have "er_preflight e = er_preflight ev \<and> er_facts e = er_facts ev \<and> er_bindings e = er_bindings ev
      \<and> ground_execution_plan_v2 p (pm_core policy) (er_facts ev) (er_bindings ev) None = Inr (er_groundings e)"
    using pe executed [OF ev] by (auto simp: regrounded_def res_bind_Inr_iff split: option.splits)
  with ev render at' that show thesis by blast
qed

lemma candidate_within:
  assumes "build_candidate_from_plan_v2 rt uuid r policy auth plan recall refetch = Inr at'"
  shows "(\<forall>a\<in>set (resp_actions (at_response at')). outbound_of a \<in> set (pac_outbound (pm_core policy))
        \<and> (\<exists>t. resolve_type_for_action (outbound_of a) = Some t
             \<and> lookup_resolved (er_preflight (at_evidence at')) t (oa_resolve_ref a))
        \<and> (\<forall>d. oa_report_date a = Some d \<longrightarrow> date_ok d))
    \<and> (reply_mentions (resp_reply (at_response at')) \<noteq> [] \<longrightarrow> vi_scene (kr_identity r) = SceneGroup
        \<and> map mention_type_of (reply_mentions (resp_reply (at_response at'))) = [Mention_sales]
        \<and> (\<exists>ref. lookup_resolved (er_preflight (at_evidence at')) Ar_sales_mention ref))
    \<and> at_reason_code at' \<in> set registered_reason_codes"
proof -
  from assms obtain ev rendered where
    ev: "execute_v2 (ar_sha rt) (ar_executor rt) r plan policy auth refetch = Inr ev"
    and same: "er_preflight (at_evidence at') = er_preflight ev" "er_bindings (at_evidence at') = er_bindings ev"
    and ground: "ground_execution_plan_v2 (at_plan at') (pm_core policy) (er_facts ev) (er_bindings ev) None
       = Inr (er_groundings (at_evidence at'))"
    and render: "render_v2_response (ar_composer rt) (ar_texts rt)
       (render_source r policy auth (at_plan at') (at_evidence at') [] None) = Inr (rendered, at_reason_code at')"
    and resp: "at_response at' = ensure_response_ids uuid rendered"
    by (rule built_candidate)
  have source: "ci_plan (render_source r policy auth p e h v) = p" "ci_groundings (render_source r policy auth p e h v) = er_groundings e"
    "ci_request (render_source r policy auth p e h v) = r" for p e h v
    by (simp_all add: render_source_def)
  note rendered = render_v2_response_Inr [OF render, unfolded source]
  have bound: "outbound_of a \<in> set (pac_outbound (pm_core policy)) \<and> action_bound (er_bindings ev) a"
    if "a \<in> set (resp_actions (at_response at'))" for a
  proof -
    from that obtain a0 i where "a0 \<in> set (resp_actions rendered)" "a = with_action_id a0 i"
      unfolding resp by (auto dest: ensure_response_ids_actions)
    moreover from this(1) rendered
    have "a0 \<in> set (concat (map unit_actions (zip (ep_units (at_plan at')) (er_groundings (at_evidence at')))))" by blast
    ultimately show ?thesis using plan_actions_bound [OF ground] by simp
  qed
  have mentions: "reply_mentions (resp_reply (at_response at')) = reply_mentions (resp_reply rendered)"
    by (simp add: resp ensure_response_ids_def)
  have sales: "\<exists>ref. lookup_resolved (er_preflight ev) Ar_sales_mention ref"
    if "g \<in> set (er_groundings (at_evidence at'))" "rst_availability (ubf_sales_mention (ug_business_facts g)) = Available" for g
    using sales_available_bound [OF ground that] sales_fact_resolved [OF ev] by blast
  have "\<forall>a\<in>set (resp_actions (at_response at')). outbound_of a \<in> set (pac_outbound (pm_core policy))
        \<and> (\<exists>t. resolve_type_for_action (outbound_of a) = Some t
             \<and> lookup_resolved (er_preflight (at_evidence at')) t (oa_resolve_ref a))
        \<and> (\<forall>d. oa_report_date a = Some d \<longrightarrow> date_ok d)"
    using bound executed [OF ev] unfolding same action_bound_def by metis
  with rendered sales show ?thesis unfolding mentions same by blast
qed

text \<open>C24 Under the policy compiled for a request, every action of a candidate reply is one the request
  grants, names the reference of a lookup of its own type that the adapter resolved in this turn, and
  carries a calendar date if it carries one; a mention is the sales mention, made in a group, with its
  lookup resolved; a direct reply has neither.\<close>

theorem reply_within_authority:
  assumes "compile_policy_authority_core_v1 sha r auth m = Inr core"
    and "from_core sha core ledger = Inr policy"
    and "build_candidate_from_plan_v2 rt uuid r policy auth plan recall refetch = Inr at'"
  shows "(\<forall>a\<in>set (resp_actions (at_response at')). outbound_of a \<in> set (outbound_actions (kr_grants r))
        \<and> (\<exists>t. resolve_type_for_action (outbound_of a) = Some t
             \<and> lookup_resolved (er_preflight (at_evidence at')) t (oa_resolve_ref a))
        \<and> (\<forall>d. oa_report_date a = Some d \<longrightarrow> date_ok d))
    \<and> (reply_mentions (resp_reply (at_response at')) \<noteq> [] \<longrightarrow> vi_scene (kr_identity r) = SceneGroup
        \<and> map mention_type_of (reply_mentions (resp_reply (at_response at'))) = [Mention_sales]
        \<and> (\<exists>ref. lookup_resolved (er_preflight (at_evidence at')) Ar_sales_mention ref))
    \<and> (pac_scene core = SceneDirect \<longrightarrow> resp_actions (at_response at') = [])"
proof -
  have core: "pm_core policy = core" using assms(2) by (rule from_core_core)
  from assms(1) have "set (pac_outbound core) \<subseteq> set (outbound_actions (kr_grants r))"
    "pac_scene core = SceneDirect \<Longrightarrow> pac_outbound core = []"
    by (auto elim!: compiled_core_inv)
  moreover have "resp_actions (at_response at') = []" if "pac_outbound core = []"
    using candidate_within [OF assms(3)] that unfolding core
    by (metis empty_iff empty_set list.set_sel(1))
  ultimately show ?thesis using candidate_within [OF assms(3)] unfolding core by blast
qed

section \<open>The fallback of a material-pack send\<close>

fun scope_product_ids :: "execution_scope \<Rightarrow> pystr list" where
  "scope_product_ids (DistributionExecutionDomainScopeV2 _ _ _ ids _) = ids"
| "scope_product_ids UnscopedExecutionDomainScopeV2 = []"

lemma execution_scope_no_products: "execution_scope_of None auth opt = Inr s \<Longrightarrow> scope_product_ids s = []"
  by (auto simp: execution_scope_of_def Let_def res_bind_Inr_iff split: business_scope.splits)

lemma finalized_unit_scope:
  assumes "finalize_execution_unit_v2 u None auth core = Inr eu"
  shows "scope_product_ids (eu_scope eu) = []"
  using assms
  by (auto simp: finalize_execution_unit_v2_def res_bind_Inr_iff Let_def execution_unit_of_def
      dest: execution_scope_no_products dest!: check_unit_Inr split: option.splits if_splits)

lemma resolution_plan_scope:
  assumes "material_pack_action_resolution_plan rt plan items policy auth = Inr (Some p)" "u \<in> set (ep_units p)"
  shows "scope_product_ids (eu_scope u) = []"
proof -
  from assms(1) obtain d where "finalize_execution_plan_v2 (ar_sha rt) (ar_float_text rt) (FromDeterministic d)
      policy auth Origin_deterministic None = Inr p"
    unfolding material_pack_action_resolution_plan_def
    by (auto simp: Let_def res_bind_Inr_iff split: if_splits option.splits)
  then obtain parts where "source_parts auth (pm_core policy) None (FromDeterministic d) = Inr parts"
    "ep_units p = pp_units parts" by (rule finalized_plan)
  with assms(2) obtain du where "finalize_execution_unit_v2 du None auth (pm_core policy) = Inr u"
    by (auto simp: res_bind_Inr_iff finalize_deterministic_unit_v2_def dest!: map_res_mem)
  then show ?thesis by (rule finalized_unit_scope)
qed

lemma admitted_same_products:
  assumes "canonical_fact_admitted_for_unit_v1 f u c epoch" "cf_scope f = canonical_scope_for_unit_v1 u0 art"
  shows "scope_product_ids (eu_scope u) = scope_product_ids (eu_scope u0)"
  using assms
  by (cases "eu_scope u"; cases "eu_scope u0")
    (auto simp: canonical_fact_admitted_for_unit_v1_def canonical_scope_matches_unit_v1_def canonical_scope_for_unit_v1_def)

text \<open>C35 When the material pack of a send is not found and the plan is replaced by the fallback plan, the
  reply never mentions sales if the original plan names products in every unit, whatever the sales lookup found.
  The sales fact carries the products of the unit that asked for it, the fallback unit names none.\<close>

theorem fallback_loses_sales_handoff:
  assumes "build_candidate_from_plan_v2 rt uuid r policy auth plan recall refetch = Inr at'"
    and "at_plan at' \<noteq> plan"
    and "\<forall>u\<in>set (ep_units plan). scope_product_ids (eu_scope u) \<noteq> []"
  shows "reply_mentions (resp_reply (at_response at')) = []"
proof -
  from assms(1,2) obtain ev p e rendered where
    ev: "execute_v2 (ar_sha rt) (ar_executor rt) r plan policy auth refetch = Inr ev"
    and p: "material_pack_action_resolution_plan rt plan (er_preflight ev) policy auth = Inr (Some p)"
    and e: "regrounded (pm_core policy) p ev = Inr e"
    and render: "render_v2_response (ar_composer rt) (ar_texts rt) (render_source r policy auth p e [] None)
        = Inr (rendered, at_reason_code at')"
    and at': "at_response at' = ensure_response_ids uuid rendered"
    unfolding build_candidate_from_plan_v2_def
    by (auto simp: res_bind_Inr_iff Let_def split: if_splits option.splits)
  from e have ground: "ground_execution_plan_v2 p (pm_core policy) (er_facts ev) (er_bindings ev) None = Inr (er_groundings e)"
    by (auto simp: regrounded_def res_bind_Inr_iff)
  have "rst_availability (ubf_sales_mention (ug_business_facts g)) \<noteq> Available" if g: "g \<in> set (er_groundings e)" for g
  proof
    assume "rst_availability (ubf_sales_mention (ug_business_facts g)) = Available"
    from sales_available_bound [OF ground g this] obtain f u c where f: "f \<in> set (er_facts ev)" "u \<in> set (ep_units p)"
      "cf_fact_type f = Fact_sales_mention_resolvable" "canonical_fact_admitted_for_unit_v1 f u c None" by blast
    from sales_fact_resolved [OF ev f(1,3)] obtain u0 where u0: "u0 \<in> set (ep_units plan)"
      "cf_scope f = canonical_scope_for_unit_v1 u0 Art_adapter_context" by blast
    from admitted_same_products [OF f(4) u0(2)] resolution_plan_scope [OF p f(2)]
    have "scope_product_ids (eu_scope u0) = []" by simp
    with assms(3) u0(1) show False by blast
  qed
  with render_v2_response_Inr [OF render] have "reply_mentions (resp_reply rendered) = []"
    by (auto simp: render_source_def)
  with at' show ?thesis by (simp add: ensure_response_ids_def)
qed

text \<open>Every candidate has a reason code the audit accepts, and in an action plan it is
  \<open>action_ready\<close> exactly when the reply has an action.\<close>

theorem reason_code_registered:
  assumes "build_candidate_from_plan_v2 rt uuid r policy auth plan recall refetch = Inr at'"
  shows "at_reason_code at' \<in> set registered_reason_codes
    \<and> (ep_response_mode (at_plan at') = Mode_action \<longrightarrow>
        (at_reason_code at' = ''action_ready'' \<longleftrightarrow> resp_actions (at_response at') \<noteq> []))"
proof -
  from assms obtain rendered where
    render: "render_v2_response (ar_composer rt) (ar_texts rt)
       (render_source r policy auth (at_plan at') (at_evidence at') [] None) = Inr (rendered, at_reason_code at')"
    and resp: "at_response at' = ensure_response_ids uuid rendered"
    by (rule built_candidate)
  have "resp_actions (at_response at') = [] \<longleftrightarrow> resp_actions rendered = []"
    by (cases "resp_actions rendered") (simp_all add: resp ensure_response_ids_def)
  moreover have "at_reason_code at' = (if resp_actions rendered = [] then ''action_evidence_missing'' else ''action_ready'')"
    if "ep_response_mode (at_plan at') = Mode_action"
    using render that by (auto simp: render_v2_response_def render_source_def dest: action_reply_Inr)
  ultimately show ?thesis using candidate_within [OF assms] by auto
qed

section \<open>Identifiers and markers\<close>

lemma remove_all_skip: "hd needle \<notin> set xs \<Longrightarrow> needle \<noteq> [] \<Longrightarrow> remove_all needle (xs @ ys) = xs @ remove_all needle ys"
  by (induction xs) (auto simp: startswith_def neq_Nil_conv)

declare image_markers_from.simps(2) [simp del]

lemma image_markers_skip: "c \<noteq> CHR ''%'' \<Longrightarrow> image_markers_from out (c # cs) = image_markers_from out cs"
  by (simp add: image_markers_from.simps(2) image_marker_at_def startswith_def Let_def)

lemma image_markers_skips: "CHR ''%'' \<notin> set xs \<Longrightarrow> image_markers_from out (xs @ ys) = image_markers_from out ys"
proof (induction xs)
  case (Cons c xs)
  then have "c \<noteq> CHR ''%''" by auto
  with Cons show ?case by (simp add: image_markers_skip)
qed simp

lemma marker_char_plain: "list_all marker_char n \<Longrightarrow> CHR ''%'' \<notin> set n \<and> CHR ''*'' \<notin> set n \<and> CHR 0x60 \<notin> set n"
proof -
  have "\<not> marker_char CHR ''%''" "\<not> marker_char CHR ''*''" "\<not> marker_char CHR 0x60" by code_simp+
  then show "list_all marker_char n \<Longrightarrow> ?thesis" by (auto simp: list_all_iff)
qed

definition starred :: "pystr \<Rightarrow> pystr" where
  "starred n = ''%%'' @ n @ ''**.png%%''"

lemma sanitize_starred:
  assumes "list_all marker_char n"
  shows "sanitize_plain_text (starred n) = ''%%'' @ n @ ''.png%%''"
proof -
  from marker_char_plain [OF assms] have n: "CHR ''*'' \<notin> set n" "CHR 0x60 \<notin> set n" by auto
  have "remove_all ''**'' ((''%%'' @ n) @ ''**.png%%'') = (''%%'' @ n) @ remove_all ''**'' ''**.png%%''"
    using n by (intro remove_all_skip) auto
  moreover have "remove_all ''**'' ''**.png%%'' = ''.png%%''" by code_simp
  moreover have "remove_all ''```'' ((''%%'' @ n @ ''.png%%'') @ []) = (''%%'' @ n @ ''.png%%'') @ remove_all ''```'' []"
    using n by (intro remove_all_skip) auto
  ultimately show ?thesis by (simp add: sanitize_plain_text_def starred_def)
qed

lemma takeWhile_stop: "list_all P xs \<Longrightarrow> \<not> P y \<Longrightarrow> takeWhile P (xs @ y # ys) = xs"
  by (induction xs) auto

lemma starred_no_marker:
  assumes "list_all marker_char n" "n \<noteq> []"
  shows "image_marker_filenames (starred n) = []"
proof -
  have stop: "\<not> marker_char CHR ''*''" by code_simp
  from assms(2) obtain c cs where n: "n = c # cs" by (cases n) auto
  with marker_char_plain [OF assms(1)] have c: "c \<noteq> CHR ''%''" by auto
  have "takeWhile marker_char (n @ CHR ''*'' # ''*.png%%'') = n"
    using assms(1) stop by (rule takeWhile_stop)
  then have "image_marker_at (starred n) = None"
    by (simp add: image_marker_at_def starred_def startswith_def Let_def)
  moreover have "image_marker_at (CHR ''%'' # n @ ''**.png%%'') = None"
    using n c by (simp add: image_marker_at_def startswith_def Let_def)
  ultimately have "image_marker_filenames (starred n) = image_markers_from [] ((n @ ''**.png'') @ ''%%'')"
    by (simp add: image_marker_filenames_def starred_def image_markers_from.simps(2))
  also have "\<dots> = image_markers_from [] ''%%''"
    using marker_char_plain [OF assms(1)] by (intro image_markers_skips) auto
  also have "\<dots> = []" by code_simp
  finally show ?thesis .
qed

lemma unstarred_marker:
  assumes "list_all marker_char n" "n \<noteq> []"
  shows "image_marker_filenames (''%%'' @ n @ ''.png%%'') = [n @ ''.png'']"
proof -
  have "\<not> marker_char CHR ''%''" and "list_all marker_char ''.png''" by code_simp+
  with assms(1) have "takeWhile marker_char ((n @ ''.png'') @ CHR ''%'' # ''%'') = n @ ''.png''"
    by (intro takeWhile_stop) auto
  with assms(2) have "image_marker_at (''%%'' @ n @ ''.png%%'') = Some (n @ ''.png'', [])"
    by (cases n) (simp_all add: image_marker_at_def startswith_def Let_def)
  then show ?thesis
    by (simp add: image_marker_filenames_def image_markers_from.simps(2) del: append_Cons) (simp add: image_markers_from.simps(2))
qed

text \<open>A composer output that answers with a text and cites nothing.\<close>

definition bare_answer :: "pystr \<Rightarrow> composer_output" where
  "bare_answer content =
     \<lparr>co_out_response_id = [], co_out_mode = Compose_answer, co_out_claims = [], co_out_evidence_ids = [],
      co_out_missing_inputs = [],
      co_out_reply = \<lparr>reply_kind_of = Reply_answer, reply_text = content, reply_mentions = []\<rparr>, co_out_actions = []\<rparr>"

text \<open>C36 The composer boundary admits an image marker only for bound media, but it looks at the text
  before \<open>ensure_response_ids\<close> strips the Markdown stars: a group reply can show a marker for any file,
  without a media binding, and the final validation does not object.\<close>

theorem stripped_text_shows_unbound_marker:
  assumes "list_all marker_char n" "n \<noteq> []" "length n \<le> 3000"
    and "vi_scene (kr_identity request) = SceneGroup" "ep_response_mode plan \<noteq> Mode_action"
    and "ci_plan i = plan"
  shows "composer_output_admitted catalog i (bare_answer (starred n))
    \<and> (case to_reply_response (bare_answer (starred n)) of Inl _ \<Rightarrow> False | Inr r \<Rightarrow>
         image_marker_filenames (reply_text (resp_reply (ensure_response_ids uuid r))) = [n @ ''.png'']
         \<and> validate_v2_reply request core plan (ensure_response_ids uuid r) = [])"
proof -
  let ?r = "\<lparr>resp_id = [], resp_reply = co_out_reply (bare_answer (starred n)), resp_actions = []\<rparr>"
  have admitted: "composer_output_admitted catalog i (bare_answer (starred n))"
    using assms(3) starred_no_marker [OF assms(1,2)]
    by (simp add: composer_output_admitted_def Let_def bare_answer_def allowed_reply_kinds_def max_reply_chars_def
        starred_def [THEN arg_cong [where f = length]])
  have run: "to_reply_response (bare_answer (starred n)) = Inr ?r"
    by (simp add: to_reply_response_def validate_reply_response_def validate_no_reply_shape_def bare_answer_def)
  have r: "reply_text (resp_reply (ensure_response_ids uuid ?r)) = ''%%'' @ n @ ''.png%%''"
    "resp_actions (ensure_response_ids uuid ?r) = []" "reply_mentions (resp_reply (ensure_response_ids uuid ?r)) = []"
    by (simp_all add: ensure_response_ids_def bare_answer_def sanitize_starred [OF assms(1)])
  have "validate_v2_reply request core plan (ensure_response_ids uuid ?r) = []"
    unfolding validate_v2_reply_def Let_def r using assms(4,5) by simp
  with admitted show ?thesis
    unfolding run sum.case r using unstarred_marker [OF assms(1,2)] by blast
qed

end
