(* ===== verification/Attempt_Demo.thy ===== *)
theory Attempt_Demo
  imports Attempt_Theorems
begin

text \<open>
  One request run from its grants to its candidate reply: the concrete values at which the properties of
  \<open>Attempt_Theorems\<close> are applied.
\<close>

definition demo_request ::
  "scene \<Rightarrow> read_capability list \<Rightarrow> outbound_action_type list \<Rightarrow> available_artifact_v2 list \<Rightarrow> kernel_reply_request" where
  "demo_request scene reads sends artifacts =
     (policy_demo_request scene)
       \<lparr>kr_business_scope := (case scene of SceneDirect \<Rightarrow> UnscopedScopeV1
          | SceneGroup \<Rightarrow> DistributionScopeV1 ''bank'' Channel_bank artifacts),
        kr_grants := \<lparr>read_capabilities = reads, outbound_actions = sends, mention_types = [Mention_sales]\<rparr>\<rparr>"

definition demo_result :: "adapter_resolve_type \<Rightarrow> adapter_resolve_status \<Rightarrow> adapter_resolve_result" where
  "demo_result t status =
     \<lparr>arr_resolve_type = t, arr_status = status, arr_display_name = ''n'', arr_reason_code = [],
      arr_candidates = [], arr_channel_type = Channel_bank, arr_available_artifacts = [], arr_resolved_at = 5,
      arr_detail = None, arr_resolve_ref = (if status = St_resolved then Some ''ref-1'' else None),
      arr_material_pack_option = None,
      arr_period = (if t \<in> {Ar_weekly_report, Ar_monthly_report} then Some ''2024-W01'' else None),
      arr_report_date = (if t \<in> {Ar_weekly_report, Ar_monthly_report} then Some ''2024-01-05'' else None),
      arr_period_start = None, arr_period_end = None, arr_period_label = None, arr_source_trade_date = None,
      arr_scope_complete = None, arr_expected_product_count = None, arr_generated_product_count = None,
      arr_missing_product_count = None, arr_report_sections = []\<rparr>"

definition demo_texts :: reply_texts where
  "demo_texts = \<lparr>rtx_unable = ''u'', rtx_clarify_material = ''m'', rtx_clarify_general = ''g'',
     rtx_direct_handoff = ''d'', rtx_sales_handoff = ''s'', rtx_refusal = (\<lambda>_. ''r'')\<rparr>"

definition empty_catalog :: knowledge_catalog where
  "empty_catalog = \<lparr>kct_entries = [], kct_assets = [], kct_question_label = [], kct_answer_label = []\<rparr>"

definition demo_runtime :: "adapter_resolve_result list \<Rightarrow> attempt_runtime" where
  "demo_runtime results =
     \<lparr>ar_sha = flat_sha, ar_float_text = (\<lambda>_. ''1.0''),
      ar_executor = \<lparr>ex_adapter = \<lparr>adp_ready = (\<lambda>_. None), adp_resolve_many = (\<lambda>_. Inr results),
          adp_unspecified_name = ''x''\<rparr>,
        ex_report_scope = None, ex_preflight_report_scope = None, ex_knowledge = None\<rparr>,
      ar_composer = \<lparr>cb_compose = None, cb_projection = (\<lambda>_. None), cb_catalog = empty_catalog\<rparr>,
      ar_texts = demo_texts\<rparr>"

text \<open>A planner unit that sends with products named.\<close>

definition demo_unit :: "pystr \<Rightarrow> plan_domain_scope \<Rightarrow> plan_unit" where
  "demo_unit capability scope =
     \<lparr>pu_unit_id = ''u1'', pu_selected_capability_id = capability, pu_domain_scope = scope,
      pu_required_artifacts = [], pu_allowed_artifacts = [], pu_forbidden_artifacts = [], pu_required_tools = [],
      pu_answerability = Ans_send, pu_output_schema_ref = ''s'', pu_output_schema = None,
      pu_evidence_contract_ref = None, pu_evidence_contract = None, pu_steps = [], pu_acceptance_criteria = [],
      pu_abstention_cases = [], pu_risk_flags = []\<rparr>"

definition demo_spec :: "pystr \<Rightarrow> pystr list \<Rightarrow> business_scope_authority \<Rightarrow> plan_source" where
  "demo_spec capability products auth =
     FromPlanSpec \<lparr>spec_plan_id = ''p1'', spec_user_intent_summary = ''send it'',
       spec_plan_units = [demo_unit capability (DistributionPlanDomainScopeV2 (bsa_ref auth) Channel_bank None products)],
       spec_risk_flags = []\<rparr>"

definition demo_plan ::
  "kernel_reply_request \<Rightarrow> (business_scope_authority \<Rightarrow> plan_source)
   \<Rightarrow> (business_scope_authority \<times> policy_authority_core \<times> policy_manifest \<times> execution_plan) result" where
  "demo_plan r source =
     res_bind (business_scope_authority_v1 flat_sha (kr_business_scope r)) (\<lambda>auth.
     res_bind (compile_policy_authority_core_v1 flat_sha r auth ''off'') (\<lambda>core.
     res_bind (from_core flat_sha core no_ledger) (\<lambda>policy.
     res_bind (finalize_execution_plan_v2 flat_sha (\<lambda>_. ''1.0'') (source auth) policy auth Origin_planner (Some 1))
       (\<lambda>plan. Inr (auth, core, policy, plan)))))"

text \<open>The attempt, with what it is built from.\<close>

type_synonym demo_outcome =
  "business_scope_authority \<times> policy_authority_core \<times> policy_manifest \<times> execution_plan \<times> unit attempt_result"

definition demo_attempt ::
  "kernel_reply_request \<Rightarrow> (business_scope_authority \<Rightarrow> plan_source) \<Rightarrow> adapter_resolve_result list
   \<Rightarrow> demo_outcome result" where
  "demo_attempt r source results =
     res_bind (demo_plan r source) (\<lambda>(auth, core, policy, plan).
     res_bind (build_candidate_from_plan_v2 (demo_runtime results) ''1f'' r policy auth plan None None) (\<lambda>a.
       Inr (auth, core, policy, plan, a)))"

definition weekly_request :: kernel_reply_request where
  "weekly_request = demo_request SceneGroup [Resolve_weekly_report] [Out_weekly_report]
     [\<lparr>av_type = Artifact_weekly_report, av_options = []\<rparr>]"

definition material_request :: kernel_reply_request where
  "material_request = demo_request SceneGroup [Resolve_material_pack, Resolve_sales_mention] [Out_material_pack]
     [\<lparr>av_type = Artifact_material_pack, av_options = []\<rparr>]"

lemma demo_attempt_Inr:
  assumes "demo_attempt r source results = Inr (auth, core, policy, plan, a)"
  shows "compile_policy_authority_core_v1 flat_sha r auth ''off'' = Inr core \<and> from_core flat_sha core no_ledger = Inr policy
    \<and> build_candidate_from_plan_v2 (demo_runtime results) ''1f'' r policy auth plan None None = Inr a"
proof -
  have "ar_sha (demo_runtime results) = flat_sha" by (simp add: demo_runtime_def)
  with assms show ?thesis
    unfolding demo_attempt_def demo_plan_def by (auto simp: res_bind_Inr_iff)
qed

lemma demo_obtain:
  assumes "case demo_attempt r source results of Inl _ \<Rightarrow> False | Inr (_, core, _, plan, a) \<Rightarrow> P core plan a"
  obtains auth core policy plan a where "P core plan a"
    "demo_attempt r source results = Inr (auth, core, policy, plan, a)"
  using assms by (auto split: sum.splits prod.splits)

definition weekly_results :: "adapter_resolve_result list" where
  "weekly_results = [demo_result Ar_weekly_report St_resolved]"

definition missing_results :: "adapter_resolve_result list" where
  "missing_results = [demo_result Ar_material_pack St_missing, demo_result Ar_sales_mention St_resolved]"

lemma weekly_run:
  "case demo_attempt weekly_request (demo_spec ''weekly_report.send'' [''p'']) weekly_results of Inl _ \<Rightarrow> False
   | Inr (_, core, _, plan, a) \<Rightarrow>
       resp_actions (at_response a) = [SendWeeklyReportAction ''act-1'' ''ref-1'' ''2024-W01'' ''2024-01-05'']
       \<and> ep_response_mode (at_plan a) = Mode_action"
  by code_simp

lemma missing_run:
  "case demo_attempt material_request (demo_spec ''material_pack.send'' [''p'']) missing_results of Inl _ \<Rightarrow> False
   | Inr (_, core, _, plan, a) \<Rightarrow>
       ep_origin (at_plan a) \<noteq> ep_origin plan \<and> list_all (\<lambda>u. scope_product_ids (eu_scope u) \<noteq> []) (ep_units plan)
       \<and> at_reason_code a = ''sales_mention_unavailable''"
  by code_simp

theorem reply_within_authority_witness:
  "\<exists>a :: unit attempt_result. \<exists>x\<in>set (resp_actions (at_response a)).
     outbound_of x \<in> set (outbound_actions (kr_grants weekly_request))
     \<and> lookup_resolved (er_preflight (at_evidence a)) Ar_weekly_report (oa_resolve_ref x)
     \<and> oa_report_date x = Some ''2024-01-05'' \<and> date_ok ''2024-01-05''"
proof -
  obtain auth core policy plan a where
    a: "resp_actions (at_response a) = [SendWeeklyReportAction ''act-1'' ''ref-1'' ''2024-W01'' ''2024-01-05'']
       \<and> ep_response_mode (at_plan a) = Mode_action"
    and run: "demo_attempt weekly_request (demo_spec ''weekly_report.send'' [''p'']) weekly_results
      = Inr (auth, core, policy, plan, a)"
    by (rule demo_obtain [OF weekly_run])
  from demo_attempt_Inr [OF run] have
    "compile_policy_authority_core_v1 flat_sha weekly_request auth ''off'' = Inr core"
    "from_core flat_sha core no_ledger = Inr policy"
    "build_candidate_from_plan_v2 (demo_runtime weekly_results) ''1f'' weekly_request policy auth plan None None = Inr a"
    by blast+
  from reply_within_authority [OF this] a show ?thesis
    by (intro exI [of _ a]) (simp add: resolve_type_for_action_simps)
qed

theorem fallback_loses_sales_handoff_witness:
  "\<exists>a :: unit attempt_result. at_reason_code a = ''sales_mention_unavailable''
     \<and> reply_mentions (resp_reply (at_response a)) = []"
proof -
  obtain auth core policy plan a where
    a: "ep_origin (at_plan a) \<noteq> ep_origin plan \<and> list_all (\<lambda>u. scope_product_ids (eu_scope u) \<noteq> []) (ep_units plan)
       \<and> at_reason_code a = ''sales_mention_unavailable''"
    and run: "demo_attempt material_request (demo_spec ''material_pack.send'' [''p'']) missing_results
      = Inr (auth, core, policy, plan, a)"
    by (rule demo_obtain [OF missing_run])
  from a have "at_plan a \<noteq> plan" by auto
  with demo_attempt_Inr [OF run] fallback_loses_sales_handoff [where at' = a] a
  have "reply_mentions (resp_reply (at_response a)) = []" unfolding list_all_iff by blast
  with a show ?thesis by blast
qed

theorem reason_code_registered_witness:
  "\<exists>a :: unit attempt_result. at_reason_code a = ''action_ready'' \<and> ''action_ready'' \<in> set registered_reason_codes"
proof -
  obtain auth core policy plan a where
    a: "resp_actions (at_response a) = [SendWeeklyReportAction ''act-1'' ''ref-1'' ''2024-W01'' ''2024-01-05'']
       \<and> ep_response_mode (at_plan a) = Mode_action"
    and run: "demo_attempt weekly_request (demo_spec ''weekly_report.send'' [''p'']) weekly_results
      = Inr (auth, core, policy, plan, a)"
    by (rule demo_obtain [OF weekly_run])
  from demo_attempt_Inr [OF run] have
    "build_candidate_from_plan_v2 (demo_runtime weekly_results) ''1f'' weekly_request policy auth plan None None = Inr a"
    by blast
  from reason_code_registered [OF this] a show ?thesis by (intro exI [of _ a]) auto
qed

definition smalltalk_invocation ::
  "policy_manifest \<Rightarrow> business_scope_authority \<Rightarrow> execution_plan \<Rightarrow> composer_invocation" where
  "smalltalk_invocation policy auth plan =
     \<lparr>ci_request = weekly_request, ci_policy = policy, ci_authority = auth, ci_plan = plan, ci_preflight = [],
      ci_groundings = [], ci_media_bindings = [], ci_history = [], ci_retry_overlay = None\<rparr>"

theorem stripped_text_shows_unbound_marker_witness:
  "\<forall>policy auth (plan :: execution_plan). image_marker_filenames (starred ''a'') = [] \<and>
     composer_output_admitted empty_catalog (smalltalk_invocation policy auth (plan\<lparr>ep_response_mode := Mode_smalltalk\<rparr>)) (bare_answer (starred ''a''))"
proof (intro allI)
  fix policy auth and plan :: execution_plan
  have "image_marker_filenames (starred ''a'') = []" by code_simp
  moreover have "list_all marker_char ''a''" by code_simp
  moreover have "vi_scene (kr_identity weekly_request) = SceneGroup" by code_simp
  ultimately show "image_marker_filenames (starred ''a'') = [] \<and>
     composer_output_admitted empty_catalog (smalltalk_invocation policy auth (plan\<lparr>ep_response_mode := Mode_smalltalk\<rparr>)) (bare_answer (starred ''a''))"
    using stripped_text_shows_unbound_marker [where n = "''a''" and request = weekly_request
        and plan = "plan\<lparr>ep_response_mode := Mode_smalltalk\<rparr>" and catalog = empty_catalog
        and i = "smalltalk_invocation policy auth (plan\<lparr>ep_response_mode := Mode_smalltalk\<rparr>)"]
    by (simp add: smalltalk_invocation_def)
qed

end
