(* ===== verification/Recall_Theorems.thy ===== *)
theory Recall_Theorems
  imports Recall_Flow Plan_Theorems
begin

text \<open>
  What a turn may rely on after recall: the outcome is bounded, sorted and without duplicates, a
  shortcut comes with a plan the policy admits; the production collector never takes the shortcut, and
  five long questions make recall raise.
\<close>

section \<open>The merge\<close>

lemma merge_step_distinct:
  "distinct (map candidate_key merged) \<Longrightarrow> distinct (map candidate_key (merge_step merged c))"
  by (auto simp: merge_step_def distinct_dict_put split: option.splits)

lemma merged_distinct:
  "distinct (map candidate_key merged) \<Longrightarrow> distinct (map candidate_key (foldl merge_step merged cs))"
  by (induction cs arbitrary: merged) (simp_all add: merge_step_distinct)

lemma merge_step_set: "set (merge_step merged c) \<subseteq> insert c (set merged)"
  by (auto simp: merge_step_def split: option.splits dest!: set_dict_put [THEN subsetD])

lemma merged_set: "set (foldl merge_step merged cs) \<subseteq> set merged \<union> set cs"
proof (induction cs arbitrary: merged)
  case (Cons c cs)
  from Cons [of "merge_step merged c"] merge_step_set [of merged c] show ?case by auto
qed simp

lemma merge_recall_candidates_ok:
  "length (merge_recall_candidates s d) \<le> 5"
  "sorted (map merge_rank (merge_recall_candidates s d))"
  "distinct (map candidate_key (merge_recall_candidates s d))"
  "set (merge_recall_candidates s d) \<subseteq> set s \<union> set d"
proof -
  let ?m = "foldl merge_step [] (s @ d)"
  show "length (merge_recall_candidates s d) \<le> 5" by (simp add: merge_recall_candidates_def)
  show "sorted (map merge_rank (merge_recall_candidates s d))"
    by (simp add: merge_recall_candidates_def take_map [symmetric] sorted_wrt_take)
  have "distinct (map candidate_key ?m)" by (rule merged_distinct) simp
  moreover have "mset (map candidate_key (sort_key merge_rank ?m)) = mset (map candidate_key ?m)"
    by simp
  ultimately have "distinct (map candidate_key (sort_key merge_rank ?m))"
    using mset_eq_imp_distinct_iff by blast
  then show "distinct (map candidate_key (merge_recall_candidates s d))"
    by (simp add: merge_recall_candidates_def take_map [symmetric])
  show "set (merge_recall_candidates s d) \<subseteq> set s \<union> set d"
    using merged_set [of "[]" "s @ d"] set_take_subset [of 5 "sort_key merge_rank ?m"]
    by (auto simp: merge_recall_candidates_def)
qed

section \<open>Outcomes\<close>

lemma made_recall_outcome:
  assumes "make_recall_outcome cd mode decision candidates branches summary = Inr o'"
  shows "ro_mode o' = mode" "ro_decision o' = decision" "ro_candidates o' = candidates"
    "ro_branch_outcomes o' = branches" "ro_shortcut_summary o' = summary" "length candidates \<le> 5"
    "candidate_payload_size (rcd_wire_float cd) candidates \<le> 5120"
    "ro_trace_hash o' = recall_outcome_hash (rcd_sha cd) (rcd_float_text cd) o'"
  using assms
  by (auto simp: make_recall_outcome_def check_recall_outcome_def res_bind_Inr_iff seq_res_Inr
      recall_outcome_hash_def recall_outcome_json_def)

lemma checked_turn_state: "check_turn_state s = Inr s' \<Longrightarrow> s' = s"
  by (auto simp: check_turn_state_def split: if_splits option.splits)

lemma shortcut_transition_Some:
  assumes "shortcut_transition cd b p policy auth = Inr (Some t)"
  obtains plan o' where "ppt_shortcut_plan t = Some plan" "rts_outcome (ppt_turn_state t) = o'"
    "validate_execution_plan_v2 plan policy = []" "shortcut_candidates b p = ro_candidates o'"
    "length (ro_candidates o') = 1" "hit_threshold \<le> rsp_confidence p"
    "rts_shortcut_payload (ppt_turn_state t) = Some p"
    "make_recall_outcome cd Recall_shortcut Rd_shortcut_match (shortcut_candidates b p) shortcut_branches
       (Some (summary_of_payload p)) = Inr o'"
proof -
  from assms obtain plan where
    *: "length (shortcut_candidates b p) = 1" "hit_threshold \<le> rsp_confidence p"
      "validate_execution_plan_v2 plan policy = []"
      "res_bind (check_shortcut_summary (summary_of_payload p)) (\<lambda>summary.
         res_bind (make_recall_outcome cd Recall_shortcut Rd_shortcut_match (shortcut_candidates b p)
             shortcut_branches (Some summary)) (\<lambda>outcome.
           res_bind (check_turn_state \<lparr>rts_outcome = outcome, rts_shortcut_payload = Some p\<rparr>)
             (\<lambda>state. Inr (Some \<lparr>ppt_turn_state = state, ppt_shortcut_plan = Some plan\<rparr>)))) = Inr (Some t)"
    by (auto simp: shortcut_transition_def Let_def split: if_splits sum.splits)
  from *(4) obtain summary outcome state where
    s: "check_shortcut_summary (summary_of_payload p) = Inr summary"
    and m: "make_recall_outcome cd Recall_shortcut Rd_shortcut_match (shortcut_candidates b p) shortcut_branches
       (Some summary) = Inr outcome"
    and c: "check_turn_state \<lparr>rts_outcome = outcome, rts_shortcut_payload = Some p\<rparr> = Inr state"
    and t: "t = \<lparr>ppt_turn_state = state, ppt_shortcut_plan = Some plan\<rparr>"
    by (auto simp: res_bind_Inr_iff)
  from s have "summary = summary_of_payload p" by (auto simp: check_shortcut_summary_def res_bind_Inr_iff)
  with that [of plan outcome] *(1-3) m made_recall_outcome(3) [OF m] checked_turn_state [OF c] t show thesis
    by simp
qed

lemma advisory_transition_Inr:
  assumes "advisory_transition rt static request policy = Inr t"
  obtains candidates branches o' d where "ppt_shortcut_plan t = None" "rts_outcome (ppt_turn_state t) = o'"
    "rts_shortcut_payload (ppt_turn_state t) = None"
    "candidates = merge_recall_candidates (bc_candidates static) d"
    "make_recall_outcome (rr_codec rt) (pac_recall_mode policy) (collected_decision candidates branches)
       candidates branches None = Inr o'"
proof -
  from assms obtain d :: branch_collection and so do' outcome state where
    "make_recall_outcome (rr_codec rt) (pac_recall_mode policy)
       (collected_decision (merge_recall_candidates (bc_candidates static) (bc_candidates d)) (so, do'))
       (merge_recall_candidates (bc_candidates static) (bc_candidates d)) (so, do') None = Inr outcome"
    and c: "check_turn_state \<lparr>rts_outcome = outcome, rts_shortcut_payload = None\<rparr> = Inr state"
    and "(Inr \<lparr>ppt_turn_state = state, ppt_shortcut_plan = None\<rparr> :: preplanner_transition result) = Inr t"
    unfolding advisory_transition_def res_bind_Inr_iff Let_def by (elim exE conjE) (rule that)
  with that checked_turn_state [OF c] show thesis by (metis preplanner_transition.select_convs(1,2)
      recall_turn_state.select_convs(1,2) sum.inject(2))
qed

lemma collected_not_shortcut: "collected_decision cs bs \<noteq> Rd_shortcut_match"
  by (simp add: collected_decision_def)

lemma collect_preplanner_cases:
  assumes "collect_preplanner_recall rt request policy auth = Inr t"
  obtains (off) "pac_recall_mode (pm_core policy) = Recall_off" "disabled_recall_transition (rr_codec rt) = Inr t"
  | (shortcut) static p where "pac_recall_mode (pm_core policy) = Recall_shortcut"
      "collect_static rt request (pm_core policy) = Inr (static, Some p)"
      "shortcut_transition (rr_codec rt) static p policy auth = Inr (Some t)"
  | (advisory) static payload where "pac_recall_mode (pm_core policy) \<noteq> Recall_off"
      "collect_static rt request (pm_core policy) = Inr (static, payload)"
      "advisory_transition rt static request (pm_core policy) = Inr t"
proof (cases "pac_recall_mode (pm_core policy) = Recall_off")
  case True
  with assms off show thesis by (simp add: collect_preplanner_recall_def)
next
  case False
  with assms obtain static payload x where
    sp: "collect_static rt request (pm_core policy) = Inr (static, payload)"
    and x: "(case payload of
            Some p \<Rightarrow> if pac_recall_mode (pm_core policy) = Recall_shortcut
              then shortcut_transition (rr_codec rt) static p policy auth else Inr None
          | None \<Rightarrow> Inr None) = Inr x"
    and t: "(case x of Some t \<Rightarrow> Inr t
        | None \<Rightarrow> advisory_transition rt static request (pm_core policy)) = Inr t"
    unfolding collect_preplanner_recall_def if_not_P [OF False] res_bind_Inr_iff
    by (elim exE conjE) (auto simp: res_bind_Inr_iff)
  show thesis
  proof (cases x)
    case None
    with t sp False advisory show thesis by simp
  next
    case (Some t')
    with t have "t' = t" by simp
    with Some x sp shortcut show thesis by (cases payload) (auto split: if_splits)
  qed
qed

lemma disabled_transition_Inr:
  assumes "disabled_recall_transition cd = Inr t"
  obtains o' where "ppt_shortcut_plan t = None" "rts_outcome (ppt_turn_state t) = o'"
    "rts_shortcut_payload (ppt_turn_state t) = None"
    "make_recall_outcome cd Recall_off Rd_disabled []
       (disabled_branch Rs_approved_static, disabled_branch Rs_document_mcp) None = Inr o'"
  using assms unfolding disabled_recall_transition_def res_bind_Inr_iff
  by (auto dest!: checked_turn_state)

text \<open>C30 After recall the outcome has at most five candidates, best confidence first and one for each
  document, within the size limit and under its own hash. There is a shortcut plan exactly when the
  decision is \<open>shortcut_match\<close>: then the mode is \<open>shortcut\<close>, the policy admits the plan and the one
  candidate is a hit at the threshold. Recall that is off has no candidate.\<close>

theorem recall_outcome_consistent:
  assumes "collect_preplanner_recall rt request policy auth = Inr t"
  shows "let o' = rts_outcome (ppt_turn_state t) in
      length (ro_candidates o') \<le> 5 \<and> sorted (map merge_rank (ro_candidates o'))
    \<and> distinct (map candidate_key (ro_candidates o'))
    \<and> candidate_payload_size (rcd_wire_float (rr_codec rt)) (ro_candidates o') \<le> 5120
    \<and> ro_trace_hash o' = recall_outcome_hash (rcd_sha (rr_codec rt)) (rcd_float_text (rr_codec rt)) o'
    \<and> ro_mode o' = pac_recall_mode (pm_core policy)
    \<and> (ppt_shortcut_plan t \<noteq> None \<longleftrightarrow> ro_decision o' = Rd_shortcut_match)
    \<and> (\<forall>plan. ppt_shortcut_plan t = Some plan \<longrightarrow> ro_mode o' = Recall_shortcut
         \<and> validate_execution_plan_v2 plan policy = []
         \<and> (\<exists>c. ro_candidates o' = [c] \<and> hit_threshold \<le> rcv_confidence c
              \<and> rcv_reason_code c = Rc_approved_recall_hit))
    \<and> (pac_recall_mode (pm_core policy) = Recall_off \<longrightarrow> ro_candidates o' = [])"
  using assms
proof (cases rule: collect_preplanner_cases)
  case off
  from disabled_transition_Inr [OF off(2)] obtain o' where
    *: "ppt_shortcut_plan t = None" "rts_outcome (ppt_turn_state t) = o'"
    "make_recall_outcome (rr_codec rt) Recall_off Rd_disabled []
       (disabled_branch Rs_approved_static, disabled_branch Rs_document_mcp) None = Inr o'" by blast
  note m = made_recall_outcome [OF *(3)]
  show ?thesis unfolding Let_def using * m off by simp
next
  case (shortcut static p)
  from shortcut_transition_Some [OF shortcut(3)] obtain plan o' where
    *: "ppt_shortcut_plan t = Some plan" "rts_outcome (ppt_turn_state t) = o'"
    "validate_execution_plan_v2 plan policy = []" "shortcut_candidates static p = ro_candidates o'"
    "length (ro_candidates o') = 1" "hit_threshold \<le> rsp_confidence p"
    "make_recall_outcome (rr_codec rt) Recall_shortcut Rd_shortcut_match (shortcut_candidates static p)
       shortcut_branches (Some (summary_of_payload p)) = Inr o'" by blast
  note m = made_recall_outcome [OF *(7)]
  from *(5) obtain c where c: "ro_candidates o' = [c]" by (auto simp: length_Suc_conv)
  then have "c \<in> set (shortcut_candidates static p)" using *(4) by simp
  then have "rcv_confidence c = rsp_confidence p" "rcv_reason_code c = Rc_approved_recall_hit"
    by (auto simp: shortcut_candidates_def)
  moreover have "shortcut_candidates static p = [c]" using *(4) c by simp
  ultimately show ?thesis unfolding Let_def using *(1,2,3,6) m(1,2,7,8) c shortcut(1) by simp
next
  case (advisory static payload)
  obtain candidates branches o' d where
    *: "ppt_shortcut_plan t = None" "rts_outcome (ppt_turn_state t) = o'"
    "candidates = merge_recall_candidates (bc_candidates static) d"
    "make_recall_outcome (rr_codec rt) (pac_recall_mode (pm_core policy)) (collected_decision candidates branches)
       candidates branches None = Inr o'"
    by (rule advisory_transition_Inr [OF advisory(3)]) (rule that)
  note m = made_recall_outcome [OF *(4)]
  note mc = merge_recall_candidates_ok [of "bc_candidates static" d, folded *(3)]
  show ?thesis unfolding Let_def *(1,2) m(1-3) using m(7,8) mc(1-3) advisory(1) collected_not_shortcut
    by simp
qed

text \<open>C31 With the production collector of approved questions no request takes the recall shortcut,
  in the mode \<open>shortcut\<close> either: the collector never returns a payload.\<close>

theorem production_recall_never_shortcuts:
  assumes "rr_static rt = question_collect service"
    and "collect_preplanner_recall rt request policy auth = Inr t"
  shows "ppt_shortcut_plan t = None \<and> ro_decision (rts_outcome (ppt_turn_state t)) \<noteq> Rd_shortcut_match"
  using assms(2)
proof (cases rule: collect_preplanner_cases)
  case off
  from disabled_transition_Inr [OF off(2)] made_recall_outcome(2) show ?thesis by fastforce
next
  case (shortcut static p)
  then have False
    by (auto simp: collect_static_def assms(1) question_collect_def res_bind_Inr_iff split: sum.splits if_splits)
  then show ?thesis ..
next
  case (advisory static payload)
  from advisory_transition_Inr [OF advisory(3)] made_recall_outcome(2) collected_not_shortcut
  show ?thesis by metis
qed

section \<open>The size of the candidates\<close>

lemma length_utf8_ge: "length s \<le> length (utf8 s)"
  by (induction s) (auto simp: utf8_char_def Let_def)

lemma length_utf8_high: "list_all (\<lambda>c. CHR 0x80 \<le> c) s \<Longrightarrow> length (utf8 s) = 2 * length s"
  by (induction s) (auto simp: utf8_char_def Let_def less_eq_char_def)

lemma json_escape_high: "CHR 0x80 \<le> c \<Longrightarrow> json_escape False c = [c]"
proof -
  assume high: "CHR 0x80 \<le> c"
  have "c \<notin> {CHR 0x22, CHR 0x5C, CHR 0x08, CHR 0x09, CHR 0x0A, CHR 0x0C, CHR 0x0D}"
    using high by (auto simp: less_eq_char_def)
  moreover have "\<not> c < CHR 0x20" using high by (simp add: less_eq_char_def less_char_def)
  ultimately show ?thesis by (simp add: json_escape_def)
qed

lemma json_quote_high: "list_all (\<lambda>c. CHR 0x80 \<le> c) s \<Longrightarrow> json_quote False s = [CHR 0x22] @ s @ [CHR 0x22]"
proof -
  assume "list_all (\<lambda>c. CHR 0x80 \<le> c) s"
  then have "concat (map (json_escape False) s) = s"
    by (induction s) (simp_all add: json_escape_high)
  then show ?thesis by (simp add: json_quote_def)
qed

lemma length_join_with:
  "sum_list (map (\<lambda>x. length (utf8 x)) xs) \<le> length (utf8 (join_with sep xs))"
  by (induction sep xs rule: join_with.induct) auto

text \<open>The members of a candidate in the order of their keys.\<close>

lemma candidate_members_sorted:
  "sort_key fst [(''contract_version'', a), (''candidate_id'', b), (''canonical_id'', c), (''source_class'', d),
     (''question'', e), (''confidence'', f), (''reason_code'', g)]
   = [(''candidate_id'', b), (''canonical_id'', c), (''confidence'', f), (''contract_version'', a),
     (''question'', e), (''reason_code'', g), (''source_class'', d :: pystr)]"
proof (rule properties_for_sort_key)
  show "mset [(''candidate_id'', b), (''canonical_id'', c), (''confidence'', f), (''contract_version'', a),
     (''question'', e), (''reason_code'', g), (''source_class'', d)]
    = mset [(''contract_version'', a), (''candidate_id'', b), (''canonical_id'', c), (''source_class'', d),
     (''question'', e), (''confidence'', f), (''reason_code'', g)]" by (simp add: add_mset_commute)
next
  fix k assume "k \<in> set [(''candidate_id'', b), (''canonical_id'', c), (''confidence'', f),
     (''contract_version'', a), (''question'', e), (''reason_code'', g), (''source_class'', d)]"
  then show "filter (\<lambda>x. fst k = fst x) [(''candidate_id'', b), (''canonical_id'', c), (''confidence'', f),
     (''contract_version'', a), (''question'', e), (''reason_code'', g), (''source_class'', d)]
    = filter (\<lambda>x. fst k = fst x) [(''contract_version'', a), (''candidate_id'', b), (''canonical_id'', c),
     (''source_class'', d), (''question'', e), (''confidence'', f), (''reason_code'', g)]"
    unfolding list.set by (elim insertE emptyE; simp)
qed (simp add: less_char_def less_eq_char_def)

lemma length_json_quote: "length s + 2 \<le> length (json_quote a s)"
proof -
  have "length s \<le> length (concat (map (json_escape a) s))"
  proof (induction s)
    case (Cons c s)
    have "1 \<le> length (json_escape a c)" by (simp add: json_escape_def)
    with Cons show ?case by simp
  qed simp
  then show ?thesis by (simp add: json_quote_def)
qed

lemma document_candidate_size:
  assumes "sha_hex sha" "list_all (\<lambda>c. CHR 0x80 \<le> c) (qa_question q)" "length (qa_question q) = 400"
  shows "1024 \<le> length (utf8 (json_text False (recall_candidate_json w (document_view sha q))))"
proof -
  let ?d = "sha (''document-qa-candidate.v1'' @ [CHR 0x00] @ utf8 (qa_question q))"
  have d: "length ?d = 64" using assms(1) by (simp add: sha_hex_def)
  have ids: "29 - 2 \<le> length (utf8 (json_quote False (''document:'' @ take 16 ?d)))"
    "78 \<le> length (utf8 (json_quote False (''document_qa:'' @ ?d)))"
    using length_json_quote [of "''document:'' @ take 16 ?d" False] length_json_quote [of "''document_qa:'' @ ?d" False]
      length_utf8_ge [of "json_quote False (''document:'' @ take 16 ?d)"]
      length_utf8_ge [of "json_quote False (''document_qa:'' @ ?d)"] d by simp_all
  have question: "length (utf8 (json_quote False (qa_question q))) = 802"
    using assms(2,3) by (simp add: json_quote_high length_utf8_high utf8_char_def)
  show ?thesis
    using ids question
    by (simp add: recall_candidate_json_def candidate_members_sorted document_view_def Let_def
        json_quote_def json_escape_def utf8_char_def)
qed

text \<open>Every such candidate is valid by itself: its text is far below 4096 bytes.\<close>

lemma lower_hex_plain:
  assumes "is_lower_hex c"
  shows "json_escape False c = [c]" "utf8_char c = [c]" "is_alnum c"
proof -
  from assms have c: "48 \<le> (of_char c :: nat)" "(of_char c :: nat) \<le> 102" "c \<noteq> CHR 0x5C"
    by (auto simp: is_lower_hex_def is_digit_def less_eq_char_def)
  then have "c \<notin> {CHR 0x22, CHR 0x08, CHR 0x09, CHR 0x0A, CHR 0x0C, CHR 0x0D}" by auto
  with c show "json_escape False c = [c]" by (simp add: json_escape_def less_char_def)
  from c show "utf8_char c = [c]" by (simp add: utf8_char_def)
  from assms show "is_alnum c"
    by (auto simp: is_lower_hex_def is_alnum_def is_alpha_def less_eq_char_def)
qed

lemma lower_hex_text:
  "list_all is_lower_hex d \<Longrightarrow> concat (map (json_escape False) d) = d"
  "list_all is_lower_hex d \<Longrightarrow> length (utf8 d) = length d"
  by (induction d) (simp_all add: lower_hex_plain)

lemma document_candidate_ok:
  assumes "sha_hex sha" "list_all (\<lambda>c. CHR 0x80 \<le> c) (qa_question q)" "length (qa_question q) = 400"
    and "0 \<le> qa_score q" "qa_score q \<le> 1" "length (utf8 (ft (qa_score q))) \<le> 40"
  shows "check_recall_candidate ft (document_view sha q) = Inr (document_view sha q)"
proof -
  define d where "d = sha (''document-qa-candidate.v1'' @ [CHR 0x00] @ utf8 (qa_question q))"
  have d: "length d = 64" "list_all is_lower_hex d" using assms(1) by (simp_all add: sha_hex_def d_def)
  then have d16: "list_all is_lower_hex (take 16 d)" by (auto simp: list_all_iff dest: in_set_takeD)
  have view: "document_view sha q = \<lparr>rcv_candidate_id = ''document:'' @ take 16 d,
      rcv_canonical_id = ''document_qa:'' @ d, rcv_source_class = Rs_document_mcp,
      rcv_question = qa_question q, rcv_confidence = qa_score q, rcv_reason_code = Rc_document_qa_candidate\<rparr>"
    by (simp add: document_view_def d_def Let_def)
  have ids: "candidate_id_ok (''document:'' @ take 16 d)" "canonical_id_ok (''document_qa:'' @ d)"
    using d d16 lower_hex_plain(3)
    by (auto simp: candidate_id_ok_def canonical_id_ok_def recall_id_ok_def list_all_iff is_alnum_def is_alpha_def
        less_eq_char_def)
  have "length (utf8 (json_quote False (qa_question q))) = 802"
    using assms(2,3) by (simp add: json_quote_high length_utf8_high utf8_char_def)
  moreover have "length (utf8 (json_quote False (''document:'' @ take 16 d))) = 27"
    "length (utf8 (json_quote False (''document_qa:'' @ d))) = 78"
    using d d16 by (simp_all add: json_quote_def lower_hex_text json_escape_def utf8_char_def less_char_def)
  ultimately have "length (canonical_json_bytes (recall_candidate_json ft (document_view sha q))) \<le> 4096"
    unfolding view using assms(6)
    by (simp add: canonical_json_bytes_def recall_candidate_json_def candidate_members_sorted
        json_quote_def json_escape_def utf8_char_def)
  with ids assms(3,4,5) show ?thesis
    by (simp add: check_recall_candidate_def seq_res.simps raise_if_def length_within_def) (simp add: view)
qed

section \<open>Five long questions\<close>

lemma collect_views_all:
  "list_all (\<lambda>x. view x = Inr (f x)) xs \<Longrightarrow> collect_views view xs = (map f xs, 0)"
  by (induction xs) simp_all

lemma dict_put_fresh: "key x \<notin> key ` set ys \<Longrightarrow> dict_put key x ys = ys @ [x]"
  by (induction ys) auto

lemma fresh_not_found: "key c \<notin> key ` set ys \<Longrightarrow> find (\<lambda>d. key d = key c) ys = None"
  by (induction ys) auto

lemma merge_all_new:
  "distinct (map candidate_key (merged @ cs)) \<Longrightarrow> foldl merge_step merged cs = merged @ cs"
proof (induction cs arbitrary: merged)
  case (Cons c cs)
  then have "candidate_key c \<notin> candidate_key ` set merged" by simp
  then have "merge_step merged c = merged @ [c]"
    by (simp add: merge_step_def dict_put_fresh fresh_not_found)
  with Cons show ?case by simp
qed simp

lemma candidate_payload_large:
  assumes "length cs = 5" "\<And>c. c \<in> set cs \<Longrightarrow> 1024 \<le> length (utf8 (json_text False (recall_candidate_json w c)))"
  shows "5120 < candidate_payload_size w cs"
proof -
  let ?xs = "map (\<lambda>v. json_text False v) (map (recall_candidate_json w) cs)"
  have "5 * 1024 = sum_list (map (\<lambda>_. 1024 :: nat) cs)" using assms(1) by (simp add: sum_list_triv)
  also have "\<dots> \<le> sum_list (map (\<lambda>c. length (utf8 (json_text False (recall_candidate_json w c)))) cs)"
    by (rule sum_list_mono) (rule assms(2))
  also have "\<dots> = sum_list (map (\<lambda>x. length (utf8 x)) ?xs)" by (simp add: comp_def)
  also have "\<dots> \<le> length (utf8 (join_with '','' ?xs))" by (rule length_join_with)
  finally show ?thesis by (simp add: candidate_payload_size_def canonical_json_bytes_def utf8_char_def comp_def)
qed

text \<open>C32 A document search that answers five different questions of 400 characters outside ASCII makes
  recall raise, although every candidate is valid by itself: \<open>merge_recall_candidates\<close> limits the number
  of candidates, the outcome limits their size, and nothing between them does.\<close>

theorem long_questions_fail_recall:
  assumes "sha_hex (rcd_sha (rr_codec rt))" and "pac_recall_mode (pm_core policy) \<noteq> Recall_off"
    and "rr_static rt request (pm_core policy) = Inr \<lparr>sc_match = m0, sc_shortcut_payload = None\<rparr>"
    and "qm_candidates m0 = []" "qm_status m0 \<noteq> Qs_unavailable"
    and "rr_document rt request (pm_core policy) = Inr m" "qam_status m \<noteq> Qs_unavailable"
    and "length (qam_candidates m) = 5"
    and "list_all (\<lambda>q. length (qa_question q) = 400 \<and> list_all (\<lambda>c. CHR 0x80 \<le> c) (qa_question q)) (qam_candidates m)"
    and "list_all (\<lambda>q. 0 \<le> qa_score q \<and> qa_score q \<le> 1) (qam_candidates m)"
    and "\<And>x. length (utf8 (rcd_float_text (rr_codec rt) x)) \<le> 40"
    and "distinct (map (rcv_canonical_id \<circ> document_view (rcd_sha (rr_codec rt))) (qam_candidates m))"
  shows "collect_preplanner_recall rt request policy auth
    = Inl (ValueError ''recall_candidate_list_serialized_bytes_exceeded'')"
proof -
  let ?v = "document_view (rcd_sha (rr_codec rt))"
  define cs where "cs = map ?v (qam_candidates m)"
  have static: "collect_static rt request (pm_core policy) = Inr
      (\<lparr>bc_source_class = Rs_approved_static, bc_candidates = [], bc_rejected_count = 0, bc_unavailable = False\<rparr>, None)"
    using assms(3,4,5) by (simp add: collect_static_def approved_static_branch_def)
  have "collect_views (\<lambda>c. check_recall_candidate (rcd_float_text (rr_codec rt)) (?v c)) (qam_candidates m) = (cs, 0)"
    unfolding cs_def
    by (rule collect_views_all) (use assms(1,9,10,11) document_candidate_ok in \<open>auto simp: list_all_iff\<close>)
  then have document: "collect_document rt request (pm_core policy) = Inr
      \<lparr>bc_source_class = Rs_document_mcp, bc_candidates = cs, bc_rejected_count = 0, bc_unavailable = False\<rparr>"
    using assms(6,7) by (simp add: collect_document_def document_recall_branch_def)
  have five: "length cs = 5" using assms(8) by (simp add: cs_def)
  have keys: "map candidate_key cs = map (Pair Rs_document_mcp) (map (rcv_canonical_id \<circ> ?v) (qam_candidates m))"
    by (simp add: cs_def candidate_key_def document_view_def Let_def)
  have "distinct (map candidate_key cs)"
    unfolding keys by (subst distinct_map) (use assms(12) in \<open>simp add: inj_on_def\<close>)
  then have merge: "merge_recall_candidates [] cs = sort_key merge_rank cs"
    using merge_all_new [of "[]" cs] five by (simp add: merge_recall_candidates_def)
  have large: "5120 < candidate_payload_size (rcd_wire_float (rr_codec rt)) (merge_recall_candidates [] cs)"
    unfolding merge
  proof (rule candidate_payload_large)
    fix c assume "c \<in> set (sort_key merge_rank cs)"
    then obtain q where q: "q \<in> set (qam_candidates m)" "c = ?v q" by (auto simp: cs_def)
    with assms(9) have "list_all (\<lambda>c. CHR 0x80 \<le> c) (qa_question q)" "length (qa_question q) = 400"
      by (auto simp: list_all_iff)
    with q show "1024 \<le> length (utf8 (json_text False (recall_candidate_json (rcd_wire_float (rr_codec rt)) c)))"
      using document_candidate_size [OF assms(1)] by simp
  qed (simp add: five)
  have "length (merge_recall_candidates [] cs) = 5" using five by (simp add: merge)
  moreover have "prefixed_hex ''rch1:'' 64 zero_trace_hash"
    by (simp add: prefixed_hex_def zero_trace_hash_def startswith_def is_lower_hex_def is_digit_def list_all_length)
  ultimately have fails: "make_recall_outcome (rr_codec rt) mode decision (merge_recall_candidates [] cs) (so, do') None
      = Inl (ValueError ''recall_candidate_list_serialized_bytes_exceeded'')"
    if "rbo_source_class so = Rs_approved_static" "rbo_source_class do' = Rs_document_mcp" for mode decision so do'
    using large that by (simp add: make_recall_outcome_def check_recall_outcome_def seq_res.simps raise_if_def)
  have "advisory_transition rt
      \<lparr>bc_source_class = Rs_approved_static, bc_candidates = [], bc_rejected_count = 0, bc_unavailable = False\<rparr>
      request (pm_core policy) = Inl (ValueError ''recall_candidate_list_serialized_bytes_exceeded'')"
    using five by (simp add: advisory_transition_def document branch_outcome_def check_branch_outcome_def Let_def
        seq_res.simps raise_if_def fails)
  then show ?thesis using assms(2) static by (simp add: collect_preplanner_recall_def)
qed

end
