(* ===== verification/Recall_Demo.thy ===== *)
theory Recall_Demo
  imports Recall_Theorems
begin

text \<open>Concrete recall runs: the values at which the properties of \<open>Recall_Theorems\<close> are applied.\<close>

definition recall_demo_codec :: "(pybytes \<Rightarrow> pystr) \<Rightarrow> recall_codec" where
  "recall_demo_codec sha = \<lparr>rcd_sha = sha, rcd_float_text = (\<lambda>_. ''0.75''), rcd_wire_float = (\<lambda>_. ''0.75'')\<rparr>"

definition demo_hit :: question_match where
  "demo_hit =
     \<lparr>qm_status = Qs_matched, qm_decision = Qd_recall_hit, qm_confidence = 3 / 4,
      qm_candidates = [\<lparr>qc_entry_id = ''e1'', qc_canonical_id = ''k.e1'', qc_doc_id = ''e1'', qc_question = ''q'',
        qc_source_type = Qsrc_approved_static_knowledge, qc_score = 3 / 4, qc_confidence = 3 / 4, qc_coverage = 1,
        qc_matched_entities = [''q''], qc_answer_available = True\<rparr>], qm_reason_code = ''recall_hit''\<rparr>"

definition demo_payload :: recall_shortcut_payload where
  "demo_payload =
     \<lparr>rsp_candidate_id = ''e1'', rsp_canonical_id = ''k.e1'',
      rsp_selected_manifest_ref = ManifestRefV1 Answer_internal_company_knowledge,
      rsp_selected_media_asset_ids = [], rsp_confidence = 3 / 4, rsp_question = ''q'', rsp_reply_text = ''a'',
      rsp_evidence_text = ''e'', rsp_source_id = ''e1'',
      rsp_reply_text_hash = ''rtx1:'' @ flat_sha [], rsp_evidence_text_hash = ''evx1:'' @ flat_sha []\<rparr>"

definition demo_search :: question_recall_service where
  "demo_search = \<lparr>qrs_blocked = (\<lambda>_. False), qrs_entries_empty = False, qrs_search = (\<lambda>_. Inr demo_hit)\<rparr>"

definition recall_demo_policy ::
  "pystr \<Rightarrow> (business_scope_authority \<times> policy_manifest) result" where
  "recall_demo_policy mode =
     (let r = plan_demo_request ''hi'' [] in
      res_bind (business_scope_authority_v1 flat_sha (kr_business_scope r)) (\<lambda>auth.
      res_bind (compile_policy_authority_core_v1 flat_sha r auth mode) (\<lambda>core.
      res_bind (from_core flat_sha core no_ledger) (\<lambda>policy. Inr (auth, policy)))))"

definition recall_demo ::
  "pystr \<Rightarrow> recall_runtime \<Rightarrow> (business_scope_authority \<times> policy_manifest \<times> preplanner_transition) result" where
  "recall_demo mode rt =
     res_bind (recall_demo_policy mode) (\<lambda>(auth, policy).
     res_bind (collect_preplanner_recall rt (plan_demo_request ''hi'' []) policy auth) (\<lambda>t. Inr (auth, policy, t)))"

lemma recall_demo_Inr:
  assumes "recall_demo mode rt = Inr (auth, policy, t)"
  shows "collect_preplanner_recall rt (plan_demo_request ''hi'' []) policy auth = Inr t"
  using assms by (auto simp: recall_demo_def res_bind_Inr_iff)

lemma recall_demo_obtain:
  assumes "case recall_demo mode rt of Inl _ \<Rightarrow> False | Inr (_, _, t) \<Rightarrow> P t"
  obtains auth policy t where "P t" "recall_demo mode rt = Inr (auth, policy, t)"
  using assms by (auto split: sum.splits prod.splits)

text \<open>A collector that hands out a payload, and the production one.\<close>

definition shortcut_runtime :: recall_runtime where
  "shortcut_runtime =
     \<lparr>rr_codec = recall_demo_codec flat_sha,
      rr_static = (\<lambda>_ _. Inr \<lparr>sc_match = demo_hit, sc_shortcut_payload = Some demo_payload\<rparr>),
      rr_document = (\<lambda>_ _. Inl TimeoutError)\<rparr>"

definition production_runtime :: recall_runtime where
  "production_runtime =
     \<lparr>rr_codec = recall_demo_codec flat_sha, rr_static = question_collect demo_search,
      rr_document = (\<lambda>_ _. Inl TimeoutError)\<rparr>"

lemma shortcut_run:
  "case recall_demo ''shortcut'' shortcut_runtime of Inl _ \<Rightarrow> False | Inr (_, _, t) \<Rightarrow> ppt_shortcut_plan t \<noteq> None"
  by code_simp

lemma production_run:
  "case recall_demo ''shortcut'' production_runtime of Inl _ \<Rightarrow> False
   | Inr (_, _, t) \<Rightarrow> ro_candidates (rts_outcome (ppt_turn_state t)) \<noteq> []"
  by code_simp

theorem recall_outcome_consistent_witness:
  "\<exists>auth policy t. collect_preplanner_recall shortcut_runtime (plan_demo_request ''hi'' []) policy auth = Inr t
     \<and> ro_decision (rts_outcome (ppt_turn_state t)) = Rd_shortcut_match"
proof -
  from recall_demo_obtain [OF shortcut_run] obtain auth policy t where
    t: "ppt_shortcut_plan t \<noteq> None" "recall_demo ''shortcut'' shortcut_runtime = Inr (auth, policy, t)" .
  from recall_outcome_consistent [OF recall_demo_Inr [OF t(2)]] t(1)
  have "ro_decision (rts_outcome (ppt_turn_state t)) = Rd_shortcut_match" by (simp add: Let_def)
  with recall_demo_Inr [OF t(2)] show ?thesis by blast
qed

theorem production_recall_never_shortcuts_witness:
  "\<exists>auth policy t. collect_preplanner_recall production_runtime (plan_demo_request ''hi'' []) policy auth = Inr t
     \<and> ro_candidates (rts_outcome (ppt_turn_state t)) \<noteq> [] \<and> ppt_shortcut_plan t = None"
proof -
  from recall_demo_obtain [OF production_run] obtain auth policy t where
    t: "ro_candidates (rts_outcome (ppt_turn_state t)) \<noteq> []"
      "recall_demo ''shortcut'' production_runtime = Inr (auth, policy, t)" .
  have "rr_static production_runtime = question_collect demo_search" by (simp add: production_runtime_def)
  from production_recall_never_shortcuts [OF this recall_demo_Inr [OF t(2)]] t(1) recall_demo_Inr [OF t(2)]
  show ?thesis by blast
qed

section \<open>Five long questions\<close>

definition last_sha :: "pybytes \<Rightarrow> pystr" where
  "last_sha b = replicate 63 CHR ''0'' @ [hex_digit (of_char (last b) mod 16)]"

definition long_question :: "char \<Rightarrow> qa_candidate" where
  "long_question c = \<lparr>qa_doc_id = ''d'', qa_question = replicate 399 CHR 0xE9 @ [c], qa_score = 3 / 4\<rparr>"

definition long_match :: qa_match where
  "long_match = \<lparr>qam_status = Qs_matched,
     qam_candidates = map long_question [CHR 0xE0, CHR 0xE1, CHR 0xE2, CHR 0xE3, CHR 0xE4], qam_reason_code = []\<rparr>"

definition no_question :: question_match where
  "no_question = \<lparr>qm_status = Qs_no_match, qm_decision = Qd_fail_open, qm_confidence = 0, qm_candidates = [],
     qm_reason_code = ''no_candidate_overlap''\<rparr>"

definition long_runtime :: recall_runtime where
  "long_runtime =
     \<lparr>rr_codec = recall_demo_codec last_sha,
      rr_static = (\<lambda>_ _. Inr \<lparr>sc_match = no_question, sc_shortcut_payload = None\<rparr>),
      rr_document = (\<lambda>_ _. Inr long_match)\<rparr>"

lemma last_sha_hex: "sha_hex last_sha"
proof -
  have "is_lower_hex (hex_digit (n mod 16))" for n
  proof -
    have "list_all (\<lambda>n. is_lower_hex (hex_digit n)) [0..<16]" by code_simp
    then show ?thesis by (simp add: list_all_iff)
  qed
  then show ?thesis by (simp add: sha_hex_def last_sha_def list_all_iff is_lower_hex_def is_digit_def)
qed

lemma long_questions_differ: "distinct (map (rcv_canonical_id \<circ> document_view last_sha) (qam_candidates long_match))"
proof -
  have "rcv_canonical_id (document_view last_sha (long_question c))
      = ''document_qa:'' @ replicate 63 CHR ''0'' @ [hex_digit (of_char (last (utf8_char c)) mod 16)]" for c
    by (simp add: document_view_def last_sha_def long_question_def Let_def utf8_char_def)
  then show ?thesis by (simp add: long_match_def utf8_char_def hex_digit_def)
qed

lemma long_questions_high:
  "list_all (\<lambda>q. length (qa_question q) = 400 \<and> list_all (\<lambda>c. CHR 0x80 \<le> c) (qa_question q)) (qam_candidates long_match)"
  "list_all (\<lambda>q. 0 \<le> qa_score q \<and> qa_score q \<le> 1) (qam_candidates long_match)"
  by (simp_all add: long_match_def long_question_def less_eq_char_def list_all_iff)

lemma advisory_policy:
  "case recall_demo_policy ''advisory'' of Inl _ \<Rightarrow> False | Inr (_, policy) \<Rightarrow> pac_recall_mode (pm_core policy) = Recall_advisory"
  by code_simp

theorem long_questions_fail_recall_witness:
  "\<exists>policy auth. recall_demo_policy ''advisory'' = Inr (auth, policy)
     \<and> collect_preplanner_recall long_runtime (plan_demo_request ''hi'' []) policy auth
       = Inl (ValueError ''recall_candidate_list_serialized_bytes_exceeded'')"
proof -
  from advisory_policy obtain auth policy where
    p: "recall_demo_policy ''advisory'' = Inr (auth, policy)" "pac_recall_mode (pm_core policy) \<noteq> Recall_off"
    by (auto split: sum.splits)
  have "collect_preplanner_recall long_runtime (plan_demo_request ''hi'' []) policy auth
       = Inl (ValueError ''recall_candidate_list_serialized_bytes_exceeded'')"
    by (rule long_questions_fail_recall [where ?m0.0 = no_question and m = long_match])
      (simp_all add: p long_runtime_def recall_demo_codec_def last_sha_hex long_questions_differ
        long_questions_high no_question_def utf8_char_def, simp_all add: long_match_def)
  with p show ?thesis by blast
qed

end
