(* ===== verification/Alignment_Demo.thy ===== *)
theory Alignment_Demo
  imports Alignment_Theorems Attempt_Demo Recall_Demo
begin

text \<open>
  The candidate of a weekly report, with the recall state of a turn without recall, taken through
  alignment: the values at which the properties of \<open>Alignment_Theorems\<close> are applied.
\<close>

definition with_recall :: "unit attempt_result \<Rightarrow> recall_turn_state \<Rightarrow> candidate_object" where
  "with_recall a recall =
     \<lparr>cob_attempt = \<lparr>at_plan = at_plan a, at_evidence = at_evidence a, at_response = at_response a, at_issues = at_issues a,
        at_reason_code = at_reason_code a, at_recall_state = Some recall\<rparr>,
      cob_plan_ref = 1, cob_evidence_ref = 2, cob_recall_ref = 3\<rparr>"

lemma with_recall_simps [simp]:
  "at_recall_state (cob_attempt (with_recall a recall)) = Some recall"
  "cob_plan (with_recall a recall) = at_plan a"
  "cob_recall_ref (with_recall a recall) = 3"
  "at_plan (cob_attempt (with_recall a recall)) = at_plan a"
  by (simp_all add: with_recall_def cob_plan_def)

definition demo_verdict :: "alignment_remediation \<Rightarrow> pystr \<Rightarrow> alignment_verdict" where
  "demo_verdict remedy feedback =
     \<lparr>av_aligned = False, av_safe_to_return = False, av_failure_code = Align_wrong_action, av_rationale = ''r'',
      av_remediation = remedy, av_refined_evidence_query = Some ''q'', av_planner_feedback = Some feedback,
      av_composer_feedback = Some ''f'', av_confidence = 1\<rparr>"

definition two_each :: alignment_limits where
  "two_each = \<lparr>alim_replans = 2, alim_refetches = 2, alim_recomposes = 2, alim_total = 2\<rparr>"

lemma two_each_ok: "check_alignment_limits two_each = Inr two_each"
  by (simp add: check_alignment_limits_def two_each_def Let_def seq_res.simps raise_if_def)

text \<open>A plan that gives up, and a remediator whose planner times out.\<close>

definition giving_up :: "execution_plan \<Rightarrow> execution_plan" where
  "giving_up p = p\<lparr>ep_origin := Origin_remediation, ep_plan_spec := None, ep_response_mode := Mode_unable,
     ep_selected_manifest_refs := [ManifestRefV1 General_abstention], ep_id := CHR ''+'' # ep_id p\<rparr>"

definition slow_remediator :: alignment_remediator where
  "slow_remediator =
     \<lparr>rem_plan_id = ep_id, rem_verdict_for = (\<lambda>_ _. Inr (demo_verdict Remedy_replan ''f'')),
      rem_replan = (\<lambda>_ _ _. Inl TimeoutError), rem_refetch = (\<lambda>_ _ _. Inl TimeoutError),
      rem_recompose = (\<lambda>_ _ _. Inl TimeoutError),
      rem_replace = (\<lambda>c _ _. Inr (c\<lparr>cob_attempt := (cob_attempt c)\<lparr>at_plan := giving_up (cob_plan c)\<rparr>\<rparr>))\<rparr>"

definition slow_result :: "unit attempt_result \<Rightarrow> recall_turn_state \<Rightarrow> candidate_object" where
  "slow_result a recall =
     (with_recall a recall)\<lparr>cob_attempt := (cob_attempt (with_recall a recall))\<lparr>at_plan := giving_up (at_plan a)\<rparr>\<rparr>"

lemma slow_alignment: "ensure_aligned_v2_response slow_remediator two_each (with_recall a recall) = Inr (slow_result a recall)"
  by (rule first_body)
    (simp_all add: alignment_body_def alignment_attempt_def initial_state_def slow_remediator_def demo_verdict_def
      two_each_def replan_step_def action_attempt_def verifier_down_def replaced_def require_replacement_authority_def
      require_same_recall_state_def giving_up_def fallback_mode_def fallback_manifest_def raise_if_def cob_plan_def
      slow_result_def Let_def)

text \<open>The states of a loop that replans once more each time.\<close>

definition eager_remediator :: alignment_remediator where
  "eager_remediator = slow_remediator\<lparr>rem_plan_id := (\<lambda>_. ''p''), rem_verdict_for := (\<lambda>_ _. Inr (demo_verdict Remedy_recompose ''f'')),
     rem_recompose := (\<lambda>c _ _. Inr c)\<rparr>"

lemma off_recall:
  "case disabled_recall_transition (recall_demo_codec flat_sha) of Inl _ \<Rightarrow> False | Inr t \<Rightarrow> True"
  by code_simp

text \<open>The weekly report's candidate, its plan and its policy.\<close>

lemma weekly_candidate:
  obtains auth core policy plan and a :: "unit attempt_result" and t where
    "demo_attempt weekly_request (demo_spec ''weekly_report.send'' [''p'']) weekly_results = Inr (auth, core, policy, plan, a)"
    "disabled_recall_transition (recall_demo_codec flat_sha) = Inr t"
proof -
  from off_recall obtain t where t: "disabled_recall_transition (recall_demo_codec flat_sha) = Inr t"
    by (auto split: sum.splits)
  show thesis by (rule demo_obtain [OF weekly_run]) (rule that [OF _ t])
qed

theorem aligned_candidate_accounted_witness:
  "\<exists>auth core policy plan a t c'.
     demo_attempt weekly_request (demo_spec ''weekly_report.send'' [''p'']) weekly_results = Inr (auth, core, policy, plan, a)
     \<and> disabled_recall_transition (recall_demo_codec flat_sha) = Inr t
     \<and> ensure_aligned_v2_response slow_remediator two_each (with_recall a (ppt_turn_state t)) = Inr c'
     \<and> same_recall 3 (ppt_turn_state t) c' \<and> returned_for_reason slow_remediator c'"
proof -
  obtain auth core policy plan a t where run:
    "demo_attempt weekly_request (demo_spec ''weekly_report.send'' [''p'']) weekly_results = Inr (auth, core, policy, plan, a)"
    "disabled_recall_transition (recall_demo_codec flat_sha) = Inr t" by (rule weekly_candidate)
  from aligned_candidate_accounted [OF with_recall_simps(1) two_each_ok slow_alignment [of a "ppt_turn_state t"]]
  have "same_recall 3 (ppt_turn_state t) (slow_result a (ppt_turn_state t))
      \<and> returned_for_reason slow_remediator (slow_result a (ppt_turn_state t))"
    by (simp only: with_recall_simps(3))
  with run slow_alignment [of a "ppt_turn_state t"] show ?thesis by blast
qed

theorem alignment_loop_bounded_witness:
  "\<exists>auth core policy plan a t.
     demo_attempt weekly_request (demo_spec ''weekly_report.send'' [''p'']) weekly_results = Inr (auth, core, policy, plan, a)
     \<and> disabled_recall_transition (recall_demo_codec flat_sha) = Inr t
     \<and> int (fst (alignment_loop eager_remediator two_each 3 (ppt_turn_state t)
          (initial_state (with_recall a (ppt_turn_state t))))) \<le> 2"
proof -
  obtain auth core policy plan a t where run:
    "demo_attempt weekly_request (demo_spec ''weekly_report.send'' [''p'']) weekly_results = Inr (auth, core, policy, plan, a)"
    "disabled_recall_transition (recall_demo_codec flat_sha) = Inr t" by (rule weekly_candidate)
  have "same_recall 3 (ppt_turn_state t) (with_recall a (ppt_turn_state t))" by (simp add: same_recall_def)
  from alignment_loop_bounded [OF two_each_ok this, of eager_remediator]
  have "int (fst (alignment_loop eager_remediator two_each 3 (ppt_turn_state t)
          (initial_state (with_recall a (ppt_turn_state t))))) \<le> 2"
    by (simp add: two_each_def)
  with run show ?thesis by blast
qed

section \<open>Verdicts that fail the turn\<close>

definition align_context ::
  "alignment_verdict \<Rightarrow> kernel_reply_request \<Rightarrow> business_scope_authority \<Rightarrow> policy_manifest \<Rightarrow> unit alignment_context" where
  "align_context verdict request auth policy =
     \<lparr>alc_request = request, alc_policy = policy, alc_authority = auth, alc_attempt = demo_runtime weekly_results,
      alc_planner = \<lparr>pl_sha = flat_sha, pl_float_text = (\<lambda>_. ''1.0''), pl_prompt = (\<lambda>_. Inr ()), pl_build_agent = Inr (),
        pl_kickoff = (\<lambda>_ _. Inl TimeoutError), pl_retry_attempts = 1,
        pl_reader = \<lparr>sr_validate = (\<lambda>_. Spec_value_error []), sr_validate_json = (\<lambda>_. Spec_value_error []), sr_error_text = (\<lambda>_. [])\<rparr>,
        pl_builder = (\<lambda>_ _. Inl TimeoutError)\<rparr>,
      alc_verifier = (\<lambda>_ _. Inr verdict), alc_history = [], alc_uuid = ''1f''\<rparr>"

lemma weekly_plan_run:
  "case demo_plan weekly_request (demo_spec ''weekly_report.send'' [''p'']) of Inl _ \<Rightarrow> False
   | Inr (auth, core, policy, plan) \<Rightarrow>
       ep_response_mode plan = Mode_action
       \<and> filter (\<lambda>u. unit_supports_refetch (eu_manifest_ref u) Remedy_refetch_document_context) (ep_units plan) = []
       \<and> vi_scene (kr_identity weekly_request) = pac_scene (pm_core policy)
       \<and> kr_business_scope weekly_request = bsa_scope auth \<and> pac_scope_hash (pm_core policy) = bsa_hash auth"
  by code_simp

lemma demo_verdict_ok: "length feedback \<le> 300 \<Longrightarrow> check_alignment_verdict (demo_verdict remedy feedback)
    = (if remedy = Remedy_refetch_report_scope then Inl (ValueError ''alignment_report_refetch_query_not_allowed'')
       else Inr (demo_verdict remedy feedback))"
  by (simp add: check_alignment_verdict_def demo_verdict_def Let_def seq_res.simps raise_if_def opt_within_def
      report_scope_refetch_queries_def py_strip_def py_lstrip_def py_space_def)

theorem verdict_can_fail_turn_witness:
  "\<exists>auth core policy plan a t.
     demo_attempt weekly_request (demo_spec ''weekly_report.send'' [''p'']) weekly_results = Inr (auth, core, policy, plan, a)
     \<and> disabled_recall_transition (recall_demo_codec flat_sha) = Inr t
     \<and> ensure_aligned_v2_response (runtime_remediator (align_context (demo_verdict Remedy_replan [CHR 0x01]) weekly_request auth policy))
         two_each (with_recall a (ppt_turn_state t)) = Inl (ValueError ''plan_validation_message_control_character'')"
proof -
  obtain auth core policy plan and a :: "unit attempt_result" and t where run:
    "demo_attempt weekly_request (demo_spec ''weekly_report.send'' [''p'']) weekly_results = Inr (auth, core, policy, plan, a)"
    "disabled_recall_transition (recall_demo_codec flat_sha) = Inr t" by (rule weekly_candidate)
  then have "demo_plan weekly_request (demo_spec ''weekly_report.send'' [''p'']) = Inr (auth, core, policy, plan)"
    by (auto simp: demo_attempt_def res_bind_Inr_iff)
  with weekly_plan_run have policy: "vi_scene (kr_identity weekly_request) = pac_scene (pm_core policy)"
    "kr_business_scope weekly_request = bsa_scope auth" "pac_scope_hash (pm_core policy) = bsa_hash auth" by simp_all
  let ?v = "demo_verdict Remedy_replan [CHR 0x01]"
  have "runtime_verdict_for (align_context ?v weekly_request auth policy) (with_recall a (ppt_turn_state t)) 0 = Inr ?v"
    by (simp add: runtime_verdict_for_def align_context_def policy demo_verdict_ok Let_def)
  from verdict_can_fail_turn [OF with_recall_simps(1) this, of two_each]
  have "ensure_aligned_v2_response (runtime_remediator (align_context ?v weekly_request auth policy))
         two_each (with_recall a (ppt_turn_state t)) = Inl (ValueError ''plan_validation_message_control_character'')"
    by (simp add: demo_verdict_def two_each_def py_space_def)
  with run show ?thesis by blast
qed

end
