(* ===== verification/Prompt_Programs.thy ===== *)
theory Prompt_Programs
  imports Hashing Plan_Models Audit_Records
begin

text \<open>
  The journal of the language-model calls of a turn, the selector cache and the prompt programs:
  \<open>runtime/prompts/invocation_journal.py\<close>, \<open>program_models.py\<close>, \<open>schema_canonicalization.py\<close> and
  \<open>budgets.py\<close>.

  The journal of the turn is found through a context variable; the scopes that set it are not modelled,
  the operations take the journal.
\<close>

section \<open>Vocabulary\<close>

datatype stage_kind =
    Stage_planner_intent | Stage_knowledge_composer | Stage_smalltalk_composer | Stage_alignment_verifier
  | Stage_approved_knowledge_selector | Stage_document_product_selector | Stage_llm_health_probe

datatype target_slot = Slot_planner | Slot_composer | Slot_selector | Slot_health

datatype scene_key = Key_wecom_group | Key_wecom_direct | Key_scene_neutral

datatype journal_status =
    Row_reserved | Row_success | Row_output_contract_error | Row_transport_error | Row_uncaptured_network_error

fun stage_kind_str :: "stage_kind \<Rightarrow> pystr" where
  "stage_kind_str Stage_planner_intent = ''planner_intent''"
| "stage_kind_str Stage_knowledge_composer = ''knowledge_composer''"
| "stage_kind_str Stage_smalltalk_composer = ''smalltalk_composer''"
| "stage_kind_str Stage_alignment_verifier = ''alignment_verifier''"
| "stage_kind_str Stage_approved_knowledge_selector = ''approved_knowledge_selector''"
| "stage_kind_str Stage_document_product_selector = ''document_product_selector''"
| "stage_kind_str Stage_llm_health_probe = ''llm_health_probe''"

fun target_slot_str :: "target_slot \<Rightarrow> pystr" where
  "target_slot_str Slot_planner = ''planner''"
| "target_slot_str Slot_composer = ''composer''"
| "target_slot_str Slot_selector = ''selector''"
| "target_slot_str Slot_health = ''health''"

fun scene_key_str :: "scene_key \<Rightarrow> pystr" where
  "scene_key_str Key_wecom_group = ''wecom_group.v1''"
| "scene_key_str Key_wecom_direct = ''wecom_direct.v1''"
| "scene_key_str Key_scene_neutral = ''scene_neutral.v1''"

section \<open>Rows\<close>

record invocation_row =
  ivr_invocation_ordinal :: int
  ivr_logical_attempt :: int
  ivr_transport_attempt :: int
  ivr_stage_kind :: stage_kind
  ivr_program_id :: pystr
  ivr_program_version :: "pystr option"
  ivr_target_slot :: target_slot
  ivr_scene_key :: "scene_key option"
  ivr_scene_contract_ref :: "pystr option"
  ivr_purpose :: pystr
  ivr_status :: journal_status
  ivr_osh1 :: "pystr option"
  ivr_poh1 :: "pystr option"
  ivr_hph1 :: "pystr option"
  ivr_prh1 :: "pystr option"
  ivr_input_digest :: "pystr option"
  ivr_output_digest :: "pystr option"
  ivr_error_code :: "pystr option"
  ivr_model_family :: "pystr option"
  ivr_provider_id :: "pystr option"
  ivr_transport_id :: "pystr option"
  ivr_input_schema_version :: "pystr option"
  ivr_output_schema_version :: "pystr option"
  ivr_latency_ms :: int
  ivr_input_bytes :: int
  ivr_output_bytes :: "int option"

definition opt_prefixed_hex :: "pystr \<Rightarrow> pystr option \<Rightarrow> bool" where
  "opt_prefixed_hex prefix v = (case v of None \<Rightarrow> True | Some s \<Rightarrow> prefixed_hex prefix 64 s)"

definition row_field_checks :: "invocation_row \<Rightarrow> unit result list" where
  "row_field_checks r =
     [raise_if (\<not> (1 \<le> ivr_invocation_ordinal r \<and> ivr_invocation_ordinal r \<le> 18)) (ValueError ''invocation_ordinal''),
      raise_if (\<not> (1 \<le> ivr_logical_attempt r \<and> ivr_logical_attempt r \<le> 18)) (ValueError ''logical_attempt''),
      raise_if (ivr_transport_attempt r \<noteq> 1) (ValueError ''transport_attempt''),
      raise_if (\<not> length_within 1 180 (ivr_program_id r)) (ValueError ''program_id''),
      raise_if (case ivr_program_version r of None \<Rightarrow> False | Some v \<Rightarrow> \<not> length_within 1 40 v) (ValueError ''program_version''),
      raise_if (\<not> opt_within 240 (ivr_scene_contract_ref r)) (ValueError ''scene_contract_ref''),
      raise_if (\<not> length_within 1 80 (ivr_purpose r)) (ValueError ''purpose''),
      raise_if (\<not> opt_prefixed_hex ''osh1:'' (ivr_osh1 r)) (ValueError ''osh1''),
      raise_if (\<not> opt_prefixed_hex ''poh1:'' (ivr_poh1 r)) (ValueError ''poh1''),
      raise_if (\<not> opt_prefixed_hex ''hph1:'' (ivr_hph1 r)) (ValueError ''hph1''),
      raise_if (\<not> opt_prefixed_hex ''prh1:'' (ivr_prh1 r)) (ValueError ''prh1''),
      raise_if (\<not> opt_prefixed_hex ''mch1:'' (ivr_input_digest r)) (ValueError ''input_digest''),
      raise_if (\<not> opt_prefixed_hex ''out1:'' (ivr_output_digest r)) (ValueError ''output_digest''),
      raise_if (\<not> opt_within 80 (ivr_error_code r)) (ValueError ''error_code''),
      raise_if (\<not> opt_within 80 (ivr_model_family r)) (ValueError ''model_family''),
      raise_if (\<not> opt_within 80 (ivr_provider_id r)) (ValueError ''provider_id''),
      raise_if (\<not> opt_within 80 (ivr_transport_id r)) (ValueError ''transport_id''),
      raise_if (\<not> opt_within 160 (ivr_input_schema_version r)) (ValueError ''input_schema_version''),
      raise_if (\<not> opt_within 160 (ivr_output_schema_version r)) (ValueError ''output_schema_version''),
      raise_if (ivr_latency_ms r < 0) (ValueError ''latency_ms''),
      raise_if (ivr_input_bytes r < 0) (ValueError ''input_bytes''),
      raise_if (case ivr_output_bytes r of None \<Rightarrow> False | Some n \<Rightarrow> n < 0) (ValueError ''output_bytes'')]"

definition validate_status_fields :: "invocation_row \<Rightarrow> unit result" where
  "validate_status_fields r =
     (let closed = (ivr_status r \<noteq> Row_reserved); captured = (ivr_output_digest r \<noteq> None \<or> ivr_output_bytes r \<noteq> None) in
      seq_res
       [(if ivr_status r = Row_success
         then raise_if (ivr_output_digest r = None \<or> ivr_output_bytes r = None \<or> ivr_error_code r \<noteq> None)
           (ValueError ''journal_success_capture_invalid'')
         else raise_if (closed \<and> ivr_error_code r = None) (ValueError ''journal_error_code_required'')),
        raise_if (closed \<and> (ivr_program_version r = None \<or> ivr_scene_key r = None \<or> ivr_hph1 r = None
            \<or> ivr_input_digest r = None \<or> ivr_model_family r = None \<or> ivr_provider_id r = None
            \<or> ivr_transport_id r = None \<or> ivr_input_schema_version r = None \<or> ivr_output_schema_version r = None))
          (ValueError ''journal_transport_metadata_required''),
        raise_if (ivr_status r \<notin> {Row_reserved, Row_success} \<and> captured) (ValueError ''journal_error_capture_forbidden''),
        (if ivr_scene_key r = Some Key_scene_neutral
         then raise_if (ivr_scene_contract_ref r \<noteq> None) (ValueError ''journal_neutral_scene_contract_forbidden'')
         else raise_if (closed \<and> ivr_scene_contract_ref r = None) (ValueError ''journal_scene_contract_required''))])"

definition check_row :: "invocation_row \<Rightarrow> invocation_row result" where
  "check_row r = res_bind (seq_res (row_field_checks r @ [validate_status_fields r])) (\<lambda>_. Inr r)"

section \<open>The journal\<close>

record invocation_journal =
  ij_max_rows :: int
  ij_rows :: "invocation_row list"

definition new_journal :: "int \<Rightarrow> invocation_journal result" where
  "new_journal max_rows =
     (if max_rows < 1 \<or> max_rows > 18 then Inl (ValueError ''llm_invocation_journal_capacity_invalid'')
      else Inr \<lparr>ij_max_rows = max_rows, ij_rows = []\<rparr>)"

definition reserved_row :: "int \<Rightarrow> int \<Rightarrow> stage_kind \<Rightarrow> pystr \<Rightarrow> target_slot \<Rightarrow> pystr \<Rightarrow> invocation_row" where
  "reserved_row ordinal attempt stage program slot purpose =
     \<lparr>ivr_invocation_ordinal = ordinal, ivr_logical_attempt = attempt, ivr_transport_attempt = 1, ivr_stage_kind = stage,
      ivr_program_id = program, ivr_program_version = None, ivr_target_slot = slot, ivr_scene_key = None,
      ivr_scene_contract_ref = None, ivr_purpose = purpose, ivr_status = Row_reserved, ivr_osh1 = None, ivr_poh1 = None,
      ivr_hph1 = None, ivr_prh1 = None, ivr_input_digest = None, ivr_output_digest = None, ivr_error_code = None,
      ivr_model_family = None, ivr_provider_id = None, ivr_transport_id = None, ivr_input_schema_version = None,
      ivr_output_schema_version = None, ivr_latency_ms = 0, ivr_input_bytes = 0, ivr_output_bytes = None\<rparr>"

definition journal_reserve ::
  "stage_kind \<Rightarrow> pystr \<Rightarrow> target_slot \<Rightarrow> pystr \<Rightarrow> int option \<Rightarrow> invocation_journal
   \<Rightarrow> (invocation_journal \<times> invocation_row) result" where
  "journal_reserve stage program slot purpose logical_attempt j =
     (let ordinal = int (length (ij_rows j)) + 1;
          attempt = (case logical_attempt of None \<Rightarrow> ordinal | Some a \<Rightarrow> a)
      in if ordinal > ij_max_rows j then Inl (ValueError ''llm_invocation_journal_capacity_exceeded'')
         else res_bind (check_row (reserved_row ordinal attempt stage program slot purpose)) (\<lambda>row.
           Inr (j\<lparr>ij_rows := ij_rows j @ [row]\<rparr>, row)))"

definition replace_reserved :: "int \<Rightarrow> invocation_row \<Rightarrow> invocation_journal \<Rightarrow> invocation_journal result" where
  "replace_reserved ordinal replacement j =
     (if ordinal < 1 \<or> ordinal > int (length (ij_rows j)) then Inl (ValueError ''llm_invocation_journal_ordinal_invalid'')
      else if ivr_status (ij_rows j ! nat (ordinal - 1)) \<noteq> Row_reserved
      then Inl (ValueError ''llm_invocation_journal_row_closed'')
      else if ivr_invocation_ordinal replacement \<noteq> ordinal
      then Inl (ValueError ''llm_invocation_journal_ordinal_mismatch'')
      else Inr (j\<lparr>ij_rows := (ij_rows j)[nat (ordinal - 1) := replacement]\<rparr>))"

text \<open>What every journal is: no larger than its capacity, its rows numbered from one and valid.\<close>

definition journal_wf :: "invocation_journal \<Rightarrow> bool" where
  "journal_wf j =
     (1 \<le> ij_max_rows j \<and> ij_max_rows j \<le> 18 \<and> int (length (ij_rows j)) \<le> ij_max_rows j
      \<and> (\<forall>i<length (ij_rows j). ivr_invocation_ordinal (ij_rows j ! i) = int i + 1 \<and> is_ok (check_row (ij_rows j ! i))))"

lemma check_row_Inr: "check_row r = Inr r' \<Longrightarrow> r' = r \<and> check_row r = Inr r"
  by (auto simp: check_row_def res_bind_Inr_iff)

lemma new_journal_wf: "new_journal m = Inr j \<Longrightarrow> journal_wf j"
  by (auto simp: new_journal_def journal_wf_def split: if_splits)

lemma journal_reserve_Inr:
  assumes "journal_reserve stage program slot purpose attempt j = Inr (j', row)"
  shows "j' = j\<lparr>ij_rows := ij_rows j @ [row]\<rparr>" "int (length (ij_rows j)) + 1 \<le> ij_max_rows j"
    "check_row row = Inr row"
    "row = reserved_row (int (length (ij_rows j)) + 1) (case attempt of None \<Rightarrow> int (length (ij_rows j)) + 1 | Some a \<Rightarrow> a)
       stage program slot purpose"
proof -
  let ?n = "int (length (ij_rows j)) + 1"
  let ?r = "reserved_row ?n (case attempt of None \<Rightarrow> ?n | Some a \<Rightarrow> a) stage program slot purpose"
  have r: "check_row ?r = Inr row" "j' = j\<lparr>ij_rows := ij_rows j @ [row]\<rparr>" "?n \<le> ij_max_rows j"
    using assms by (auto simp: journal_reserve_def Let_def res_bind_Inr_iff split: if_splits)
  from check_row_Inr [OF r(1)] have "row = ?r" "check_row ?r = Inr ?r" by blast+
  then show "j' = j\<lparr>ij_rows := ij_rows j @ [row]\<rparr>" "?n \<le> ij_max_rows j" "check_row row = Inr row" "row = ?r"
    using r(2,3) by (simp_all only:)
qed

lemma reserved_row_simps [simp]:
  "ivr_status (reserved_row n a stage program slot purpose) = Row_reserved"
  "ivr_invocation_ordinal (reserved_row n a stage program slot purpose) = n"
  by (simp_all add: reserved_row_def)

lemma journal_reserve_wf:
  assumes "journal_wf j" "journal_reserve stage program slot purpose attempt j = Inr (j', row)"
  shows "journal_wf j'"
proof -
  have "ivr_invocation_ordinal row = int (length (ij_rows j)) + 1"
    by (subst journal_reserve_Inr(4) [OF assms(2)]) simp
  with assms(1) journal_reserve_Inr(1-3) [OF assms(2)] show ?thesis
    by (auto simp: journal_wf_def nth_append less_Suc_eq)
qed

lemma replace_reserved_Inr:
  assumes "replace_reserved n r j = Inr j'"
  shows "j' = j\<lparr>ij_rows := (ij_rows j)[nat (n - 1) := r]\<rparr>" "1 \<le> n" "n \<le> int (length (ij_rows j))"
    "ivr_status (ij_rows j ! nat (n - 1)) = Row_reserved" "ivr_invocation_ordinal r = n"
  using assms by (auto simp: replace_reserved_def split: if_splits)

lemma replace_reserved_wf:
  assumes "journal_wf j" "replace_reserved n r j = Inr j'" "is_ok (check_row r)"
  shows "journal_wf j'"
  using assms(1,3) replace_reserved_Inr [OF assms(2)]
  by (auto simp: journal_wf_def nth_list_update)

section \<open>The selector cache\<close>

text \<open>An \<open>OrderedDict\<close>, oldest entry first.\<close>

type_synonym selector_cache = "(pystr \<times> json) list"

definition cache_get :: "pystr \<Rightarrow> selector_cache \<Rightarrow> selector_cache \<times> json option" where
  "cache_get key cache =
     (case map_of cache key of
        None \<Rightarrow> (cache, None)
      | Some JNull \<Rightarrow> (cache, None)
      | Some v \<Rightarrow> (filter (\<lambda>(k, _). k \<noteq> key) cache @ [(key, v)], Some v))"

definition cache_put :: "pystr \<Rightarrow> json \<Rightarrow> selector_cache \<Rightarrow> selector_cache" where
  "cache_put key outcome cache =
     (let entries = filter (\<lambda>(k, _). k \<noteq> key) cache @ [(key, outcome)]
      in drop (length entries - 4) entries)"

section \<open>Prompt programs\<close>

text \<open>
  Prompt programs and the messages made from them: \<open>runtime/prompts/program_models.py\<close>,
  \<open>schema_canonicalization.py\<close> and \<open>budgets.py\<close>. The registry and the specifications
  are packaged JSON files; they are parameters, as the lists the loaders return.
\<close>

section \<open>Schemas\<close>

definition documentation_keys :: "pystr list" where
  "documentation_keys = [''title'', ''description'', ''examples'', ''$comment'']"

definition schema_map_keys :: "pystr list" where
  "schema_map_keys = [''$defs'', ''definitions'', ''properties'', ''patternProperties'', ''dependentSchemas'']"

definition data_value_keys :: "pystr list" where
  "data_value_keys = [''const'', ''default'', ''enum'']"

fun canonicalize_json_schema :: "json \<Rightarrow> json" where
  "canonicalize_json_schema (JList vs) = JList (map canonicalize_json_schema vs)"
| "canonicalize_json_schema (JObj kvs) =
     JObj (map (\<lambda>(k, v).
       (k, if k \<in> set schema_map_keys
           then (case v of JObj items \<Rightarrow> JObj (map (\<lambda>(name, child). (name, canonicalize_json_schema child)) items)
                 | _ \<Rightarrow> if k \<in> set data_value_keys then v else canonicalize_json_schema v)
           else if k \<in> set data_value_keys then v else canonicalize_json_schema v))
       (filter (\<lambda>(k, _). k \<notin> set documentation_keys) kvs))"
| "canonicalize_json_schema v = v"

section \<open>Programs\<close>

datatype source_purpose =
    Purpose_base | Purpose_instruction_precedence | Purpose_domain_schema | Purpose_scene_presentation | Purpose_output_schema

record prompt_source =
  psr_fragment_id :: pystr
  psr_template_name :: pystr
  psr_layer :: pystr
  psr_priority :: int
  psr_purpose :: source_purpose
  psr_frh1 :: pystr
  psr_model_families :: "pystr list"

definition check_prompt_source :: "prompt_source \<Rightarrow> unit result" where
  "check_prompt_source s = seq_res
     [raise_if (\<not> length_within 1 160 (psr_fragment_id s)) (ValueError ''fragment_id''),
      raise_if (\<not> length_within 1 240 (psr_template_name s)) (ValueError ''template_name''),
      raise_if (psr_priority s < 0) (ValueError ''priority''),
      raise_if (\<not> prefixed_hex ''frh1:'' 64 (psr_frh1 s)) (ValueError ''frh1''),
      raise_if (psr_model_families s = []) (ValueError ''model_families'')]"

record execution_spec =
  axs_spec_id :: pystr
  axs_program_id :: pystr
  axs_stage :: stage_kind
  axs_scene_key :: scene_key
  axs_role :: pystr
  axs_goal :: pystr
  axs_backstory :: pystr
  axs_task_template :: pystr
  axs_expected_output_template :: pystr
  axs_version :: int

definition check_execution_spec :: "execution_spec \<Rightarrow> execution_spec result" where
  "check_execution_spec s = res_bind (seq_res
     [raise_if (\<not> length_within 1 160 (axs_spec_id s)) (ValueError ''spec_id''),
      raise_if (\<not> length_within 1 180 (axs_program_id s)) (ValueError ''program_id''),
      raise_if (\<not> length_within 1 240 (axs_role s)) (ValueError ''role''),
      raise_if (\<not> length_within 1 500 (axs_goal s)) (ValueError ''goal''),
      raise_if (\<not> length_within 1 500 (axs_backstory s)) (ValueError ''backstory''),
      raise_if (\<not> length_within 1 500 (axs_task_template s)) (ValueError ''task_template''),
      raise_if (\<not> length_within 1 500 (axs_expected_output_template s)) (ValueError ''expected_output_template''),
      raise_if (axs_version s < 1) (ValueError ''agent_spec_version'')]) (\<lambda>_. Inr s)"

definition spec_json :: "execution_spec \<Rightarrow> json" where
  "spec_json s = JObj
     [(''spec_id'', JStr (axs_spec_id s)), (''program_id'', JStr (axs_program_id s)),
      (''stage'', JStr (stage_kind_str (axs_stage s))), (''scene_key'', JStr (scene_key_str (axs_scene_key s))),
      (''status'', JStr ''active''), (''role'', JStr (axs_role s)), (''goal'', JStr (axs_goal s)),
      (''backstory'', JStr (axs_backstory s)), (''task_template'', JStr (axs_task_template s)),
      (''expected_output_template'', JStr (axs_expected_output_template s)),
      (''agent_spec_version'', JInt (axs_version s))]"

record prompt_program_v2 =
  ppg_program_id :: pystr
  ppg_program_version :: pystr
  ppg_stage :: stage_kind
  ppg_scene_key :: scene_key
  ppg_sources :: "prompt_source list"
  ppg_scene_contract_id :: "pystr option"
  ppg_scene_contract_version :: "pystr option"

definition universal_precedence :: pystr where
  "universal_precedence = ''instruction.registered_over_untrusted_data.v1''"

definition validate_program :: "prompt_program_v2 \<Rightarrow> unit result" where
  "validate_program p =
     (let precedence = filter (\<lambda>s. psr_purpose s = Purpose_instruction_precedence) (ppg_sources p);
          scenes = filter (\<lambda>s. psr_purpose s = Purpose_scene_presentation) (ppg_sources p)
      in seq_res
       [raise_if (precedence = []) (ValueError ''prompt_program_precedence_missing''),
        raise_if (length (filter (\<lambda>s. psr_fragment_id s = universal_precedence) precedence) \<noteq> 1)
          (ValueError ''prompt_program_universal_precedence_count''),
        (case ppg_scene_key p of
           Key_scene_neutral \<Rightarrow> raise_if (scenes \<noteq> [] \<or> ppg_scene_contract_id p \<noteq> None)
             (ValueError ''neutral_program_scene_forbidden'')
         | _ \<Rightarrow> raise_if (length scenes \<noteq> 1 \<or> ppg_scene_contract_id p = None)
             (ValueError ''user_program_scene_required''))])"

definition check_prompt_program :: "prompt_program_v2 \<Rightarrow> prompt_program_v2 result" where
  "check_prompt_program p = res_bind (seq_res
     ([raise_if (\<not> length_within 1 180 (ppg_program_id p)) (ValueError ''program_id''),
       raise_if (\<not> length_within 1 40 (ppg_program_version p)) (ValueError ''program_version'')]
      @ map check_prompt_source (ppg_sources p)
      @ [raise_if (ppg_sources p = []) (ValueError ''sources''), validate_program p])) (\<lambda>_. Inr p)"

section \<open>The registry\<close>

record program_registry =
  prg_programs :: "prompt_program_v2 list"
  prg_specs :: "execution_spec list"

definition load_program_registry :: "prompt_program_v2 list \<Rightarrow> execution_spec list \<Rightarrow> program_registry result" where
  "load_program_registry programs specs =
     res_bind (map_res check_prompt_program programs) (\<lambda>ps.
     res_bind (map_res check_execution_spec specs) (\<lambda>ss. Inr \<lparr>prg_programs = ps, prg_specs = ss\<rparr>))"

definition resolve_agent_execution_spec_v1 :: "program_registry \<Rightarrow> pystr \<Rightarrow> execution_spec result" where
  "resolve_agent_execution_spec_v1 reg program_id =
     (case filter (\<lambda>s. axs_program_id s = program_id) (prg_specs reg) of
        [s] \<Rightarrow> Inr s | _ \<Rightarrow> Inl (ValueError ''prompt_program_v2_execution_spec_missing''))"

definition resolve_active_prompt_program_v2 ::
  "program_registry \<Rightarrow> stage_kind \<Rightarrow> scene_key \<Rightarrow> (prompt_program_v2 \<times> execution_spec) result" where
  "resolve_active_prompt_program_v2 reg stage key =
     (case filter (\<lambda>p. ppg_stage p = stage \<and> ppg_scene_key p = key) (prg_programs reg) of
        [p] \<Rightarrow>
          (case filter (\<lambda>s. axs_program_id s = ppg_program_id p \<and> axs_stage s = stage \<and> axs_scene_key s = key)
              (prg_specs reg) of
             [s] \<Rightarrow> Inr (p, s) | _ \<Rightarrow> Inl (ValueError ''prompt_program_v2_execution_spec_missing''))
      | _ \<Rightarrow> Inl (ValueError ''prompt_program_v2_authority_missing''))"

definition active_prompt_source_ids_v2 :: "prompt_program_v2 \<Rightarrow> pystr \<Rightarrow> pystr list result" where
  "active_prompt_source_ids_v2 p family =
     (case map psr_fragment_id (filter (\<lambda>s. family \<in> set (psr_model_families s)) (sort_key psr_priority (ppg_sources p))) of
        [] \<Rightarrow> Inl (ValueError ''prompt_program_v2_model_family_missing'') | ids \<Rightarrow> Inr ids)"

definition require_active_prompt_program_v2 ::
  "program_registry \<Rightarrow> pystr \<Rightarrow> stage_kind \<Rightarrow> scene_key \<Rightarrow> pystr option \<Rightarrow> pystr option \<Rightarrow> prompt_program_v2 result" where
  "require_active_prompt_program_v2 reg program_id stage key contract_id contract_version =
     res_bind (resolve_active_prompt_program_v2 reg stage key) (\<lambda>(p, s).
       if ppg_program_id p \<noteq> program_id \<or> ppg_scene_contract_id p \<noteq> contract_id
          \<or> ppg_scene_contract_version p \<noteq> contract_version
       then Inl (ValueError ''prompt_program_v2_authority_mismatch'') else Inr p)"

definition program_contract_ref :: "prompt_program_v2 \<Rightarrow> pystr option" where
  "program_contract_ref p =
     (case (ppg_scene_contract_id p, ppg_scene_contract_version p) of
        (Some i, Some v) \<Rightarrow> Some (i @ ''@'' @ v) | _ \<Rightarrow> None)"

lemma resolve_active_Inr:
  assumes "resolve_active_prompt_program_v2 reg stage key = Inr (p, s)"
  shows "p \<in> set (prg_programs reg)" "ppg_stage p = stage" "ppg_scene_key p = key"
    "s \<in> set (prg_specs reg)" "axs_program_id s = ppg_program_id p"
  using assms
  by (auto simp: resolve_active_prompt_program_v2_def filter_eq_Cons_iff split: list.splits)

section \<open>Messages\<close>

fun stage_of_contract :: "json \<Rightarrow> stage_kind option" where
  "stage_of_contract (JObj kvs) =
     (case map_of kvs ''contract_version'' of
        Some (JStr v) \<Rightarrow> map_of
          [(''planner-prompt-input.v1'', Stage_planner_intent), (''knowledge-composer-input.v1'', Stage_knowledge_composer),
           (''smalltalk-composer-input.v1'', Stage_smalltalk_composer),
           (''alignment-verifier-input.v1'', Stage_alignment_verifier),
           (''approved-knowledge-selector-input.v1'', Stage_approved_knowledge_selector),
           (''document-product-selector-input.v1'', Stage_document_product_selector),
           (''llm-health-probe-input.v1'', Stage_llm_health_probe)] v
      | _ \<Rightarrow> None)"
| "stage_of_contract _ = None"

record direct_synthesis =
  syn_spec :: execution_spec
  syn_schema_name :: pystr
  syn_schema :: json
  syn_program_id :: pystr
  syn_program_version :: pystr
  syn_program_text :: pystr
  syn_stage_input :: json

definition output_schema_json :: "direct_synthesis \<Rightarrow> json" where
  "output_schema_json s = JObj
     [(''name'', JStr (syn_schema_name s)), (''strict'', JBool True), (''json_schema'', syn_schema s)]"

definition system_payload_json :: "direct_synthesis \<Rightarrow> json" where
  "system_payload_json s = JObj
     [(''contract_version'', JStr ''direct-provider-system-payload.v1''),
      (''agent_execution_spec'', spec_json (syn_spec s)), (''output_schema'', output_schema_json s),
      (''instruction_precedence'', JStr ''registered_instructions_over_untrusted_stage_data.v1'')]"

definition user_payload_json :: "direct_synthesis \<Rightarrow> json" where
  "user_payload_json s = JObj
     [(''contract_version'', JStr ''direct-provider-user-payload.v1''),
      (''prompt_program_id'', JStr (syn_program_id s)), (''prompt_program_version'', JStr (syn_program_version s)),
      (''prompt_program_text'', JStr (syn_program_text s)), (''stage_input'', syn_stage_input s)]"

text \<open>The texts of the two messages: canonical bytes decoded again, so the canonical text.\<close>

definition system_message :: "direct_synthesis \<Rightarrow> pystr" where
  "system_message s = json_text False (system_payload_json s)"

definition user_message :: "direct_synthesis \<Rightarrow> pystr" where
  "user_message s = json_text False (user_payload_json s)"

definition message_json :: "pystr \<Rightarrow> pystr \<Rightarrow> json" where
  "message_json role content = JObj [(''role'', JStr role), (''content'', JStr content), (''tool_call_id'', JNull)]"

definition messages_json :: "direct_synthesis \<Rightarrow> json list" where
  "messages_json s = [message_json ''system'' (system_message s), message_json ''user'' (user_message s)]"

definition synthesis_json :: "direct_synthesis \<Rightarrow> json" where
  "synthesis_json s = JObj
     [(''contract_version'', JStr ''direct-provider-synthesis.v1''), (''system_payload'', system_payload_json s),
      (''user_payload'', user_payload_json s), (''messages'', JList (messages_json s))]"

definition synthesize_direct_provider_messages ::
  "prompt_program_v2 \<Rightarrow> execution_spec \<Rightarrow> pystr \<Rightarrow> json \<Rightarrow> pystr \<Rightarrow> json \<Rightarrow> direct_synthesis result" where
  "synthesize_direct_provider_messages p spec prompt_text stage_input schema_name schema =
     (let s = \<lparr>syn_spec = spec, syn_schema_name = schema_name, syn_schema = canonicalize_json_schema schema,
          syn_program_id = ppg_program_id p, syn_program_version = ppg_program_version p,
          syn_program_text = prompt_text, syn_stage_input = stage_input\<rparr>
      in if axs_program_id spec \<noteq> ppg_program_id p \<or> axs_stage spec \<noteq> ppg_stage p \<or> axs_scene_key spec \<noteq> ppg_scene_key p
         then Inl (ValueError ''direct_provider_execution_spec_mismatch'')
         else if stage_of_contract stage_input \<noteq> Some (ppg_stage p)
         then Inl (ValueError ''direct_provider_stage_input_mismatch'')
         else res_bind (seq_res
           [raise_if (\<not> length_within 1 160 schema_name) (ValueError ''name''),
            raise_if (\<not> length_within 1 2000000 prompt_text) (ValueError ''prompt_program_text''),
            raise_if (length (system_message s) > 2000000) (ValueError ''content''),
            raise_if (length (user_message s) > 2000000) (ValueError ''content'')]) (\<lambda>_. Inr s))"

definition direct_synthesis_stage_kind :: "direct_synthesis \<Rightarrow> stage_kind result" where
  "direct_synthesis_stage_kind s =
     (case stage_of_contract (syn_stage_input s) of
        None \<Rightarrow> Inl (ValueError ''direct_provider_stage_input_mismatch'') | Some k \<Rightarrow> Inr k)"

definition synthesis_osh1 :: "(pybytes \<Rightarrow> pystr) \<Rightarrow> direct_synthesis \<Rightarrow> pystr" where
  "synthesis_osh1 sha s = sha256_frame sha ''output-schema.v1'' (syn_schema s) ''osh1''"

definition synthesis_mch1 :: "(pybytes \<Rightarrow> pystr) \<Rightarrow> direct_synthesis \<Rightarrow> pystr" where
  "synthesis_mch1 sha s = sha256_frame sha ''model-visible-context.v1'' (syn_stage_input s) ''mch1''"

definition prompt_hph1 :: "(pybytes \<Rightarrow> pystr) \<Rightarrow> pystr \<Rightarrow> execution_spec \<Rightarrow> pystr" where
  "prompt_hph1 sha rendered spec =
     sha256_frame sha ''harness-prompt.v1'' (JObj [(''agent_execution_spec'', spec_json spec), (''prompt_text'', JStr rendered)]) ''hph1''"

section \<open>Budgets\<close>

record static_budget =
  sbg_program_id :: pystr
  sbg_model_family :: pystr
  sbg_scene_key :: scene_key
  sbg_baseline_bytes :: int
  sbg_allowed_max_bytes :: int

definition check_static_budget :: "static_budget \<Rightarrow> static_budget result" where
  "check_static_budget b = res_bind (seq_res
     [raise_if (\<not> length_within 1 160 (sbg_program_id b)) (ValueError ''program_id''),
      raise_if (\<not> length_within 1 80 (sbg_model_family b)) (ValueError ''model_family''),
      raise_if (sbg_baseline_bytes b < 0) (ValueError ''baseline_bytes''),
      raise_if (sbg_allowed_max_bytes b < 0) (ValueError ''allowed_max_bytes''),
      raise_if (sbg_allowed_max_bytes b \<noteq> sbg_baseline_bytes b + max ((sbg_baseline_bytes b + 9) div 10) 1024)
        (ValueError ''prompt_static_budget_formula_mismatch'')]) (\<lambda>_. Inr b)"

definition budget_key :: "static_budget \<Rightarrow> pystr \<times> pystr \<times> scene_key" where
  "budget_key b = (sbg_program_id b, sbg_model_family b, sbg_scene_key b)"

definition check_budget_registry :: "static_budget list \<Rightarrow> static_budget list result" where
  "check_budget_registry rows =
     res_bind (map_res check_static_budget rows) (\<lambda>rs.
       if distinct (map budget_key rs) then Inr rs else Inl (ValueError ''duplicate_prompt_static_budget_key''))"

definition budget_row_for :: "static_budget list \<Rightarrow> pystr \<Rightarrow> pystr \<Rightarrow> scene_key \<Rightarrow> static_budget result" where
  "budget_row_for rows program family key =
     (case filter (\<lambda>r. budget_key r = (program, family, key)) rows of
        [r] \<Rightarrow> Inr r | _ \<Rightarrow> Inl (ValueError ''prompt_static_budget_row_missing''))"

definition assert_within_budget :: "static_budget \<Rightarrow> int \<Rightarrow> unit result" where
  "assert_within_budget b actual = raise_if (actual > sbg_allowed_max_bytes b) (ValueError ''prompt_static_budget_exceeded'')"

end
