(* ===== verification/Provider_Transport.thy ===== *)
theory Provider_Transport
  imports Prompt_Programs Complex_Main
begin

text \<open>
  Provider targets, wire bodies and answers: \<open>runtime/prompts/provider_target.py\<close>,
  \<open>provider_transport.py\<close>, \<open>provider_response_text.py\<close> and \<open>provider_errors.py\<close>.

  Parsing a URL into its parts, an address or an IDNA name is the standard library's and a parameter.
  Characters of the model are below 256, so a text has no surrogates and the branch for them is never taken.
\<close>

section \<open>Failure codes\<close>

definition provider_failure_codes :: "pystr list" where
  "provider_failure_codes =
     [''provider_output_missing'', ''provider_output_type'', ''provider_output_encoding'', ''provider_output_too_large'',
      ''provider_output_contract'', ''provider_timeout'', ''provider_auth_failed'', ''provider_rate_limited'',
      ''provider_http_error'', ''provider_transport_unavailable'', ''provider_internal_error'',
      ''direct_provider_stdio_violation'']"

definition normalize_provider_failure_code :: "pystr \<Rightarrow> pystr" where
  "normalize_provider_failure_code code =
     (if code \<in> set provider_failure_codes then code else ''provider_transport_unavailable'')"

definition provider_http_failure_code :: "int \<Rightarrow> pystr" where
  "provider_http_failure_code status =
     (if status = 401 \<or> status = 403 then ''provider_auth_failed''
      else if status = 429 then ''provider_rate_limited'' else ''provider_http_error'')"

definition output_failure_codes :: "pystr list" where
  "output_failure_codes =
     [''provider_output_missing'', ''provider_output_type'', ''provider_output_encoding'', ''provider_output_too_large'',
      ''provider_output_contract'']"

definition is_provider_output_failure :: "pystr \<Rightarrow> bool" where
  "is_provider_output_failure code = (code \<in> set output_failure_codes)"

section \<open>Targets\<close>

datatype provider_id = Openai_compatible | Gemini

datatype transport_variant = Openai_chat_completions | Gemini_generate_content

fun provider_id_str :: "provider_id \<Rightarrow> pystr" where
  "provider_id_str Openai_compatible = ''openai_compatible''"
| "provider_id_str Gemini = ''gemini''"

fun variant_str :: "transport_variant \<Rightarrow> pystr" where
  "variant_str Openai_chat_completions = ''openai_chat_completions''"
| "variant_str Gemini_generate_content = ''gemini_generate_content''"

definition normalize_provider_id :: "pystr \<Rightarrow> provider_id result" where
  "normalize_provider_id provider =
     (let n = py_lower (py_strip provider) in
      if n \<in> {''gemini'', ''google'', ''google-genai'', ''google_genai''} then Inr Gemini
      else if n \<in> {''openai'', ''deepseek'', ''internal-gateway'', ''openai-compatible'', ''openai_compatible''}
      then Inr Openai_compatible
      else Inl (ValueError ''provider_variant_unknown''))"

definition model_family_from_model_name :: "pystr \<Rightarrow> pystr" where
  "model_family_from_model_name name =
     (let n = py_lower name in
      if py_in ''deepseek-v4-pro'' n \<or> py_in ''ds-v4pro'' n \<or> py_in ''v4-pro'' n then ''ds_v4pro''
      else if py_in ''deepseek'' n then ''deepseek''
      else if py_in ''gpt'' n then ''gpt''
      else if py_in ''claude'' n then ''claude''
      else ''generic'')"

fun transport_variant_for_provider :: "provider_id \<Rightarrow> transport_variant" where
  "transport_variant_for_provider Openai_compatible = Openai_chat_completions"
| "transport_variant_for_provider Gemini = Gemini_generate_content"

text \<open>What \<open>urlsplit\<close> makes of the stripped base URL; a port out of range is an error when read.\<close>

record split_url =
  url_scheme :: pystr
  url_netloc :: pystr
  url_hostname :: "pystr option"
  url_username :: "pystr option"
  url_password :: "pystr option"
  url_port :: "int option result"
  url_path :: pystr
  url_query :: pystr
  url_fragment :: pystr

datatype host_address = Host_ipv4 pystr | Host_ipv6 pystr | Host_name pystr

record url_library =
  ul_split :: "pystr \<Rightarrow> split_url result"
  ul_ip_address :: "pystr \<Rightarrow> host_address option"
  ul_idna :: "pystr \<Rightarrow> pystr option"

definition py_rstrip_char :: "char \<Rightarrow> pystr \<Rightarrow> pystr" where
  "py_rstrip_char c s = rev (dropWhile (\<lambda>d. d = c) (rev s))"

fun split_on :: "char \<Rightarrow> pystr \<Rightarrow> pystr list" where
  "split_on c [] = [[]]"
| "split_on c (d # ds) =
     (if d = c then [] # split_on c ds
      else (case split_on c ds of [] \<Rightarrow> [[d]] | w # ws \<Rightarrow> (d # w) # ws))"

text \<open>\<open>isdecimal\<close> and \<open>isdigit\<close>; the latter takes superscript digits too.\<close>

definition decimal_text :: "pystr \<Rightarrow> bool" where
  "decimal_text s = (s \<noteq> [] \<and> list_all is_digit s)"

definition digit_text :: "pystr \<Rightarrow> bool" where
  "digit_text s = (s \<noteq> [] \<and> list_all (\<lambda>c. is_digit c \<or> c \<in> {CHR 0xB2, CHR 0xB3, CHR 0xB9}) s)"

definition looks_numeric_host :: "pystr \<Rightarrow> bool" where
  "looks_numeric_host host =
     (startswith host ''0x'' \<or> decimal_text host \<or> CHR '':'' \<in> set host
      \<or> list_all (\<lambda>label. decimal_text label
          \<or> (length label > 1 \<and> startswith label ''0'' \<and> digit_text (drop 1 label))
          \<or> (startswith label ''0x'' \<and> length label > 2)) (split_on CHR ''.'' host))"

definition normalize_host :: "url_library \<Rightarrow> pystr \<Rightarrow> host_address result" where
  "normalize_host lib host =
     (let n = py_lower (py_rstrip_char CHR ''.'' host) in
      if n = [] \<or> (2 \<le> length host \<and> drop (length host - 2) host = ''..'')
      then Inl (ValueError ''provider_endpoint_host_invalid'')
      else case ul_ip_address lib n of
        Some a \<Rightarrow> Inr a
      | None \<Rightarrow> if looks_numeric_host n then Inl (ValueError ''provider_endpoint_host_invalid'')
          else (case ul_idna lib n of
              Some t \<Rightarrow> Inr (Host_name t) | None \<Rightarrow> Inl (ValueError ''provider_endpoint_host_invalid'')))"

fun host_authority :: "host_address \<Rightarrow> pystr" where
  "host_authority (Host_ipv4 t) = t"
| "host_authority (Host_ipv6 t) = ''['' @ t @ '']''"
| "host_authority (Host_name t) = t"

definition endpoint_of_parts :: "url_library \<Rightarrow> split_url \<Rightarrow> pystr result" where
  "endpoint_of_parts lib u =
     (let scheme = py_lower (url_scheme u) in
      if scheme \<noteq> ''http'' \<and> scheme \<noteq> ''https'' then Inl (ValueError ''provider_endpoint_scheme_invalid'')
      else case url_hostname u of
        None \<Rightarrow> Inl (ValueError ''provider_endpoint_absolute_required'')
      | Some hostname \<Rightarrow>
          if url_netloc u = [] then Inl (ValueError ''provider_endpoint_absolute_required'')
          else if url_username u \<noteq> None \<or> url_password u \<noteq> None
          then Inl (ValueError ''provider_endpoint_userinfo_forbidden'')
          else if url_query u \<noteq> [] \<or> url_fragment u \<noteq> []
          then Inl (ValueError ''provider_endpoint_query_fragment_forbidden'')
          else (case url_port u of
            Inl e \<Rightarrow> Inl (ValueError ''provider_endpoint_port_invalid'')
          | Inr port \<Rightarrow> res_bind (normalize_host lib hostname) (\<lambda>host.
              let authority = host_authority host
                    @ (case port of None \<Rightarrow> []
                       | Some p \<Rightarrow> if (scheme = ''http'' \<and> p = 80) \<or> (scheme = ''https'' \<and> p = 443) then []
                                   else '':'' @ int_str p);
                  path = (if url_path u = [] then ''/'' else url_path u);
                  path = (if path = ''/'' then path
                          else let t = py_rstrip_char CHR ''/'' path in if t = [] then ''/'' else t)
              in Inr (scheme @ ''://'' @ authority @ path))))"

definition url_blank :: "char \<Rightarrow> bool" where
  "url_blank c = (c \<in> {CHR '' '', CHR 0x09, CHR 0x0A, CHR 0x0D, CHR 0x0C, CHR 0x0B})"

definition normalize_provider_endpoint :: "url_library \<Rightarrow> pystr \<Rightarrow> pystr result" where
  "normalize_provider_endpoint lib base_url =
     res_bind (ul_split lib (rev (dropWhile url_blank (rev (dropWhile url_blank base_url))))) (endpoint_of_parts lib)"

definition internal_sdk_endpoint :: pystr where
  "internal_sdk_endpoint = ''sdk://crewai''"

record provider_target =
  ptg_provider_id :: provider_id
  ptg_target_slot :: target_slot
  ptg_model_family :: pystr
  ptg_model_name :: pystr
  ptg_endpoint :: pystr
  ptg_variant :: transport_variant
  ptg_api_key_configured :: bool
  ptg_timeout_seconds :: rat
  ptg_temperature :: rat
  ptg_max_tokens :: int
  ptg_thinking_config :: "json option"

definition check_provider_target :: "provider_target \<Rightarrow> provider_target result" where
  "check_provider_target t = res_bind (seq_res
     [raise_if (\<not> length_within 1 160 (ptg_model_name t)) (ValueError ''model_name''),
      raise_if (\<not> length_within 1 512 (ptg_endpoint t)) (ValueError ''normalized_endpoint''),
      raise_if (\<not> (1 / 10 \<le> ptg_timeout_seconds t \<and> ptg_timeout_seconds t \<le> 30)) (ValueError ''timeout_seconds''),
      raise_if (ptg_temperature t < 0) (ValueError ''temperature''),
      raise_if (ptg_max_tokens t \<le> 0) (ValueError ''max_tokens''),
      raise_if (ptg_variant t \<noteq> transport_variant_for_provider (ptg_provider_id t))
        (ValueError ''provider_target_transport_mismatch'')]) (\<lambda>_. Inr t)"

definition build_target ::
  "pystr \<Rightarrow> pystr \<Rightarrow> pystr result \<Rightarrow> bool \<Rightarrow> target_slot \<Rightarrow> rat \<Rightarrow> rat \<Rightarrow> int \<Rightarrow> json option \<Rightarrow> provider_target result" where
  "build_target provider model endpoint key_configured slot timeout temperature max_tokens thinking =
     res_bind (normalize_provider_id provider) (\<lambda>pid.
     res_bind endpoint (\<lambda>e.
       check_provider_target
         \<lparr>ptg_provider_id = pid, ptg_target_slot = slot, ptg_model_family = model_family_from_model_name model,
          ptg_model_name = model, ptg_endpoint = e, ptg_variant = transport_variant_for_provider pid,
          ptg_api_key_configured = key_configured, ptg_timeout_seconds = timeout, ptg_temperature = temperature,
          ptg_max_tokens = max_tokens, ptg_thinking_config = thinking\<rparr>))"

definition build_provider_target_from_settings ::
  "url_library \<Rightarrow> pystr \<Rightarrow> pystr \<Rightarrow> pystr \<Rightarrow> bool \<Rightarrow> target_slot \<Rightarrow> rat \<Rightarrow> rat \<Rightarrow> int \<Rightarrow> provider_target result" where
  "build_provider_target_from_settings lib provider model base_url key_configured slot timeout temperature max_tokens =
     build_target provider model (normalize_provider_endpoint lib base_url) key_configured slot timeout temperature
       max_tokens None"

definition build_internal_crewai_sdk_target ::
  "pystr \<Rightarrow> pystr \<Rightarrow> bool \<Rightarrow> target_slot \<Rightarrow> rat \<Rightarrow> rat \<Rightarrow> int \<Rightarrow> json option \<Rightarrow> provider_target result" where
  "build_internal_crewai_sdk_target provider model key_configured slot timeout temperature max_tokens thinking =
     build_target provider model (Inr internal_sdk_endpoint) key_configured slot timeout temperature max_tokens thinking"

text \<open>The URL that a call posts to.\<close>

definition provider_url :: "provider_target \<Rightarrow> pystr" where
  "provider_url t =
     ptg_endpoint t @ (case ptg_variant t of
        Openai_chat_completions \<Rightarrow> ''/chat/completions''
      | Gemini_generate_content \<Rightarrow> ''/models/'' @ ptg_model_name t @ '':generateContent'')"

section \<open>Envelopes\<close>

record transport_envelope =
  env_variant :: transport_variant
  env_stage_kind :: stage_kind
  env_target_slot :: target_slot
  env_provider_id :: provider_id
  env_model_family :: pystr
  env_model :: pystr
  env_schema_version :: pystr
  env_canonical_schema :: json
  env_provider_schema :: json
  env_body :: json

text \<open>The validator of the two schema fields; constructing and reading an envelope both run it.\<close>

definition canonicalize_schema_fields :: "transport_envelope \<Rightarrow> transport_envelope" where
  "canonicalize_schema_fields e =
     e\<lparr>env_canonical_schema := canonicalize_json_schema (env_canonical_schema e),
       env_provider_schema := canonicalize_json_schema (env_provider_schema e)\<rparr>"

definition make_envelope ::
  "provider_target \<Rightarrow> stage_kind \<Rightarrow> json \<Rightarrow> json \<Rightarrow> json \<Rightarrow> transport_envelope" where
  "make_envelope t stage canonical provider_schema body =
     canonicalize_schema_fields \<lparr>env_variant = ptg_variant t, env_stage_kind = stage, env_target_slot = ptg_target_slot t,
      env_provider_id = ptg_provider_id t, env_model_family = ptg_model_family t, env_model = ptg_model_name t,
      env_schema_version = (case ptg_variant t of Openai_chat_completions \<Rightarrow> ''openai-response-format.v1''
        | Gemini_generate_content \<Rightarrow> ''gemini-provider-schema.v1''),
      env_canonical_schema = canonical, env_provider_schema = provider_schema, env_body = body\<rparr>"

definition envelope_json :: "transport_envelope \<Rightarrow> json" where
  "envelope_json e = JObj
     [(''contract_version'', JStr ''provider-transport-envelope.v1''), (''variant'', JStr (variant_str (env_variant e))),
      (''stage_kind'', JStr (stage_kind_str (env_stage_kind e))), (''target_slot'', JStr (target_slot_str (env_target_slot e))),
      (''provider_id'', JStr (provider_id_str (env_provider_id e))), (''model_family'', JStr (env_model_family e)),
      (''model'', JStr (env_model e)), (''provider_schema_transform_version'', JStr (env_schema_version e)),
      (''canonical_schema_transform_version'', JStr ''canonical-json-schema-strip-docs.v1''),
      (''canonical_output_schema'', env_canonical_schema e), (''provider_output_schema'', env_provider_schema e),
      (''body'', env_body e)]"

definition envelope_osh1 :: "(pybytes \<Rightarrow> pystr) \<Rightarrow> transport_envelope \<Rightarrow> pystr" where
  "envelope_osh1 sha e = sha256_frame sha ''output-schema.v1'' (env_canonical_schema e) ''osh1''"

definition envelope_poh1 :: "(pybytes \<Rightarrow> pystr) \<Rightarrow> transport_envelope \<Rightarrow> pystr" where
  "envelope_poh1 sha e = sha256_frame sha ''provider-output-schema.v1'' (JObj
     [(''model_family'', JStr (env_model_family e)), (''provider_id'', JStr (provider_id_str (env_provider_id e))),
      (''provider_output_schema'', env_provider_schema e), (''schema_transform_version'', JStr (env_schema_version e))]) ''poh1''"

definition envelope_prh1 :: "(pybytes \<Rightarrow> pystr) \<Rightarrow> transport_envelope \<Rightarrow> pystr" where
  "envelope_prh1 sha e = hash_canonical_model sha ''provider-visible-prompt.v1'' (envelope_json e) ''prh1''"

definition aggregate_input_limit :: nat where
  "aggregate_input_limit = 2000000"

definition assert_within_aggregate_budget :: "direct_synthesis \<Rightarrow> unit result" where
  "assert_within_aggregate_budget s =
     raise_if (length (canonical_json_bytes (synthesis_json s)) + 4096 > aggregate_input_limit)
       (ValueError ''provider_aggregate_input_budget_exceeded'')"

definition openai_schema :: "direct_synthesis \<Rightarrow> json" where
  "openai_schema s = JObj [(''name'', JStr (syn_schema_name s)), (''schema'', syn_schema s), (''strict'', JBool True)]"

definition openai_body :: "(rat \<Rightarrow> pystr) \<Rightarrow> direct_synthesis \<Rightarrow> provider_target \<Rightarrow> json" where
  "openai_body float_text s t = JObj
     [(''model'', JStr (ptg_model_name t)), (''messages'', JList (messages_json s)),
      (''temperature'', JFloat (float_text (ptg_temperature t))), (''max_tokens'', JInt (ptg_max_tokens t)),
      (''response_format'', JObj [(''type'', JStr ''json_schema''), (''json_schema'', openai_schema s)])]"

definition gemini_body :: "(rat \<Rightarrow> pystr) \<Rightarrow> direct_synthesis \<Rightarrow> provider_target \<Rightarrow> json" where
  "gemini_body float_text s t = JObj
     [(''model'', JStr (ptg_model_name t)), (''system_instruction'', JStr (system_message s)),
      (''contents'', JList [JObj [(''role'', JStr ''user''), (''parts'', JList [JObj [(''text'', JStr (user_message s))]])]]),
      (''config'', JObj
        ([(''temperature'', JFloat (float_text (ptg_temperature t))), (''max_output_tokens'', JInt (ptg_max_tokens t)),
          (''response_mime_type'', JStr ''application/json''), (''response_json_schema'', syn_schema s)]
         @ (case ptg_thinking_config t of None \<Rightarrow> [] | Some c \<Rightarrow> [(''thinking_config'', c)])))]"

definition build_provider_transport_envelope ::
  "(rat \<Rightarrow> pystr) \<Rightarrow> direct_synthesis \<Rightarrow> provider_target \<Rightarrow> transport_envelope result" where
  "build_provider_transport_envelope float_text s t =
     res_bind (assert_within_aggregate_budget s) (\<lambda>_.
     res_bind (direct_synthesis_stage_kind s) (\<lambda>stage.
       Inr (case ptg_variant t of
          Openai_chat_completions \<Rightarrow> make_envelope t stage (syn_schema s) (openai_schema s) (openai_body float_text s t)
        | Gemini_generate_content \<Rightarrow> make_envelope t stage (syn_schema s) (syn_schema s) (gemini_body float_text s t))))"

section \<open>Answers\<close>

datatype capture_status =
    Available_text | Missing_text | Non_string_text | Invalid_utf8 | Oversize_text | Output_contract_error

record output_capture =
  cap_status :: capture_status
  cap_text :: "pystr option"
  cap_byte_count :: int
  cap_error_code :: "pystr option"

definition failed_capture :: "capture_status \<Rightarrow> int \<Rightarrow> pystr \<Rightarrow> output_capture" where
  "failed_capture status n code =
     \<lparr>cap_status = status, cap_text = None, cap_byte_count = n, cap_error_code = Some code\<rparr>"

datatype raw_output = Raw_none | Raw_bytes pybytes | Raw_text pystr | Raw_other

text \<open>\<open>accepts\<close> tells whether \<open>response_model.model_validate_json\<close> takes a text.\<close>

definition capture_string :: "(pystr \<Rightarrow> bool) \<Rightarrow> nat \<Rightarrow> pystr \<Rightarrow> output_capture" where
  "capture_string accepts max_bytes t =
     (let n = length (utf8 t) in
      if n > max_bytes then failed_capture Oversize_text (int n) ''provider_output_too_large''
      else if \<not> accepts t then failed_capture Output_contract_error (int n) ''provider_output_contract''
      else \<lparr>cap_status = Available_text, cap_text = Some t, cap_byte_count = int n, cap_error_code = None\<rparr>)"

definition capture_provider_text_output ::
  "(pybytes \<Rightarrow> pystr option) \<Rightarrow> (pystr \<Rightarrow> bool) \<Rightarrow> raw_output \<Rightarrow> output_capture" where
  "capture_provider_text_output decode accepts value =
     (case value of
        Raw_none \<Rightarrow> failed_capture Missing_text 0 ''provider_output_missing''
      | Raw_bytes b \<Rightarrow> (case decode b of
            None \<Rightarrow> failed_capture Invalid_utf8 (int (length b)) ''provider_output_encoding''
          | Some t \<Rightarrow> capture_string accepts aggregate_input_limit t)
      | Raw_text t \<Rightarrow> capture_string accepts aggregate_input_limit t
      | Raw_other \<Rightarrow> failed_capture Non_string_text 0 ''provider_output_type'')"

definition capture_out1 :: "(pybytes \<Rightarrow> pystr) \<Rightarrow> output_capture \<Rightarrow> pystr result" where
  "capture_out1 sha c =
     (case cap_text c of
        Some t \<Rightarrow> if cap_status c = Available_text
          then Inr (''out1:'' @ sha (''provider-output-text.v1'' @ [CHR 0x00] @ utf8 t))
          else Inl (ValueError ''provider_output_text_hash_unavailable'')
      | None \<Rightarrow> Inl (ValueError ''provider_output_text_hash_unavailable''))"

text \<open>The members of a parsed answer; the parse itself is a parameter of the call.\<close>

definition member_of :: "pystr \<Rightarrow> json \<Rightarrow> json result" where
  "member_of key v =
     (case v of JObj kvs \<Rightarrow> (case map_of kvs key of
          Some x \<Rightarrow> Inr x | None \<Rightarrow> Inl (ProviderInvocationError ''provider_output_missing''))
      | _ \<Rightarrow> Inl (ProviderInvocationError ''provider_output_type''))"

definition first_of :: "json \<Rightarrow> json result" where
  "first_of v =
     (case v of JList (x # _) \<Rightarrow> Inr x | JList [] \<Rightarrow> Inl (ProviderInvocationError ''provider_output_missing'')
      | _ \<Rightarrow> Inl (ProviderInvocationError ''provider_output_type''))"

definition text_of :: "json \<Rightarrow> pystr result" where
  "text_of v = (case v of JStr t \<Rightarrow> Inr t | _ \<Rightarrow> Inl (ProviderInvocationError ''provider_output_type''))"

definition openai_response_text :: "json \<Rightarrow> pystr result" where
  "openai_response_text payload =
     res_bind (member_of ''choices'' payload) (\<lambda>choices.
     res_bind (first_of choices) (\<lambda>choice.
     res_bind (member_of ''message'' choice) (\<lambda>message.
     res_bind (member_of ''content'' message) text_of)))"

definition gemini_parts :: "json \<Rightarrow> json list" where
  "gemini_parts v =
     (case v of JList ps \<Rightarrow> List.map_filter (\<lambda>p. case p of JObj kvs \<Rightarrow> map_of kvs ''text'' | _ \<Rightarrow> None) ps | _ \<Rightarrow> [])"

definition gemini_response_text :: "json \<Rightarrow> pystr result" where
  "gemini_response_text payload =
     res_bind (member_of ''candidates'' payload) (\<lambda>candidates.
     res_bind (first_of candidates) (\<lambda>candidate.
     res_bind (member_of ''content'' candidate) (\<lambda>content.
     res_bind (member_of ''parts'' content) (\<lambda>parts.
       case parts of
         JList _ \<Rightarrow> res_bind (map_res text_of (gemini_parts parts)) (\<lambda>texts.
           if texts = [] then Inl (ProviderInvocationError ''provider_output_missing'') else Inr (concat texts))
       | _ \<Rightarrow> Inl (ProviderInvocationError ''provider_output_type'')))))"

end
