(* ===== verification/Provider_Calls.thy ===== *)
theory Provider_Calls
  imports Provider_Transport Planner_Flow
begin

text \<open>
  A language-model call and its journal row: \<open>runtime/prompts/direct_provider_client.py\<close> and
  \<open>direct_provider_journal.py\<close> for direct conversations, \<open>runtime/integrations/crewai/io.py\<close>,
  \<open>invocation_audit.py\<close>, \<open>request_capture.py\<close> and \<open>targeting.py\<close> for groups. What the HTTP client or
  the agent does is a value; logging and tracing are left out.
\<close>

datatype 'a call = Call_returns 'a | Call_raises py_error | Call_cancelled

text \<open>A response model: what it accepts and the version of its schema.\<close>

record response_model =
  rmd_name :: pystr
  rmd_schema :: json
  rmd_accepts :: "pystr \<Rightarrow> bool"
  rmd_version :: pystr

definition py_replace_char :: "char \<Rightarrow> char \<Rightarrow> pystr \<Rightarrow> pystr" where
  "py_replace_char a b s = map (\<lambda>c. if c = a then b else c) s"

section \<open>Direct calls\<close>

datatype http_end =
    Http_content "json option"
  | Http_status int
  | Http_timeout
  | Http_request_error
  | Http_io_violation
  | Http_cancelled
  | Http_raises py_error

text \<open>\<open>Http_content None\<close> is a body that is not JSON: parsing it raises a \<open>ValidationError\<close>.\<close>

record direct_runtime =
  drt_sha :: "pybytes \<Rightarrow> pystr"
  drt_float_text :: "rat \<Rightarrow> pystr"
  drt_registry :: program_registry
  drt_http :: http_end
  drt_latency_ms :: int
  drt_envelope_bytes :: "transport_envelope \<Rightarrow> int"

text \<open>How the block that posts ends.\<close>

datatype post_end =
    Post_text output_capture pystr
  | Post_failed pystr
  | Post_cancelled
  | Post_invalid
  | Post_raises py_error

definition captured_post :: "response_model \<Rightarrow> pystr \<Rightarrow> post_end" where
  "captured_post model text' =
     (let c = capture_string (rmd_accepts model) aggregate_input_limit text' in
      case (cap_status c, cap_text c) of
        (Available_text, Some t) \<Rightarrow> Post_text c t
      | _ \<Rightarrow> Post_failed (normalize_provider_failure_code
          (case cap_error_code c of Some code \<Rightarrow> or_else code ''provider_output_contract'' | None \<Rightarrow> ''provider_output_contract'')))"

definition post_outcome :: "transport_variant \<Rightarrow> response_model \<Rightarrow> http_end \<Rightarrow> post_end" where
  "post_outcome variant model h =
     (case h of
        Http_status n \<Rightarrow> Post_failed (provider_http_failure_code n)
      | Http_timeout \<Rightarrow> Post_failed ''provider_timeout''
      | Http_request_error \<Rightarrow> Post_failed ''provider_transport_unavailable''
      | Http_io_violation \<Rightarrow> Post_failed ''direct_provider_stdio_violation''
      | Http_cancelled \<Rightarrow> Post_cancelled
      | Http_raises e \<Rightarrow> (case e of ProviderInvocationError code \<Rightarrow> Post_failed code | _ \<Rightarrow> Post_raises e)
      | Http_content None \<Rightarrow> Post_invalid
      | Http_content (Some payload) \<Rightarrow>
          (case (case variant of Openai_chat_completions \<Rightarrow> openai_response_text payload
                 | Gemini_generate_content \<Rightarrow> gemini_response_text payload) of
             Inr text' \<Rightarrow> captured_post model text'
           | Inl (ProviderInvocationError code) \<Rightarrow> Post_failed code
           | Inl e \<Rightarrow> Post_raises e))"

record direct_call =
  dcl_synthesis :: direct_synthesis
  dcl_target :: provider_target
  dcl_model :: response_model
  dcl_scene_key :: scene_key
  dcl_purpose :: pystr

definition closed_direct_row ::
  "direct_runtime \<Rightarrow> direct_call \<Rightarrow> prompt_program_v2 \<Rightarrow> transport_envelope \<Rightarrow> stage_kind \<Rightarrow> invocation_row
   \<Rightarrow> journal_status \<Rightarrow> pystr option \<Rightarrow> pystr option \<Rightarrow> int option \<Rightarrow> invocation_row result" where
  "closed_direct_row rt call program env stage reserved status error_code out1 output_bytes =
     check_row (reserved
       \<lparr>ivr_program_version := Some (ppg_program_version program), ivr_scene_key := Some (ppg_scene_key program),
        ivr_scene_contract_ref := program_contract_ref program, ivr_status := status,
        ivr_osh1 := Some (synthesis_osh1 (drt_sha rt) (dcl_synthesis call)),
        ivr_poh1 := Some (envelope_poh1 (drt_sha rt) env),
        ivr_hph1 := Some (prompt_hph1 (drt_sha rt) (syn_program_text (dcl_synthesis call)) (syn_spec (dcl_synthesis call))),
        ivr_prh1 := Some (envelope_prh1 (drt_sha rt) env),
        ivr_input_digest := Some (synthesis_mch1 (drt_sha rt) (dcl_synthesis call)),
        ivr_output_digest := out1, ivr_error_code := error_code,
        ivr_model_family := Some (ptg_model_family (dcl_target call)),
        ivr_provider_id := Some (provider_id_str (env_provider_id env)),
        ivr_transport_id := Some (variant_str (env_variant env)),
        ivr_input_schema_version := Some (py_replace_char CHR ''_'' CHR ''-'' (stage_kind_str stage) @ ''-input.v1''),
        ivr_output_schema_version := Some (rmd_version (dcl_model call)),
        ivr_latency_ms := drt_latency_ms rt, ivr_input_bytes := drt_envelope_bytes rt env,
        ivr_output_bytes := output_bytes\<rparr>)"

text \<open>Closing does nothing for a call without a row.\<close>

definition close_row ::
  "invocation_journal option \<Rightarrow> invocation_row option \<Rightarrow> (invocation_row \<Rightarrow> invocation_row result)
   \<Rightarrow> invocation_journal option result" where
  "close_row journal reserved row_of =
     (case (journal, reserved) of
        (Some j, Some r) \<Rightarrow> res_bind (row_of r) (\<lambda>row.
          res_bind (replace_reserved (ivr_invocation_ordinal r) row j) (\<lambda>j'. Inr (Some j')))
      | _ \<Rightarrow> Inr journal)"

definition closing ::
  "invocation_journal option \<Rightarrow> invocation_journal option result \<Rightarrow> 'a call \<Rightarrow> invocation_journal option \<times> 'a call" where
  "closing journal outcome ends =
     (case outcome of Inl e \<Rightarrow> (journal, Call_raises e) | Inr j \<Rightarrow> (j, ends))"

definition error_status :: "pystr \<Rightarrow> journal_status" where
  "error_status code = (if is_provider_output_failure code then Row_output_contract_error else Row_transport_error)"

definition posted ::
  "direct_runtime \<Rightarrow> direct_call \<Rightarrow> prompt_program_v2 \<Rightarrow> transport_envelope \<Rightarrow> stage_kind \<Rightarrow> post_end
   \<Rightarrow> invocation_journal option \<Rightarrow> invocation_row option \<Rightarrow> invocation_journal option \<times> pystr call" where
  "posted rt call program env stage outcome journal reserved =
     (let close_error = (\<lambda>code. close_row journal reserved
            (\<lambda>r. closed_direct_row rt call program env stage r (error_status code) (Some code) None None))
      in case outcome of
        Post_failed code \<Rightarrow> closing journal (close_error code) (Call_raises (ProviderInvocationError code))
      | Post_cancelled \<Rightarrow> closing journal (close_error ''provider_transport_unavailable'') Call_cancelled
      | Post_invalid \<Rightarrow> closing journal (close_error ''provider_internal_error'')
          (Call_raises (ProviderInvocationError ''provider_internal_error''))
      | Post_raises e \<Rightarrow> (journal, Call_raises e)
      | Post_text c t \<Rightarrow>
          (case (if reserved = None \<or> journal = None then Inr [] else capture_out1 (drt_sha rt) c) of
             Inl e \<Rightarrow> (journal, Call_raises e)
           | Inr out1 \<Rightarrow> closing journal
               (close_row journal reserved (\<lambda>r. closed_direct_row rt call program env stage r Row_success None
                 (Some out1) (Some (cap_byte_count c))))
               (Call_returns t)))"

definition run_direct_provider_text ::
  "direct_runtime \<Rightarrow> direct_call \<Rightarrow> invocation_journal option \<Rightarrow> invocation_journal option \<times> pystr call" where
  "run_direct_provider_text rt call journal =
     (let s = dcl_synthesis call in
      case res_bind (direct_synthesis_stage_kind s) (\<lambda>stage.
        res_bind (raise_if (ptg_endpoint (dcl_target call) = internal_sdk_endpoint)
          (ValueError ''provider_endpoint_scheme_invalid'')) (\<lambda>_.
        res_bind (resolve_active_prompt_program_v2 (drt_registry rt) stage (dcl_scene_key call)) (\<lambda>(program, spec).
        res_bind (raise_if (ppg_program_id program \<noteq> syn_program_id s) (ValueError ''prompt_program_v2_dispatch_mismatch''))
          (\<lambda>_.
        res_bind (build_provider_transport_envelope (drt_float_text rt) s (dcl_target call)) (\<lambda>env.
          Inr (stage, program, env)))))) of
        Inl e \<Rightarrow> (journal, Call_raises e)
      | Inr (stage, program, env) \<Rightarrow>
          (case (if stage = Stage_llm_health_probe then Inr (journal, None)
                 else (case journal of
                   None \<Rightarrow> Inr (None, None)
                 | Some j \<Rightarrow> res_bind (journal_reserve stage (syn_program_id s) (ptg_target_slot (dcl_target call))
                     (dcl_purpose call) None j) (\<lambda>(j', row). Inr (Some j', Some row)))) of
             Inl e \<Rightarrow> (journal, Call_raises e)
           | Inr (journal', reserved) \<Rightarrow>
               posted rt call program env stage (post_outcome (env_variant env) (dcl_model call) (drt_http rt))
                 journal' reserved))"

section \<open>Group calls\<close>

text \<open>The prompt program of a call, as the assembler hands it over.\<close>

record crew_program =
  cwp_stage :: stage_kind
  cwp_program_id :: pystr
  cwp_program_version :: pystr
  cwp_scene_key :: scene_key
  cwp_scene_contract_id :: "pystr option"
  cwp_scene_contract_version :: "pystr option"
  cwp_model_family :: pystr
  cwp_response_model :: response_model
  cwp_prompt_text :: pystr
  cwp_hph1 :: pystr
  cwp_mch1 :: "pystr option"

fun target_slot_for_stage :: "stage_kind \<Rightarrow> target_slot" where
  "target_slot_for_stage Stage_planner_intent = Slot_planner"
| "target_slot_for_stage Stage_approved_knowledge_selector = Slot_selector"
| "target_slot_for_stage Stage_document_product_selector = Slot_selector"
| "target_slot_for_stage Stage_llm_health_probe = Slot_health"
| "target_slot_for_stage _ = Slot_composer"

fun input_schema_version :: "stage_kind \<Rightarrow> pystr" where
  "input_schema_version Stage_planner_intent = ''planner-prompt-input.v1''"
| "input_schema_version Stage_knowledge_composer = ''knowledge-composer-input.v1''"
| "input_schema_version Stage_smalltalk_composer = ''smalltalk-composer-input.v1''"
| "input_schema_version Stage_alignment_verifier = ''alignment-verifier-input.v1''"
| "input_schema_version Stage_approved_knowledge_selector = ''approved-knowledge-selector-input.v1''"
| "input_schema_version Stage_document_product_selector = ''document-product-selector-input.v1''"
| "input_schema_version Stage_llm_health_probe = ''llm-health-probe-input.v1''"

definition crew_contract_ref :: "crew_program \<Rightarrow> pystr option" where
  "crew_contract_ref p =
     (case (cwp_scene_contract_id p, cwp_scene_contract_version p) of
        (Some i, Some v) \<Rightarrow> Some (i @ ''@'' @ v) | _ \<Rightarrow> None)"

definition required_mch1 :: "crew_program \<Rightarrow> pystr result" where
  "required_mch1 p =
     (case cwp_mch1 p of None \<Rightarrow> Inl (ValueError ''model_visible_context_hash_missing'') | Some h \<Rightarrow> Inr h)"

definition reject_invalid_dispatch :: "program_registry \<Rightarrow> crew_program \<Rightarrow> bool \<Rightarrow> unit result" where
  "reject_invalid_dispatch reg p health =
     (if cwp_scene_key p = Key_wecom_direct then Inl (ValueError ''crewai_direct_scene_forbidden'')
      else res_bind (resolve_active_prompt_program_v2 reg (cwp_stage p) (cwp_scene_key p)) (\<lambda>(active, spec).
        if ppg_program_id active \<noteq> cwp_program_id p \<or> ppg_scene_contract_id active \<noteq> cwp_scene_contract_id p
           \<or> ppg_scene_contract_version active \<noteq> cwp_scene_contract_version p
        then Inl (ValueError ''prompt_program_v2_dispatch_mismatch'')
        else raise_if ((cwp_stage p = Stage_llm_health_probe) \<noteq> health) (ValueError ''health_log_context_mismatch'')))"

text \<open>
  The request that reached the SDK, with its digest and size. \<open>record_request_capture\<close> refuses a second
  one, so there is one or none.
\<close>

record request_capture =
  rqc_prh1 :: pystr
  rqc_transport_variant :: pystr
  rqc_byte_count :: int

datatype kickoff_end = Kick_returns raw_output | Kick_raises py_error | Kick_io_violation | Kick_cancelled

record crew_runtime =
  crt_sha :: "pybytes \<Rightarrow> pystr"
  crt_decode :: "pybytes \<Rightarrow> pystr option"
  crt_registry :: program_registry
  crt_envelope :: "transport_envelope result"
  crt_capture :: "request_capture option"
  crt_end :: kickoff_end
  crt_latency_ms :: int

definition crew_row ::
  "crew_runtime \<Rightarrow> crew_program \<Rightarrow> transport_envelope \<Rightarrow> request_capture option \<Rightarrow> journal_status
   \<Rightarrow> pystr option \<Rightarrow> pystr option \<Rightarrow> int option \<Rightarrow> invocation_row \<Rightarrow> invocation_row result" where
  "crew_row rt p env capture status error_code out1 output_bytes reserved =
     res_bind (required_mch1 p) (\<lambda>mch1.
     check_row (reserved
       \<lparr>ivr_program_version := Some (cwp_program_version p), ivr_scene_key := Some (cwp_scene_key p),
        ivr_scene_contract_ref := crew_contract_ref p, ivr_status := status,
        ivr_osh1 := Some (envelope_osh1 (crt_sha rt) env), ivr_poh1 := Some (envelope_poh1 (crt_sha rt) env),
        ivr_hph1 := Some (cwp_hph1 p), ivr_prh1 := map_option rqc_prh1 capture,
        ivr_input_digest := Some mch1, ivr_output_digest := out1, ivr_error_code := error_code,
        ivr_model_family := Some (cwp_model_family p),
        ivr_provider_id := Some (provider_id_str (env_provider_id env)),
        ivr_transport_id := Some (case capture of Some c \<Rightarrow> rqc_transport_variant c | None \<Rightarrow> variant_str (env_variant env)),
        ivr_input_schema_version := Some (input_schema_version (ivr_stage_kind reserved)),
        ivr_output_schema_version := Some (rmd_name (cwp_response_model p)),
        ivr_latency_ms := crt_latency_ms rt,
        ivr_input_bytes := (case capture of Some c \<Rightarrow> rqc_byte_count c | None \<Rightarrow> int (length (utf8 (cwp_prompt_text p)))),
        ivr_output_bytes := output_bytes\<rparr>))"

definition close_transport_error ::
  "crew_runtime \<Rightarrow> crew_program \<Rightarrow> transport_envelope \<Rightarrow> pystr \<Rightarrow> invocation_journal option \<Rightarrow> invocation_row option
   \<Rightarrow> invocation_journal option result" where
  "close_transport_error rt p env code journal reserved =
     close_row journal reserved (crew_row rt p env (crt_capture rt) Row_transport_error (Some code) None None)"

text \<open>The exceptions that the last handler catches.\<close>

definition kickoff_catches :: "py_error \<Rightarrow> bool" where
  "kickoff_catches e = (is_runtime_error e \<or> is_value_error e)"

definition kicked ::
  "crew_runtime \<Rightarrow> crew_program \<Rightarrow> transport_envelope \<Rightarrow> invocation_journal option \<Rightarrow> invocation_row option
   \<Rightarrow> invocation_journal option \<times> raw_output call" where
  "kicked rt p env journal reserved =
     (let failed = (\<lambda>code. closing journal (close_transport_error rt p env code journal reserved)
            (Call_raises (ProviderInvocationError code)));
          raised = (\<lambda>e. case e of
              TimeoutError \<Rightarrow> failed ''provider_timeout''
            | ProviderInvocationError code \<Rightarrow> failed code
            | _ \<Rightarrow> if kickoff_catches e then failed (provider_failure_code e) else (journal, Call_raises e))
      in case crt_end rt of
        Kick_io_violation \<Rightarrow> failed ''direct_provider_stdio_violation''
      | Kick_cancelled \<Rightarrow> closing journal (close_transport_error rt p env ''provider_transport_unavailable'' journal reserved)
          Call_cancelled
      | Kick_raises e \<Rightarrow> raised e
      | Kick_returns raw \<Rightarrow>
          (case crt_capture rt of
             None \<Rightarrow> raised (ValueError ''provider_request_capture_missing'')
           | Some c \<Rightarrow>
               let out = capture_provider_text_output (crt_decode rt) (rmd_accepts (cwp_response_model p)) raw;
                   ok = (cap_status out = Available_text)
               in (case (if ok then res_bind (capture_out1 (crt_sha rt) out) (\<lambda>h. Inr (Some h)) else Inr None) of
                  Inl e \<Rightarrow> (journal, Call_raises e)
                | Inr out1 \<Rightarrow> closing journal
                    (close_row journal reserved (crew_row rt p env (Some c)
                       (if ok then Row_success else Row_output_contract_error) (cap_error_code out) out1
                       (if ok then Some (cap_byte_count out) else None)))
                    (Call_returns raw))))"

definition run_crewai_kickoff ::
  "crew_runtime \<Rightarrow> crew_program \<Rightarrow> bool \<Rightarrow> invocation_journal option \<Rightarrow> invocation_journal option \<times> raw_output call" where
  "run_crewai_kickoff rt p health journal =
     (case res_bind (reject_invalid_dispatch (crt_registry rt) p health) (\<lambda>_. crt_envelope rt) of
        Inl e \<Rightarrow> (journal, Call_raises e)
      | Inr env \<Rightarrow>
          (case (case journal of
                   None \<Rightarrow> Inr (None, None)
                 | Some j \<Rightarrow> res_bind (journal_reserve (cwp_stage p) (cwp_program_id p) (target_slot_for_stage (cwp_stage p))
                     ''crewai_kickoff'' None j) (\<lambda>(j', row). Inr (Some j', Some row))) of
             Inl e \<Rightarrow> (journal, Call_raises e)
           | Inr (journal', reserved) \<Rightarrow> kicked rt p env journal' reserved))"

end
