(* ===== verification/Journal_Audit.thy ===== *)
theory Journal_Audit
  imports Prompt_Programs Identity Audit_Validation
begin

text \<open>
  The key and the digests of direct audits, \<open>runtime/observability/direct_audit.py\<close>, and the audit of a
  turn's language-model calls, \<open>runtime/lifecycle_journal_audit.py\<close>. Base64 is written
  out as the standard library decodes it: characters outside the alphabet are skipped, so the check
  against the canonical encoding is what makes the key unique. HMAC is a parameter.
\<close>

section \<open>Base64\<close>

definition b64_alphabet :: pystr where
  "b64_alphabet = ''ABCDEFGHIJKLMNOPQRSTUVWXYZabcdefghijklmnopqrstuvwxyz0123456789-_''"

definition b64_char :: "nat \<Rightarrow> char" where
  "b64_char n = b64_alphabet ! n"

text \<open>\<open>urlsafe_b64decode\<close> turns \<open>-\<close> and \<open>_\<close> into \<open>+\<close> and \<open>/\<close> first, so it takes all four.\<close>

definition b64_value :: "char \<Rightarrow> nat option" where
  "b64_value c =
     (if CHR ''A'' \<le> c \<and> c \<le> CHR ''Z'' then Some (of_char c - 65)
      else if CHR ''a'' \<le> c \<and> c \<le> CHR ''z'' then Some (of_char c - 71)
      else if CHR ''0'' \<le> c \<and> c \<le> CHR ''9'' then Some (of_char c + 4)
      else if c = CHR ''-'' \<or> c = CHR ''+'' then Some 62
      else if c = CHR ''_'' \<or> c = CHR ''/'' then Some 63 else None)"

text \<open>\<open>binascii.a2b_base64\<close>: the position in the group of four, the bits left over, the pads seen.\<close>

fun a2b :: "nat \<Rightarrow> nat \<Rightarrow> nat \<Rightarrow> pystr \<Rightarrow> pybytes result" where
  "a2b q left pads [] = (if q = 0 then Inr [] else Inl (ValueError ''Incorrect padding''))"
| "a2b q left pads (c # cs) =
     (if c = CHR ''=''
      then (if 2 \<le> q \<and> 4 \<le> q + pads + 1 then Inr [] else a2b q left (if 2 \<le> q then pads + 1 else pads) cs)
      else (case b64_value c of
          None \<Rightarrow> a2b q left pads cs
        | Some v \<Rightarrow>
            if q = 0 then a2b 1 v 0 cs
            else if q = 1 then res_bind (a2b 2 (v mod 16) 0 cs) (\<lambda>r. Inr (char_of (left * 4 + v div 16) # r))
            else if q = 2 then res_bind (a2b 3 (v mod 4) 0 cs) (\<lambda>r. Inr (char_of (left * 16 + v div 4) # r))
            else res_bind (a2b 0 0 0 cs) (\<lambda>r. Inr (char_of (left * 64 + v) # r))))"

definition byte :: "char \<Rightarrow> nat" where
  "byte c = of_char c"

text \<open>\<open>urlsafe_b64encode(...).rstrip("=")\<close>\<close>

fun b64_encode :: "pybytes \<Rightarrow> pystr" where
  "b64_encode [] = []"
| "b64_encode [a] = [b64_char (byte a div 4), b64_char (byte a mod 4 * 16)]"
| "b64_encode [a, b] =
     [b64_char (byte a div 4), b64_char (byte a mod 4 * 16 + byte b div 16), b64_char (byte b mod 16 * 4)]"
| "b64_encode (a # b # c # r) =
     [b64_char (byte a div 4), b64_char (byte a mod 4 * 16 + byte b div 16),
      b64_char (byte b mod 16 * 4 + byte c div 64), b64_char (byte c mod 64)] @ b64_encode r"

section \<open>The key\<close>

definition key_invalid :: py_error where
  "key_invalid = ValueError ''direct_audit_hmac_key_invalid''"

definition decode_direct_audit_hmac_key :: "pystr \<Rightarrow> pybytes result" where
  "decode_direct_audit_hmac_key k =
     (if k = [] \<or> py_strip k \<noteq> k \<or> CHR ''='' \<in> set k then Inl key_invalid
      else if list_ex (\<lambda>c. CHR 0x80 \<le> c) k then Inl key_invalid
      else case a2b 0 0 0 (k @ replicate ((4 - length k mod 4) mod 4) CHR ''='') of
        Inl e \<Rightarrow> Inl key_invalid
      | Inr decoded \<Rightarrow>
          if \<not> (32 \<le> length decoded \<and> length decoded \<le> 64) then Inl key_invalid
          else if b64_encode decoded \<noteq> k then Inl key_invalid else Inr decoded)"

section \<open>Digests\<close>

definition direct_audit_digest ::
  "(pybytes \<Rightarrow> pybytes \<Rightarrow> pystr) \<Rightarrow> pybytes \<Rightarrow> conversation_state_key \<Rightarrow> pystr \<Rightarrow> pystr \<Rightarrow> pystr result" where
  "direct_audit_digest hmac key state_key purpose content =
     (if purpose \<notin> set direct_audit_purposes then Inl (ValueError ''direct_audit_purpose_invalid'')
      else Inr (''dah1:'' @ hmac key (''direct-audit.v1'' @ [CHR 0x00] @ purpose @ [CHR 0x00]
        @ state_key_json_bytes (canonical_state_key_payload state_key) @ [CHR 0x00] @ utf8 content)))"

section \<open>What the key check accepts\<close>

lemma b64_value_char: "n < 64 \<Longrightarrow> b64_value (b64_char n) = Some n"
proof -
  have "list_all (\<lambda>n. b64_value (b64_char n) = Some n) [0..<64]" by code_simp
  then show "n < 64 \<Longrightarrow> b64_value (b64_char n) = Some n" by (simp add: list_all_iff)
qed

lemma b64_char_plain: "n < 64 \<Longrightarrow> b64_char n \<noteq> CHR ''='' \<and> \<not> py_space (b64_char n) \<and> b64_char n < CHR 0x80"
proof -
  have "list_all (\<lambda>n. b64_char n \<noteq> CHR ''='' \<and> \<not> py_space (b64_char n) \<and> b64_char n < CHR 0x80) [0..<64]" by code_simp
  then show "n < 64 \<Longrightarrow> b64_char n \<noteq> CHR ''='' \<and> \<not> py_space (b64_char n) \<and> b64_char n < CHR 0x80"
    by (simp add: list_all_iff)
qed

lemma byte_less: "byte c < 256"
  by (simp add: byte_def)

lemma char_of_byte: "char_of (byte c) = c"
  by (simp add: byte_def)

lemma a2b_char:
  assumes "n < 64"
  shows "a2b q left pads (b64_char n # cs) =
    (if q = 0 then a2b 1 n 0 cs
     else if q = 1 then res_bind (a2b 2 (n mod 16) 0 cs) (\<lambda>r. Inr (char_of (left * 4 + n div 16) # r))
     else if q = 2 then res_bind (a2b 3 (n mod 4) 0 cs) (\<lambda>r. Inr (char_of (left * 16 + n div 4) # r))
     else res_bind (a2b 0 0 0 cs) (\<lambda>r. Inr (char_of (left * 64 + n) # r)))"
  using b64_value_char [OF assms] b64_char_plain [OF assms] by simp

lemma a2b_pad:
  "a2b q left pads (CHR ''='' # cs) =
    (if 2 \<le> q \<and> 4 \<le> q + pads + 1 then Inr [] else a2b q left (if 2 \<le> q then pads + 1 else pads) cs)"
  by simp

lemma packed:
  fixes x y m :: nat
  assumes "y < m"
  shows "(x * m + y) div m = x" "(x * m + y) mod m = y"
  using assms by simp_all

lemma b64_digits:
  fixes a b c :: nat
  assumes "a < 256" "b < 256" "c < 256"
  shows "a div 4 < 64" "a mod 4 * 16 < 64" "a mod 4 * 16 + b div 16 < 64" "b mod 16 * 4 < 64"
    "b mod 16 * 4 + c div 64 < 64" "c mod 64 < 64"
    "a div 4 * 4 + a mod 4 * 16 div 16 = a"
    "a div 4 * 4 + (a mod 4 * 16 + b div 16) div 16 = a" "(a mod 4 * 16 + b div 16) mod 16 * 16 + b mod 16 * 4 div 4 = b"
    "(a mod 4 * 16 + b div 16) mod 16 * 16 + (b mod 16 * 4 + c div 64) div 4 = b"
    "(b mod 16 * 4 + c div 64) mod 4 * 64 + c mod 64 = c"
proof -
  have small: "b div 16 < 16" "c div 64 < 4" using assms by (auto simp: less_mult_imp_div_less)
  have mods: "a mod 4 < 4" "b mod 16 < 16" by simp_all
  show "a div 4 < 64" using assms by (auto simp: less_mult_imp_div_less)
  show "a mod 4 * 16 < 64" "b mod 16 * 4 < 64" "c mod 64 < 64" using mods by linarith+
  show "a mod 4 * 16 + b div 16 < 64" "b mod 16 * 4 + c div 64 < 64" using mods small by linarith+
  show "a div 4 * 4 + a mod 4 * 16 div 16 = a" by simp
  show "a div 4 * 4 + (a mod 4 * 16 + b div 16) div 16 = a"
    by (simp only: packed [OF small(1)] div_mult_mod_eq)
  show "(a mod 4 * 16 + b div 16) mod 16 * 16 + b mod 16 * 4 div 4 = b"
  proof -
    have "b mod 16 * 4 div 4 = b mod 16" by simp
    then show ?thesis by (simp only: packed [OF small(1)] div_mult_mod_eq)
  qed
  show "(a mod 4 * 16 + b div 16) mod 16 * 16 + (b mod 16 * 4 + c div 64) div 4 = b"
    by (simp only: packed [OF small(1)] packed [OF small(2)] div_mult_mod_eq)
  show "(b mod 16 * 4 + c div 64) mod 4 * 64 + c mod 64 = c"
    by (simp only: packed [OF small(2)] div_mult_mod_eq)
qed

declare a2b.simps(2) [simp del]

lemma a2b_groups:
  assumes "n < 64" "m < 64" "k < 64" "l < 64"
  shows "a2b 0 0 0 (b64_char n # b64_char m # CHR ''='' # CHR ''='' # s) = Inr [char_of (n * 4 + m div 16)]"
    "a2b 0 0 0 (b64_char n # b64_char m # b64_char k # CHR ''='' # s)
      = Inr [char_of (n * 4 + m div 16), char_of (m mod 16 * 16 + k div 4)]"
    "a2b 0 0 0 (b64_char n # b64_char m # b64_char k # b64_char l # s) = res_bind (a2b 0 0 0 s) (\<lambda>r.
      Inr (char_of (n * 4 + m div 16) # char_of (m mod 16 * 16 + k div 4) # char_of (k mod 4 * 64 + l) # r))"
  using assms by (simp_all add: a2b_char a2b_pad) (cases "a2b 0 0 0 s"; simp)

lemma a2b_encode:
  "a2b 0 0 0 (b64_encode b @ replicate ((4 - length (b64_encode b) mod 4) mod 4) CHR ''='') = Inr b"
proof (induction b rule: b64_encode.induct)
  case (2 a)
  note d = b64_digits [OF byte_less [of a] byte_less [of a] byte_less [of a]]
  have "replicate ((4 - length (b64_encode [a]) mod 4) mod 4) CHR ''='' = ''==''" by (simp add: numeral_2_eq_2)
  then show ?case
    by (simp only: b64_encode.simps append.simps a2b_groups(1) [OF d(1,2,2,2)] d(7) char_of_byte)
next
  case (3 a b)
  note d = b64_digits [OF byte_less [of a] byte_less [of b] byte_less [of b]]
  have "replicate ((4 - length (b64_encode [a, b]) mod 4) mod 4) CHR ''='' = ''=''" by simp
  then show ?case
    by (simp only: b64_encode.simps append.simps a2b_groups(2) [OF d(1,3,4,4)] d(8,9) char_of_byte)
next
  case (4 a b c r)
  note d = b64_digits [OF byte_less [of a] byte_less [of b] byte_less [of c]]
  have "length (b64_encode (a # b # c # r)) mod 4 = length (b64_encode r) mod 4" by simp
  then show ?case
    by (simp only: b64_encode.simps append.simps append_assoc a2b_groups(3) [OF d(1,3,5,6)] d(8,10,11) char_of_byte
        4 res_bind_simps)
qed simp

lemma b64_encode_chars: "c \<in> set (b64_encode b) \<Longrightarrow> \<exists>n<64. c = b64_char n"
proof (induction b rule: b64_encode.induct)
  case (2 a)
  note d = b64_digits [OF byte_less [of a] byte_less [of a] byte_less [of a]]
  from 2 have "c = b64_char (byte a div 4) \<or> c = b64_char (byte a mod 4 * 16)" by simp
  with d(1,2) show ?case by blast
next
  case (3 a b)
  note d = b64_digits [OF byte_less [of a] byte_less [of b] byte_less [of b]]
  from 3 have "c = b64_char (byte a div 4) \<or> c = b64_char (byte a mod 4 * 16 + byte b div 16)
      \<or> c = b64_char (byte b mod 16 * 4)" by simp
  with d(1,3,4) show ?case by blast
next
  case (4 a b c' r)
  note d = b64_digits [OF byte_less [of a] byte_less [of b] byte_less [of c']]
  from 4(2) have "c = b64_char (byte a div 4) \<or> c = b64_char (byte a mod 4 * 16 + byte b div 16)
      \<or> c = b64_char (byte b mod 16 * 4 + byte c' div 64) \<or> c = b64_char (byte c' mod 64) \<or> c \<in> set (b64_encode r)"
    by simp
  with d(1,3,5,6) 4(1) show ?case by blast
qed simp

lemma py_lstrip_no_space: "list_all (\<lambda>c. \<not> py_space c) s \<Longrightarrow> py_lstrip s = s"
  by (cases s) (simp_all add: py_lstrip_def)

lemma py_strip_no_space: "list_all (\<lambda>c. \<not> py_space c) s \<Longrightarrow> py_strip s = s"
  using py_lstrip_no_space [of s] py_lstrip_no_space [of "rev s"] by (simp add: py_strip_def list_all_iff)

text \<open>C15 A key text is accepted exactly when it is the unpadded base64 text of 32 to 64 bytes, and those bytes
  are the key: no other spelling of a key passes, although the decoder itself skips foreign characters
  and takes both alphabets.\<close>

theorem audit_key_roundtrip:
  "decode_direct_audit_hmac_key k = Inr b \<longleftrightarrow> k = b64_encode b \<and> 32 \<le> length b \<and> length b \<le> 64"
proof
  assume "decode_direct_audit_hmac_key k = Inr b"
  then show "k = b64_encode b \<and> 32 \<le> length b \<and> length b \<le> 64"
    by (auto simp: decode_direct_audit_hmac_key_def split: if_splits sum.splits)
next
  assume b: "k = b64_encode b \<and> 32 \<le> length b \<and> length b \<le> 64"
  have plain: "c \<noteq> CHR ''='' \<and> \<not> py_space c \<and> c < CHR 0x80" if "c \<in> set k" for c
    using b64_encode_chars [of c b] b64_char_plain that b by auto
  from plain have "py_strip k = k" by (intro py_strip_no_space) (simp add: list_all_iff)
  moreover from plain have "CHR ''='' \<notin> set k" by blast
  moreover from plain have "\<not> list_ex (\<lambda>c. CHR 0x80 \<le> c) k" by (auto simp: list_ex_iff dest!: leD)
  moreover from b have "k \<noteq> []" by (cases b rule: b64_encode.cases) auto
  ultimately show "decode_direct_audit_hmac_key k = Inr b"
    using b a2b_encode [of b] by (simp add: decode_direct_audit_hmac_key_def)
qed

section \<open>The audit of a journal\<close>

text \<open>
  The audit of a turn's language-model calls: \<open>runtime/lifecycle_journal_audit.py\<close>. The keyed digest of a
  direct conversation is a parameter.
\<close>

definition journal_status_strs :: "journal_status \<Rightarrow> pystr" where
  "journal_status_strs s =
     (case s of Row_success \<Rightarrow> ''success'' | Row_output_contract_error \<Rightarrow> ''output_contract_error'' | _ \<Rightarrow> ''transport_error'')"

definition audit_error_codes :: "pystr list" where
  "audit_error_codes = map snd validation_error_by_stage @ output_contract_errors @ transport_errors"

definition audit_error_code :: "pystr option \<Rightarrow> pystr result" where
  "audit_error_code code =
     (case code of
        None \<Rightarrow> Inl (CoordinatorError ''llm_invocation_error_code_required'')
      | Some c \<Rightarrow> if c \<in> set audit_error_codes then Inr c
                  else Inl (CoordinatorError ''llm_invocation_error_code_unregistered''))"

definition audit_status :: "invocation_row \<Rightarrow> (pystr \<times> pystr option) result" where
  "audit_status r =
     (case ivr_status r of
        Row_success \<Rightarrow> Inr (''success'', None)
      | Row_reserved \<Rightarrow> Inl (CoordinatorError ''llm_invocation_journal_row_unclosed'')
      | s \<Rightarrow> res_bind (audit_error_code (ivr_error_code r)) (\<lambda>c. Inr (journal_status_strs s, Some c)))"

definition audit_target_slot :: "target_slot \<Rightarrow> pystr result" where
  "audit_target_slot slot =
     (if target_slot_str slot \<in> set registered_target_slots then Inr (target_slot_str slot)
      else Inl (CoordinatorError ''llm_invocation_audit_target_slot_forbidden''))"

definition row_transport_metadata :: "invocation_row \<Rightarrow> unit result" where
  "row_transport_metadata r =
     raise_if (ivr_model_family r = None \<or> ivr_provider_id r = None \<or> ivr_transport_id r = None
         \<or> ivr_input_schema_version r = None \<or> ivr_output_schema_version r = None)
       (CoordinatorError ''llm_invocation_transport_metadata_required'')"

fun direct_attempt_purposes :: "stage_kind \<Rightarrow> (pystr \<times> pystr) result" where
  "direct_attempt_purposes Stage_planner_intent = Inr (''planner_input'', ''planner_output'')"
| "direct_attempt_purposes Stage_knowledge_composer = Inr (''composer_input'', ''composer_output'')"
| "direct_attempt_purposes Stage_smalltalk_composer = Inr (''composer_input'', ''composer_output'')"
| "direct_attempt_purposes Stage_alignment_verifier = Inr (''verifier_input'', ''verifier_output'')"
| "direct_attempt_purposes Stage_approved_knowledge_selector = Inr (''approved_selector_input'', ''approved_selector_output'')"
| "direct_attempt_purposes Stage_document_product_selector = Inr (''document_selector_input'', ''document_selector_output'')"
| "direct_attempt_purposes Stage_llm_health_probe = Inl (CoordinatorError ''health_probe_direct_audit_forbidden'')"

definition audit_scene_key :: "scene \<Rightarrow> stage_kind \<Rightarrow> scene_key" where
  "audit_scene_key scene stage =
     (if stage \<in> {Stage_approved_knowledge_selector, Stage_document_product_selector} then Key_scene_neutral
      else if scene = SceneGroup then Key_wecom_group else Key_wecom_direct)"

text \<open>\<open>row.prh1 or row.poh1 or row.osh1\<close>; no digest is empty.\<close>

definition first_input_hash :: "invocation_row \<Rightarrow> pystr option" where
  "first_input_hash r =
     (case ivr_prh1 r of Some h \<Rightarrow> Some h | None \<Rightarrow> (case ivr_poh1 r of Some h \<Rightarrow> Some h | None \<Rightarrow> ivr_osh1 r))"

definition ordinal_text :: "invocation_row \<Rightarrow> pystr \<Rightarrow> pystr" where
  "ordinal_text r h = int_str (ivr_invocation_ordinal r) @ '':'' @ h"

text \<open>The input and the output digest of a row, and its four unkeyed digests.\<close>

definition attempt_digests ::
  "(pystr \<Rightarrow> pystr \<Rightarrow> pystr) option \<Rightarrow> invocation_row \<Rightarrow> pystr
   \<Rightarrow> (pystr option \<times> pystr option \<times> pystr option \<times> pystr option \<times> pystr option \<times> pystr option) result" where
  "attempt_digests direct_digest r status =
     (case direct_digest of
        None \<Rightarrow> Inr (ivr_input_digest r, ivr_output_digest r, ivr_osh1 r, ivr_poh1 r, ivr_hph1 r, ivr_prh1 r)
      | Some digest \<Rightarrow>
          res_bind (direct_attempt_purposes (ivr_stage_kind r)) (\<lambda>(input_purpose, output_purpose).
          case first_input_hash r of
            None \<Rightarrow> Inl (CoordinatorError ''direct_audit_program_input_hash_required'')
          | Some h \<Rightarrow>
              res_bind (if status = ''success''
                then (case ivr_output_digest r of
                    None \<Rightarrow> Inl (CoordinatorError ''direct_audit_program_output_hash_required'')
                  | Some o' \<Rightarrow> Inr (Some (digest output_purpose (ordinal_text r o'))))
                else Inr None) (\<lambda>output.
              Inr (Some (digest input_purpose (ordinal_text r h)), output, None, None, None, None))))"

definition audit_attempt ::
  "program_registry \<Rightarrow> scene \<Rightarrow> (pystr \<Rightarrow> pystr \<Rightarrow> pystr) option \<Rightarrow> invocation_row \<Rightarrow> llm_invocation_audit_proposal result" where
  "audit_attempt reg scene direct_digest r =
     res_bind (raise_if (ivr_status r = Row_reserved) (CoordinatorError ''llm_invocation_journal_row_unclosed'')) (\<lambda>_.
     res_bind (resolve_active_prompt_program_v2 reg (ivr_stage_kind r) (audit_scene_key scene (ivr_stage_kind r)))
       (\<lambda>(program, spec).
     res_bind (raise_if (ppg_program_id program \<noteq> ivr_program_id r)
       (CoordinatorError ''llm_invocation_program_registry_mismatch'')) (\<lambda>_.
     res_bind (raise_if (ivr_program_version r \<noteq> Some (ppg_program_version program)
         \<or> ivr_scene_key r \<noteq> Some (ppg_scene_key program) \<or> ivr_scene_contract_ref r \<noteq> program_contract_ref program)
       (CoordinatorError ''llm_invocation_journal_program_metadata_mismatch'')) (\<lambda>_.
     res_bind (audit_status r) (\<lambda>(status, error_code).
     res_bind (row_transport_metadata r) (\<lambda>_.
     res_bind (attempt_digests direct_digest r status) (\<lambda>(input_digest, output_digest, osh1, poh1, hph1, prh1).
     res_bind (audit_target_slot (ivr_target_slot r)) (\<lambda>slot.
     checked check_llm_invocation
       \<lparr>la_ordinal = ivr_invocation_ordinal r, la_stage = stage_kind_str (ivr_stage_kind r),
        la_program_id = ivr_program_id r, la_target_slot = slot, la_status = status, la_latency_ms = ivr_latency_ms r,
        la_input_bytes = ivr_input_bytes r, la_output_bytes = ivr_output_bytes r, la_error_code = error_code,
        la_logical_attempt = ivr_logical_attempt r, la_transport_attempt = ivr_transport_attempt r,
        la_program_version = Some (ppg_program_version program),
        la_scene_key = Some (scene_key_str (ppg_scene_key program)), la_scene_contract_ref = program_contract_ref program,
        la_model_family = ivr_model_family r, la_provider_id = ivr_provider_id r, la_transport_id = ivr_transport_id r,
        la_input_schema_version = ivr_input_schema_version r, la_output_schema_version = ivr_output_schema_version r,
        la_osh1 = osh1, la_poh1 = poh1, la_hph1 = hph1, la_prh1 = prh1, la_input_digest = input_digest,
        la_output_digest = output_digest\<rparr>))))))))"

definition journal_audit_attempts ::
  "program_registry \<Rightarrow> scene \<Rightarrow> (pystr \<Rightarrow> pystr \<Rightarrow> pystr) option \<Rightarrow> invocation_journal
   \<Rightarrow> llm_invocation_audit_proposal list result" where
  "journal_audit_attempts reg scene direct_digest j =
     map_res (audit_attempt reg scene direct_digest)
       (filter (\<lambda>r. ivr_stage_kind r \<noteq> Stage_llm_health_probe) (ij_rows j))"

end
