(* ===== verification/Provider_Theorems.thy ===== *)
theory Provider_Theorems
  imports Provider_Calls Journal_Audit Policy_Theorems
begin

text \<open>
  What holds of language-model calls and their journal: canonical schemas, the selector cache, the
  rows that calls leave behind and what the audit makes of them.
\<close>

section \<open>Schemas\<close>

definition canonical_member :: "pystr \<Rightarrow> json \<Rightarrow> json" where
  "canonical_member k v =
     (if k \<in> set schema_map_keys
      then (case v of JObj items \<Rightarrow> JObj (map (\<lambda>(name, child). (name, canonicalize_json_schema child)) items)
            | _ \<Rightarrow> if k \<in> set data_value_keys then v else canonicalize_json_schema v)
      else if k \<in> set data_value_keys then v else canonicalize_json_schema v)"

lemma canonical_object:
  "canonicalize_json_schema (JObj kvs)
   = JObj (map (\<lambda>(k, v). (k, canonical_member k v)) (filter (\<lambda>(k, _). k \<notin> set documentation_keys) kvs))"
  unfolding canonicalize_json_schema.simps canonical_member_def ..

lemma canonical_not_object: "(\<And>kvs. v \<noteq> JObj kvs) \<Longrightarrow> canonicalize_json_schema v \<noteq> JObj items"
  by (cases v) auto

lemma canonical_member_twice:
  assumes v: "canonicalize_json_schema (canonicalize_json_schema v) = canonicalize_json_schema v"
    and items: "\<And>items name child. v = JObj items \<Longrightarrow> (name, child) \<in> set items \<Longrightarrow>
      canonicalize_json_schema (canonicalize_json_schema child) = canonicalize_json_schema child"
  shows "canonical_member k (canonical_member k v) = canonical_member k v"
proof (cases "\<exists>items. v = JObj items")
  case True
  with v items show ?thesis by (auto simp: canonical_member_def)
next
  case False
  then have v': "\<And>items. v \<noteq> JObj items" by blast
  from canonical_not_object [OF this] have "\<And>items. canonicalize_json_schema v \<noteq> JObj items" .
  with v v' show ?thesis
    by (cases v; cases "canonicalize_json_schema v") (auto simp: canonical_member_def simp del: canonicalize_json_schema.simps)
qed

lemma canonical_twice:
  "canonicalize_json_schema (canonicalize_json_schema v) = canonicalize_json_schema v"
proof -
  have "canonicalize_json_schema (canonicalize_json_schema v) = canonicalize_json_schema v
    \<and> (\<forall>items name child. v = JObj items \<longrightarrow> (name, child) \<in> set items \<longrightarrow>
        canonicalize_json_schema (canonicalize_json_schema child) = canonicalize_json_schema child)"
  proof (induction v)
    case (JList vs)
    then show ?case by (induction vs) auto
  next
    case (JObj kvs)
    have "canonical_member k (canonical_member k v) = canonical_member k v" if "(k, v) \<in> set kvs" for k v
      using JObj [of "(k, v)" v] that by (intro canonical_member_twice) auto
    moreover have "canonicalize_json_schema (canonicalize_json_schema child) = canonicalize_json_schema child"
      if "(name, child) \<in> set kvs" for name child
      using JObj [of "(name, child)" child] that by auto
    ultimately show ?case
      unfolding canonical_object by (auto simp: filter_map o_def split_def)
  qed simp_all
  then show ?thesis ..
qed

text \<open>
  What canonicalisation takes away, stated on paths into a value. Where a path leads decides how a member is
  read: below a keyword of schemas, as a name of a schema map, or as data, which is kept as it is.
\<close>

datatype json_step = Member pystr | Item nat

fun json_at :: "json_step list \<Rightarrow> json \<Rightarrow> json option" where
  "json_at [] v = Some v"
| "json_at (Member k # path) (JObj kvs) = (case map_of kvs k of Some v \<Rightarrow> json_at path v | None \<Rightarrow> None)"
| "json_at (Item n # path) (JList vs) = (if n < length vs then json_at path (vs ! n) else None)"
| "json_at (_ # path) _ = None"

fun json_head :: "json \<Rightarrow> json" where
  "json_head (JObj _) = JObj []"
| "json_head (JList vs) = JList (replicate (length vs) JNull)"
| "json_head v = v"

datatype schema_position = At_schema | At_schema_map | At_data

definition position_under :: "pystr \<Rightarrow> schema_position" where
  "position_under k =
     (if k \<in> set schema_map_keys then At_schema_map else if k \<in> set data_value_keys then At_data else At_schema)"

fun documented :: "schema_position \<Rightarrow> json_step list \<Rightarrow> bool" where
  "documented At_data _ = False"
| "documented _ [] = False"
| "documented _ (Item _ # path) = documented At_schema path"
| "documented At_schema_map (Member _ # path) = documented At_schema path"
| "documented At_schema (Member k # path) = (k \<in> set documentation_keys \<or> documented (position_under k) path)"

fun canonical_at :: "schema_position \<Rightarrow> json \<Rightarrow> json" where
  "canonical_at At_schema v = canonicalize_json_schema v"
| "canonical_at At_schema_map (JObj items) = JObj (map (\<lambda>(name, child). (name, canonicalize_json_schema child)) items)"
| "canonical_at At_schema_map v = canonicalize_json_schema v"
| "canonical_at At_data v = v"

lemma keywords_disjoint: "k \<in> set schema_map_keys \<Longrightarrow> k \<notin> set data_value_keys"
  by (auto simp: schema_map_keys_def data_value_keys_def)

lemma canonical_member_at: "canonical_member k v = canonical_at (position_under k) v"
  using keywords_disjoint [of k] by (cases v) (auto simp: canonical_member_def position_under_def)

lemma map_of_canonical:
  "map_of (map (\<lambda>(k, v). (k, f k v)) (filter (\<lambda>(k, _). k \<notin> S) kvs)) k
   = (if k \<in> S then None else map_option (f k) (map_of kvs k))"
  by (induction kvs) auto

lemma json_head_canonical_at: "json_head (canonical_at m v) = json_head v"
  by (cases m; cases v) (auto simp: map_replicate_const)

lemma documented_Item: "documented m (Item n # path) = (m \<noteq> At_data \<and> documented At_schema path)"
  by (cases m) auto

lemma documented_Nil: "documented m [] = False"
  by (cases m) auto

lemma canonical_at_list: "canonical_at m (JList vs) = JList (map (canonical_at (if m = At_data then At_data else At_schema)) vs)"
proof (cases m)
  case At_data
  then have "canonical_at m = (\<lambda>v. v)" by (intro ext) simp
  with At_data show ?thesis by simp
qed auto

lemma documentation_stripped:
  "map_option json_head (json_at path (canonical_at m v))
   = (if documented m path then None else map_option json_head (json_at path v))"
proof (induction path arbitrary: m v)
  case Nil
  then show ?case by (simp add: json_head_canonical_at documented_Nil)
next
  case (Cons step path)
  note IH = Cons [of At_schema, unfolded canonical_at.simps]
  have gone: "documented m path \<Longrightarrow> json_at path (canonical_at m v) = None" for m v using Cons [of m v] by simp
  note gone' = gone [of At_schema, unfolded canonical_at.simps]
  show ?case
  proof (cases step)
    case (Member k)
    show ?thesis
    proof (cases v)
      case (JObj kvs)
      have "map_of (map (\<lambda>(name, child). (name, canonicalize_json_schema child)) kvs) k
          = map_option (canonical_at At_schema) (map_of kvs k)"
        by (induction kvs) auto
      with Member JObj Cons IH gone gone' show ?thesis
        by (cases m) (auto simp: canonical_object map_of_canonical canonical_member_at simp del: canonicalize_json_schema.simps
            split: option.splits)
    qed (use Member in \<open>cases m; simp\<close>)+
  next
    case (Item n)
    with Cons IH gone gone' show ?thesis
      by (cases v; cases m) (auto simp: canonical_object simp del: canonicalize_json_schema.simps(2))
  qed
qed

text \<open>C38 Canonicalising a schema deletes the documentation keywords that stand where a schema stands, and nothing
  else: every path that passes none of them leads to the same value as before, by its kind, its scalar and
  the length of its list, and every path that passes one leads nowhere. A property that is named like a
  keyword stays, and so does what stands in an enumeration, a constant or a default. An envelope whose schema
  fields are validated again is the same envelope, so its digests are.\<close>

theorem canonical_schema_strips_documentation:
  "map_option json_head (json_at path (canonicalize_json_schema v))
     = (if documented At_schema path then None else map_option json_head (json_at path v))
   \<and> canonicalize_schema_fields (make_envelope t stage v provider_schema body) = make_envelope t stage v provider_schema body"
  using documentation_stripped [of path At_schema v]
  by (simp add: canonicalize_schema_fields_def make_envelope_def canonical_twice)


section \<open>Endpoints\<close>

lemma endpoint_path:
  assumes "endpoint_of_parts lib u = Inr e"
  obtains a where "e = a @ (if url_path u = [] \<or> url_path u = ''/'' then ''/''
    else let t = py_rstrip_char CHR ''/'' (url_path u) in if t = [] then ''/'' else t)"
proof -
  from assms obtain a where "e = a @ (let path = if url_path u = [] then ''/'' else url_path u in
      if path = ''/'' then path else let t = py_rstrip_char CHR ''/'' path in if t = [] then ''/'' else t)"
    by (auto simp: endpoint_of_parts_def Let_def res_bind_Inr_iff split: if_splits option.splits sum.splits)
  then show thesis by (intro that [of a]) (simp add: Let_def)
qed

lemma rstrip_last: "py_rstrip_char c s \<noteq> [] \<Longrightarrow> last (py_rstrip_char c s) \<noteq> c"
  using hd_dropWhile [of "\<lambda>d. d = c" "rev s"] by (simp add: py_rstrip_char_def last_rev)

text \<open>C34 A base URL without a path keeps the one slash of its empty path, and the path of the request is put
  after it, so the request goes to a path with two slashes; with any other path it does not.\<close>

theorem root_endpoint_doubles_slash:
  assumes "endpoint_of_parts lib u = Inr (ptg_endpoint t)"
  shows "(url_path u = [] \<or> list_all (\<lambda>c. c = CHR ''/'') (url_path u)
        \<longrightarrow> (\<exists>a b. provider_url t = a @ ''//'' @ b \<and> ptg_endpoint t = a @ ''/''))
    \<and> (\<not> list_all (\<lambda>c. c = CHR ''/'') (url_path u) \<longrightarrow> last (ptg_endpoint t) \<noteq> CHR ''/'')"
proof -
  obtain a where a: "ptg_endpoint t = a @ (if url_path u = [] \<or> url_path u = ''/'' then ''/''
    else let p = py_rstrip_char CHR ''/'' (url_path u) in if p = [] then ''/'' else p)"
    using endpoint_path [OF assms] by metis
  have nil: "py_rstrip_char CHR ''/'' s = [] \<longleftrightarrow> list_all (\<lambda>c. c = CHR ''/'') s" for s
    by (auto simp: py_rstrip_char_def dropWhile_eq_Nil_conv list_all_iff)
  have url: "\<exists>b. provider_url t = ptg_endpoint t @ ''/'' @ b"
    by (cases "ptg_variant t") (auto simp: provider_url_def)
  show ?thesis
  proof (cases "url_path u = [] \<or> list_all (\<lambda>c. c = CHR ''/'') (url_path u)")
    case True
    then have "ptg_endpoint t = a @ ''/''" using a nil [of "url_path u"] by (auto simp: Let_def)
    with url True show ?thesis by auto
  next
    case False
    then have "ptg_endpoint t = a @ py_rstrip_char CHR ''/'' (url_path u)" "py_rstrip_char CHR ''/'' (url_path u) \<noteq> []"
      using a nil [of "url_path u"] by (auto simp: Let_def)
    with rstrip_last [of "CHR ''/''" "url_path u"] False show ?thesis by auto
  qed
qed

definition base_url :: "pystr \<Rightarrow> split_url" where
  "base_url path =
     \<lparr>url_scheme = ''https'', url_netloc = ''h'', url_hostname = Some ''h'', url_username = None, url_password = None,
      url_port = Inr None, url_path = path, url_query = [], url_fragment = []\<rparr>"

definition plain_library :: url_library where
  "plain_library = \<lparr>ul_split = (\<lambda>_. Inr (base_url [])), ul_ip_address = (\<lambda>_. None), ul_idna = Some\<rparr>"

definition sample_target :: provider_target where
  "sample_target =
     \<lparr>ptg_provider_id = Openai_compatible, ptg_target_slot = Slot_planner, ptg_model_family = ''generic'',
      ptg_model_name = ''m'', ptg_endpoint = ''https://h/'', ptg_variant = Openai_chat_completions,
      ptg_api_key_configured = True, ptg_timeout_seconds = 1, ptg_temperature = 0, ptg_max_tokens = 10,
      ptg_thinking_config = None\<rparr>"

theorem root_endpoint_doubles_slash_witness:
  "\<exists>a b. provider_url sample_target = a @ ''//'' @ b \<and> ''https://h/'' = a @ ''/''"
proof -
  have "endpoint_of_parts plain_library (base_url []) = Inr (ptg_endpoint sample_target)" by code_simp
  from root_endpoint_doubles_slash [OF this] show ?thesis by (auto simp: base_url_def sample_target_def)
qed

section \<open>The row of a direct call\<close>

text \<open>What a call needs for its row to be valid: values in the ranges their types promise.\<close>

definition contract_ref_ok :: "prompt_program_v2 \<Rightarrow> bool" where
  "contract_ref_ok p =
     (check_prompt_program p = Inr p
      \<and> (ppg_scene_key p \<noteq> Key_scene_neutral \<longrightarrow>
         (case program_contract_ref p of None \<Rightarrow> False | Some r \<Rightarrow> length r \<le> 240)))"

definition direct_call_ok :: "direct_runtime \<Rightarrow> direct_call \<Rightarrow> bool" where
  "direct_call_ok rt call =
     (list_all contract_ref_ok (prg_programs (drt_registry rt))
      \<and> 0 \<le> drt_latency_ms rt \<and> (\<forall>env. 0 \<le> drt_envelope_bytes rt env)
      \<and> (case drt_http rt of Http_raises _ \<Rightarrow> False | _ \<Rightarrow> True)
      \<and> length_within 1 80 (dcl_purpose call) \<and> length (rmd_version (dcl_model call)) \<le> 160
      \<and> length (ptg_model_family (dcl_target call)) \<le> 80)"

lemmas digest_hex =
  sha256_frame_hex [where prefix = "''osh1''", simplified] sha256_frame_hex [where prefix = "''poh1''", simplified]
  sha256_frame_hex [where prefix = "''hph1''", simplified] sha256_frame_hex [where prefix = "''prh1''", simplified]
  sha256_frame_hex [where prefix = "''mch1''", simplified]

lemma contract_ref_ok_shape:
  assumes "contract_ref_ok p"
  shows "length_within 1 180 (ppg_program_id p)" "length_within 1 40 (ppg_program_version p)"
    "(if ppg_scene_key p = Key_scene_neutral then program_contract_ref p = None
      else program_contract_ref p \<noteq> None) \<and> opt_within 240 (program_contract_ref p)"
proof -
  from assms have "\<forall>m\<in>set ([raise_if (\<not> length_within 1 180 (ppg_program_id p)) (ValueError ''program_id''),
      raise_if (\<not> length_within 1 40 (ppg_program_version p)) (ValueError ''program_version''), validate_program p]).
        m = Inr ()"
    by (auto simp: contract_ref_ok_def check_prompt_program_def res_bind_Inr_iff seq_res_Inr)
  then have v: "length_within 1 180 (ppg_program_id p)" "length_within 1 40 (ppg_program_version p)"
    "validate_program p = Inr ()" by auto
  then show "length_within 1 180 (ppg_program_id p)" "length_within 1 40 (ppg_program_version p)" by blast+
  from v(3) have "ppg_scene_key p = Key_scene_neutral \<Longrightarrow> ppg_scene_contract_id p = None"
    by (auto simp: validate_program_def Let_def seq_res_Inr)
  then have "ppg_scene_key p = Key_scene_neutral \<Longrightarrow> program_contract_ref p = None"
    by (auto simp: program_contract_ref_def)
  with assms show "(if ppg_scene_key p = Key_scene_neutral then program_contract_ref p = None
      else program_contract_ref p \<noteq> None) \<and> opt_within 240 (program_contract_ref p)"
    by (auto simp: contract_ref_ok_def opt_within_def split: option.splits)
qed

lemma stage_input_version_length:
  "length (py_replace_char CHR ''_'' CHR ''-'' (stage_kind_str stage) @ ''-input.v1'') \<le> 160"
  by (cases stage) (simp_all add: py_replace_char_def)

lemma text_id_lengths [simp]:
  "length (provider_id_str p) \<le> 80" "length (variant_str v) \<le> 80"
  by (cases p; simp) (cases v; simp)

lemma row_closes:
  assumes "sha_hex (drt_sha rt)" "direct_call_ok rt call" "contract_ref_ok program"
    and "check_row reserved = Inr reserved"
    and "if status = Row_success then (\<exists>b n. out1 = Some (''out1:'' @ drt_sha rt b) \<and> n \<ge> 0 \<and> output_bytes = Some n) \<and> error_code = None
      else status \<noteq> Row_reserved \<and> out1 = None \<and> output_bytes = None \<and> (\<exists>c. error_code = Some c \<and> length c \<le> 80)"
  shows "\<exists>row. closed_direct_row rt call program env stage reserved status error_code out1 output_bytes = Inr row
    \<and> check_row row = Inr row \<and> ivr_invocation_ordinal row = ivr_invocation_ordinal reserved
    \<and> ivr_status row = status \<and> ivr_error_code row = error_code \<and> ivr_output_digest row = out1"
proof -
  let ?row = "reserved
       \<lparr>ivr_program_version := Some (ppg_program_version program), ivr_scene_key := Some (ppg_scene_key program),
        ivr_scene_contract_ref := program_contract_ref program, ivr_status := status,
        ivr_osh1 := Some (synthesis_osh1 (drt_sha rt) (dcl_synthesis call)),
        ivr_poh1 := Some (envelope_poh1 (drt_sha rt) env),
        ivr_hph1 := Some (prompt_hph1 (drt_sha rt) (syn_program_text (dcl_synthesis call)) (syn_spec (dcl_synthesis call))),
        ivr_prh1 := Some (envelope_prh1 (drt_sha rt) env),
        ivr_input_digest := Some (synthesis_mch1 (drt_sha rt) (dcl_synthesis call)),
        ivr_output_digest := out1, ivr_error_code := error_code,
        ivr_model_family := Some (ptg_model_family (dcl_target call)),
        ivr_provider_id := Some (provider_id_str (env_provider_id env)),
        ivr_transport_id := Some (variant_str (env_variant env)),
        ivr_input_schema_version := Some (py_replace_char CHR ''_'' CHR ''-'' (stage_kind_str stage) @ ''-input.v1''),
        ivr_output_schema_version := Some (rmd_version (dcl_model call)),
        ivr_latency_ms := drt_latency_ms rt, ivr_input_bytes := drt_envelope_bytes rt env,
        ivr_output_bytes := output_bytes\<rparr>"
  have base: "\<forall>m\<in>set (row_field_checks reserved). m = Inr ()"
    using assms(4) by (auto simp: check_row_def res_bind_Inr_iff seq_res_Inr)
  note shape = contract_ref_ok_shape [OF assms(3)]
  have call: "0 \<le> drt_latency_ms rt" "0 \<le> drt_envelope_bytes rt env" "length (rmd_version (dcl_model call)) \<le> 160"
    "length (ptg_model_family (dcl_target call)) \<le> 80"
    using assms(2) by (auto simp: direct_call_ok_def)
  have sha: "length (drt_sha rt b) = 64" "list_all is_lower_hex (drt_sha rt b)" for b
    using assms(1) by (auto simp: sha_hex_def)
  have out: "opt_prefixed_hex ''out1:'' out1" "case output_bytes of None \<Rightarrow> True | Some n \<Rightarrow> 0 \<le> n" "opt_within 80 error_code"
    using assms(5) sha
    by (auto simp: opt_prefixed_hex_def prefixed_hex_def startswith_iff opt_within_def split: if_splits)
  have fields: "\<forall>m\<in>set (row_field_checks ?row). m = Inr ()"
    using base shape call out digest_hex [OF assms(1)] stage_input_version_length [of stage]
    by (auto simp: row_field_checks_def opt_prefixed_hex_def opt_within_def synthesis_osh1_def envelope_poh1_def
        prompt_hph1_def envelope_prh1_def hash_canonical_model_def synthesis_mch1_def split: option.splits)
  have status: "validate_status_fields ?row = Inr ()"
    using assms(5) shape(3) by (auto simp: validate_status_fields_def Let_def seq_res_Inr split: if_splits)
  have "check_row ?row = Inr ?row" using fields status by (simp add: check_row_def res_bind_Inr_iff seq_res_Inr)
  then show ?thesis by (intro exI [of _ ?row]) (simp add: closed_direct_row_def)
qed

lemma close_reserved:
  assumes "journal_wf j" "journal_reserve stage pid slot purpose attempt j = Inr (j', row)"
    and "row_of row = Inr row2" "check_row row2 = Inr row2" "ivr_invocation_ordinal row2 = ivr_invocation_ordinal row"
  shows "\<exists>js. close_row (Some j') (Some row) row_of = Inr (Some js) \<and> journal_wf js \<and> ij_rows js = ij_rows j @ [row2]"
proof -
  note r = journal_reserve_Inr [OF assms(2)]
  have n: "ivr_invocation_ordinal row = int (length (ij_rows j)) + 1" "ivr_status row = Row_reserved"
    by (subst r(4); simp)+
  have rep: "replace_reserved (ivr_invocation_ordinal row) row2 j' = Inr (j'\<lparr>ij_rows := ij_rows j @ [row2]\<rparr>)"
    using r(1) n assms(5) by (simp add: replace_reserved_def)
  from replace_reserved_wf [OF journal_reserve_wf [OF assms(1,2)] rep] assms(4)
  have "journal_wf (j'\<lparr>ij_rows := ij_rows j @ [row2]\<rparr>)" by (simp add: is_ok_def)
  with rep assms(3) show ?thesis by (simp add: close_row_def)
qed

lemma output_failure_registered: "c \<in> set output_failure_codes \<Longrightarrow> c \<in> set provider_failure_codes"
  by (auto simp: output_failure_codes_def provider_failure_codes_def)

lemma member_of_codes: "member_of k v = Inl e \<Longrightarrow> \<exists>c\<in>set output_failure_codes. e = ProviderInvocationError c"
  "first_of v = Inl e \<Longrightarrow> \<exists>c\<in>set output_failure_codes. e = ProviderInvocationError c"
  "text_of v = Inl e \<Longrightarrow> \<exists>c\<in>set output_failure_codes. e = ProviderInvocationError c"
  by (auto simp: member_of_def first_of_def text_of_def output_failure_codes_def split: json.splits option.splits list.splits)

lemma map_res_Inl: "map_res f xs = Inl e \<Longrightarrow> \<exists>x\<in>set xs. f x = Inl e"
  by (induction xs) (auto simp: res_bind_def split: sum.splits)

lemma response_text_codes:
  "openai_response_text v = Inl e \<Longrightarrow> \<exists>c\<in>set output_failure_codes. e = ProviderInvocationError c"
  "gemini_response_text v = Inl e \<Longrightarrow> \<exists>c\<in>set output_failure_codes. e = ProviderInvocationError c"
  subgoal
    unfolding openai_response_text_def
    by (auto simp: res_bind_def split: sum.splits dest: member_of_codes)
  subgoal
    unfolding gemini_response_text_def
    by (auto simp: res_bind_def output_failure_codes_def split: sum.splits json.splits if_splits
        dest!: member_of_codes map_res_Inl)
  done

text \<open>What the block that posts can end with, when the HTTP layer raises only what the client handles.\<close>

definition handled_end :: "post_end \<Rightarrow> bool" where
  "handled_end p =
     (case p of
        Post_text c t \<Rightarrow> cap_status c = Available_text \<and> cap_text c = Some t \<and> 0 \<le> cap_byte_count c
      | Post_failed code \<Rightarrow> code \<in> set provider_failure_codes
      | Post_raises _ \<Rightarrow> False
      | _ \<Rightarrow> True)"

lemma captured_post_handled: "handled_end (captured_post model t)"
  by (auto simp: captured_post_def capture_string_def failed_capture_def handled_end_def Let_def or_else_def
      normalize_provider_failure_code_def provider_failure_codes_def)

lemma post_outcome_handled:
  assumes "\<And>e. h \<noteq> Http_raises e"
  shows "handled_end (post_outcome variant model h)"
proof (cases h)
  case (Http_content payload)
  show ?thesis
  proof (cases payload)
    case None
    with Http_content show ?thesis by (simp add: post_outcome_def handled_end_def)
  next
    case (Some v)
    let ?t = "case variant of Openai_chat_completions \<Rightarrow> openai_response_text v | Gemini_generate_content \<Rightarrow> gemini_response_text v"
    have codes: "\<exists>c\<in>set output_failure_codes. e = ProviderInvocationError c" if "?t = Inl e" for e
      using that by (cases variant) (auto dest: response_text_codes)
    show ?thesis
    proof (cases ?t)
      case (Inl e)
      from codes [OF this] obtain c where "c \<in> set output_failure_codes" "e = ProviderInvocationError c" by blast
      with Http_content Some Inl output_failure_registered [of c] show ?thesis
        by (simp add: post_outcome_def handled_end_def)
    next
      case (Inr t)
      with Http_content Some captured_post_handled [of model t] show ?thesis by (simp add: post_outcome_def)
    qed
  qed
qed (use assms in \<open>auto simp: post_outcome_def handled_end_def provider_http_failure_code_def provider_failure_codes_def\<close>)

text \<open>What the row of a call says of how it ended.\<close>

definition row_accounts :: "(pybytes \<Rightarrow> pystr) \<Rightarrow> invocation_row \<Rightarrow> pystr call \<Rightarrow> bool" where
  "row_accounts sha row r =
     (case r of
        Call_returns t \<Rightarrow> ivr_status row = Row_success \<and> ivr_error_code row = None
          \<and> ivr_output_digest row = Some (''out1:'' @ sha (''provider-output-text.v1'' @ [CHR 0x00] @ utf8 t))
      | Call_raises e \<Rightarrow> (\<exists>c\<in>set provider_failure_codes. e = ProviderInvocationError c
          \<and> ivr_status row = error_status c \<and> ivr_error_code row = Some c \<and> ivr_output_digest row = None)
      | Call_cancelled \<Rightarrow> ivr_status row = Row_transport_error \<and> ivr_output_digest row = None
          \<and> ivr_error_code row = Some ''provider_transport_unavailable'')"

lemma failure_code_length: "c \<in> set provider_failure_codes \<Longrightarrow> length c \<le> 80"
  by (auto simp: provider_failure_codes_def)

lemma error_status_closed: "error_status c \<noteq> Row_success" "error_status c \<noteq> Row_reserved"
  by (simp_all add: error_status_def)

lemma posted_closes:
  assumes "sha_hex (drt_sha rt)" "direct_call_ok rt call" "contract_ref_ok program" "journal_wf j"
    and reserve: "journal_reserve stage pid slot purpose None j = Inr (j', row)" and "handled_end outcome"
    and "posted rt call program env stage outcome (Some j') (Some row) = (j2, r)"
  shows "\<exists>js row'. j2 = Some js \<and> journal_wf js \<and> ij_rows js = ij_rows j @ [row'] \<and> row_accounts (drt_sha rt) row' r"
proof -
  have row: "check_row row = Inr row" by (rule journal_reserve_Inr(3) [OF reserve])
  have closes: "\<exists>js row'. close_row (Some j') (Some row)
        (\<lambda>x. closed_direct_row rt call program env stage x status error_code out1 output_bytes) = Inr (Some js)
      \<and> journal_wf js \<and> ij_rows js = ij_rows j @ [row'] \<and> ivr_status row' = status \<and> ivr_error_code row' = error_code
      \<and> ivr_output_digest row' = out1"
    if "if status = Row_success then (\<exists>b n. out1 = Some (''out1:'' @ drt_sha rt b) \<and> n \<ge> 0 \<and> output_bytes = Some n) \<and> error_code = None
      else status \<noteq> Row_reserved \<and> out1 = None \<and> output_bytes = None \<and> (\<exists>c. error_code = Some c \<and> length c \<le> 80)"
    for status error_code out1 output_bytes
  proof -
    from row_closes [OF assms(1-3) row that, of env stage] obtain row' where
      "closed_direct_row rt call program env stage row status error_code out1 output_bytes = Inr row'"
      "check_row row' = Inr row'" "ivr_invocation_ordinal row' = ivr_invocation_ordinal row"
      "ivr_status row' = status" "ivr_error_code row' = error_code" "ivr_output_digest row' = out1" by blast
    moreover from close_reserved [OF assms(4) reserve, where row_of =
        "\<lambda>x. closed_direct_row rt call program env stage x status error_code out1 output_bytes", OF this(1-3)] obtain js where
      "close_row (Some j') (Some row)
        (\<lambda>x. closed_direct_row rt call program env stage x status error_code out1 output_bytes) = Inr (Some js)"
      "journal_wf js" "ij_rows js = ij_rows j @ [row']" by blast
    ultimately show ?thesis by blast
  qed
  have failed: "\<exists>js row'. close_row (Some j') (Some row)
        (\<lambda>x. closed_direct_row rt call program env stage x (error_status c) (Some c) None None) = Inr (Some js)
      \<and> journal_wf js \<and> ij_rows js = ij_rows j @ [row'] \<and> ivr_status row' = error_status c \<and> ivr_error_code row' = Some c
      \<and> ivr_output_digest row' = None" if "c \<in> set provider_failure_codes" for c
    using failure_code_length [OF that] error_status_closed [of c] by (intro closes) auto
  have codes: "''provider_transport_unavailable'' \<in> set provider_failure_codes"
    "''provider_internal_error'' \<in> set provider_failure_codes"
    by (simp_all add: provider_failure_codes_def)
  show ?thesis
  proof (cases outcome)
    case (Post_text c t)
    with assms(6) have c: "cap_status c = Available_text" "cap_text c = Some t" "0 \<le> cap_byte_count c"
      by (auto simp: handled_end_def)
    let ?out = "''out1:'' @ drt_sha rt (''provider-output-text.v1'' @ [CHR 0x00] @ utf8 t)"
    from closes [of Row_success "Some ?out" "Some (cap_byte_count c)" None] c(3) obtain js row' where
      "close_row (Some j') (Some row) (\<lambda>x. closed_direct_row rt call program env stage x Row_success None
          (Some ?out) (Some (cap_byte_count c))) = Inr (Some js)"
      "journal_wf js" "ij_rows js = ij_rows j @ [row']" "ivr_status row' = Row_success" "ivr_error_code row' = None"
      "ivr_output_digest row' = Some ?out" by auto
    with assms(7) c Post_text show ?thesis
      by (intro exI [of _ js] exI [of _ row']) (auto simp: posted_def capture_out1_def closing_def row_accounts_def)
  next
    case (Post_failed c)
    with assms(6) have c: "c \<in> set provider_failure_codes" by (simp add: handled_end_def)
    from failed [OF c] assms(7) c Post_failed show ?thesis
      by (auto simp: posted_def closing_def row_accounts_def Let_def)
  next
    case Post_cancelled
    from failed [OF codes(1)] assms(7) Post_cancelled show ?thesis
      by (auto simp: posted_def closing_def row_accounts_def Let_def error_status_def is_provider_output_failure_def
          output_failure_codes_def)
  next
    case Post_invalid
    from failed [OF codes(2)] assms(7) codes(2) Post_invalid show ?thesis
      by (auto simp: posted_def closing_def row_accounts_def Let_def)
  next
    case (Post_raises e)
    with assms(6) show ?thesis by (simp add: handled_end_def)
  qed
qed

lemma seq_res_Inl_mem: "seq_res ms = Inl e \<Longrightarrow> Inl e \<in> set ms"
  by (induction ms) (auto simp: seq_res.simps split: sum.splits)

lemma Inl_raise_if [simp]: "Inl e = raise_if c e' \<longleftrightarrow> c \<and> e = e'"
  by (auto simp: raise_if_def)

lemma reserve_error:
  assumes "journal_reserve stage pid slot purpose attempt j = Inl e"
  shows "\<exists>m. e = ValueError m"
proof -
  consider "e = ValueError ''llm_invocation_journal_capacity_exceeded''"
    | r where "Inl e \<in> set (row_field_checks r @ [validate_status_fields r])"
    using assms by (auto simp: journal_reserve_def Let_def check_row_def res_bind_def split: if_splits sum.splits
        dest!: seq_res_Inl_mem)
  then show ?thesis
  proof cases
    case (2 r)
    then consider "Inl e \<in> set (row_field_checks r)" | "validate_status_fields r = Inl e" by auto
    then show ?thesis
    proof cases
      case 2
      then show ?thesis
        by (auto simp: validate_status_fields_def Let_def split: if_splits dest!: seq_res_Inl_mem)
    qed (auto simp: row_field_checks_def)
  qed blast
qed

lemma resolve_error:
  "resolve_active_prompt_program_v2 reg stage key = Inl e \<Longrightarrow> \<exists>m. e = ValueError m"
  "direct_synthesis_stage_kind s = Inl e \<Longrightarrow> \<exists>m. e = ValueError m"
  "build_provider_transport_envelope ft s t = Inl e \<Longrightarrow> \<exists>m. e = ValueError m"
  by (auto simp: resolve_active_prompt_program_v2_def direct_synthesis_stage_kind_def res_bind_def
      build_provider_transport_envelope_def assert_within_aggregate_budget_def split: list.splits option.splits sum.splits)

text \<open>C13 A direct call with a journal whose HTTP layer raises only what the client handles leaves either the
  journal as it was, when it is refused with a \<open>ValueError\<close> before the provider is asked or is a health
  probe, or one row more, which is closed and says how the call ended: the digest of the text it returned, the
  code of the \<open>ProviderInvocationError\<close> it raised, or the cancellation. The journal stays well formed.\<close>

theorem direct_call_closes_row:
  assumes "sha_hex (drt_sha rt)" "direct_call_ok rt call" "journal_wf j"
    and run: "run_direct_provider_text rt call (Some j) = (j2, r)"
  shows "\<exists>js. j2 = Some js \<and> journal_wf js \<and>
    (js = j \<and> ((\<exists>m. r = Call_raises (ValueError m))
        \<or> direct_synthesis_stage_kind (dcl_synthesis call) = Inr Stage_llm_health_probe)
     \<or> (\<exists>row. ij_rows js = ij_rows j @ [row] \<and> row_accounts (drt_sha rt) row r))"
proof -
  let ?before = "res_bind (direct_synthesis_stage_kind (dcl_synthesis call)) (\<lambda>stage.
        res_bind (raise_if (ptg_endpoint (dcl_target call) = internal_sdk_endpoint)
          (ValueError ''provider_endpoint_scheme_invalid'')) (\<lambda>_.
        res_bind (resolve_active_prompt_program_v2 (drt_registry rt) stage (dcl_scene_key call)) (\<lambda>(program, spec).
        res_bind (raise_if (ppg_program_id program \<noteq> syn_program_id (dcl_synthesis call))
          (ValueError ''prompt_program_v2_dispatch_mismatch'')) (\<lambda>_.
        res_bind (build_provider_transport_envelope (drt_float_text rt) (dcl_synthesis call) (dcl_target call)) (\<lambda>env.
          Inr (stage, program, env))))))"
  note run = run [unfolded run_direct_provider_text_def Let_def]
  show ?thesis
  proof (cases ?before)
    case (Inl e)
    then have "\<exists>m. e = ValueError m"
      by (auto simp: res_bind_def raise_if_def split: sum.splits if_splits prod.splits dest: resolve_error)
    with run Inl assms(3) show ?thesis by auto
  next
    case (Inr x)
    obtain stage program env where x: "x = (stage, program, env)" by (cases x)
    with Inr obtain spec where before: "direct_synthesis_stage_kind (dcl_synthesis call) = Inr stage"
      "resolve_active_prompt_program_v2 (drt_registry rt) stage (dcl_scene_key call) = Inr (program, spec)"
      by (auto simp: res_bind_Inr_iff split: prod.splits if_splits)
    from resolve_active_Inr(1) [OF before(2)] assms(2) have program: "contract_ref_ok program"
      by (auto simp: direct_call_ok_def list_all_iff)
    have handled: "handled_end (post_outcome (env_variant env) (dcl_model call) (drt_http rt))"
      using assms(2) by (intro post_outcome_handled) (auto simp: direct_call_ok_def)
    show ?thesis
    proof (cases "stage = Stage_llm_health_probe")
      case True
      have "j2 = Some j"
        using run Inr x True
        by (auto simp: posted_def closing_def close_row_def Let_def split: post_end.splits sum.splits)
      with True before(1) assms(3) show ?thesis by auto
    next
      case False
      show ?thesis
      proof (cases "journal_reserve stage (syn_program_id (dcl_synthesis call)) (ptg_target_slot (dcl_target call))
          (dcl_purpose call) None j")
        case (Inl e)
        with reserve_error [OF Inl] run \<open>?before = Inr x\<close> x False assms(3) show ?thesis by auto
      next
        case reserved: (Inr y)
        obtain j' row where y: "y = (j', row)" by (cases y)
        have "posted rt call program env stage (post_outcome (env_variant env) (dcl_model call) (drt_http rt)) (Some j') (Some row)
            = (j2, r)"
          using run Inr x False reserved y by simp
        from posted_closes [OF assms(1,2) program assms(3) reserved [unfolded y] handled this] show ?thesis by blast
      qed
    qed
  qed
qed

subsection \<open>A planner call of a direct conversation\<close>

definition sample_source :: "pystr \<Rightarrow> source_purpose \<Rightarrow> prompt_source" where
  "sample_source name purpose =
     \<lparr>psr_fragment_id = name, psr_template_name = name, psr_layer = ''base'', psr_priority = 1, psr_purpose = purpose,
      psr_frh1 = ''frh1:'' @ replicate 64 CHR ''0'', psr_model_families = [''generic'']\<rparr>"

definition sample_program :: prompt_program_v2 where
  "sample_program =
     \<lparr>ppg_program_id = ''planner'', ppg_program_version = ''1'', ppg_stage = Stage_planner_intent,
      ppg_scene_key = Key_wecom_direct,
      ppg_sources = [sample_source universal_precedence Purpose_instruction_precedence,
        sample_source ''scene'' Purpose_scene_presentation],
      ppg_scene_contract_id = Some ''direct'', ppg_scene_contract_version = Some ''v1''\<rparr>"

definition sample_spec :: execution_spec where
  "sample_spec =
     \<lparr>axs_spec_id = ''spec'', axs_program_id = ''planner'', axs_stage = Stage_planner_intent,
      axs_scene_key = Key_wecom_direct, axs_role = ''r'', axs_goal = ''g'', axs_backstory = ''b'',
      axs_task_template = ''t'', axs_expected_output_template = ''o'', axs_version = 1\<rparr>"

definition sample_call :: direct_call where
  "sample_call =
     \<lparr>dcl_synthesis = \<lparr>syn_spec = sample_spec, syn_schema_name = ''s'', syn_schema = JObj [], syn_program_id = ''planner'',
        syn_program_version = ''1'', syn_program_text = ''p'',
        syn_stage_input = JObj [(''contract_version'', JStr ''planner-prompt-input.v1'')]\<rparr>,
      dcl_target = sample_target,
      dcl_model = \<lparr>rmd_name = ''Plan'', rmd_schema = JObj [], rmd_accepts = (\<lambda>_. True), rmd_version = ''v1''\<rparr>,
      dcl_scene_key = Key_wecom_direct, dcl_purpose = ''planner''\<rparr>"

definition sample_runtime :: "http_end \<Rightarrow> direct_runtime" where
  "sample_runtime http =
     \<lparr>drt_sha = flat_sha, drt_float_text = (\<lambda>_. ''0.0''),
      drt_registry = \<lparr>prg_programs = [sample_program], prg_specs = [sample_spec]\<rparr>,
      drt_http = http, drt_latency_ms = 5, drt_envelope_bytes = (\<lambda>_. 100)\<rparr>"

definition sample_journal :: invocation_journal where
  "sample_journal = \<lparr>ij_max_rows = 18, ij_rows = []\<rparr>"

lemma sample_call_ok: "direct_call_ok (sample_runtime (Http_status 401)) sample_call"
proof -
  have "check_prompt_program sample_program = Inr sample_program" by code_simp
  then show ?thesis
    by (simp add: direct_call_ok_def sample_runtime_def contract_ref_ok_def program_contract_ref_def sample_program_def
        sample_call_def length_within_def sample_target_def)
qed

lemma posted_rows:
  assumes "posted rt call program env stage outcome (Some j) reserved = (Some j2, r)"
  shows "length (ij_rows j2) = length (ij_rows j)"
proof -
  have "length (ij_rows j2) = length (ij_rows j)"
    if "close_row (Some j) reserved row_of = Inr (Some j2)" for row_of
    using that by (auto simp: close_row_def res_bind_Inr_iff dest!: replace_reserved_Inr(1) split: option.splits)
  with assms show ?thesis
    by (auto simp: posted_def closing_def Let_def split: post_end.splits sum.splits)
qed

theorem direct_call_closes_row_witness:
  "\<exists>js row r. run_direct_provider_text (sample_runtime (Http_status 401)) sample_call (Some sample_journal) = (Some js, r)
    \<and> ij_rows js = [row] \<and> row_accounts flat_sha row r"
proof -
  let ?rt = "sample_runtime (Http_status 401)" and ?s = "dcl_synthesis sample_call"
  obtain j2 r where run: "run_direct_provider_text ?rt sample_call (Some sample_journal) = (j2, r)"
    by (rule prod.exhaust)
  have wf: "journal_wf sample_journal" by (simp add: journal_wf_def sample_journal_def)
  have "sha_hex (drt_sha ?rt)" by (simp add: sample_runtime_def flat_sha_hex)
  from direct_call_closes_row [OF this sample_call_ok wf run] obtain js where js: "j2 = Some js"
    "js = sample_journal \<or> (\<exists>row. ij_rows js = ij_rows sample_journal @ [row] \<and> row_accounts (drt_sha ?rt) row r)" by blast
  have stage: "direct_synthesis_stage_kind ?s = Inr Stage_planner_intent" by code_simp
  have program: "resolve_active_prompt_program_v2 (drt_registry ?rt) Stage_planner_intent Key_wecom_direct
      = Inr (sample_program, sample_spec)" by code_simp
  have "length (canonical_json_bytes (synthesis_json ?s)) < 5000" by code_simp
  then obtain env where env: "build_provider_transport_envelope (drt_float_text ?rt) ?s sample_target = Inr env"
    by (simp add: build_provider_transport_envelope_def assert_within_aggregate_budget_def aggregate_input_limit_def stage)
  have "map_sum id (\<lambda>(j, row). length (ij_rows j))
      (journal_reserve Stage_planner_intent ''planner'' Slot_planner ''planner'' None sample_journal) = Inr 1" by code_simp
  then obtain j' row where reserve:
    "journal_reserve Stage_planner_intent ''planner'' Slot_planner ''planner'' None sample_journal = Inr (j', row)"
    "length (ij_rows j') = 1" by (cases "journal_reserve Stage_planner_intent ''planner'' Slot_planner ''planner'' None sample_journal") auto
  have "posted ?rt sample_call sample_program env Stage_planner_intent
      (post_outcome (env_variant env) (dcl_model sample_call) (drt_http ?rt)) (Some j') (Some row) = (Some js, r)"
    using run js(1) stage program env reserve(1)
    by (simp add: run_direct_provider_text_def Let_def sample_call_def sample_target_def sample_program_def internal_sdk_endpoint_def)
  from posted_rows [OF this] reserve(2) have "js \<noteq> sample_journal" by (auto simp: sample_journal_def)
  with js run show ?thesis by (auto simp: sample_runtime_def sample_journal_def)
qed


section \<open>Calls whose request was not captured\<close>

text \<open>A row that a group audit cannot take: one that is still reserved has no request digest either.\<close>

lemma unaudited_row:
  assumes "ivr_prh1 r = None" "audit_attempt reg SceneGroup None r = Inr la"
  shows "\<not> is_ok (build_group_program la)"
proof -
  have "la_prh1 la = None"
    using assms by (auto simp: audit_attempt_def attempt_digests_def res_bind_Inr_iff checked_Inr split: prod.splits if_splits)
  then show ?thesis
    by (auto simp: build_group_program_def required_group_field_def is_ok_iff res_bind_Inr_iff)
qed

lemma map_res_fails: "x \<in> set xs \<Longrightarrow> \<not> is_ok (f x) \<Longrightarrow> \<not> is_ok (map_res f xs)"
  using map_res_image [of f xs _ x] by (auto simp: is_ok_iff)

definition group_audit ::
  "program_registry \<Rightarrow> invocation_journal \<Rightarrow> group_audit_commit_proposal \<Rightarrow> conversation_state_key \<Rightarrow> pystr \<Rightarrow> pystr
   \<Rightarrow> reply_kind \<Rightarrow> int \<Rightarrow> int \<Rightarrow> audit_record result" where
  "group_audit reg j proposal key response_id request_id kind created expires =
     res_bind (journal_audit_attempts reg SceneGroup None j) (\<lambda>attempts.
       build_audit_record (GroupAuditCommitProposalV1 (proposal\<lparr>ga_program_attempts := attempts\<rparr>)) key response_id
         request_id kind created expires)"

lemma unaudited_journal:
  assumes "r \<in> set (ij_rows j)" "ivr_stage_kind r \<noteq> Stage_llm_health_probe" "ivr_prh1 r = None"
  shows "\<not> is_ok (group_audit reg j proposal key response_id request_id kind created expires)"
proof -
  have "\<not> is_ok (map_res build_group_program attempts)" if "journal_audit_attempts reg SceneGroup None j = Inr attempts" for attempts
  proof -
    have "r \<in> set (filter (\<lambda>r. ivr_stage_kind r \<noteq> Stage_llm_health_probe) (ij_rows j))" using assms(1,2) by simp
    from map_res_image [OF that [unfolded journal_audit_attempts_def] this] obtain la where
      la: "la \<in> set attempts" "audit_attempt reg SceneGroup None r = Inr la" by blast
    from la(1) unaudited_row [OF assms(3) la(2)] show ?thesis by (rule map_res_fails)
  qed
  then show ?thesis
    by (auto simp: group_audit_def is_ok_iff res_bind_Inr_iff)
qed

lemma reserved_row_unset [simp]:
  "ivr_prh1 (reserved_row n a stage program slot purpose) = None"
  "ivr_stage_kind (reserved_row n a stage program slot purpose) = stage"
  by (simp_all add: reserved_row_def)

lemma crew_row_uncaptured:
  assumes "crew_row rt p env None status error_code out1 output_bytes reserved = Inr row"
  shows "ivr_prh1 row = None \<and> ivr_stage_kind row = ivr_stage_kind reserved"
proof -
  from assms obtain mch1 r where "check_row r = Inr row"
    "ivr_prh1 r = None" "ivr_stage_kind r = ivr_stage_kind reserved"
    by (auto simp: crew_row_def res_bind_Inr_iff)
  with check_row_Inr show ?thesis by blast
qed

lemma close_row_rows:
  assumes "close_row (Some j) (Some reserved) row_of = Inr (Some j2)" "ij_rows j = rows @ [reserved]"
    and "ivr_invocation_ordinal reserved = int (length rows) + 1"
  shows "\<exists>row. row_of reserved = Inr row \<and> ij_rows j2 = rows @ [row]"
proof -
  from assms(1) obtain row where row: "row_of reserved = Inr row"
    "replace_reserved (ivr_invocation_ordinal reserved) row j = Inr j2"
    by (auto simp: close_row_def res_bind_Inr_iff)
  from replace_reserved_Inr(1) [OF row(2)] assms(2,3) have "ij_rows j2 = rows @ [row]" by simp
  with row(1) show ?thesis by blast
qed

lemma close_row_Some: "close_row (Some j) (Some r) row_of = Inr x \<Longrightarrow> \<exists>j2. x = Some j2"
  by (auto simp: close_row_def res_bind_Inr_iff)

lemma kicked_uncaptured:
  assumes "kicked rt p env (Some j) (Some reserved) = (Some j2, r)" "crt_capture rt = None"
    and rows: "ij_rows j = rows @ [reserved]" "ivr_invocation_ordinal reserved = int (length rows) + 1"
    and unset: "ivr_prh1 reserved = None"
  shows "\<exists>row. ij_rows j2 = rows @ [row] \<and> ivr_prh1 row = None \<and> ivr_stage_kind row = ivr_stage_kind reserved"
proof -
  have closed: ?thesis
    if "close_transport_error rt p env code (Some j) (Some reserved) = Inr (Some j2)" for code
    using close_row_rows [OF that [unfolded close_transport_error_def assms(2)] rows] crew_row_uncaptured by blast
  have "j2 = j \<or> (\<exists>code. close_transport_error rt p env code (Some j) (Some reserved) = Inr (Some j2))"
    using assms(1,2)
    by (auto simp: kicked_def closing_def Let_def split: kickoff_end.splits sum.splits py_error.splits if_splits)
  with closed rows unset show ?thesis by blast
qed

text \<open>C33 A group call that fails before its request was captured leaves a row without a request digest, closed or
  still reserved, and no group audit record can be built from a journal that holds it, although the row is
  valid and closed as the journal asks. So a turn that recovers from the call, as it does when a selector, a
  composer or the verifier is down, still fails at its commit.\<close>

theorem uncaptured_call_blocks_commit:
  assumes "run_crewai_kickoff rt p health (Some j) = (Some j1, r)" "crt_capture rt = None" "j1 \<noteq> j"
    and "cwp_stage p \<noteq> Stage_llm_health_probe" "take (length (ij_rows j1)) (ij_rows j2) = ij_rows j1"
  shows "\<not> is_ok (group_audit reg j2 proposal key response_id request_id kind created expires)"
proof -
  from assms(1,3) obtain env j' row where
    reserve: "journal_reserve (cwp_stage p) (cwp_program_id p) (target_slot_for_stage (cwp_stage p)) ''crewai_kickoff'' None j
      = Inr (j', row)" and kicked: "kicked rt p env (Some j') (Some row) = (Some j1, r)"
    by (auto simp: run_crewai_kickoff_def res_bind_def split: sum.splits)
  note res = journal_reserve_Inr [OF reserve]
  have row: "ivr_invocation_ordinal row = int (length (ij_rows j)) + 1" "ivr_prh1 row = None" "ivr_stage_kind row = cwp_stage p"
    by (subst res(4); simp)+
  have "ij_rows j' = ij_rows j @ [row]" by (simp add: res(1))
  from kicked_uncaptured [OF kicked assms(2) this row(1,2)] obtain row' where
    row': "ij_rows j1 = ij_rows j @ [row']" "ivr_prh1 row' = None" "ivr_stage_kind row' = cwp_stage p" using row(3) by auto
  have "row' \<in> set (ij_rows j2)" using assms(5) row'(1) in_set_takeD [of row' "length (ij_rows j1)" "ij_rows j2"] by simp
  from unaudited_journal [OF this] row' assms(4) show ?thesis by simp
qed

definition group_program :: prompt_program_v2 where
  "group_program = sample_program\<lparr>ppg_stage := Stage_alignment_verifier, ppg_scene_key := Key_wecom_group\<rparr>"

definition group_spec :: execution_spec where
  "group_spec = sample_spec\<lparr>axs_stage := Stage_alignment_verifier, axs_scene_key := Key_wecom_group\<rparr>"

definition group_call :: crew_program where
  "group_call =
     \<lparr>cwp_stage = Stage_alignment_verifier, cwp_program_id = ''planner'', cwp_program_version = ''1'',
      cwp_scene_key = Key_wecom_group, cwp_scene_contract_id = Some ''direct'', cwp_scene_contract_version = Some ''v1'',
      cwp_model_family = ''generic'',
      cwp_response_model = \<lparr>rmd_name = ''Verdict'', rmd_schema = JObj [], rmd_accepts = (\<lambda>_. True), rmd_version = ''v1''\<rparr>,
      cwp_prompt_text = ''p'', cwp_hph1 = ''hph1:'' @ replicate 64 CHR ''0'',
      cwp_mch1 = Some (''mch1:'' @ replicate 64 CHR ''0'')\<rparr>"

definition broken_runtime :: crew_runtime where
  "broken_runtime =
     \<lparr>crt_sha = flat_sha, crt_decode = (\<lambda>_. None),
      crt_registry = \<lparr>prg_programs = [group_program], prg_specs = [group_spec]\<rparr>,
      crt_envelope = Inr (make_envelope sample_target Stage_alignment_verifier JNull JNull JNull), crt_capture = None,
      crt_end = Kick_raises TimeoutError, crt_latency_ms = 1\<rparr>"

theorem uncaptured_call_blocks_commit_witness:
  "\<exists>j1 r. run_crewai_kickoff broken_runtime group_call False (Some sample_journal) = (Some j1, r)
    \<and> (\<forall>reg proposal key response_id request_id kind created expires.
         \<not> is_ok (group_audit reg j1 proposal key response_id request_id kind created expires))"
proof -
  have dispatch: "reject_invalid_dispatch (crt_registry broken_runtime) group_call False = Inr ()" by code_simp
  have "map_sum id (\<lambda>(j, row). length (ij_rows j))
      (journal_reserve Stage_alignment_verifier ''planner'' Slot_composer ''crewai_kickoff'' None sample_journal) = Inr 1"
    by code_simp
  then obtain j' row where reserve:
    "journal_reserve Stage_alignment_verifier ''planner'' Slot_composer ''crewai_kickoff'' None sample_journal = Inr (j', row)"
    by (cases "journal_reserve Stage_alignment_verifier ''planner'' Slot_composer ''crewai_kickoff'' None sample_journal") auto
  note res = journal_reserve_Inr [OF reserve]
  have row: "ivr_invocation_ordinal row = int (length (ij_rows sample_journal)) + 1" "ivr_prh1 row = None"
    by (subst res(4); simp)+
  have rows: "ij_rows j' = ij_rows sample_journal @ [row]" by (simp add: res(1))
  have run: "run_crewai_kickoff broken_runtime group_call False (Some sample_journal)
      = kicked broken_runtime group_call (make_envelope sample_target Stage_alignment_verifier JNull JNull JNull) (Some j') (Some row)"
    using dispatch reserve by (simp add: run_crewai_kickoff_def broken_runtime_def group_call_def)
  have none: "crt_capture broken_runtime = None" by (simp add: broken_runtime_def)
  let ?env = "make_envelope sample_target Stage_alignment_verifier JNull JNull JNull"
  have "crt_end broken_runtime = Kick_raises TimeoutError" by (simp add: broken_runtime_def)
  then obtain j1 r where kicked: "kicked broken_runtime group_call ?env (Some j') (Some row) = (Some j1, r)"
    using close_row_Some [of j' row "crew_row broken_runtime group_call ?env None Row_transport_error
        (Some ''provider_timeout'') None None"]
    by (cases "close_transport_error broken_runtime group_call ?env ''provider_timeout'' (Some j') (Some row)")
      (auto simp: kicked_def closing_def close_transport_error_def none Let_def)
  from kicked_uncaptured [OF kicked none rows row] have "j1 \<noteq> sample_journal" by (auto simp: sample_journal_def)
  with kicked run none uncaptured_call_blocks_commit [of broken_runtime group_call False sample_journal j1 r j1]
  show ?thesis by (auto simp: group_call_def)
qed

end
