(* ===== verification/Lifecycle.thy ===== *)
theory Lifecycle
  imports Alignment_Loop Coordinator Journal_Audit Policy_Compiler
begin

text \<open>
  A turn from its reservation to its commit: \<open>runtime/lifecycle.py\<close>, \<open>lifecycle_admission.py\<close>,
  \<open>lifecycle_history.py\<close>, \<open>lifecycle_audit.py\<close>, \<open>context/action_history.py\<close>,
  \<open>validation/request_input_guard.py\<close> and the contract of \<open>settings_model.py\<close> that a turn relies on.

  Between the steps of a turn other turns use the coordinator: \<open>te_interfere\<close> is what they do to it.
  Tracing is left out, and a cancelled task is not modelled.
\<close>

section \<open>Settings\<close>

record turn_settings =
  ts_api_key :: "pystr option"
  ts_input_max_chars :: "int option"
  ts_group_recall_mode :: pystr
  ts_alignment_enabled :: bool
  ts_limits :: alignment_limits
  ts_audit_hmac_key :: "pystr option"

definition maximum_llm_invocation_rows :: "alignment_limits \<Rightarrow> int" where
  "maximum_llm_invocation_rows l =
     8 + sum_list (take (nat (alim_total l))
       (rev (sort (replicate (nat (alim_replans l)) 5 @ replicate (nat (alim_refetches l)) 3
         @ replicate (nat (alim_recomposes l)) 2))))"

text \<open>The bounds of the fields and the checks of \<open>model_post_init\<close> that concern a turn.\<close>

definition check_turn_settings :: "turn_settings \<Rightarrow> turn_settings result" where
  "check_turn_settings s =
     (let l = ts_limits s; actions = [alim_replans l, alim_refetches l, alim_recomposes l] in
      res_bind (seq_res
       [raise_if (case ts_input_max_chars s of None \<Rightarrow> False | Some n \<Rightarrow> n \<le> 0) (ValueError ''agent_input_max_message_chars''),
        raise_if (list_ex (\<lambda>v. v < 0 \<or> v > 2) (actions @ [alim_total l])) (ValueError ''reply_alignment''),
        raise_if (list_ex (\<lambda>v. v > alim_total l) actions) (ValueError ''alignment_action_cap_exceeds_total''),
        raise_if (maximum_llm_invocation_rows l > 18) (ValueError ''maximum_llm_invocation_rows_exceeds_18'')])
       (\<lambda>_. Inr s))"

definition validate_reply_request_input :: "kernel_reply_request \<Rightarrow> turn_settings \<Rightarrow> unit result" where
  "validate_reply_request_input request s =
     (case ts_input_max_chars s of
        None \<Rightarrow> Inr ()
      | Some n \<Rightarrow> raise_if (int (length (kr_message request)) > n) (ValueError ''message_too_long''))"

section \<open>Admission\<close>

record action_summary =
  asm_action_type :: action_execution_type
  asm_artifact_type :: artifact_type
  asm_age_seconds :: int

text \<open>A ledger row is of a sending action; the type of the row also has effects without an artifact.\<close>

fun expected_artifact_type :: "action_execution_type \<Rightarrow> artifact_type option" where
  "expected_artifact_type Send_material_pack = Some Artifact_material_pack"
| "expected_artifact_type Send_weekly_report = Some Artifact_weekly_report"
| "expected_artifact_type Send_monthly_report = Some Artifact_monthly_report"
| "expected_artifact_type _ = None"

definition summary_for_row :: "int \<Rightarrow> action_ledger_record \<Rightarrow> action_summary option" where
  "summary_for_row now r =
     (if al_status r \<noteq> Executed then None
      else case expected_artifact_type (al_action_type r) of
        None \<Rightarrow> None
      | Some artifact \<Rightarrow> Some
          \<lparr>asm_action_type = al_action_type r, asm_artifact_type = artifact,
           asm_age_seconds = min (max 0 (now - al_received_at_epoch_ms r) div 1000) 2592000\<rparr>)"

definition recent_action_summaries_from_snapshot :: "action_ledger_record list \<Rightarrow> int \<Rightarrow> action_summary list" where
  "recent_action_summaries_from_snapshot rows now =
     take 20 (List.map_filter (summary_for_row now) (sort_key (\<lambda>r. - al_received_at_epoch_ms r) rows))"

definition history_from_snapshot :: "conversation_turn_record list \<Rightarrow> history_turns" where
  "history_from_snapshot turns =
     map (\<lambda>t. (case ct_role t of Role_user \<Rightarrow> History_user | Role_assistant \<Rightarrow> History_assistant, ct_text t)) turns"

record turn_admission =
  ta_snapshot :: turn_admission_snapshot
  ta_policy :: policy_manifest
  ta_history :: history_turns
  ta_action_history :: "action_summary list"

definition admit_turn ::
  "(pybytes \<Rightarrow> pystr) \<Rightarrow> readings \<Rightarrow> coordinator \<Rightarrow> kernel_reply_request \<Rightarrow> conversation_state_key
   \<Rightarrow> new_reply_reservation \<Rightarrow> business_scope_authority \<Rightarrow> pystr \<Rightarrow> turn_admission result" where
  "admit_turn sha io co request state_key reservation authority recall_mode =
     res_bind (compile_policy_authority_core_v1 sha request authority recall_mode) (\<lambda>core.
       let snapshot = co_read_turn_admission_snapshot io co state_key (state_admission_hash_v1 sha core)
             (pac_grants_hash core) (bsa_hash authority)
       in if sn_revision_epoch snapshot \<noteq> nr_revision_epoch reservation
             \<or> sn_state_revision snapshot \<noteq> nr_state_revision reservation
          then Inl (CoordinatorError ''conversation_state_changed'')
          else res_bind (policy_ledger_summary_v1 []
                (int (length (filter (\<lambda>r. al_status r = Executed) (sn_ledger_rows snapshot))))) (\<lambda>summary.
            res_bind (from_core sha core summary) (\<lambda>policy.
              Inr \<lparr>ta_snapshot = snapshot, ta_policy = policy, ta_history = history_from_snapshot (sn_turns snapshot),
                ta_action_history = recent_action_summaries_from_snapshot (sn_ledger_rows snapshot)
                  (sn_snapshot_at_epoch_ms snapshot)\<rparr>)))"

section \<open>The commit\<close>

text \<open>The texts that \<open>json.dumps\<close> makes of the response and of the plan are parameters.\<close>

record audit_library =
  aul_sha :: "pybytes \<Rightarrow> pystr"
  aul_hmac :: "pybytes \<Rightarrow> pybytes \<Rightarrow> pystr"
  aul_registry :: program_registry
  aul_response_text :: "reply_response \<Rightarrow> pystr"
  aul_plan_text :: "execution_plan \<Rightarrow> pystr"

definition audit_manifest_refs :: "execution_plan \<Rightarrow> pystr list" where
  "audit_manifest_refs plan = map (\<lambda>r. manifest_id_str (mr_id r) @ ''@2026-07-18.1'') (ep_selected_manifest_refs plan)"

text \<open>The purposes of the digests below are registered, so that \<open>direct_audit_digest\<close> returns.\<close>

definition keyed_digest :: "audit_library \<Rightarrow> pybytes \<Rightarrow> conversation_state_key \<Rightarrow> pystr \<Rightarrow> pystr \<Rightarrow> pystr" where
  "keyed_digest lib key state_key purpose content =
     (case direct_audit_digest (aul_hmac lib) key state_key purpose content of Inr d \<Rightarrow> d | Inl _ \<Rightarrow> [])"

definition direct_audit_reason_code :: "pystr \<Rightarrow> pystr result" where
  "direct_audit_reason_code reason =
     (if reason \<in> set direct_audit_reason_codes then Inr reason
      else Inl (CoordinatorError ''direct_audit_reason_code_forbidden''))"

definition direct_audit_proposal ::
  "audit_library \<Rightarrow> pybytes \<Rightarrow> 'r attempt_result \<Rightarrow> kernel_reply_request \<Rightarrow> conversation_state_key
   \<Rightarrow> llm_invocation_audit_proposal list \<Rightarrow> direct_audit_commit_proposal result" where
  "direct_audit_proposal lib key c request state_key attempts =
     (let digest = keyed_digest lib key state_key;
          reply = reply_text (resp_reply (at_response c));
          facts = er_facts (at_evidence c);
          refs = audit_manifest_refs (at_plan c)
      in res_bind (direct_audit_reason_code (at_reason_code c)) (\<lambda>reason.
         res_bind (map_res (checked check_direct_audit_length)
           [\<lparr>dl_purpose = ''message_chars'', dl_count = int (length (kr_message request))\<rparr>,
            \<lparr>dl_purpose = ''message_bytes'', dl_count = int (length (utf8 (kr_message request)))\<rparr>,
            \<lparr>dl_purpose = ''reply_chars'', dl_count = int (length reply)\<rparr>,
            \<lparr>dl_purpose = ''reply_bytes'', dl_count = int (length (utf8 reply))\<rparr>,
            \<lparr>dl_purpose = ''evidence_count'', dl_count = int (length facts)\<rparr>,
            \<lparr>dl_purpose = ''manifest_count'', dl_count = int (length refs)\<rparr>,
            \<lparr>dl_purpose = ''invocation_count'', dl_count = int (length attempts)\<rparr>]) (\<lambda>lengths.
         res_bind (map_res (checked check_direct_dependency_count)
           [\<lparr>dd_name = ''evidence'', dd_count = int (length (er_groundings (at_evidence c)))\<rparr>]) (\<lambda>counts.
         checked check_direct_audit_commit_proposal
           \<lparr>da_state_key_digest = digest ''request'' ''state'',
            da_request_id_digest = digest ''request_id'' (kr_request_id request),
            da_reason_code = reason, da_manifest_refs = refs,
            da_content_digests =
              [(''message'', digest ''message'' (kr_message request)),
               (''reply'', digest ''reply'' (aul_response_text lib (at_response c))),
               (''plan'', digest ''plan'' (aul_plan_text lib (at_plan c))),
               (''evidence'', digest ''evidence'' (join_with '','' (map cf_evidence_id facts)))],
            da_lengths = lengths, da_dependency_counts = counts,
            da_static_registry_id = ''capability-registry.v2'', da_static_registry_version = ''2026-07-18.1'',
            da_program_attempts = attempts\<rparr>))))"

definition audit_commit_proposal_of ::
  "audit_library \<Rightarrow> pystr option \<Rightarrow> 'r attempt_result \<Rightarrow> kernel_reply_request \<Rightarrow> conversation_state_key
   \<Rightarrow> invocation_journal \<Rightarrow> audit_commit_proposal result" where
  "audit_commit_proposal_of lib hmac_key c request state_key journal =
     (if csk_scene state_key = SceneGroup
      then res_bind (journal_audit_attempts (aul_registry lib) SceneGroup None journal) (\<lambda>attempts.
        res_bind (checked check_group_audit_commit_proposal
          \<lparr>ga_reason_code = at_reason_code c, ga_manifest_refs = audit_manifest_refs (at_plan c),
           ga_program_attempts = attempts\<rparr>) (\<lambda>p. Inr (GroupAuditCommitProposalV1 p)))
      else case hmac_key of
        None \<Rightarrow> Inl (CoordinatorError ''direct_audit_hmac_key_required'')
      | Some text' \<Rightarrow>
          res_bind (decode_direct_audit_hmac_key text') (\<lambda>key.
          res_bind (journal_audit_attempts (aul_registry lib) SceneDirect (Some (keyed_digest lib key state_key)) journal)
            (\<lambda>attempts.
          res_bind (direct_audit_proposal lib key c request state_key attempts) (\<lambda>p.
            Inr (DirectAuditCommitProposalV1 p)))))"

definition clarification_of :: "'r attempt_result \<Rightarrow> pending_clarification_proposal option" where
  "clarification_of c =
     (if reply_kind_of (resp_reply (at_response c)) = Reply_clarification
      then Some \<lparr>pcp_kind = Ck_other, pcp_slots = concat (map eu_ambiguity_slots (ep_units (at_plan c))),
        pcp_question = reply_text (resp_reply (at_response c)), pcp_topic = None\<rparr>
      else None)"

definition reply_commit_proposal_of ::
  "audit_library \<Rightarrow> pystr option \<Rightarrow> 'r attempt_result \<Rightarrow> verified_request_envelope \<Rightarrow> new_reply_reservation
   \<Rightarrow> turn_admission \<Rightarrow> invocation_journal \<Rightarrow> reply_commit_proposal result" where
  "reply_commit_proposal_of lib hmac_key c envelope reservation adm journal =
     (let request = ve_request envelope; state_key = ve_state_key envelope; policy = ta_policy adm;
          reply = resp_reply (at_response c)
      in res_bind (audit_commit_proposal_of lib hmac_key c request state_key journal) (\<lambda>audit.
         checked check_reply_commit_proposal
           \<lparr>rp_state_key = state_key, rp_request_id = kr_request_id request,
            rp_request_hash = request_kernel_hash (aul_sha lib) envelope, rp_replay_eligible = kr_replay_eligible request,
            rp_owner_token = nr_owner_token reservation,
            rp_expected_revision_epoch = sn_revision_epoch (ta_snapshot adm),
            rp_expected_state_revision = sn_state_revision (ta_snapshot adm), rp_response = at_response c,
            rp_pol1 = pm_policy_id policy, rp_par1 = pm_state_admission_hash policy,
            rp_grh1 = pac_grants_hash (pm_core policy), rp_bsh1 = pac_scope_hash (pm_core policy),
            rp_user_turn = kr_message request,
            rp_assistant_turn = \<lparr>at_text = reply_text reply, at_reply_kind = reply_kind_str (reply_kind_of reply),
              at_clarification_requested = (clarification_of c \<noteq> None)\<rparr>,
            rp_clarification = clarification_of c, rp_audit = audit\<rparr>))"

section \<open>The turn\<close>

datatype turn_phase = Before_snapshot | Before_commit | Before_abort

text \<open>
  \<open>te_prepare\<close> builds the domain context and the intent gate, which only reach the prompts;
  \<open>te_planner\<close>, \<open>te_recall\<close> and \<open>te_verifier\<close> hold the language models with the prompts built for
  them; \<open>te_journal\<close> is the journal that the calls of the turn leave.
\<close>

record 'p turn_environment =
  te_library :: audit_library
  te_settings :: turn_settings
  te_reserve_io :: readings
  te_snapshot_io :: readings
  te_commit_io :: readings
  te_abort_io :: readings
  te_interfere :: "turn_phase \<Rightarrow> coordinator \<Rightarrow> coordinator"
  te_prepare :: "turn_admission \<Rightarrow> unit result"
  te_attempt :: attempt_runtime
  te_runtime :: "turn_admission \<Rightarrow> ('p, recall_turn_state attempt_result) candidate_runtime"
  te_verifier :: "turn_admission \<Rightarrow> candidate_object \<Rightarrow> int \<Rightarrow> alignment_verdict result"
  te_uuid :: pystr
  te_journal :: "turn_admission \<Rightarrow> invocation_journal \<Rightarrow> invocation_journal"

definition turn_context ::
  "'p turn_environment \<Rightarrow> kernel_reply_request \<Rightarrow> business_scope_authority \<Rightarrow> turn_admission \<Rightarrow> 'p alignment_context" where
  "turn_context env request authority adm =
     \<lparr>alc_request = request, alc_policy = ta_policy adm, alc_authority = authority, alc_attempt = te_attempt env,
      alc_planner = cr_planner (te_runtime env adm), alc_verifier = te_verifier env adm,
      alc_history = ta_history adm, alc_uuid = te_uuid env\<rparr>"

definition turn_candidate ::
  "'p turn_environment \<Rightarrow> kernel_reply_request \<Rightarrow> business_scope_authority \<Rightarrow> turn_admission
   \<Rightarrow> recall_turn_state attempt_result result" where
  "turn_candidate env request authority adm =
     (let ctx = turn_context env request authority adm in
      res_bind (te_prepare env adm) (\<lambda>_.
      res_bind (build_candidate_response ((te_runtime env adm)\<lparr>cr_planner := planner_of ctx\<rparr>) request (ta_policy adm)
          authority None 0 None) (\<lambda>a.
      res_bind (if at_issues a = [] \<and> ts_alignment_enabled (te_settings env)
          then res_bind (check_alignment_limits (ts_limits (te_settings env))) (\<lambda>limits.
            res_bind (ensure_aligned_v2_response (runtime_remediator ctx) limits
                \<lparr>cob_attempt = a, cob_plan_ref = 0, cob_evidence_ref = 1, cob_recall_ref = 2\<rparr>) (\<lambda>c.
              Inr (cob_attempt c)))
          else Inr a) (\<lambda>a.
        if at_issues a \<noteq> [] then Inl (ReplyContractError ''rendered reply failed validation'') else Inr a))))"

definition turn_body ::
  "'p turn_environment \<Rightarrow> verified_request_envelope \<Rightarrow> business_scope_authority \<Rightarrow> new_reply_reservation
   \<Rightarrow> invocation_journal \<Rightarrow> coordinator \<Rightarrow> coordinator \<times> reply_response result" where
  "turn_body env envelope authority reservation journal co =
     (let request = ve_request envelope; s = te_settings env; lib = te_library env in
      case res_bind (validate_reply_request_input request s) (\<lambda>_.
          raise_if (ts_api_key s \<in> {None, Some []}) (AgentRuntimeError ''MARKET_AGENT_LLM_API_KEY is not configured'')) of
        Inl e \<Rightarrow> (co, Inl e)
      | Inr _ \<Rightarrow>
          let co = te_interfere env Before_snapshot co in
          (case admit_turn (aul_sha lib) (te_snapshot_io env) co request (ve_state_key envelope) reservation authority
              (ts_group_recall_mode s) of
             Inl e \<Rightarrow> (co, Inl e)
           | Inr adm \<Rightarrow>
               (case turn_candidate env request authority adm of
                  Inl e \<Rightarrow> (co, Inl e)
                | Inr c \<Rightarrow>
                    let co = te_interfere env Before_commit co in
                    (case reply_commit_proposal_of lib (ts_audit_hmac_key s) c envelope reservation adm
                        (te_journal env adm journal) of
                       Inl e \<Rightarrow> (co, Inl e)
                     | Inr p \<Rightarrow> commit_reply (aul_sha lib) (te_commit_io env) p co))))"

text \<open>The \<open>finally\<close> of a turn that did not commit; the error of an abort that is no \<open>CoordinatorError\<close> wins.\<close>

definition turn_failed ::
  "'p turn_environment \<Rightarrow> verified_request_envelope \<Rightarrow> new_reply_reservation \<Rightarrow> py_error \<Rightarrow> coordinator
   \<Rightarrow> coordinator \<times> reply_response result" where
  "turn_failed env envelope reservation e co =
     (case abort_reply (te_abort_io env) (ve_state_key envelope) (kr_request_id (ve_request envelope))
         (nr_owner_token reservation) (te_interfere env Before_abort co) of
        (co, Inr _) \<Rightarrow> (co, Inl e)
      | (co, Inl e') \<Rightarrow> (co, Inl (case e' of CoordinatorError _ \<Rightarrow> e | _ \<Rightarrow> e')))"

definition run_reply_turn ::
  "'p turn_environment \<Rightarrow> verified_request_envelope \<Rightarrow> coordinator \<Rightarrow> coordinator \<times> reply_response result" where
  "run_reply_turn env envelope co =
     (let request = ve_request envelope; lib = te_library env in
      case business_scope_authority_v1 (aul_sha lib) (kr_business_scope request) of
        Inl e \<Rightarrow> (co, Inl e)
      | Inr authority \<Rightarrow>
          (case reserve_reply (te_reserve_io env) (ve_state_key envelope) (kr_request_id request)
              (request_kernel_hash (aul_sha lib) envelope) (kr_replay_eligible request) co of
             (co, Inl e) \<Rightarrow> (co, Inl e)
           | (co, Inr (CompletedReplyReplay r)) \<Rightarrow> (co, Inr (cp_response r))
           | (co, Inr (NewReplyReservation r)) \<Rightarrow>
               (case new_journal (maximum_llm_invocation_rows (ts_limits (te_settings env))) of
                  Inl e \<Rightarrow> (co, Inl e)
                | Inr journal \<Rightarrow>
                    (case turn_body env envelope authority r journal co of
                       (co, Inr response) \<Rightarrow> (co, Inr response)
                     | (co, Inl e) \<Rightarrow> turn_failed env envelope r e co))))"

end
