(* ===== verification/Lifecycle_Theorems.thy ===== *)
theory Lifecycle_Theorems
  imports Lifecycle Reply_Theorems Policy_Theorems Attempt_Theorems Alignment_Demo Recall_Demo Example_World
begin

text \<open>
  What holds of a whole turn: its journal always has room, it answers only what is stored, and when it
  fails it gives its reservation back.
\<close>

section \<open>Room in the journal\<close>

definition remediation_rows :: "int \<Rightarrow> int \<Rightarrow> int \<Rightarrow> int" where
  "remediation_rows replans refetches recomposes = 8 + 5 * replans + 3 * refetches + 2 * recomposes"

definition small :: "int list" where
  "small = [0, 1, 2]"

definition all_limits :: "alignment_limits list" where
  "all_limits = concat (map (\<lambda>r. concat (map (\<lambda>f. concat (map (\<lambda>c.
     map (\<lambda>t. \<lparr>alim_replans = r, alim_refetches = f, alim_recomposes = c, alim_total = t\<rparr>) small) small)) small)) small)"

definition admitted_remediations :: "alignment_limits \<Rightarrow> (int \<times> int \<times> int) list" where
  "admitted_remediations l =
     filter (\<lambda>(a, b, c). a \<le> alim_replans l \<and> b \<le> alim_refetches l \<and> c \<le> alim_recomposes l \<and> a + b + c \<le> alim_total l)
       (List.product small (List.product small small))"

lemma limits_small: "check_alignment_limits l = Inr l' \<Longrightarrow> l \<in> set all_limits"
proof -
  assume "check_alignment_limits l = Inr l'"
  then have "0 \<le> alim_replans l \<and> alim_replans l \<le> 2" "0 \<le> alim_refetches l \<and> alim_refetches l \<le> 2"
    "0 \<le> alim_recomposes l \<and> alim_recomposes l \<le> 2" "0 \<le> alim_total l \<and> alim_total l \<le> 2"
    by (auto simp: check_alignment_limits_def Let_def res_bind_Inr_iff seq_res_Inr)
  then have "alim_replans l \<in> set small" "alim_refetches l \<in> set small" "alim_recomposes l \<in> set small" "alim_total l \<in> set small"
    by (auto simp: small_def)
  then show ?thesis by (cases l) (auto simp: all_limits_def)
qed

lemma limits_rows:
  assumes "check_alignment_limits l = Inr l"
  shows "8 \<le> maximum_llm_invocation_rows l" "maximum_llm_invocation_rows l \<le> 18"
    "\<forall>(a, b, c)\<in>set (admitted_remediations l). remediation_rows a b c \<le> maximum_llm_invocation_rows l"
    "\<exists>(a, b, c)\<in>set (admitted_remediations l). remediation_rows a b c = maximum_llm_invocation_rows l"
proof -
  have "list_all (\<lambda>l. check_alignment_limits l = Inr l \<longrightarrow> 8 \<le> maximum_llm_invocation_rows l \<and> maximum_llm_invocation_rows l \<le> 18
      \<and> list_all (\<lambda>(a, b, c). remediation_rows a b c \<le> maximum_llm_invocation_rows l) (admitted_remediations l)
      \<and> list_ex (\<lambda>(a, b, c). remediation_rows a b c = maximum_llm_invocation_rows l) (admitted_remediations l)) all_limits"
    by code_simp
  with assms limits_small [OF assms] show "8 \<le> maximum_llm_invocation_rows l" "maximum_llm_invocation_rows l \<le> 18"
    "\<forall>(a, b, c)\<in>set (admitted_remediations l). remediation_rows a b c \<le> maximum_llm_invocation_rows l"
    "\<exists>(a, b, c)\<in>set (admitted_remediations l). remediation_rows a b c = maximum_llm_invocation_rows l"
    by (auto simp: list_all_iff list_ex_iff)
qed

text \<open>C27 With the alignment limits a deployment can configure, the journal has between 8 and 18 rows, the number of
  rows that the most expensive admitted choice of remediations takes, and no choice takes more. So the last
  check of the settings never fails, and the journal of a turn can always be made.\<close>

theorem journal_rows_cover_remediation:
  assumes "check_alignment_limits l = Inr l"
  shows "8 \<le> maximum_llm_invocation_rows l \<and> maximum_llm_invocation_rows l \<le> 18
    \<and> new_journal (maximum_llm_invocation_rows l) \<noteq> Inl e
    \<and> (\<forall>(a, b, c)\<in>set (admitted_remediations l). remediation_rows a b c \<le> maximum_llm_invocation_rows l)
    \<and> (\<exists>(a, b, c)\<in>set (admitted_remediations l). remediation_rows a b c = maximum_llm_invocation_rows l)"
  using limits_rows [OF assms] by (auto simp: new_journal_def)

theorem journal_rows_cover_remediation_witness:
  "maximum_llm_invocation_rows \<lparr>alim_replans = 1, alim_refetches = 1, alim_recomposes = 1, alim_total = 2\<rparr> \<le> 18"
proof -
  let ?l = "\<lparr>alim_replans = 1, alim_refetches = 1, alim_recomposes = 1, alim_total = 2\<rparr>"
  have "check_alignment_limits ?l = Inr ?l" by code_simp
  from journal_rows_cover_remediation [OF this] show ?thesis by blast
qed

section \<open>The end of a turn\<close>

lemma existing_replay:
  assumes "existing_reservation_result state k q h e = Inr (Some res)"
  shows "\<exists>r c. res = CompletedReplyReplay r \<and> fm_get (issued_records state) (k, q) = Some (Complete c)
    \<and> cr_response c = cp_response r \<and> cr_request_hash c = h"
  using assms
  by (auto simp: existing_reservation_result_def split: option.splits issued_response_record.splits if_splits)

lemma tail_replay:
  assumes "reserve_tail io k q h e co = (co', Inr (CompletedReplyReplay r))"
  shows "co' = co \<and> existing_reservation_result (co_root co) k q h e = Inr (Some (CompletedReplyReplay r))"
  using assms
  by (auto simp: reserve_tail_def reserve_reply_candidate_def co_bind_def res_bind_def Let_def
      split: sum.splits option.splits prod.splits)

lemma reserve_replay:
  assumes ok: "coordinator_ok co" and op: "reserve_reply io k q h e co = (co', Inr (CompletedReplyReplay r))"
  shows "\<exists>c. fm_get (issued_records (co_root co')) (k, q) = Some (Complete c) \<and> cr_response c = cp_response r
    \<and> cr_request_hash c = h"
  using ok op
proof (cases rule: reserve_reply_cases)
  case (existing co1 n)
  then show ?thesis using existing_replay by fastforce
next
  case (tail co1 n co2)
  from tail_replay [OF tail(5)] show ?thesis using existing_replay by fastforce
qed simp_all

lemma settings_limits:
  assumes "check_turn_settings s = Inr s'"
  shows "check_alignment_limits (ts_limits s) = Inr (ts_limits s)"
  using assms by (auto simp: check_turn_settings_def check_alignment_limits_def Let_def res_bind_Inr_iff seq_res_Inr)

lemma proposal_Inr:
  assumes "reply_commit_proposal_of lib key c envelope reservation adm journal = Inr p"
  shows "check_reply_commit_proposal p = Inr ()" "rp_state_key p = ve_state_key envelope"
    "rp_request_id p = kr_request_id (ve_request envelope)" "rp_response p = at_response c"
    "rp_request_hash p = request_kernel_hash (aul_sha lib) envelope" "rp_owner_token p = nr_owner_token reservation"
proof -
  obtain audit where p: "check_reply_commit_proposal p = Inr ()"
    "p = \<lparr>rp_state_key = ve_state_key envelope, rp_request_id = kr_request_id (ve_request envelope),
            rp_request_hash = request_kernel_hash (aul_sha lib) envelope,
            rp_replay_eligible = kr_replay_eligible (ve_request envelope),
            rp_owner_token = nr_owner_token reservation,
            rp_expected_revision_epoch = sn_revision_epoch (ta_snapshot adm),
            rp_expected_state_revision = sn_state_revision (ta_snapshot adm), rp_response = at_response c,
            rp_pol1 = pm_policy_id (ta_policy adm), rp_par1 = pm_state_admission_hash (ta_policy adm),
            rp_grh1 = pac_grants_hash (pm_core (ta_policy adm)), rp_bsh1 = pac_scope_hash (pm_core (ta_policy adm)),
            rp_user_turn = kr_message (ve_request envelope),
            rp_assistant_turn = \<lparr>at_text = reply_text (resp_reply (at_response c)),
              at_reply_kind = reply_kind_str (reply_kind_of (resp_reply (at_response c))),
              at_clarification_requested = (clarification_of c \<noteq> None)\<rparr>,
            rp_clarification = clarification_of c, rp_audit = audit\<rparr>"
    using assms by (auto simp: reply_commit_proposal_of_def Let_def res_bind_Inr_iff checked_Inr)
  from p(1) show "check_reply_commit_proposal p = Inr ()" .
  show "rp_state_key p = ve_state_key envelope"
    "rp_request_id p = kr_request_id (ve_request envelope)" "rp_response p = at_response c"
    "rp_request_hash p = request_kernel_hash (aul_sha lib) envelope" "rp_owner_token p = nr_owner_token reservation"
    by (simp_all add: p(2))
qed

text \<open>What other clients do between the steps of a turn: calls of the coordinator.\<close>

definition clients_only :: "(pybytes \<Rightarrow> pystr) \<Rightarrow> 'p turn_environment \<Rightarrow> bool" where
  "clients_only sha env = (\<forall>phase co. rtranclp (co_step sha) co (te_interfere env phase co))"

lemma clients_ok: "clients_only sha env \<Longrightarrow> coordinator_ok co \<Longrightarrow> coordinator_ok (te_interfere env phase co)"
  using co.steps_inv [of sha co] by (auto simp: clients_only_def)

text \<open>How the body of a turn ends: nothing committed, or the commit of a valid candidate.\<close>

lemma turn_body_end:
  assumes ok: "coordinator_ok co" and clients: "clients_only sha env"
    and op: "turn_body env envelope authority reservation journal co = (co', r)"
  obtains (failed) e where "r = Inl e" "coordinator_ok co'"
  | (committed) response adm cand co1 p where "r = Inr response"
      "turn_candidate env (ve_request envelope) authority adm = Inr cand"
      "reply_commit_proposal_of (te_library env) (ts_audit_hmac_key (te_settings env)) cand envelope reservation adm
         (te_journal env adm journal) = Inr p"
      "coordinator_ok co1" "commit_reply (aul_sha (te_library env)) (te_commit_io env) p co1 = (co', Inr response)"
proof -
  let ?co1 = "te_interfere env Before_snapshot co"
  let ?co2 = "te_interfere env Before_commit ?co1"
  have ok1: "coordinator_ok ?co1" "coordinator_ok ?co2" using clients_ok [OF clients] ok by blast+
  consider (early) e where "r = Inl e" "co' \<in> {co, ?co1, ?co2}"
    | (commit) adm cand p where "turn_candidate env (ve_request envelope) authority adm = Inr cand"
      "reply_commit_proposal_of (te_library env) (ts_audit_hmac_key (te_settings env)) cand envelope reservation adm
         (te_journal env adm journal) = Inr p"
      "commit_reply (aul_sha (te_library env)) (te_commit_io env) p ?co2 = (co', r)"
    using op by (auto simp: turn_body_def Let_def split: sum.splits)
  then show thesis
  proof cases
    case early
    with ok ok1 failed show ?thesis by blast
  next
    case commit
    from commit_reply_advances [OF ok1(2) proposal_Inr(1) [OF commit(2)] commit(3)] have "coordinator_ok co'"
      by (rule advances_ok)
    with commit ok1(2) failed committed show ?thesis by (cases r) blast+
  qed
qed

lemma abort_end:
  assumes ok: "coordinator_ok co" and hook: "io_fault io 0 Reply_abort = None"
    and op: "abort_reply io k q token co = (co', r)"
  obtains (not_found) m where "r = Inl (CoordinatorError m)" "co' = co"
      "\<And>p. fm_get (issued_records (co_root co)) (k, q) = Some (Pending p) \<Longrightarrow> pr_owner_token p \<noteq> token"
  | (removed) "r = Inr ()" "coordinator_ok co'"
      "fm_get (issued_records (co_root co')) = (fm_get (issued_records (co_root co)))((k, q) := None)"
      "conversation_turns (co_root co') = conversation_turns (co_root co)"
      "clarification_records (co_root co') = clarification_records (co_root co)"
      "response_index (co_root co') = response_index (co_root co)"
      "action_ledger_records (co_root co') = action_ledger_records (co_root co)"
proof (cases "abort_reply_candidate (co_root co) k q token")
  case (Inl e)
  with op have "r = Inl e" "co' = co" by (simp_all add: abort_reply_def)
  with Inl not_found show ?thesis
    by (auto simp: abort_reply_candidate_def split: option.splits issued_response_record.splits if_splits)
next
  case (Inr cand)
  from abort_ok [OF coordinator_ok_root [OF ok] Inr]
  have cand: "candidate_ok (co_config co) cand" "root_revision cand = root_revision (co_root co) + 1" by simp_all
  have eq: "cand = (co_root co)\<lparr>root_revision := root_revision (co_root co) + 1,
         issued_records := without_keys (issued_records (co_root co)) {(k, q)},
         pending_request_by_state := without_keys (pending_request_by_state (co_root co)) {k}\<rparr>"
    using Inr by (auto simp: abort_reply_candidate_def split: option.splits issued_response_record.splits if_splits)
  have "fm_len (state_revisions (published_root cand)) \<le> cfg_state_revision_capacity (co_config co)"
    by (rule revisions_fit [OF ok]) (simp add: eq)
  from publish_fits [OF ok cand this hook] obtain co1 where
    pub: "publish io 0 Reply_abort (Some k) [k] cand co = (co1, Inr ())"
    and root: "co_root co1 = published_root cand" and ok1: "coordinator_ok co1" by metis
  with op Inr have co': "co' = co1" "r = Inr ()" by (simp_all add: abort_reply_def)
  have led: "fm_len (action_ledger_records (co_root co)) \<le> action_ledger_capacity"
    using ok by (simp add: coordinator_ok_def root_ok_def)
  have "fm_get (issued_records (co_root co1)) = (fm_get (issued_records (co_root co)))((k, q) := None)"
    by (simp add: root eq restrict_map_def fun_eq_iff)
  with co' ok1 show ?thesis
    by (intro removed) (simp_all add: root eq ledger_loop_fits [OF led])
qed

lemma reserve_new:
  assumes ok: "coordinator_ok co" and op: "reserve_reply io k q h e co = (co', Inr (NewReplyReservation nr))"
  shows "\<exists>p. fm_get (issued_records (co_root co')) (k, q) = Some (Pending p) \<and> pr_owner_token p = nr_owner_token nr"
  using ok op
proof (cases rule: reserve_reply_cases)
  case (existing co1 n)
  then show ?thesis using existing_replay by fastforce
next
  case (tail co1 n co2)
  have ok2: "coordinator_ok co2"
    using cleanup_advances [OF ok tail(1)] tail(3) by (blast intro: advances_trans advances_ok)
  let ?rc = "reserve_reply_candidate (co_config co2) (co_root co2) k q h e
             (io_monotonic_ns io) (io_epoch_token io) (io_token io) (io_epoch_ms io)"
  have "\<exists>cand. ?rc = Inr (Some cand, NewReplyReservation nr)
      \<and> publish io 2 Reply_reserve (Some k) [k] cand co2 = (co', Inr ())"
  proof (cases ?rc)
    case (Inr x)
    obtain c res where x: "x = (c, res)" by (cases x)
    show ?thesis
    proof (cases c)
      case None
      with tail(5) Inr x have "res = NewReplyReservation nr" by (simp add: reserve_tail_def)
      with Inr x None existing_replay [of "co_root co2" k q h e res] show ?thesis
        by (auto simp: reserve_reply_candidate_def Let_def res_bind_Inr_iff split: option.splits)
    next
      case (Some cand)
      with tail(5) Inr x show ?thesis
        by (auto simp: reserve_tail_def co_bind_def split: prod.splits sum.splits)
    qed
  qed (use tail(5) in \<open>simp add: reserve_tail_def\<close>)
  then obtain cand where rc: "?rc = Inr (Some cand, NewReplyReservation nr)"
    and pub: "publish io 2 Reply_reserve (Some k) [k] cand co2 = (co', Inr ())" by blast
  from reserve_ok [OF coordinator_ok_root [OF ok2] tail(4) rc]
  have "candidate_ok (co_config co2) cand" "root_revision cand = root_revision (co_root co2) + 1" by simp_all
  from publish_cases [OF ok2 this pub] have "co_root co' = published_root cand" by auto
  with reserve_cases [OF rc] show ?thesis by (auto simp: reservation_record_def)
qed simp_all

definition turn_key :: "verified_request_envelope \<Rightarrow> conversation_state_key \<times> pystr" where
  "turn_key envelope = (ve_state_key envelope, kr_request_id (ve_request envelope))"

definition turn_reservation ::
  "'p turn_environment \<Rightarrow> verified_request_envelope \<Rightarrow> coordinator \<Rightarrow> coordinator \<times> reservation_result result" where
  "turn_reservation env envelope co =
     reserve_reply (te_reserve_io env) (ve_state_key envelope) (kr_request_id (ve_request envelope))
       (request_kernel_hash (aul_sha (te_library env)) envelope) (kr_replay_eligible (ve_request envelope)) co"

text \<open>The turn after its reservation.\<close>

lemma run_cases:
  assumes sha: "sha_hex (aul_sha (te_library env))" and settings: "check_turn_settings (te_settings env) = Inr s"
    and reserve: "turn_reservation env envelope co = (co1, res)"
    and run: "run_reply_turn env envelope co = (co', r)"
  obtains (refused) e where "res = Inl e" "r = Inl e" "co' = co1"
  | (replayed) c where "res = Inr (CompletedReplyReplay c)" "r = Inr (cp_response c)" "co' = co1"
  | (ran) nr authority journal co2 r2 where "res = Inr (NewReplyReservation nr)"
      "turn_body env envelope authority nr journal co1 = (co2, r2)"
      "(co', r) = (case r2 of Inr response \<Rightarrow> (co2, Inr response) | Inl e \<Rightarrow> turn_failed env envelope nr e co2)"
proof -
  obtain authority where authority:
    "business_scope_authority_v1 (aul_sha (te_library env)) (kr_business_scope (ve_request envelope)) = Inr authority"
    using scope_authority_built [OF sha] by blast
  from limits_rows [OF settings_limits [OF settings]] obtain journal where journal:
    "new_journal (maximum_llm_invocation_rows (ts_limits (te_settings env))) = Inr journal"
    by (auto simp: new_journal_def)
  note run = run [unfolded run_reply_turn_def Let_def, folded turn_reservation_def, unfolded authority reserve]
  show thesis
  proof (cases res)
    case (Inl e)
    with run refused show ?thesis by simp
  next
    case (Inr x)
    show ?thesis
    proof (cases x)
      case (CompletedReplyReplay c)
      with Inr run replayed show ?thesis by simp
    next
      case (NewReplyReservation nr)
      obtain co2 r2 where body: "turn_body env envelope authority nr journal co1 = (co2, r2)" by fastforce
      have "(co', r) = (case r2 of Inr response \<Rightarrow> (co2, Inr response) | Inl e \<Rightarrow> turn_failed env envelope nr e co2)"
        using run Inr NewReplyReservation journal body by (cases r2) auto
      with Inr NewReplyReservation body ran show ?thesis by blast
    qed
  qed
qed

text \<open>C2 Whatever other clients do meanwhile, a turn ends in one of two ways. It answers with a response that the
  coordinator holds as the completed record of this very request, either replayed or the issued form of a
  candidate that passed the reply validation. Or it fails, and then, unless the publication of the abort is
  faulted, the reservation it made is no longer pending, so that the conversation is not blocked.\<close>

theorem turn_commits_or_releases:
  assumes ok: "coordinator_ok co" and clients: "clients_only sha env"
    and sha: "sha_hex (aul_sha (te_library env))" and settings: "check_turn_settings (te_settings env) = Inr s"
    and hook: "io_fault (te_abort_io env) 0 Reply_abort = None"
  shows "case run_reply_turn env envelope co of
      (co', Inr response) \<Rightarrow> coordinator_ok co'
        \<and> (\<exists>c. fm_get (issued_records (co_root co')) (turn_key envelope) = Some (Complete c)
            \<and> cr_response c = response \<and> cr_request_hash c = request_kernel_hash (aul_sha (te_library env)) envelope)
        \<and> ((\<exists>r. turn_reservation env envelope co = (co', Inr (CompletedReplyReplay r)))
          \<or> (\<exists>authority adm cand. turn_candidate env (ve_request envelope) authority adm = Inr cand \<and> at_issues cand = []
              \<and> response = issue_response_ids (io_response_hex (te_commit_io env)) (io_action_hex (te_commit_io env))
                  (at_response cand)))
    | (co', Inl e) \<Rightarrow> coordinator_ok co'
        \<and> (\<forall>co1 nr p. turn_reservation env envelope co = (co1, Inr (NewReplyReservation nr))
            \<longrightarrow> fm_get (issued_records (co_root co')) (turn_key envelope) = Some (Pending p)
            \<longrightarrow> pr_owner_token p \<noteq> nr_owner_token nr)"
proof -
  obtain co1 res where reserve: "turn_reservation env envelope co = (co1, res)" by fastforce
  note op = reserve [unfolded turn_reservation_def]
  have ok1: "coordinator_ok co1" using reserve_reply_advances [OF ok op] by (rule advances_ok)
  obtain co' r where run: "run_reply_turn env envelope co = (co', r)" by fastforce
  from sha settings reserve run show ?thesis
  proof (cases rule: run_cases)
    case refused
    with run reserve ok1 show ?thesis by simp
  next
    case (replayed c)
    with reserve_replay [OF ok op [unfolded replayed(1)]] run reserve ok1 show ?thesis by (simp add: turn_key_def)
  next
    case (ran nr authority journal co2 r2)
    from ok1 clients ran(2) show ?thesis
    proof (cases rule: turn_body_end)
      case (committed response adm cand co3 p)
      note p = proposal_Inr [OF committed(3)]
      from commit_reply_outcome [OF committed(4) p(1) committed(5)] obtain pending revision audit cand' where
        response: "response = issue_response_ids (io_response_hex (te_commit_io env)) (io_action_hex (te_commit_io env)) (rp_response p)"
        and en: "enforce_session_capacity (committed_root (aul_sha (te_library env)) (co_config co3) (co_root co3) p revision
            response audit (io_monotonic_ns (te_commit_io env)) (io_epoch_ms (te_commit_io env)))
           (cfg_conversation_max_sessions (co_config co3)) = Inr cand'"
        and root: "co_root co2 = published_root cand'" and ok2: "coordinator_ok co2" by metis
      from commit_publishes(1) [OF en root ok2] p have
        "\<exists>c. fm_get (issued_records (co_root co2)) (turn_key envelope) = Some (Complete c)
            \<and> cr_response c = response \<and> cr_request_hash c = request_kernel_hash (aul_sha (te_library env)) envelope"
        by (simp add: turn_key_def complete_record_def)
      moreover have "at_issues cand = []"
        using committed(2) by (auto simp: turn_candidate_def Let_def res_bind_Inr_iff split: if_splits)
      moreover have "run_reply_turn env envelope co = (co2, Inr response)" using run ran(3) committed(1) by simp
      ultimately show ?thesis using committed(2) response p(4) ok2 by auto
    next
      case (failed e)
      obtain co3 ab where ab: "abort_reply (te_abort_io env) (ve_state_key envelope) (kr_request_id (ve_request envelope))
          (nr_owner_token nr) (te_interfere env Before_abort co2) = (co3, ab)" by fastforce
      have ok3: "coordinator_ok (te_interfere env Before_abort co2)" using clients_ok [OF clients] failed(2) by blast
      have ended: "co' = co3 \<and> (\<exists>e'. r = Inl e')"
        using ran(3) failed(1) ab by (auto simp: turn_failed_def split: sum.splits)
      from ok3 hook ab have "coordinator_ok co3 \<and> (\<forall>p. fm_get (issued_records (co_root co3)) (turn_key envelope) = Some (Pending p)
          \<longrightarrow> pr_owner_token p \<noteq> nr_owner_token nr)"
        by (cases rule: abort_end) (auto simp: turn_key_def ok3)
      with run ended reserve ran(1) show ?thesis by auto
    qed
  qed
qed

section \<open>A turn alone\<close>

lemma commit_failed_root:
  assumes "commit_reply sha io p co = (co', Inl e)"
  shows "co_root co' = co_root co"
proof (cases "commit_reply_candidate sha (co_config co) (co_root co) p (io_response_hex io) (io_action_hex io)
    (io_monotonic_ns io) (io_epoch_ms io)")
  case (Inr x)
  obtain cand response where x: "x = (cand, response)" by (cases x)
  with assms Inr have "publish io 0 Reply_commit (Some (rp_state_key p)) [rp_state_key p] cand co = (co', Inl e)"
    by (auto simp: commit_reply_def co_bind_def split: prod.splits sum.splits)
  then show ?thesis by (rule publish_Inl)
qed (use assms in \<open>simp add: commit_reply_def\<close>)

lemma body_failed_root:
  assumes "\<And>phase. te_interfere env phase = (\<lambda>co. co)"
    and "turn_body env envelope authority reservation journal co = (co', Inl e)"
  shows "co_root co' = co_root co"
  using assms(2) by (auto simp: turn_body_def assms(1) Let_def split: sum.splits dest: commit_failed_root)

text \<open>C8 A turn that no other client interrupts and that fails after its reservation leaves the coordinator as the
  reservation found it, but for the cleanup that comes first: the transcript, the clarification, the response
  index and the ledger of the conversation are those from before, and the record of the request is gone.\<close>

theorem failed_turn_leaves_no_trace:
  assumes ok: "coordinator_ok co" and sha: "sha_hex (aul_sha (te_library env))"
    and settings: "check_turn_settings (te_settings env) = Inr s"
    and hook: "io_fault (te_abort_io env) 0 Reply_abort = None"
    and alone: "\<And>phase. te_interfere env phase = (\<lambda>co. co)"
    and reserve: "turn_reservation env envelope co = (co1, Inr (NewReplyReservation nr))"
    and run: "run_reply_turn env envelope co = (co', Inl e)"
  shows "fm_get (issued_records (co_root co')) = (fm_get (issued_records (co_root co1)))(turn_key envelope := None)
    \<and> conversation_turns (co_root co') = conversation_turns (co_root co1)
    \<and> clarification_records (co_root co') = clarification_records (co_root co1)
    \<and> response_index (co_root co') = response_index (co_root co1)
    \<and> action_ledger_records (co_root co') = action_ledger_records (co_root co1)"
proof -
  note op = reserve [unfolded turn_reservation_def]
  have ok1: "coordinator_ok co1" using reserve_reply_advances [OF ok op] by (rule advances_ok)
  have clients: "clients_only sha env" for sha by (simp add: clients_only_def alone)
  from sha settings reserve run show ?thesis
  proof (cases rule: run_cases)
    case (ran nr' authority journal co2 r2)
    then have nr': "nr' = nr" by simp
    obtain e2 where r2: "r2 = Inl e2" using ran(3) by (cases r2) auto
    from body_failed_root [OF alone ran(2) [unfolded r2]] have root: "co_root co2 = co_root co1" .
    from ok1 clients ran(2) have ok2: "coordinator_ok co2"
      by (cases rule: turn_body_end) (use r2 in auto)
    obtain co3 ab where ab: "abort_reply (te_abort_io env) (ve_state_key envelope) (kr_request_id (ve_request envelope))
        (nr_owner_token nr) co2 = (co3, ab)" by fastforce
    have co': "co' = co3" using ran(3) r2 ab nr' by (auto simp: turn_failed_def alone split: sum.splits)
    from reserve_new [OF ok op] obtain p where
      p: "fm_get (issued_records (co_root co2)) (ve_state_key envelope, kr_request_id (ve_request envelope)) = Some (Pending p)"
        "pr_owner_token p = nr_owner_token nr" by (auto simp: root)
    from ok2 hook ab show ?thesis
    proof (cases rule: abort_end)
      case not_found
      from not_found(3) [OF p(1)] p(2) show ?thesis by simp
    next
      case removed
      then show ?thesis by (simp add: co' root turn_key_def)
    qed
  qed simp_all
qed

section \<open>Reasons of direct replies\<close>

text \<open>What the ceiling of a direct policy leaves of a valid plan.\<close>

lemma direct_core:
  assumes "check_policy_authority_core sha core = Inr core'" "pac_scene core = SceneDirect"
  shows "Mode_action \<notin> set (pac_reply_modes core)" "pac_outbound core = []"
    "ManifestRefV1 Weekly_report_product_list \<notin> set (pac_eligible core)"
    "ManifestRefV1 Monthly_report_product_list \<notin> set (pac_eligible core)"
proof -
  from assms have "validate_direct_policy_authority sha core = Inr ()"
    by (auto simp: check_policy_authority_core_def res_bind_Inr_iff split: if_splits)
  then show "Mode_action \<notin> set (pac_reply_modes core)" "pac_outbound core = []"
    "ManifestRefV1 Weekly_report_product_list \<notin> set (pac_eligible core)"
    "ManifestRefV1 Monthly_report_product_list \<notin> set (pac_eligible core)"
    by (auto simp: validate_direct_policy_authority_def Let_def direct_knowledge_reply_modes_def
        direct_general_reply_modes_def direct_knowledge_manifest_refs_def direct_general_manifest_refs_def split: if_splits)
qed

definition direct_plan :: "execution_plan \<Rightarrow> bool" where
  "direct_plan plan =
     (ep_response_mode plan \<noteq> Mode_action \<and> list_all (\<lambda>u. eu_action_intents u = []
        \<and> mr_id (eu_manifest_ref u) \<notin> {Weekly_report_product_list, Monthly_report_product_list}) (ep_units plan))"

lemma valid_direct_plan:
  assumes "validate_execution_plan_v2 plan policy = []"
    and core: "check_policy_authority_core sha (pm_core policy) = Inr core'" "pac_scene (pm_core policy) = SceneDirect"
  shows "direct_plan plan"
proof -
  note direct = direct_core [OF core]
  have "ep_response_mode plan \<in> set (pac_reply_modes (pm_core policy))"
    and units: "\<forall>u\<in>set (ep_units plan). unit_issues (pm_core policy) u = []"
    using assms(1) by (auto simp: validate_execution_plan_v2_def split: if_splits)
  moreover have "eu_action_intents u = [] \<and> mr_id (eu_manifest_ref u) \<notin> {Weekly_report_product_list, Monthly_report_product_list}"
    if "u \<in> set (ep_units plan)" for u
  proof -
    have "eu_manifest_ref u \<in> set (pac_eligible (pm_core policy))"
      "filter (\<lambda>a. ai_action_type a \<notin> set (pac_outbound (pm_core policy))) (eu_action_intents u) = []"
      using bspec [OF units that] by (auto simp: unit_issues_def Let_def split: if_splits)
    with direct show ?thesis by (cases "eu_manifest_ref u") auto
  qed
  ultimately show ?thesis using direct(1) by (auto simp: direct_plan_def list_all_iff)
qed

lemma direct_plan_no_products: "direct_plan plan \<Longrightarrow> \<not> product_list_evidence_is_missing plan groundings"
  by (auto simp: direct_plan_def product_list_evidence_is_missing_def list_all_iff list_ex_iff)

lemma direct_reasons:
  "set [''ambiguous_request'', ''direct_human_handoff'', ''no_reply'', ''composer_not_available'', ''composer_output_rejected'',
     ''knowledge_answer_composer'', ''smalltalk_composer'', ''insufficient_evidence''] \<subseteq> set direct_audit_reason_codes"
  by code_simp

lemma compliance_reason_direct: "compliance_reason_str c \<in> set direct_audit_reason_codes"
  by (cases c) (simp_all add: direct_audit_reason_codes_def)

lemma rendered_reason: "rendered_reply kind content reason = Inr (r, reason') \<Longrightarrow> reason' = reason"
  by (auto simp: rendered_reply_def res_bind_Inr_iff)

lemma direct_render:
  assumes "render_v2_response boundary texts i = Inr (r, reason)" "direct_plan (ci_plan i)"
    and "vi_scene (kr_identity (ci_request i)) = SceneDirect"
  shows "reason \<in> set direct_audit_reason_codes"
proof -
  note registered = direct_reasons [unfolded list.set insert_subset]
  have mode: "ep_response_mode (ci_plan i) \<noteq> Mode_action" using assms(2) by (simp add: direct_plan_def)
  have composed: "reason \<in> set direct_audit_reason_codes" if "render_composed boundary texts i = Inr (r, reason)"
    using that registered direct_plan_no_products [OF assms(2)]
    by (auto simp: render_composed_def Let_def res_bind_Inr_iff split: composer_outcome.splits if_splits
        dest!: rendered_reason)
  from assms(1) mode composed registered compliance_reason_direct assms(3) show ?thesis
    by (auto simp: render_v2_response_def Let_def handoff_reply_def unable_reply_def split: response_mode.splits
        dest!: rendered_reason)
qed

text \<open>C29 Under a direct policy, a candidate built from a checked plan carries a reason that the direct audit knows,
  and so does every recomposition of it: no direct turn that got as far as its audit is refused for its reason,
  although the vocabulary of reasons is larger.\<close>

theorem direct_reason_is_auditable:
  assumes "build_candidate_from_plan_v2 rt uuid request policy auth plan recall refetch = Inr a"
    and plan: "check_execution_plan sha float_text plan = Inr plan"
    and core: "check_policy_authority_core sha' (pm_core policy) = Inr (pm_core policy)"
    and scene: "pac_scene (pm_core policy) = SceneDirect" "vi_scene (kr_identity request) = SceneDirect"
  shows "direct_audit_reason_code (at_reason_code a) = Inr (at_reason_code a)
    \<and> (case recompose_candidate_v2 rt' uuid' a request policy auth history overlay of
         Inl _ \<Rightarrow> True | Inr b \<Rightarrow> direct_audit_reason_code (at_reason_code b) = Inr (at_reason_code b))"
proof -
  have valid: "validate_execution_plan_v2 plan policy = []"
    using assms(1) by (auto simp: build_candidate_from_plan_v2_def split: if_splits)
  from valid_direct_plan [OF this core scene(1)] have direct: "direct_plan plan" .
  from plan have "ep_action_intents plan = concat (map eu_action_intents (ep_units plan))"
    by (auto simp: check_execution_plan_def res_bind_Inr_iff seq_res_Inr)
  with direct have none: "ep_action_intents plan = []" by (auto simp: direct_plan_def list_all_iff)
  from assms(1) none obtain ev resp where
    render: "render_v2_response (ar_composer rt) (ar_texts rt) (render_source request policy auth plan ev [] None)
      = Inr (resp, at_reason_code a)" and a: "at_plan a = plan"
    by (auto simp: build_candidate_from_plan_v2_def material_pack_action_resolution_plan_def res_bind_Inr_iff Let_def
        split: if_splits)
  have first: "at_reason_code a \<in> set direct_audit_reason_codes"
    by (rule direct_render [OF render]) (simp_all add: render_source_def direct scene(2))
  have again: "at_reason_code b \<in> set direct_audit_reason_codes"
    if again: "recompose_candidate_v2 rt' uuid' a request policy auth history overlay = Inr b" for b
  proof -
    from again obtain resp' where render': "render_v2_response (ar_composer rt') (ar_texts rt')
        (render_source request policy auth plan (at_evidence a) history (Some overlay)) = Inr (resp', at_reason_code b)"
      by (auto simp: recompose_candidate_v2_def res_bind_Inr_iff Let_def a split: if_splits)
    show ?thesis by (rule direct_render [OF render']) (simp_all add: render_source_def direct scene(2))
  qed
  show ?thesis using first again by (auto simp: direct_audit_reason_code_def split: sum.splits)
qed

section \<open>Concrete turns\<close>

text \<open>Concrete turns: one that is refused for want of an API key, and a direct candidate.\<close>

definition silent_planner :: "(unit, recall_turn_state attempt_result) planner_runtime" where
  "silent_planner =
     \<lparr>pl_sha = flat_sha, pl_float_text = (\<lambda>_. ''1.0''), pl_prompt = (\<lambda>_. Inr ()), pl_build_agent = Inr (),
      pl_kickoff = (\<lambda>_ _. Inl TimeoutError), pl_retry_attempts = 0,
      pl_reader = \<lparr>sr_validate = (\<lambda>_. Spec_value_error []), sr_validate_json = (\<lambda>_. Spec_value_error []), sr_error_text = (\<lambda>_. [])\<rparr>,
      pl_builder = (\<lambda>_ _. Inl TimeoutError)\<rparr>"

definition keyless_environment :: "unit turn_environment" where
  "keyless_environment =
     \<lparr>te_library = \<lparr>aul_sha = flat_sha, aul_hmac = (\<lambda>_ _. replicate 64 CHR ''0''),
        aul_registry = \<lparr>prg_programs = [], prg_specs = []\<rparr>, aul_response_text = (\<lambda>_. []), aul_plan_text = (\<lambda>_. [])\<rparr>,
      te_settings = \<lparr>ts_api_key = None, ts_input_max_chars = None, ts_group_recall_mode = ''off'',
        ts_alignment_enabled = True, ts_limits = two_each, ts_audit_hmac_key = None\<rparr>,
      te_reserve_io = demo_io 0, te_snapshot_io = demo_io 1, te_commit_io = demo_io 2, te_abort_io = demo_io 3,
      te_interfere = (\<lambda>_ co. co), te_prepare = (\<lambda>_. Inr ()), te_attempt = demo_runtime weekly_results,
      te_runtime = (\<lambda>_. \<lparr>cr_planner = silent_planner, cr_recall = shortcut_runtime, cr_nfkc = id, cr_direct_text = [],
        cr_rules = [], cr_fullmatch = (\<lambda>_ _. False)\<rparr>),
      te_verifier = (\<lambda>_ _ _. Inl TimeoutError), te_uuid = ''1f'', te_journal = (\<lambda>_ j. j)\<rparr>"

definition weekly_envelope :: verified_request_envelope where
  "weekly_envelope =
     \<lparr>ve_adapter_namespace = ''adapter'', ve_request = weekly_request, ve_state_key = demo_key, ve_state_key_ref = []\<rparr>"

lemma keyless_settings: "check_turn_settings (te_settings keyless_environment) = Inr (te_settings keyless_environment)"
proof -
  have "maximum_llm_invocation_rows two_each \<le> 18" by (rule limits_rows(2) [OF two_each_ok])
  then show ?thesis
    by (simp add: check_turn_settings_def keyless_environment_def two_each_def Let_def seq_res.simps raise_if_def)
qed

lemma keyless_simps [simp]:
  "te_interfere keyless_environment phase co = co" "sha_hex (aul_sha (te_library keyless_environment))"
  "io_fault (te_abort_io keyless_environment) i op = None" "te_reserve_io keyless_environment = demo_io 0"
  by (simp_all add: keyless_environment_def flat_sha_hex)

lemma keyless_reserves:
  obtains co1 nr where "turn_reservation keyless_environment weekly_envelope demo_start = (co1, Inr (NewReplyReservation nr))"
    "nr_owner_token nr = ''token''"
proof -
  have empty: "fm_get (issued_records empty_coordinator_root) key = None"
    "fm_get (pending_request_by_state empty_coordinator_root) k = None"
    "fm_len (issued_records empty_coordinator_root) = 0" "fm_len (state_revisions empty_coordinator_root) = 0" for key k
    by (simp_all add: empty_coordinator_root_def)
  have "\<exists>co' nr p. reserve_reply (demo_io 0) demo_key q h e demo_start = (co', Inr (NewReplyReservation nr))
      \<and> nr_owner_token nr = io_token (demo_io 0)" for q h e
    using reserve_reply_succeeds [OF demo_start_inv, of "demo_io 0" demo_key q h e]
    by (auto simp: empty demo_config_def)
  from this [of "kr_request_id (ve_request weekly_envelope)"
      "request_kernel_hash (aul_sha (te_library keyless_environment)) weekly_envelope"
      "kr_replay_eligible (ve_request weekly_envelope)"] obtain co1 nr where
    "reserve_reply (demo_io 0) demo_key (kr_request_id (ve_request weekly_envelope))
      (request_kernel_hash (aul_sha (te_library keyless_environment)) weekly_envelope)
      (kr_replay_eligible (ve_request weekly_envelope)) demo_start = (co1, Inr (NewReplyReservation nr))"
    "nr_owner_token nr = ''token''" by auto
  moreover have "ve_state_key weekly_envelope = demo_key" by (simp add: weekly_envelope_def)
  ultimately show thesis using that by (simp add: turn_reservation_def)
qed

lemma keyless_fails:
  assumes "turn_reservation keyless_environment weekly_envelope demo_start = (co1, Inr (NewReplyReservation nr))"
  obtains co' e where "run_reply_turn keyless_environment weekly_envelope demo_start = (co', Inl e)"
proof -
  obtain co' r where run: "run_reply_turn keyless_environment weekly_envelope demo_start = (co', r)" by fastforce
  from keyless_simps(2) keyless_settings assms run show thesis
  proof (cases rule: run_cases)
    case (ran nr' authority journal co2 r2)
    have "\<exists>e. r2 = Inl e" using ran(2) by (auto simp: turn_body_def Let_def keyless_environment_def
        validate_reply_request_input_def raise_if_def)
    with ran(3) run that show ?thesis by (auto simp: turn_failed_def split: sum.splits prod.splits)
  qed simp_all
qed

theorem turn_commits_or_releases_witness:
  "\<exists>co' e. run_reply_turn keyless_environment weekly_envelope demo_start = (co', Inl e)
    \<and> (\<forall>p. fm_get (issued_records (co_root co')) (turn_key weekly_envelope) = Some (Pending p) \<longrightarrow> pr_owner_token p \<noteq> ''token'')"
proof (rule keyless_reserves)
  fix co1 nr
  assume reserve: "turn_reservation keyless_environment weekly_envelope demo_start = (co1, Inr (NewReplyReservation nr))"
    and token: "nr_owner_token nr = ''token''"
  obtain co' e where run: "run_reply_turn keyless_environment weekly_envelope demo_start = (co', Inl e)"
    by (rule keyless_fails [OF reserve])
  have "clients_only flat_sha keyless_environment" by (simp add: clients_only_def)
  from turn_commits_or_releases [OF demo_start_inv this keyless_simps(2) keyless_settings keyless_simps(3), of weekly_envelope]
    reserve token run show ?thesis by auto
qed

theorem failed_turn_leaves_no_trace_witness:
  "\<exists>co' e. run_reply_turn keyless_environment weekly_envelope demo_start = (co', Inl e)
    \<and> fm_get (issued_records (co_root co')) (turn_key weekly_envelope) = None"
proof (rule keyless_reserves)
  fix co1 nr
  assume reserve: "turn_reservation keyless_environment weekly_envelope demo_start = (co1, Inr (NewReplyReservation nr))"
  obtain co' e where run: "run_reply_turn keyless_environment weekly_envelope demo_start = (co', Inl e)"
    by (rule keyless_fails [OF reserve])
  have alone: "te_interfere keyless_environment phase = (\<lambda>co. co)" for phase by (simp add: fun_eq_iff)
  from failed_turn_leaves_no_trace [OF demo_start_inv keyless_simps(2) keyless_settings keyless_simps(3) alone reserve run] run
  show ?thesis by auto
qed

section \<open>A direct candidate\<close>

definition clarify_source :: plan_source where
  "clarify_source = FromDeterministic
     \<lparr>di_user_need = ''hello'', di_units = [\<lparr>du_unit_id = ''u1'', du_manifest_id = ''general.clarification'',
        du_answerability = Ans_clarify, du_material_pack_option = None, du_evidence_query = None,
        du_ambiguity_slots = [''topic''], du_risk_flags = []\<rparr>],
      di_compliance_reason_code = Reason_customer_service_request, di_guardrail_decisions = [], di_confidence = 1\<rparr>"

definition direct_attempt :: "unit attempt_result result" where
  "direct_attempt =
     (let r = policy_demo_request SceneDirect in
      res_bind (business_scope_authority_v1 flat_sha (kr_business_scope r)) (\<lambda>auth.
      res_bind (compile_policy_authority_core_v1 flat_sha r auth ''off'') (\<lambda>core.
      res_bind (from_core flat_sha core no_ledger) (\<lambda>policy.
      res_bind (finalize_execution_plan_v2 flat_sha (\<lambda>_. ''1.0'') clarify_source policy auth Origin_deterministic None)
        (\<lambda>plan. build_candidate_from_plan_v2 (demo_runtime []) ''1f'' r policy auth plan None None)))))"

lemma direct_run: "is_ok direct_attempt"
  by code_simp

lemma direct_scene:
  "case res_bind (business_scope_authority_v1 flat_sha (kr_business_scope (policy_demo_request SceneDirect))) (\<lambda>auth.
      compile_policy_authority_core_v1 flat_sha (policy_demo_request SceneDirect) auth ''off'') of
     Inl _ \<Rightarrow> False | Inr core \<Rightarrow> pac_scene core = SceneDirect"
  by code_simp

lemma finalized_checked:
  "finalize_execution_plan_v2 sha ft source policy auth origin conf = Inr plan \<Longrightarrow> check_execution_plan sha ft plan = Inr plan"
  by (auto simp: finalize_execution_plan_v2_def Let_def res_bind_Inr_iff split: if_splits dest: check_plan_Inr)

lemma core_unchanged: "check_policy_authority_core sha core = Inr core' \<Longrightarrow> core' = core"
  by (auto simp: check_policy_authority_core_def res_bind_Inr_iff split: if_splits)

lemma boundary_checked:
  "validate_manifest_boundary sha m = Inr m' \<Longrightarrow> m' = m \<and> (\<exists>core. check_policy_authority_core sha (pm_core m) = Inr core)"
  unfolding validate_manifest_boundary_def by (auto simp: res_bind_Inr_iff split: if_splits)

lemma from_core_checked:
  assumes "from_core sha core ledger = Inr policy"
  shows "check_policy_authority_core sha (pm_core policy) = Inr (pm_core policy)" "pm_core policy = core"
proof -
  from assms obtain m where "validate_manifest_boundary sha m = Inr policy" "pm_core m = core"
    by (auto simp: from_core_def Let_def)
  with boundary_checked [OF this(1)] core_unchanged show "check_policy_authority_core sha (pm_core policy) = Inr (pm_core policy)"
    "pm_core policy = core" by metis+
qed

theorem direct_reason_is_auditable_witness:
  "case direct_attempt of Inl _ \<Rightarrow> False
   | Inr a \<Rightarrow> direct_audit_reason_code (at_reason_code a) = Inr (at_reason_code a)"
proof -
  from direct_run obtain a where run: "direct_attempt = Inr a" by (auto simp: is_ok_iff)
  from run [unfolded direct_attempt_def Let_def res_bind_Inr_iff] obtain auth core policy plan where
    auth: "business_scope_authority_v1 flat_sha (kr_business_scope (policy_demo_request SceneDirect)) = Inr auth"
    and core: "compile_policy_authority_core_v1 flat_sha (policy_demo_request SceneDirect) auth ''off'' = Inr core"
    and policy: "from_core flat_sha core no_ledger = Inr policy"
    and plan: "finalize_execution_plan_v2 flat_sha (\<lambda>_. ''1.0'') clarify_source policy auth Origin_deterministic None = Inr plan"
    and build: "build_candidate_from_plan_v2 (demo_runtime []) ''1f'' (policy_demo_request SceneDirect) policy auth plan None None
      = Inr a" by blast
  have "pac_scene (pm_core policy) = SceneDirect"
    using direct_scene auth core by (simp add: from_core_checked(2) [OF policy])
  moreover have "vi_scene (kr_identity (policy_demo_request SceneDirect)) = SceneDirect" by (simp add: policy_demo_request_def)
  ultimately have "direct_audit_reason_code (at_reason_code a) = Inr (at_reason_code a)"
    using direct_reason_is_auditable [OF build finalized_checked [OF plan] from_core_checked(1) [OF policy]] by blast
  then show ?thesis unfolding run by (simp only: sum.case)
qed

end
