(* ===== verification/Spec2Isabelle.thy ===== *)
theory Spec2Isabelle
  imports Witnesses_World Schema_Theorems Plan_Theorems Alignment_Demo Provider_Theorems Lifecycle_Theorems
begin

text \<open>
  Verification of the market support agent (\<open>src/src/market_support_crewai_agent\<close>; paths below are
  relative to it).

  The service answers reply requests of a chat adapter and takes its feedback on what was executed. A
  request is validated (\<open>schemas\<close>), normalised into a kernel with a state key (\<open>runtime/identity\<close>),
  compiled into a policy (\<open>runtime/policy\<close>), planned (\<open>runtime/planning\<close>), grounded and rendered
  with language models, and committed. All state between turns lives in one transaction coordinator
  (\<open>runtime/state\<close>): a reply is reserved, committed or aborted; feedback is prepared and committed;
  expired entries are cleaned up; every change is published as a whole root with a journal entry.

  Conventions. A Python exception is the left side of a sum (\<open>Prelude.py_error\<close>), so every raise and
  early return is a branch. A \<open>str\<close> is a character list with code points below 256, an \<open>int\<close> is an
  unbounded integer, a frozen dataclass or pydantic model is a record, a pydantic validator a function
  that returns the value or the first error. Parameters stand for what the code does not define:
  \<open>sha\<close> for \<open>sha256(...).hexdigest()\<close>, \<open>fold_key\<close> for NFKC with case folding, \<open>nfkc\<close> for NFKC,
  \<open>float_text\<close> for the JSON text of a float, a record of readings for clocks, random tokens, uuids and
  the fault hook. Hypotheses about them are named: \<open>sha_hex\<close> (64 hexadecimal digits) and injectivity
  of \<open>sha\<close> on the inputs compared, where a theorem says that a digest identifies its input.

  Foundations. \<open>Prelude\<close> (errors, lists, numerals, UTF-8), \<open>Py_Text\<close> (string methods), \<open>Frozen_Map\<close>
  (\<open>persistent_map.py\<close> and \<open>dict\<close>, with the locale \<open>finite_map\<close> interpreted on both), \<open>Canonical_Json\<close>
  and \<open>Json_Injective\<close> (\<open>hashing.py\<close>; canonical bytes determine the value up to member order),
  \<open>Transition_System\<close> (the locales of invariants and ranks over step relations).

  Contracts. \<open>Identity\<close>, \<open>Conversation_Schema\<close>, \<open>Request_Normalizer\<close>, \<open>Reply_Schema\<close>, \<open>Feedback_Schema\<close>,
  \<open>Hashing\<close>; \<open>Schema_Theorems\<close> proves that the request hash identifies the request's content, that
  validation is idempotent, that a direct request cannot act and exactly which adapter results are accepted:
  their string values hold no secret or locator at any depth, while their keys are held to a deny list only.

  Coordinator. \<open>State_Records\<close>, \<open>Audit_Validation\<close>, \<open>Audit_Records\<close>, \<open>Root_State\<close>, \<open>Effects\<close>,
  \<open>Issued_Store\<close>, \<open>Retention\<close>, \<open>Cleanup\<close>, \<open>Reply_Commit\<close> (with the reservations), \<open>Feedback_Commit\<close> and
  \<open>Coordinator\<close> translate \<open>runtime/state\<close> file by file. \<open>Root_Invariant\<close> states the invariant of the root;
  \<open>Session_Eviction\<close>, \<open>Removal\<close>, \<open>Publication\<close>, \<open>Transitions\<close>, \<open>Feedback_Transitions\<close> and
  \<open>Candidates\<close> prove that every operation keeps it; \<open>Coordinator_Correct\<close> makes the methods the steps of
  a transition system and interprets the locale \<open>ranked_system\<close> on it. \<open>Coordinator_Theorems\<close>,
  \<open>Reply_Theorems\<close>, \<open>Feedback_Theorems\<close>, \<open>Effect_History\<close>, \<open>Cleanup_Theorems\<close>, \<open>Retention_Theorems\<close> and
  \<open>Progress\<close> hold what a client relies on: single flight, replay, atomic publication, feedback applied
  once, monotone effects, bounds, exact cleanup and eviction. \<open>Example_World\<close> and \<open>Witnesses_World\<close>
  apply the properties to one concrete history and to small roots.

  Policy. \<open>Policy_Manifest\<close> and \<open>Policy_Compiler\<close> translate the authority core, the manifest, their
  validators and digests and the compiler; \<open>Policy_Theorems\<close> shows that compilation succeeds and grants
  nothing beyond the request, and that a direct conversation gets a fixed ceiling.

  Planning. \<open>Plan_Models\<close>, \<open>Execution_Plan\<close>, \<open>Plan_Compiler\<close> and \<open>Plan_Shortcuts\<close> translate the planner's
  specification, the executable plan and its digest, the compiler, the input policy and the send commands;
  \<open>Plan_Theorems\<close> shows that a compiled plan stays within the policy and the grants of its request, that
  the input policy always has a plan, and when a send command raises.

  Evidence. \<open>Iso_Date\<close>, \<open>Evidence_Vocabulary\<close>, \<open>Evidence_Values\<close>, \<open>Evidence_Facts\<close> and \<open>Adapter_Evidence\<close>
  translate the models of \<open>runtime/evidence\<close> with their validators and digests and the admission of
  adapter results; \<open>Evidence_Executor\<close> runs the lookups of a plan, \<open>Company_Knowledge\<close> and \<open>Report_Scope\<close>
  its other sources, \<open>Business_Facts\<close> and \<open>Grounding\<close> derive what a unit may say and do, and
  \<open>Alignment_Refetch\<close> the refetch plan. The adapter's and the knowledge corpus's answers are parameters.

  Attempt. \<open>Attempt\<close> translates \<open>runtime/v2_attempt.py\<close>, the response rendering, the reason code, the response
  identifiers and the final validation, with the composer's output as a parameter; \<open>Attempt_Theorems\<close>
  shows that a candidate reply acts within the grants and on resolved lookups only, that its reason code
  is one the audit accepts, and two ways in which a reply loses or gains content; \<open>Attempt_Demo\<close> runs
  whole attempts.

  Recall. \<open>Recall\<close> and \<open>Recall_Flow\<close> translate the recall outcome with its validators and digests, the
  merge of the static and the document candidates, the shortcut and the collectors of
  \<open>runtime/recall\<close>; searching the corpora is a parameter. \<open>Recall_Theorems\<close> shows what an outcome
  satisfies, that the production collector never takes the shortcut and that five long questions make
  recall raise; \<open>Recall_Demo\<close> runs recall.

  Planner and pipeline. \<open>Planner_Flow\<close> translates the retry loop, the retry overlays, the reading of a
  planner answer, the rounds of \<open>runtime/planning_flow.py\<close> and the order of \<open>runtime/pipeline.py\<close>:
  input policy, send command, recall, planner. The language model's answers are numbered parameters.

  Alignment. \<open>Alignment_Loop\<close> translates the loop that checks a candidate and remedies it, with its limits
  and postconditions, and the service's remedies; a candidate carries addresses for
  the objects the code compares by identity. \<open>Alignment_Theorems\<close> interprets \<open>ranked_system\<close> on the loop and
  shows that it is bounded, why a candidate is returned and which verdicts fail the turn;
  \<open>Alignment_Demo\<close> runs it.

  Model calls. \<open>Prompt_Programs\<close> translates the journal of a turn's calls, the selector cache, the prompt
  programs and the messages made from them (\<open>runtime/prompts\<close>); \<open>Provider_Transport\<close> the provider's endpoint,
  request bodies and answers; \<open>Provider_Calls\<close> a direct and a group call, each from its dispatch to the row
  it closes; \<open>Journal_Audit\<close> the key and the digests of direct audits and what the audit makes of a
  journal. How an HTTP exchange or an agent ends is a value. \<open>Provider_Theorems\<close> shows that a direct call
  closes the row it reserved with what it returned or raised, that canonicalising a schema deletes
  exactly its documentation keywords, and two defects: calls whose request was not captured, and endpoints
  without a path. \<open>Journal_Audit\<close> shows that a key has one spelling.

  Turn. \<open>Lifecycle\<close> translates \<open>run_reply_turn\<close>: the settings it reads, admission, the histories, the commit
  proposal with its group or direct audit, and the abort of a turn that does not commit. Other clients act
  between the coordinator calls of a turn, as a parameter. \<open>Lifecycle_Theorems\<close> composes the theorems above:
  a turn answers with what the coordinator holds, or fails and gives its reservation back without a trace,
  its journal always has room, and the reason of a direct reply is one its audit accepts.

  Bounds and termination. Every loop of the model is structural recursion or \<open>function\<close> with a measure; no
  fuel is used. The alignment loop's measure is the number of remedies left, the retry loop recurses on
  the attempts left.

  Not modelled. The language models, prompt texts and their assembly, HTTP clients and servers, the search
  of the recall corpora, the environment and health checks: they are input and output around the logic
  above or depend on services. Asynchrony appears only as the order of coordinator calls: each method holds
  the lock, so a history is a sequence of calls.
\<close>

end
